(* ===== verification/Go_Prelude.thy ===== *)
theory Go_Prelude
  imports Main "HOL-Library.AList" "HOL-Library.Word"
begin

text \<open>
  The part of the Go language and of its standard library that every component
  of the program uses: error values and panics, maps (with the difference
  between a nil map and an empty one), \<open>range\<close> loops whose body may fail, and
  the functions of the packages \<open>strings\<close> and \<open>strconv\<close> that the sources call.

  A Go function that may fail is modelled by a function into \<open>'a outcome\<close>; one
  that also changes state returns the new state beside the outcome, so that
  the state an error path or a panic leaves behind stays visible.
\<close>

named_theorems go_simps \<open>unfolding rules of the Go constructs\<close>

section \<open>Errors and panics\<close>

text \<open>The codes of \<open>google.golang.org/grpc/codes\<close> that the sources mention.\<close>

datatype Code =
    OK | Canceled | Unknown | InvalidArgument | NotFound | PermissionDenied
  | FailedPrecondition | OutOfRange | Unimplemented | Internal | Unavailable

text \<open>
  \<open>status.Errorf(c, m)\<close> is \<^term>\<open>StatusError c m\<close>, \<open>fmt.Errorf(m)\<close> and \<open>errors.New(m)\<close>
  are \<^term>\<open>PlainError m\<close>.
\<close>

datatype GoError = StatusError Code string | PlainError string

datatype panic = NilMapWrite | NilDereference | IndexOutOfRange | ExplicitPanic string

datatype 'a outcome = Ret 'a | Err GoError | Panic panic

fun is_ret :: "'a outcome \<Rightarrow> bool" where
  "is_ret (Ret _) = True"
| "is_ret _ = False"

text \<open>
  \<open>s, ok := status.FromError(err)\<close> for a non-nil \<open>err\<close>: \<open>ok\<close> holds for status
  errors only, and \<open>s.Code()\<close> is \<open>Unknown\<close> for every other error.
\<close>

fun from_status :: "GoError \<Rightarrow> bool" where
  "from_status (StatusError _ _) = True"
| "from_status (PlainError _) = False"

fun err_code :: "GoError \<Rightarrow> Code" where
  "err_code (StatusError c _) = c"
| "err_code (PlainError _) = Unknown"

fun code_string :: "Code \<Rightarrow> string" where
  "code_string OK = ''OK''"
| "code_string Canceled = ''Canceled''"
| "code_string Unknown = ''Unknown''"
| "code_string InvalidArgument = ''InvalidArgument''"
| "code_string NotFound = ''NotFound''"
| "code_string PermissionDenied = ''PermissionDenied''"
| "code_string FailedPrecondition = ''FailedPrecondition''"
| "code_string OutOfRange = ''OutOfRange''"
| "code_string Unimplemented = ''Unimplemented''"
| "code_string Internal = ''Internal''"
| "code_string Unavailable = ''Unavailable''"

text \<open>\<open>err.Error()\<close>, the text that \<open>%v\<close> and \<open>%s\<close> print.\<close>

fun err_string :: "GoError \<Rightarrow> string" where
  "err_string (StatusError c m) = ''rpc error: code = '' @ code_string c @ '' desc = '' @ m"
| "err_string (PlainError m) = m"

text \<open>An error without a status code arrives at the client of a gRPC call with the code \<open>Unknown\<close>.\<close>

fun on_the_wire :: "'a outcome \<Rightarrow> 'a outcome" where
  "on_the_wire (Err (PlainError m)) = Err (StatusError Unknown m)"
| "on_the_wire r = r"

section \<open>Maps\<close>

text \<open>
  A Go map is nil or a finite table. Reading a nil map is reading an empty one,
  writing to it panics. The order in which \<open>range\<close> visits a map is not specified
  by Go: the model visits the entries in the order of the list, and what is
  proved for every list of entries holds for every order.
\<close>

datatype ('k, 'v) gomap = NilMap | GoMap "('k \<times> 'v) list"

fun entries :: "('k, 'v) gomap \<Rightarrow> ('k \<times> 'v) list" where
  "entries NilMap = []"
| "entries (GoMap xs) = xs"

definition lookup :: "('k, 'v) gomap \<Rightarrow> 'k \<Rightarrow> 'v option" where
  "lookup m k = map_of (entries m) k"

definition keys :: "('k, 'v) gomap \<Rightarrow> 'k list" where
  "keys m = map fst (entries m)"

definition vals :: "('k, 'v) gomap \<Rightarrow> 'v list" where
  "vals m = map snd (entries m)"

text \<open>\<open>m[k] = v\<close>; \<open>None\<close> is the panic of a write to a nil map.\<close>

fun assign :: "('k, 'v) gomap \<Rightarrow> 'k \<Rightarrow> 'v \<Rightarrow> ('k, 'v) gomap option" where
  "assign NilMap k v = None"
| "assign (GoMap xs) k v = Some (GoMap (AList.update k v xs))"

text \<open>\<open>delete(m, k)\<close>, which does nothing on a nil map.\<close>

fun map_delete :: "('k, 'v) gomap \<Rightarrow> 'k \<Rightarrow> ('k, 'v) gomap" where
  "map_delete NilMap k = NilMap"
| "map_delete (GoMap xs) k = GoMap (AList.delete k xs)"

text \<open>A write through a pointer that the map holds under \<open>k\<close>: the entry changes in place.\<close>

definition map_entry :: "('k, 'v) gomap \<Rightarrow> 'k \<Rightarrow> ('v \<Rightarrow> 'v) \<Rightarrow> ('k, 'v) gomap" where
  "map_entry m k f =
     (case m of NilMap \<Rightarrow> NilMap
      | GoMap xs \<Rightarrow> GoMap (map (\<lambda>(k', v). (k', if k' = k then f v else v)) xs))"

definition wf_map :: "('k, 'v) gomap \<Rightarrow> bool" where
  "wf_map m \<longleftrightarrow> distinct (keys m)"

lemma lookup_NilMap [simp]: "lookup NilMap k = None"
  by (simp add: lookup_def)

lemma lookup_GoMap_Nil [simp]: "lookup (GoMap []) k = None"
  by (simp add: lookup_def)

lemma lookup_GoMap_Cons [simp]:
  "lookup (GoMap ((k', v) # xs)) k = (if k = k' then Some v else lookup (GoMap xs) k)"
  by (simp add: lookup_def)

lemma lookup_assign:
  "assign m k v = Some m' \<Longrightarrow> lookup m' k' = (if k' = k then Some v else lookup m k')"
  by (cases m) (auto simp: lookup_def update_conv')

lemma lookup_delete [simp]: "lookup (map_delete m k) k' = (if k' = k then None else lookup m k')"
  by (cases m) (auto simp: lookup_def delete_conv')

lemma lookup_entry [simp]:
  "lookup (map_entry m k f) k' = (if k' = k then map_option f (lookup m k) else lookup m k')"
proof (cases m)
  case NilMap
  then show ?thesis by (simp add: map_entry_def)
next
  case (GoMap xs)
  then show ?thesis
    by (induction xs arbitrary: m) (auto simp: map_entry_def lookup_def)
qed

lemma entry_nil [simp]: "map_entry m k f = NilMap \<longleftrightarrow> m = NilMap"
  by (cases m) (auto simp: map_entry_def)

lemma assign_Some_iff: "(\<exists>m'. assign m k v = Some m') \<longleftrightarrow> m \<noteq> NilMap"
  by (cases m) auto

lemma assign_not_nil: "m \<noteq> NilMap \<Longrightarrow> assign m k v = Some (GoMap (AList.update k v (entries m)))"
  by (cases m) auto

lemma assign_no_nil: "assign m k v = Some m' \<Longrightarrow> m' \<noteq> NilMap"
  by (cases m) auto

lemma keys_entry [simp]: "keys (map_entry m k f) = keys m"
  by (cases m) (auto simp: map_entry_def keys_def)

lemma wf_assign: "wf_map m \<Longrightarrow> assign m k v = Some m' \<Longrightarrow> wf_map m'"
  by (cases m) (auto simp: wf_map_def keys_def distinct_update)

lemma wf_delete: "wf_map m \<Longrightarrow> wf_map (map_delete m k)"
  by (cases m) (auto simp: wf_map_def keys_def distinct_delete)

lemma wf_entry [simp]: "wf_map (map_entry m k f) = wf_map m"
  by (simp add: wf_map_def)

lemma entries_lookup: "wf_map m \<Longrightarrow> (k, v) \<in> set (entries m) \<longleftrightarrow> lookup m k = Some v"
  by (simp add: wf_map_def keys_def lookup_def)

lemma lookup_in_entries: "lookup m k = Some v \<Longrightarrow> (k, v) \<in> set (entries m)"
  by (simp add: lookup_def map_of_SomeD)

lemma lookup_keys: "k \<in> set (keys m) \<longleftrightarrow> lookup m k \<noteq> None"
  by (simp add: keys_def lookup_def map_of_eq_None_iff)

lemma keys_assign: "assign m k v = Some m' \<Longrightarrow> set (keys m') = insert k (set (keys m))"
  by (intro set_eqI) (auto simp: lookup_keys lookup_assign)

lemma vals_lookup: "lookup m k = Some v \<Longrightarrow> v \<in> set (vals m)"
  by (force simp: vals_def dest: lookup_in_entries)

lemma vals_conv: "wf_map m \<Longrightarrow> v \<in> set (vals m) \<longleftrightarrow> (\<exists>k. lookup m k = Some v)"
  by (force simp: vals_def simp flip: entries_lookup)

lemmas map_lemmas = lookup_assign lookup_delete lookup_entry wf_assign wf_delete

text \<open>
  What a client of a map relies on, as an interface: a write is read back,
  other keys keep their value, a deleted key is gone.
\<close>

locale key_value =
  fixes get :: "'m \<Rightarrow> 'k \<Rightarrow> 'v option"
    and put :: "'m \<Rightarrow> 'k \<Rightarrow> 'v \<Rightarrow> 'm option"
    and del :: "'m \<Rightarrow> 'k \<Rightarrow> 'm"
    and writable :: "'m \<Rightarrow> bool"
  assumes put_ok: "writable m \<Longrightarrow> \<exists>m'. put m k v = Some m'"
    and put_writable: "put m k v = Some m' \<Longrightarrow> writable m'"
    and get_put: "put m k v = Some m' \<Longrightarrow> get m' k' = (if k' = k then Some v else get m k')"
    and get_del: "get (del m k) k' = (if k' = k then None else get m k')"
begin

lemma put_put:
  "put m k v = Some m1 \<Longrightarrow> put m1 k w = Some m2 \<Longrightarrow> put m k w = Some m3 \<Longrightarrow> get m2 = get m3"
  by (rule ext) (auto simp: get_put)

lemma put_commute:
  assumes "k \<noteq> l" "put m k v = Some m1" "put m1 l w = Some m2"
    and "put m l w = Some n1" "put n1 k v = Some n2"
  shows "get m2 = get n2"
  using assms by (intro ext) (auto simp: get_put)

lemma del_put: "put m k v = Some m' \<Longrightarrow> get (del m' k) = get (del m k)"
  by (rule ext) (auto simp: get_put get_del)

end

interpretation gm: key_value lookup assign map_delete "\<lambda>m. m \<noteq> NilMap"
  by unfold_locales (auto simp: assign_Some_iff lookup_assign dest: assign_no_nil)

section \<open>Loops\<close>

text \<open>
  \<open>for _, x := range xs\<close> with a body that changes the state and may return
  early with an error or panic: the loop stops there and keeps the state reached.
\<close>

fun go_for :: "('x \<Rightarrow> 's \<Rightarrow> 's \<times> unit outcome) \<Rightarrow> 'x list \<Rightarrow> 's \<Rightarrow> 's \<times> unit outcome" where
  "go_for f [] s = (s, Ret ())"
| "go_for f (x # xs) s =
     (case f x s of
        (s', Ret u) \<Rightarrow> go_for f xs s'
      | (s', Err e) \<Rightarrow> (s', Err e)
      | (s', Panic p) \<Rightarrow> (s', Panic p))"

lemma go_for_pure:
  assumes "\<And>x s. x \<in> set xs \<Longrightarrow> f x s = (g x s, Ret ())"
  shows "go_for f xs s = (fold g xs s, Ret ())"
  using assms by (induction xs arbitrary: s) auto

lemma go_for_invariant:
  assumes "go_for f xs s = (s', r)" and "P s"
    and "\<And>x s s' r. x \<in> set xs \<Longrightarrow> P s \<Longrightarrow> f x s = (s', r) \<Longrightarrow> P s'"
  shows "P s'"
  using assms
proof (induction xs arbitrary: s)
  case Nil
  then show ?case by simp
next
  case (Cons x xs)
  obtain t q where f: "f x s = (t, q)" by fastforce
  with Cons.prems have t: "P t" by (meson list.set_intros(1))
  show ?case
  proof (cases q)
    case (Ret u)
    with f t Cons.prems show ?thesis by (intro Cons.IH [of t]) auto
  qed (use f t Cons.prems in auto)
qed

lemma go_for_append:
  "go_for f (xs @ ys) s =
     (case go_for f xs s of (t, Ret u) \<Rightarrow> go_for f ys t | other \<Rightarrow> other)"
  by (induction xs arbitrary: s) (auto split: prod.splits outcome.splits)

text \<open>
  \<open>err = f(); if err != nil { return nil, g(err) }; return x, nil\<close>: the value \<open>x\<close> when the
  call succeeded, the error, changed by \<open>g\<close>, when it failed.
\<close>

fun then_return :: "'s \<times> unit outcome \<Rightarrow> (GoError \<Rightarrow> GoError) \<Rightarrow> 'a \<Rightarrow> 's \<times> 'a outcome" where
  "then_return (s, Ret u) g x = (s, Ret x)"
| "then_return (s, Err e) g x = (s, Err (g e))"
| "then_return (s, Panic p) g x = (s, Panic p)"

lemma then_return_Ret: "then_return c g x = (s', Ret y) \<longleftrightarrow> c = (s', Ret ()) \<and> y = x"
  by (cases "(c, g, x)" rule: then_return.cases) auto

lemma then_return_state: "fst (then_return c g x) = fst c"
  by (cases "(c, g, x)" rule: then_return.cases) auto

lemma then_return_Panic: "then_return c g x = (s', Panic p) \<longleftrightarrow> c = (s', Panic p)"
  by (cases "(c, g, x)" rule: then_return.cases) auto

lemma then_return_Err: "then_return c g x = (s', Err e') \<longleftrightarrow> (\<exists>e. c = (s', Err e) \<and> e' = g e)"
  by (cases "(c, g, x)" rule: then_return.cases) auto

text \<open>
  \<open>x, err := f(); if err != nil { g }\<close> in general: the statements after the call receive its
  value, the block under the \<open>if\<close> its error, and a panic passes through.
\<close>

fun on_ret ::
  "'s \<times> 'a outcome \<Rightarrow> ('s \<Rightarrow> GoError \<Rightarrow> 's \<times> 'b outcome) \<Rightarrow> ('s \<Rightarrow> 'a \<Rightarrow> 's \<times> 'b outcome) \<Rightarrow>
     's \<times> 'b outcome" where
  "on_ret (s, Ret x) g f = f s x"
| "on_ret (s, Err e) g f = g s e"
| "on_ret (s, Panic p) g f = (s, Panic p)"

lemma on_ret_invariant:
  assumes "on_ret c g f = (s', r)" and "P (fst c)"
    and "\<And>s x. c = (s, Ret x) \<Longrightarrow> P s \<Longrightarrow> f s x = (s', r) \<Longrightarrow> P s'"
    and "\<And>s e. c = (s, Err e) \<Longrightarrow> P s \<Longrightarrow> g s e = (s', r) \<Longrightarrow> P s'"
  shows "P s'"
  using assms by (cases "(c, g, f)" rule: on_ret.cases) auto

lemma on_ret_cases:
  assumes "on_ret c g f = (s', r)"
  obtains (Ret) s x where "c = (s, Ret x)" "f s x = (s', r)"
    | (Err) s e where "c = (s, Err e)" "g s e = (s', r)"
    | (Panic) p where "c = (s', Panic p)" "r = Panic p"
  using assms by (cases "(c, g, f)" rule: on_ret.cases) auto

section \<open>Strings\<close>

text \<open>
  \<open>strings.ToUpper\<close> and \<open>strings.ToLower\<close> on ASCII text; the program applies them to
  UUIDs, domain names and protocol identifiers.
\<close>

definition upper_char :: "char \<Rightarrow> char" where
  "upper_char c = (let n = of_char c :: nat in if 97 \<le> n \<and> n \<le> 122 then char_of (n - 32) else c)"

definition lower_char :: "char \<Rightarrow> char" where
  "lower_char c = (let n = of_char c :: nat in if 65 \<le> n \<and> n \<le> 90 then char_of (n + 32) else c)"

definition ToUpper :: "string \<Rightarrow> string" where
  "ToUpper s = map upper_char s"

definition ToLower :: "string \<Rightarrow> string" where
  "ToLower s = map lower_char s"

lemma upper_char_idem [simp]: "upper_char (upper_char c) = upper_char c"
  by (auto simp: upper_char_def Let_def)

lemma lower_char_idem [simp]: "lower_char (lower_char c) = lower_char c"
  by (auto simp: lower_char_def Let_def)

lemma ToUpper_idem [simp]: "ToUpper (ToUpper s) = ToUpper s"
  by (simp add: ToUpper_def)

lemma ToLower_idem [simp]: "ToLower (ToLower s) = ToLower s"
  by (simp add: ToLower_def)

lemma ToUpper_Nil [simp]: "ToUpper [] = []"
  by (simp add: ToUpper_def)

lemma ToUpper_eq_Nil [simp]: "ToUpper s = [] \<longleftrightarrow> s = []"
  by (simp add: ToUpper_def)

lemma ToLower_eq_Nil [simp]: "ToLower s = [] \<longleftrightarrow> s = []"
  by (simp add: ToLower_def)

text \<open>\<open>strings.Split(s, sep)\<close> for a separator of one character, and \<open>strings.Join\<close>.\<close>

fun split_on :: "char \<Rightarrow> string \<Rightarrow> string list" where
  "split_on c [] = [[]]"
| "split_on c (x # xs) =
     (if x = c then [] # split_on c xs
      else (case split_on c xs of [] \<Rightarrow> [[x]] | w # ws \<Rightarrow> (x # w) # ws))"

fun join :: "string \<Rightarrow> string list \<Rightarrow> string" where
  "join sep [] = []"
| "join sep [x] = x"
| "join sep (x # y # xs) = x @ sep @ join sep (y # xs)"

lemma split_on_ne [simp]: "split_on c s \<noteq> []"
  by (cases s) (auto split: list.splits)

lemma split_on_no_sep: "c \<notin> set w \<Longrightarrow> split_on c w = [w]"
  by (induction w) auto

lemma split_on_append: "c \<notin> set w \<Longrightarrow> split_on c (w @ c # s) = w # split_on c s"
  by (induction w) (auto split: list.splits)

lemma split_on_join:
  "xs \<noteq> [] \<Longrightarrow> \<forall>w \<in> set xs. c \<notin> set w \<Longrightarrow> split_on c (join [c] xs) = xs"
  by (induction "[c]" xs rule: join.induct) (auto simp: split_on_no_sep split_on_append)

lemma length_split_on: "length (split_on c s) = Suc (count_list s c)"
  by (induction s) (auto split: list.splits)

lemma join_split_on: "join [c] (split_on c s) = s"
proof (induction s)
  case Nil
  then show ?case by simp
next
  case (Cons x s)
  obtain w ws where s: "split_on c s = w # ws" by (cases "split_on c s") auto
  with Cons show ?case by (cases ws) auto
qed

text \<open>Decimal numerals: \<open>strconv.Itoa\<close> and \<open>%d\<close> on a non-negative value.\<close>

definition digit :: "nat \<Rightarrow> char" where
  "digit d = char_of (48 + d)"

fun dec :: "nat \<Rightarrow> string" where
  "dec n = (if n < 10 then [digit n] else dec (n div 10) @ [digit (n mod 10)])"

declare dec.simps [simp del]

definition undec :: "string \<Rightarrow> nat" where
  "undec s = foldl (\<lambda>a c. 10 * a + (of_char c - 48)) 0 s"

lemma of_char_digit: "d < 10 \<Longrightarrow> of_char (digit d) = 48 + d"
  by (simp add: digit_def)

lemma undec_dec [simp]: "undec (dec n) = n"
proof (induction n rule: dec.induct)
  case (1 n)
  show ?case
  proof (cases "n < 10")
    case True
    then show ?thesis by (simp add: dec.simps [of n] undec_def of_char_digit)
  next
    case False
    with 1 have "undec (dec (n div 10)) = n div 10" by simp
    with False show ?thesis
      by (simp add: dec.simps [of n] undec_def of_char_digit)
  qed
qed

lemma dec_inj [simp]: "dec m = dec n \<longleftrightarrow> m = n"
  by (metis undec_dec)

lemma dec_digits: "c \<in> set (dec n) \<Longrightarrow> 48 \<le> (of_char c :: nat) \<and> (of_char c :: nat) \<le> 57"
proof (induction n rule: dec.induct)
  case (1 n)
  have d: "48 \<le> (of_char (digit (n mod 10)) :: nat) \<and> (of_char (digit (n mod 10)) :: nat) \<le> 57"
    using of_char_digit [of "n mod 10"] by simp
  show ?case
  proof (cases "n < 10")
    case True
    with 1 d show ?thesis by (simp add: dec.simps [of n])
  next
    case False
    with 1 d show ?thesis by (auto simp: dec.simps [of n])
  qed
qed

lemma dec_no_dot: "CHR ''.'' \<notin> set (dec n)"
  using dec_digits [of "CHR ''.''" n] by auto

lemma dec_ne [simp]: "dec n \<noteq> []"
  by (subst dec.simps) simp

text \<open>\<open>fmt.Sprint\<close> of an integer.\<close>

definition int_string :: "int \<Rightarrow> string" where
  "int_string i = (if i < 0 then CHR ''-'' # dec (nat (- i)) else dec (nat i))"

end
