(* ===== verification/Net_IP.thy ===== *)
theory Net_IP
  imports Go_Prelude
begin

text \<open>
  \<open>management/server/network.go\<close>: the network of an account, its serial number and
  the allocation of peer addresses. A \<open>net.IP\<close> is its list of bytes (the networks of
  the program are IPv4, four bytes), a \<open>net.IPNet\<close> an address and a mask.
  The source of random numbers is an argument: \<open>r.Intn(n)\<close> is \<open>r mod n\<close> for an
  arbitrary number \<open>r\<close>.
\<close>

unbundle bit_operations_syntax

type_synonym IP = "8 word list"

record IPNet =
  IPNet_IP :: IP
  IPNet_Mask :: "8 word list"

record Network =
  Network_Id :: string
  Network_Net :: IPNet
  Network_Dns :: string
  Network_Serial :: "64 word"

section \<open>Addresses\<close>

text \<open>\<open>ip.String()\<close> of an IPv4 address, \<open>ip.Mask(m)\<close> and \<open>ipNet.Contains(ip)\<close>.\<close>

definition ip_string :: "IP \<Rightarrow> string" where
  "ip_string ip = join ''.'' (map (\<lambda>b. dec (unat b)) ip)"

definition ip_mask :: "IP \<Rightarrow> 8 word list \<Rightarrow> IP" where
  "ip_mask ip m = map2 (\<lambda>a b. a AND b) ip m"

definition net_contains :: "IPNet \<Rightarrow> IP \<Rightarrow> bool" where
  "net_contains n ip \<longleftrightarrow>
     length ip = length (IPNet_IP n) \<and>
     ip_mask (IPNet_IP n) (IPNet_Mask n) = ip_mask ip (IPNet_Mask n)"

definition copyIP :: "IP \<Rightarrow> IP" where
  "copyIP ip = ip"

text \<open>
  \<open>incIP\<close> increments the last byte and moves to the byte before it as long as the
  byte it incremented has become zero.
\<close>

fun inc_bytes :: "8 word list \<Rightarrow> 8 word list" where
  "inc_bytes [] = []"
| "inc_bytes (b # bs) = (if b + 1 > 0 then (b + 1) # bs else (b + 1) # inc_bytes bs)"

definition incIP :: "IP \<Rightarrow> IP" where
  "incIP ip = rev (inc_bytes (rev ip))"

section \<open>Enumerating the addresses of a network\<close>

text \<open>
  The loop of \<open>generateIPs\<close>, from the address \<open>ip\<close> on. It may run forever (in a
  network whose mask is zero every address is inside), hence the \<open>option\<close>.
  \<open>ip[3]\<close> is the fourth byte; the addresses have four.
\<close>

partial_function (option) generate_loop ::
  "IPNet \<Rightarrow> string set \<Rightarrow> IP \<Rightarrow> IP list \<Rightarrow> IP list option" where
  "generate_loop n exclusions ip ips =
     (if net_contains n ip
      then generate_loop n exclusions (incIP ip)
             (if ip_string ip \<notin> exclusions \<and> ip ! 3 \<noteq> 0 then ips @ [copyIP ip] else ips)
      else Some ips)"

text \<open>The slice \<open>ips[1 : len(ips)-1]\<close> is taken when there are at least two addresses.\<close>

definition trim_ips :: "IP list \<Rightarrow> IP list \<times> int" where
  "trim_ips ips =
     (if length ips < 2 then (ips, int (length ips))
      else (take (length ips - 2) (drop 1 ips), int (length ips) - 2))"

definition generateIPs :: "IPNet \<Rightarrow> string set \<Rightarrow> (IP list \<times> int) option" where
  "generateIPs n exclusions =
     map_option trim_ips
       (generate_loop n exclusions (ip_mask (IPNet_IP n) (IPNet_Mask n)) [])"

text \<open>\<open>ipNet.String()\<close> for an IPv4 network, with the number of leading ones of the mask.\<close>

definition mask_size :: "8 word list \<Rightarrow> nat" where
  "mask_size m = sum_list (map (\<lambda>b. length (filter (bit b) [0..<8])) m)"

definition net_string :: "IPNet \<Rightarrow> string" where
  "net_string n = ip_string (IPNet_IP n) @ ''/'' @ dec (mask_size (IPNet_Mask n))"

definition AllocatePeerIP :: "nat \<Rightarrow> IPNet \<Rightarrow> IP list \<Rightarrow> IP outcome option" where
  "AllocatePeerIP r ipNet takenIps =
     (let takenIPMap = insert (ip_string (IPNet_IP ipNet)) (ip_string ` set takenIps)
      in case generateIPs ipNet takenIPMap of
           None \<Rightarrow> None
         | Some (ips, _) \<Rightarrow>
             if length ips = 0
             then Some (Err (StatusError OutOfRange
                    (''failed allocating new IP for the ipNet '' @ net_string ipNet @
                     '' - network is out of IPs'')))
             else Some (Ret (ips ! (r mod length ips))))"

section \<open>Networks\<close>

text \<open>
  \<open>iplib.NewNet4(100.64.0.0, 10).Subnet(16)\<close>: the 64 networks 100.64.0.0/16 to
  100.127.0.0/16, in order. \<open>xid\<close> is the identifier \<open>xid.New()\<close> returned.
\<close>

definition subnets16 :: "IPNet list" where
  "subnets16 = map (\<lambda>i. \<lparr>IPNet_IP = [100, 64 + of_nat i, 0, 0], IPNet_Mask = [255, 255, 0, 0]\<rparr>) [0..<64]"

definition NewNetwork :: "string \<Rightarrow> nat \<Rightarrow> Network" where
  "NewNetwork xid r =
     \<lparr>Network_Id = xid, Network_Net = subnets16 ! (r mod length subnets16),
      Network_Dns = [], Network_Serial = 0\<rparr>"

definition IncSerial :: "Network \<Rightarrow> Network" where
  "IncSerial n = n\<lparr>Network_Serial := Network_Serial n + 1\<rparr>"

definition CurrentSerial :: "Network \<Rightarrow> 64 word" where
  "CurrentSerial n = Network_Serial n"

definition Network_Copy :: "Network \<Rightarrow> Network" where
  "Network_Copy n =
     \<lparr>Network_Id = Network_Id n, Network_Net = Network_Net n,
      Network_Dns = Network_Dns n, Network_Serial = Network_Serial n\<rparr>"

lemma Network_Copy_id [simp]: "Network_Copy n = n"
  by (simp add: Network_Copy_def)

section \<open>Printing addresses\<close>

lemma split_ip_string:
  "ip \<noteq> [] \<Longrightarrow> split_on CHR ''.'' (ip_string ip) = map (\<lambda>b. dec (unat b)) ip"
  unfolding ip_string_def by (rule split_on_join) (auto simp: dec_no_dot)

lemma inj_dec_unat: "inj (\<lambda>b :: 8 word. dec (unat b))"
  by (rule injI) (simp add: word_unat_eq_iff)

lemma ip_string_inj:
  assumes "a \<noteq> []" "b \<noteq> []" "ip_string a = ip_string b"
  shows "a = b"
proof -
  have "map (\<lambda>x. dec (unat x)) a = map (\<lambda>x. dec (unat x)) b"
    using assms split_ip_string [of a] split_ip_string [of b] by metis
  then show ?thesis by (simp only: inj_map_eq_map [OF inj_dec_unat])
qed

lemma ip_string_eq: "a \<noteq> [] \<Longrightarrow> b \<noteq> [] \<Longrightarrow> ip_string a = ip_string b \<longleftrightarrow> a = b"
  using ip_string_inj by blast

section \<open>Counting with bytes\<close>

text \<open>The number an address denotes; \<open>incIP\<close> adds one to it, modulo \<open>2 ^ 32\<close>.\<close>

fun le_val :: "8 word list \<Rightarrow> nat" where
  "le_val [] = 0"
| "le_val (b # bs) = unat b + 256 * le_val bs"

definition ip_val :: "IP \<Rightarrow> nat" where
  "ip_val ip = le_val (rev ip)"

lemma byte_less: "unat (b :: 8 word) < 256"
  using unsigned_less [of b] by simp

lemma le_val_bound: "le_val bs < 256 ^ length bs"
proof (induction bs)
  case Nil
  then show ?case by simp
next
  case (Cons b bs)
  with byte_less [of b] show ?case by simp
qed

lemma length_inc_bytes [simp]: "length (inc_bytes bs) = length bs"
  by (induction bs) auto

lemma length_incIP [simp]: "length (incIP ip) = length ip"
  by (simp add: incIP_def)

lemma byte_inc: "b + 1 \<noteq> 0 \<Longrightarrow> unat (b + 1 :: 8 word) = unat b + 1"
  using unatSuc [of b] by (simp add: add.commute)

lemma byte_carry:
  assumes "b + 1 = (0 :: 8 word)"
  shows "unat b = 255"
proof -
  have "(255 :: 8 word) = - 1" by simp
  with assms have "b = 255" by (metis eq_neg_iff_add_eq_0)
  then show ?thesis by simp
qed

lemma le_val_inc: "le_val (inc_bytes bs) = (le_val bs + 1) mod 256 ^ length bs"
proof (induction bs)
  case Nil
  then show ?case by simp
next
  case (Cons b bs)
  show ?case
  proof (cases "b + 1 = 0")
    case True
    then have "le_val (b # bs) + 1 = 256 * (le_val bs + 1)" by (simp add: byte_carry)
    with True Cons show ?thesis by (simp add: mod_mult_mult1 del: mult_Suc_right)
  next
    case False
    have "le_val (b # bs) + 1 < 256 ^ length (b # bs)"
      using le_val_bound [of bs] byte_less [of "b + 1"] byte_inc [OF False] by simp
    with False show ?thesis by (simp add: word_gt_0 byte_inc)
  qed
qed

section \<open>The /16 networks of the program\<close>

text \<open>
  Every network \<open>NewNetwork\<close> creates has the mask 255.255.0.0. Its addresses are
  \<open>ip16 a b k\<close> for \<open>k < 65536\<close>, and the loop visits them in this order and stops.
\<close>

definition net16 :: "8 word \<Rightarrow> 8 word \<Rightarrow> IPNet" where
  "net16 a b = \<lparr>IPNet_IP = [a, b, 0, 0], IPNet_Mask = [255, 255, 0, 0]\<rparr>"

definition ip16 :: "8 word \<Rightarrow> 8 word \<Rightarrow> nat \<Rightarrow> IP" where
  "ip16 a b k = [a, b, of_nat (k div 256), of_nat (k mod 256)]"

lemma byte_and_ones [simp]: "(a :: 8 word) AND 255 = a"
proof -
  have "(255 :: 8 word) = - 1" by simp
  then show ?thesis by (metis and.right_neutral)
qed

lemma net_contains_net16:
  "net_contains (net16 a b) ip \<longleftrightarrow> (\<exists>c d. ip = [a, b, c, d])"
proof (cases "length ip = 4")
  case True
  then obtain p q c d where "ip = [p, q, c, d]"
    by (auto simp: numeral_eq_Suc length_Suc_conv)
  then show ?thesis by (auto simp: net_contains_def net16_def ip_mask_def)
next
  case False
  then show ?thesis by (auto simp: net_contains_def net16_def)
qed

lemma mask_net16: "ip_mask (IPNet_IP (net16 a b)) (IPNet_Mask (net16 a b)) = ip16 a b 0"
  by (simp add: ip_mask_def net16_def ip16_def)

lemma ip16_surj:
  "\<exists>k < 65536. [a, b, c, d] = ip16 a b k"
proof (intro exI conjI)
  let ?k = "256 * unat c + unat d"
  show "?k < 65536" using byte_less [of c] byte_less [of d] by simp
  show "[a, b, c, d] = ip16 a b ?k" using byte_less [of d] by (simp add: ip16_def)
qed

lemma ip_val_inc: "ip_val (incIP ip) = (ip_val ip + 1) mod 256 ^ length ip"
  by (simp add: ip_val_def incIP_def le_val_inc)

lemma le_val_inj: "length xs = length ys \<Longrightarrow> le_val xs = le_val ys \<Longrightarrow> xs = ys"
proof (induction xs ys rule: list_induct2)
  case Nil
  then show ?case by simp
next
  case (Cons x xs y ys)
  have "le_val (x # xs) mod 256 = unat x" "le_val (y # ys) mod 256 = unat y"
    using byte_less [of x] byte_less [of y] by simp_all
  with Cons.prems have "unat x = unat y" by metis
  with Cons show ?case by (simp add: word_unat_eq_iff)
qed

lemma ip_val_inj: "length p = length q \<Longrightarrow> ip_val p = ip_val q \<Longrightarrow> p = q"
  unfolding ip_val_def using le_val_inj [of "rev p" "rev q"] by simp

lemma ip_val_bytes:
  "ip_val [a, b, c, d] = 65536 * (256 * unat a + unat b) + (256 * unat c + unat d)"
  by (simp add: ip_val_def)

lemma ip_val_ip16:
  "k < 65536 \<Longrightarrow> ip_val (ip16 a b k) = 65536 * (256 * unat a + unat b) + k"
  by (simp add: ip16_def ip_val_bytes unat_of_nat take_bit_nat_def)

lemma ip16_inj: "j < 65536 \<Longrightarrow> k < 65536 \<Longrightarrow> ip16 a b j = ip16 a b k \<longleftrightarrow> j = k"
  by (metis add_left_cancel ip_val_ip16)

lemma length_ip16 [simp]: "length (ip16 a b k) = 4"
  by (simp add: ip16_def)

lemma incIP_ip16:
  assumes "k + 1 < 65536"
  shows "incIP (ip16 a b k) = ip16 a b (k + 1)"
proof (rule ip_val_inj)
  have "65536 * (256 * unat a + unat b) + (k + 1) < 256 ^ 4"
    using assms byte_less [of a] byte_less [of b] by simp
  then show "ip_val (incIP (ip16 a b k)) = ip_val (ip16 a b (k + 1))"
    using assms by (simp add: ip_val_inc ip_val_ip16)
qed simp

lemma incIP_ip16_last: "\<not> net_contains (net16 a b) (incIP (ip16 a b 65535))"
proof
  assume "net_contains (net16 a b) (incIP (ip16 a b 65535))"
  then obtain c d where cd: "incIP (ip16 a b 65535) = [a, b, c, d]"
    by (auto simp: net_contains_net16)
  define V where "V = 256 * unat a + unat b"
  have V: "V < 65536" using byte_less [of a] byte_less [of b] by (simp add: V_def)
  have "ip_val (incIP (ip16 a b 65535)) = (65536 * (V + 1)) mod 4294967296"
    by (simp add: ip_val_inc ip_val_ip16 V_def)
  moreover have "ip_val [a, b, c, d] = 65536 * V + (256 * unat c + unat d)"
    by (simp add: ip_val_bytes V_def)
  ultimately have "(65536 * (V + 1)) mod 4294967296 = 65536 * V + (256 * unat c + unat d)"
    using cd by simp
  with V byte_less [of c] byte_less [of d] show False
    by (cases "V = 65535") simp_all
qed

section \<open>The addresses the loop collects\<close>

lemma net_contains_ip16 [simp]: "net_contains (net16 a b) (ip16 a b k)"
  by (auto simp: net_contains_net16 ip16_def)

lemma ip16_last_byte: "ip16 a b k ! 3 = 0 \<longleftrightarrow> k mod 256 = 0"
  using dvd_eq_mod_eq_0 [of 256 "k mod 256"] by (simp add: ip16_def word_of_nat_eq_0_iff)

lemma generate_loop_ip16:
  assumes "k \<le> 65535"
  shows "generate_loop (net16 a b) ex (ip16 a b k) acc =
    Some (acc @ filter (\<lambda>ip. ip_string ip \<notin> ex \<and> ip ! 3 \<noteq> 0) (map (ip16 a b) [k..<65536]))"
  using assms
proof (induction "65535 - k" arbitrary: k acc)
  case 0
  then have k: "k = 65535" by simp
  have "generate_loop (net16 a b) ex (incIP (ip16 a b k)) as = Some as" for as
    by (subst generate_loop.simps) (simp add: incIP_ip16_last k)
  moreover have "[k..<65536] = [k]" by (simp add: k upt_rec)
  ultimately show ?case by (subst generate_loop.simps) (simp add: copyIP_def)
next
  case (Suc n)
  then have "[k..<65536] = k # [Suc k..<65536]" by (simp add: upt_rec)
  moreover have "incIP (ip16 a b k) = ip16 a b (Suc k)" using Suc incIP_ip16 [of k a b] by simp
  moreover have "n = 65535 - Suc k" "Suc k \<le> 65535" using Suc by simp_all
  ultimately show ?case by (subst generate_loop.simps) (simp add: Suc.hyps(1) copyIP_def)
qed

text \<open>The addresses of a /16 network whose last byte is not zero and that are not excluded.\<close>

definition candidates :: "8 word \<Rightarrow> 8 word \<Rightarrow> string set \<Rightarrow> IP list" where
  "candidates a b ex =
     filter (\<lambda>ip. ip_string ip \<notin> ex \<and> ip ! 3 \<noteq> 0) (map (ip16 a b) [0..<65536])"

lemma generateIPs_net16: "generateIPs (net16 a b) ex = Some (trim_ips (candidates a b ex))"
  by (simp add: generateIPs_def mask_net16 generate_loop_ip16 candidates_def)

section \<open>Soundness and completeness of the allocation\<close>

lemma set_candidates:
  "ip \<in> set (candidates a b ex) \<longleftrightarrow>
     (\<exists>k < 65536. ip = ip16 a b k \<and> k mod 256 \<noteq> 0 \<and> ip_string ip \<notin> ex)"
  by (auto simp: candidates_def ip16_last_byte)

lemma set_candidates_image:
  "set (candidates a b ex) =
     ip16 a b ` {k. k < 65536 \<and> k mod 256 \<noteq> 0 \<and> ip_string (ip16 a b k) \<notin> ex}"
  by (auto simp: candidates_def ip16_last_byte)

lemma distinct_candidates: "distinct (candidates a b ex)"
  by (auto simp: candidates_def distinct_map inj_on_def ip16_inj intro!: distinct_filter)

lemma candidates_split:
  "candidates a b ex =
     filter (\<lambda>ip. ip_string ip \<notin> ex \<and> ip ! 3 \<noteq> 0) [ip16 a b 0, ip16 a b 1] @
     filter (\<lambda>ip. ip_string ip \<notin> ex \<and> ip ! 3 \<noteq> 0) (map (ip16 a b) [2..<65535]) @
     filter (\<lambda>ip. ip_string ip \<notin> ex \<and> ip ! 3 \<noteq> 0) [ip16 a b 65535]"
proof -
  have "[0..<65536] = [0..<2] @ [2..<65535] @ [65535..<65536]"
    using upt_add_eq_append [of 0 2 65534] upt_add_eq_append [of 2 65535 1]
    by (simp del: upt_rec_numeral)
  moreover have "[0..<2] = [0, 1 :: nat]" "[65535..<65536] = [65535 :: nat]"
    by (simp_all add: upt_rec)
  ultimately show ?thesis by (simp only: candidates_def map_append filter_append list.map)
qed

lemma set_trim: "set (fst (trim_ips xs)) \<subseteq> set xs"
  by (auto simp: trim_ips_def dest: in_set_takeD in_set_dropD)

lemma trim_Cons_snoc: "fst (trim_ips (x # xs @ [y])) = xs"
  by (simp add: trim_ips_def)

lemma length_trim: "2 \<le> length xs \<Longrightarrow> length (fst (trim_ips xs)) = length xs - 2"
  by (auto simp: trim_ips_def)

text \<open>
  As long as neither 0.1 nor the broadcast address is taken, these two are the
  first and the last candidate, the ones \<open>generateIPs\<close> drops.
\<close>

lemma trim_candidates:
  assumes "ip_string (ip16 a b 1) \<notin> ex" "ip_string (ip16 a b 65535) \<notin> ex"
  shows "fst (trim_ips (candidates a b ex)) =
    filter (\<lambda>ip. ip_string ip \<notin> ex \<and> ip ! 3 \<noteq> 0) (map (ip16 a b) [2..<65535])"
proof -
  have "candidates a b ex = ip16 a b 1 #
      filter (\<lambda>ip. ip_string ip \<notin> ex \<and> ip ! 3 \<noteq> 0) (map (ip16 a b) [2..<65535]) @ [ip16 a b 65535]"
    using assms by (simp add: candidates_split ip16_last_byte del: upt_rec_numeral)
  then show ?thesis by (simp only: trim_Cons_snoc)
qed

lemma AllocatePeerIP_net16:
  "AllocatePeerIP r (net16 a b) taken =
     (let ips = fst (trim_ips (candidates a b
                  (insert (ip_string [a, b, 0, 0]) (ip_string ` set taken))))
      in if ips = [] then Some (Err (StatusError OutOfRange
             (''failed allocating new IP for the ipNet '' @ net_string (net16 a b) @
              '' - network is out of IPs'')))
         else Some (Ret (ips ! (r mod length ips))))"
  by (simp add: AllocatePeerIP_def generateIPs_net16 Let_def case_prod_beta) (simp add: net16_def)

lemma count_nonzero_bytes: "length (filter (\<lambda>k. k mod 256 \<noteq> 0) [0..<256 * n]) = 255 * n"
proof (induction n)
  case 0
  then show ?case by simp
next
  case (Suc n)
  have "length (filter (\<lambda>k. k mod 256 \<noteq> 0) [256 * n..<256 * n + 256]) = 255"
  proof -
    have "[256 * n..<256 * n + 256] = map (\<lambda>i. i + 256 * n) [0..<256]"
      by (simp add: map_add_upt add.commute del: upt_rec_numeral)
    then have "length (filter (\<lambda>k. k mod 256 \<noteq> 0) [256 * n..<256 * n + 256]) =
        length (filter (\<lambda>i. i mod 256 \<noteq> 0) [0..<256 :: nat])"
      by (simp add: filter_map o_def del: upt_rec_numeral)
    also have "\<dots> = 255" by code_simp
    finally show ?thesis .
  qed
  moreover have "[0..<256 * Suc n] = [0..<256 * n] @ [256 * n..<256 * n + 256]"
    using upt_add_eq_append [of 0 "256 * n" 256] by (simp add: add.commute)
  ultimately show ?case using Suc by simp
qed

lemma ip_string_ip16_base: "k mod 256 \<noteq> 0 \<Longrightarrow> ip_string (ip16 a b k) \<noteq> ip_string [a, b, 0, 0]"
  using ip16_last_byte [of a b k] by (auto simp: ip_string_eq ip16_def)

lemma ip_string_ip16_inj:
  "j < 65536 \<Longrightarrow> k < 65536 \<Longrightarrow> ip_string (ip16 a b j) = ip_string (ip16 a b k) \<longleftrightarrow> j = k"
  using ip_string_eq [of "ip16 a b j" "ip16 a b k"] ip16_inj [of j k a b] by (simp add: ip16_def)

lemma length_candidates:
  assumes "finite ex"
  shows "65280 - card ex \<le> length (candidates a b (insert (ip_string [a, b, 0, 0]) ex))"
proof -
  define A where "A = set (filter (\<lambda>k. k mod 256 \<noteq> 0) [0..<65536 :: nat])"
  define B where "B = {k \<in> A. ip_string (ip16 a b k) \<in> ex}"
  have zero: "ip_string (ip16 a b k) \<noteq> ip_string [a, b, 0, 0]" if "k \<in> A" for k
    using that ip_string_ip16_base by (simp add: A_def)
  have inj: "inj_on (ip16 a b) A"
    by (auto simp: inj_on_def A_def ip16_inj)
  have "card A = 65280"
    unfolding A_def using count_nonzero_bytes [of 256]
    by (subst distinct_card) (simp_all del: upt_rec_numeral)
  moreover have "card B \<le> card ex"
  proof (rule card_inj_on_le [where f = "\<lambda>k. ip_string (ip16 a b k)"])
    show "inj_on (\<lambda>k. ip_string (ip16 a b k)) B"
      by (auto simp: inj_on_def A_def B_def ip_string_ip16_inj)
  qed (auto simp: B_def assms)
  moreover have "card (A - B) = card A - card B"
    by (rule card_Diff_subset) (auto simp: A_def B_def)
  moreover have "set (candidates a b (insert (ip_string [a, b, 0, 0]) ex)) = ip16 a b ` (A - B)"
    unfolding set_candidates_image using zero
    by (intro arg_cong [where f = "image (ip16 a b)"]) (auto simp: A_def B_def)
  then have "length (candidates a b (insert (ip_string [a, b, 0, 0]) ex)) = card (A - B)"
    using inj by (metis card_image distinct_card distinct_candidates inj_on_diff)
  ultimately show ?thesis by simp
qed

lemma AllocatePeerIP_Ret:
  assumes "AllocatePeerIP r (net16 a b) taken = Some (Ret ip)"
  shows "ip \<in> set (fst (trim_ips (candidates a b
           (insert (ip_string [a, b, 0, 0]) (ip_string ` set taken)))))"
  using assms by (auto simp: AllocatePeerIP_net16 Let_def split: if_splits intro!: nth_mem)

lemma allocated_candidate:
  assumes "AllocatePeerIP r (net16 a b) taken = Some (Ret ip)"
  shows "\<exists>k < 65536. ip = ip16 a b k \<and> k mod 256 \<noteq> 0 \<and> ip_string ip \<notin> ip_string ` set taken"
  using subsetD [OF set_trim AllocatePeerIP_Ret [OF assms]] by (auto simp: set_candidates)

lemma allocated_not_edge:
  assumes "AllocatePeerIP r (net16 a b) taken = Some (Ret ip)"
    and "ip_string (ip16 a b 1) \<notin> ip_string ` set taken"
    and "ip_string (ip16 a b 65535) \<notin> ip_string ` set taken"
  shows "ip \<noteq> ip16 a b 1 \<and> ip \<noteq> ip16 a b 65535"
proof -
  have "ip_string (ip16 a b k) \<noteq> ip_string [a, b, 0, 0]" if "k = 1 \<or> k = 65535" for k
    using that ip_string_ip16_base by auto
  with assms(2,3) have "ip \<in> ip16 a b ` {2..<65535}"
    using AllocatePeerIP_Ret [OF assms(1)]
    by (subst (asm) trim_candidates) (auto simp del: upt_rec_numeral)
  then show ?thesis by (auto simp: ip16_inj)
qed

lemma allocate_total: "AllocatePeerIP r (net16 a b) taken \<noteq> None"
  by (simp add: AllocatePeerIP_net16 Let_def)

lemma allocate_enough:
  assumes "length taken < 65278"
  shows "\<exists>ip. AllocatePeerIP r (net16 a b) taken = Some (Ret ip)"
proof -
  let ?c = "candidates a b (insert (ip_string [a, b, 0, 0]) (ip_string ` set taken))"
  have "card (ip_string ` set taken) \<le> length taken"
    by (meson card_image_le card_length finite_set le_trans)
  with assms length_candidates [of "ip_string ` set taken" a b] have "3 \<le> length ?c" by simp
  then have "fst (trim_ips ?c) \<noteq> []" using length_trim [of ?c] by force
  then show ?thesis by (simp add: AllocatePeerIP_net16 Let_def)
qed

text \<open>Every network the program creates is one of the 64 /16 blocks of 100.64.0.0/10.\<close>

lemma NewNetwork_net16: "\<exists>i < 64. Network_Net (NewNetwork xid r) = net16 100 (64 + of_nat i)"
proof -
  have "r mod 64 < 64" by simp
  moreover have "Network_Net (NewNetwork xid r) = net16 100 (64 + of_nat (r mod 64))"
    by (simp add: NewNetwork_def subnets16_def net16_def del: upt_rec_numeral)
  ultimately show ?thesis by blast
qed

end
