(* ===== verification/Encryption.thy ===== *)
theory Encryption
  imports Go_Prelude
begin

text \<open>
  \<open>encryption/encryption.go\<close> and \<open>encryption/message.go\<close>: the envelope around every message
  between clients and the Management and Signal services. The NaCl box
  (\<open>golang.org/x/crypto/nacl/box\<close>), the random generator and the protobuf codec are outside
  the program: functions of the record \<open>Box\<close>, the outcome \<open>nonce\<close> of \<open>rand.Read\<close>, and the
  arguments \<open>marshal\<close> and \<open>unmarshal\<close>. A Wireguard key is its text.
\<close>

type_synonym bytes = "8 word list"

record Box =
  box_seal :: "bytes \<Rightarrow> bytes \<Rightarrow> string \<Rightarrow> string \<Rightarrow> bytes"
  box_open :: "bytes \<Rightarrow> bytes \<Rightarrow> string \<Rightarrow> string \<Rightarrow> bytes option"
  public_key :: "string \<Rightarrow> string"
  parse_key :: "string \<Rightarrow> string outcome"

text \<open>\<open>box.Seal(nonce[:], msg, ...)\<close> appends the box to the nonce.\<close>

definition Encrypt :: "Box \<Rightarrow> bytes outcome \<Rightarrow> bytes \<Rightarrow> string \<Rightarrow> string \<Rightarrow> bytes outcome" where
  "Encrypt b nonce msg peerPublicKey privateKey =
     (case nonce of
        Err e \<Rightarrow> Err e
      | Panic p \<Rightarrow> Panic p
      | Ret n \<Rightarrow> Ret (n @ box_seal b msg n peerPublicKey privateKey))"

text \<open>A message of fewer than 24 bytes makes the slice expression \<open>encryptedMsg[24:]\<close> panic.\<close>

definition Decrypt :: "Box \<Rightarrow> bytes outcome \<Rightarrow> bytes \<Rightarrow> string \<Rightarrow> string \<Rightarrow> bytes outcome" where
  "Decrypt b nonce encryptedMsg peerPublicKey privateKey =
     (case nonce of
        Err e \<Rightarrow> Err e
      | Panic p \<Rightarrow> Panic p
      | Ret n \<Rightarrow>
          if length encryptedMsg < 24 then Panic IndexOutOfRange
          else (case box_open b (drop 24 encryptedMsg) (take 24 encryptedMsg) peerPublicKey privateKey of
                  None \<Rightarrow> Err (PlainError (''failed to decrypt message from peer '' @ peerPublicKey))
                | Some opened \<Rightarrow> Ret opened))"

definition EncryptMessage ::
  "Box \<Rightarrow> bytes outcome \<Rightarrow> ('m \<Rightarrow> bytes outcome) \<Rightarrow> string \<Rightarrow> string \<Rightarrow> 'm \<Rightarrow> bytes outcome" where
  "EncryptMessage b nonce marshal remotePubKey ourPrivateKey message =
     (case marshal message of
        Err e \<Rightarrow> Err e
      | Panic p \<Rightarrow> Panic p
      | Ret byteResp \<Rightarrow> Encrypt b nonce byteResp remotePubKey ourPrivateKey)"

definition DecryptMessage ::
  "Box \<Rightarrow> bytes outcome \<Rightarrow> (bytes \<Rightarrow> 'm outcome) \<Rightarrow> string \<Rightarrow> string \<Rightarrow> bytes \<Rightarrow> 'm outcome" where
  "DecryptMessage b nonce unmarshal remotePubKey ourPrivateKey encryptedMessage =
     (case Decrypt b nonce encryptedMessage remotePubKey ourPrivateKey of
        Err e \<Rightarrow> Err e
      | Panic p \<Rightarrow> Panic p
      | Ret decrypted \<Rightarrow> unmarshal decrypted)"

section \<open>Round trip\<close>

text \<open>
  What the box promises: the receiver opens, with its private key and the sender's public
  key, what the sender sealed with its private key and the receiver's public key.
\<close>

definition box_correct :: "Box \<Rightarrow> bool" where
  "box_correct b \<longleftrightarrow>
     (\<forall>m n k l. length n = 24 \<longrightarrow>
        box_open b (box_seal b m n (public_key b l) k) n (public_key b k) l = Some m)"

lemma decrypt_encrypt:
  assumes "box_correct b" "length n = 24" "Encrypt b (Ret n) msg (public_key b l) k = Ret c"
  shows "Decrypt b (Ret n') c (public_key b k) l = Ret msg"
  using assms by (auto simp: Encrypt_def Decrypt_def box_correct_def)

text \<open>
  A message that one side encrypts for the other comes out of the other side's
  decryption unchanged, for all keys and nonces, given that the box opens what it sealed
  and the codec decodes what it encoded.
\<close>

theorem message_round_trip:
  assumes "box_correct b" "length n = 24" "\<And>m x. marshal m = Ret x \<Longrightarrow> unmarshal x = Ret m"
    and "EncryptMessage b (Ret n) marshal (public_key b l) k m = Ret c"
  shows "DecryptMessage b (Ret n') unmarshal (public_key b k) l c = Ret m"
  using assms decrypt_encrypt [OF assms(1,2)]
  by (auto simp: EncryptMessage_def DecryptMessage_def split: outcome.splits)

definition ex_box :: Box where
  "ex_box = \<lparr>box_seal = (\<lambda>m n p k. m), box_open = (\<lambda>c n p k. Some c), public_key = (\<lambda>k. k), parse_key = Ret\<rparr>"

theorem message_round_trip_witness:
  "DecryptMessage ex_box (Ret []) Ret ''a'' ''b'' (replicate 24 0 @ [1, 2]) = Ret [1, 2]"
proof -
  have "box_correct ex_box" by (simp add: box_correct_def ex_box_def)
  from message_round_trip [OF this, of "replicate 24 0" Ret Ret "''b''" "''a''" "[1, 2]" "replicate 24 0 @ [1, 2]" "[]"]
  show ?thesis by (simp add: EncryptMessage_def Encrypt_def ex_box_def)
qed

text \<open>
  Decrypting panics exactly on messages of fewer than 24 bytes, whoever sent them and
  whatever the keys: nothing checks the length before the nonce is cut off.
\<close>

theorem decrypt_panics_iff:
  "(\<exists>p. Decrypt b (Ret n) c pub priv = Panic p) \<longleftrightarrow> length c < 24"
  by (auto simp: Decrypt_def split: option.splits)

end
