(* ===== verification/Wg_Iface.thy ===== *)
theory Wg_Iface
  imports Net_IP Encryption
begin

text \<open>
  The Wireguard interface of the client: \<open>iface/iface.go\<close>, \<open>iface/configuration.go\<close> and the two
  proxies of \<open>client/internal/proxy\<close> that enter a peer into it. The control of the device
  (\<open>wgctrl\<close>) is outside the program: a record of the functions the code calls, on a state of
  the device of its own type. \<open>net.ParseCIDR\<close> is an argument too.
\<close>

definition DefaultMTU :: nat where
  "DefaultMTU = 1280"

definition DefaultWgPort :: nat where
  "DefaultWgPort = 51820"

record UDPAddr =
  Addr_IP :: IP
  Addr_Port :: nat

record Wg_PeerConfig =
  PeerCfg_PublicKey :: string
  PeerCfg_Remove :: bool
  PeerCfg_ReplaceAllowedIPs :: bool
  PeerCfg_AllowedIPs :: "IPNet list"
  PeerCfg_Keepalive :: "int option"
  PeerCfg_PresharedKey :: "string option"
  PeerCfg_Endpoint :: "UDPAddr option"

record Wg_Config =
  WgCfg_PrivateKey :: "string option"
  WgCfg_ReplacePeers :: bool
  WgCfg_FirewallMark :: "nat option"
  WgCfg_ListenPort :: "nat option"
  WgCfg_Peers :: "Wg_PeerConfig list"

record 'd Wg_Ctrl =
  wgctrl_New :: "unit outcome"
  wg_Device :: "'d \<Rightarrow> string \<Rightarrow> nat outcome"
  wg_ConfigureDevice :: "'d \<Rightarrow> string \<Rightarrow> Wg_Config \<Rightarrow> 'd \<times> unit outcome"
  wg_ParseKey :: "string \<Rightarrow> string outcome"
  net_ParseCIDR :: "string \<Rightarrow> (IP \<times> IPNet) outcome"

record WGIface =
  WGIface_Name :: string
  WGIface_MTU :: nat
  WGIface_IP :: IP
  WGIface_Network :: IPNet

section \<open>The interface\<close>

definition parseAddress :: "'d Wg_Ctrl \<Rightarrow> string \<Rightarrow> (IP \<times> IPNet) outcome" where
  "parseAddress ctl address =
     (case net_ParseCIDR ctl address of
        Err e \<Rightarrow> Err e
      | Panic p \<Rightarrow> Panic p
      | Ret (ip, network) \<Rightarrow> Ret (ip, network))"

definition NewWGIface :: "'d Wg_Ctrl \<Rightarrow> string \<Rightarrow> string \<Rightarrow> nat \<Rightarrow> WGIface outcome" where
  "NewWGIface ctl iface address mtu =
     (case parseAddress ctl address of
        Err e \<Rightarrow> Err e
      | Panic p \<Rightarrow> Panic p
      | Ret (ip, network) \<Rightarrow>
          Ret \<lparr>WGIface_Name = iface, WGIface_MTU = mtu, WGIface_IP = ip, WGIface_Network = network\<rparr>)"

definition configureDevice :: "'d Wg_Ctrl \<Rightarrow> WGIface \<Rightarrow> 'd \<Rightarrow> Wg_Config \<Rightarrow> 'd \<times> unit outcome" where
  "configureDevice ctl w d config =
     (case wgctrl_New ctl of
        Err e \<Rightarrow> (d, Err e)
      | Panic p \<Rightarrow> (d, Panic p)
      | Ret u \<Rightarrow>
          (case wg_Device ctl d (WGIface_Name w) of
             Err e \<Rightarrow> (d, Err e)
           | Panic p \<Rightarrow> (d, Panic p)
           | Ret port \<Rightarrow> wg_ConfigureDevice ctl d (WGIface_Name w) config))"

definition Configure :: "'d Wg_Ctrl \<Rightarrow> WGIface \<Rightarrow> 'd \<Rightarrow> string \<Rightarrow> nat \<Rightarrow> 'd \<times> unit outcome" where
  "Configure ctl w d privateKey port =
     (case wg_ParseKey ctl privateKey of
        Err e \<Rightarrow> (d, Err e)
      | Panic p \<Rightarrow> (d, Panic p)
      | Ret key \<Rightarrow>
          then_return (configureDevice ctl w d
            \<lparr>WgCfg_PrivateKey = Some key, WgCfg_ReplacePeers = True, WgCfg_FirewallMark = Some 0,
             WgCfg_ListenPort = Some port, WgCfg_Peers = []\<rparr>)
            (\<lambda>e. PlainError (''received error '' @ err_string e @ '' while configuring interface '' @ WGIface_Name w)) ())"

definition GetListenPort :: "'d Wg_Ctrl \<Rightarrow> WGIface \<Rightarrow> 'd \<Rightarrow> nat outcome" where
  "GetListenPort ctl w d =
     (case wgctrl_New ctl of
        Err e \<Rightarrow> Err e
      | Panic p \<Rightarrow> Panic p
      | Ret u \<Rightarrow> wg_Device ctl d (WGIface_Name w))"

definition UpdatePeer ::
  "'d Wg_Ctrl \<Rightarrow> WGIface \<Rightarrow> 'd \<Rightarrow> string \<Rightarrow> string \<Rightarrow> int \<Rightarrow> UDPAddr option \<Rightarrow> string option \<Rightarrow> 'd \<times> unit outcome" where
  "UpdatePeer ctl w d peerKey allowedIps keepAlive endpoint preSharedKey =
     (case net_ParseCIDR ctl allowedIps of
        Err e \<Rightarrow> (d, Err e)
      | Panic p \<Rightarrow> (d, Panic p)
      | Ret (ip, ipNet) \<Rightarrow>
          (case wg_ParseKey ctl peerKey of
             Err e \<Rightarrow> (d, Err e)
           | Panic p \<Rightarrow> (d, Panic p)
           | Ret peerKeyParsed \<Rightarrow>
               then_return (configureDevice ctl w d
                 \<lparr>WgCfg_PrivateKey = None, WgCfg_ReplacePeers = False, WgCfg_FirewallMark = None, WgCfg_ListenPort = None,
                  WgCfg_Peers = [\<lparr>PeerCfg_PublicKey = peerKeyParsed, PeerCfg_Remove = False,
                    PeerCfg_ReplaceAllowedIPs = True, PeerCfg_AllowedIPs = [ipNet], PeerCfg_Keepalive = Some keepAlive,
                    PeerCfg_PresharedKey = preSharedKey, PeerCfg_Endpoint = endpoint\<rparr>]\<rparr>)
                 (\<lambda>e. PlainError (''received error '' @ err_string e @ '' while updating peer on interface '' @ WGIface_Name w)) ()))"

definition RemovePeer :: "'d Wg_Ctrl \<Rightarrow> WGIface \<Rightarrow> 'd \<Rightarrow> string \<Rightarrow> 'd \<times> unit outcome" where
  "RemovePeer ctl w d peerKey =
     (case wg_ParseKey ctl peerKey of
        Err e \<Rightarrow> (d, Err e)
      | Panic p \<Rightarrow> (d, Panic p)
      | Ret peerKeyParsed \<Rightarrow>
          then_return (configureDevice ctl w d
            \<lparr>WgCfg_PrivateKey = None, WgCfg_ReplacePeers = False, WgCfg_FirewallMark = None, WgCfg_ListenPort = None,
             WgCfg_Peers = [\<lparr>PeerCfg_PublicKey = peerKeyParsed, PeerCfg_Remove = True,
               PeerCfg_ReplaceAllowedIPs = False, PeerCfg_AllowedIPs = [], PeerCfg_Keepalive = None,
               PeerCfg_PresharedKey = None, PeerCfg_Endpoint = None\<rparr>]\<rparr>)
            (\<lambda>e. PlainError (''received error '' @ err_string e @ '' while removing peer '' @ peerKey @
                            '' from interface '' @ WGIface_Name w)) ())"

section \<open>The proxies\<close>

definition DefaultWgKeepAlive :: int where
  "DefaultWgKeepAlive = 25 * 1000000000"

datatype Proxy_Type = TypeNoProxy | TypeWireguard | TypeDummy

record Proxy_Config =
  Proxy_WgListenAddr :: string
  Proxy_RemoteKey :: string
  Proxy_WgInterface :: WGIface
  Proxy_AllowedIps :: string
  Proxy_PreSharedKey :: "string option"

text \<open>A proxy that is in use; the Wireguard proxy may have a local connection and be cancelled.\<close>

datatype Proxy = NoProxy Proxy_Config | WireguardProxy Proxy_Config bool bool

definition NewNoProxy :: "Proxy_Config \<Rightarrow> Proxy" where
  "NewNoProxy config = NoProxy config"

definition NewWireguardProxy :: "Proxy_Config \<Rightarrow> Proxy" where
  "NewWireguardProxy config = WireguardProxy config False False"

fun proxy_type :: "Proxy \<Rightarrow> Proxy_Type" where
  "proxy_type (NoProxy c) = TypeNoProxy"
| "proxy_type (WireguardProxy c l x) = TypeWireguard"

text \<open>
  What the network gives a proxy: the address of the remote connection, the result of dialling
  the local Wireguard port, the address of the local connection, the result of closing it.
\<close>

record Proxy_Net =
  pn_remote :: "UDPAddr outcome"
  pn_dial :: "unit outcome"
  pn_local :: "UDPAddr outcome"
  pn_close :: "unit outcome"

definition NoProxy_Start :: "'d Wg_Ctrl \<Rightarrow> Proxy_Net \<Rightarrow> 'd \<Rightarrow> Proxy_Config \<Rightarrow> ('d \<times> Proxy) \<times> unit outcome" where
  "NoProxy_Start ctl net d c =
     (case pn_remote net of
        Err e \<Rightarrow> ((d, NoProxy c), Err e)
      | Panic p \<Rightarrow> ((d, NoProxy c), Panic p)
      | Ret addr \<Rightarrow>
          (case UpdatePeer ctl (Proxy_WgInterface c) d (Proxy_RemoteKey c) (Proxy_AllowedIps c) DefaultWgKeepAlive
                  (Some (addr\<lparr>Addr_Port := DefaultWgPort\<rparr>)) (Proxy_PreSharedKey c) of
             (d', result) \<Rightarrow> ((d', NoProxy c), result)))"

definition updateEndpoint :: "'d Wg_Ctrl \<Rightarrow> Proxy_Net \<Rightarrow> 'd \<Rightarrow> Proxy_Config \<Rightarrow> 'd \<times> unit outcome" where
  "updateEndpoint ctl net d c =
     (case pn_local net of
        Err e \<Rightarrow> (d, Err e)
      | Panic p \<Rightarrow> (d, Panic p)
      | Ret udpAddr \<Rightarrow> UpdatePeer ctl (Proxy_WgInterface c) d (Proxy_RemoteKey c) (Proxy_AllowedIps c) DefaultWgKeepAlive
          (Some udpAddr) (Proxy_PreSharedKey c))"

definition WireguardProxy_Start :: "'d Wg_Ctrl \<Rightarrow> Proxy_Net \<Rightarrow> 'd \<Rightarrow> Proxy_Config \<Rightarrow> bool \<Rightarrow> ('d \<times> Proxy) \<times> unit outcome" where
  "WireguardProxy_Start ctl net d c cancelled =
     (case pn_dial net of
        Err e \<Rightarrow> ((d, WireguardProxy c False cancelled), Err e)
      | Panic p \<Rightarrow> ((d, WireguardProxy c False cancelled), Panic p)
      | Ret u \<Rightarrow> (case updateEndpoint ctl net d c of (d', result) \<Rightarrow> ((d', WireguardProxy c True cancelled), result)))"

definition NoProxy_Close :: "'d Wg_Ctrl \<Rightarrow> 'd \<Rightarrow> Proxy_Config \<Rightarrow> ('d \<times> Proxy) \<times> unit outcome" where
  "NoProxy_Close ctl d c =
     (case RemovePeer ctl (Proxy_WgInterface c) d (Proxy_RemoteKey c) of (d', result) \<Rightarrow> ((d', NoProxy c), result))"

definition WireguardProxy_Close :: "'d Wg_Ctrl \<Rightarrow> Proxy_Net \<Rightarrow> 'd \<Rightarrow> Proxy_Config \<Rightarrow> bool \<Rightarrow> ('d \<times> Proxy) \<times> unit outcome" where
  "WireguardProxy_Close ctl net d c localConn =
     (case (if localConn then pn_close net else Ret ()) of
        Err e \<Rightarrow> ((d, WireguardProxy c localConn True), Err e)
      | Panic p \<Rightarrow> ((d, WireguardProxy c localConn True), Panic p)
      | Ret u \<Rightarrow>
          (case RemovePeer ctl (Proxy_WgInterface c) d (Proxy_RemoteKey c) of
             (d', result) \<Rightarrow> ((d', WireguardProxy c localConn True), result)))"

text \<open>The calls through the interface \<open>Proxy\<close>.\<close>

fun Proxy_Start :: "'d Wg_Ctrl \<Rightarrow> Proxy_Net \<Rightarrow> 'd \<Rightarrow> Proxy \<Rightarrow> ('d \<times> Proxy) \<times> unit outcome" where
  "Proxy_Start ctl net d (NoProxy c) = NoProxy_Start ctl net d c"
| "Proxy_Start ctl net d (WireguardProxy c localConn cancelled) = WireguardProxy_Start ctl net d c cancelled"

fun Proxy_Close :: "'d Wg_Ctrl \<Rightarrow> Proxy_Net \<Rightarrow> 'd \<Rightarrow> Proxy \<Rightarrow> ('d \<times> Proxy) \<times> unit outcome" where
  "Proxy_Close ctl net d (NoProxy c) = NoProxy_Close ctl d c"
| "Proxy_Close ctl net d (WireguardProxy c localConn cancelled) = WireguardProxy_Close ctl net d c localConn"

lemmas proxy_defs [simp] = NoProxy_Start_def updateEndpoint_def WireguardProxy_Start_def NoProxy_Close_def WireguardProxy_Close_def

section \<open>What the device promises\<close>

text \<open>
  The documented behaviour of \<open>wgctrl\<close>: after a successful configuration a removed peer is gone
  and a configured peer has the settings it was configured with; all other peers are unchanged,
  also after a failed one.
  \<open>peers\<close> reads the peers of the device.
\<close>

definition wgctrl_ok :: "'d Wg_Ctrl \<Rightarrow> ('d \<Rightarrow> string \<rightharpoonup> IPNet list \<times> UDPAddr option) \<Rightarrow> bool" where
  "wgctrl_ok ctl peers \<longleftrightarrow>
     (\<forall>d name config p d' r k. WgCfg_Peers config = [p] \<longrightarrow> \<not> WgCfg_ReplacePeers config \<longrightarrow>
        wg_ConfigureDevice ctl d name config = (d', r) \<longrightarrow> k \<noteq> PeerCfg_PublicKey p \<longrightarrow> peers d' k = peers d k) \<and>
     (\<forall>d name config p d'. WgCfg_Peers config = [p] \<longrightarrow> \<not> WgCfg_ReplacePeers config \<longrightarrow>
        PeerCfg_Remove p \<or> PeerCfg_ReplaceAllowedIPs p \<and> PeerCfg_Endpoint p \<noteq> None \<longrightarrow>
        wg_ConfigureDevice ctl d name config = (d', Ret ()) \<longrightarrow>
        peers d' = (peers d)(PeerCfg_PublicKey p :=
          (if PeerCfg_Remove p then None else Some (PeerCfg_AllowedIPs p, PeerCfg_Endpoint p))))"

lemma wgctrl_okD:
  assumes "wgctrl_ok ctl peers" "wg_ConfigureDevice ctl d name config = (d', Ret ())"
    and "WgCfg_Peers config = [p]" "\<not> WgCfg_ReplacePeers config"
    and "PeerCfg_Remove p \<or> PeerCfg_ReplaceAllowedIPs p \<and> PeerCfg_Endpoint p \<noteq> None"
  shows "peers d' = (peers d)(PeerCfg_PublicKey p :=
    (if PeerCfg_Remove p then None else Some (PeerCfg_AllowedIPs p, PeerCfg_Endpoint p)))"
  using assms unfolding wgctrl_ok_def by blast

lemma configureDevice_Ret:
  "configureDevice ctl w d config = (d', Ret ()) \<Longrightarrow> wg_ConfigureDevice ctl d (WGIface_Name w) config = (d', Ret ())"
  by (auto simp: configureDevice_def split: outcome.splits)

lemma UpdatePeer_peers:
  assumes "wgctrl_ok ctl peers" "UpdatePeer ctl w d k ips ka (Some endpoint) psk = (d', Ret ())"
  shows "\<exists>key net. wg_ParseKey ctl k = Ret key \<and> (\<exists>ip. net_ParseCIDR ctl ips = Ret (ip, net)) \<and>
    peers d' = (peers d)(key \<mapsto> ([net], Some endpoint))"
proof -
  from assms(2) obtain ip net key where "net_ParseCIDR ctl ips = Ret (ip, net)" "wg_ParseKey ctl k = Ret key"
    and c: "configureDevice ctl w d
        \<lparr>WgCfg_PrivateKey = None, WgCfg_ReplacePeers = False, WgCfg_FirewallMark = None, WgCfg_ListenPort = None,
         WgCfg_Peers = [\<lparr>PeerCfg_PublicKey = key, PeerCfg_Remove = False, PeerCfg_ReplaceAllowedIPs = True,
           PeerCfg_AllowedIPs = [net], PeerCfg_Keepalive = Some ka, PeerCfg_PresharedKey = psk,
           PeerCfg_Endpoint = Some endpoint\<rparr>]\<rparr> = (d', Ret ())"
    by (auto simp: UpdatePeer_def then_return_Ret split: outcome.splits)
  moreover have "peers d' = (peers d)(key \<mapsto> ([net], Some endpoint))"
    using wgctrl_okD [OF assms(1) configureDevice_Ret [OF c]] by simp
  ultimately show ?thesis by blast
qed

lemma RemovePeer_peers:
  assumes "wgctrl_ok ctl peers" "RemovePeer ctl w d k = (d', Ret ())"
  shows "\<exists>key. wg_ParseKey ctl k = Ret key \<and> peers d' = (peers d)(key := None)"
proof -
  from assms(2) obtain key where "wg_ParseKey ctl k = Ret key"
    and c: "configureDevice ctl w d
        \<lparr>WgCfg_PrivateKey = None, WgCfg_ReplacePeers = False, WgCfg_FirewallMark = None, WgCfg_ListenPort = None,
         WgCfg_Peers = [\<lparr>PeerCfg_PublicKey = key, PeerCfg_Remove = True, PeerCfg_ReplaceAllowedIPs = False,
           PeerCfg_AllowedIPs = [], PeerCfg_Keepalive = None, PeerCfg_PresharedKey = None, PeerCfg_Endpoint = None\<rparr>]\<rparr>
      = (d', Ret ())"
    by (auto simp: RemovePeer_def then_return_Ret split: outcome.splits)
  moreover have "peers d' = (peers d)(key := None)"
    using wgctrl_okD [OF assms(1) configureDevice_Ret [OF c]] by simp
  ultimately show ?thesis by blast
qed

lemma configureDevice_others:
  assumes "wgctrl_ok ctl peers" "configureDevice ctl w d config = (d', r)"
    and "WgCfg_Peers config = [p]" "\<not> WgCfg_ReplacePeers config" "k \<noteq> PeerCfg_PublicKey p"
  shows "peers d' k = peers d k"
proof -
  have "peers d' k = peers d k" if "wg_ConfigureDevice ctl d (WGIface_Name w) config = (d', r)"
    using that assms(1,3-5) unfolding wgctrl_ok_def by blast
  then show ?thesis using assms(2) by (auto simp: configureDevice_def split: outcome.splits)
qed

lemma UpdatePeer_others:
  assumes "wgctrl_ok ctl peers" "UpdatePeer ctl w d k ips ka endpoint psk = (d', r)"
    and "wg_ParseKey ctl k = Ret key" "l \<noteq> key"
  shows "peers d' l = peers d l"
proof (cases "net_ParseCIDR ctl ips")
  case (Ret x)
  obtain ip net where x: "x = (ip, net)" by fastforce
  let ?cfg = "\<lparr>WgCfg_PrivateKey = None, WgCfg_ReplacePeers = False, WgCfg_FirewallMark = None, WgCfg_ListenPort = None,
     WgCfg_Peers = [\<lparr>PeerCfg_PublicKey = key, PeerCfg_Remove = False, PeerCfg_ReplaceAllowedIPs = True,
       PeerCfg_AllowedIPs = [net], PeerCfg_Keepalive = Some ka, PeerCfg_PresharedKey = psk,
       PeerCfg_Endpoint = endpoint\<rparr>]\<rparr>"
  obtain d1 q where c: "configureDevice ctl w d ?cfg = (d1, q)" by fastforce
  then have "d' = d1" using assms(2,3) Ret x by (cases q) (auto simp: UpdatePeer_def)
  with configureDevice_others [OF assms(1) c] assms(4) show ?thesis by simp
qed (use assms(2) in \<open>auto simp: UpdatePeer_def\<close>)

end
