(* ===== verification/Signal_Server.thy ===== *)
theory Signal_Server
  imports Encryption
begin

text \<open>
  The Signal Exchange: \<open>signal/peer/peer.go\<close> (the registry of connected peers) and
  \<open>signal/server/signal.go\<close> (the service that forwards messages between peers). A gRPC stream is
  a number; what the service has written to a stream is the list of messages under its number.
  Writing to a stream fails when \<open>broken\<close> says so: the service logs the error and drops the
  message. The registry is a \<open>sync.Map\<close>, whose operations are atomic.
\<close>

record Sig_EncryptedMessage =
  SigEnc_Key :: string
  SigEnc_RemoteKey :: string
  SigEnc_Body :: bytes

record Sig_Peer =
  SigPeer_Id :: string
  SigPeer_Stream :: nat

record Sig_Server =
  sig_registry :: "string \<rightharpoonup> Sig_Peer"
  sig_sent :: "nat \<Rightarrow> Sig_EncryptedMessage list"

abbreviation (input) HeaderId :: string where
  "HeaderId \<equiv> ''x-wiretrustee-peer-id''"

abbreviation (input) HeaderRegistered :: string where
  "HeaderRegistered \<equiv> ''x-wiretrustee-peer-registered''"

section \<open>The registry\<close>

definition NewPeer :: "string \<Rightarrow> nat \<Rightarrow> Sig_Peer" where
  "NewPeer i stream = \<lparr>SigPeer_Id = i, SigPeer_Stream = stream\<rparr>"

definition NewRegistry :: "string \<rightharpoonup> Sig_Peer" where
  "NewRegistry = Map.empty"

definition Registry_Get :: "(string \<rightharpoonup> Sig_Peer) \<Rightarrow> string \<Rightarrow> Sig_Peer option" where
  "Registry_Get registry peerId = registry peerId"

definition IsPeerRegistered :: "(string \<rightharpoonup> Sig_Peer) \<Rightarrow> string \<Rightarrow> bool" where
  "IsPeerRegistered registry peerId \<longleftrightarrow> registry peerId \<noteq> None"

text \<open>A peer that connects again replaces its earlier entry.\<close>

definition Register :: "(string \<rightharpoonup> Sig_Peer) \<Rightarrow> Sig_Peer \<Rightarrow> (string \<rightharpoonup> Sig_Peer)" where
  "Register registry p = registry(SigPeer_Id p \<mapsto> p)"

text \<open>Deregistering goes by the identifier: it deletes whatever entry the identifier has now.\<close>

definition Deregister :: "(string \<rightharpoonup> Sig_Peer) \<Rightarrow> Sig_Peer \<Rightarrow> (string \<rightharpoonup> Sig_Peer)" where
  "Deregister registry p = registry(SigPeer_Id p := None)"

section \<open>The service\<close>

definition Sig_NewServer :: Sig_Server where
  "Sig_NewServer = \<lparr>sig_registry = NewRegistry, sig_sent = (\<lambda>_. [])\<rparr>"

text \<open>The forwarding of a message, shared by \<open>Send\<close> and the loop of \<open>ConnectStream\<close>.\<close>

definition forward :: "(nat \<Rightarrow> bool) \<Rightarrow> Sig_Server \<Rightarrow> Sig_EncryptedMessage \<Rightarrow> Sig_Server" where
  "forward broken s msg =
     (case Registry_Get (sig_registry s) (SigEnc_RemoteKey msg) of
        Some dstPeer \<Rightarrow>
          if broken (SigPeer_Stream dstPeer) then s
          else s\<lparr>sig_sent := (sig_sent s)(SigPeer_Stream dstPeer :=
                 sig_sent s (SigPeer_Stream dstPeer) @ [msg])\<rparr>
      | None \<Rightarrow> s)"

definition Sig_Send ::
  "(nat \<Rightarrow> bool) \<Rightarrow> Sig_Server \<Rightarrow> Sig_EncryptedMessage \<Rightarrow> Sig_Server \<times> Sig_EncryptedMessage outcome" where
  "Sig_Send broken s msg =
     (if \<not> IsPeerRegistered (sig_registry s) (SigEnc_Key msg) then
        (s, Err (PlainError (''peer '' @ SigEnc_Key msg @ '' is not registered'')))
      else (forward broken s msg, Ret \<lparr>SigEnc_Key = [], SigEnc_RemoteKey = [], SigEnc_Body = []\<rparr>))"

text \<open>
  \<open>connectPeer\<close>: the metadata of the stream is absent (\<open>None\<close>) or maps header names to lists
  of values.
\<close>

definition connectPeer ::
  "Sig_Server \<Rightarrow> (string \<rightharpoonup> string list) option \<Rightarrow> nat \<Rightarrow> Sig_Server \<times> Sig_Peer outcome" where
  "connectPeer s meta stream =
     (case meta of
        None \<Rightarrow> (s, Err (StatusError FailedPrecondition ''missing connection stream meta''))
      | Some m \<Rightarrow>
          (case m HeaderId of
             None \<Rightarrow> (s, Err (StatusError FailedPrecondition (''missing connection header: '' @ HeaderId)))
           | Some [] \<Rightarrow> (s, Panic IndexOutOfRange)
           | Some (i # _) \<Rightarrow>
               (let p = NewPeer i stream
                in (s\<lparr>sig_registry := Register (sig_registry s) p\<rparr>, Ret p))))"

text \<open>
  \<open>ConnectStream\<close> up to its loop: the peer is registered and the header that confirms it is
  sent. When sending the header fails the deferred function removes the peer again.
\<close>

definition ConnectStream_open ::
  "Sig_Server \<Rightarrow> (string \<rightharpoonup> string list) option \<Rightarrow> nat \<Rightarrow> unit outcome \<Rightarrow> Sig_Server \<times> Sig_Peer outcome" where
  "ConnectStream_open s meta stream header_sent =
     (case connectPeer s meta stream of
        (s1, Err e) \<Rightarrow> (s1, Err e)
      | (s1, Panic q) \<Rightarrow> (s1, Panic q)
      | (s1, Ret p) \<Rightarrow>
          (case header_sent of
             Ret u \<Rightarrow> (s1, Ret p)
           | Err e \<Rightarrow> (s1\<lparr>sig_registry := Deregister (sig_registry s1) p\<rparr>, Err e)
           | Panic q \<Rightarrow> (s1\<lparr>sig_registry := Deregister (sig_registry s1) p\<rparr>, Panic q)))"

text \<open>One round of the loop: a message the peer sent is forwarded, whatever sender it names.\<close>

definition ConnectStream_recv :: "(nat \<Rightarrow> bool) \<Rightarrow> Sig_Server \<Rightarrow> Sig_EncryptedMessage \<Rightarrow> Sig_Server" where
  "ConnectStream_recv broken s msg = forward broken s msg"

text \<open>The end of the stream, by the peer or by an error: the deferred function runs.\<close>

definition ConnectStream_done :: "Sig_Server \<Rightarrow> Sig_Peer \<Rightarrow> Sig_Server" where
  "ConnectStream_done s p = s\<lparr>sig_registry := Deregister (sig_registry s) p\<rparr>"

section \<open>Runs of the service\<close>

text \<open>
  The events of the service: a stream is opened, a connected peer or a single call submits a
  message, a stream ends. \<open>sig_run evs s\<close>: the service reaches \<open>s\<close> by the events \<open>evs\<close>, the
  latest first. Every stream has its own number, and ends once.
\<close>

datatype sig_event = Opened string nat | Submitted Sig_EncryptedMessage | Ended string nat

fun sig_streams :: "sig_event list \<Rightarrow> nat set" where
  "sig_streams [] = {}"
| "sig_streams (Opened k n # evs) = insert n (sig_streams evs)"
| "sig_streams (Submitted m # evs) = sig_streams evs"
| "sig_streams (Ended k n # evs) = sig_streams evs"

inductive sig_run :: "(nat \<Rightarrow> bool) \<Rightarrow> sig_event list \<Rightarrow> Sig_Server \<Rightarrow> bool" for broken where
  start: "sig_run broken [] Sig_NewServer"
| opened: "sig_run broken evs s \<Longrightarrow> n \<notin> sig_streams evs \<Longrightarrow>
    ConnectStream_open s meta n (Ret ()) = (s', Ret p) \<Longrightarrow> sig_run broken (Opened (SigPeer_Id p) n # evs) s'"
| streamed: "sig_run broken evs s \<Longrightarrow> sig_run broken (Submitted msg # evs) (ConnectStream_recv broken s msg)"
| sent: "sig_run broken evs s \<Longrightarrow> Sig_Send broken s msg = (s', Ret ack) \<Longrightarrow> sig_run broken (Submitted msg # evs) s'"
| refused: "sig_run broken evs s \<Longrightarrow> Sig_Send broken s msg = (s', Err e) \<Longrightarrow> sig_run broken evs s'"
| ended: "sig_run broken evs s \<Longrightarrow> Opened (SigPeer_Id p) (SigPeer_Stream p) \<in> set evs \<Longrightarrow>
    Ended (SigPeer_Id p) (SigPeer_Stream p) \<notin> set evs \<Longrightarrow>
    sig_run broken (Ended (SigPeer_Id p) (SigPeer_Stream p) # evs) (ConnectStream_done s p)"

text \<open>
  The contract, on the events alone: the stream that holds an identifier is the one opened last
  under it, unless a stream of this identifier ended after that; a stream has received the
  messages that were submitted for its identifier while it held it.
\<close>

fun holder :: "sig_event list \<Rightarrow> string \<Rightarrow> nat option" where
  "holder [] k = None"
| "holder (Opened k' n # evs) k = (if k' = k then Some n else holder evs k)"
| "holder (Submitted m # evs) k = holder evs k"
| "holder (Ended k' n # evs) k = (if k' = k then None else holder evs k)"

fun inbox :: "(nat \<Rightarrow> bool) \<Rightarrow> sig_event list \<Rightarrow> nat \<Rightarrow> Sig_EncryptedMessage list" where
  "inbox broken [] n = []"
| "inbox broken (Submitted m # evs) n =
     inbox broken evs n @ (if holder evs (SigEnc_RemoteKey m) = Some n \<and> \<not> broken n then [m] else [])"
| "inbox broken (Opened k n' # evs) n = inbox broken evs n"
| "inbox broken (Ended k n' # evs) n = inbox broken evs n"

lemmas signal_defs = Sig_NewServer_def NewRegistry_def Registry_Get_def IsPeerRegistered_def Register_def
  Deregister_def NewPeer_def forward_def

lemma connect_Ret:
  assumes "ConnectStream_open s meta n (Ret ()) = (s', Ret p)"
  shows "SigPeer_Stream p = n" and "s' = s\<lparr>sig_registry := (sig_registry s)(SigPeer_Id p \<mapsto> p)\<rparr>"
  using assms by (auto simp: ConnectStream_open_def connectPeer_def Let_def signal_defs
      split: option.splits list.splits)

lemma forward_sent:
  "sig_sent (forward broken s msg) n = sig_sent s n @
     (if map_option SigPeer_Stream (sig_registry s (SigEnc_RemoteKey msg)) = Some n \<and> \<not> broken n then [msg] else [])"
  "sig_registry (forward broken s msg) = sig_registry s"
  by (auto simp: signal_defs split: option.splits)

lemma Sig_Send_cases:
  assumes "Sig_Send broken s msg = (s', r)"
  obtains (ack) a where "s' = forward broken s msg" "r = Ret a" | (err) e where "s' = s" "r = Err e"
  using assms by (auto simp: Sig_Send_def split: if_splits)

lemma sig_run_refines:
  assumes "sig_run broken evs s"
  shows "(\<forall>k. map_option SigPeer_Stream (sig_registry s k) = holder evs k) \<and> (\<forall>n. sig_sent s n = inbox broken evs n)"
  using assms
proof induction
  case start
  then show ?case by (simp add: signal_defs)
next
  case (opened evs s n meta s' p)
  then show ?case using connect_Ret [OF opened(3)] by auto
next
  case (streamed evs s msg)
  then show ?case by (auto simp: ConnectStream_recv_def forward_sent)
next
  case (sent evs s msg s' ack)
  from sent(2) show ?case by (cases rule: Sig_Send_cases) (use sent(3) in \<open>auto simp: forward_sent\<close>)
next
  case (refused evs s msg s' e)
  from refused(2) show ?case by (cases rule: Sig_Send_cases) (use refused(3) in auto)
next
  case (ended evs s p)
  then show ?case by (auto simp: ConnectStream_done_def signal_defs)
qed

lemma holder_opened: "holder evs k = Some n \<Longrightarrow> Opened k n \<in> set evs"
  by (induction evs k rule: holder.induct) (auto split: if_splits)

lemma inbox_addressed: "m \<in> set (inbox broken evs n) \<Longrightarrow> Opened (SigEnc_RemoteKey m) n \<in> set evs"
  by (induction broken evs n rule: inbox.induct) (auto dest: holder_opened split: if_splits)

lemma inbox_submitted: "m \<in> set (inbox broken evs n) \<Longrightarrow> Submitted m \<in> set evs"
  by (induction broken evs n rule: inbox.induct) (auto split: if_splits)

lemma opened_streams: "Opened k n \<in> set evs \<Longrightarrow> n \<in> sig_streams evs"
  by (induction evs rule: sig_streams.induct) auto

lemma opened_once:
  assumes "sig_run broken evs s" "Opened k n \<in> set evs" "Opened l n \<in> set evs"
  shows "k = l"
  using assms by (induction) (auto dest: opened_streams)

section \<open>Properties\<close>

text \<open>
  C21: the service implements its contract: in every run, whatever peers connect, reconnect,
  send and disconnect in whatever order, the registry names for every identifier the stream
  that holds it, and every stream has been sent the messages submitted for its identifier while
  it held it, each once and in the order of their submission.
\<close>

theorem signal_refines_contract:
  assumes "sig_run broken evs s"
  shows "map_option SigPeer_Stream (Registry_Get (sig_registry s) k) = holder evs k \<and>
    sig_sent s n = inbox broken evs n"
  using sig_run_refines [OF assms] by (simp add: Registry_Get_def)

definition ex_sig_msg :: Sig_EncryptedMessage where
  "ex_sig_msg = \<lparr>SigEnc_Key = ''a'', SigEnc_RemoteKey = ''b'', SigEnc_Body = [7]\<rparr>"

definition ex_meta_of :: "string \<Rightarrow> (string \<rightharpoonup> string list) option" where
  "ex_meta_of k = Some [HeaderId \<mapsto> [k]]"

lemma ex_open:
  "ConnectStream_open s (ex_meta_of k) n (Ret ()) =
     (s\<lparr>sig_registry := (sig_registry s)(k \<mapsto> NewPeer k n)\<rparr>, Ret (NewPeer k n))"
  by (simp add: ConnectStream_open_def connectPeer_def ex_meta_of_def Register_def NewPeer_def Let_def)

lemma ex_run_open:
  "sig_run broken evs s \<Longrightarrow> n \<notin> sig_streams evs \<Longrightarrow>
   sig_run broken (Opened k n # evs) (s\<lparr>sig_registry := (sig_registry s)(k \<mapsto> NewPeer k n)\<rparr>)"
  using sig_run.opened [OF _ _ ex_open [of s k n]] by (simp add: NewPeer_def)

theorem signal_refines_contract_witness:
  "\<exists>s. sig_run (\<lambda>_. False) [Submitted ex_sig_msg, Opened ''b'' 1, Opened ''a'' 0] s \<and> sig_sent s 1 = [ex_sig_msg] \<and>
     map_option SigPeer_Stream (Registry_Get (sig_registry s) ''b'') = Some 1"
proof -
  obtain s where s: "sig_run (\<lambda>_. False) [Opened ''b'' 1, Opened ''a'' 0] s"
    using ex_run_open [OF ex_run_open [OF sig_run.start, of 0 "\<lambda>_. False" "''a''"], of 1 "''b''"] by fastforce
  then show ?thesis
    using signal_refines_contract [OF sig_run.streamed [OF s, of ex_sig_msg], of "''b''" 1] sig_run.streamed [OF s]
    by (auto simp: ex_sig_msg_def)
qed



text \<open>
  A peer that reconnects becomes unreachable when its old stream ends afterwards: the end of
  the old stream deletes the entry of the new one, and although the peer is connected, a
  message for it is accepted and lost.
\<close>

theorem stale_stream_deregisters_new:
  assumes "ConnectStream_open s meta old (Ret ()) = (s1, Ret p)" "ConnectStream_open s1 meta new (Ret ()) = (s2, Ret q)"
    and "SigEnc_RemoteKey msg = SigPeer_Id q" "SigEnc_Key msg \<noteq> SigPeer_Id q"
    and "IsPeerRegistered (sig_registry s) (SigEnc_Key msg)"
  shows "\<not> IsPeerRegistered (sig_registry (ConnectStream_done s2 p)) (SigPeer_Id q) \<and>
    (\<exists>s3 ack. Sig_Send broken (ConnectStream_done s2 p) msg = (s3, Ret ack) \<and> sig_sent s3 = sig_sent s)"
proof -
  have "SigPeer_Id p = SigPeer_Id q"
    using assms(1,2) by (auto simp: ConnectStream_open_def connectPeer_def Let_def NewPeer_def
        split: option.splits list.splits)
  then show ?thesis using assms(3-5) connect_Ret(2) [OF assms(1)] connect_Ret(2) [OF assms(2)]
    by (auto simp: ConnectStream_done_def Sig_Send_def signal_defs)
qed

theorem stale_stream_deregisters_new_witness:
  "\<not> IsPeerRegistered (sig_registry (ConnectStream_done
     (Sig_NewServer\<lparr>sig_registry := [''a'' \<mapsto> NewPeer ''a'' 0, ''b'' \<mapsto> NewPeer ''b'' 2]\<rparr>) (NewPeer ''b'' 1))) ''b''"
proof -
  let ?s = "Sig_NewServer\<lparr>sig_registry := [''a'' \<mapsto> NewPeer ''a'' 0]\<rparr>"
  show ?thesis
    using stale_stream_deregisters_new [OF ex_open [of ?s "''b''" 1] ex_open [of _ "''b''" 2], of ex_sig_msg "\<lambda>_. False"]
    by (simp add: ex_sig_msg_def IsPeerRegistered_def NewPeer_def)
qed

end
