(* ===== verification/Retry.thy ===== *)
theory Retry
  imports Go_Prelude
begin

text \<open>
  Loops around \<open>backoff.Retry\<close>, which the clients of both services and the main loop of the client
  share: an operation is repeated until its result is final. The operation depends on what the
  outside does in a round; the loop runs on the list of rounds and is at \<open>None\<close> when a round has not
  ended or the next one has not begun.
\<close>

locale retry_loop =
  fixes step :: "'r \<Rightarrow> 's \<Rightarrow> 's \<times> 'e option"
    and again :: "'r \<Rightarrow> 'e \<Rightarrow> bool"
    and res :: "'e \<Rightarrow> 'o"
    and loop :: "'r list \<Rightarrow> 's \<Rightarrow> 's \<times> 'o option"
  assumes loop_Nil: "loop [] s = (s, None)"
    and loop_Cons: "loop (r # rs) s = (case step r s of
      (s', None) \<Rightarrow> (s', None)
    | (s', Some e) \<Rightarrow> if again r e then loop rs s' else (s', Some (res e)))"
begin

text \<open>A loop that has returned did so with the result of a round that was final.\<close>

lemma loop_result:
  assumes "loop rs s = (s', Some q)"
  shows "\<exists>r t e. r \<in> set rs \<and> step r t = (s', Some e) \<and> \<not> again r e \<and> q = res e"
  using assms
proof (induction rs arbitrary: s)
  case Nil
  then show ?case by (simp add: loop_Nil)
next
  case (Cons r rs)
  obtain s1 x where x: "step r s = (s1, x)" by fastforce
  show ?case
  proof (cases x)
    case None
    with Cons.prems x show ?thesis by (simp add: loop_Cons)
  next
    case (Some e)
    show ?thesis
    proof (cases "again r e")
      case True
      with Cons.prems x Some have "loop rs s1 = (s', Some q)" by (simp add: loop_Cons)
      from Cons.IH [OF this] show ?thesis by auto
    next
      case False
      with Cons.prems x Some have "s1 = s'" "q = res e" by (simp_all add: loop_Cons)
      with x Some False show ?thesis by (intro exI [of _ r] exI [of _ s] exI [of _ e]) simp
    qed
  qed
qed

text \<open>When every round ends, the loop returns at the first round whose result is final.\<close>

lemma loop_returns:
  assumes "r \<in> set rs" "\<And>r s. snd (step r s) \<noteq> None" "\<And>s s' e. step r s = (s', Some e) \<Longrightarrow> \<not> again r e"
  shows "\<exists>s' q. loop rs s = (s', Some q)"
  using assms(1)
proof (induction rs arbitrary: s)
  case (Cons x rs)
  obtain s1 e where e: "step x s = (s1, Some e)" using assms(2) [of x s] by (cases "step x s") auto
  then show ?case using Cons assms(3) by (auto simp: loop_Cons)
qed simp

lemma loop_keeps:
  assumes "P s" "\<And>r s. P s \<Longrightarrow> P (fst (step r s))"
  shows "P (fst (loop rs s))"
  using assms(1)
proof (induction rs arbitrary: s)
  case (Cons r rs)
  obtain s1 x where x: "step r s = (s1, x)" by fastforce
  have "P s1" using assms(2) [OF Cons.prems, of r] x by simp
  with Cons.IH x show ?case by (cases x) (simp_all add: loop_Cons)
qed (simp add: loop_Nil)

end

end
