(* ===== verification/Signal_Client.thy ===== *)
theory Signal_Client
  imports Signal_Server Retry
begin

text \<open>
  The client of the Signal Exchange: \<open>signal/client/client.go\<close> (credentials as messages) and
  \<open>signal/client/grpc.go\<close> (the connection to the service). The gRPC connection is outside the
  program: its state, the results of opening a stream, of its header and of \<open>Recv\<close> are
  arguments. Goroutines that wait for the connection hold the number of the channel they wait
  on; the numbers of the closed channels are kept in the client.
\<close>

section \<open>Messages and credentials\<close>

text \<open>An enumeration of protobuf is open: \<open>Body_Other\<close> is a number the program does not know.\<close>

datatype Body_Type = Body_OFFER | Body_ANSWER | Body_CANDIDATE | Body_Other

record Sig_Body =
  Body_Type :: Body_Type
  Body_Payload :: string

record Sig_Message =
  SigMsg_Key :: string
  SigMsg_RemoteKey :: string
  SigMsg_Body :: Sig_Body

record Credential =
  Cred_UFrag :: string
  Cred_Pwd :: string

definition UnMarshalCredential :: "Sig_Message \<Rightarrow> Credential outcome" where
  "UnMarshalCredential msg =
     (case split_on (CHR '':'') (Body_Payload (SigMsg_Body msg)) of
        [u, p] \<Rightarrow> Ret \<lparr>Cred_UFrag = u, Cred_Pwd = p\<rparr>
      | _ \<Rightarrow> Err (PlainError (''error parsing message body '' @ Body_Payload (SigMsg_Body msg))))"

definition MarshalCredential :: "Box \<Rightarrow> string \<Rightarrow> string \<Rightarrow> Credential \<Rightarrow> Body_Type \<Rightarrow> Sig_Message outcome" where
  "MarshalCredential box myKey remoteKey credential t =
     Ret \<lparr>SigMsg_Key = public_key box myKey, SigMsg_RemoteKey = remoteKey,
          SigMsg_Body = \<lparr>Body_Type = t, Body_Payload = Cred_UFrag credential @ '':'' @ Cred_Pwd credential\<rparr>\<rparr>"

section \<open>The client\<close>

datatype Client_Status = StreamConnected | StreamDisconnected

datatype connectivity = Conn_Idle | Conn_Connecting | Conn_Ready | Conn_TransientFailure | Conn_Shutdown

record Sig_Client =
  sc_key :: string
  sc_stream :: "nat option"
  sc_connectedCh :: "nat option"
  sc_closed :: "nat list"
  sc_made :: nat
  sc_status :: Client_Status

record Sig_Env =
  sc_box :: Box
  sc_nonce :: "bytes outcome"
  marshal_body :: "Sig_Body \<Rightarrow> bytes outcome"
  unmarshal_body :: "bytes \<Rightarrow> Sig_Body outcome"

text \<open>\<open>NewClient\<close>, given the result of dialling.\<close>

definition NewClient :: "string \<Rightarrow> unit outcome \<Rightarrow> Sig_Client outcome" where
  "NewClient key dialled =
     (case dialled of
        Err e \<Rightarrow> Err e
      | Panic p \<Rightarrow> Panic p
      | Ret u \<Rightarrow> Ret \<lparr>sc_key = key, sc_stream = None, sc_connectedCh = None, sc_closed = [], sc_made = 0,
                    sc_status = StreamDisconnected\<rparr>)"

definition client_StreamConnected :: "Sig_Client \<Rightarrow> bool" where
  "client_StreamConnected c \<longleftrightarrow> sc_status c = StreamConnected"

definition client_GetStatus :: "Sig_Client \<Rightarrow> Client_Status" where
  "client_GetStatus c = sc_status c"

definition Ready :: "connectivity \<Rightarrow> bool" where
  "Ready state \<longleftrightarrow> state = Conn_Ready \<or> state = Conn_Idle"

definition notifyStreamDisconnected :: "Sig_Client \<Rightarrow> Sig_Client" where
  "notifyStreamDisconnected c = c\<lparr>sc_status := StreamDisconnected\<rparr>"

definition notifyStreamConnected :: "Sig_Client \<Rightarrow> Sig_Client" where
  "notifyStreamConnected c =
     (let c1 = c\<lparr>sc_status := StreamConnected\<rparr>
      in case sc_connectedCh c1 of
           Some ch \<Rightarrow> c1\<lparr>sc_closed := ch # sc_closed c1, sc_connectedCh := None\<rparr>
         | None \<Rightarrow> c1)"

definition getStreamStatusChan :: "Sig_Client \<Rightarrow> Sig_Client \<times> nat" where
  "getStreamStatusChan c =
     (case sc_connectedCh c of
        Some ch \<Rightarrow> (c, ch)
      | None \<Rightarrow> (c\<lparr>sc_connectedCh := Some (sc_made c), sc_made := Suc (sc_made c)\<rparr>, sc_made c))"

text \<open>
  \<open>WaitStreamConnected\<close> in its two steps: the status is read without the mutex, then, unless it
  was \<open>Connected\<close>, the channel to wait on is fetched. Between the steps other goroutines run.
\<close>

definition wait_check :: "Sig_Client \<Rightarrow> bool" where
  "wait_check c \<longleftrightarrow> sc_status c = StreamConnected"

definition WaitStreamConnected :: "Sig_Client \<Rightarrow> Sig_Client \<times> nat option" where
  "WaitStreamConnected c =
     (if wait_check c then (c, None) else (case getStreamStatusChan c of (c', ch) \<Rightarrow> (c', Some ch)))"

text \<open>\<open>connect\<close>: the stream is kept even when its header does not arrive.\<close>

definition connect ::
  "Sig_Client \<Rightarrow> nat outcome \<Rightarrow> (string \<rightharpoonup> string list) outcome \<Rightarrow> Sig_Client \<times> nat outcome" where
  "connect c0 opened header =
     (let c = c0\<lparr>sc_stream := None\<rparr>
      in case opened of
           Err e \<Rightarrow> (c, Err e)
         | Panic p \<Rightarrow> (c, Panic p)
         | Ret stream \<Rightarrow>
             (let c1 = c\<lparr>sc_stream := Some stream\<rparr>
              in case header of
                   Err e \<Rightarrow> (c1, Err e)
                 | Panic p \<Rightarrow> (c1, Panic p)
                 | Ret h \<Rightarrow>
                     (case h HeaderRegistered of
                        Some (v # vs) \<Rightarrow> (c1, Ret stream)
                      | _ \<Rightarrow> (c1, Err (PlainError
                          ''didn't receive a registration header from the Signal server whille connecting to the streams'')))))"

definition decryptMessage :: "Sig_Env \<Rightarrow> Sig_Client \<Rightarrow> Sig_EncryptedMessage \<Rightarrow> Sig_Message outcome" where
  "decryptMessage env c msg =
     (case parse_key (sc_box env) (SigEnc_Key msg) of
        Err e \<Rightarrow> Err e
      | Panic p \<Rightarrow> Panic p
      | Ret remoteKey \<Rightarrow>
          (case DecryptMessage (sc_box env) (sc_nonce env) (unmarshal_body env) remoteKey (sc_key c) (SigEnc_Body msg) of
             Err e \<Rightarrow> Err e
           | Panic p \<Rightarrow> Panic p
           | Ret body \<Rightarrow> Ret \<lparr>SigMsg_Key = SigEnc_Key msg, SigMsg_RemoteKey = SigEnc_RemoteKey msg, SigMsg_Body = body\<rparr>))"

definition encryptMessage :: "Sig_Env \<Rightarrow> Sig_Client \<Rightarrow> Sig_Message \<Rightarrow> Sig_EncryptedMessage outcome" where
  "encryptMessage env c msg =
     (case parse_key (sc_box env) (SigMsg_RemoteKey msg) of
        Err e \<Rightarrow> Err e
      | Panic p \<Rightarrow> Panic p
      | Ret remoteKey \<Rightarrow>
          (case EncryptMessage (sc_box env) (sc_nonce env) (marshal_body env) remoteKey (sc_key c) (SigMsg_Body msg) of
             Err e \<Rightarrow> Err e
           | Panic p \<Rightarrow> Panic p
           | Ret encryptedBody \<Rightarrow>
               Ret \<lparr>SigEnc_Key = SigMsg_Key msg, SigEnc_RemoteKey = SigMsg_RemoteKey msg, SigEnc_Body = encryptedBody\<rparr>))"

text \<open>\<open>Send\<close> and \<open>SendToStream\<close>; the call of the service is an argument.\<close>

definition client_Send ::
  "Sig_Env \<Rightarrow> connectivity \<Rightarrow> ('s \<Rightarrow> Sig_EncryptedMessage \<Rightarrow> 's \<times> Sig_EncryptedMessage outcome) \<Rightarrow>
     Sig_Client \<Rightarrow> 's \<Rightarrow> Sig_Message \<Rightarrow> 's \<times> unit outcome" where
  "client_Send env state realClient_Send c s msg =
     (if \<not> Ready state then (s, Err (PlainError ''no connection to signal''))
      else (case encryptMessage env c msg of
              Err e \<Rightarrow> (s, Err e)
            | Panic p \<Rightarrow> (s, Panic p)
            | Ret encryptedMessage \<Rightarrow>
                (case realClient_Send s encryptedMessage of
                   (s', Err e) \<Rightarrow> (s', Err e)
                 | (s', Panic p) \<Rightarrow> (s', Panic p)
                 | (s', Ret ack) \<Rightarrow> (s', Ret ()))))"

definition SendToStream ::
  "connectivity \<Rightarrow> (nat \<Rightarrow> Sig_EncryptedMessage \<Rightarrow> unit outcome) \<Rightarrow> Sig_Client \<Rightarrow> Sig_EncryptedMessage \<Rightarrow> unit outcome" where
  "SendToStream state stream_Send c msg =
     (if \<not> Ready state then Err (PlainError ''no connection to signal'')
      else (case sc_stream c of
              None \<Rightarrow> Err (PlainError (''connection to the Signal Exchnage has not been established yet. '' @
                ''Please call GrpcClient.Receive before sending messages''))
            | Some stream \<Rightarrow> stream_Send stream msg))"

section \<open>Receiving\<close>

text \<open>
  The loop of \<open>receive\<close> on the results of \<open>Recv\<close>; \<open>None\<close> means that it waits for the next one.
  Whatever the error of \<open>Recv\<close> is, the loop ends with it. A message that cannot be decrypted is
  handed to the handler as a nil pointer; an error of the handler is logged.
\<close>

fun receive ::
  "Sig_Env \<Rightarrow> Sig_Client \<Rightarrow> ('h \<Rightarrow> Sig_Message option \<Rightarrow> 'h \<times> unit outcome) \<Rightarrow>
     Sig_EncryptedMessage outcome list \<Rightarrow> 'h \<Rightarrow> 'h \<times> unit outcome option" where
  "receive env c msgHandler [] h = (h, None)"
| "receive env c msgHandler (Err e # rs) h = (h, Some (Err e))"
| "receive env c msgHandler (Panic p # rs) h = (h, Some (Panic p))"
| "receive env c msgHandler (Ret msg # rs) h =
     (case decryptMessage env c msg of
        Panic p \<Rightarrow> (h, Some (Panic p))
      | Err e \<Rightarrow>
          (case msgHandler h None of
             (h', Panic p) \<Rightarrow> (h', Some (Panic p))
           | (h', _) \<Rightarrow> receive env c msgHandler rs h')
      | Ret decryptedMessage \<Rightarrow>
          (case msgHandler h (Some decryptedMessage) of
             (h', Panic p) \<Rightarrow> (h', Some (Panic p))
           | (h', _) \<Rightarrow> receive env c msgHandler rs h'))"

text \<open>What the outside world does in one round of \<open>Receive\<close>, and whether the backoff stops after it.\<close>

record Sig_Round =
  round_state :: connectivity
  round_stream :: "nat outcome"
  round_header :: "(string \<rightharpoonup> string list) outcome"
  round_recvs :: "Sig_EncryptedMessage outcome list"
  round_stop :: bool

definition receive_operation ::
  "Sig_Env \<Rightarrow> ('h \<Rightarrow> Sig_Message option \<Rightarrow> 'h \<times> unit outcome) \<Rightarrow> Sig_Round \<Rightarrow> Sig_Client \<Rightarrow> 'h \<Rightarrow>
     Sig_Client \<times> 'h \<times> unit outcome option" where
  "receive_operation env msgHandler r c0 h =
     (let c = notifyStreamDisconnected c0
      in if \<not> Ready (round_state r) then (c, h, Some (Err (PlainError ''no connection to signal'')))
         else (case connect c (round_stream r) (round_header r) of
                 (c1, Err e) \<Rightarrow> (c1, h, Some (Err e))
               | (c1, Panic p) \<Rightarrow> (c1, h, Some (Panic p))
               | (c1, Ret stream) \<Rightarrow>
                   (let c2 = notifyStreamConnected c1
                    in case receive env c2 msgHandler (round_recvs r) h of (h', result) \<Rightarrow> (c2, h', result))))"

text \<open>\<open>backoff.Retry\<close>: the operation is repeated until it succeeds or the backoff stops.\<close>

fun Receive ::
  "Sig_Env \<Rightarrow> ('h \<Rightarrow> Sig_Message option \<Rightarrow> 'h \<times> unit outcome) \<Rightarrow> Sig_Round list \<Rightarrow> Sig_Client \<Rightarrow> 'h \<Rightarrow>
     Sig_Client \<times> 'h \<times> unit outcome option" where
  "Receive env msgHandler [] c h = (c, h, None)"
| "Receive env msgHandler (r # rs) c h =
     (case receive_operation env msgHandler r c h of
        (c', h', None) \<Rightarrow> (c', h', None)
      | (c', h', Some (Ret u)) \<Rightarrow> (c', h', Some (Ret u))
      | (c', h', Some (Panic p)) \<Rightarrow> (c', h', Some (Panic p))
      | (c', h', Some (Err e)) \<Rightarrow>
          if round_stop r then (c', h', Some (Err e)) else Receive env msgHandler rs c' h')"

section \<open>Credentials survive the exchange\<close>

lemma marshal_split:
  "split_on (CHR '':'') (u @ '':'' @ p) = [u, p] \<longleftrightarrow> CHR '':'' \<notin> set u \<union> set p"
proof
  assume s: "split_on (CHR '':'') (u @ '':'' @ p) = [u, p]"
  then have "count_list (u @ '':'' @ p) (CHR '':'') = 1"
    using length_split_on [of "CHR '':''" "u @ '':'' @ p"] by simp
  then show "CHR '':'' \<notin> set u \<union> set p" by (auto simp: count_list_append count_list_0_iff)
qed (auto simp: split_on_append split_on_no_sep)

text \<open>
  A credential comes out of its message as it went in exactly if neither of its parts has a
  colon, which the ICE credentials (letters, digits, plus and slash) never have.
\<close>

theorem credential_round_trip:
  "(\<forall>msg. MarshalCredential box k r cred t = Ret msg \<longrightarrow> UnMarshalCredential msg = Ret cred) \<longleftrightarrow>
     CHR '':'' \<notin> set (Cred_UFrag cred) \<union> set (Cred_Pwd cred)"
  using marshal_split [of "Cred_UFrag cred" "Cred_Pwd cred"]
  by (auto simp: MarshalCredential_def UnMarshalCredential_def split: list.splits)

theorem credential_round_trip_witness:
  "UnMarshalCredential \<lparr>SigMsg_Key = ''k'', SigMsg_RemoteKey = ''r'',
     SigMsg_Body = \<lparr>Body_Type = Body_OFFER, Body_Payload = ''uf:pw''\<rparr>\<rparr> = Ret \<lparr>Cred_UFrag = ''uf'', Cred_Pwd = ''pw''\<rparr>"
  using credential_round_trip [of ex_box "''k''" "''r''" "\<lparr>Cred_UFrag = ''uf'', Cred_Pwd = ''pw''\<rparr>" Body_OFFER]
  by (simp add: MarshalCredential_def ex_box_def)

section \<open>From one client through the service to the other\<close>

definition codec_ok :: "Sig_Env \<Rightarrow> bool" where
  "codec_ok env \<longleftrightarrow> (\<forall>m x. marshal_body env m = Ret x \<longrightarrow> unmarshal_body env x = Ret m)"

text \<open>
  C26: a message that one client sends reaches the other client unchanged: when the service has
  both registered and the stream of the receiver works, the sending client reports success, the
  service writes one message to the stream of the receiver, and what the receiving client
  decrypts from it is the message that was sent. The box, the codec and the parsing of keys are
  assumed to be correct.
\<close>

theorem signal_end_to_end:
  assumes "box_correct b" "codec_ok env" "sc_box env = b" "sc_nonce env = Ret n" "length n = 24"
    and keys: "\<And>k. parse_key b (public_key b k) = Ret (public_key b k)"
    and "marshal_body env (SigMsg_Body msg) = Ret body" "Ready state"
    and "SigMsg_Key msg = public_key b (sc_key alice)" "SigMsg_RemoteKey msg = public_key b (sc_key bob)"
    and "IsPeerRegistered (sig_registry s) (SigMsg_Key msg)"
    and "Registry_Get (sig_registry s) (SigMsg_RemoteKey msg) = Some p" "\<not> broken (SigPeer_Stream p)"
  shows "\<exists>s' enc. client_Send env state (Sig_Send broken) alice s msg = (s', Ret ()) \<and>
    sig_sent s' (SigPeer_Stream p) = sig_sent s (SigPeer_Stream p) @ [enc] \<and>
    decryptMessage env bob enc = Ret msg"
proof -
  obtain c where c: "EncryptMessage b (Ret n) (marshal_body env) (public_key b (sc_key bob)) (sc_key alice) (SigMsg_Body msg) = Ret c"
    using assms(7) by (simp add: EncryptMessage_def Encrypt_def)
  let ?enc = "\<lparr>SigEnc_Key = SigMsg_Key msg, SigEnc_RemoteKey = SigMsg_RemoteKey msg, SigEnc_Body = c\<rparr>"
  have "encryptMessage env alice msg = Ret ?enc"
    using c assms(3,4,10) keys by (simp add: encryptMessage_def)
  moreover have "Sig_Send broken s ?enc = (forward broken s ?enc, Ret \<lparr>SigEnc_Key = [], SigEnc_RemoteKey = [], SigEnc_Body = []\<rparr>)"
    using assms(11) by (simp add: Sig_Send_def)
  moreover have "sig_sent (forward broken s ?enc) (SigPeer_Stream p) = sig_sent s (SigPeer_Stream p) @ [?enc]"
    using assms(12,13) by (simp add: forward_sent Registry_Get_def)
  moreover have dec: "DecryptMessage b (Ret n) (unmarshal_body env) (public_key b (sc_key alice)) (sc_key bob) c = Ret (SigMsg_Body msg)"
    using c decrypt_encrypt [OF assms(1,5)] assms(2,7)
    by (auto simp: EncryptMessage_def DecryptMessage_def codec_ok_def)
  moreover have "decryptMessage env bob ?enc = Ret msg"
    using dec assms(3,4,9) keys by (simp add: decryptMessage_def)
  ultimately show ?thesis using assms(8) by (auto simp: client_Send_def)
qed

definition ex_sig_client :: "string \<Rightarrow> Sig_Client" where
  "ex_sig_client k = \<lparr>sc_key = k, sc_stream = Some 0, sc_connectedCh = None, sc_closed = [], sc_made = 0,
     sc_status = StreamConnected\<rparr>"

definition ex_body :: Sig_Body where
  "ex_body = \<lparr>Body_Type = Body_OFFER, Body_Payload = ''uf:pw''\<rparr>"

definition ex_sig_env :: Sig_Env where
  "ex_sig_env = \<lparr>sc_box = ex_box, sc_nonce = Ret (replicate 24 0),
     marshal_body = (\<lambda>m. if m = ex_body then Ret [1] else Err (PlainError ''marshal'')),
     unmarshal_body = (\<lambda>x. Ret ex_body)\<rparr>"

theorem signal_end_to_end_witness:
  "\<exists>s' enc. client_Send ex_sig_env Conn_Ready (Sig_Send (\<lambda>_. False)) (ex_sig_client ''a'')
     (Sig_NewServer\<lparr>sig_registry := [''a'' \<mapsto> NewPeer ''a'' 0, ''b'' \<mapsto> NewPeer ''b'' 1]\<rparr>)
     \<lparr>SigMsg_Key = ''a'', SigMsg_RemoteKey = ''b'', SigMsg_Body = ex_body\<rparr> = (s', Ret ()) \<and>
     sig_sent s' 1 = [enc] \<and>
     decryptMessage ex_sig_env (ex_sig_client ''b'') enc =
       Ret \<lparr>SigMsg_Key = ''a'', SigMsg_RemoteKey = ''b'', SigMsg_Body = ex_body\<rparr>"
proof -
  let ?s = "Sig_NewServer\<lparr>sig_registry := [''a'' \<mapsto> NewPeer ''a'' 0, ''b'' \<mapsto> NewPeer ''b'' 1]\<rparr>"
  let ?m = "\<lparr>SigMsg_Key = ''a'', SigMsg_RemoteKey = ''b'', SigMsg_Body = ex_body\<rparr>"
  have "\<exists>s' enc. client_Send ex_sig_env Conn_Ready (Sig_Send (\<lambda>_. False)) (ex_sig_client ''a'') ?s ?m = (s', Ret ()) \<and>
     sig_sent s' (SigPeer_Stream (NewPeer ''b'' 1)) = sig_sent ?s (SigPeer_Stream (NewPeer ''b'' 1)) @ [enc] \<and>
     decryptMessage ex_sig_env (ex_sig_client ''b'') enc = Ret ?m"
    by (rule signal_end_to_end [of ex_box _ "replicate 24 0" _ "[1]"])
      (auto simp: ex_box_def ex_sig_env_def box_correct_def codec_ok_def ex_sig_client_def Ready_def
        IsPeerRegistered_def Registry_Get_def split: if_splits)
  then show ?thesis by (simp add: NewPeer_def Sig_NewServer_def)
qed

section \<open>Goroutines that wait for the connection\<close>

text \<open>The steps of the client that concern the waiting goroutines, in any order.\<close>

inductive sc_run :: "Sig_Client \<Rightarrow> bool" where
  new: "NewClient key dialled = Ret c \<Longrightarrow> sc_run c"
| disconnected: "sc_run c \<Longrightarrow> sc_run (notifyStreamDisconnected c)"
| connected: "sc_run c \<Longrightarrow> sc_run (notifyStreamConnected c)"
| wait: "sc_run c \<Longrightarrow> sc_run (fst (getStreamStatusChan c))"
| reconnect: "sc_run c \<Longrightarrow> sc_run (fst (connect c opened header))"

definition sc_ok :: "Sig_Client \<Rightarrow> bool" where
  "sc_ok c \<longleftrightarrow> distinct (sc_closed c) \<and>
     {..<sc_made c} = set (sc_closed c) \<union> set_option (sc_connectedCh c) \<and>
     set (sc_closed c) \<inter> set_option (sc_connectedCh c) = {}"

lemma sc_run_ok: "sc_run c \<Longrightarrow> sc_ok c"
proof (induction rule: sc_run.induct)
  case (new key dialled c)
  then show ?case by (auto simp: NewClient_def sc_ok_def split: outcome.splits)
next
  case (connected c)
  then show ?case by (auto simp: notifyStreamConnected_def sc_ok_def Let_def split: option.splits)
next
  case (wait c)
  then show ?case
    by (auto simp: getStreamStatusChan_def sc_ok_def lessThan_Suc split: option.splits)
next
  case (reconnect c opened header)
  then show ?case by (auto simp: connect_def sc_ok_def Let_def split: outcome.splits option.splits list.splits)
qed (auto simp: notifyStreamDisconnected_def sc_ok_def)

text \<open>
  When the stream is connected every goroutine that waits for it goes on: each channel that
  was ever handed out is closed then, and no channel is closed twice, which would panic.
\<close>

theorem waiters_released:
  assumes "sc_run c"
  shows "set (sc_closed (notifyStreamConnected c)) = {..<sc_made c} \<and> distinct (sc_closed (notifyStreamConnected c))"
  using sc_run_ok [OF assms] by (auto simp: sc_ok_def notifyStreamConnected_def Let_def split: option.splits)

theorem waiters_released_witness:
  "set (sc_closed (notifyStreamConnected (fst (getStreamStatusChan
     \<lparr>sc_key = ''k'', sc_stream = None, sc_connectedCh = None, sc_closed = [], sc_made = 0,
      sc_status = StreamDisconnected\<rparr>)))) = {0}"
proof -
  have "sc_run (fst (getStreamStatusChan \<lparr>sc_key = ''k'', sc_stream = None, sc_connectedCh = None, sc_closed = [],
      sc_made = 0, sc_status = StreamDisconnected\<rparr>))"
    by (rule sc_run.wait, rule sc_run.new [of "''k''" "Ret ()"]) (simp add: NewClient_def)
  from waiters_released [OF this] show ?thesis by (simp add: getStreamStatusChan_def lessThan_Suc)
qed

text \<open>
  A goroutine can miss the connection: it reads the status while the client is not connected,
  the stream is connected before it has fetched its channel, and then it waits on a channel that
  is open although the client is connected.
\<close>

theorem wait_lost_wakeup:
  assumes "sc_run c" "\<not> wait_check c"
  shows "\<exists>c' ch. getStreamStatusChan (notifyStreamConnected c) = (c', ch) \<and>
    client_StreamConnected c' \<and> ch \<notin> set (sc_closed c')"
  using sc_run_ok [OF assms(1)]
  by (auto simp: notifyStreamConnected_def getStreamStatusChan_def client_StreamConnected_def Let_def sc_ok_def
      split: option.splits)

theorem wait_lost_wakeup_witness:
  "\<exists>c c' ch. sc_run c \<and> getStreamStatusChan (notifyStreamConnected c) = (c', ch) \<and>
     client_StreamConnected c' \<and> ch \<notin> set (sc_closed c')"
proof -
  obtain c where c: "NewClient ''k'' (Ret ()) = Ret c" by (simp add: NewClient_def)
  then have "\<not> wait_check c" by (auto simp: NewClient_def wait_check_def)
  with wait_lost_wakeup [OF sc_run.new [OF c]] sc_run.new [OF c] show ?thesis by blast
qed

section \<open>Receiving never ends well\<close>

lemma receive_no_ret: "snd (receive env c msgHandler rs h) \<noteq> Some (Ret u)"
proof (induction rs arbitrary: h)
  case (Cons x rs)
  then show ?case by (cases x) (auto split: outcome.splits prod.splits)
qed simp

lemma operation_no_ret: "snd (snd (receive_operation env msgHandler r c h)) \<noteq> Some (Ret u)"
  using receive_no_ret [of env _ msgHandler "round_recvs r" h u]
  by (auto simp: receive_operation_def Let_def case_prod_beta split: outcome.splits)

text \<open>\<open>Receive\<close> as a retry loop: its state is the client with the state of the handler.\<close>

definition operation_step ::
  "Sig_Env \<Rightarrow> ('h \<Rightarrow> Sig_Message option \<Rightarrow> 'h \<times> unit outcome) \<Rightarrow> Sig_Round \<Rightarrow> Sig_Client \<times> 'h \<Rightarrow>
     (Sig_Client \<times> 'h) \<times> unit outcome option" where
  "operation_step env msgHandler r s = (case receive_operation env msgHandler r (fst s) (snd s) of (c, h, q) \<Rightarrow> ((c, h), q))"

fun operation_again :: "Sig_Round \<Rightarrow> unit outcome \<Rightarrow> bool" where
  "operation_again r (Err e) = (\<not> round_stop r)"
| "operation_again r q = False"

interpretation sig_retry: retry_loop "operation_step env msgHandler" operation_again "\<lambda>q. q"
  "\<lambda>rs s. case Receive env msgHandler rs (fst s) (snd s) of (c, h, q) \<Rightarrow> ((c, h), q)" for env msgHandler
  by unfold_locales (auto simp: operation_step_def split: prod.splits option.splits outcome.splits)

text \<open>
  \<open>Receive\<close> never returns without an error, and it returns an error only after a round at
  which the backoff stopped; until then every failed round is followed by another one.
\<close>

theorem receive_retries:
  assumes "Receive env msgHandler rs c h = (c', h', Some result)"
  shows "(\<exists>p. result = Panic p) \<or> (\<exists>e. result = Err e \<and> (\<exists>r \<in> set rs. round_stop r))"
proof -
  from sig_retry.loop_result [where rs = rs and s = "(c, h)" and env = env and msgHandler = msgHandler] assms
  obtain r t q where q: "r \<in> set rs" "operation_step env msgHandler r t = ((c', h'), Some q)" "\<not> operation_again r q" "result = q"
    by fastforce
  have "snd (operation_step env msgHandler r t) \<noteq> Some (Ret u)" for u
    using operation_no_ret [of env msgHandler r "fst t" "snd t" u] by (auto simp: operation_step_def split: prod.splits)
  with q show ?thesis by (cases q) auto
qed

theorem receive_retries_witness:
  "\<exists>e. snd (snd (Receive ex_sig_env (\<lambda>h m. (h, Ret ()))
     [\<lparr>round_state = Conn_Shutdown, round_stream = Ret 0, round_header = Ret Map.empty, round_recvs = [], round_stop = True\<rparr>]
     (ex_sig_client ''a'') ())) = Some (Err e)"
proof -
  let ?rs = "[\<lparr>round_state = Conn_Shutdown, round_stream = Ret 0, round_header = Ret Map.empty, round_recvs = [],
      round_stop = True\<rparr>]"
  obtain c' where r: "Receive ex_sig_env (\<lambda>h m. (h, Ret ())) ?rs (ex_sig_client ''a'') () =
      (c', (), Some (Err (PlainError ''no connection to signal'')))"
    by (simp add: receive_operation_def Ready_def Let_def)
  from receive_retries [OF r] r show ?thesis by auto
qed

end
