(* ===== verification/Peer_Conn.thy ===== *)
theory Peer_Conn
  imports Wg_Iface Signal_Client "HOL-Library.List_Lexorder" "HOL-Library.Char_ord"
begin

text \<open>
  The connection to one remote peer: \<open>client/internal/peer/conn.go\<close>, \<open>status.go\<close> and
  \<open>error.go\<close>. \<open>Conn.Open\<close> runs in a goroutine and blocks in three places: in the first
  \<open>select\<close>, while ICE establishes the connection, and in the last \<open>select\<close>. The model has one
  definition per piece between two of these points, and a field that tells where the goroutine
  is. The channels of the connection are unbuffered: a non-blocking send on one of them
  succeeds exactly if the goroutine waits in a \<open>select\<close> that receives from it.

  The ICE agent (\<open>pion/ice\<close>) and the network are outside the program: the records \<open>Ice\<close> and
  \<open>Proxy_Net\<close> hold the results of the calls of one piece of code.
\<close>

section \<open>Data\<close>

datatype ConnStatus = StatusConnected | StatusConnecting | StatusDisconnected

fun ConnStatus_String :: "ConnStatus \<Rightarrow> string" where
  "ConnStatus_String StatusConnecting = ''StatusConnecting''"
| "ConnStatus_String StatusConnected = ''StatusConnected''"
| "ConnStatus_String StatusDisconnected = ''StatusDisconnected''"

record ConnConfig =
  Conn_Key :: string
  Conn_LocalKey :: string
  Conn_StunTurn :: "string list"
  Conn_InterfaceBlackList :: "string list"
  Conn_Timeout :: int
  Conn_ProxyConfig :: Proxy_Config

datatype CandidateType = CandidateHost | CandidateServerReflexive | CandidatePeerReflexive | CandidateRelay

record Candidate =
  Cand_IP :: IP
  Cand_Type :: CandidateType

record CandidatePair =
  Pair_Local :: Candidate
  Pair_Remote :: Candidate

datatype open_point = NotOpen | AwaitingRemote | Dialling Credential | Running

record Conn =
  conn_config :: ConnConfig
  conn_status :: ConnStatus
  conn_agent :: bool
  conn_proxy :: "Proxy option"
  conn_ctx :: "bool option"
  conn_at :: open_point

record Ice =
  ice_NewAgent :: "unit outcome"
  ice_callbacks :: "unit outcome"
  ice_credentials :: "Credential outcome"
  ice_Gather :: "unit outcome"
  ice_pair :: "CandidatePair outcome"
  ice_Close :: "unit outcome"
  signalOffer :: "Credential \<Rightarrow> unit outcome"
  signalAnswer :: "Credential \<Rightarrow> unit outcome"

text \<open>The errors of \<open>error.go\<close>, by their texts (without the duration of a timeout).\<close>

definition NewConnectionTimeoutError :: "string \<Rightarrow> int \<Rightarrow> GoError" where
  "NewConnectionTimeoutError peer timeout = PlainError (''connection to peer '' @ peer @ '' timed out'')"

definition NewConnectionClosedError :: "string \<Rightarrow> GoError" where
  "NewConnectionClosedError peer = PlainError (''connection to peer '' @ peer @ '' has been closed'')"

definition NewConnectionDisconnectedError :: "string \<Rightarrow> GoError" where
  "NewConnectionDisconnectedError peer = PlainError (''disconnected from peer '' @ peer)"

definition NewConnectionAlreadyClosed :: "string \<Rightarrow> GoError" where
  "NewConnectionAlreadyClosed peer = PlainError (''connection to peer '' @ peer @ '' has been already closed'')"

definition NewConn :: "ConnConfig \<Rightarrow> Conn outcome" where
  "NewConn config =
     Ret \<lparr>conn_config = config, conn_status = StatusDisconnected, conn_agent = False, conn_proxy = None,
          conn_ctx = None, conn_at = NotOpen\<rparr>"

text \<open>The interface filter of the agent; \<open>is_wg\<close> tells which interfaces are Wireguard devices.\<close>

definition interfaceFilter :: "(string \<Rightarrow> bool) \<Rightarrow> string list \<Rightarrow> string \<Rightarrow> bool" where
  "interfaceFilter is_wg blackList iFace \<longleftrightarrow> iFace \<notin> set blackList \<and> \<not> is_wg iFace"

section \<open>Direct or through a proxy\<close>

text \<open>\<open>ip.To4()\<close>: an IPv4 address, or an IPv6 address that maps one.\<close>

definition To4 :: "IP \<Rightarrow> IP option" where
  "To4 ip =
     (if length ip = 4 then Some ip
      else if length ip = 16 \<and> take 12 ip = replicate 10 0 @ [255, 255] then Some (drop 12 ip)
      else None)"

definition IsLoopback :: "IP \<Rightarrow> bool" where
  "IsLoopback ip =
     (case To4 ip of Some ip4 \<Rightarrow> ip4 ! 0 = 127 | None \<Rightarrow> ip = replicate 15 0 @ [1])"

definition IsLinkLocalUnicast :: "IP \<Rightarrow> bool" where
  "IsLinkLocalUnicast ip =
     (case To4 ip of
        Some ip4 \<Rightarrow> ip4 ! 0 = 169 \<and> ip4 ! 1 = 254
      | None \<Rightarrow> length ip = 16 \<and> ip ! 0 = 254 \<and> ip ! 1 AND 192 = 128)"

definition IsLinkLocalMulticast :: "IP \<Rightarrow> bool" where
  "IsLinkLocalMulticast ip =
     (case To4 ip of
        Some ip4 \<Rightarrow> ip4 ! 0 = 224 \<and> ip4 ! 1 = 0 \<and> ip4 ! 2 = 0
      | None \<Rightarrow> length ip = 16 \<and> ip ! 0 = 255 \<and> ip ! 1 AND 15 = 2)"

definition IsPrivate :: "IP \<Rightarrow> bool" where
  "IsPrivate ip =
     (case To4 ip of
        Some ip4 \<Rightarrow> ip4 ! 0 = 10 \<or> ip4 ! 0 = 172 \<and> ip4 ! 1 AND 240 = 16 \<or> ip4 ! 0 = 192 \<and> ip4 ! 1 = 168
      | None \<Rightarrow> length ip = 16 \<and> ip ! 0 AND 254 = 252)"

definition IsPublicIP :: "IP \<Rightarrow> bool" where
  "IsPublicIP ip =
     (if IsLoopback ip \<or> IsLinkLocalUnicast ip \<or> IsLinkLocalMulticast ip \<or> IsPrivate ip then False else True)"

definition shouldUseProxy :: "CandidatePair \<Rightarrow> bool" where
  "shouldUseProxy pair =
     (let remoteIsPublic = IsPublicIP (Cand_IP (Pair_Remote pair));
          myIsPublic = IsPublicIP (Cand_IP (Pair_Local pair))
      in if remoteIsPublic \<and> Cand_Type (Pair_Remote pair) = CandidateHost then False
         else if myIsPublic \<and> Cand_Type (Pair_Local pair) = CandidateHost then False
         else if Cand_Type (Pair_Local pair) = CandidateHost \<and> Cand_Type (Pair_Remote pair) = CandidateHost then
           (if \<not> remoteIsPublic \<and> \<not> myIsPublic then False else True)
         else True)"

section \<open>Pieces of Open\<close>

definition reCreateAgent :: "Ice \<Rightarrow> Conn \<Rightarrow> Conn \<times> unit outcome" where
  "reCreateAgent ice conn =
     (case ice_NewAgent ice of
        Err e \<Rightarrow> (conn\<lparr>conn_agent := False\<rparr>, Err e)
      | Panic p \<Rightarrow> (conn, Panic p)
      | Ret u \<Rightarrow> (conn\<lparr>conn_agent := True\<rparr>, ice_callbacks ice))"

definition sendOffer :: "Ice \<Rightarrow> Conn \<Rightarrow> unit outcome" where
  "sendOffer ice conn =
     (case ice_credentials ice of
        Err e \<Rightarrow> Err e
      | Panic p \<Rightarrow> Panic p
      | Ret cred \<Rightarrow> signalOffer ice cred)"

definition sendAnswer :: "Ice \<Rightarrow> Conn \<Rightarrow> unit outcome" where
  "sendAnswer ice conn =
     (case ice_credentials ice of
        Err e \<Rightarrow> Err e
      | Panic p \<Rightarrow> Panic p
      | Ret cred \<Rightarrow> signalAnswer ice cred)"

text \<open>
  \<open>cleanup\<close>, the deferred call of \<open>Open\<close>: an error while closing the agent or the proxy ends it
  early and leaves the rest, with the status, as it is.
\<close>

definition cleanup ::
  "'d Wg_Ctrl \<Rightarrow> Ice \<Rightarrow> Proxy_Net \<Rightarrow> 'd \<times> Conn \<Rightarrow> ('d \<times> Conn) \<times> unit outcome" where
  "cleanup ctl ice net s0 =
     on_ret (if conn_agent (snd s0) then (s0, ice_Close ice) else (s0, Ret ()))
       (\<lambda>s e. (s, Err e))
       (\<lambda>(d, conn) u.
          let conn1 = conn\<lparr>conn_agent := False\<rparr>
          in on_ret (case conn_proxy conn1 of
                       None \<Rightarrow> ((d, conn1), Ret ())
                     | Some p \<Rightarrow>
                         (case Proxy_Close ctl net d p of
                            ((d', p'), result) \<Rightarrow> ((d', conn1\<lparr>conn_proxy := Some p'\<rparr>), result)))
               (\<lambda>s e. (s, Err e))
               (\<lambda>(d, conn) u.
                  ((d, conn\<lparr>conn_proxy := None, conn_ctx := None, conn_status := StatusDisconnected\<rparr>), Ret ())))"

text \<open>
  \<open>Open\<close> returns with an error: the deferred functions run, which cancel the context of the
  connection if there is one and clean up; an error of \<open>cleanup\<close> is logged.
\<close>

definition Open_return ::
  "'d Wg_Ctrl \<Rightarrow> Ice \<Rightarrow> Proxy_Net \<Rightarrow> 'd \<times> Conn \<Rightarrow> GoError \<Rightarrow> ('d \<times> Conn) \<times> unit outcome" where
  "Open_return ctl ice net s err =
     (case cleanup ctl ice net (fst s, (snd s)\<lparr>conn_ctx := map_option (\<lambda>_. True) (conn_ctx (snd s))\<rparr>) of
        ((d, conn), Panic p) \<Rightarrow> ((d, conn), Panic p)
      | ((d, conn), _) \<Rightarrow> ((d, conn\<lparr>conn_at := NotOpen\<rparr>), Err err))"

text \<open>From the call of \<open>Open\<close> to the first \<open>select\<close>.\<close>

definition Open_start ::
  "'d Wg_Ctrl \<Rightarrow> Ice \<Rightarrow> Proxy_Net \<Rightarrow> 'd \<times> Conn \<Rightarrow> ('d \<times> Conn) \<times> unit outcome" where
  "Open_start ctl ice net s =
     (case reCreateAgent ice (snd s) of
        (conn, Err e) \<Rightarrow> Open_return ctl ice net (fst s, conn) e
      | (conn, Panic p) \<Rightarrow> ((fst s, conn), Panic p)
      | (conn, Ret u) \<Rightarrow>
          (case sendOffer ice conn of
             Err e \<Rightarrow> Open_return ctl ice net (fst s, conn) e
           | Panic p \<Rightarrow> ((fst s, conn), Panic p)
           | Ret v \<Rightarrow> ((fst s, conn\<lparr>conn_at := AwaitingRemote\<rparr>), Ret ())))"

datatype first_select = RemoteOffer Credential | RemoteAnswer Credential | TimedOut | ClosedExternally

text \<open>The case of the first \<open>select\<close> that was chosen, up to the start of the dialling.\<close>

definition Open_gather ::
  "'d Wg_Ctrl \<Rightarrow> Ice \<Rightarrow> Proxy_Net \<Rightarrow> 'd \<times> Conn \<Rightarrow> Credential \<Rightarrow> ('d \<times> Conn) \<times> unit outcome" where
  "Open_gather ctl ice net s remoteCredentials =
     (let conn = (snd s)\<lparr>conn_status := StatusConnecting, conn_ctx := Some False\<rparr>
      in case ice_Gather ice of
           Err e \<Rightarrow> Open_return ctl ice net (fst s, conn) e
         | Panic p \<Rightarrow> ((fst s, conn), Panic p)
         | Ret u \<Rightarrow> ((fst s, conn\<lparr>conn_at := Dialling remoteCredentials\<rparr>), Ret ()))"

fun Open_selected ::
  "'d Wg_Ctrl \<Rightarrow> Ice \<Rightarrow> Proxy_Net \<Rightarrow> first_select \<Rightarrow> 'd \<times> Conn \<Rightarrow> ('d \<times> Conn) \<times> unit outcome" where
  "Open_selected ctl ice net (RemoteOffer cred) s =
     (case sendAnswer ice (snd s) of
        Err e \<Rightarrow> Open_return ctl ice net s e
      | Panic p \<Rightarrow> (s, Panic p)
      | Ret u \<Rightarrow> Open_gather ctl ice net s cred)"
| "Open_selected ctl ice net (RemoteAnswer cred) s = Open_gather ctl ice net s cred"
| "Open_selected ctl ice net TimedOut s =
     Open_return ctl ice net s (NewConnectionTimeoutError (Conn_Key (conn_config (snd s))) (Conn_Timeout (conn_config (snd s))))"
| "Open_selected ctl ice net ClosedExternally s =
     Open_return ctl ice net s (NewConnectionClosedError (Conn_Key (conn_config (snd s))))"

text \<open>Which side dials: the one with the greater key.\<close>

definition isControlling :: "string \<Rightarrow> string \<Rightarrow> bool" where
  "isControlling localKey key \<longleftrightarrow> localKey > key"

definition startProxy ::
  "'d Wg_Ctrl \<Rightarrow> Ice \<Rightarrow> Proxy_Net \<Rightarrow> 'd \<times> Conn \<Rightarrow> ('d \<times> Conn) \<times> unit outcome" where
  "startProxy ctl ice net s =
     (case ice_pair ice of
        Err e \<Rightarrow> (s, Err e)
      | Panic p \<Rightarrow> (s, Panic p)
      | Ret pair \<Rightarrow>
          (let config = Conn_ProxyConfig (conn_config (snd s));
               p = (if shouldUseProxy pair then NewWireguardProxy config else NewNoProxy config)
           in case Proxy_Start ctl net (fst s) p of
                ((d, p'), Err e) \<Rightarrow> ((d, (snd s)\<lparr>conn_proxy := Some p'\<rparr>), Err e)
              | ((d, p'), Panic q) \<Rightarrow> ((d, (snd s)\<lparr>conn_proxy := Some p'\<rparr>), Panic q)
              | ((d, p'), Ret u) \<Rightarrow>
                  ((d, (snd s)\<lparr>conn_proxy := Some p', conn_status := StatusConnected\<rparr>), Ret ())))"

text \<open>The result of \<open>Dial\<close> or \<open>Accept\<close> arrives.\<close>

definition Open_dialled ::
  "'d Wg_Ctrl \<Rightarrow> Ice \<Rightarrow> Proxy_Net \<Rightarrow> unit outcome \<Rightarrow> 'd \<times> Conn \<Rightarrow> ('d \<times> Conn) \<times> unit outcome" where
  "Open_dialled ctl ice net dialled s =
     (case dialled of
        Err e \<Rightarrow> Open_return ctl ice net s e
      | Panic p \<Rightarrow> (s, Panic p)
      | Ret u \<Rightarrow>
          (case startProxy ctl ice net s of
             (s1, Err e) \<Rightarrow> Open_return ctl ice net s1 e
           | (s1, Panic p) \<Rightarrow> (s1, Panic p)
           | (s1, Ret v) \<Rightarrow> ((fst s1, (snd s1)\<lparr>conn_at := Running\<rparr>), Ret ())))"

text \<open>The last \<open>select\<close>: closed from outside or disconnected.\<close>

definition Open_over ::
  "'d Wg_Ctrl \<Rightarrow> Ice \<Rightarrow> Proxy_Net \<Rightarrow> bool \<Rightarrow> 'd \<times> Conn \<Rightarrow> ('d \<times> Conn) \<times> unit outcome" where
  "Open_over ctl ice net closed s =
     Open_return ctl ice net s
       (if closed then NewConnectionClosedError (Conn_Key (conn_config (snd s)))
        else NewConnectionDisconnectedError (Conn_Key (conn_config (snd s))))"

section \<open>Calls from outside\<close>

text \<open>
  \<open>Close\<close> sends to \<open>closeCh\<close> without blocking: it succeeds exactly while \<open>Open\<close> is in one of its
  two \<open>select\<close> statements, which then end. The result tells whether it was delivered.
\<close>

definition Conn_Close :: "Conn \<Rightarrow> unit outcome" where
  "Conn_Close conn =
     (if conn_at conn = AwaitingRemote \<or> conn_at conn = Running then Ret ()
      else Err (NewConnectionAlreadyClosed (Conn_Key (conn_config conn))))"

definition Conn_Status :: "Conn \<Rightarrow> ConnStatus" where
  "Conn_Status conn = conn_status conn"

definition OnRemoteOffer :: "Conn \<Rightarrow> bool" where
  "OnRemoteOffer conn \<longleftrightarrow> conn_at conn = AwaitingRemote"

definition OnRemoteAnswer :: "Conn \<Rightarrow> bool" where
  "OnRemoteAnswer conn \<longleftrightarrow> conn_at conn = AwaitingRemote"

text \<open>A remote candidate is added to the agent if there is one, otherwise dropped.\<close>

definition OnRemoteCandidate :: "Conn \<Rightarrow> bool" where
  "OnRemoteCandidate conn \<longleftrightarrow> conn_agent conn"

definition GetKey :: "Conn \<Rightarrow> string" where
  "GetKey conn = Conn_Key (conn_config conn)"

text \<open>
  The callback of the agent: a failed or lost connection cancels the context. Calling
  \<open>notifyDisconnected\<close> before it was set is a call of a nil function.
\<close>

definition onICEConnectionStateChange :: "bool \<Rightarrow> Conn \<Rightarrow> Conn \<times> unit outcome" where
  "onICEConnectionStateChange lost conn =
     (if lost then
        (case conn_ctx conn of
           None \<Rightarrow> (conn, Panic NilDereference)
         | Some x \<Rightarrow> (conn\<lparr>conn_ctx := Some True\<rparr>, Ret ()))
      else (conn, Ret ()))"

section \<open>The life of a connection\<close>

text \<open>
  \<open>conn_run ctl config d0 (d, conn)\<close>: a connection made with \<open>config\<close> when the device was \<open>d0\<close>
  reaches \<open>conn\<close> and the device \<open>d\<close>, by any number of calls of \<open>Open\<close>, whatever ICE, the remote
  peer, the engine and the network do; closing the agent and the proxy succeeds.
\<close>

fun no_panic :: "'a outcome \<Rightarrow> bool" where
  "no_panic (Panic p) = False"
| "no_panic r = True"

definition closes :: "Ice \<Rightarrow> Proxy_Net \<Rightarrow> bool" where
  "closes ice net \<longleftrightarrow> ice_Close ice = Ret () \<and> pn_close net = Ret ()"

inductive conn_run :: "'d Wg_Ctrl \<Rightarrow> ConnConfig \<Rightarrow> 'd \<Rightarrow> 'd \<times> Conn \<Rightarrow> bool" for ctl config d0 where
  new: "NewConn config = Ret conn \<Longrightarrow> conn_run ctl config d0 (d0, conn)"
| start: "conn_run ctl config d0 s \<Longrightarrow> conn_at (snd s) = NotOpen \<Longrightarrow> closes ice net \<Longrightarrow>
    Open_start ctl ice net s = (s', r) \<Longrightarrow> no_panic r \<Longrightarrow> conn_run ctl config d0 s'"
| select: "conn_run ctl config d0 s \<Longrightarrow> conn_at (snd s) = AwaitingRemote \<Longrightarrow> closes ice net \<Longrightarrow>
    Open_selected ctl ice net ev s = (s', r) \<Longrightarrow> no_panic r \<Longrightarrow> conn_run ctl config d0 s'"
| dialled: "conn_run ctl config d0 s \<Longrightarrow> conn_at (snd s) = Dialling cred \<Longrightarrow> closes ice net \<Longrightarrow>
    Open_dialled ctl ice net result s = (s', r) \<Longrightarrow> no_panic r \<Longrightarrow> conn_run ctl config d0 s'"
| over: "conn_run ctl config d0 s \<Longrightarrow> conn_at (snd s) = Running \<Longrightarrow> closes ice net \<Longrightarrow>
    Open_over ctl ice net closed s = (s', r) \<Longrightarrow> no_panic r \<Longrightarrow> conn_run ctl config d0 s'"
| ice_change: "conn_run ctl config d0 (d, conn) \<Longrightarrow> conn_at conn \<noteq> NotOpen \<Longrightarrow>
    onICEConnectionStateChange lost conn = (conn', Ret ()) \<Longrightarrow> conn_run ctl config d0 (d, conn')"

text \<open>The peer of the connection can be removed from the device.\<close>

definition removable :: "'d Wg_Ctrl \<Rightarrow> Proxy_Config \<Rightarrow> bool" where
  "removable ctl pc \<longleftrightarrow> (\<forall>d. snd (RemovePeer ctl (Proxy_WgInterface pc) d (Proxy_RemoteKey pc)) = Ret ())"

fun proxy_config :: "Proxy \<Rightarrow> Proxy_Config" where
  "proxy_config (NoProxy c) = c"
| "proxy_config (WireguardProxy c l x) = c"

text \<open>What holds of a connection at every point of \<open>Open\<close>.\<close>

definition conn_ok ::
  "'d Wg_Ctrl \<Rightarrow> ConnConfig \<Rightarrow> ('d \<Rightarrow> string \<rightharpoonup> IPNet list \<times> UDPAddr option) \<Rightarrow> string \<Rightarrow> 'd \<Rightarrow> 'd \<times> Conn \<Rightarrow> bool" where
  "conn_ok ctl config peers key d0 s \<longleftrightarrow>
     conn_config (snd s) = config \<and> (\<forall>k. k \<noteq> key \<longrightarrow> peers (fst s) k = peers d0 k) \<and>
     (conn_at (snd s) \<noteq> Running \<longrightarrow> conn_proxy (snd s) = None \<and> peers (fst s) key = None) \<and>
     (case conn_at (snd s) of
        NotOpen \<Rightarrow> conn_status (snd s) = StatusDisconnected \<and> \<not> conn_agent (snd s) \<and> conn_ctx (snd s) = None
      | AwaitingRemote \<Rightarrow> conn_status (snd s) = StatusDisconnected \<and> conn_agent (snd s) \<and> conn_ctx (snd s) = None
      | Dialling cred \<Rightarrow> conn_status (snd s) = StatusConnecting \<and> conn_agent (snd s) \<and> conn_ctx (snd s) \<noteq> None
      | Running \<Rightarrow> conn_status (snd s) = StatusConnected \<and> conn_agent (snd s) \<and> conn_ctx (snd s) \<noteq> None \<and>
          (\<exists>p. conn_proxy (snd s) = Some p \<and> proxy_config p = Conn_ProxyConfig config) \<and>
          (\<exists>ip net ep. net_ParseCIDR ctl (Proxy_AllowedIps (Conn_ProxyConfig config)) = Ret (ip, net) \<and>
             peers (fst s) key = Some ([net], Some ep)))"

lemma Proxy_Close_ok:
  assumes "wgctrl_ok ctl peers" "removable ctl (proxy_config p)" "pn_close net = Ret ()"
    and "wg_ParseKey ctl (Proxy_RemoteKey (proxy_config p)) = Ret key"
  shows "\<exists>d' p'. Proxy_Close ctl net d p = ((d', p'), Ret ()) \<and> peers d' = (peers d)(key := None)"
proof -
  let ?c = "proxy_config p"
  obtain d' where r: "RemovePeer ctl (Proxy_WgInterface ?c) d (Proxy_RemoteKey ?c) = (d', Ret ())"
    using assms(2) unfolding removable_def by (metis prod.collapse)
  with RemovePeer_peers [OF assms(1) r] assms(4) have "peers d' = (peers d)(key := None)" by auto
  with r assms(3) show ?thesis by (cases p) auto
qed

lemma cleanup_ok:
  assumes "wgctrl_ok ctl peers" "removable ctl pc" "closes ice net" "wg_ParseKey ctl (Proxy_RemoteKey pc) = Ret key"
    and "\<And>p. conn_proxy conn = Some p \<Longrightarrow> proxy_config p = pc"
  shows "\<exists>d'. cleanup ctl ice net (d, conn) = ((d', conn\<lparr>conn_agent := False, conn_proxy := None, conn_ctx := None,
      conn_status := StatusDisconnected\<rparr>), Ret ()) \<and>
    peers d' = (if conn_proxy conn = None then peers d else (peers d)(key := None))"
proof (cases "conn_proxy conn")
  case (Some p)
  with assms(5) have "proxy_config p = pc" by simp
  with Proxy_Close_ok [OF assms(1), of p net key d] assms(2-4) obtain d' p' where
    "Proxy_Close ctl net d p = ((d', p'), Ret ())" "peers d' = (peers d)(key := None)"
    by (auto simp: closes_def)
  with Some assms(3) show ?thesis by (auto simp: cleanup_def closes_def Let_def)
qed (use assms(3) in \<open>auto simp: cleanup_def closes_def Let_def\<close>)

lemma Open_return_ok:
  assumes "wgctrl_ok ctl peers" "removable ctl (Conn_ProxyConfig config)" "closes ice net"
    and "wg_ParseKey ctl (Proxy_RemoteKey (Conn_ProxyConfig config)) = Ret key"
    and "conn_config (snd s) = config" "\<forall>k. k \<noteq> key \<longrightarrow> peers (fst s) k = peers d0 k"
    and "\<And>p. conn_proxy (snd s) = Some p \<Longrightarrow> proxy_config p = Conn_ProxyConfig config"
    and "conn_proxy (snd s) = None \<Longrightarrow> peers (fst s) key = None"
    and "Open_return ctl ice net s err = (s', r)"
  shows "conn_ok ctl config peers key d0 s' \<and> conn_at (snd s') = NotOpen \<and> r = Err err"
proof -
  let ?c = "(snd s)\<lparr>conn_ctx := map_option (\<lambda>_. True) (conn_ctx (snd s))\<rparr>"
  obtain d' where "cleanup ctl ice net (fst s, ?c) = ((d', ?c\<lparr>conn_agent := False, conn_proxy := None,
      conn_ctx := None, conn_status := StatusDisconnected\<rparr>), Ret ())"
    "peers d' = (if conn_proxy (snd s) = None then peers (fst s) else (peers (fst s))(key := None))"
    using cleanup_ok [OF assms(1-4), of ?c "fst s"] assms(7) by auto
  then show ?thesis using assms(5-9) by (auto simp: Open_return_def conn_ok_def)
qed

lemma Proxy_Start_ok:
  assumes "wgctrl_ok ctl peers" "Proxy_Start ctl net d p = ((d', p'), Ret ())"
    and "wg_ParseKey ctl (Proxy_RemoteKey (proxy_config p)) = Ret key"
  shows "proxy_config p' = proxy_config p \<and>
    (\<exists>ip n ep. net_ParseCIDR ctl (Proxy_AllowedIps (proxy_config p)) = Ret (ip, n) \<and>
       peers d' = (peers d)(key \<mapsto> ([n], Some ep)))"
  using assms(2,3)
  by (cases p) (auto split: outcome.splits prod.splits dest!: UpdatePeer_peers [OF assms(1)])

lemma Proxy_Start_others:
  assumes "wgctrl_ok ctl peers" "Proxy_Start ctl net d p = ((d', p'), r)"
    and "wg_ParseKey ctl (Proxy_RemoteKey (proxy_config p)) = Ret key" "k \<noteq> key"
  shows "peers d' k = peers d k \<and> proxy_config p' = proxy_config p"
  using assms(2-4)
  by (cases p) (auto split: outcome.splits prod.splits dest: UpdatePeer_others [OF assms(1), rotated -1])

lemma proxy_made [simp]:
  "proxy_config (NewWireguardProxy c) = c" "proxy_config (NewNoProxy c) = c"
  by (simp_all add: NewWireguardProxy_def NewNoProxy_def)

text \<open>The steps keep the invariant.\<close>

lemma start_ok:
  assumes "wgctrl_ok ctl peers" "removable ctl (Conn_ProxyConfig config)" "closes ice net"
    and "wg_ParseKey ctl (Proxy_RemoteKey (Conn_ProxyConfig config)) = Ret key"
    and ok: "conn_ok ctl config peers key d0 s" "conn_at (snd s) = NotOpen"
    and "Open_start ctl ice net s = (s', r)" "no_panic r"
  shows "conn_ok ctl config peers key d0 s'"
proof -
  have ret: "conn_ok ctl config peers key d0 s'" if "Open_return ctl ice net (fst s, (snd s)\<lparr>conn_agent := b\<rparr>) e = (s', r)" for b e
    using Open_return_ok [OF assms(1-4), of "(fst s, (snd s)\<lparr>conn_agent := b\<rparr>)" d0 e s' r] that ok
    by (auto simp: conn_ok_def)
  show ?thesis using assms(7,8) ok ret
    by (cases r; cases "ice_NewAgent ice"; cases "ice_callbacks ice"; cases "sendOffer ice ((snd s)\<lparr>conn_agent := True\<rparr>)")
      (auto simp: Open_start_def reCreateAgent_def conn_ok_def)
qed

lemma select_ok:
  assumes "wgctrl_ok ctl peers" "removable ctl (Conn_ProxyConfig config)" "closes ice net"
    and "wg_ParseKey ctl (Proxy_RemoteKey (Conn_ProxyConfig config)) = Ret key"
    and ok: "conn_ok ctl config peers key d0 s" "conn_at (snd s) = AwaitingRemote"
    and "Open_selected ctl ice net ev s = (s', r)" "no_panic r"
  shows "conn_ok ctl config peers key d0 s'"
proof -
  have ret: "conn_ok ctl config peers key d0 s'"
    if "Open_return ctl ice net (fst s, (snd s)\<lparr>conn_status := st, conn_ctx := x\<rparr>) e = (s', r)" for st x e
    using Open_return_ok [OF assms(1-4), of "(fst s, (snd s)\<lparr>conn_status := st, conn_ctx := x\<rparr>)" d0 e s' r] that ok
    by (auto simp: conn_ok_def)
  have ret0: "conn_ok ctl config peers key d0 s'" if "Open_return ctl ice net s e = (s', r)" for e
    using Open_return_ok [OF assms(1-4), of s d0 e s' r] that ok by (auto simp: conn_ok_def)
  have gather: "conn_ok ctl config peers key d0 s'" if "Open_gather ctl ice net s cred = (s', r)" for cred
    using that assms(8) ok ret by (cases r; cases "ice_Gather ice") (auto simp: Open_gather_def Let_def conn_ok_def)
  show ?thesis using assms(7,8) gather ret0
    by (cases r; cases ev; cases "sendAnswer ice (snd s)") auto
qed

lemma dialled_ok:
  assumes "wgctrl_ok ctl peers" "removable ctl (Conn_ProxyConfig config)" "closes ice net"
    and key: "wg_ParseKey ctl (Proxy_RemoteKey (Conn_ProxyConfig config)) = Ret key"
    and ok: "conn_ok ctl config peers key d0 s" "conn_at (snd s) = Dialling cred"
    and "Open_dialled ctl ice net result s = (s', r)" "no_panic r"
  shows "conn_ok ctl config peers key d0 s'"
proof -
  have ret: "conn_ok ctl config peers key d0 s'" if "Open_return ctl ice net s e = (s', r)" for e
    using Open_return_ok [OF assms(1-4), of s d0 e s' r] that ok by (auto simp: conn_ok_def)
  have started: "conn_ok ctl config peers key d0 s'"
    if st: "Proxy_Start ctl net (fst s) p = ((d, p'), q)" and pc: "proxy_config p = Conn_ProxyConfig config"
      and rest: "(case q of Err e \<Rightarrow> Open_return ctl ice net (d, (snd s)\<lparr>conn_proxy := Some p'\<rparr>) e
        | Panic x \<Rightarrow> ((d, (snd s)\<lparr>conn_proxy := Some p'\<rparr>), Panic x)
        | Ret u \<Rightarrow> ((d, (snd s)\<lparr>conn_proxy := Some p', conn_status := StatusConnected, conn_at := Running\<rparr>), Ret ())) = (s', r)"
    for p d p' q
  proof -
    note others = Proxy_Start_others [OF assms(1) st, unfolded pc, OF key]
    have pc': "proxy_config p' = Conn_ProxyConfig config"
      using st pc by (cases p) (auto split: outcome.splits prod.splits)
    show ?thesis
    proof (cases q)
      case (Ret u)
      then show ?thesis using Proxy_Start_ok [OF assms(1), of net "fst s" p d p' key] st pc key rest ok pc'
        by (auto simp: conn_ok_def)
    next
      case (Err e)
      then show ?thesis
        using Open_return_ok [OF assms(1-4), of "(d, (snd s)\<lparr>conn_proxy := Some p'\<rparr>)" d0 e s' r] rest ok pc' others
        by (auto simp: conn_ok_def)
    qed (use rest assms(8) in auto)
  qed
  show ?thesis
  proof (cases result)
    case (Ret u)
    show ?thesis
    proof (cases "ice_pair ice")
      case pair: (Ret pair)
      let ?p = "if shouldUseProxy pair then NewWireguardProxy (Conn_ProxyConfig config) else NewNoProxy (Conn_ProxyConfig config)"
      obtain d p' q where st: "Proxy_Start ctl net (fst s) ?p = ((d, p'), q)" by (metis prod.collapse)
      moreover have "conn_config (snd s) = config" using ok(1) by (simp add: conn_ok_def)
      ultimately have "Open_dialled ctl ice net result s =
        (case q of Err e \<Rightarrow> Open_return ctl ice net (d, (snd s)\<lparr>conn_proxy := Some p'\<rparr>) e
         | Panic x \<Rightarrow> ((d, (snd s)\<lparr>conn_proxy := Some p'\<rparr>), Panic x)
         | Ret u \<Rightarrow> ((d, (snd s)\<lparr>conn_proxy := Some p', conn_status := StatusConnected, conn_at := Running\<rparr>), Ret ()))"
        using Ret pair by (cases q) (simp_all add: Open_dialled_def startProxy_def Let_def)
      with assms(7) show ?thesis by (intro started [OF st]) simp_all
    qed (use assms(7,8) Ret ret in \<open>auto simp: Open_dialled_def startProxy_def\<close>)
  qed (use assms(7,8) ret in \<open>auto simp: Open_dialled_def\<close>)
qed

lemma over_ok:
  assumes "wgctrl_ok ctl peers" "removable ctl (Conn_ProxyConfig config)" "closes ice net"
    and "wg_ParseKey ctl (Proxy_RemoteKey (Conn_ProxyConfig config)) = Ret key"
    and ok: "conn_ok ctl config peers key d0 s" "conn_at (snd s) = Running"
    and "Open_over ctl ice net closed s = (s', r)"
  shows "conn_ok ctl config peers key d0 s'"
proof -
  obtain err where ret: "Open_return ctl ice net s err = (s', r)" using assms(7) by (simp add: Open_over_def)
  have "conn_config (snd s) = config" "\<forall>k. k \<noteq> key \<longrightarrow> peers (fst s) k = peers d0 k"
    "\<And>p. conn_proxy (snd s) = Some p \<Longrightarrow> proxy_config p = Conn_ProxyConfig config"
    "conn_proxy (snd s) = None \<Longrightarrow> peers (fst s) key = None"
    using ok by (auto simp: conn_ok_def)
  from Open_return_ok [OF assms(1-4) this ret] show ?thesis by blast
qed

lemma conn_run_ok:
  assumes "conn_run ctl config d0 s" "wgctrl_ok ctl peers" "removable ctl (Conn_ProxyConfig config)"
    and key: "wg_ParseKey ctl (Proxy_RemoteKey (Conn_ProxyConfig config)) = Ret key" "peers d0 key = None"
  shows "conn_ok ctl config peers key d0 s"
  using assms(1)
proof induction
  case (new conn)
  then show ?case using key(2) by (auto simp: NewConn_def conn_ok_def)
next
  case (start s ice net s' r)
  then show ?case using start_ok [OF assms(2,3) _ key(1)] by blast
next
  case (select s ice net ev s' r)
  then show ?case using select_ok [OF assms(2,3) _ key(1)] by blast
next
  case (dialled s cred ice net result s' r)
  then show ?case using dialled_ok [OF assms(2,3) _ key(1)] by blast
next
  case (over s ice net closed s' r)
  then show ?case using over_ok [OF assms(2,3) _ key(1)] by blast
next
  case (ice_change d conn lost conn')
  then show ?case
    by (auto simp: onICEConnectionStateChange_def conn_ok_def split: if_splits option.splits open_point.splits)
qed

section \<open>Properties\<close>

type_synonym ex_device = "string \<rightharpoonup> IPNet list \<times> UDPAddr option"

definition ex_ctl :: "ex_device Wg_Ctrl" where
  "ex_ctl = \<lparr>wgctrl_New = Ret (), wg_Device = (\<lambda>d n. Ret 0),
     wg_ConfigureDevice = (\<lambda>d n config. case WgCfg_Peers config of
        [p] \<Rightarrow> (d(PeerCfg_PublicKey p :=
          (if PeerCfg_Remove p then None else Some (PeerCfg_AllowedIPs p, PeerCfg_Endpoint p))), Ret ())
      | _ \<Rightarrow> (d, Ret ())),
     wg_ParseKey = Ret, net_ParseCIDR = (\<lambda>a. Ret ([10, 0, 0, 1], \<lparr>IPNet_IP = [10, 0, 0, 0], IPNet_Mask = [255, 0, 0, 0]\<rparr>))\<rparr>"

definition ex_conn_config :: ConnConfig where
  "ex_conn_config = \<lparr>Conn_Key = ''r'', Conn_LocalKey = ''l'', Conn_StunTurn = [], Conn_InterfaceBlackList = [],
     Conn_Timeout = 30, Conn_ProxyConfig = \<lparr>Proxy_WgListenAddr = [], Proxy_RemoteKey = ''r'',
       Proxy_WgInterface = \<lparr>WGIface_Name = ''wt0'', WGIface_MTU = DefaultMTU, WGIface_IP = [],
         WGIface_Network = \<lparr>IPNet_IP = [], IPNet_Mask = []\<rparr>\<rparr>,
       Proxy_AllowedIps = ''10.0.0.1/8'', Proxy_PreSharedKey = None\<rparr>\<rparr>"

definition ex_ice :: Ice where
  "ex_ice = \<lparr>ice_NewAgent = Ret (), ice_callbacks = Ret (), ice_credentials = Ret \<lparr>Cred_UFrag = ''u'', Cred_Pwd = ''p''\<rparr>,
     ice_Gather = Ret (), ice_pair = Ret \<lparr>Pair_Local = \<lparr>Cand_IP = [192, 168, 0, 1], Cand_Type = CandidateHost\<rparr>,
       Pair_Remote = \<lparr>Cand_IP = [192, 168, 0, 2], Cand_Type = CandidateHost\<rparr>\<rparr>,
     ice_Close = Ret (), signalOffer = (\<lambda>_. Ret ()), signalAnswer = (\<lambda>_. Ret ())\<rparr>"

definition ex_pnet :: Proxy_Net where
  "ex_pnet = \<lparr>pn_remote = Ret \<lparr>Addr_IP = [192, 168, 0, 2], Addr_Port = 4\<rparr>, pn_dial = Ret (), pn_local = Ret \<lparr>Addr_IP = [127, 0, 0, 1], Addr_Port = 5\<rparr>,
     pn_close = Ret ()\<rparr>"

definition ex_conn :: Conn where
  "ex_conn = \<lparr>conn_config = ex_conn_config, conn_status = StatusDisconnected, conn_agent = False, conn_proxy = None,
     conn_ctx = None, conn_at = NotOpen\<rparr>"

lemma ex_ctl_ok: "wgctrl_ok ex_ctl (\<lambda>d. d)" "removable ex_ctl pc"
  by (auto simp: wgctrl_ok_def ex_ctl_def removable_def RemovePeer_def configureDevice_def)

lemma ex_conn_start:
  "Open_start ex_ctl ex_ice ex_pnet (Map.empty, ex_conn) =
     ((Map.empty, ex_conn\<lparr>conn_agent := True, conn_at := AwaitingRemote\<rparr>), Ret ())"
  by (simp add: Open_start_def reCreateAgent_def sendOffer_def ex_ice_def)

lemma ex_conn_answer:
  "Open_selected ex_ctl ex_ice ex_pnet (RemoteAnswer cred) (Map.empty, ex_conn\<lparr>conn_agent := True, conn_at := AwaitingRemote\<rparr>) =
     ((Map.empty, ex_conn\<lparr>conn_agent := True, conn_status := StatusConnecting, conn_ctx := Some False,
         conn_at := Dialling cred\<rparr>), Ret ())"
  by (simp add: Open_gather_def ex_ice_def Let_def ex_conn_def)

definition ex_dialling :: Conn where
  "ex_dialling = ex_conn\<lparr>conn_agent := True, conn_status := StatusConnecting, conn_ctx := Some False,
     conn_at := Dialling \<lparr>Cred_UFrag = [], Cred_Pwd = []\<rparr>\<rparr>"

lemma ex_run_dialling: "conn_run ex_ctl ex_conn_config Map.empty (Map.empty, ex_dialling)"
proof -
  have c: "closes ex_ice ex_pnet" by (simp add: closes_def ex_ice_def ex_pnet_def)
  have "conn_run ex_ctl ex_conn_config Map.empty (Map.empty, ex_conn)"
    by (rule conn_run.new) (simp add: NewConn_def ex_conn_def)
  then have "conn_run ex_ctl ex_conn_config Map.empty (Map.empty, ex_conn\<lparr>conn_agent := True, conn_at := AwaitingRemote\<rparr>)"
    by (rule conn_run.start [OF _ _ c ex_conn_start]) (simp_all add: ex_conn_def)
  then show ?thesis unfolding ex_dialling_def
    by (rule conn_run.select [OF _ _ c ex_conn_answer]) simp_all
qed

lemma ex_dialled:
  "\<exists>d conn. Open_dialled ex_ctl ex_ice ex_pnet (Ret ()) (Map.empty, ex_dialling) = ((d, conn), Ret ()) \<and>
     conn_at conn = Running \<and> conn_status conn = StatusConnected \<and> d ''r'' \<noteq> None"
proof -
  have "\<not> shouldUseProxy \<lparr>Pair_Local = \<lparr>Cand_IP = [192, 168, 0, 1], Cand_Type = CandidateHost\<rparr>,
       Pair_Remote = \<lparr>Cand_IP = [192, 168, 0, 2], Cand_Type = CandidateHost\<rparr>\<rparr>"
    by (simp add: shouldUseProxy_def IsPublicIP_def IsPrivate_def To4_def)
  then show ?thesis
    by (simp add: Open_dialled_def startProxy_def ex_ice_def ex_pnet_def ex_dialling_def ex_conn_def ex_conn_config_def
        NewNoProxy_def UpdatePeer_def configureDevice_def ex_ctl_def Let_def)
qed

text \<open>
  C13: the status of a connection tells the truth, and the Wireguard device agrees with it: in
  every state a connection can reach, by whatever sequence of opening, offers, answers, timeouts,
  closing, ICE failures and failing calls, it reports \<open>Connected\<close> exactly while its peer is
  configured on the device, with the addresses the peer is allowed to use, and it never touches
  another peer of the device. Closing the agent and the sockets and removing the peer from the
  device are assumed to succeed; any other call may fail.
\<close>

theorem conn_device_consistent:
  assumes "conn_run ctl config d0 (d, conn)" "wgctrl_ok ctl peers" "removable ctl (Conn_ProxyConfig config)"
    and "wg_ParseKey ctl (Proxy_RemoteKey (Conn_ProxyConfig config)) = Ret key" "peers d0 key = None"
  shows "(Conn_Status conn = StatusConnected \<longleftrightarrow> conn_at conn = Running) \<and>
    (Conn_Status conn = StatusConnected \<longleftrightarrow> peers d key \<noteq> None) \<and>
    (\<forall>nets ep. peers d key = Some (nets, ep) \<longrightarrow>
       (\<exists>ip net. net_ParseCIDR ctl (Proxy_AllowedIps (Conn_ProxyConfig config)) = Ret (ip, net) \<and> nets = [net])) \<and>
    (\<forall>k. k \<noteq> key \<longrightarrow> peers d k = peers d0 k)"
  using conn_run_ok [OF assms]
  by (cases "conn_at conn") (auto simp: conn_ok_def Conn_Status_def)

theorem conn_device_consistent_witness:
  "\<exists>d conn. conn_run ex_ctl ex_conn_config Map.empty (d, conn) \<and> Conn_Status conn = StatusConnected \<and> d ''r'' \<noteq> None"
proof -
  obtain d conn where dialled: "Open_dialled ex_ctl ex_ice ex_pnet (Ret ()) (Map.empty, ex_dialling) = ((d, conn), Ret ())"
    "conn_at conn = Running" using ex_dialled by blast
  have run: "conn_run ex_ctl ex_conn_config Map.empty (d, conn)"
    by (rule conn_run.dialled [OF ex_run_dialling _ _ dialled(1)])
      (simp_all add: ex_dialling_def closes_def ex_ice_def ex_pnet_def)
  have "Conn_Status conn = StatusConnected \<and> d ''r'' \<noteq> None"
    using conn_device_consistent [OF run ex_ctl_ok, of "''r''"] dialled(2)
    by (auto simp: ex_ctl_def ex_conn_config_def)
  with run show ?thesis by blast
qed

text \<open>
  C33: when \<open>Open\<close> returns, by a timeout, because it was closed, because the peer was lost or
  because one of its steps failed, everything is released: no agent, no proxy, no context, no
  peer on the device, and the connection can be opened again. As before, the calls that release
  are assumed to succeed.
\<close>

theorem open_releases:
  assumes "conn_run ctl config d0 (d, conn)" "wgctrl_ok ctl peers" "removable ctl (Conn_ProxyConfig config)"
    and "wg_ParseKey ctl (Proxy_RemoteKey (Conn_ProxyConfig config)) = Ret key" "peers d0 key = None"
    and "conn_at conn = NotOpen"
  shows "\<not> conn_agent conn \<and> conn_proxy conn = None \<and> conn_ctx conn = None \<and>
    Conn_Status conn = StatusDisconnected \<and> peers d = peers d0"
proof -
  note ok = conn_run_ok [OF assms(1-5)]
  have "peers d k = peers d0 k" for k using ok assms(5,6) by (cases "k = key") (auto simp: conn_ok_def)
  with ok assms(6) show ?thesis by (auto simp: conn_ok_def Conn_Status_def)
qed

theorem open_releases_witness:
  "\<exists>d conn. conn_run ex_ctl ex_conn_config Map.empty (d, conn) \<and> \<not> conn_agent conn \<and> conn_proxy conn = None \<and> d = Map.empty"
proof -
  obtain s r where out: "Open_dialled ex_ctl ex_ice ex_pnet (Err (PlainError ''lost'')) (Map.empty, ex_dialling) = (s, r)"
    "no_panic r" "conn_at (snd s) = NotOpen"
    by (simp add: Open_dialled_def Open_return_def cleanup_def ex_dialling_def ex_ice_def ex_conn_def Let_def)
  have run: "conn_run ex_ctl ex_conn_config Map.empty (fst s, snd s)"
    using conn_run.dialled [OF ex_run_dialling _ _ out(1,2)]
    by (simp add: ex_dialling_def closes_def ex_ice_def ex_pnet_def)
  from open_releases [OF run ex_ctl_ok, of "''r''"] out(3) run show ?thesis
    by (auto simp: ex_ctl_def ex_conn_config_def)
qed



end
