(* ===== verification/Setup_Key.thy ===== *)
theory Setup_Key
  imports Go_Prelude
begin

text \<open>
  \<open>management/server/setupkey.go\<close>: the pre-authorised keys peers register with. Times
  are integers (nanoseconds), \<open>time.Now()\<close> is the argument \<open>now\<close>, and the random
  UUID is the argument \<open>uuid\<close>.
\<close>

unbundle bit_operations_syntax

type_synonym SetupKeyType = string

abbreviation SetupKeyReusable :: SetupKeyType where
  "SetupKeyReusable \<equiv> ''reusable''"

abbreviation SetupKeyOneOff :: SetupKeyType where
  "SetupKeyOneOff \<equiv> ''one-off''"

record SetupKey =
  SetupKey_Id :: string
  SetupKey_Key :: string
  SetupKey_Name :: string
  SetupKey_Type :: SetupKeyType
  SetupKey_CreatedAt :: int
  SetupKey_ExpiresAt :: int
  SetupKey_Revoked :: bool
  SetupKey_UsedTimes :: int
  SetupKey_LastUsed :: int

text \<open>\<open>24 * 30 * time.Hour\<close>; the zero \<open>time.Time\<close> is a constant of its own.\<close>

definition hour :: int where
  "hour = 3600 * 1000000000"

definition DefaultSetupKeyDuration :: int where
  "DefaultSetupKeyDuration = 24 * 30 * hour"

definition DefaultSetupKeyName :: string where
  "DefaultSetupKeyName = ''Default key''"

definition zero_time :: int where
  "zero_time = -62135596800 * 1000000000"

definition SetupKey_Copy :: "SetupKey \<Rightarrow> SetupKey" where
  "SetupKey_Copy key =
     \<lparr>SetupKey_Id = SetupKey_Id key, SetupKey_Key = SetupKey_Key key,
      SetupKey_Name = SetupKey_Name key, SetupKey_Type = SetupKey_Type key,
      SetupKey_CreatedAt = SetupKey_CreatedAt key, SetupKey_ExpiresAt = SetupKey_ExpiresAt key,
      SetupKey_Revoked = SetupKey_Revoked key, SetupKey_UsedTimes = SetupKey_UsedTimes key,
      SetupKey_LastUsed = SetupKey_LastUsed key\<rparr>"

definition IncrementUsage :: "int \<Rightarrow> SetupKey \<Rightarrow> SetupKey" where
  "IncrementUsage now key =
     (let c = SetupKey_Copy key
      in c\<lparr>SetupKey_UsedTimes := SetupKey_UsedTimes c + 1, SetupKey_LastUsed := now\<rparr>)"

definition IsRevoked :: "SetupKey \<Rightarrow> bool" where
  "IsRevoked key = SetupKey_Revoked key"

definition IsExpired :: "int \<Rightarrow> SetupKey \<Rightarrow> bool" where
  "IsExpired now key \<longleftrightarrow> now > SetupKey_ExpiresAt key"

definition IsOverUsed :: "SetupKey \<Rightarrow> bool" where
  "IsOverUsed key \<longleftrightarrow> SetupKey_Type key = SetupKeyOneOff \<and> SetupKey_UsedTimes key \<ge> 1"

definition IsValid :: "int \<Rightarrow> SetupKey \<Rightarrow> bool" where
  "IsValid now key \<longleftrightarrow> \<not> IsRevoked key \<and> \<not> IsExpired now key \<and> \<not> IsOverUsed key"

text \<open>The 32-bit FNV-1a hash of \<open>hash/fnv\<close>: xor the byte in, then multiply, modulo \<open>2 ^ 32\<close>.\<close>

definition fnv_step :: "32 word \<Rightarrow> char \<Rightarrow> 32 word" where
  "fnv_step h c = (h XOR of_char c) * 16777619"

definition Hash :: "string \<Rightarrow> 32 word" where
  "Hash s = foldl fnv_step 2166136261 s"

definition GenerateSetupKey ::
  "string \<Rightarrow> int \<Rightarrow> string \<Rightarrow> SetupKeyType \<Rightarrow> int \<Rightarrow> SetupKey" where
  "GenerateSetupKey uuid now name t validFor =
     (let key = ToUpper uuid
      in \<lparr>SetupKey_Id = dec (unat (Hash key)), SetupKey_Key = key, SetupKey_Name = name,
          SetupKey_Type = t, SetupKey_CreatedAt = now, SetupKey_ExpiresAt = now + validFor,
          SetupKey_Revoked = False, SetupKey_UsedTimes = 0, SetupKey_LastUsed = zero_time\<rparr>)"

definition GenerateDefaultSetupKey :: "string \<Rightarrow> int \<Rightarrow> SetupKey" where
  "GenerateDefaultSetupKey uuid now =
     GenerateSetupKey uuid now DefaultSetupKeyName SetupKeyReusable DefaultSetupKeyDuration"

section \<open>Lemmas\<close>

lemma SetupKey_Copy_id [simp]: "SetupKey_Copy key = key"
  by (simp add: SetupKey_Copy_def)

lemmas key_status_defs = IsValid_def IsRevoked_def IsExpired_def IsOverUsed_def

lemma IncrementUsage_Key [simp]: "SetupKey_Key (IncrementUsage now key) = SetupKey_Key key"
  by (simp add: IncrementUsage_def Let_def)

lemma IncrementUsage_fields [simp]:
  "SetupKey_Id (IncrementUsage now key) = SetupKey_Id key"
  "SetupKey_Type (IncrementUsage now key) = SetupKey_Type key"
  "SetupKey_Revoked (IncrementUsage now key) = SetupKey_Revoked key"
  "SetupKey_ExpiresAt (IncrementUsage now key) = SetupKey_ExpiresAt key"
  "SetupKey_UsedTimes (IncrementUsage now key) = SetupKey_UsedTimes key + 1"
  by (simp_all add: IncrementUsage_def Let_def)

lemma one_off_used:
  "SetupKey_Type key = SetupKeyOneOff \<Longrightarrow> 0 \<le> SetupKey_UsedTimes key \<Longrightarrow>
   \<not> IsValid now (IncrementUsage now' key)"
  by (simp add: key_status_defs)

lemma IsValid_antimono: "now \<le> now' \<Longrightarrow> IsValid now' key \<Longrightarrow> IsValid now key"
  by (auto simp: key_status_defs)

text \<open>
  The life of a key: what happens to it are uses and revocations; a clock that
  only moves forward separates them.
\<close>

datatype key_event = Use int | Revoke

fun key_step :: "SetupKey \<Rightarrow> key_event \<Rightarrow> SetupKey" where
  "key_step key (Use now) = (if IsValid now key then IncrementUsage now key else key)"
| "key_step key Revoke = (SetupKey_Copy key)\<lparr>SetupKey_Revoked := True\<rparr>"

lemma key_step_used:
  "SetupKey_UsedTimes key \<le> SetupKey_UsedTimes (key_step key e)"
  by (cases e) auto

lemma key_step_type [simp]: "SetupKey_Type (key_step key e) = SetupKey_Type key"
  by (cases e) auto

lemma key_steps_revoked: "SetupKey_Revoked key \<Longrightarrow> foldl key_step key es = key"
proof (induction es)
  case Nil
  then show ?case by simp
next
  case (Cons e es)
  have "key_step key e = key"
    using Cons.prems by (cases e) (auto simp: key_status_defs)
  with Cons show ?case by simp
qed

lemma one_off_bound:
  assumes "SetupKey_Type key = SetupKeyOneOff" "SetupKey_UsedTimes key \<le> 1"
  shows "SetupKey_UsedTimes (foldl key_step key es) \<le> 1"
  using assms
proof (induction es arbitrary: key)
  case Nil
  then show ?case by simp
next
  case (Cons e es)
  have "SetupKey_UsedTimes (key_step key e) \<le> 1"
    using Cons.prems by (cases e) (auto simp: key_status_defs)
  with Cons show ?case by simp
qed

end
