(* ===== verification/Mgmt_Types.thy ===== *)
theory Mgmt_Types
  imports Net_IP Setup_Key
begin

text \<open>
  The data of the Management Service: users (\<open>user.go\<close>), groups (\<open>group.go\<close>), rules
  (\<open>rule.go\<close>), peers (\<open>peer.go\<close>) and accounts (\<open>account.go\<close>), with the functions on
  one account that need no store: copying, the group \<open>All\<close>, new accounts.

  Pointers that the code stores in a map are the values of the map; a pointer
  that may be nil is an \<open>option\<close>. The values a call draws from the clock, from
  the random number generator and from the \<open>uuid\<close> and \<open>xid\<close> packages are the
  fields of the record \<open>Fresh\<close>.
\<close>

record Fresh =
  fr_now :: int
  fr_uuid1 :: string
  fr_uuid2 :: string
  fr_account_xid :: string
  fr_network_xid :: string
  fr_group_xid :: string
  fr_rule_xid :: string
  fr_rand :: nat

section \<open>Users, groups, rules, peers\<close>

type_synonym UserRole = string

abbreviation UserRoleAdmin :: UserRole where
  "UserRoleAdmin \<equiv> ''admin''"

abbreviation UserRoleUser :: UserRole where
  "UserRoleUser \<equiv> ''user''"

record User =
  User_Id :: string
  User_Role :: UserRole

definition User_Copy :: "User \<Rightarrow> User" where
  "User_Copy u = \<lparr>User_Id = User_Id u, User_Role = User_Role u\<rparr>"

definition NewUser :: "string \<Rightarrow> UserRole \<Rightarrow> User" where
  "NewUser uid role = \<lparr>User_Id = uid, User_Role = role\<rparr>"

definition NewRegularUser :: "string \<Rightarrow> User" where
  "NewRegularUser uid = NewUser uid UserRoleUser"

definition NewAdminUser :: "string \<Rightarrow> User" where
  "NewAdminUser uid = NewUser uid UserRoleAdmin"

record Group =
  Group_ID :: string
  Group_Name :: string
  Group_Peers :: "string list"

definition Group_Copy :: "Group \<Rightarrow> Group" where
  "Group_Copy g = \<lparr>Group_ID = Group_ID g, Group_Name = Group_Name g, Group_Peers = Group_Peers g\<rparr>"

type_synonym TrafficFlowType = int

abbreviation (input) TrafficFlowBidirect :: TrafficFlowType where
  "TrafficFlowBidirect \<equiv> 0"

record Rule =
  Rule_ID :: string
  Rule_Name :: string
  Rule_Source :: "string list"
  Rule_Destination :: "string list"
  Rule_Flow :: TrafficFlowType

definition Rule_Copy :: "Rule \<Rightarrow> Rule" where
  "Rule_Copy r =
     \<lparr>Rule_ID = Rule_ID r, Rule_Name = Rule_Name r, Rule_Source = Rule_Source r,
      Rule_Destination = Rule_Destination r, Rule_Flow = Rule_Flow r\<rparr>"

record PeerSystemMeta =
  Meta_Hostname :: string
  Meta_GoOS :: string
  Meta_Kernel :: string
  Meta_Core :: string
  Meta_Platform :: string
  Meta_OS :: string
  Meta_WtVersion :: string
  Meta_UIVersion :: string

record PeerStatus =
  Status_LastSeen :: int
  Status_Connected :: bool

record Peer =
  Peer_Key :: string
  Peer_SetupKey :: string
  Peer_IP :: IP
  Peer_Meta :: PeerSystemMeta
  Peer_Name :: string
  Peer_Status :: "PeerStatus option"
  Peer_UserID :: string

definition Peer_Copy :: "Peer \<Rightarrow> Peer" where
  "Peer_Copy p =
     \<lparr>Peer_Key = Peer_Key p, Peer_SetupKey = Peer_SetupKey p, Peer_IP = Peer_IP p,
      Peer_Meta = Peer_Meta p, Peer_Name = Peer_Name p, Peer_Status = Peer_Status p,
      Peer_UserID = Peer_UserID p\<rparr>"

section \<open>Accounts\<close>

abbreviation PublicCategory :: string where
  "PublicCategory \<equiv> ''public''"

abbreviation PrivateCategory :: string where
  "PrivateCategory \<equiv> ''private''"

abbreviation UnknownCategory :: string where
  "UnknownCategory \<equiv> ''unknown''"

record Account =
  Account_Id :: string
  Account_CreatedBy :: string
  Account_Domain :: string
  Account_DomainCategory :: string
  Account_IsDomainPrimaryAccount :: bool
  Account_SetupKeys :: "(string, SetupKey) gomap"
  Account_Network :: Network
  Account_Peers :: "(string, Peer) gomap"
  Account_Users :: "(string, User) gomap"
  Account_Groups :: "(string, Group) gomap"
  Account_Rules :: "(string, Rule) gomap"

text \<open>A loop that fills a new map with the copies of the entries of another (whose keys differ).\<close>

definition copy_map :: "('v \<Rightarrow> 'v) \<Rightarrow> (string, 'v) gomap \<Rightarrow> (string, 'v) gomap" where
  "copy_map f m = GoMap (map (\<lambda>(k, v). (k, f v)) (entries m))"

text \<open>\<open>Account.Copy\<close> does not copy the three fields that describe the domain.\<close>

definition Account_Copy :: "Account \<Rightarrow> Account" where
  "Account_Copy a =
     \<lparr>Account_Id = Account_Id a, Account_CreatedBy = Account_CreatedBy a,
      Account_Domain = [], Account_DomainCategory = [], Account_IsDomainPrimaryAccount = False,
      Account_SetupKeys = copy_map SetupKey_Copy (Account_SetupKeys a),
      Account_Network = Network_Copy (Account_Network a),
      Account_Peers = copy_map Peer_Copy (Account_Peers a),
      Account_Users = copy_map User_Copy (Account_Users a),
      Account_Groups = copy_map Group_Copy (Account_Groups a),
      Account_Rules = copy_map Rule_Copy (Account_Rules a)\<rparr>"

text \<open>
  \<open>GetGroupAll\<close> returns a pointer into the map of groups; the model returns the
  entry, so that a caller can write through it.
\<close>

definition GetGroupAll :: "Account \<Rightarrow> (string \<times> Group) outcome" where
  "GetGroupAll a =
     (case find (\<lambda>(_, g). Group_Name g = ''All'') (entries (Account_Groups a)) of
        Some e \<Rightarrow> Ret e
      | None \<Rightarrow> Err (PlainError ''no group ALL found''))"

text \<open>\<open>newAccountWithId\<close> makes no map for the groups and none for the rules: both are nil.\<close>

definition newAccountWithId :: "Fresh \<Rightarrow> string \<Rightarrow> string \<Rightarrow> string \<Rightarrow> Account" where
  "newAccountWithId fr accountId userId domain =
     (let defaultKey = GenerateDefaultSetupKey (fr_uuid1 fr) (fr_now fr);
          oneOffKey = GenerateSetupKey (fr_uuid2 fr) (fr_now fr) ''One-off key'' SetupKeyOneOff
                        DefaultSetupKeyDuration;
          setupKeys = AList.update (SetupKey_Key oneOffKey) oneOffKey
                        (AList.update (SetupKey_Key defaultKey) defaultKey [])
      in \<lparr>Account_Id = accountId, Account_CreatedBy = userId, Account_Domain = domain,
          Account_DomainCategory = [], Account_IsDomainPrimaryAccount = False,
          Account_SetupKeys = GoMap setupKeys,
          Account_Network = NewNetwork (fr_network_xid fr) (fr_rand fr),
          Account_Peers = GoMap [], Account_Users = GoMap [],
          Account_Groups = NilMap, Account_Rules = NilMap\<rparr>)"

definition NewAccount :: "Fresh \<Rightarrow> string \<Rightarrow> string \<Rightarrow> Account" where
  "NewAccount fr userId domain = newAccountWithId fr (fr_account_xid fr) userId domain"

definition addAllGroup :: "Fresh \<Rightarrow> Account \<Rightarrow> Account" where
  "addAllGroup fr a =
     (if length (entries (Account_Groups a)) = 0 then
        let allGroup = \<lparr>Group_ID = fr_group_xid fr, Group_Name = ''All'',
                        Group_Peers = map Peer_Key (vals (Account_Peers a))\<rparr>;
            defaultRule = \<lparr>Rule_ID = fr_rule_xid fr, Rule_Name = ''Default'',
                           Rule_Source = [Group_ID allGroup],
                           Rule_Destination = [Group_ID allGroup], Rule_Flow = 0\<rparr>
        in a\<lparr>Account_Groups := GoMap [(Group_ID allGroup, allGroup)],
             Account_Rules := GoMap [(Rule_ID defaultRule, defaultRule)]\<rparr>
      else a)"

definition getAccountSetupKeyById :: "Account \<Rightarrow> string \<Rightarrow> SetupKey option" where
  "getAccountSetupKeyById acc keyId =
     find (\<lambda>k. keyId = SetupKey_Id k) (vals (Account_SetupKeys acc))"

definition getAccountSetupKeyByKey :: "Account \<Rightarrow> string \<Rightarrow> SetupKey option" where
  "getAccountSetupKeyByKey acc key =
     find (\<lambda>k. key = SetupKey_Key k) (vals (Account_SetupKeys acc))"

section \<open>Lemmas on copies\<close>

lemma copies_id [simp]:
  "User_Copy u = u" "Group_Copy g = g" "Rule_Copy r = r" "Peer_Copy p = p"
  by (simp_all add: User_Copy_def Group_Copy_def Rule_Copy_def Peer_Copy_def)

lemma lookup_copy_map [simp]: "lookup (copy_map f m) k = map_option f (lookup m k)"
  by (simp add: copy_map_def lookup_def map_of_map)

lemma keys_copy_map [simp]: "keys (copy_map f m) = keys m"
  by (simp add: copy_map_def keys_def case_prod_beta)

section \<open>Well-formed accounts\<close>

text \<open>
  What the operations keep: every map has one entry per key, a peer, a setup key,
  a group, a rule and a user are stored under their own identifier, and rules
  mention existing groups only.
\<close>

definition keyed :: "('v \<Rightarrow> string) \<Rightarrow> (string, 'v) gomap \<Rightarrow> bool" where
  "keyed f m \<longleftrightarrow> wf_map m \<and> (\<forall>(k, v) \<in> set (entries m). f v = k)"

definition wf_account :: "Account \<Rightarrow> bool" where
  "wf_account a \<longleftrightarrow>
     keyed SetupKey_Key (Account_SetupKeys a) \<and> keyed Peer_Key (Account_Peers a) \<and>
     keyed User_Id (Account_Users a) \<and> keyed Group_ID (Account_Groups a) \<and>
     keyed Rule_ID (Account_Rules a)"

definition rules_closed :: "Account \<Rightarrow> bool" where
  "rules_closed a \<longleftrightarrow>
     (\<forall>r \<in> set (vals (Account_Rules a)). \<forall>g \<in> set (Rule_Source r @ Rule_Destination r).
        lookup (Account_Groups a) g \<noteq> None)"

lemma keyed_Nil [simp]: "keyed f NilMap" "keyed f (GoMap [])"
  by (simp_all add: keyed_def wf_map_def keys_def)

lemma keyed_single [simp]: "keyed f (GoMap [(k, v)]) \<longleftrightarrow> f v = k"
  by (simp add: keyed_def wf_map_def keys_def)

lemma keyed_wf: "keyed f m \<Longrightarrow> wf_map m"
  by (simp add: keyed_def)

lemma keyed_lookup: "keyed f m \<Longrightarrow> lookup m k = Some v \<Longrightarrow> f v = k"
  by (force simp: keyed_def dest: lookup_in_entries)

lemma keyed_alt: "keyed f m \<longleftrightarrow> wf_map m \<and> (\<forall>k v. lookup m k = Some v \<longrightarrow> f v = k)"
  by (fastforce simp: keyed_def entries_lookup dest: lookup_in_entries)

lemma keyed_assign: "keyed f m \<Longrightarrow> assign m (f v) v = Some m' \<Longrightarrow> keyed f m'"
  unfolding keyed_alt using wf_assign by (force simp: lookup_assign)

lemma keyed_delete: "keyed f m \<Longrightarrow> keyed f (map_delete m k)"
  unfolding keyed_alt using wf_delete by force

lemma keyed_entry: "keyed f m \<Longrightarrow> (\<And>v. f (g v) = f v) \<Longrightarrow> keyed f (map_entry m k g)"
  unfolding keyed_alt by auto

lemma keyed_find:
  assumes "keyed f m" "find (\<lambda>v. k = f v) (vals m) = Some v"
  shows "lookup m k = Some v"
proof -
  from assms(2) have "v \<in> set (vals m)" "k = f v" by (auto simp: find_Some_iff)
  with assms(1) show ?thesis by (auto simp: vals_conv keyed_alt)
qed

lemma keyed_find_iff: "keyed f m \<Longrightarrow> find (\<lambda>v. k = f v) (vals m) = lookup m k"
proof (cases "find (\<lambda>v. k = f v) (vals m)")
  case None
  assume k: "keyed f m"
  show ?thesis
  proof (cases "lookup m k")
    case (Some v)
    with k have "f v = k" "v \<in> set (vals m)" by (auto simp: keyed_lookup vals_lookup)
    with None show ?thesis by (auto simp: find_None_iff)
  qed (use None in simp)
next
  case (Some v)
  then show "keyed f m \<Longrightarrow> ?thesis" using keyed_find by metis
qed

lemma getAccountSetupKeyByKey_lookup:
  "wf_account a \<Longrightarrow> getAccountSetupKeyByKey a k = lookup (Account_SetupKeys a) k"
  by (simp add: getAccountSetupKeyByKey_def wf_account_def keyed_find_iff)

lemma wf_newAccount: "wf_account (newAccountWithId fr accountId userId domain)"
  by (auto simp: newAccountWithId_def wf_account_def Let_def keyed_def wf_map_def keys_def)

lemma wf_addAllGroup: "wf_account a \<Longrightarrow> wf_account (addAllGroup fr a)"
  by (auto simp: addAllGroup_def wf_account_def Let_def)

lemma addAllGroup_closed: "rules_closed a \<Longrightarrow> rules_closed (addAllGroup fr a)"
  by (auto simp: addAllGroup_def rules_closed_def Let_def vals_def)

lemma newAccount_closed: "rules_closed (newAccountWithId fr accountId userId domain)"
  by (auto simp: newAccountWithId_def rules_closed_def Let_def vals_def)

end
