(* ===== verification/Mgmt_Proto.thy ===== *)
theory Mgmt_Proto
  imports Mgmt_Types
begin

text \<open>
  The messages of the Management Service (\<open>management/proto/management.proto\<close>), its
  configuration (\<open>management/server/config.go\<close>) and the conversions at the end of
  \<open>management/server/grpcserver.go\<close> that build the messages a peer receives.
  A protobuf message field is an \<open>option\<close> because it may be absent.
\<close>

section \<open>Messages\<close>

datatype HostConfig_Protocol = PB_UDP | PB_TCP | PB_HTTP | PB_HTTPS | PB_DTLS

record HostConfig =
  HostConfig_Uri :: string
  HostConfig_Protocol :: HostConfig_Protocol

record ProtectedHostConfig =
  Protected_HostConfig :: HostConfig
  Protected_User :: string
  Protected_Password :: string

record WiretrusteeConfig =
  Wt_Stuns :: "HostConfig list"
  Wt_Turns :: "ProtectedHostConfig list"
  Wt_Signal :: "HostConfig option"

record PeerConfig =
  PeerConfig_Address :: string

record RemotePeerConfig =
  Remote_WgPubKey :: string
  Remote_AllowedIps :: "string list"

record NetworkMapMsg =
  Map_Serial :: "64 word"
  Map_PeerConfig :: "PeerConfig option"
  Map_RemotePeers :: "RemotePeerConfig list"
  Map_RemotePeersIsEmpty :: bool

record SyncResponse =
  Sync_WiretrusteeConfig :: "WiretrusteeConfig option"
  Sync_PeerConfig :: "PeerConfig option"
  Sync_RemotePeers :: "RemotePeerConfig list"
  Sync_RemotePeersIsEmpty :: bool
  Sync_NetworkMap :: "NetworkMapMsg option"

record LoginRequest =
  Login_SetupKey :: string
  Login_Meta :: "PeerSystemMeta option"
  Login_JwtToken :: string

record LoginResponse =
  LoginResp_WiretrusteeConfig :: WiretrusteeConfig
  LoginResp_PeerConfig :: PeerConfig

section \<open>Configuration\<close>

type_synonym Protocol = string

record Host =
  Host_Proto :: Protocol
  Host_URI :: string
  Host_Username :: string
  Host_Password :: string

record TURNConfig =
  TURN_TimeBasedCredentials :: bool
  TURN_CredentialsTTL :: int
  TURN_Secret :: string
  TURN_Turns :: "Host list"

record HttpServerConfig =
  Http_LetsEncryptDomain :: string
  Http_CertFile :: string
  Http_CertKey :: string
  Http_Address :: string
  Http_AuthAudience :: string
  Http_AuthIssuer :: string
  Http_AuthKeysLocation :: string

record ProviderConfig =
  Provider_ClientID :: string
  Provider_ClientSecret :: string
  Provider_Domain :: string
  Provider_Audience :: string

record DeviceAuthorizationFlow =
  Flow_Provider :: string
  Flow_ProviderConfig :: ProviderConfig

record Config =
  Config_Stuns :: "Host list"
  Config_TURNConfig :: "TURNConfig option"
  Config_Signal :: "Host option"
  Config_Datadir :: string
  Config_HttpConfig :: "HttpServerConfig option"
  Config_DeviceAuthorizationFlow :: "DeviceAuthorizationFlow option"

record TURNCredentials =
  TURNCred_Username :: string
  TURNCred_Password :: string

section \<open>Conversions\<close>

definition ToResponseProto :: "Protocol \<Rightarrow> HostConfig_Protocol outcome" where
  "ToResponseProto configProto =
     (if configProto = ''udp'' then Ret PB_UDP
      else if configProto = ''dtls'' then Ret PB_DTLS
      else if configProto = ''http'' then Ret PB_HTTP
      else if configProto = ''https'' then Ret PB_HTTPS
      else if configProto = ''tcp'' then Ret PB_TCP
      else Panic (ExplicitPanic (''unexpected config protocol type '' @ configProto)))"

definition to_host :: "Host \<Rightarrow> HostConfig outcome" where
  "to_host h =
     (case ToResponseProto (Host_Proto h) of
        Ret p \<Rightarrow> Ret \<lparr>HostConfig_Uri = Host_URI h, HostConfig_Protocol = p\<rparr>
      | Err e \<Rightarrow> Err e
      | Panic p \<Rightarrow> Panic p)"

text \<open>A loop that appends the converted elements to a slice.\<close>

fun map_outcome :: "('a \<Rightarrow> 'b outcome) \<Rightarrow> 'a list \<Rightarrow> 'b list outcome" where
  "map_outcome f [] = Ret []"
| "map_outcome f (x # xs) =
     (case f x of
        Err e \<Rightarrow> Err e
      | Panic p \<Rightarrow> Panic p
      | Ret y \<Rightarrow> (case map_outcome f xs of Ret ys \<Rightarrow> Ret (y # ys) | Err e \<Rightarrow> Err e | Panic p \<Rightarrow> Panic p))"

definition to_turn :: "TURNCredentials option \<Rightarrow> Host \<Rightarrow> ProtectedHostConfig outcome" where
  "to_turn turnCredentials turn =
     (let (username, password) =
            (case turnCredentials of
               Some c \<Rightarrow> (TURNCred_Username c, TURNCred_Password c)
             | None \<Rightarrow> (Host_Username turn, Host_Password turn))
      in case to_host turn of
           Ret h \<Rightarrow> Ret \<lparr>Protected_HostConfig = h, Protected_User = username, Protected_Password = password\<rparr>
         | Err e \<Rightarrow> Err e
         | Panic p \<Rightarrow> Panic p)"

definition toWiretrusteeConfig :: "Config \<Rightarrow> TURNCredentials option \<Rightarrow> WiretrusteeConfig outcome" where
  "toWiretrusteeConfig config turnCredentials =
     (case map_outcome to_host (Config_Stuns config) of
        Err e \<Rightarrow> Err e
      | Panic p \<Rightarrow> Panic p
      | Ret stuns \<Rightarrow>
          (case Config_TURNConfig config of
             None \<Rightarrow> Panic NilDereference
           | Some tc \<Rightarrow>
               (case map_outcome (to_turn turnCredentials) (TURN_Turns tc) of
                  Err e \<Rightarrow> Err e
                | Panic p \<Rightarrow> Panic p
                | Ret turns \<Rightarrow>
                    (case Config_Signal config of
                       None \<Rightarrow> Panic NilDereference
                     | Some sig \<Rightarrow>
                         (case to_host sig of
                            Err e \<Rightarrow> Err e
                          | Panic p \<Rightarrow> Panic p
                          | Ret signal \<Rightarrow>
                              Ret \<lparr>Wt_Stuns = stuns, Wt_Turns = turns, Wt_Signal = Some signal\<rparr>)))))"

definition toPeerConfig :: "Peer \<Rightarrow> PeerConfig" where
  "toPeerConfig peer = \<lparr>PeerConfig_Address = ip_string (Peer_IP peer) @ ''/16''\<rparr>"

definition toRemotePeerConfig :: "Peer list \<Rightarrow> RemotePeerConfig list" where
  "toRemotePeerConfig peers =
     map (\<lambda>rPeer. \<lparr>Remote_WgPubKey = Peer_Key rPeer,
                   Remote_AllowedIps = [ip_string (Peer_IP rPeer) @ ''/32'']\<rparr>) peers"

definition toSyncResponse ::
  "Config \<Rightarrow> Peer \<Rightarrow> Peer list \<Rightarrow> TURNCredentials option \<Rightarrow> 64 word \<Rightarrow> SyncResponse outcome" where
  "toSyncResponse config peer peers turnCredentials serial =
     (case toWiretrusteeConfig config turnCredentials of
        Err e \<Rightarrow> Err e
      | Panic p \<Rightarrow> Panic p
      | Ret wtConfig \<Rightarrow>
          (let pConfig = toPeerConfig peer; remotePeers = toRemotePeerConfig peers
           in Ret \<lparr>Sync_WiretrusteeConfig = Some wtConfig, Sync_PeerConfig = Some pConfig,
                   Sync_RemotePeers = remotePeers, Sync_RemotePeersIsEmpty = (length remotePeers = 0),
                   Sync_NetworkMap = Some
                     \<lparr>Map_Serial = serial, Map_PeerConfig = Some pConfig,
                      Map_RemotePeers = remotePeers, Map_RemotePeersIsEmpty = (length remotePeers = 0)\<rparr>\<rparr>))"

section \<open>Lemmas\<close>

lemma ToResponseProto_no_err: "ToResponseProto p \<noteq> Err e"
  by (simp add: ToResponseProto_def)

lemma to_host_no_err: "to_host h \<noteq> Err e"
  by (auto simp: to_host_def ToResponseProto_no_err split: outcome.splits)

lemma map_outcome_no_err: "(\<And>x e. f x \<noteq> Err e) \<Longrightarrow> map_outcome f xs \<noteq> Err e"
  by (induction xs) (auto split: outcome.splits)

lemma map_outcome_length: "map_outcome f xs = Ret ys \<Longrightarrow> length ys = length xs"
  by (induction xs arbitrary: ys) (auto split: outcome.splits)

lemma remote_keys [simp]: "map Remote_WgPubKey (toRemotePeerConfig ps) = map Peer_Key ps"
  by (simp add: toRemotePeerConfig_def)

lemma remote_empty [simp]: "toRemotePeerConfig ps = [] \<longleftrightarrow> ps = []"
  by (simp add: toRemotePeerConfig_def)

lemma toSyncResponse_Ret:
  assumes "toSyncResponse config peer peers cred serial = Ret m"
  shows "Sync_RemotePeers m = toRemotePeerConfig peers"
    and "Sync_RemotePeersIsEmpty m \<longleftrightarrow> peers = []"
    and "\<exists>nm. Sync_NetworkMap m = Some nm \<and> Map_Serial nm = serial \<and>
           Map_RemotePeers nm = toRemotePeerConfig peers \<and> (Map_RemotePeersIsEmpty nm \<longleftrightarrow> peers = []) \<and>
           Map_PeerConfig nm = Some (toPeerConfig peer)"
  using assms by (auto simp: toSyncResponse_def Let_def split: outcome.splits)

end
