(* ===== verification/Engine.thy ===== *)
theory Engine
  imports Peer_Conn Mgmt_Proto
begin

text \<open>
  The engine of the client, \<open>client/internal/engine.go\<close>, with \<open>util.SliceDiff\<close>
  (\<open>util/common.go\<close>): it applies the network maps of the Management Service and the messages of
  the Signal Exchange to the connections of the peers. The connections are objects, known by
  their number: the map of peers holds numbers, and so do the goroutines \<open>connWorker\<close>. A
  connection whose \<open>Close\<close> was delivered is noted in \<open>eng_closed\<close>, one that took an offer or an
  answer in \<open>eng_delivered\<close>, one whose agent was given a candidate in \<open>eng_candidates\<close>; what it does then is the subject of the theory \<open>Peer_Conn\<close>.
  \<open>syncMsgMux\<close> makes every operation atomic.
\<close>

section \<open>Differences of lists\<close>

definition SliceDiff :: "string list \<Rightarrow> string list \<Rightarrow> string list" where
  "SliceDiff x y =
     (let mapY = fold (\<lambda>val m. AList.update val () m) y []
      in filter (\<lambda>val. map_of mapY val = None) x)"

lemma SliceDiff_filter: "SliceDiff x y = filter (\<lambda>v. v \<notin> set y) x"
proof -
  have "map_of (fold (\<lambda>val m. AList.update val () m) y m) v = None \<longleftrightarrow> v \<notin> set y \<and> map_of m v = None" for m v
    by (induction y arbitrary: m) (auto simp: update_conv')
  then show ?thesis by (simp add: SliceDiff_def)
qed

section \<open>State\<close>

record EngineConfig =
  EC_WgPort :: nat
  EC_WgIfaceName :: string
  EC_WgAddr :: string
  EC_WgPrivateKey :: string
  EC_IFaceBlackList :: "string list"
  EC_PreSharedKey :: "string option"
  EC_UDPMuxPort :: nat
  EC_UDPMuxSrflxPort :: nat

record Ice_URL =
  url_text :: string
  url_Username :: string
  url_Password :: string

datatype resource = UdpMuxConn | UdpMuxConnSrflx | UdpMux | UdpMuxSrflx | WgInterface

record Engine =
  eng_peerConns :: "(string, nat) gomap"
  eng_conns :: "nat \<Rightarrow> Conn"
  eng_made :: nat
  eng_workers :: "(nat \<times> string) list"
  eng_closed :: "nat list"
  eng_delivered :: "(nat \<times> first_select) list"
  eng_candidates :: "(nat \<times> Candidate) list"
  eng_config :: EngineConfig
  eng_STUNs :: "Ice_URL list"
  eng_TURNs :: "Ice_URL list"
  eng_serial :: "64 word"
  eng_iface :: WGIface
  eng_resources :: "resource list"

text \<open>What the engine calls outside: keys, ICE URLs and candidates, random numbers.\<close>

record Engine_Env =
  en_box :: Box
  en_ParseURL :: "string \<Rightarrow> Ice_URL outcome"
  en_UnmarshalCandidate :: "string \<Rightarrow> Candidate outcome"
  en_rand :: "string \<Rightarrow> nat"

definition PeerConnectionTimeoutMax :: nat where
  "PeerConnectionTimeoutMax = 45000"

definition PeerConnectionTimeoutMin :: nat where
  "PeerConnectionTimeoutMin = 30000"

text \<open>The interface of a new engine is the zero value of \<open>iface.WGIface\<close>.\<close>

definition NewEngine :: "EngineConfig \<Rightarrow> (nat \<Rightarrow> Conn) \<Rightarrow> Engine" where
  "NewEngine config conns =
     \<lparr>eng_peerConns = GoMap [], eng_conns = conns, eng_made = 0, eng_workers = [], eng_closed = [], eng_delivered = [], eng_candidates = [],
      eng_config = config, eng_STUNs = [], eng_TURNs = [], eng_serial = 0,
      eng_iface = \<lparr>WGIface_Name = [], WGIface_MTU = 0, WGIface_IP = [], WGIface_Network = \<lparr>IPNet_IP = [], IPNet_Mask = []\<rparr>\<rparr>,
      eng_resources = []\<rparr>"

section \<open>Removing peers\<close>

text \<open>
  The only error of \<open>Close\<close> is \<open>ConnectionAlreadyClosedError\<close>, which the \<open>switch\<close> turns into
  success.
\<close>

definition removePeer :: "string \<Rightarrow> Engine \<Rightarrow> Engine \<times> unit outcome" where
  "removePeer peerKey e =
     (case lookup (eng_peerConns e) peerKey of
        None \<Rightarrow> (e, Ret ())
      | Some c \<Rightarrow>
          (let e1 = e\<lparr>eng_peerConns := map_delete (eng_peerConns e) peerKey\<rparr>
           in case Conn_Close (eng_conns e c) of
                Ret u \<Rightarrow> (e1\<lparr>eng_closed := c # eng_closed e1\<rparr>, Ret ())
              | Err err \<Rightarrow> (e1, Ret ())
              | Panic p \<Rightarrow> (e1, Panic p)))"

definition removePeers :: "RemotePeerConfig list \<Rightarrow> Engine \<Rightarrow> Engine \<times> unit outcome" where
  "removePeers peersUpdate e =
     (let currentPeers = keys (eng_peerConns e);
          newPeers = map Remote_WgPubKey peersUpdate;
          toRemove = SliceDiff currentPeers newPeers
      in go_for removePeer toRemove e)"

definition removeAllPeers :: "Engine \<Rightarrow> Engine \<times> unit outcome" where
  "removeAllPeers e = go_for removePeer (keys (eng_peerConns e)) e"

section \<open>Adding peers\<close>

text \<open>\<open>createPeerConn\<close>; the three signal handlers it sets are the definitions of the next section.\<close>

definition createPeerConn :: "Engine_Env \<Rightarrow> Engine \<Rightarrow> string \<Rightarrow> string \<Rightarrow> Conn outcome" where
  "createPeerConn env e pubKey allowedIPs =
     (let proxyConfig = \<lparr>Proxy_WgListenAddr = ''127.0.0.1:'' @ dec (EC_WgPort (eng_config e)), Proxy_RemoteKey = pubKey,
            Proxy_WgInterface = eng_iface e, Proxy_AllowedIps = allowedIPs,
            Proxy_PreSharedKey = EC_PreSharedKey (eng_config e)\<rparr>;
          timeout = int (en_rand env pubKey mod (PeerConnectionTimeoutMax - PeerConnectionTimeoutMin) +
                         PeerConnectionTimeoutMin) * 1000000;
          config = \<lparr>Conn_Key = pubKey, Conn_LocalKey = public_key (en_box env) (EC_WgPrivateKey (eng_config e)),
            Conn_StunTurn = map url_text (eng_STUNs e @ eng_TURNs e),
            Conn_InterfaceBlackList = EC_IFaceBlackList (eng_config e), Conn_Timeout = timeout,
            Conn_ProxyConfig = proxyConfig\<rparr>
      in case NewConn config of
           Err err \<Rightarrow> Err err
         | Panic p \<Rightarrow> Panic p
         | Ret peerConn \<Rightarrow>
             (case parse_key (en_box env) pubKey of
                Err err \<Rightarrow> Err err
              | Panic p \<Rightarrow> Panic p
              | Ret wgPubKey \<Rightarrow> Ret peerConn))"

definition addNewPeer :: "Engine_Env \<Rightarrow> RemotePeerConfig \<Rightarrow> Engine \<Rightarrow> Engine \<times> unit outcome" where
  "addNewPeer env p e =
     (let peerKey = Remote_WgPubKey p
      in case lookup (eng_peerConns e) peerKey of
           Some c \<Rightarrow> (e, Ret ())
         | None \<Rightarrow>
             (case createPeerConn env e peerKey (join '','' (Remote_AllowedIps p)) of
                Err err \<Rightarrow> (e, Err err)
              | Panic q \<Rightarrow> (e, Panic q)
              | Ret conn \<Rightarrow>
                  (let c = eng_made e
                   in case assign (eng_peerConns e) peerKey c of
                        None \<Rightarrow> (e, Panic NilMapWrite)
                      | Some conns \<Rightarrow>
                          (e\<lparr>eng_peerConns := conns, eng_conns := (eng_conns e)(c := conn), eng_made := Suc c,
                             eng_workers := (c, peerKey) # eng_workers e\<rparr>, Ret ()))))"

definition addNewPeers :: "Engine_Env \<Rightarrow> RemotePeerConfig list \<Rightarrow> Engine \<Rightarrow> Engine \<times> unit outcome" where
  "addNewPeers env peersUpdate e = go_for (addNewPeer env) peersUpdate e"

section \<open>Updates of the Management Service\<close>

definition updateNetworkMap :: "Engine_Env \<Rightarrow> NetworkMapMsg \<Rightarrow> Engine \<Rightarrow> Engine \<times> unit outcome" where
  "updateNetworkMap env networkMap e =
     (let serial = Map_Serial networkMap
      in if eng_serial e > serial then (e, Ret ())
         else on_ret
                (if Map_RemotePeersIsEmpty networkMap then removeAllPeers e
                 else on_ret (removePeers (Map_RemotePeers networkMap) e) (\<lambda>e err. (e, Err err))
                        (\<lambda>e u. addNewPeers env (Map_RemotePeers networkMap) e))
                (\<lambda>e err. (e, Err err))
                (\<lambda>e u. (e\<lparr>eng_serial := serial\<rparr>, Ret ())))"

definition updateSTUNs :: "Engine_Env \<Rightarrow> HostConfig list \<Rightarrow> Engine \<Rightarrow> Engine \<times> unit outcome" where
  "updateSTUNs env stuns e =
     (if length stuns = 0 then (e, Ret ())
      else (case map_outcome (\<lambda>stun. en_ParseURL env (HostConfig_Uri stun)) stuns of
              Err err \<Rightarrow> (e, Err err)
            | Panic p \<Rightarrow> (e, Panic p)
            | Ret newSTUNs \<Rightarrow> (e\<lparr>eng_STUNs := newSTUNs\<rparr>, Ret ())))"

definition turn_url :: "Engine_Env \<Rightarrow> ProtectedHostConfig \<Rightarrow> Ice_URL outcome" where
  "turn_url env turn =
     (case en_ParseURL env (HostConfig_Uri (Protected_HostConfig turn)) of
        Err err \<Rightarrow> Err err
      | Panic p \<Rightarrow> Panic p
      | Ret url \<Rightarrow> Ret (url\<lparr>url_Username := Protected_User turn, url_Password := Protected_Password turn\<rparr>))"

definition updateTURNs :: "Engine_Env \<Rightarrow> ProtectedHostConfig list \<Rightarrow> Engine \<Rightarrow> Engine \<times> unit outcome" where
  "updateTURNs env turns e =
     (if length turns = 0 then (e, Ret ())
      else (case map_outcome (turn_url env) turns of
              Err err \<Rightarrow> (e, Err err)
            | Panic p \<Rightarrow> (e, Panic p)
            | Ret newTURNs \<Rightarrow> (e\<lparr>eng_TURNs := newTURNs\<rparr>, Ret ())))"

definition handleSync :: "Engine_Env \<Rightarrow> SyncResponse \<Rightarrow> Engine \<Rightarrow> Engine \<times> unit outcome" where
  "handleSync env update e0 =
     on_ret (case Sync_WiretrusteeConfig update of
               None \<Rightarrow> (e0, Ret ())
             | Some config \<Rightarrow>
                 on_ret (updateTURNs env (Wt_Turns config) e0) (\<lambda>e err. (e, Err err))
                   (\<lambda>e u. updateSTUNs env (Wt_Stuns config) e))
       (\<lambda>e err. (e, Err err))
       (\<lambda>e u.
          case Sync_NetworkMap update of
            None \<Rightarrow> (e, Ret ())
          | Some networkMap \<Rightarrow> updateNetworkMap env networkMap e)"

section \<open>Queries and workers\<close>

definition GetPeerConnectionStatus :: "Engine \<Rightarrow> string \<Rightarrow> ConnStatus option" where
  "GetPeerConnectionStatus e peerKey = map_option (\<lambda>c. Conn_Status (eng_conns e c)) (lookup (eng_peerConns e) peerKey)"

definition Engine_GetPeers :: "Engine \<Rightarrow> string list" where
  "Engine_GetPeers e = keys (eng_peerConns e)"

definition GetConnectedPeers :: "Engine \<Rightarrow> string list" where
  "GetConnectedPeers e =
     map fst (filter (\<lambda>(s, c). Conn_Status (eng_conns e c) = StatusConnected) (entries (eng_peerConns e)))"

definition peerExists :: "Engine \<Rightarrow> string \<Rightarrow> bool" where
  "peerExists e peerKey \<longleftrightarrow> lookup (eng_peerConns e) peerKey \<noteq> None"

text \<open>One round of the loop of \<open>connWorker\<close>: it gives up, skips the attempt, or opens the connection.\<close>

datatype worker_action = GiveUp | SkipAttempt | OpenConn nat

definition connWorker :: "Engine \<Rightarrow> bool \<Rightarrow> nat \<Rightarrow> string \<Rightarrow> worker_action" where
  "connWorker e signal_ready conn peerKey =
     (if \<not> peerExists e peerKey then GiveUp
      else if \<not> signal_ready then SkipAttempt
      else OpenConn conn)"

section \<open>Messages of the Signal Exchange\<close>

definition signalCandidate ::
  "Engine_Env \<Rightarrow> (Sig_Message \<Rightarrow> unit outcome) \<Rightarrow> string \<Rightarrow> string \<Rightarrow> string \<Rightarrow> unit outcome" where
  "signalCandidate env signal_Send candidate myKey remoteKey =
     signal_Send \<lparr>SigMsg_Key = public_key (en_box env) myKey, SigMsg_RemoteKey = remoteKey,
       SigMsg_Body = \<lparr>Body_Type = Body_CANDIDATE, Body_Payload = candidate\<rparr>\<rparr>"

definition signalAuth ::
  "Engine_Env \<Rightarrow> (Sig_Message \<Rightarrow> unit outcome) \<Rightarrow> Credential \<Rightarrow> string \<Rightarrow> string \<Rightarrow> bool \<Rightarrow> unit outcome" where
  "signalAuth env signal_Send cred myKey remoteKey isAnswer =
     (case MarshalCredential (en_box env) myKey remoteKey cred (if isAnswer then Body_ANSWER else Body_OFFER) of
        Err e \<Rightarrow> Err e
      | Panic p \<Rightarrow> Panic p
      | Ret msg \<Rightarrow> signal_Send msg)"

text \<open>
  The handler that \<open>receiveSignalEvents\<close> passes to the Signal client. The message is a pointer:
  the client passes nil for a message it could not decrypt.
\<close>

definition handleSignal :: "Engine_Env \<Rightarrow> Engine \<Rightarrow> Sig_Message option \<Rightarrow> Engine \<times> unit outcome" where
  "handleSignal env e message =
     (case message of
        None \<Rightarrow> (e, Panic NilDereference)
      | Some msg \<Rightarrow>
          (case lookup (eng_peerConns e) (SigMsg_Key msg) of
             None \<Rightarrow> (e, Err (PlainError (''wrongly addressed message '' @ SigMsg_Key msg)))
           | Some c \<Rightarrow>
               (case Body_Type (SigMsg_Body msg) of
                  Body_OFFER \<Rightarrow>
                    (case UnMarshalCredential msg of
                       Err err \<Rightarrow> (e, Err err)
                     | Panic p \<Rightarrow> (e, Panic p)
                     | Ret cred \<Rightarrow>
                         (if OnRemoteOffer (eng_conns e c)
                          then e\<lparr>eng_delivered := eng_delivered e @ [(c, RemoteOffer cred)]\<rparr> else e, Ret ()))
                | Body_ANSWER \<Rightarrow>
                    (case UnMarshalCredential msg of
                       Err err \<Rightarrow> (e, Err err)
                     | Panic p \<Rightarrow> (e, Panic p)
                     | Ret cred \<Rightarrow>
                         (if OnRemoteAnswer (eng_conns e c)
                          then e\<lparr>eng_delivered := eng_delivered e @ [(c, RemoteAnswer cred)]\<rparr> else e, Ret ()))
                | Body_CANDIDATE \<Rightarrow>
                    (case en_UnmarshalCandidate env (Body_Payload (SigMsg_Body msg)) of
                       Err err \<Rightarrow> (e, Err err)
                     | Panic p \<Rightarrow> (e, Panic p)
                     | Ret candidate \<Rightarrow>
                         (if OnRemoteCandidate (eng_conns e c)
                          then e\<lparr>eng_candidates := eng_candidates e @ [(c, candidate)]\<rparr> else e, Ret ()))
                | Body_Other \<Rightarrow> (e, Ret ()))))"

section \<open>Starting and stopping\<close>

record Start_Env =
  start_listen :: "nat \<Rightarrow> unit outcome"
  start_Create :: "unit outcome"
  iface_Close :: "unit outcome"

definition acquire :: "resource \<Rightarrow> Engine \<Rightarrow> Engine" where
  "acquire r e = e\<lparr>eng_resources := r # eng_resources e\<rparr>"

text \<open>\<open>Start\<close> up to the two goroutines: what was acquired before a failure stays acquired.\<close>

definition Engine_Start :: "'d Wg_Ctrl \<Rightarrow> Start_Env \<Rightarrow> 'd \<Rightarrow> Engine \<Rightarrow> ('d \<times> Engine) \<times> unit outcome" where
  "Engine_Start ctl env d e0 =
     on_ret
       (on_ret ((d, e0), NewWGIface ctl (EC_WgIfaceName (eng_config e0)) (EC_WgAddr (eng_config e0)) DefaultMTU)
          (\<lambda>s err. (s, Err err))
          (\<lambda>(d, e) w.
             let e1 = e\<lparr>eng_iface := w\<rparr>
             in on_ret ((d, e1), start_listen env (EC_UDPMuxPort (eng_config e1))) (\<lambda>s err. (s, Err err))
                  (\<lambda>(d, e) u.
                     on_ret ((d, acquire UdpMuxConn e), start_listen env (EC_UDPMuxSrflxPort (eng_config e)))
                       (\<lambda>s err. (s, Err err))
                       (\<lambda>(d, e) u. ((d, acquire UdpMuxSrflx (acquire UdpMux (acquire UdpMuxConnSrflx e))), Ret ())))))
       (\<lambda>s err. (s, Err err))
       (\<lambda>(d, e) u.
          on_ret ((d, e), start_Create env) (\<lambda>s err. (s, Err err))
            (\<lambda>(d, e) u.
               case Configure ctl (eng_iface e) d (EC_WgPrivateKey (eng_config e)) (EC_WgPort (eng_config e)) of
                 (d', result) \<Rightarrow> ((d', acquire WgInterface e), result)))"

text \<open>\<open>Stop\<close>: the errors of closing the sockets and muxes are logged, one of the interface is returned.\<close>

definition Engine_Stop :: "Start_Env \<Rightarrow> Engine \<Rightarrow> Engine \<times> unit outcome" where
  "Engine_Stop env e0 =
     on_ret (removeAllPeers e0) (\<lambda>e err. (e, Err err))
       (\<lambda>e u.
          on_ret (e, if WgInterface \<in> set (eng_resources e) then iface_Close env else Ret ()) (\<lambda>e err. (e, Err err))
            (\<lambda>e u. (e\<lparr>eng_resources := []\<rparr>, Ret ())))"

end
