(* ===== verification/Engine_Properties.thy ===== *)
theory Engine_Properties
  imports Engine
begin

text \<open>
  What the engine guarantees: a network map is applied exactly, connections of peers that stay
  are not disturbed, the newest map wins in whatever order maps arrive; and what can bring the
  engine down.
\<close>

section \<open>The map of the connections\<close>

text \<open>Every known peer has a connection of its own key, and a worker for it.\<close>

definition eng_ok :: "Engine \<Rightarrow> bool" where
  "eng_ok e \<longleftrightarrow> eng_peerConns e \<noteq> NilMap \<and>
     (\<forall>k c. lookup (eng_peerConns e) k = Some c \<longrightarrow>
        c < eng_made e \<and> GetKey (eng_conns e c) = k \<and> (c, k) \<in> set (eng_workers e))"

lemma NewEngine_ok: "eng_ok (NewEngine config conns)"
  by (simp add: NewEngine_def eng_ok_def)

lemma Conn_Close_no_panic: "Conn_Close conn \<noteq> Panic p"
  by (simp add: Conn_Close_def)

lemma removePeer_effect:
  obtains e' where "removePeer k e = (e', Ret ())"
    "\<And>l. lookup (eng_peerConns e') l = (if l = k then None else lookup (eng_peerConns e) l)"
    "eng_conns e' = eng_conns e" "eng_made e' = eng_made e" "eng_workers e' = eng_workers e" "eng_serial e' = eng_serial e"
    "eng_peerConns e' = NilMap \<longleftrightarrow> eng_peerConns e = NilMap"
proof (cases "lookup (eng_peerConns e) k")
  case None
  then show ?thesis by (intro that [of e]) (auto simp: removePeer_def)
next
  case (Some c)
  have nil: "map_delete m k = NilMap \<longleftrightarrow> m = NilMap" for m :: "(string, nat) gomap" by (cases m) auto
  from Some show ?thesis
    by (cases "Conn_Close (eng_conns e c)")
      (auto simp: removePeer_def Let_def Conn_Close_no_panic nil intro!: that)
qed

lemma remove_loop:
  "\<exists>e'. go_for removePeer ks e = (e', Ret ()) \<and>
    (\<forall>l. lookup (eng_peerConns e') l = (if l \<in> set ks then None else lookup (eng_peerConns e) l)) \<and>
    eng_conns e' = eng_conns e \<and> eng_made e' = eng_made e \<and> eng_workers e' = eng_workers e \<and> eng_serial e' = eng_serial e \<and>
    (eng_peerConns e' = NilMap \<longleftrightarrow> eng_peerConns e = NilMap)"
proof (induction ks arbitrary: e)
  case (Cons k ks)
  obtain e1 where e1: "removePeer k e = (e1, Ret ())"
    "\<And>l. lookup (eng_peerConns e1) l = (if l = k then None else lookup (eng_peerConns e) l)"
    "eng_conns e1 = eng_conns e" "eng_made e1 = eng_made e" "eng_workers e1 = eng_workers e" "eng_serial e1 = eng_serial e"
    "eng_peerConns e1 = NilMap \<longleftrightarrow> eng_peerConns e = NilMap"
    using removePeer_effect [of k e] by metis
  from Cons [of e1] e1 show ?case by auto
qed simp

text \<open>A shape both loops share: connections of peers that stay known are the same objects.\<close>

definition keeps_conns :: "Engine \<Rightarrow> Engine \<Rightarrow> bool" where
  "keeps_conns e e' \<longleftrightarrow> eng_ok e' \<and>
     (\<forall>k c. lookup (eng_peerConns e) k = Some c \<longrightarrow> lookup (eng_peerConns e') k \<noteq> None \<longrightarrow>
        lookup (eng_peerConns e') k = Some c \<and> eng_conns e' c = eng_conns e c)"

lemma removed_keeps:
  assumes "eng_ok e" "go_for removePeer ks e = (e', r)"
  shows "keeps_conns e e' \<and> r = Ret () \<and> eng_serial e' = eng_serial e \<and>
    (\<forall>l. lookup (eng_peerConns e') l = (if l \<in> set ks then None else lookup (eng_peerConns e) l))"
  using remove_loop [of ks e] assms by (auto simp: keeps_conns_def eng_ok_def)

lemma createPeerConn_Ret:
  assumes "parse_key (en_box env) k = Ret k'"
  shows "\<exists>conn. createPeerConn env e k ips = Ret conn \<and> GetKey conn = k \<and>
    Proxy_AllowedIps (Conn_ProxyConfig (conn_config conn)) = ips \<and> conn_at conn = NotOpen"
  using assms by (simp add: createPeerConn_def NewConn_def Let_def GetKey_def)

lemma addNewPeer_effect:
  assumes "eng_ok e" "parse_key (en_box env) (Remote_WgPubKey p) = Ret k'"
  shows "\<exists>e'. addNewPeer env p e = (e', Ret ()) \<and> eng_serial e' = eng_serial e \<and> keeps_conns e e' \<and>
    (\<forall>k. lookup (eng_peerConns e') k \<noteq> None \<longleftrightarrow> k = Remote_WgPubKey p \<or> lookup (eng_peerConns e) k \<noteq> None)"
proof (cases "lookup (eng_peerConns e) (Remote_WgPubKey p)")
  case (Some c)
  then show ?thesis using assms(1) by (auto simp: addNewPeer_def keeps_conns_def)
next
  case None
  obtain conn where conn: "createPeerConn env e (Remote_WgPubKey p) (join '','' (Remote_AllowedIps p)) = Ret conn"
    "GetKey conn = Remote_WgPubKey p" using createPeerConn_Ret [OF assms(2)] by blast
  obtain m where m: "assign (eng_peerConns e) (Remote_WgPubKey p) (eng_made e) = Some m"
    using assms(1) assign_Some_iff by (metis eng_ok_def)
  have fresh: "c \<noteq> eng_made e" if "lookup (eng_peerConns e) k = Some c" for k c
    using assms(1) that unfolding eng_ok_def by fastforce
  show ?thesis using None conn m assms(1) fresh assign_no_nil [OF m] lookup_assign [OF m]
    by (auto simp: addNewPeer_def Let_def keeps_conns_def eng_ok_def less_Suc_eq)
qed

lemma keeps_trans:
  assumes "keeps_conns e e1" "keeps_conns e1 e2"
    and "\<And>k. lookup (eng_peerConns e1) k \<noteq> None \<Longrightarrow> lookup (eng_peerConns e2) k \<noteq> None"
    and "\<And>k. lookup (eng_peerConns e) k \<noteq> None \<Longrightarrow> lookup (eng_peerConns e2) k \<noteq> None \<Longrightarrow> lookup (eng_peerConns e1) k \<noteq> None"
  shows "keeps_conns e e2"
  using assms unfolding keeps_conns_def by (metis option.distinct(1))

lemma add_loop:
  assumes "eng_ok e" "\<And>p. p \<in> set ps \<Longrightarrow> is_ret (parse_key (en_box env) (Remote_WgPubKey p))"
  shows "\<exists>e'. go_for (addNewPeer env) ps e = (e', Ret ()) \<and> eng_serial e' = eng_serial e \<and> keeps_conns e e' \<and>
    (\<forall>k. lookup (eng_peerConns e') k \<noteq> None \<longleftrightarrow> k \<in> Remote_WgPubKey ` set ps \<or> lookup (eng_peerConns e) k \<noteq> None)"
  using assms
proof (induction ps arbitrary: e)
  case Nil
  then show ?case by (auto simp: keeps_conns_def)
next
  case (Cons p ps)
  have "is_ret (parse_key (en_box env) (Remote_WgPubKey p))" using Cons.prems(2) by simp
  then obtain k' where "parse_key (en_box env) (Remote_WgPubKey p) = Ret k'"
    by (cases "parse_key (en_box env) (Remote_WgPubKey p)") auto
  from addNewPeer_effect [OF Cons.prems(1) this] obtain e1 where e1: "addNewPeer env p e = (e1, Ret ())"
    "eng_serial e1 = eng_serial e" "keeps_conns e e1"
    "\<forall>k. lookup (eng_peerConns e1) k \<noteq> None \<longleftrightarrow> k = Remote_WgPubKey p \<or> lookup (eng_peerConns e) k \<noteq> None"
    by blast
  then have "eng_ok e1" by (simp add: keeps_conns_def)
  from Cons.IH [OF this Cons.prems(2)] obtain e2 where e2: "go_for (addNewPeer env) ps e1 = (e2, Ret ())"
    "eng_serial e2 = eng_serial e1" "keeps_conns e1 e2"
    "\<forall>k. lookup (eng_peerConns e2) k \<noteq> None \<longleftrightarrow> k \<in> Remote_WgPubKey ` set ps \<or> lookup (eng_peerConns e1) k \<noteq> None"
    by auto
  have "keeps_conns e e2" using keeps_trans [OF e1(3) e2(3)] e1(4) e2(4) by blast
  with e1 e2 show ?case by auto
qed

section \<open>Applying a network map\<close>

definition map_peers :: "NetworkMapMsg \<Rightarrow> string set" where
  "map_peers nm = (if Map_RemotePeersIsEmpty nm then {} else Remote_WgPubKey ` set (Map_RemotePeers nm))"

definition map_valid :: "Engine_Env \<Rightarrow> NetworkMapMsg \<Rightarrow> bool" where
  "map_valid env nm \<longleftrightarrow> (\<forall>p \<in> set (Map_RemotePeers nm). is_ret (parse_key (en_box env) (Remote_WgPubKey p)))"

lemma peers_lookup: "k \<in> set (Engine_GetPeers e) \<longleftrightarrow> lookup (eng_peerConns e) k \<noteq> None"
  by (simp add: Engine_GetPeers_def lookup_keys)

lemma keeps_serial: "keeps_conns e (e'\<lparr>eng_serial := s\<rparr>) \<longleftrightarrow> keeps_conns e e'"
  by (simp add: keeps_conns_def eng_ok_def)

lemma updateNetworkMap_applied:
  assumes "eng_ok e" "map_valid env nm" "eng_serial e \<le> Map_Serial nm"
  shows "\<exists>e'. updateNetworkMap env nm e = (e', Ret ()) \<and> eng_serial e' = Map_Serial nm \<and> keeps_conns e e' \<and>
    set (Engine_GetPeers e') = map_peers nm"
proof (cases "Map_RemotePeersIsEmpty nm")
  case True
  obtain e1 r where e1: "go_for removePeer (keys (eng_peerConns e)) e = (e1, r)" by fastforce
  note k = removed_keeps [OF assms(1) e1]
  have "\<not> lookup (eng_peerConns e1) l \<noteq> None" for l using k by (auto simp: lookup_keys)
  with True e1 k assms(3) show ?thesis
    by (auto simp: updateNetworkMap_def removeAllPeers_def Let_def keeps_serial map_peers_def Engine_GetPeers_def
        lookup_keys set_eq_iff)
next
  case False
  let ?rm = "SliceDiff (keys (eng_peerConns e)) (map Remote_WgPubKey (Map_RemotePeers nm))"
  obtain e1 r where e1: "go_for removePeer ?rm e = (e1, r)" by fastforce
  note k = removed_keeps [OF assms(1) e1]
  have e1_peers: "lookup (eng_peerConns e1) l \<noteq> None \<longleftrightarrow> l \<in> map_peers nm \<and> lookup (eng_peerConns e) l \<noteq> None" for l
    using k False by (auto simp: SliceDiff_filter lookup_keys map_peers_def)
  have ok: "eng_ok e1" using k by (simp add: keeps_conns_def)
  obtain e2 where e2: "go_for (addNewPeer env) (Map_RemotePeers nm) e1 = (e2, Ret ())" "eng_serial e2 = eng_serial e1"
    "keeps_conns e1 e2"
    "\<forall>k. lookup (eng_peerConns e2) k \<noteq> None \<longleftrightarrow> k \<in> Remote_WgPubKey ` set (Map_RemotePeers nm) \<or> lookup (eng_peerConns e1) k \<noteq> None"
    using add_loop [OF ok] assms(2) unfolding map_valid_def by metis
  have peers: "lookup (eng_peerConns e2) l \<noteq> None \<longleftrightarrow> l \<in> map_peers nm" for l
    using e2(4) e1_peers False by (auto simp: map_peers_def)
  have "keeps_conns e e2"
    by (rule keeps_trans [OF _ e2(3)]) (use k e2(4) peers e1_peers in auto)
  moreover have "updateNetworkMap env nm e = (e2\<lparr>eng_serial := Map_Serial nm\<rparr>, Ret ())"
    using False e1 e2(1) k assms(3) by (simp add: updateNetworkMap_def removePeers_def addNewPeers_def Let_def)
  ultimately show ?thesis using peers by (auto simp: keeps_serial Engine_GetPeers_def lookup_keys set_eq_iff)
qed

lemma updateNetworkMap_outdated:
  "Map_Serial nm < eng_serial e \<Longrightarrow> updateNetworkMap env nm e = (e, Ret ())"
  by (simp add: updateNetworkMap_def Let_def)

text \<open>
  C12: a network map that is not older than the one in force is applied exactly: afterwards the
  engine has a connection for every peer of the map and for no other, a peer that was known
  before keeps its connection object, and the serial of the map is remembered. An older map
  changes nothing.
\<close>

theorem network_map_applied:
  assumes "eng_ok e" "map_valid env nm"
  shows "\<exists>e'. updateNetworkMap env nm e = (e', Ret ()) \<and>
    (if eng_serial e \<le> Map_Serial nm
     then eng_serial e' = Map_Serial nm \<and> set (Engine_GetPeers e') = map_peers nm \<and> keeps_conns e e'
     else e' = e)"
  using updateNetworkMap_applied [OF assms] updateNetworkMap_outdated [of nm e env]
  by (cases "eng_serial e \<le> Map_Serial nm") auto

definition ex_engine_env :: Engine_Env where
  "ex_engine_env = \<lparr>en_box = ex_box, en_ParseURL = (\<lambda>u. Ret \<lparr>url_text = u, url_Username = [], url_Password = []\<rparr>),
     en_UnmarshalCandidate = (\<lambda>_. Err (PlainError ''candidate'')), en_rand = (\<lambda>_. 7)\<rparr>"

definition ex_engine_config :: EngineConfig where
  "ex_engine_config = \<lparr>EC_WgPort = 51820, EC_WgIfaceName = ''wt0'', EC_WgAddr = ''100.64.0.1/16'', EC_WgPrivateKey = ''me'',
     EC_IFaceBlackList = [], EC_PreSharedKey = None, EC_UDPMuxPort = 0, EC_UDPMuxSrflxPort = 0\<rparr>"

definition ex_engine :: Engine where
  "ex_engine = NewEngine ex_engine_config (\<lambda>_. ex_conn)"

definition ex_net_map :: "64 word \<Rightarrow> string list \<Rightarrow> NetworkMapMsg" where
  "ex_net_map serial ks = \<lparr>Map_Serial = serial, Map_PeerConfig = None,
     Map_RemotePeers = map (\<lambda>k. \<lparr>Remote_WgPubKey = k, Remote_AllowedIps = [''100.64.0.2/32'']\<rparr>) ks, Map_RemotePeersIsEmpty = ks = []\<rparr>"

lemma ex_map_valid: "map_valid ex_engine_env (ex_net_map s ks)" "map_peers (ex_net_map s ks) = set ks"
  "Map_Serial (ex_net_map s ks) = s"
  by (auto simp: map_valid_def map_peers_def ex_net_map_def ex_engine_env_def ex_box_def image_image)

theorem network_map_applied_witness:
  "\<exists>e. updateNetworkMap ex_engine_env (ex_net_map 3 [''p'', ''q'']) ex_engine = (e, Ret ()) \<and>
     set (Engine_GetPeers e) = {''p'', ''q''} \<and> eng_serial e = 3"
proof -
  have "eng_ok ex_engine" "eng_serial ex_engine = 0"
    by (simp add: ex_engine_def NewEngine_ok, simp add: ex_engine_def NewEngine_def)
  with network_map_applied [OF _ ex_map_valid(1), of ex_engine 3 "[''p'', ''q'']"] show ?thesis
    by (auto simp: ex_map_valid)
qed

section \<open>Maps in any order\<close>

text \<open>The engine after a sequence of maps, each handled after the one before it.\<close>

fun apply_maps :: "Engine_Env \<Rightarrow> NetworkMapMsg list \<Rightarrow> Engine \<Rightarrow> Engine \<times> unit outcome" where
  "apply_maps env [] e = (e, Ret ())"
| "apply_maps env (nm # nms) e = on_ret (updateNetworkMap env nm e) (\<lambda>e err. (e, Err err)) (\<lambda>e u. apply_maps env nms e)"

text \<open>The contract: of the map in force and a new one the new one counts unless it is older.\<close>

fun newest :: "64 word \<times> string set \<Rightarrow> NetworkMapMsg list \<Rightarrow> 64 word \<times> string set" where
  "newest cur [] = cur"
| "newest cur (nm # nms) = newest (if Map_Serial nm < fst cur then cur else (Map_Serial nm, map_peers nm)) nms"

lemma apply_maps_newest:
  assumes "eng_ok e" "\<forall>nm \<in> set nms. map_valid env nm"
  shows "\<exists>e'. apply_maps env nms e = (e', Ret ()) \<and> eng_ok e' \<and>
    (eng_serial e', set (Engine_GetPeers e')) = newest (eng_serial e, set (Engine_GetPeers e)) nms"
  using assms
proof (induction nms arbitrary: e)
  case (Cons nm nms)
  from updateNetworkMap_applied [OF Cons.prems(1), of env nm] updateNetworkMap_outdated [of nm e env] Cons.prems(2)
  obtain e1 where e1: "updateNetworkMap env nm e = (e1, Ret ())"
    "if eng_serial e \<le> Map_Serial nm
     then eng_serial e1 = Map_Serial nm \<and> set (Engine_GetPeers e1) = map_peers nm \<and> keeps_conns e e1 else e1 = e"
    by (cases "eng_serial e \<le> Map_Serial nm") auto
  then have "eng_ok e1" using Cons.prems(1) by (auto simp: keeps_conns_def split: if_splits)
  with Cons.IH [of e1] Cons.prems(2) e1 show ?case by (auto split: if_splits)
qed simp

lemma newest_max:
  assumes "best \<in> set nms" "\<forall>nm \<in> set nms. Map_Serial nm \<le> Map_Serial best" "distinct (map Map_Serial nms)"
    and "fst cur \<le> Map_Serial best"
  shows "newest cur nms = (Map_Serial best, map_peers best)"
  using assms
proof (induction nms arbitrary: cur)
  case (Cons nm nms)
  have stay: "newest (Map_Serial best, ps) ns = (Map_Serial best, ps)"
    if "\<forall>n \<in> set ns. Map_Serial n < Map_Serial best" for ps ns
    using that by (induction ns) auto
  show ?case
  proof (cases "best = nm")
    case True
    then have "\<forall>n \<in> set nms. Map_Serial n \<le> Map_Serial best \<and> Map_Serial n \<noteq> Map_Serial best"
      using Cons.prems(2,3) by (auto simp: image_iff)
    then have "\<forall>n \<in> set nms. Map_Serial n < Map_Serial best" by (simp add: order_less_le)
    with stay True Cons.prems(4) show ?thesis by (simp add: linorder_not_less [symmetric])
  next
    case False
    with Cons.prems show ?thesis
      using Cons.IH [of "if Map_Serial nm < fst cur then cur else (Map_Serial nm, map_peers nm)"] by auto
  qed
qed simp

text \<open>
  C20: the order in which maps arrive does not matter: after any sequence of maps with different
  serials the engine has the peers of the map with the greatest serial, wherever in the sequence
  that map was, provided the engine had not applied a later one before.
\<close>

theorem newest_map_wins:
  assumes "eng_ok e" "\<forall>nm \<in> set nms. map_valid env nm" "distinct (map Map_Serial nms)"
    and "best \<in> set nms" "\<forall>nm \<in> set nms. Map_Serial nm \<le> Map_Serial best" "eng_serial e \<le> Map_Serial best"
  shows "\<exists>e'. apply_maps env nms e = (e', Ret ()) \<and> eng_ok e' \<and>
    eng_serial e' = Map_Serial best \<and> set (Engine_GetPeers e') = map_peers best"
  using apply_maps_newest [OF assms(1,2)] newest_max [OF assms(4,5,3), of "(eng_serial e, set (Engine_GetPeers e))"] assms(6)
  by auto

theorem newest_map_wins_witness:
  "\<exists>e. apply_maps ex_engine_env [ex_net_map 3 [''p'', ''q''], ex_net_map 2 [''z'']] ex_engine = (e, Ret ()) \<and>
     set (Engine_GetPeers e) = {''p'', ''q''}"
proof -
  have "eng_ok ex_engine" "eng_serial ex_engine = 0"
    by (simp add: ex_engine_def NewEngine_ok, simp add: ex_engine_def NewEngine_def)
  with newest_map_wins [of ex_engine "[ex_net_map 3 [''p'', ''q''], ex_net_map 2 [''z'']]" ex_engine_env "ex_net_map 3 [''p'', ''q'']"]
  show ?thesis by (auto simp: ex_map_valid)
qed

section \<open>A message that cannot be decrypted\<close>

text \<open>
  C39: a message that cannot be decrypted brings the client down: the Signal client logs the
  failure and passes a nil message on, which the handler of the engine dereferences. The
  Signal service forwards messages of any registered peer, so every peer can do this.
\<close>

theorem undecryptable_panics:
  assumes "parse_key (sc_box env) (SigEnc_Key msg) = Ret k" "sc_nonce env = Ret n" "24 \<le> length (SigEnc_Body msg)"
    and "box_open (sc_box env) (drop 24 (SigEnc_Body msg)) (take 24 (SigEnc_Body msg)) k (sc_key c) = None"
  shows "receive env c (handleSignal eenv) (Ret msg # rs) e = (e, Some (Panic NilDereference))"
  using assms by (simp add: handleSignal_def decryptMessage_def DecryptMessage_def Decrypt_def)

theorem undecryptable_panics_witness:
  "snd (receive (ex_sig_env\<lparr>sc_box := ex_box\<lparr>box_open := (\<lambda>_ _ _ _. None)\<rparr>\<rparr>) (ex_sig_client ''b'') (handleSignal ex_engine_env)
     [Ret \<lparr>SigEnc_Key = ''a'', SigEnc_RemoteKey = ''b'', SigEnc_Body = replicate 30 0\<rparr>] ex_engine) =
     Some (Panic NilDereference)"
  by (subst undecryptable_panics [of _ _ "''a''" "replicate 24 0"]) (simp_all add: ex_sig_env_def ex_box_def)

section \<open>A peer removed at the wrong moment\<close>

text \<open>
  A peer that is removed while its connection is being established is not disconnected:
  \<open>removePeer\<close> reports success and forgets the peer, but the request to close is dropped because
  nobody receives it, and once the other side has answered the connection becomes \<open>Connected\<close>,
  which puts the removed peer on the device.
\<close>

theorem removed_while_dialling:
  assumes "lookup (eng_peerConns e) k = Some c" "conn_at (eng_conns e c) = Dialling cred"
  shows "\<exists>e'. removePeer k e = (e', Ret ()) \<and> \<not> peerExists e' k \<and> eng_closed e' = eng_closed e \<and>
    eng_conns e' c = eng_conns e c \<and>
    (\<forall>ctl ice net d s. startProxy ctl ice net (d, eng_conns e' c) = (s, Ret ()) \<longrightarrow>
       (\<exists>d' conn. Open_dialled ctl ice net (Ret ()) (d, eng_conns e' c) = ((d', conn), Ret ()) \<and>
          Conn_Status conn = StatusConnected))"
proof -
  have up: "conn_status (snd s) = StatusConnected" if "startProxy ctl ice net s0 = (s, Ret ())"
    for ctl :: "'a Wg_Ctrl" and ice net s s0
    using that by (auto simp: startProxy_def Let_def split: outcome.splits prod.splits)
  obtain err where "Conn_Close (eng_conns e c) = Err err" using assms(2) by (auto simp: Conn_Close_def)
  then show ?thesis using assms(1) up
    by (auto simp: removePeer_def Let_def peerExists_def Open_dialled_def Conn_Status_def)
qed

lemma Open_return_no_ret: "snd (Open_return ctl ice net s err) \<noteq> Ret u"
  by (auto simp: Open_return_def split: prod.splits outcome.splits)

lemma dialled_started:
  assumes "Open_dialled ctl ice net (Ret ()) s = (s', Ret ())"
  shows "\<exists>s1. startProxy ctl ice net s = (s1, Ret ())"
proof (cases "startProxy ctl ice net s")
  case (Pair s1 r)
  then show ?thesis using assms Open_return_no_ret [of ctl ice net s1 _ "()"]
    by (cases r) (auto simp: Open_dialled_def, metis snd_conv)
qed

definition ex_dialling_engine :: Engine where
  "ex_dialling_engine = ex_engine\<lparr>eng_peerConns := GoMap [(''r'', 0)], eng_conns := (\<lambda>_. ex_dialling), eng_made := 1,
     eng_workers := [(0, ''r'')]\<rparr>"

theorem removed_while_dialling_witness:
  "\<exists>e'. removePeer ''r'' ex_dialling_engine = (e', Ret ()) \<and> \<not> peerExists e' ''r'' \<and>
     (\<exists>d conn. Open_dialled ex_ctl ex_ice ex_pnet (Ret ()) (Map.empty, eng_conns e' 0) = ((d, conn), Ret ()) \<and>
        Conn_Status conn = StatusConnected)"
proof -
  have "lookup (eng_peerConns ex_dialling_engine) ''r'' = Some 0"
    "conn_at (eng_conns ex_dialling_engine 0) = Dialling \<lparr>Cred_UFrag = [], Cred_Pwd = []\<rparr>"
    "eng_conns ex_dialling_engine 0 = ex_dialling"
    by (simp_all add: ex_dialling_engine_def ex_dialling_def)
  moreover have "\<exists>s. startProxy ex_ctl ex_ice ex_pnet (Map.empty, ex_dialling) = (s, Ret ())"
    using ex_dialled dialled_started by metis
  ultimately show ?thesis using removed_while_dialling [of ex_dialling_engine "''r''" 0] by metis
qed

end
