(* ===== verification/File_Store.thy ===== *)
theory File_Store
  imports Mgmt_Types
begin

text \<open>
  \<open>management/server/store.go\<close> and \<open>file_store.go\<close>: the store of accounts, the six
  indexes it keeps in memory, and the file that backs it.

  The store is the record of its fields. Two more fields stand for the outside:
  \<open>disk\<close> is what the store file holds (only \<open>Accounts\<close> is marshalled, the indexes carry
  the tag \<open>json:"-"\<close>), \<open>write_faults\<close> is the schedule of the errors the next calls of
  \<open>util.WriteJson\<close> return, empty when they all succeed. \<open>WriteJson\<close> writes a temporary
  file and renames it, so a write that fails leaves the file as it was.

  \<open>GetAccount\<close> returns the live account of the store: code that changes it and
  then calls \<open>SaveAccount\<close> has changed the store before \<open>SaveAccount\<close> runs. An index
  from peers to rules maps a peer to the set of rule identifiers, kept as a list.
\<close>

datatype file_state = NoFile | Broken GoError | Stored "(string, Account) gomap"

record FileStore =
  Accounts :: "(string, Account) gomap"
  SetupKeyId2AccountId :: "string \<rightharpoonup> string"
  PeerKeyId2AccountId :: "string \<rightharpoonup> string"
  UserId2AccountId :: "string \<rightharpoonup> string"
  PrivateDomain2AccountId :: "string \<rightharpoonup> string"
  PeerKeyId2SrcRulesId :: "string \<rightharpoonup> string list"
  PeerKeyId2DstRulesId :: "string \<rightharpoonup> string list"
  storeFile :: string
  disk :: file_state
  write_faults :: "GoError option list"

section \<open>Persistence and lookups\<close>

fun persist :: "FileStore \<Rightarrow> FileStore \<times> unit outcome" where
  "persist s =
     (case write_faults s of
        [] \<Rightarrow> (s\<lparr>disk := Stored (Accounts s)\<rparr>, Ret ())
      | None # fs \<Rightarrow> (s\<lparr>disk := Stored (Accounts s), write_faults := fs\<rparr>, Ret ())
      | Some e # fs \<Rightarrow> (s\<lparr>write_faults := fs\<rparr>, Err e))"

declare persist.simps [simp del]

definition GetAccount :: "FileStore \<Rightarrow> string \<Rightarrow> Account outcome" where
  "GetAccount s accountId =
     (case lookup (Accounts s) accountId of
        None \<Rightarrow> Err (StatusError NotFound ''account not found'')
      | Some account \<Rightarrow> Ret account)"

definition GetAllAccounts :: "FileStore \<Rightarrow> Account list" where
  "GetAllAccounts s = vals (Accounts s)"

definition GetAccountByPrivateDomain :: "FileStore \<Rightarrow> string \<Rightarrow> Account outcome" where
  "GetAccountByPrivateDomain s domain =
     (case PrivateDomain2AccountId s (ToLower domain) of
        None \<Rightarrow> Err (StatusError NotFound ''provided domain is not registered or is not private'')
      | Some accountId \<Rightarrow> GetAccount s accountId)"

definition GetAccountBySetupKey :: "FileStore \<Rightarrow> string \<Rightarrow> Account outcome" where
  "GetAccountBySetupKey s setupKey =
     (case SetupKeyId2AccountId s (ToUpper setupKey) of
        None \<Rightarrow> Err (StatusError NotFound ''provided setup key doesn't exists'')
      | Some accountId \<Rightarrow> GetAccount s accountId)"

definition GetUserAccount :: "FileStore \<Rightarrow> string \<Rightarrow> Account outcome" where
  "GetUserAccount s userId =
     (case UserId2AccountId s userId of
        None \<Rightarrow> Err (StatusError NotFound ''account not found'')
      | Some accountId \<Rightarrow> GetAccount s accountId)"

definition GetPeerAccount :: "FileStore \<Rightarrow> string \<Rightarrow> Account outcome" where
  "GetPeerAccount s peerKey =
     (case PeerKeyId2AccountId s peerKey of
        None \<Rightarrow> Err (StatusError NotFound (''Provided peer key doesn't exists '' @ peerKey))
      | Some accountId \<Rightarrow> GetAccount s accountId)"

definition Store_GetPeer :: "FileStore \<Rightarrow> string \<Rightarrow> Peer outcome" where
  "Store_GetPeer s peerKey =
     (case PeerKeyId2AccountId s peerKey of
        None \<Rightarrow> Err (StatusError NotFound ''peer not found'')
      | Some accountId \<Rightarrow>
          (case GetAccount s accountId of
             Err e \<Rightarrow> Err e
           | Panic p \<Rightarrow> Panic p
           | Ret account \<Rightarrow>
               (case lookup (Account_Peers account) peerKey of
                  Some peer \<Rightarrow> Ret peer
                | None \<Rightarrow> Err (StatusError NotFound ''peer not found''))))"

definition GetAccountPeers :: "FileStore \<Rightarrow> string \<Rightarrow> Peer list outcome" where
  "GetAccountPeers s accountId =
     (case GetAccount s accountId of
        Err e \<Rightarrow> Err e
      | Panic p \<Rightarrow> Panic p
      | Ret account \<Rightarrow> Ret (vals (Account_Peers account)))"

definition rules_of :: "Account \<Rightarrow> string list \<Rightarrow> Rule list" where
  "rules_of account ruleIDs = List.map_filter (lookup (Account_Rules account)) ruleIDs"

definition GetPeerSrcRules :: "FileStore \<Rightarrow> string \<Rightarrow> string \<Rightarrow> Rule list outcome" where
  "GetPeerSrcRules s accountId peerKey =
     (case GetAccount s accountId of
        Err e \<Rightarrow> Err e
      | Panic p \<Rightarrow> Panic p
      | Ret account \<Rightarrow>
          (case PeerKeyId2SrcRulesId s peerKey of
             None \<Rightarrow> Err (PlainError ''no rules for peer: map[]'')
           | Some ruleIDs \<Rightarrow> Ret (rules_of account ruleIDs)))"

definition GetPeerDstRules :: "FileStore \<Rightarrow> string \<Rightarrow> string \<Rightarrow> Rule list outcome" where
  "GetPeerDstRules s accountId peerKey =
     (case GetAccount s accountId of
        Err e \<Rightarrow> Err e
      | Panic p \<Rightarrow> Panic p
      | Ret account \<Rightarrow>
          (case PeerKeyId2DstRulesId s peerKey of
             None \<Rightarrow> Err (PlainError ''no rules for peer: map[]'')
           | Some ruleIDs \<Rightarrow> Ret (rules_of account ruleIDs)))"

section \<open>Saving\<close>

text \<open>A write through the pointer the store holds for an account.\<close>

definition set_account :: "FileStore \<Rightarrow> string \<Rightarrow> Account \<Rightarrow> FileStore" where
  "set_account s accountId a = s\<lparr>Accounts := map_entry (Accounts s) accountId (\<lambda>_. a)\<rparr>"

definition add_rule_id :: "string \<Rightarrow> string \<Rightarrow> (string \<rightharpoonup> string list) \<Rightarrow> (string \<rightharpoonup> string list)" where
  "add_rule_id ruleID pid m =
     (case m pid of None \<Rightarrow> m(pid \<mapsto> [ruleID]) | Some rules \<Rightarrow> m(pid \<mapsto> List.insert ruleID rules))"

text \<open>The two inner loops over a rule; \<open>account.Groups[gid].Peers\<close> panics for a missing group.\<close>

definition index_src :: "Account \<Rightarrow> Rule \<Rightarrow> FileStore \<Rightarrow> FileStore \<times> unit outcome" where
  "index_src account rule =
     go_for (\<lambda>gid s.
       case lookup (Account_Groups account) gid of
         None \<Rightarrow> (s, Panic NilDereference)
       | Some g \<Rightarrow> (s\<lparr>PeerKeyId2SrcRulesId :=
                      fold (add_rule_id (Rule_ID rule)) (Group_Peers g) (PeerKeyId2SrcRulesId s)\<rparr>, Ret ()))
     (Rule_Source rule)"

definition index_dst :: "Account \<Rightarrow> Rule \<Rightarrow> FileStore \<Rightarrow> FileStore \<times> unit outcome" where
  "index_dst account rule =
     go_for (\<lambda>gid s.
       case lookup (Account_Groups account) gid of
         None \<Rightarrow> (s, Panic NilDereference)
       | Some g \<Rightarrow> (s\<lparr>PeerKeyId2DstRulesId :=
                      fold (add_rule_id (Rule_ID rule)) (Group_Peers g) (PeerKeyId2DstRulesId s)\<rparr>, Ret ()))
     (Rule_Destination rule)"

definition index_rule :: "Account \<Rightarrow> Rule \<Rightarrow> FileStore \<Rightarrow> FileStore \<times> unit outcome" where
  "index_rule account rule s =
     (case index_src account rule s of
        (s1, Ret u) \<Rightarrow> index_dst account rule s1
      | (s1, Err e) \<Rightarrow> (s1, Err e)
      | (s1, Panic p) \<Rightarrow> (s1, Panic p))"

definition index_keys :: "Account \<Rightarrow> FileStore \<Rightarrow> FileStore" where
  "index_keys account s =
     fold (\<lambda>keyId s. s\<lparr>SetupKeyId2AccountId := (SetupKeyId2AccountId s)(ToUpper keyId \<mapsto> Account_Id account)\<rparr>)
       (keys (Account_SetupKeys account)) s"

definition index_peers :: "Account \<Rightarrow> FileStore \<Rightarrow> FileStore" where
  "index_peers account s =
     fold (\<lambda>peer s. s\<lparr>PeerKeyId2AccountId := (PeerKeyId2AccountId s)(Peer_Key peer \<mapsto> Account_Id account)\<rparr>)
       (vals (Account_Peers account)) s"

definition index_users :: "Account \<Rightarrow> FileStore \<Rightarrow> FileStore" where
  "index_users account s =
     fold (\<lambda>user s. s\<lparr>UserId2AccountId := (UserId2AccountId s)(User_Id user \<mapsto> Account_Id account)\<rparr>)
       (vals (Account_Users account)) s"

definition index_domain :: "Account \<Rightarrow> FileStore \<Rightarrow> FileStore" where
  "index_domain account s =
     (if Account_DomainCategory account = PrivateCategory \<and> Account_IsDomainPrimaryAccount account
      then s\<lparr>PrivateDomain2AccountId :=
             (PrivateDomain2AccountId s)(Account_Domain account \<mapsto> Account_Id account)\<rparr>
      else s)"

definition SaveAccount :: "FileStore \<Rightarrow> Account \<Rightarrow> FileStore \<times> unit outcome" where
  "SaveAccount s account =
     (case assign (Accounts s) (Account_Id account) account of
        None \<Rightarrow> (s, Panic NilMapWrite)
      | Some accounts \<Rightarrow>
          (case go_for (index_rule account) (vals (Account_Rules account))
                  (index_peers account (index_keys account (s\<lparr>Accounts := accounts\<rparr>))) of
             (s1, Ret u) \<Rightarrow> persist (index_domain account (index_users account s1))
           | (s1, Err e) \<Rightarrow> (s1, Err e)
           | (s1, Panic p) \<Rightarrow> (s1, Panic p)))"

definition SavePeer :: "FileStore \<Rightarrow> string \<Rightarrow> Peer \<Rightarrow> FileStore \<times> unit outcome" where
  "SavePeer s accountId peer =
     (case GetAccount s accountId of
        Err e \<Rightarrow> (s, Err e)
      | Panic p \<Rightarrow> (s, Panic p)
      | Ret account \<Rightarrow>
          (case GetGroupAll account of
             Err e \<Rightarrow> (s, Err e)
           | Panic p \<Rightarrow> (s, Panic p)
           | Ret (gid, allGroup) \<Rightarrow>
               (let account1 =
                      (if Peer_Key peer \<in> set (Group_Peers allGroup) then account
                       else account\<lparr>Account_Groups := map_entry (Account_Groups account) gid
                              (\<lambda>g. g\<lparr>Group_Peers := Group_Peers g @ [Peer_Key peer]\<rparr>)\<rparr>)
                in case assign (Account_Peers account1) (Peer_Key peer) peer of
                     None \<Rightarrow> (set_account s accountId account1, Panic NilMapWrite)
                   | Some peers \<Rightarrow>
                       persist (set_account s accountId (account1\<lparr>Account_Peers := peers\<rparr>)))))"

text \<open>
  The cleanup of \<open>DeletePeer\<close>: the slice \<open>peers\<close> is declared before the loop over the
  groups and never reset, so every group receives the members collected so far.
\<close>

fun cleanup_groups :: "string \<Rightarrow> string list \<Rightarrow> (string \<times> Group) list \<Rightarrow> (string \<times> Group) list" where
  "cleanup_groups peerKey peers [] = []"
| "cleanup_groups peerKey peers ((gid, g) # gs) =
     (let peers' = peers @ filter (\<lambda>p. p \<noteq> peerKey) (Group_Peers g)
      in (gid, g\<lparr>Group_Peers := peers'\<rparr>) # cleanup_groups peerKey peers' gs)"

definition cleanup_map :: "string \<Rightarrow> (string, Group) gomap \<Rightarrow> (string, Group) gomap" where
  "cleanup_map peerKey m =
     (case m of NilMap \<Rightarrow> NilMap | GoMap gs \<Rightarrow> GoMap (cleanup_groups peerKey [] gs))"

definition Store_DeletePeer :: "FileStore \<Rightarrow> string \<Rightarrow> string \<Rightarrow> FileStore \<times> Peer outcome" where
  "Store_DeletePeer s accountId peerKey =
     (case GetAccount s accountId of
        Err e \<Rightarrow> (s, Err e)
      | Panic p \<Rightarrow> (s, Panic p)
      | Ret account \<Rightarrow>
          (case lookup (Account_Peers account) peerKey of
             None \<Rightarrow> (s, Err (StatusError NotFound ''peer not found''))
           | Some peer \<Rightarrow>
               (let account1 = account\<lparr>Account_Peers := map_delete (Account_Peers account) peerKey,
                                       Account_Groups := cleanup_map peerKey (Account_Groups account)\<rparr>;
                    s1 = (set_account s accountId account1)
                           \<lparr>PeerKeyId2AccountId := (PeerKeyId2AccountId s)(peerKey := None)\<rparr>
                in case persist s1 of
                     (s2, Ret u) \<Rightarrow> (s2, Ret peer)
                   | (s2, Err e) \<Rightarrow> (s2, Err e)
                   | (s2, Panic p) \<Rightarrow> (s2, Panic p))))"

section \<open>Restoring\<close>

definition empty_store :: "string \<Rightarrow> file_state \<Rightarrow> GoError option list \<Rightarrow> FileStore" where
  "empty_store file st faults =
     \<lparr>Accounts = GoMap [], SetupKeyId2AccountId = Map.empty, PeerKeyId2AccountId = Map.empty,
      UserId2AccountId = Map.empty, PrivateDomain2AccountId = Map.empty,
      PeerKeyId2SrcRulesId = Map.empty, PeerKeyId2DstRulesId = Map.empty,
      storeFile = file, disk = st, write_faults = faults\<rparr>"

text \<open>The indexing loop of \<open>restore\<close>; here a rule that names a missing group is skipped.\<close>

definition restore_group_rules ::
  "Account \<Rightarrow> string \<Rightarrow> string list \<Rightarrow> (string \<rightharpoonup> string list) \<Rightarrow> (string \<rightharpoonup> string list)" where
  "restore_group_rules account ruleID gids m =
     fold (\<lambda>gid m. case lookup (Account_Groups account) gid of
                     None \<Rightarrow> m
                   | Some g \<Rightarrow> fold (add_rule_id ruleID) (Group_Peers g) m) gids m"

definition restore_account :: "string \<Rightarrow> Account \<Rightarrow> FileStore \<Rightarrow> FileStore" where
  "restore_account accountId account s =
     (let s1 = fold (\<lambda>keyId s. s\<lparr>SetupKeyId2AccountId :=
                       (SetupKeyId2AccountId s)(ToUpper keyId \<mapsto> accountId)\<rparr>)
                 (keys (Account_SetupKeys account)) s;
          s2 = fold (\<lambda>rule s. s\<lparr>
                 PeerKeyId2SrcRulesId := restore_group_rules account (Rule_ID rule) (Rule_Source rule)
                                           (PeerKeyId2SrcRulesId s),
                 PeerKeyId2DstRulesId := restore_group_rules account (Rule_ID rule) (Rule_Destination rule)
                                           (PeerKeyId2DstRulesId s)\<rparr>)
                 (vals (Account_Rules account)) s1;
          s3 = fold (\<lambda>peer s. s\<lparr>PeerKeyId2AccountId :=
                       (PeerKeyId2AccountId s)(Peer_Key peer \<mapsto> accountId)\<rparr>)
                 (vals (Account_Peers account)) s2;
          s4 = fold (\<lambda>user s. s\<lparr>UserId2AccountId := (UserId2AccountId s)(User_Id user \<mapsto> accountId)\<rparr>)
                 (vals (Account_Users account)) s3
      in if Account_Domain account \<noteq> [] \<and> Account_DomainCategory account = PrivateCategory \<and>
            Account_IsDomainPrimaryAccount account
         then s4\<lparr>PrivateDomain2AccountId :=
                (PrivateDomain2AccountId s4)(Account_Domain account \<mapsto> accountId)\<rparr>
         else s4)"

definition restore :: "string \<Rightarrow> file_state \<Rightarrow> GoError option list \<Rightarrow> FileStore outcome" where
  "restore file st faults =
     (case st of
        NoFile \<Rightarrow>
          (case persist (empty_store file NoFile faults) of
             (s, Ret u) \<Rightarrow> Ret s
           | (s, Err e) \<Rightarrow> Err e
           | (s, Panic p) \<Rightarrow> Panic p)
      | Broken e \<Rightarrow> Err e
      | Stored accounts \<Rightarrow>
          Ret (fold (\<lambda>(accountId, account). restore_account accountId account) (entries accounts)
                 ((empty_store file st faults)\<lparr>Accounts := accounts\<rparr>)))"

section \<open>The indexes after a save\<close>

lemma fold_keys:
  "fold (\<lambda>k s. s\<lparr>SetupKeyId2AccountId := (SetupKeyId2AccountId s)(f k \<mapsto> i)\<rparr>) ks s =
   s\<lparr>SetupKeyId2AccountId := \<lambda>k. if k \<in> f ` set ks then Some i else SetupKeyId2AccountId s k\<rparr>"
  by (induction ks arbitrary: s) (auto simp: fun_eq_iff)

lemma fold_peers:
  "fold (\<lambda>p s. s\<lparr>PeerKeyId2AccountId := (PeerKeyId2AccountId s)(f p \<mapsto> i)\<rparr>) ps s =
   s\<lparr>PeerKeyId2AccountId := \<lambda>k. if k \<in> f ` set ps then Some i else PeerKeyId2AccountId s k\<rparr>"
  by (induction ps arbitrary: s) (auto simp: fun_eq_iff)

lemma fold_users:
  "fold (\<lambda>u s. s\<lparr>UserId2AccountId := (UserId2AccountId s)(f u \<mapsto> i)\<rparr>) us s =
   s\<lparr>UserId2AccountId := \<lambda>k. if k \<in> f ` set us then Some i else UserId2AccountId s k\<rparr>"
  by (induction us arbitrary: s) (auto simp: fun_eq_iff)

lemmas index_closed = index_keys_def index_peers_def index_users_def fold_keys fold_peers fold_users

text \<open>What the rule loops leave alone: every field but the two rule indexes.\<close>

definition forget_rules :: "FileStore \<Rightarrow> FileStore" where
  "forget_rules s = s\<lparr>PeerKeyId2SrcRulesId := Map.empty, PeerKeyId2DstRulesId := Map.empty\<rparr>"

lemma forget_rules_fields:
  assumes "forget_rules s = forget_rules t"
  shows "Accounts s = Accounts t" "SetupKeyId2AccountId s = SetupKeyId2AccountId t"
    "PeerKeyId2AccountId s = PeerKeyId2AccountId t" "UserId2AccountId s = UserId2AccountId t"
    "PrivateDomain2AccountId s = PrivateDomain2AccountId t" "storeFile s = storeFile t"
    "disk s = disk t" "write_faults s = write_faults t"
  using assms by (auto simp: forget_rules_def dest: arg_cong [where f = Accounts]
      arg_cong [where f = SetupKeyId2AccountId] arg_cong [where f = PeerKeyId2AccountId]
      arg_cong [where f = UserId2AccountId] arg_cong [where f = PrivateDomain2AccountId]
      arg_cong [where f = storeFile] arg_cong [where f = disk] arg_cong [where f = write_faults])

lemma index_src_frame: "index_src a r s = (t, q) \<Longrightarrow> forget_rules t = forget_rules s"
  unfolding index_src_def
  by (erule go_for_invariant [where P = "\<lambda>t. forget_rules t = forget_rules s"])
    (auto simp: forget_rules_def split: option.splits)

lemma index_dst_frame: "index_dst a r s = (t, q) \<Longrightarrow> forget_rules t = forget_rules s"
  unfolding index_dst_def
  by (erule go_for_invariant [where P = "\<lambda>t. forget_rules t = forget_rules s"])
    (auto simp: forget_rules_def split: option.splits)

lemma index_rule_frame: "index_rule a r s = (t, q) \<Longrightarrow> forget_rules t = forget_rules s"
  by (auto simp: index_rule_def split: prod.splits outcome.splits
      dest!: index_src_frame index_dst_frame)

lemma index_rules_frame: "go_for (index_rule a) rs s = (t, q) \<Longrightarrow> forget_rules t = forget_rules s"
  by (erule go_for_invariant [where P = "\<lambda>t. forget_rules t = forget_rules s"])
    (auto dest: index_rule_frame)

text \<open>A rule loop ends without a panic exactly when every group it names exists.\<close>

lemma go_for_groups_ok:
  assumes "\<forall>g \<in> set gids. lookup m g \<noteq> None"
  shows "go_for (\<lambda>gid s. case lookup m gid of None \<Rightarrow> (s, Panic p) | Some g \<Rightarrow> (f g s, Ret ())) gids s =
    (fold (\<lambda>gid. f (the (lookup m gid))) gids s, Ret ())"
  using assms by (intro go_for_pure) auto

lemma go_for_groups_panic:
  assumes "\<exists>g \<in> set gids. lookup m g = None"
  shows "\<exists>s'. go_for (\<lambda>gid s. case lookup m gid of None \<Rightarrow> (s, Panic p) | Some g \<Rightarrow> (f g s, Ret ())) gids s =
    (s', Panic p)"
  using assms by (induction gids arbitrary: s) (auto split: option.splits)

lemma index_rule_ok:
  assumes "\<forall>g \<in> set (Rule_Source r @ Rule_Destination r). lookup (Account_Groups a) g \<noteq> None"
  shows "\<exists>s'. index_rule a r s = (s', Ret ())"
  using assms unfolding index_rule_def index_src_def index_dst_def
  by (simp add: go_for_groups_ok)

lemma index_rule_panic:
  assumes "\<exists>g \<in> set (Rule_Source r @ Rule_Destination r). lookup (Account_Groups a) g = None"
  shows "\<exists>s'. index_rule a r s = (s', Panic NilDereference)"
proof (cases "\<exists>g \<in> set (Rule_Source r). lookup (Account_Groups a) g = None")
  case True
  then have "\<exists>s'. index_src a r s = (s', Panic NilDereference)"
    unfolding index_src_def by (rule go_for_groups_panic)
  then show ?thesis by (auto simp: index_rule_def)
next
  case False
  with assms have "\<exists>g \<in> set (Rule_Destination r). lookup (Account_Groups a) g = None" by auto
  then have "\<exists>s'. index_dst a r t = (s', Panic NilDereference)" for t
    unfolding index_dst_def by (rule go_for_groups_panic)
  moreover from False have "\<exists>t. index_src a r s = (t, Ret ())"
    unfolding index_src_def by (simp add: go_for_groups_ok)
  ultimately show ?thesis by (auto simp: index_rule_def)
qed

lemma index_rules_ok:
  assumes "\<forall>r \<in> set rs. \<forall>g \<in> set (Rule_Source r @ Rule_Destination r). lookup (Account_Groups a) g \<noteq> None"
  shows "\<exists>s'. go_for (index_rule a) rs s = (s', Ret ())"
  using assms
proof (induction rs arbitrary: s)
  case Nil
  then show ?case by simp
next
  case (Cons r rs)
  then obtain t where "index_rule a r s = (t, Ret ())" using index_rule_ok by force
  with Cons show ?case by simp
qed

lemma index_rules_panic:
  assumes "\<exists>r \<in> set rs. \<exists>g \<in> set (Rule_Source r @ Rule_Destination r). lookup (Account_Groups a) g = None"
  shows "\<exists>s'. go_for (index_rule a) rs s = (s', Panic NilDereference)"
  using assms
proof (induction rs arbitrary: s)
  case Nil
  then show ?case by simp
next
  case (Cons r rs)
  show ?case
  proof (cases "\<exists>g \<in> set (Rule_Source r @ Rule_Destination r). lookup (Account_Groups a) g = None")
    case True
    then obtain t where "index_rule a r s = (t, Panic NilDereference)"
      using index_rule_panic by metis
    then show ?thesis by simp
  next
    case False
    then obtain t where t: "index_rule a r s = (t, Ret ())" using index_rule_ok by force
    from False Cons.prems have "\<exists>r \<in> set rs. \<exists>g \<in> set (Rule_Source r @ Rule_Destination r).
        lookup (Account_Groups a) g = None" unfolding list.set by blast
    with Cons.IH [of t] t show ?thesis by auto
  qed
qed

text \<open>\<open>persist\<close> changes the two outside fields only.\<close>

lemma persist_frame:
  assumes "persist s = (s', r)"
  shows "Accounts s' = Accounts s" "SetupKeyId2AccountId s' = SetupKeyId2AccountId s"
    "PeerKeyId2AccountId s' = PeerKeyId2AccountId s" "UserId2AccountId s' = UserId2AccountId s"
    "PrivateDomain2AccountId s' = PrivateDomain2AccountId s"
    "PeerKeyId2SrcRulesId s' = PeerKeyId2SrcRulesId s"
    "PeerKeyId2DstRulesId s' = PeerKeyId2DstRulesId s" "storeFile s' = storeFile s"
  using assms by (auto simp: persist.simps split: list.splits option.splits)

lemma persist_no_panic: "persist s \<noteq> (s', Panic p)"
  by (auto simp: persist.simps split: list.splits option.splits)

lemma persist_disk: "persist s = (s', Ret ()) \<Longrightarrow> disk s' = Stored (Accounts s')"
  by (auto simp: persist.simps split: list.splits option.splits)

lemma persist_err_disk: "persist s = (s', Err e) \<Longrightarrow> disk s' = disk s"
  by (auto simp: persist.simps split: list.splits option.splits)

text \<open>The stages of \<open>SaveAccount\<close>, for every outcome that is not a nil-map panic.\<close>

lemma SaveAccount_cases:
  assumes "SaveAccount s a = (s', r)" "Accounts s \<noteq> NilMap"
  obtains t q where
    "go_for (index_rule a) (vals (Account_Rules a))
       (index_peers a (index_keys a (s\<lparr>Accounts := GoMap (AList.update (Account_Id a) a (entries (Accounts s)))\<rparr>))) = (t, q)"
    "q = Ret () \<Longrightarrow> persist (index_domain a (index_users a t)) = (s', r)"
    "q \<noteq> Ret () \<Longrightarrow> s' = t \<and> r = q"
proof -
  obtain t q where tq: "go_for (index_rule a) (vals (Account_Rules a))
       (index_peers a (index_keys a (s\<lparr>Accounts := GoMap (AList.update (Account_Id a) a (entries (Accounts s)))\<rparr>))) = (t, q)"
    by fastforce
  show ?thesis
    by (rule that [OF tq]) (use assms tq in \<open>auto simp: SaveAccount_def assign_not_nil split: outcome.splits\<close>)
qed

lemma SaveAccount_Accounts:
  assumes "SaveAccount s a = (s', r)" "Accounts s \<noteq> NilMap"
  shows "Accounts s' = GoMap (AList.update (Account_Id a) a (entries (Accounts s)))"
  using assms
proof (rule SaveAccount_cases)
  fix t q
  assume tq: "go_for (index_rule a) (vals (Account_Rules a))
       (index_peers a (index_keys a (s\<lparr>Accounts := GoMap (AList.update (Account_Id a) a (entries (Accounts s)))\<rparr>))) = (t, q)"
    and ok: "q = Ret () \<Longrightarrow> persist (index_domain a (index_users a t)) = (s', r)"
    and bad: "q \<noteq> Ret () \<Longrightarrow> s' = t \<and> r = q"
  have "Accounts t = GoMap (AList.update (Account_Id a) a (entries (Accounts s)))"
    using forget_rules_fields(1) [OF index_rules_frame [OF tq]] by (simp add: index_closed)
  moreover have "Accounts s' = Accounts t"
    using bad persist_frame(1) [OF ok] by (cases "q = Ret ()") (auto simp: index_closed index_domain_def)
  ultimately show ?thesis by simp
qed

lemma SaveAccount_Ret_stages:
  assumes "SaveAccount s a = (s', Ret ())"
  obtains t where "Accounts s \<noteq> NilMap"
    "go_for (index_rule a) (vals (Account_Rules a))
       (index_peers a (index_keys a (s\<lparr>Accounts := GoMap (AList.update (Account_Id a) a (entries (Accounts s)))\<rparr>))) = (t, Ret ())"
    "persist (index_domain a (index_users a t)) = (s', Ret ())"
proof -
  from assms have ne: "Accounts s \<noteq> NilMap"
    by (auto simp: SaveAccount_def)
  from assms ne show ?thesis
    by (rule SaveAccount_cases) (metis that ne)
qed

lemma SaveAccount_Ret:
  assumes "SaveAccount s a = (s', Ret ())"
  shows "SetupKeyId2AccountId s' =
           (\<lambda>k. if k \<in> ToUpper ` set (keys (Account_SetupKeys a)) then Some (Account_Id a)
                else SetupKeyId2AccountId s k)"
    and "PeerKeyId2AccountId s' =
           (\<lambda>k. if k \<in> Peer_Key ` set (vals (Account_Peers a)) then Some (Account_Id a)
                else PeerKeyId2AccountId s k)"
    and "UserId2AccountId s' =
           (\<lambda>k. if k \<in> User_Id ` set (vals (Account_Users a)) then Some (Account_Id a)
                else UserId2AccountId s k)"
    and "PrivateDomain2AccountId s' =
           (if Account_DomainCategory a = PrivateCategory \<and> Account_IsDomainPrimaryAccount a
            then (PrivateDomain2AccountId s)(Account_Domain a \<mapsto> Account_Id a)
            else PrivateDomain2AccountId s)"
    and "storeFile s' = storeFile s" and "disk s' = Stored (Accounts s')"
    and "Accounts s \<noteq> NilMap" and "Accounts s' \<noteq> NilMap"
proof -
  obtain t where ne: "Accounts s \<noteq> NilMap"
    and tq: "go_for (index_rule a) (vals (Account_Rules a))
       (index_peers a (index_keys a (s\<lparr>Accounts := GoMap (AList.update (Account_Id a) a (entries (Accounts s)))\<rparr>))) = (t, Ret ())"
    and ok: "persist (index_domain a (index_users a t)) = (s', Ret ())"
    using assms by (rule SaveAccount_Ret_stages)
  note t = forget_rules_fields [OF index_rules_frame [OF tq]]
  note p = persist_frame [OF ok]
  show "SetupKeyId2AccountId s' =
           (\<lambda>k. if k \<in> ToUpper ` set (keys (Account_SetupKeys a)) then Some (Account_Id a)
                else SetupKeyId2AccountId s k)"
    using t(2) p(2) by (auto simp: index_closed index_domain_def fun_eq_iff)
  show "PeerKeyId2AccountId s' =
           (\<lambda>k. if k \<in> Peer_Key ` set (vals (Account_Peers a)) then Some (Account_Id a)
                else PeerKeyId2AccountId s k)"
    using t(3) p(3) by (auto simp: index_closed index_domain_def fun_eq_iff)
  show "UserId2AccountId s' =
           (\<lambda>k. if k \<in> User_Id ` set (vals (Account_Users a)) then Some (Account_Id a)
                else UserId2AccountId s k)"
    using t(4) p(4) by (auto simp: index_closed index_domain_def fun_eq_iff)
  show "PrivateDomain2AccountId s' =
           (if Account_DomainCategory a = PrivateCategory \<and> Account_IsDomainPrimaryAccount a
            then (PrivateDomain2AccountId s)(Account_Domain a \<mapsto> Account_Id a)
            else PrivateDomain2AccountId s)"
    using t(5) p(5) by (auto simp: index_closed index_domain_def fun_eq_iff)
  show "storeFile s' = storeFile s" using t(6) p(8) by (simp add: index_closed index_domain_def)
  show "disk s' = Stored (Accounts s')" by (rule persist_disk [OF ok])
  show "Accounts s \<noteq> NilMap" by (rule ne)
  show "Accounts s' \<noteq> NilMap" using SaveAccount_Accounts [OF assms ne] by simp
qed

text \<open>Saving succeeds, up to the outcome of the write, exactly when the rules name existing groups.\<close>

lemma SaveAccount_closed:
  assumes "rules_closed a" "Accounts s \<noteq> NilMap"
  shows "\<exists>s' r. SaveAccount s a = (s', r) \<and> (\<forall>p. r \<noteq> Panic p)"
proof -
  obtain t where t: "go_for (index_rule a) (vals (Account_Rules a))
       (index_peers a (index_keys a (s\<lparr>Accounts := GoMap (AList.update (Account_Id a) a (entries (Accounts s)))\<rparr>))) = (t, Ret ())"
    using assms(1) index_rules_ok unfolding rules_closed_def by metis
  obtain s' r where "persist (index_domain a (index_users a t)) = (s', r)" by fastforce
  with t assms(2) show ?thesis
    using persist_no_panic by (auto simp: SaveAccount_def assign_not_nil)
qed

lemma SaveAccount_not_closed:
  assumes "\<not> rules_closed a" "Accounts s \<noteq> NilMap"
  shows "\<exists>s'. SaveAccount s a = (s', Panic NilDereference)"
proof -
  obtain t where "go_for (index_rule a) (vals (Account_Rules a))
       (index_peers a (index_keys a (s\<lparr>Accounts := GoMap (AList.update (Account_Id a) a (entries (Accounts s)))\<rparr>))) =
       (t, Panic NilDereference)"
    using assms(1) index_rules_panic unfolding rules_closed_def by metis
  with assms(2) show ?thesis by (auto simp: SaveAccount_def assign_not_nil)
qed

lemma SaveAccount_no_faults:
  assumes "rules_closed a" "Accounts s \<noteq> NilMap" "write_faults s = []"
  shows "\<exists>s'. SaveAccount s a = (s', Ret ()) \<and> write_faults s' = []"
proof -
  obtain t where t: "go_for (index_rule a) (vals (Account_Rules a))
       (index_peers a (index_keys a (s\<lparr>Accounts := GoMap (AList.update (Account_Id a) a (entries (Accounts s)))\<rparr>))) = (t, Ret ())"
    using assms(1) index_rules_ok unfolding rules_closed_def by metis
  have "write_faults t = []"
    using forget_rules_fields(8) [OF index_rules_frame [OF t]] assms(3) by (simp add: index_closed)
  with t assms(2) show ?thesis
    by (auto simp: SaveAccount_def assign_not_nil persist.simps index_closed index_domain_def)
qed

section \<open>The rule indexes\<close>

text \<open>The set of rules an index holds for a peer, and the rules of an account that mention it.\<close>

definition rule_set :: "(string \<rightharpoonup> string list) \<Rightarrow> string \<Rightarrow> string set" where
  "rule_set m pid = (case m pid of None \<Rightarrow> {} | Some rs \<Rightarrow> set rs)"

definition group_members :: "Account \<Rightarrow> string \<Rightarrow> string list" where
  "group_members a gid = (case lookup (Account_Groups a) gid of None \<Rightarrow> [] | Some g \<Rightarrow> Group_Peers g)"

definition src_ids :: "Account \<Rightarrow> string \<Rightarrow> string set" where
  "src_ids a pid = {Rule_ID r | r. r \<in> set (vals (Account_Rules a)) \<and>
     (\<exists>gid \<in> set (Rule_Source r). pid \<in> set (group_members a gid))}"

definition dst_ids :: "Account \<Rightarrow> string \<Rightarrow> string set" where
  "dst_ids a pid = {Rule_ID r | r. r \<in> set (vals (Account_Rules a)) \<and>
     (\<exists>gid \<in> set (Rule_Destination r). pid \<in> set (group_members a gid))}"

lemma rule_set_add:
  "rule_set (add_rule_id r p m) q = (if q = p then insert r (rule_set m q) else rule_set m q)"
  by (auto simp: rule_set_def add_rule_id_def split: option.splits)

lemma add_rule_id_None: "add_rule_id r p m q = None \<longleftrightarrow> q \<noteq> p \<and> m q = None"
  by (auto simp: add_rule_id_def split: option.splits)

lemma rule_set_fold_peers:
  "rule_set (fold (add_rule_id r) ps m) q = rule_set m q \<union> (if q \<in> set ps then {r} else {})"
  by (induction ps arbitrary: m) (auto simp: rule_set_add)

lemma fold_peers_None: "fold (add_rule_id r) ps m q = None \<longleftrightarrow> q \<notin> set ps \<and> m q = None"
  by (induction ps arbitrary: m) (auto simp: add_rule_id_None)

lemma rule_set_fold_groups:
  "rule_set (fold (\<lambda>gid. fold (add_rule_id r) (f gid)) gids m) q =
     rule_set m q \<union> (if \<exists>gid \<in> set gids. q \<in> set (f gid) then {r} else {})"
  by (induction gids arbitrary: m) (auto simp: rule_set_fold_peers)

lemma fold_groups_None:
  "fold (\<lambda>gid. fold (add_rule_id r) (f gid)) gids m q = None \<longleftrightarrow>
     (\<forall>gid \<in> set gids. q \<notin> set (f gid)) \<and> m q = None"
  by (induction gids arbitrary: m) (auto simp: fold_peers_None)

lemma fold_set_src:
  "fold (\<lambda>gid s. s\<lparr>PeerKeyId2SrcRulesId := fold g (f gid) (PeerKeyId2SrcRulesId s)\<rparr>) gids s =
   s\<lparr>PeerKeyId2SrcRulesId := fold (\<lambda>gid. fold g (f gid)) gids (PeerKeyId2SrcRulesId s)\<rparr>"
  by (induction gids arbitrary: s) auto

lemma fold_set_dst:
  "fold (\<lambda>gid s. s\<lparr>PeerKeyId2DstRulesId := fold g (f gid) (PeerKeyId2DstRulesId s)\<rparr>) gids s =
   s\<lparr>PeerKeyId2DstRulesId := fold (\<lambda>gid. fold g (f gid)) gids (PeerKeyId2DstRulesId s)\<rparr>"
  by (induction gids arbitrary: s) auto

lemma fold_members:
  assumes "\<forall>g \<in> set gids. lookup (Account_Groups a) g \<noteq> None"
  shows "fold (\<lambda>gid. fold (add_rule_id r) (Group_Peers (the (lookup (Account_Groups a) gid)))) gids m =
    fold (\<lambda>gid. fold (add_rule_id r) (group_members a gid)) gids m"
  using assms by (intro fold_cong) (auto simp: group_members_def)

lemma index_rule_closed:
  assumes "\<forall>g \<in> set (Rule_Source r @ Rule_Destination r). lookup (Account_Groups a) g \<noteq> None"
  shows "index_rule a r s =
    (s\<lparr>PeerKeyId2SrcRulesId := fold (\<lambda>gid. fold (add_rule_id (Rule_ID r)) (group_members a gid))
                                 (Rule_Source r) (PeerKeyId2SrcRulesId s),
       PeerKeyId2DstRulesId := fold (\<lambda>gid. fold (add_rule_id (Rule_ID r)) (group_members a gid))
                                 (Rule_Destination r) (PeerKeyId2DstRulesId s)\<rparr>, Ret ())"
  using assms unfolding index_rule_def index_src_def index_dst_def
  by (simp add: go_for_groups_ok fold_set_src fold_set_dst fold_members)

lemma index_rules_sets:
  assumes "\<forall>r \<in> set rs. \<forall>g \<in> set (Rule_Source r @ Rule_Destination r). lookup (Account_Groups a) g \<noteq> None"
    and "go_for (index_rule a) rs s = (t, q)"
  shows "rule_set (PeerKeyId2SrcRulesId t) pid = rule_set (PeerKeyId2SrcRulesId s) pid \<union>
           {Rule_ID r | r. r \<in> set rs \<and> (\<exists>gid \<in> set (Rule_Source r). pid \<in> set (group_members a gid))}"
    and "rule_set (PeerKeyId2DstRulesId t) pid = rule_set (PeerKeyId2DstRulesId s) pid \<union>
           {Rule_ID r | r. r \<in> set rs \<and> (\<exists>gid \<in> set (Rule_Destination r). pid \<in> set (group_members a gid))}"
  using assms
  by (induction rs arbitrary: s) (auto simp: index_rule_closed rule_set_fold_groups split: if_splits)

lemma SaveAccount_rules:
  assumes "SaveAccount s a = (s', Ret ())" "rules_closed a"
  shows "rule_set (PeerKeyId2SrcRulesId s') pid = rule_set (PeerKeyId2SrcRulesId s) pid \<union> src_ids a pid"
    and "rule_set (PeerKeyId2DstRulesId s') pid = rule_set (PeerKeyId2DstRulesId s) pid \<union> dst_ids a pid"
proof -
  obtain t where tq: "go_for (index_rule a) (vals (Account_Rules a))
       (index_peers a (index_keys a (s\<lparr>Accounts := GoMap (AList.update (Account_Id a) a (entries (Accounts s)))\<rparr>))) = (t, Ret ())"
    and ok: "persist (index_domain a (index_users a t)) = (s', Ret ())"
    using assms(1) by (rule SaveAccount_Ret_stages)
  note sets = index_rules_sets [OF assms(2) [unfolded rules_closed_def] tq]
  show "rule_set (PeerKeyId2SrcRulesId s') pid = rule_set (PeerKeyId2SrcRulesId s) pid \<union> src_ids a pid"
    using sets(1) persist_frame(6) [OF ok] by (simp add: index_closed index_domain_def src_ids_def)
  show "rule_set (PeerKeyId2DstRulesId s') pid = rule_set (PeerKeyId2DstRulesId s) pid \<union> dst_ids a pid"
    using sets(2) persist_frame(7) [OF ok] by (simp add: index_closed index_domain_def dst_ids_def)
qed

section \<open>The store as an interface\<close>

text \<open>
  What the account manager relies on (\<open>store.go\<close>): a saved account is read back
  under its identifier whatever the outcome of the save, other accounts stay as
  they were, and an index resolves every name the saved account carries.
\<close>

locale account_store =
  fixes get :: "'s \<Rightarrow> string \<Rightarrow> 'a outcome"
    and save :: "'s \<Rightarrow> 'a \<Rightarrow> 's \<times> unit outcome"
    and ident :: "'a \<Rightarrow> string"
    and live :: "'s \<Rightarrow> bool"
  assumes get_saved: "live s \<Longrightarrow> save s a = (s', r) \<Longrightarrow> get s' (ident a) = Ret a"
    and get_other: "live s \<Longrightarrow> save s a = (s', r) \<Longrightarrow> k \<noteq> ident a \<Longrightarrow> get s' k = get s k"
    and live_saved: "live s \<Longrightarrow> save s a = (s', r) \<Longrightarrow> live s'"
begin

lemma save_twice:
  assumes "live s" "save s a = (t, q)" "save t b = (u, r)" "ident a \<noteq> ident b"
  shows "get u (ident a) = Ret a" and "get u (ident b) = Ret b"
  using assms get_saved get_other live_saved by metis+

end

locale account_index = account_store +
  fixes resolve :: "'a \<Rightarrow> string \<Rightarrow> string option"
    and find_by :: "'a \<Rightarrow> string \<Rightarrow> 'b outcome"
    and names :: "'b \<Rightarrow> string set"
  assumes find_resolved: "resolve s n = Some i \<Longrightarrow> find_by s n = get s i"
    and resolve_saved: "save s a = (s', Ret ()) \<Longrightarrow>
      resolve s' n = (if n \<in> names a then Some (ident a) else resolve s n)"
begin

lemma find_saved:
  "live s \<Longrightarrow> save s a = (s', Ret ()) \<Longrightarrow> n \<in> names a \<Longrightarrow> find_by s' n = Ret a"
  by (metis find_resolved get_saved resolve_saved)

lemma find_other:
  "live s \<Longrightarrow> save s a = (s', Ret ()) \<Longrightarrow> n \<notin> names a \<Longrightarrow> resolve s n = Some i \<Longrightarrow>
   i \<noteq> ident a \<Longrightarrow> find_by s' n = find_by s n"
  by (metis find_resolved get_other resolve_saved)

text \<open>A name that was indexed once stays indexed, even after the account gave it up.\<close>

lemma find_stale:
  "live s \<Longrightarrow> save s a = (s', Ret ()) \<Longrightarrow> resolve s n = Some (ident a) \<Longrightarrow> find_by s' n = Ret a"
  by (metis find_resolved get_saved resolve_saved)

end

lemma GetAccount_save:
  assumes "SaveAccount s a = (s', r)" "Accounts s \<noteq> NilMap"
  shows "GetAccount s' k = (if k = Account_Id a then Ret a else GetAccount s k)"
  using SaveAccount_Accounts [OF assms] assms(2) lookup_assign [OF assign_not_nil [OF assms(2)]]
  by (auto simp: GetAccount_def split: option.splits)

interpretation fs: account_store GetAccount SaveAccount Account_Id "\<lambda>s. Accounts s \<noteq> NilMap"
  by unfold_locales (auto simp: GetAccount_save SaveAccount_Accounts)

interpretation by_key: account_index GetAccount SaveAccount Account_Id "\<lambda>s. Accounts s \<noteq> NilMap"
  "\<lambda>s k. SetupKeyId2AccountId s (ToUpper k)" GetAccountBySetupKey
  "\<lambda>a. {k. ToUpper k \<in> ToUpper ` set (keys (Account_SetupKeys a))}"
  by unfold_locales (auto simp: GetAccountBySetupKey_def SaveAccount_Ret(1))

interpretation by_user: account_index GetAccount SaveAccount Account_Id "\<lambda>s. Accounts s \<noteq> NilMap"
  UserId2AccountId GetUserAccount "\<lambda>a. User_Id ` set (vals (Account_Users a))"
  by unfold_locales (auto simp: GetUserAccount_def SaveAccount_Ret(3))

interpretation by_peer: account_index GetAccount SaveAccount Account_Id "\<lambda>s. Accounts s \<noteq> NilMap"
  PeerKeyId2AccountId GetPeerAccount "\<lambda>a. Peer_Key ` set (vals (Account_Peers a))"
  by unfold_locales (auto simp: GetPeerAccount_def SaveAccount_Ret(2))

interpretation by_domain: account_index GetAccount SaveAccount Account_Id "\<lambda>s. Accounts s \<noteq> NilMap"
  "\<lambda>s d. PrivateDomain2AccountId s (ToLower d)" GetAccountByPrivateDomain
  "\<lambda>a. {d. Account_DomainCategory a = PrivateCategory \<and> Account_IsDomainPrimaryAccount a \<and>
           ToLower d = Account_Domain a}"
  by unfold_locales (auto simp: GetAccountByPrivateDomain_def SaveAccount_Ret(4))

section \<open>Restoring the indexes\<close>

text \<open>
  Rebuilding an index is a fold over the accounts: whatever it holds afterwards
  comes from an account that carries the name, and every carried name is there.
\<close>

locale index_rebuild =
  fixes field :: "'s \<Rightarrow> string \<Rightarrow> string option"
    and step :: "string \<Rightarrow> 'a \<Rightarrow> 's \<Rightarrow> 's"
    and carried :: "'a \<Rightarrow> string set"
  assumes field_step: "field (step i a s) n = (if n \<in> carried a then Some i else field s n)"
begin

lemma rebuilt_sound:
  "field (fold (\<lambda>(i, a). step i a) es s) n = Some i \<Longrightarrow>
   (\<exists>a. (i, a) \<in> set es \<and> n \<in> carried a) \<or> field s n = Some i"
  by (induction es arbitrary: s) (fastforce simp: field_step split: if_splits)+

lemma rebuilt_kept: "field s n \<noteq> None \<Longrightarrow> field (fold (\<lambda>(i, a). step i a) es s) n \<noteq> None"
  by (induction es arbitrary: s) (auto simp: field_step)

lemma rebuilt_complete:
  "(i, a) \<in> set es \<Longrightarrow> n \<in> carried a \<Longrightarrow> field (fold (\<lambda>(i, a). step i a) es s) n \<noteq> None"
proof (induction es arbitrary: s)
  case Nil
  then show ?case by simp
next
  case (Cons e es)
  show ?case
  proof (cases "e = (i, a)")
    case True
    with Cons.prems have "field (step i a s) n \<noteq> None" by (simp add: field_step)
    with True show ?thesis using rebuilt_kept [of "step i a s" n es] by simp
  qed (use Cons in \<open>auto split: prod.splits\<close>)
qed

lemma rebuilt_unique:
  assumes "(i, a) \<in> set es" "n \<in> carried a" "field s n = None"
    and "\<And>j b. (j, b) \<in> set es \<Longrightarrow> n \<in> carried b \<Longrightarrow> j = i"
  shows "field (fold (\<lambda>(i, a). step i a) es s) n = Some i"
  using rebuilt_complete [OF assms(1,2)] rebuilt_sound assms(3,4) by fastforce

end

text \<open>The fold over the rules touches the rule indexes only.\<close>

definition restore_rules :: "Account \<Rightarrow> Rule list \<Rightarrow> FileStore \<Rightarrow> FileStore" where
  "restore_rules account rs s =
     fold (\<lambda>rule s. s\<lparr>
         PeerKeyId2SrcRulesId := restore_group_rules account (Rule_ID rule) (Rule_Source rule)
                                   (PeerKeyId2SrcRulesId s),
         PeerKeyId2DstRulesId := restore_group_rules account (Rule_ID rule) (Rule_Destination rule)
                                   (PeerKeyId2DstRulesId s)\<rparr>) rs s"

lemma restore_rules_frame: "forget_rules (restore_rules a rs s) = forget_rules s"
proof (induction rs arbitrary: s)
  case Nil
  then show ?case by (simp add: restore_rules_def)
next
  case (Cons r rs)
  then show ?case by (simp add: restore_rules_def forget_rules_def)
qed

lemmas restore_rules_fields = forget_rules_fields [OF restore_rules_frame]

lemma restore_account_closed:
  "restore_account i a s =
     (let t = (restore_rules a (vals (Account_Rules a)) (s\<lparr>SetupKeyId2AccountId :=
                 \<lambda>k. if k \<in> ToUpper ` set (keys (Account_SetupKeys a)) then Some i
                     else SetupKeyId2AccountId s k\<rparr>))
            \<lparr>PeerKeyId2AccountId := \<lambda>k. if k \<in> Peer_Key ` set (vals (Account_Peers a)) then Some i
                                       else PeerKeyId2AccountId s k,
             UserId2AccountId := \<lambda>k. if k \<in> User_Id ` set (vals (Account_Users a)) then Some i
                                    else UserId2AccountId s k\<rparr>
      in if Account_Domain a \<noteq> [] \<and> Account_DomainCategory a = PrivateCategory \<and>
            Account_IsDomainPrimaryAccount a
         then t\<lparr>PrivateDomain2AccountId := (PrivateDomain2AccountId s)(Account_Domain a \<mapsto> i)\<rparr> else t)"
  unfolding restore_account_def fold_keys fold_peers fold_users restore_rules_def [symmetric]
  by (simp add: Let_def restore_rules_fields cong: if_cong)

lemma restore_account_fields:
  "Accounts (restore_account i a s) = Accounts s"
  "SetupKeyId2AccountId (restore_account i a s) k =
     (if k \<in> ToUpper ` set (keys (Account_SetupKeys a)) then Some i else SetupKeyId2AccountId s k)"
  "PeerKeyId2AccountId (restore_account i a s) k =
     (if k \<in> Peer_Key ` set (vals (Account_Peers a)) then Some i else PeerKeyId2AccountId s k)"
  "UserId2AccountId (restore_account i a s) k =
     (if k \<in> User_Id ` set (vals (Account_Users a)) then Some i else UserId2AccountId s k)"
  "PrivateDomain2AccountId (restore_account i a s) k =
     (if Account_Domain a \<noteq> [] \<and> Account_DomainCategory a = PrivateCategory \<and>
         Account_IsDomainPrimaryAccount a \<and> k = Account_Domain a then Some i
      else PrivateDomain2AccountId s k)"
  by (auto simp: restore_account_closed Let_def restore_rules_fields)

interpretation re_key: index_rebuild SetupKeyId2AccountId restore_account
  "\<lambda>a. ToUpper ` set (keys (Account_SetupKeys a))"
  by unfold_locales (rule restore_account_fields)

interpretation re_peer: index_rebuild PeerKeyId2AccountId restore_account
  "\<lambda>a. Peer_Key ` set (vals (Account_Peers a))"
  by unfold_locales (rule restore_account_fields)

interpretation re_user: index_rebuild UserId2AccountId restore_account
  "\<lambda>a. User_Id ` set (vals (Account_Users a))"
  by unfold_locales (rule restore_account_fields)

interpretation re_domain: index_rebuild PrivateDomain2AccountId restore_account
  "\<lambda>a. {d. Account_Domain a \<noteq> [] \<and> Account_DomainCategory a = PrivateCategory \<and>
           Account_IsDomainPrimaryAccount a \<and> d = Account_Domain a}"
  by unfold_locales (simp add: restore_account_fields)

lemma restore_Accounts:
  "Accounts (fold (\<lambda>(i, a). restore_account i a) es s) = Accounts s"
  by (induction es arbitrary: s) (auto simp: restore_account_fields)

section \<open>The consistency of a store\<close>

text \<open>
  Every name an account carries resolves to this account, and no two accounts
  carry the same name.
\<close>

definition key_names :: "Account \<Rightarrow> string set" where
  "key_names a = ToUpper ` set (keys (Account_SetupKeys a))"

definition peer_names :: "Account \<Rightarrow> string set" where
  "peer_names a = Peer_Key ` set (vals (Account_Peers a))"

definition user_names :: "Account \<Rightarrow> string set" where
  "user_names a = User_Id ` set (vals (Account_Users a))"

definition indexed :: "FileStore \<Rightarrow> bool" where
  "indexed s \<longleftrightarrow>
     (\<forall>i a. lookup (Accounts s) i = Some a \<longrightarrow>
        (\<forall>n \<in> key_names a. SetupKeyId2AccountId s n = Some i) \<and>
        (\<forall>n \<in> peer_names a. PeerKeyId2AccountId s n = Some i) \<and>
        (\<forall>n \<in> user_names a. UserId2AccountId s n = Some i))"

definition disjoint_names :: "Account \<Rightarrow> Account \<Rightarrow> bool" where
  "disjoint_names a b \<longleftrightarrow>
     key_names a \<inter> key_names b = {} \<and> peer_names a \<inter> peer_names b = {} \<and>
     user_names a \<inter> user_names b = {}"

definition wf_store :: "FileStore \<Rightarrow> bool" where
  "wf_store s \<longleftrightarrow> Accounts s \<noteq> NilMap \<and> keyed Account_Id (Accounts s) \<and> indexed s"

lemma SaveAccount_indexed:
  assumes "wf_store s" "SaveAccount s a = (s', Ret ())"
    and "\<And>i b. lookup (Accounts s) i = Some b \<Longrightarrow> i \<noteq> Account_Id a \<Longrightarrow> disjoint_names a b"
  shows "wf_store s'"
proof -
  from assms(1) have ne: "Accounts s \<noteq> NilMap" and k: "keyed Account_Id (Accounts s)"
    by (auto simp: wf_store_def)
  have acc: "assign (Accounts s) (Account_Id a) a = Some (Accounts s')"
    using SaveAccount_Accounts [OF assms(2) ne] assign_not_nil [OF ne] by simp
  have "indexed s'"
    using assms(1,3) lookup_assign [OF acc]
      SaveAccount_Ret(1-3) [OF assms(2), folded key_names_def peer_names_def user_names_def]
    unfolding wf_store_def indexed_def disjoint_names_def
    by (simp split: if_splits) blast
  then show ?thesis
    using keyed_assign [OF k acc] SaveAccount_Ret(8) [OF assms(2)] by (simp add: wf_store_def)
qed

section \<open>Deleting a peer\<close>

lemma cleanup_groups_nth:
  "i < length gs \<Longrightarrow>
   cleanup_groups k ps gs ! i =
     (fst (gs ! i), (snd (gs ! i))\<lparr>Group_Peers := ps @
        concat (map (\<lambda>(_, g). filter (\<lambda>p. p \<noteq> k) (Group_Peers g)) (take (Suc i) gs))\<rparr>)"
proof (induction k ps gs arbitrary: i rule: cleanup_groups.induct)
  case (1 peerKey peers)
  then show ?case by simp
next
  case (2 peerKey peers gid g gs)
  then show ?case by (cases i) (simp_all add: Let_def)
qed

lemma length_cleanup [simp]: "length (cleanup_groups k ps gs) = length gs"
  by (induction k ps gs rule: cleanup_groups.induct) (auto simp: Let_def)

lemma keys_cleanup: "map fst (cleanup_groups k ps gs) = map fst gs"
  by (induction k ps gs rule: cleanup_groups.induct) (auto simp: Let_def)

lemma cleanup_groups_gone:
  "(gid, g) \<in> set (cleanup_groups k ps gs) \<Longrightarrow> k \<notin> set ps \<Longrightarrow> k \<notin> set (Group_Peers g)"
  by (induction k ps gs rule: cleanup_groups.induct) (auto simp: Let_def)

lemma keys_cleanup_map [simp]: "keys (cleanup_map k m) = keys m"
  by (cases m) (auto simp: cleanup_map_def keys_def keys_cleanup)

lemma lookup_cleanup_gone: "lookup (cleanup_map k m) gid = Some g \<Longrightarrow> k \<notin> set (Group_Peers g)"
  by (cases m) (auto simp: cleanup_map_def dest!: lookup_in_entries cleanup_groups_gone)

lemma Store_DeletePeer_Ret:
  assumes "Store_DeletePeer s accountId peerKey = (s', Ret peer)"
  obtains a where "GetAccount s accountId = Ret a" "lookup (Account_Peers a) peerKey = Some peer"
    "GetAccount s' accountId = Ret (a\<lparr>Account_Peers := map_delete (Account_Peers a) peerKey,
                                     Account_Groups := cleanup_map peerKey (Account_Groups a)\<rparr>)"
    "PeerKeyId2AccountId s' = (PeerKeyId2AccountId s)(peerKey := None)"
    "disk s' = Stored (Accounts s')"
proof -
  obtain a where a: "lookup (Accounts s) accountId = Some a" "GetAccount s accountId = Ret a"
    using assms by (auto simp: Store_DeletePeer_def GetAccount_def split: option.splits)
  let ?a' = "a\<lparr>Account_Peers := map_delete (Account_Peers a) peerKey,
               Account_Groups := cleanup_map peerKey (Account_Groups a)\<rparr>"
  have p: "lookup (Account_Peers a) peerKey = Some peer"
    and ok: "persist ((set_account s accountId ?a')
        \<lparr>PeerKeyId2AccountId := (PeerKeyId2AccountId s)(peerKey := None)\<rparr>) = (s', Ret ())"
    using assms a by (auto simp: Store_DeletePeer_def Let_def split: option.splits prod.splits outcome.splits)
  have "GetAccount s' accountId = Ret ?a'"
    using persist_frame(1) [OF ok] a by (simp add: GetAccount_def set_account_def)
  with a p show ?thesis
    using persist_frame(3) [OF ok] persist_disk [OF ok] by (intro that) auto
qed

end
