(* ===== verification/Account_Manager.thy ===== *)
theory Account_Manager
  imports File_Store
begin

text \<open>
  \<open>management/server/account.go\<close> and \<open>user.go\<close>: the operations of the account manager on
  accounts, setup keys and users. The mutex of the manager makes every operation
  atomic; the manager's \<open>Store\<close> is the first argument and the first result.
  The IDP manager is an interface to a service outside the program: a record of
  the two functions the manager calls, \<open>None\<close> where the code has a nil manager.
\<close>

record UserData =
  UserData_Email :: string
  UserData_Name :: string
  UserData_ID :: string

record IdpManager =
  UpdateUserAppMetadata :: "string \<Rightarrow> string \<Rightarrow> GoError option"
  GetBatchedUserData :: "string \<Rightarrow> UserData list outcome"

record UserInfo =
  UserInfo_ID :: string
  UserInfo_Email :: string
  UserInfo_Name :: string
  UserInfo_Role :: string

record AuthorizationClaims =
  Claims_UserId :: string
  Claims_AccountId :: string
  Claims_Domain :: string
  Claims_DomainCategory :: string

section \<open>Setup keys\<close>

definition AddSetupKey ::
  "FileStore \<Rightarrow> int \<Rightarrow> string \<Rightarrow> string \<Rightarrow> string \<Rightarrow> SetupKeyType \<Rightarrow> int option \<Rightarrow> FileStore \<times> SetupKey outcome" where
  "AddSetupKey s now uuid accountId keyName keyType expiresIn =
     (let keyDuration = (case expiresIn of None \<Rightarrow> DefaultSetupKeyDuration | Some d \<Rightarrow> d)
      in case GetAccount s accountId of
           Err e \<Rightarrow> (s, Err (StatusError NotFound ''account not found''))
         | Panic p \<Rightarrow> (s, Panic p)
         | Ret account \<Rightarrow>
             (let setupKey = GenerateSetupKey uuid now keyName keyType keyDuration
              in case assign (Account_SetupKeys account) (SetupKey_Key setupKey) setupKey of
                   None \<Rightarrow> (s, Panic NilMapWrite)
                 | Some ks \<Rightarrow>
                     then_return (SaveAccount s (account\<lparr>Account_SetupKeys := ks\<rparr>))
                       (\<lambda>_. StatusError Internal ''failed adding account key'') setupKey))"

text \<open>The common part of \<open>RevokeSetupKey\<close> and \<open>RenameSetupKey\<close> is the change of a copy of the key.\<close>

definition RevokeSetupKey ::
  "FileStore \<Rightarrow> string \<Rightarrow> string \<Rightarrow> FileStore \<times> SetupKey outcome" where
  "RevokeSetupKey s accountId keyId =
     (case GetAccount s accountId of
        Err e \<Rightarrow> (s, Err (StatusError NotFound ''account not found''))
      | Panic p \<Rightarrow> (s, Panic p)
      | Ret account \<Rightarrow>
          (case getAccountSetupKeyById account keyId of
             None \<Rightarrow> (s, Err (StatusError NotFound (''unknown setupKey '' @ keyId)))
           | Some setupKey \<Rightarrow>
               (let keyCopy = (SetupKey_Copy setupKey)\<lparr>SetupKey_Revoked := True\<rparr>
                in case assign (Account_SetupKeys account) (SetupKey_Key keyCopy) keyCopy of
                     None \<Rightarrow> (s, Panic NilMapWrite)
                   | Some ks \<Rightarrow>
                       then_return (SaveAccount s (account\<lparr>Account_SetupKeys := ks\<rparr>))
                         (\<lambda>_. StatusError Internal ''failed adding account key'') keyCopy)))"

definition RenameSetupKey ::
  "FileStore \<Rightarrow> string \<Rightarrow> string \<Rightarrow> string \<Rightarrow> FileStore \<times> SetupKey outcome" where
  "RenameSetupKey s accountId keyId newName =
     (case GetAccount s accountId of
        Err e \<Rightarrow> (s, Err (StatusError NotFound ''account not found''))
      | Panic p \<Rightarrow> (s, Panic p)
      | Ret account \<Rightarrow>
          (case getAccountSetupKeyById account keyId of
             None \<Rightarrow> (s, Err (StatusError NotFound (''unknown setupKey '' @ keyId)))
           | Some setupKey \<Rightarrow>
               (let keyCopy = (SetupKey_Copy setupKey)\<lparr>SetupKey_Name := newName\<rparr>
                in case assign (Account_SetupKeys account) (SetupKey_Key keyCopy) keyCopy of
                     None \<Rightarrow> (s, Panic NilMapWrite)
                   | Some ks \<Rightarrow>
                       then_return (SaveAccount s (account\<lparr>Account_SetupKeys := ks\<rparr>))
                         (\<lambda>_. StatusError Internal ''failed adding account key'') keyCopy)))"

section \<open>Accounts\<close>

definition GetAccountById :: "FileStore \<Rightarrow> string \<Rightarrow> Account outcome" where
  "GetAccountById s accountId =
     (case GetAccount s accountId of
        Err e \<Rightarrow> Err (StatusError NotFound ''account not found'')
      | Panic p \<Rightarrow> Panic p
      | Ret account \<Rightarrow> Ret account)"

definition AccountExists :: "FileStore \<Rightarrow> string \<Rightarrow> bool outcome" where
  "AccountExists s accountId =
     (case GetAccount s accountId of
        Ret account \<Rightarrow> Ret True
      | Panic p \<Rightarrow> Panic p
      | Err e \<Rightarrow> if from_status e \<and> err_code e = NotFound then Ret False else Err e)"

definition createAccount ::
  "FileStore \<Rightarrow> Fresh \<Rightarrow> string \<Rightarrow> string \<Rightarrow> string \<Rightarrow> FileStore \<times> Account outcome" where
  "createAccount s fr accountId userId domain =
     (let account = addAllGroup fr (newAccountWithId fr accountId userId domain)
      in then_return (SaveAccount s account) (\<lambda>_. StatusError Internal ''failed creating account'') account)"

definition AddAccount ::
  "FileStore \<Rightarrow> Fresh \<Rightarrow> string \<Rightarrow> string \<Rightarrow> string \<Rightarrow> FileStore \<times> Account outcome" where
  "AddAccount s fr accountId userId domain = createAccount s fr accountId userId domain"

text \<open>\<open>BuildManager\<close>: every stored account gets the group \<open>All\<close> if it has no group at all.\<close>

definition BuildManager :: "FileStore \<Rightarrow> (nat \<Rightarrow> Fresh) \<Rightarrow> FileStore \<times> unit outcome" where
  "BuildManager s frs =
     go_for (\<lambda>(i, account) s. SaveAccount s (addAllGroup (frs i) account))
       (List.enumerate 0 (GetAllAccounts s)) s"

section \<open>Users\<close>

text \<open>The first half of \<open>GetOrCreateAccountByUser\<close>: the account of the user, a new one if there is none.\<close>

definition find_or_new_account ::
  "FileStore \<Rightarrow> Fresh \<Rightarrow> string \<Rightarrow> string \<Rightarrow> FileStore \<times> Account outcome" where
  "find_or_new_account s fr userId lowerDomain =
     (case GetUserAccount s userId of
        Ret account \<Rightarrow> (s, Ret account)
      | Panic p \<Rightarrow> (s, Panic p)
      | Err e \<Rightarrow>
          if from_status e \<and> err_code e = NotFound then
            (let account = NewAccount fr userId lowerDomain
             in case assign (Account_Users account) userId (NewAdminUser userId) of
                  None \<Rightarrow> (s, Panic NilMapWrite)
                | Some us \<Rightarrow>
                    (let account1 = addAllGroup fr (account\<lparr>Account_Users := us\<rparr>)
                     in then_return (SaveAccount s account1)
                          (\<lambda>_. StatusError Internal ''failed creating account'') account1))
          else (s, Err e))"

definition GetOrCreateAccountByUser ::
  "FileStore \<Rightarrow> Fresh \<Rightarrow> string \<Rightarrow> string \<Rightarrow> FileStore \<times> Account outcome" where
  "GetOrCreateAccountByUser s fr userId domain =
     (let lowerDomain = ToLower domain
      in case find_or_new_account s fr userId lowerDomain of
           (s1, Err e) \<Rightarrow> (s1, Err e)
         | (s1, Panic p) \<Rightarrow> (s1, Panic p)
         | (s1, Ret account) \<Rightarrow>
             if Account_Domain account \<noteq> lowerDomain then
               (let account1 = account\<lparr>Account_Domain := lowerDomain\<rparr>
                in then_return (SaveAccount s1 account1)
                     (\<lambda>_. StatusError Internal ''failed updating account with domain'') account1)
             else (s1, Ret account))"

definition GetAccountByUser :: "FileStore \<Rightarrow> string \<Rightarrow> Account outcome" where
  "GetAccountByUser s userId = GetUserAccount s userId"

definition updateIDPMetadata :: "IdpManager option \<Rightarrow> string \<Rightarrow> string \<Rightarrow> unit outcome" where
  "updateIDPMetadata idp userId accountID =
     (case idp of
        None \<Rightarrow> Ret ()
      | Some m \<Rightarrow>
          (case UpdateUserAppMetadata m userId accountID of
             None \<Rightarrow> Ret ()
           | Some e \<Rightarrow> Err (StatusError Internal
               (''updating user's app metadata failed with: '' @ err_string e))))"

definition GetAccountByUserOrAccountId ::
  "FileStore \<Rightarrow> IdpManager option \<Rightarrow> Fresh \<Rightarrow> string \<Rightarrow> string \<Rightarrow> string \<Rightarrow> FileStore \<times> Account outcome" where
  "GetAccountByUserOrAccountId s idp fr userId accountId domain =
     (if accountId \<noteq> [] then (s, GetAccountById s accountId)
      else if userId \<noteq> [] then
        (case GetOrCreateAccountByUser s fr userId domain of
           (s1, Err e) \<Rightarrow> (s1, Err (StatusError NotFound (''account not found using user id: '' @ userId)))
         | (s1, Panic p) \<Rightarrow> (s1, Panic p)
         | (s1, Ret account) \<Rightarrow>
             (case updateIDPMetadata idp userId (Account_Id account) of
                Err e \<Rightarrow> (s1, Err e)
              | Panic p \<Rightarrow> (s1, Panic p)
              | Ret u \<Rightarrow> (s1, Ret account)))
      else (s, Err (StatusError NotFound ''no valid user or account Id provided'')))"

definition mergeLocalAndQueryUser :: "UserData \<Rightarrow> User \<Rightarrow> UserInfo" where
  "mergeLocalAndQueryUser queried local =
     \<lparr>UserInfo_ID = User_Id local, UserInfo_Email = UserData_Email queried,
      UserInfo_Name = UserData_Name queried, UserInfo_Role = User_Role local\<rparr>"

definition GetUsersFromAccount :: "FileStore \<Rightarrow> IdpManager option \<Rightarrow> string \<Rightarrow> UserInfo list outcome" where
  "GetUsersFromAccount s idp accountID =
     (case GetAccountById s accountID of
        Err e \<Rightarrow> Err e
      | Panic p \<Rightarrow> Panic p
      | Ret account \<Rightarrow>
          (case (case idp of None \<Rightarrow> Ret [] | Some m \<Rightarrow> GetBatchedUserData m accountID) of
             Err e \<Rightarrow> Err e
           | Panic p \<Rightarrow> Panic p
           | Ret queriedUsers \<Rightarrow>
               if length queriedUsers = 0 then
                 Ret (map (\<lambda>user. \<lparr>UserInfo_ID = User_Id user, UserInfo_Email = [],
                                   UserInfo_Name = [], UserInfo_Role = User_Role user\<rparr>)
                        (vals (Account_Users account)))
               else
                 Ret (List.map_filter (\<lambda>q. map_option (mergeLocalAndQueryUser q)
                        (lookup (Account_Users account) (UserData_ID q))) queriedUsers)))"

section \<open>Signing in with a JWT\<close>

definition updateAccountDomainAttributes ::
  "FileStore \<Rightarrow> Account \<Rightarrow> AuthorizationClaims \<Rightarrow> bool \<Rightarrow> FileStore \<times> Account outcome" where
  "updateAccountDomainAttributes s account claims primaryDomain =
     (let account1 = account\<lparr>Account_IsDomainPrimaryAccount := primaryDomain,
                            Account_Domain := ToLower (Claims_Domain claims),
                            Account_DomainCategory := Claims_DomainCategory claims\<rparr>
      in then_return (SaveAccount s account1)
           (\<lambda>_. StatusError Internal ''failed saving updated account'') account1)"

definition finish_idp ::
  "FileStore \<Rightarrow> IdpManager option \<Rightarrow> string \<Rightarrow> Account \<Rightarrow> FileStore \<times> Account outcome" where
  "finish_idp s idp userId account =
     (case updateIDPMetadata idp userId (Account_Id account) of
        Err e \<Rightarrow> (s, Err e)
      | Panic p \<Rightarrow> (s, Panic p)
      | Ret u \<Rightarrow> (s, Ret account))"

definition handleExistingUserAccount ::
  "FileStore \<Rightarrow> IdpManager option \<Rightarrow> Account \<Rightarrow> Account option \<Rightarrow> AuthorizationClaims \<Rightarrow> FileStore \<times> Account outcome" where
  "handleExistingUserAccount s idp existingAcc domainAcc claims =
     (let primary = (case domainAcc of
                       Some d \<Rightarrow> \<not> (Account_Id existingAcc \<noteq> Account_Id d)
                     | None \<Rightarrow> True)
      in case updateAccountDomainAttributes s existingAcc claims primary of
           (s1, Err e) \<Rightarrow> (s1, Err e)
         | (s1, Panic p) \<Rightarrow> (s1, Panic p)
         | (s1, Ret account) \<Rightarrow> finish_idp s1 idp (Claims_UserId claims) account)"

definition handleNewUserAccount ::
  "FileStore \<Rightarrow> IdpManager option \<Rightarrow> Fresh \<Rightarrow> Account option \<Rightarrow> AuthorizationClaims \<Rightarrow> FileStore \<times> Account outcome" where
  "handleNewUserAccount s idp fr domainAcc claims =
     (let lowerDomain = ToLower (Claims_Domain claims);
          stored =
            (case domainAcc of
               Some account \<Rightarrow>
                 (case assign (Account_Users account) (Claims_UserId claims) (NewRegularUser (Claims_UserId claims)) of
                    None \<Rightarrow> (s, Panic NilMapWrite)
                  | Some us \<Rightarrow>
                      (let account1 = account\<lparr>Account_Users := us\<rparr>
                       in then_return (SaveAccount s account1)
                            (\<lambda>_. StatusError Internal ''failed saving updated account'') account1))
             | None \<Rightarrow>
                 (let account = NewAccount fr (Claims_UserId claims) lowerDomain
                  in case assign (Account_Users account) (Claims_UserId claims) (NewAdminUser (Claims_UserId claims)) of
                       None \<Rightarrow> (s, Panic NilMapWrite)
                     | Some us \<Rightarrow>
                         updateAccountDomainAttributes s (account\<lparr>Account_Users := us\<rparr>) claims True))
      in case stored of
           (s1, Err e) \<Rightarrow> (s1, Err e)
         | (s1, Panic p) \<Rightarrow> (s1, Panic p)
         | (s1, Ret account) \<Rightarrow> finish_idp s1 idp (Claims_UserId claims) account)"

text \<open>The second half of \<open>GetAccountWithAuthorizationClaims\<close>, after the early returns.\<close>

definition account_by_private_domain ::
  "FileStore \<Rightarrow> IdpManager option \<Rightarrow> Fresh \<Rightarrow> AuthorizationClaims \<Rightarrow> FileStore \<times> Account outcome" where
  "account_by_private_domain s idp fr claims =
     (let go = (\<lambda>domainAccount.
            (case GetUserAccount s (Claims_UserId claims) of
               Ret account \<Rightarrow> handleExistingUserAccount s idp account domainAccount claims
             | Panic p \<Rightarrow> (s, Panic p)
             | Err e \<Rightarrow>
                 if from_status e \<and> err_code e = NotFound
                 then handleNewUserAccount s idp fr domainAccount claims
                 else (s, Err e)))
      in case GetAccountByPrivateDomain s (Claims_Domain claims) of
           Ret d \<Rightarrow> go (Some d)
         | Panic p \<Rightarrow> (s, Panic p)
         | Err e \<Rightarrow> if err_code e \<noteq> OK \<and> err_code e \<noteq> NotFound then (s, Err e) else go None)"

definition GetAccountWithAuthorizationClaims ::
  "FileStore \<Rightarrow> IdpManager option \<Rightarrow> Fresh \<Rightarrow> AuthorizationClaims \<Rightarrow> FileStore \<times> Account outcome" where
  "GetAccountWithAuthorizationClaims s idp fr claims =
     (if Claims_DomainCategory claims \<noteq> PrivateCategory then
        GetAccountByUserOrAccountId s idp fr (Claims_UserId claims) (Claims_AccountId claims) (Claims_Domain claims)
      else if Claims_AccountId claims \<noteq> [] then
        (case GetAccountById s (Claims_AccountId claims) of
           Err e \<Rightarrow> (s, Err e)
         | Panic p \<Rightarrow> (s, Panic p)
         | Ret accountFromID \<Rightarrow>
             if lookup (Account_Users accountFromID) (Claims_UserId claims) = None then
               (s, Err (PlainError (''user '' @ Claims_UserId claims @ '' is not part of the account id '' @
                                    Claims_AccountId claims)))
             else if Account_DomainCategory accountFromID = PrivateCategory \<or>
                     Claims_DomainCategory claims \<noteq> PrivateCategory
             then (s, Ret accountFromID)
             else account_by_private_domain s idp fr claims)
      else account_by_private_domain s idp fr claims)"

definition IsUserAdmin ::
  "FileStore \<Rightarrow> IdpManager option \<Rightarrow> Fresh \<Rightarrow> AuthorizationClaims \<Rightarrow> FileStore \<times> bool outcome" where
  "IsUserAdmin s idp fr claims =
     (case GetAccountWithAuthorizationClaims s idp fr claims of
        (s1, Err e) \<Rightarrow> (s1, Err (PlainError (''get account: '' @ err_string e)))
      | (s1, Panic p) \<Rightarrow> (s1, Panic p)
      | (s1, Ret account) \<Rightarrow>
          (case lookup (Account_Users account) (Claims_UserId claims) of
             None \<Rightarrow> (s1, Err (PlainError ''no such user''))
           | Some user \<Rightarrow> (s1, Ret (User_Role user = UserRoleAdmin))))"

end
