(* ===== verification/Group_Rule_Manager.thy ===== *)
theory Group_Rule_Manager
  imports Account_Manager
begin

text \<open>
  \<open>management/server/group.go\<close> and \<open>rule.go\<close>: the operations of the account manager on
  the groups of peers and on the rules between groups. An operation reads the live
  account, changes it and saves it.
\<close>

section \<open>Groups\<close>

definition GetGroup :: "FileStore \<Rightarrow> string \<Rightarrow> string \<Rightarrow> Group outcome" where
  "GetGroup s accountID groupID =
     (case GetAccount s accountID of
        Err e \<Rightarrow> Err (StatusError NotFound ''account not found'')
      | Panic p \<Rightarrow> Panic p
      | Ret account \<Rightarrow>
          (case lookup (Account_Groups account) groupID of
             Some grp \<Rightarrow> Ret grp
           | None \<Rightarrow> Err (StatusError NotFound (''group with ID '' @ groupID @ '' not found''))))"

definition SaveGroup :: "FileStore \<Rightarrow> string \<Rightarrow> Group \<Rightarrow> FileStore \<times> unit outcome" where
  "SaveGroup s accountID grp =
     (case GetAccount s accountID of
        Err e \<Rightarrow> (s, Err (StatusError NotFound ''account not found''))
      | Panic p \<Rightarrow> (s, Panic p)
      | Ret account \<Rightarrow>
          (case assign (Account_Groups account) (Group_ID grp) grp of
             None \<Rightarrow> (s, Panic NilMapWrite)
           | Some gs \<Rightarrow> SaveAccount s (account\<lparr>Account_Groups := gs\<rparr>)))"

definition DeleteGroup :: "FileStore \<Rightarrow> string \<Rightarrow> string \<Rightarrow> FileStore \<times> unit outcome" where
  "DeleteGroup s accountID groupID =
     (case GetAccount s accountID of
        Err e \<Rightarrow> (s, Err (StatusError NotFound ''account not found''))
      | Panic p \<Rightarrow> (s, Panic p)
      | Ret account \<Rightarrow>
          SaveAccount s (account\<lparr>Account_Groups := map_delete (Account_Groups account) groupID\<rparr>))"

definition ListGroups :: "FileStore \<Rightarrow> string \<Rightarrow> Group list outcome" where
  "ListGroups s accountID =
     (case GetAccount s accountID of
        Err e \<Rightarrow> Err (StatusError NotFound ''account not found'')
      | Panic p \<Rightarrow> Panic p
      | Ret account \<Rightarrow> Ret (vals (Account_Groups account)))"

definition GroupAddPeer :: "FileStore \<Rightarrow> string \<Rightarrow> string \<Rightarrow> string \<Rightarrow> FileStore \<times> unit outcome" where
  "GroupAddPeer s accountID groupID peerKey =
     (case GetAccount s accountID of
        Err e \<Rightarrow> (s, Err (StatusError NotFound ''account not found''))
      | Panic p \<Rightarrow> (s, Panic p)
      | Ret account \<Rightarrow>
          (case lookup (Account_Groups account) groupID of
             None \<Rightarrow> (s, Err (StatusError NotFound (''group with ID '' @ groupID @ '' not found'')))
           | Some grp \<Rightarrow>
               SaveAccount s
                 (if list_ex (\<lambda>itemID. itemID = peerKey) (Group_Peers grp) then account
                  else account\<lparr>Account_Groups := map_entry (Account_Groups account) groupID
                         (\<lambda>g. g\<lparr>Group_Peers := Group_Peers g @ [peerKey]\<rparr>)\<rparr>)))"

definition GroupDeletePeer :: "FileStore \<Rightarrow> string \<Rightarrow> string \<Rightarrow> string \<Rightarrow> FileStore \<times> unit outcome" where
  "GroupDeletePeer s accountID groupID peerKey =
     (case GetAccount s accountID of
        Err e \<Rightarrow> (s, Err (StatusError NotFound ''account not found''))
      | Panic p \<Rightarrow> (s, Panic p)
      | Ret account \<Rightarrow>
          (case lookup (Account_Groups account) groupID of
             None \<Rightarrow> (s, Err (StatusError NotFound (''group with ID '' @ groupID @ '' not found'')))
           | Some grp \<Rightarrow>
               if list_ex (\<lambda>itemID. itemID = peerKey) (Group_Peers grp) then
                 SaveAccount s (account\<lparr>Account_Groups := map_entry (Account_Groups account) groupID
                   (\<lambda>g. g\<lparr>Group_Peers := remove1 peerKey (Group_Peers g)\<rparr>)\<rparr>)
               else (s, Ret ())))"

definition GroupListPeers :: "FileStore \<Rightarrow> string \<Rightarrow> string \<Rightarrow> Peer list outcome" where
  "GroupListPeers s accountID groupID =
     (case GetAccount s accountID of
        Err e \<Rightarrow> Err (StatusError NotFound ''account not found'')
      | Panic p \<Rightarrow> Panic p
      | Ret account \<Rightarrow>
          (case lookup (Account_Groups account) groupID of
             None \<Rightarrow> Err (StatusError NotFound (''group with ID '' @ groupID @ '' not found''))
           | Some grp \<Rightarrow> Ret (List.map_filter (lookup (Account_Peers account)) (Group_Peers grp))))"

section \<open>Rules\<close>

definition GetRule :: "FileStore \<Rightarrow> string \<Rightarrow> string \<Rightarrow> Rule outcome" where
  "GetRule s accountID ruleID =
     (case GetAccount s accountID of
        Err e \<Rightarrow> Err (StatusError NotFound ''account not found'')
      | Panic p \<Rightarrow> Panic p
      | Ret account \<Rightarrow>
          (case lookup (Account_Rules account) ruleID of
             Some rule \<Rightarrow> Ret rule
           | None \<Rightarrow> Err (StatusError NotFound (''rule with ID '' @ ruleID @ '' not found''))))"

definition SaveRule :: "FileStore \<Rightarrow> string \<Rightarrow> Rule \<Rightarrow> FileStore \<times> unit outcome" where
  "SaveRule s accountID rule =
     (case GetAccount s accountID of
        Err e \<Rightarrow> (s, Err (StatusError NotFound ''account not found''))
      | Panic p \<Rightarrow> (s, Panic p)
      | Ret account \<Rightarrow>
          (case assign (Account_Rules account) (Rule_ID rule) rule of
             None \<Rightarrow> (s, Panic NilMapWrite)
           | Some rs \<Rightarrow> SaveAccount s (account\<lparr>Account_Rules := rs\<rparr>)))"

definition DeleteRule :: "FileStore \<Rightarrow> string \<Rightarrow> string \<Rightarrow> FileStore \<times> unit outcome" where
  "DeleteRule s accountID ruleID =
     (case GetAccount s accountID of
        Err e \<Rightarrow> (s, Err (StatusError NotFound ''account not found''))
      | Panic p \<Rightarrow> (s, Panic p)
      | Ret account \<Rightarrow>
          SaveAccount s (account\<lparr>Account_Rules := map_delete (Account_Rules account) ruleID\<rparr>))"

definition ListRules :: "FileStore \<Rightarrow> string \<Rightarrow> Rule list outcome" where
  "ListRules s accountID =
     (case GetAccount s accountID of
        Err e \<Rightarrow> Err (StatusError NotFound ''account not found'')
      | Panic p \<Rightarrow> Panic p
      | Ret account \<Rightarrow> Ret (vals (Account_Rules account)))"

end
