(* ===== verification/Update_Channel.thy ===== *)
theory Update_Channel
  imports Mgmt_Proto
begin

text \<open>
  \<open>management/server/updatechannel.go\<close>: one buffered Go channel per connected peer.
  A channel is an object of its own (the stream that reads it keeps a reference after
  the manager has replaced it), so channels live in a store indexed by numbers and
  the map of the manager holds the numbers.

  A send to a full channel blocks, with the mutex held: the model of \<open>SendUpdate\<close>
  returns \<open>None\<close> then. A send to a closed channel panics.
\<close>

record UpdateMessage =
  Update :: SyncResponse

record channel =
  chan_buf :: "UpdateMessage list"
  chan_closed :: bool

record PeersUpdateManager =
  peerChannels :: "string \<rightharpoonup> nat"
  channels :: "nat \<Rightarrow> channel"
  next_channel :: nat

definition chan_capacity :: nat where
  "chan_capacity = 100"

definition NewPeersUpdateManager :: PeersUpdateManager where
  "NewPeersUpdateManager =
     \<lparr>peerChannels = Map.empty, channels = (\<lambda>_. \<lparr>chan_buf = [], chan_closed = False\<rparr>), next_channel = 0\<rparr>"

definition close_channel :: "nat \<Rightarrow> PeersUpdateManager \<Rightarrow> PeersUpdateManager" where
  "close_channel c p = p\<lparr>channels := (channels p)(c := (channels p c)\<lparr>chan_closed := True\<rparr>)\<rparr>"

definition SendUpdate ::
  "PeersUpdateManager \<Rightarrow> string \<Rightarrow> UpdateMessage \<Rightarrow> (PeersUpdateManager \<times> unit outcome) option" where
  "SendUpdate p peer update =
     (case peerChannels p peer of
        None \<Rightarrow> Some (p, Ret ())
      | Some c \<Rightarrow>
          if chan_closed (channels p c) then Some (p, Panic (ExplicitPanic ''send on closed channel''))
          else if length (chan_buf (channels p c)) \<ge> chan_capacity then None
          else Some (p\<lparr>channels := (channels p)(c := (channels p c)
                       \<lparr>chan_buf := chan_buf (channels p c) @ [update]\<rparr>)\<rparr>, Ret ()))"

definition CreateChannel :: "PeersUpdateManager \<Rightarrow> string \<Rightarrow> PeersUpdateManager \<times> nat" where
  "CreateChannel p peerKey =
     (let p1 = (case peerChannels p peerKey of
                  None \<Rightarrow> p
                | Some c \<Rightarrow> close_channel c (p\<lparr>peerChannels := (peerChannels p)(peerKey := None)\<rparr>));
          c = next_channel p1
      in (p1\<lparr>channels := (channels p1)(c := \<lparr>chan_buf = [], chan_closed = False\<rparr>),
             peerChannels := (peerChannels p1)(peerKey \<mapsto> c), next_channel := c + 1\<rparr>, c))"

definition CloseChannel :: "PeersUpdateManager \<Rightarrow> string \<Rightarrow> PeersUpdateManager" where
  "CloseChannel p peerKey =
     (case peerChannels p peerKey of
        None \<Rightarrow> p
      | Some c \<Rightarrow> close_channel c (p\<lparr>peerChannels := (peerChannels p)(peerKey := None)\<rparr>))"

text \<open>
  The receiving end, \<open>update, open := <-updates\<close> in \<open>grpcserver.go\<close>: buffered messages
  come first, then the end of a closed channel; \<open>None\<close> when there is nothing to receive.
\<close>

definition receive ::
  "PeersUpdateManager \<Rightarrow> nat \<Rightarrow> (PeersUpdateManager \<times> UpdateMessage option) option" where
  "receive p c =
     (case chan_buf (channels p c) of
        m # ms \<Rightarrow> Some (p\<lparr>channels := (channels p)(c := (channels p c)\<lparr>chan_buf := ms\<rparr>)\<rparr>, Some m)
      | [] \<Rightarrow> if chan_closed (channels p c) then Some (p, None) else None)"

section \<open>The invariant of the manager\<close>

text \<open>
  The channels in the map are open, belong to one peer each, were allocated,
  and hold at most a hundred messages.
\<close>

definition pum_ok :: "PeersUpdateManager \<Rightarrow> bool" where
  "pum_ok p \<longleftrightarrow>
     (\<forall>k c. peerChannels p k = Some c \<longrightarrow> \<not> chan_closed (channels p c) \<and> c < next_channel p) \<and>
     inj_on (peerChannels p) (dom (peerChannels p)) \<and>
     (\<forall>c. length (chan_buf (channels p c)) \<le> chan_capacity)"

lemma pum_ok_new: "pum_ok NewPeersUpdateManager"
  by (simp add: pum_ok_def NewPeersUpdateManager_def)

lemma pum_ok_inj: "pum_ok p \<Longrightarrow> peerChannels p k = Some c \<Longrightarrow> peerChannels p l = Some c \<Longrightarrow> k = l"
  by (auto simp: pum_ok_def inj_on_def dom_def)

lemma pum_ok_send:
  assumes "pum_ok p" "SendUpdate p k m = Some (p', r)"
  shows "pum_ok p'" and "r = Ret ()" and "peerChannels p' = peerChannels p"
  using assms by (auto simp: SendUpdate_def pum_ok_def split: option.splits if_splits)

lemma pum_ok_close: "pum_ok p \<Longrightarrow> pum_ok (CloseChannel p k)"
  using pum_ok_inj [of p] unfolding CloseChannel_def close_channel_def
  by (auto simp: pum_ok_def inj_on_def dom_def split: option.splits if_splits)

lemma CreateChannel_alt:
  "CreateChannel p k =
     (let p1 = CloseChannel p k; c = next_channel p1
      in (p1\<lparr>channels := (channels p1)(c := \<lparr>chan_buf = [], chan_closed = False\<rparr>),
             peerChannels := (peerChannels p1)(k \<mapsto> c), next_channel := c + 1\<rparr>, c))"
  by (simp add: CreateChannel_def CloseChannel_def)

lemma pum_ok_create:
  assumes "pum_ok p" "CreateChannel p k = (p', c)"
  shows "pum_ok p'"
proof -
  let ?q = "CloseChannel p k"
  have q: "pum_ok ?q" by (rule pum_ok_close [OF assms(1)])
  have p': "p' = ?q\<lparr>channels := (channels ?q)(c := \<lparr>chan_buf = [], chan_closed = False\<rparr>),
       peerChannels := (peerChannels ?q)(k \<mapsto> c), next_channel := c + 1\<rparr>" and c: "c = next_channel ?q"
    using assms(2) by (auto simp: CreateChannel_alt Let_def)
  from q have "peerChannels ?q l \<noteq> Some c" for l by (auto simp: pum_ok_def c)
  with q show ?thesis unfolding p' pum_ok_def c
    by (auto simp: inj_on_def dom_def less_Suc_eq)
qed

lemma pum_ok_receive: "pum_ok p \<Longrightarrow> receive p c = Some (p', m) \<Longrightarrow> pum_ok p'"
  by (auto simp: receive_def pum_ok_def split: list.splits if_splits) (metis length_Cons Suc_leD)

section \<open>Runs of the manager\<close>

text \<open>
  The manager is used by the streams of all peers at once, its mutex makes every call a
  step of its own. The two logs record, for every channel, the updates that were sent to it
  and those that were received from it.
\<close>

inductive chan_run ::
  "PeersUpdateManager \<Rightarrow> (nat \<Rightarrow> UpdateMessage list) \<Rightarrow> (nat \<Rightarrow> UpdateMessage list) \<Rightarrow> bool" where
  init: "chan_run NewPeersUpdateManager (\<lambda>_. []) (\<lambda>_. [])"
| send: "chan_run p sent rcvd \<Longrightarrow> peerChannels p k = Some c \<Longrightarrow> SendUpdate p k m = Some (p', Ret ()) \<Longrightarrow>
    chan_run p' (sent(c := sent c @ [m])) rcvd"
| skip: "chan_run p sent rcvd \<Longrightarrow> peerChannels p k = None \<Longrightarrow> SendUpdate p k m = Some (p', Ret ()) \<Longrightarrow>
    chan_run p' sent rcvd"
| create: "chan_run p sent rcvd \<Longrightarrow> CreateChannel p k = (p', c) \<Longrightarrow> chan_run p' sent rcvd"
| close: "chan_run p sent rcvd \<Longrightarrow> chan_run (CloseChannel p k) sent rcvd"
| recv: "chan_run p sent rcvd \<Longrightarrow> receive p c = Some (p', Some m) \<Longrightarrow>
    chan_run p' sent (rcvd(c := rcvd c @ [m]))"
| ended: "chan_run p sent rcvd \<Longrightarrow> receive p c = Some (p', None) \<Longrightarrow> chan_run p' sent rcvd"

inductive_cases chan_run_cases: "chan_run p sent rcvd"

lemma chan_run_ok: "chan_run p sent rcvd \<Longrightarrow> pum_ok p"
  by (induction rule: chan_run.induct)
    (auto intro: pum_ok_new pum_ok_send(1) pum_ok_create pum_ok_close pum_ok_receive)

lemma close_channels:
  "chan_buf (channels (CloseChannel p k) c) = chan_buf (channels p c)"
  "next_channel (CloseChannel p k) = next_channel p"
  by (auto simp: CloseChannel_def close_channel_def split: option.splits)

lemma create_channels:
  assumes "CreateChannel p k = (p', c)"
  shows "chan_buf (channels p' d) = (if d = c then [] else chan_buf (channels p d))"
    and "c = next_channel p" and "next_channel p' = next_channel p + 1" and "peerChannels p' k = Some c"
    and "\<not> chan_closed (channels p' c)"
  using assms by (auto simp: CreateChannel_alt Let_def close_channels)

text \<open>Nothing was ever sent to a channel that has not been created.\<close>

lemma chan_run_logs:
  "chan_run p sent rcvd \<Longrightarrow> (\<forall>c. sent c = rcvd c @ chan_buf (channels p c)) \<and>
     (\<forall>c \<ge> next_channel p. sent c = [])"
proof (induction rule: chan_run.induct)
  case init
  then show ?case by (simp add: NewPeersUpdateManager_def)
next
  case (send p sent rcvd k c m p')
  have "c < next_channel p" using chan_run_ok [OF send.hyps(1)] send.hyps(2) by (auto simp: pum_ok_def)
  then show ?case using send by (auto simp: SendUpdate_def split: if_splits)
next
  case (skip p sent rcvd k m p')
  then show ?case by (auto simp: SendUpdate_def)
next
  case (create p sent rcvd k p' c)
  then show ?case using create_channels [OF create.hyps(2)] by auto
next
  case (close p sent rcvd k)
  then show ?case unfolding close_channels by blast
next
  case (recv p sent rcvd c p' m)
  then show ?case by (auto simp: receive_def split: list.splits if_splits)
next
  case (ended p sent rcvd c p')
  then show ?case by (auto simp: receive_def split: list.splits if_splits)
qed

text \<open>
  C24: in every run, for every channel, the updates received so far followed by those still
  buffered are exactly the updates sent, in the order they were sent: nothing is lost,
  duplicated or reordered. At most a hundred updates wait in a channel, and sending never
  panics: the channel registered for a peer is always open.
\<close>

theorem updates_in_order:
  assumes "chan_run p sent rcvd"
  shows "sent c = rcvd c @ chan_buf (channels p c) \<and> length (chan_buf (channels p c)) \<le> chan_capacity \<and>
    (\<forall>k m p' e. SendUpdate p k m \<noteq> Some (p', Panic e))"
  using chan_run_logs [OF assms] chan_run_ok [OF assms] pum_ok_send(2) [OF chan_run_ok [OF assms]]
  by (auto simp: pum_ok_def)

definition ex_update :: UpdateMessage where
  "ex_update = \<lparr>Update = \<lparr>Sync_WiretrusteeConfig = None, Sync_PeerConfig = None, Sync_RemotePeers = [],
     Sync_RemotePeersIsEmpty = True, Sync_NetworkMap = None\<rparr>\<rparr>"

theorem updates_in_order_witness:
  "\<exists>p sent rcvd. chan_run p sent rcvd \<and> sent 0 = [ex_update] \<and> rcvd 0 @ chan_buf (channels p 0) = [ex_update]"
proof -
  let ?p = "fst (CreateChannel NewPeersUpdateManager ''k'')"
  have r: "chan_run ?p (\<lambda>_. []) (\<lambda>_. [])"
    by (rule chan_run.create [OF chan_run.init prod.collapse [symmetric]])
  have c: "peerChannels ?p ''k'' = Some 0" by (simp add: CreateChannel_def NewPeersUpdateManager_def Let_def)
  obtain q where q: "SendUpdate ?p ''k'' ex_update = Some (q, Ret ())"
    by (simp add: SendUpdate_def CreateChannel_def NewPeersUpdateManager_def Let_def chan_capacity_def)
  note run = chan_run.send [OF r c q]
  show ?thesis using updates_in_order [OF run, of 0]
    by (intro exI [of _ q] exI [of _ "(\<lambda>_. [])(0 := [] @ [ex_update])"] exI [of _ "\<lambda>_. []"]) (use run in simp)
qed

text \<open>
  Reconnecting replaces the channel of the peer: the old one is closed, with its
  buffered updates still readable, the new one is empty and open, and the channels of all
  other peers are the ones they were.
\<close>

theorem reconnect_replaces_channel:
  assumes "pum_ok p" "CreateChannel p k = (p', c)"
  shows "peerChannels p' k = Some c \<and> \<not> chan_closed (channels p' c) \<and> chan_buf (channels p' c) = [] \<and>
    (\<forall>d. peerChannels p k = Some d \<longrightarrow> d \<noteq> c \<and> chan_closed (channels p' d) \<and>
       chan_buf (channels p' d) = chan_buf (channels p d)) \<and>
    (\<forall>l. l \<noteq> k \<longrightarrow> peerChannels p' l = peerChannels p l \<and>
       (\<forall>d. peerChannels p l = Some d \<longrightarrow> channels p' d = channels p d))"
proof -
  have lt: "peerChannels p l = Some d \<Longrightarrow> d < next_channel p" for l d
    using assms(1) by (auto simp: pum_ok_def)
  have inj: "peerChannels p l = Some d \<Longrightarrow> peerChannels p k = Some d \<Longrightarrow> l = k" for l d
    using pum_ok_inj [OF assms(1)] by blast
  note new = create_channels [OF assms(2)]
  have ch: "channels p' d = (if d = c then \<lparr>chan_buf = [], chan_closed = False\<rparr> else channels (CloseChannel p k) d)"
    and pc: "peerChannels p' = (peerChannels (CloseChannel p k))(k \<mapsto> c)" for d
    using assms(2) by (auto simp: CreateChannel_alt Let_def)
  have cl: "channels (CloseChannel p k) d = (if peerChannels p k = Some d then (channels p d)\<lparr>chan_closed := True\<rparr> else channels p d)"
    and cp: "peerChannels (CloseChannel p k) = (peerChannels p)(k := None)" for d
    by (auto simp: CloseChannel_def close_channel_def split: option.splits)
  show ?thesis using new(2) lt inj by (auto simp: ch pc cl cp)
qed

theorem reconnect_replaces_channel_witness:
  "\<exists>p q c. CreateChannel p ''k'' = (q, c) \<and> peerChannels p ''k'' = Some 0 \<and> chan_closed (channels q 0) \<and>
     peerChannels q ''k'' = Some c"
proof -
  let ?p = "fst (CreateChannel NewPeersUpdateManager ''k'')"
  have ok: "pum_ok ?p" by (rule pum_ok_create [OF pum_ok_new prod.collapse [symmetric]])
  obtain q c where qc: "CreateChannel ?p ''k'' = (q, c)" by fastforce
  have "peerChannels ?p ''k'' = Some 0" by (simp add: CreateChannel_def NewPeersUpdateManager_def Let_def)
  with reconnect_replaces_channel [OF ok qc] qc show ?thesis by blast
qed

end
