(* ===== verification/Peer_Manager.thy ===== *)
theory Peer_Manager
  imports Group_Rule_Manager Update_Channel
begin

text \<open>
  \<open>management/server/peer.go\<close>: the operations of the account manager on peers. The
  operations that may never return (the loop of \<open>generateIPs\<close> in \<open>AddPeer\<close>, the
  blocking send of \<open>SendUpdate\<close> in \<open>DeletePeer\<close>) have results of an \<open>option\<close> type, with
  \<open>None\<close> for a call that does not return.
\<close>

record NetworkMap =
  NetworkMap_Peers :: "Peer list"
  NetworkMap_Network :: Network

definition GetPeer :: "FileStore \<Rightarrow> string \<Rightarrow> Peer outcome" where
  "GetPeer s peerKey =
     (case Store_GetPeer s peerKey of
        Err e \<Rightarrow> Err e
      | Panic p \<Rightarrow> Panic p
      | Ret peer \<Rightarrow> Ret peer)"

text \<open>
  \<open>Peer.Copy\<close> copies the pointer \<open>Status\<close>: a write to the status of the copy is a write
  to the status of the peer in the store.
\<close>

definition write_status :: "FileStore \<Rightarrow> string \<Rightarrow> PeerStatus \<Rightarrow> FileStore" where
  "write_status s peerKey st =
     (case PeerKeyId2AccountId s peerKey of
        None \<Rightarrow> s
      | Some accountId \<Rightarrow> s\<lparr>Accounts := map_entry (Accounts s) accountId
          (\<lambda>a. a\<lparr>Account_Peers := map_entry (Account_Peers a) peerKey
                   (\<lambda>p. p\<lparr>Peer_Status := Some st\<rparr>)\<rparr>)\<rparr>)"

definition MarkPeerConnected :: "FileStore \<Rightarrow> int \<Rightarrow> string \<Rightarrow> bool \<Rightarrow> FileStore \<times> unit outcome" where
  "MarkPeerConnected s now peerKey connected =
     (case Store_GetPeer s peerKey of
        Err e \<Rightarrow> (s, Err e)
      | Panic p \<Rightarrow> (s, Panic p)
      | Ret peer \<Rightarrow>
          (case GetPeerAccount s peerKey of
             Err e \<Rightarrow> (s, Err e)
           | Panic p \<Rightarrow> (s, Panic p)
           | Ret account \<Rightarrow>
               (let peerCopy = Peer_Copy peer
                in case Peer_Status peerCopy of
                     None \<Rightarrow> (s, Panic NilDereference)
                   | Some st \<Rightarrow>
                       (let st1 = st\<lparr>Status_LastSeen := now, Status_Connected := connected\<rparr>
                        in SavePeer (write_status s peerKey st1) (Account_Id account)
                             (peerCopy\<lparr>Peer_Status := Some st1\<rparr>)))))"

definition RenamePeer :: "FileStore \<Rightarrow> string \<Rightarrow> string \<Rightarrow> string \<Rightarrow> FileStore \<times> Peer outcome" where
  "RenamePeer s accountId peerKey newName =
     (case Store_GetPeer s peerKey of
        Err e \<Rightarrow> (s, Err e)
      | Panic p \<Rightarrow> (s, Panic p)
      | Ret peer \<Rightarrow>
          (let peerCopy = (Peer_Copy peer)\<lparr>Peer_Name := newName\<rparr>
           in then_return (SavePeer s accountId peerCopy) (\<lambda>e. e) peerCopy))"

section \<open>Deleting a peer\<close>

definition empty_update :: "64 word \<Rightarrow> UpdateMessage" where
  "empty_update serial =
     \<lparr>Update = \<lparr>Sync_WiretrusteeConfig = None, Sync_PeerConfig = None,
        Sync_RemotePeers = [], Sync_RemotePeersIsEmpty = True,
        Sync_NetworkMap = Some \<lparr>Map_Serial = serial, Map_PeerConfig = None,
          Map_RemotePeers = [], Map_RemotePeersIsEmpty = True\<rparr>\<rparr>\<rparr>"

definition peers_update :: "64 word \<Rightarrow> Peer list \<Rightarrow> UpdateMessage" where
  "peers_update serial peersToSend =
     (let update = toRemotePeerConfig peersToSend
      in \<lparr>Update = \<lparr>Sync_WiretrusteeConfig = None, Sync_PeerConfig = None,
            Sync_RemotePeers = update, Sync_RemotePeersIsEmpty = (length update = 0),
            Sync_NetworkMap = Some \<lparr>Map_Serial = serial, Map_PeerConfig = None,
              Map_RemotePeers = update, Map_RemotePeersIsEmpty = (length update = 0)\<rparr>\<rparr>\<rparr>)"

text \<open>The loop that notifies the remaining peers: each is sent all the others.\<close>

fun notify_peers ::
  "64 word \<Rightarrow> Peer list \<Rightarrow> Peer list \<Rightarrow> PeersUpdateManager \<Rightarrow> (PeersUpdateManager \<times> unit outcome) option" where
  "notify_peers serial peers [] m = Some (m, Ret ())"
| "notify_peers serial peers (p # ps) m =
     (let peersToSend = filter (\<lambda>remote. Peer_Key p \<noteq> Peer_Key remote) peers
      in case SendUpdate m (Peer_Key p) (peers_update serial peersToSend) of
           None \<Rightarrow> None
         | Some (m1, Ret u) \<Rightarrow> notify_peers serial peers ps m1
         | Some (m1, Err e) \<Rightarrow> Some (m1, Err e)
         | Some (m1, Panic q) \<Rightarrow> Some (m1, Panic q))"

text \<open>The part of \<open>DeletePeer\<close> that follows the two writes to the store.\<close>

definition notify_deleted ::
  "FileStore \<Rightarrow> PeersUpdateManager \<Rightarrow> string \<Rightarrow> string \<Rightarrow> 64 word \<Rightarrow> (PeersUpdateManager \<times> unit outcome) option" where
  "notify_deleted s m accountId peerKey serial =
     (case GetAccountPeers s accountId of
        Err e \<Rightarrow> Some (m, Err e)
      | Panic q \<Rightarrow> Some (m, Panic q)
      | Ret peers \<Rightarrow>
          (case notify_peers serial peers peers m of
             None \<Rightarrow> None
           | Some (m2, Ret u) \<Rightarrow> Some (CloseChannel m2 peerKey, Ret ())
           | Some (m2, Err e) \<Rightarrow> Some (m2, Err e)
           | Some (m2, Panic q) \<Rightarrow> Some (m2, Panic q)))"

definition DeletePeer ::
  "FileStore \<Rightarrow> PeersUpdateManager \<Rightarrow> string \<Rightarrow> string \<Rightarrow>
     ((FileStore \<times> PeersUpdateManager) \<times> Peer outcome) option" where
  "DeletePeer s m accountId peerKey =
     (case GetAccount s accountId of
        Err e \<Rightarrow> Some ((s, m), Err (StatusError NotFound ''account not found''))
      | Panic q \<Rightarrow> Some ((s, m), Panic q)
      | Ret account0 \<Rightarrow>
          (case Store_DeletePeer s accountId peerKey of
             (s1, Err e) \<Rightarrow> Some ((s1, m), Err e)
           | (s1, Panic q) \<Rightarrow> Some ((s1, m), Panic q)
           | (s1, Ret peer) \<Rightarrow>
               (case GetAccount s1 accountId of
                  Err e \<Rightarrow> Some ((s1, m), Err e)
                | Panic q \<Rightarrow> Some ((s1, m), Panic q)
                | Ret account1 \<Rightarrow>
                    (let account = account1\<lparr>Account_Network := IncSerial (Account_Network account1)\<rparr>;
                         serial = CurrentSerial (Account_Network account)
                     in case SaveAccount s1 account of
                          (s2, Err e) \<Rightarrow> Some ((s2, m), Err e)
                        | (s2, Panic q) \<Rightarrow> Some ((s2, m), Panic q)
                        | (s2, Ret u) \<Rightarrow>
                            (case SendUpdate m peerKey (empty_update serial) of
                               None \<Rightarrow> None
                             | Some (m1, Err e) \<Rightarrow> Some ((s2, m1), Err e)
                             | Some (m1, Panic q) \<Rightarrow> Some ((s2, m1), Panic q)
                             | Some (m1, Ret v) \<Rightarrow>
                                 (case notify_deleted s2 m1 accountId peerKey serial of
                                    None \<Rightarrow> None
                                  | Some (m2, Ret w) \<Rightarrow> Some ((s2, m2), Ret peer)
                                  | Some (m2, Err e) \<Rightarrow> Some ((s2, m2), Err e)
                                  | Some (m2, Panic q) \<Rightarrow> Some ((s2, m2), Panic q)))))))"

definition GetPeerByIP :: "FileStore \<Rightarrow> string \<Rightarrow> string \<Rightarrow> Peer outcome" where
  "GetPeerByIP s accountId peerIP =
     (case GetAccount s accountId of
        Err e \<Rightarrow> Err (StatusError NotFound ''account not found'')
      | Panic q \<Rightarrow> Panic q
      | Ret account \<Rightarrow>
          (case find (\<lambda>peer. peerIP = ip_string (Peer_IP peer)) (vals (Account_Peers account)) of
             Some peer \<Rightarrow> Ret peer
           | None \<Rightarrow> Err (StatusError NotFound (''peer with IP '' @ peerIP @ '' not found''))))"

section \<open>The network map of a peer\<close>

text \<open>The map \<open>groups\<close>: the value of a group that does not exist is a nil pointer.\<close>

definition reach_groups :: "Account \<Rightarrow> (Rule \<Rightarrow> string list) \<Rightarrow> Rule list \<Rightarrow>
    (string \<times> Group option) list \<Rightarrow> (string \<times> Group option) list" where
  "reach_groups account side rules groups =
     fold (\<lambda>r gs. if Rule_Flow r = TrafficFlowBidirect
                  then fold (\<lambda>gid gs. AList.update gid (lookup (Account_Groups account) gid) gs) (side r) gs
                  else gs) rules groups"

definition group_peers :: "Account \<Rightarrow> string \<Rightarrow> Group \<Rightarrow> Peer list" where
  "group_peers account peerKey g =
     map Peer_Copy (filter (\<lambda>peer. Peer_Key peer \<noteq> peerKey)
       (List.map_filter (lookup (Account_Peers account)) (Group_Peers g)))"

fun collect_peers :: "Account \<Rightarrow> string \<Rightarrow> (string \<times> Group option) list \<Rightarrow> Peer list outcome" where
  "collect_peers account peerKey [] = Ret []"
| "collect_peers account peerKey ((gid, None) # gs) = Panic NilDereference"
| "collect_peers account peerKey ((gid, Some g) # gs) =
     (case collect_peers account peerKey gs of
        Ret res \<Rightarrow> Ret (group_peers account peerKey g @ res)
      | Err e \<Rightarrow> Err e
      | Panic p \<Rightarrow> Panic p)"

definition GetNetworkMap :: "FileStore \<Rightarrow> string \<Rightarrow> NetworkMap outcome" where
  "GetNetworkMap s peerKey =
     (case GetPeerAccount s peerKey of
        Err e \<Rightarrow> Err (StatusError Internal (''Invalid peer key '' @ peerKey))
      | Panic p \<Rightarrow> Panic p
      | Ret account \<Rightarrow>
          (let noPeers = \<lparr>NetworkMap_Peers = [], NetworkMap_Network = Network_Copy (Account_Network account)\<rparr>
           in case GetPeerSrcRules s (Account_Id account) peerKey of
                Err e \<Rightarrow> Ret noPeers
              | Panic p \<Rightarrow> Panic p
              | Ret srcRules \<Rightarrow>
                  (case GetPeerDstRules s (Account_Id account) peerKey of
                     Err e \<Rightarrow> Ret noPeers
                   | Panic p \<Rightarrow> Panic p
                   | Ret dstRules \<Rightarrow>
                       (let groups = reach_groups account Rule_Source dstRules
                              (reach_groups account Rule_Destination srcRules [])
                        in case collect_peers account peerKey groups of
                             Err e \<Rightarrow> Err e
                           | Panic p \<Rightarrow> Panic p
                           | Ret res \<Rightarrow>
                               Ret \<lparr>NetworkMap_Peers = res,
                                    NetworkMap_Network = Network_Copy (Account_Network account)\<rparr>))))"

section \<open>Adding a peer\<close>

text \<open>The choice of the account and, when a setup key is given, of the key.\<close>

definition find_registration ::
  "FileStore \<Rightarrow> int \<Rightarrow> string \<Rightarrow> string \<Rightarrow> (Account \<times> SetupKey option) outcome" where
  "find_registration s now upperKey userID =
     (if length upperKey \<noteq> 0 then
        (case GetAccountBySetupKey s upperKey of
           Err e \<Rightarrow> Err (StatusError NotFound
             (''unable to register peer, unable to find account with setupKey '' @ upperKey))
         | Panic p \<Rightarrow> Panic p
         | Ret account \<Rightarrow>
             (case getAccountSetupKeyByKey account upperKey of
                None \<Rightarrow> Err (StatusError NotFound (''unable to register peer, unknown setupKey '' @ upperKey))
              | Some sk \<Rightarrow>
                  if \<not> IsValid now sk then Err (StatusError FailedPrecondition
                    ''unable to register peer, its setup key is invalid (expired, overused or revoked)'')
                  else Ret (account, Some sk)))
      else if length userID \<noteq> 0 then
        (case GetUserAccount s userID of
           Err e \<Rightarrow> Err (StatusError NotFound (''unable to register peer, unknown user with ID: '' @ userID))
         | Panic p \<Rightarrow> Panic p
         | Ret account \<Rightarrow> Ret (account, None))
      else Err (StatusError InvalidArgument ''no setup key or user id provided''))"

text \<open>
  The writes to the live account, in the order of the code. A panic on a nil map
  leaves the writes made before it in the store.
\<close>

definition join_account ::
  "FileStore \<Rightarrow> int \<Rightarrow> Account \<Rightarrow> SetupKey option \<Rightarrow> string \<Rightarrow> Peer \<Rightarrow> FileStore \<times> unit outcome" where
  "join_account s now account sk gid newPeer =
     (let account1 = account\<lparr>Account_Groups := map_entry (Account_Groups account) gid
            (\<lambda>g. g\<lparr>Group_Peers := Group_Peers g @ [Peer_Key newPeer]\<rparr>)\<rparr>
      in case assign (Account_Peers account1) (Peer_Key newPeer) newPeer of
           None \<Rightarrow> (set_account s (Account_Id account) account1, Panic NilMapWrite)
         | Some peers \<Rightarrow>
             (let account2 = account1\<lparr>Account_Peers := peers\<rparr>
              in case sk of
                   None \<Rightarrow> SaveAccount s
                     (account2\<lparr>Account_Network := IncSerial (Account_Network account2)\<rparr>)
                 | Some k \<Rightarrow>
                     (case assign (Account_SetupKeys account2) (SetupKey_Key k) (IncrementUsage now k) of
                        None \<Rightarrow> (set_account s (Account_Id account) account2, Panic NilMapWrite)
                      | Some ks \<Rightarrow> SaveAccount s
                          (account2\<lparr>Account_SetupKeys := ks,
                                    Account_Network := IncSerial (Account_Network account2)\<rparr>))))"

definition AddPeer ::
  "FileStore \<Rightarrow> Fresh \<Rightarrow> string \<Rightarrow> string \<Rightarrow> Peer \<Rightarrow> (FileStore \<times> Peer outcome) option" where
  "AddPeer s fr setupKey userID peer =
     (let upperKey = ToUpper setupKey
      in case find_registration s (fr_now fr) upperKey userID of
           Err e \<Rightarrow> Some (s, Err e)
         | Panic p \<Rightarrow> Some (s, Panic p)
         | Ret (account, sk) \<Rightarrow>
             (let takenIps = map Peer_IP (vals (Account_Peers account))
              in case AllocatePeerIP (fr_rand fr) (Network_Net (Account_Network account)) takenIps of
                   None \<Rightarrow> None
                 | Some (Err e) \<Rightarrow> Some (s, Err e)
                 | Some (Panic p) \<Rightarrow> Some (s, Panic p)
                 | Some (Ret nextIp) \<Rightarrow>
                     (let newPeer = \<lparr>Peer_Key = Peer_Key peer, Peer_SetupKey = upperKey,
                            Peer_IP = nextIp, Peer_Meta = Peer_Meta peer, Peer_Name = Peer_Name peer,
                            Peer_Status = Some \<lparr>Status_LastSeen = fr_now fr, Status_Connected = False\<rparr>,
                            Peer_UserID = userID\<rparr>
                      in case GetGroupAll account of
                           Err e \<Rightarrow> Some (s, Err e)
                         | Panic p \<Rightarrow> Some (s, Panic p)
                         | Ret (gid, grp) \<Rightarrow>
                             Some (then_return (join_account s (fr_now fr) account sk gid newPeer)
                               (\<lambda>_. StatusError Internal ''failed adding peer'') newPeer))))"

definition UpdatePeerMeta :: "FileStore \<Rightarrow> string \<Rightarrow> PeerSystemMeta \<Rightarrow> FileStore \<times> unit outcome" where
  "UpdatePeerMeta s peerKey meta =
     (case Store_GetPeer s peerKey of
        Err e \<Rightarrow> (s, Err e)
      | Panic p \<Rightarrow> (s, Panic p)
      | Ret peer \<Rightarrow>
          (case GetPeerAccount s peerKey of
             Err e \<Rightarrow> (s, Err e)
           | Panic p \<Rightarrow> (s, Panic p)
           | Ret account \<Rightarrow>
               (let peerCopy = Peer_Copy peer;
                    meta1 = (if Meta_UIVersion meta = []
                             then meta\<lparr>Meta_UIVersion := Meta_UIVersion (Peer_Meta peerCopy)\<rparr> else meta)
                in SavePeer s (Account_Id account) (peerCopy\<lparr>Peer_Meta := meta1\<rparr>))))"

end
