(* ===== verification/Jwt.thy ===== *)
theory Jwt
  imports Account_Manager
begin

text \<open>
  The JWT side of the Management Service: \<open>management/server/jwtclaims/extractor.go\<close> and the
  middlewares \<open>http/middleware/jwtmiddleware.go\<close>, \<open>handler.go\<close> and \<open>access_control.go\<close>.
  The \<open>golang-jwt\<close> package is outside the program: the record \<open>JwtLib\<close> holds what the code
  calls of it. A claim is a string or another JSON value; a failed type assertion panics.
\<close>

datatype claim_value = ClaimString string | ClaimOther

type_synonym MapClaims = "(string, claim_value) gomap"

record JwtToken =
  Token_kid :: "claim_value option"
  Token_alg :: string
  Token_Claims :: MapClaims

record JwtLib =
  jwt_unverified :: "string \<Rightarrow> JwtToken option"
  jwt_verify_audience :: "MapClaims \<Rightarrow> string \<Rightarrow> bool"
  jwt_verify_issuer :: "MapClaims \<Rightarrow> string \<Rightarrow> bool"
  jwt_signature_ok :: "string \<Rightarrow> string \<Rightarrow> bool"

section \<open>Claims\<close>

abbreviation (input) AccountIDSuffix :: string where
  "AccountIDSuffix \<equiv> ''wt_account_id''"

abbreviation (input) DomainIDSuffix :: string where
  "DomainIDSuffix \<equiv> ''wt_account_domain''"

abbreviation (input) DomainCategorySuffix :: string where
  "DomainCategorySuffix \<equiv> ''wt_account_domain_category''"

abbreviation (input) UserIDClaim :: string where
  "UserIDClaim \<equiv> ''sub''"

text \<open>\<open>v.(string)\<close>, and the optional form under \<open>if ok\<close>.\<close>

definition assert_string :: "claim_value option \<Rightarrow> string outcome" where
  "assert_string v = (case v of Some (ClaimString s) \<Rightarrow> Ret s | _ \<Rightarrow> Panic (ExplicitPanic ''interface conversion''))"

definition optional_claim :: "MapClaims \<Rightarrow> string \<Rightarrow> string outcome" where
  "optional_claim claims name =
     (case lookup claims name of None \<Rightarrow> Ret [] | Some v \<Rightarrow> assert_string (Some v))"

definition ExtractClaimsWithToken :: "JwtToken \<Rightarrow> string \<Rightarrow> AuthorizationClaims outcome" where
  "ExtractClaimsWithToken token authAudience =
     (let claims = Token_Claims token
      in case assert_string (lookup claims UserIDClaim) of
           Err e \<Rightarrow> Err e
         | Panic p \<Rightarrow> Panic p
         | Ret userId \<Rightarrow>
             (case optional_claim claims (authAudience @ AccountIDSuffix) of
                Err e \<Rightarrow> Err e
              | Panic p \<Rightarrow> Panic p
              | Ret accountId \<Rightarrow>
                  (case optional_claim claims (authAudience @ DomainIDSuffix) of
                     Err e \<Rightarrow> Err e
                   | Panic p \<Rightarrow> Panic p
                   | Ret domain \<Rightarrow>
                       (case optional_claim claims (authAudience @ DomainCategorySuffix) of
                          Err e \<Rightarrow> Err e
                        | Panic p \<Rightarrow> Panic p
                        | Ret category \<Rightarrow>
                            Ret \<lparr>Claims_UserId = userId, Claims_AccountId = accountId,
                                 Claims_Domain = domain, Claims_DomainCategory = category\<rparr>))))"

text \<open>The token the JWT middleware put into the context of the request; nil if it put none.\<close>

definition ExtractClaimsFromRequestContext :: "JwtToken option \<Rightarrow> string \<Rightarrow> AuthorizationClaims outcome" where
  "ExtractClaimsFromRequestContext user authAudience =
     (case user of
        None \<Rightarrow> Panic (ExplicitPanic ''interface conversion'')
      | Some token \<Rightarrow> ExtractClaimsWithToken token authAudience)"

section \<open>Keys\<close>

record JSONWebKeys =
  Jwk_Kid :: string
  Jwk_X5c :: "string list"

text \<open>The loop over the keys: the last key with the \<open>kid\<close> of the token wins.\<close>

fun pem_loop :: "claim_value option \<Rightarrow> JSONWebKeys list \<Rightarrow> string \<Rightarrow> string outcome" where
  "pem_loop kid [] cert = Ret cert"
| "pem_loop kid (k # ks) cert =
     (if kid = Some (ClaimString (Jwk_Kid k)) then
        (case Jwk_X5c k of
           [] \<Rightarrow> Panic IndexOutOfRange
         | c # _ \<Rightarrow> pem_loop kid ks
             (''-----BEGIN CERTIFICATE-----'' @ [CHR 10] @ c @ [CHR 10] @ ''-----END CERTIFICATE-----''))
      else pem_loop kid ks cert)"

definition getPemCert :: "JwtToken \<Rightarrow> JSONWebKeys list \<Rightarrow> string outcome" where
  "getPemCert token jwks =
     (case pem_loop (Token_kid token) jwks [] of
        Err e \<Rightarrow> Err e
      | Panic p \<Rightarrow> Panic p
      | Ret cert \<Rightarrow> if cert = [] then Err (PlainError ''unable to find appropriate key'') else Ret cert)"

text \<open>The \<open>ValidationKeyGetter\<close> of \<open>NewJwtMiddleware\<close>: an unknown key identifier panics.\<close>

definition validation_key ::
  "JwtLib \<Rightarrow> string \<Rightarrow> string \<Rightarrow> JSONWebKeys list \<Rightarrow> JwtToken \<Rightarrow> string outcome" where
  "validation_key lib issuer audience jwks token =
     (if \<not> jwt_verify_audience lib (Token_Claims token) audience then Err (PlainError ''invalid audience'')
      else if \<not> jwt_verify_issuer lib (Token_Claims token) issuer then Err (PlainError ''invalid issuer'')
      else (case getPemCert token jwks of
              Err e \<Rightarrow> Panic (ExplicitPanic (err_string e))
            | Panic p \<Rightarrow> Panic p
            | Ret cert \<Rightarrow> Ret cert))"

section \<open>The middleware\<close>

record JWTMiddleware =
  Jwt_issuer :: string
  Jwt_audience :: string
  Jwt_keys :: "JSONWebKeys list"
  Jwt_CredentialsOptional :: bool
  Jwt_EnableAuthOnOptions :: bool

definition NewJwtMiddleware :: "string \<Rightarrow> string \<Rightarrow> JSONWebKeys list outcome \<Rightarrow> JWTMiddleware outcome" where
  "NewJwtMiddleware issuer audience fetched =
     (case fetched of
        Err e \<Rightarrow> Err e
      | Panic p \<Rightarrow> Panic p
      | Ret jwks \<Rightarrow> Ret \<lparr>Jwt_issuer = issuer, Jwt_audience = audience, Jwt_keys = jwks,
                        Jwt_CredentialsOptional = False, Jwt_EnableAuthOnOptions = False\<rparr>)"

text \<open>\<open>jwt.Parse\<close>: decode, ask for the key, check signature and validity in time.\<close>

definition jwt_Parse :: "JwtLib \<Rightarrow> string \<Rightarrow> (JwtToken \<Rightarrow> string outcome) \<Rightarrow> JwtToken outcome" where
  "jwt_Parse lib token keyFunc =
     (case jwt_unverified lib token of
        None \<Rightarrow> Err (PlainError ''token is malformed'')
      | Some t \<Rightarrow>
          (case keyFunc t of
             Err e \<Rightarrow> Err e
           | Panic p \<Rightarrow> Panic p
           | Ret cert \<Rightarrow>
               if jwt_signature_ok lib token cert then Ret t else Err (PlainError ''signature is invalid'')))"

definition ValidateAndParse :: "JwtLib \<Rightarrow> JWTMiddleware \<Rightarrow> string \<Rightarrow> JwtToken option outcome" where
  "ValidateAndParse lib m token =
     (if token = [] then
        if Jwt_CredentialsOptional m then Ret None
        else Err (PlainError ''required authorization token not found'')
      else (case jwt_Parse lib token (validation_key lib (Jwt_issuer m) (Jwt_audience m) (Jwt_keys m)) of
              Err e \<Rightarrow> Err (PlainError (''Error parsing token: '' @ err_string e))
            | Panic p \<Rightarrow> Panic p
            | Ret parsedToken \<Rightarrow>
                if ''RS256'' \<noteq> Token_alg parsedToken then
                  Err (PlainError (''error validating token algorithm: Expected RS256 signing method but token specified '' @
                                   Token_alg parsedToken))
                else Ret (Some parsedToken)))"

text \<open>\<open>FromAuthHeader\<close>: \<open>strings.Fields\<close> splits at white space and drops empty pieces.\<close>

definition is_space :: "char \<Rightarrow> bool" where
  "is_space c \<longleftrightarrow> c \<in> {CHR '' '', CHR 9, CHR 10, CHR 11, CHR 12, CHR 13}"

definition fields :: "string \<Rightarrow> string list" where
  "fields s = filter (\<lambda>w. w \<noteq> []) (split_on (CHR '' '') (map (\<lambda>c. if is_space c then CHR '' '' else c) s))"

definition FromAuthHeader :: "string \<Rightarrow> string outcome" where
  "FromAuthHeader authHeader =
     (if authHeader = [] then Ret []
      else (case fields authHeader of
              [scheme, token] \<Rightarrow>
                if ToLower scheme \<noteq> ''bearer'' then
                  Err (PlainError ''Authorization header format must be Bearer {token}'')
                else Ret token
            | _ \<Rightarrow> Err (PlainError ''Authorization header format must be Bearer {token}'')))"

end
