(* ===== verification/Turn_Credentials.thy ===== *)
theory Turn_Credentials
  imports Update_Channel
begin

text \<open>
  \<open>management/server/turncredentials.go\<close>: time-based TURN credentials and the goroutine that
  refreshes them. The HMAC (with base64) is the argument \<open>hmac\<close>; \<open>now\<close> is \<open>time.Now()\<close> in
  nanoseconds. A goroutine has a number; the manager maps a peer to the number
  of its running goroutine, and a closed cancel channel is a cancelled number.
\<close>

definition second :: int where
  "second = 1000000000"

record SecretsManager =
  tm_config :: TURNConfig
  cancelMap :: "string \<rightharpoonup> nat"
  cancelled :: "nat set"
  started :: nat

definition NewTimeBasedAuthSecretsManager :: "TURNConfig \<Rightarrow> SecretsManager" where
  "NewTimeBasedAuthSecretsManager config =
     \<lparr>tm_config = config, cancelMap = Map.empty, cancelled = {}, started = 0\<rparr>"

definition GenerateCredentials ::
  "(string \<Rightarrow> string \<Rightarrow> string) \<Rightarrow> SecretsManager \<Rightarrow> int \<Rightarrow> TURNCredentials" where
  "GenerateCredentials hmac m now =
     (let timeAuth = (now + TURN_CredentialsTTL (tm_config m)) div second;
          username = int_string timeAuth
      in \<lparr>TURNCred_Username = username, TURNCred_Password = hmac (TURN_Secret (tm_config m)) username\<rparr>)"

definition cancel :: "SecretsManager \<Rightarrow> string \<Rightarrow> SecretsManager" where
  "cancel m peerKey =
     (case cancelMap m peerKey of
        None \<Rightarrow> m
      | Some c \<Rightarrow> m\<lparr>cancelled := insert c (cancelled m), cancelMap := (cancelMap m)(peerKey := None)\<rparr>)"

definition CancelRefresh :: "SecretsManager \<Rightarrow> string \<Rightarrow> SecretsManager" where
  "CancelRefresh m peerKey = cancel m peerKey"

definition SetupRefresh :: "SecretsManager \<Rightarrow> string \<Rightarrow> SecretsManager" where
  "SetupRefresh m peerKey =
     (let m1 = cancel m peerKey
      in m1\<lparr>cancelMap := (cancelMap m1)(peerKey \<mapsto> started m1), started := started m1 + 1\<rparr>)"

text \<open>
  One round of the goroutine \<open>c\<close> of a peer: it ends if its channel is closed, else it
  sleeps for three quarters of the lifetime and sends new credentials (even if it was
  cancelled while it slept).
\<close>

definition refresh_sleep :: "SecretsManager \<Rightarrow> int" where
  "refresh_sleep m = TURN_CredentialsTTL (tm_config m) div 4 * 3"

definition refresh_update ::
  "(string \<Rightarrow> string \<Rightarrow> string) \<Rightarrow> SecretsManager \<Rightarrow> int \<Rightarrow> UpdateMessage outcome" where
  "refresh_update hmac m now =
     (let c = GenerateCredentials hmac m now
      in case map_outcome (\<lambda>host. to_turn (Some c) host) (TURN_Turns (tm_config m)) of
           Err e \<Rightarrow> Err e
         | Panic p \<Rightarrow> Panic p
         | Ret turns \<Rightarrow>
             Ret \<lparr>Update = \<lparr>Sync_WiretrusteeConfig = Some \<lparr>Wt_Stuns = [], Wt_Turns = turns, Wt_Signal = None\<rparr>,
                  Sync_PeerConfig = None, Sync_RemotePeers = [], Sync_RemotePeersIsEmpty = False,
                  Sync_NetworkMap = None\<rparr>\<rparr>)"

datatype 'a round = Ended | Sent 'a | Crashed panic

text \<open>The round starts at \<open>now\<close>; \<open>None\<close> stands for a send that blocks.\<close>

definition refresh_round ::
  "(string \<Rightarrow> string \<Rightarrow> string) \<Rightarrow> SecretsManager \<Rightarrow> PeersUpdateManager \<Rightarrow> string \<Rightarrow> nat \<Rightarrow> int \<Rightarrow>
     PeersUpdateManager round option" where
  "refresh_round hmac m p peerKey c now =
     (if c \<in> cancelled m then Some Ended
      else (case refresh_update hmac m (now + refresh_sleep m) of
              Err e \<Rightarrow> Some Ended
            | Panic q \<Rightarrow> Some (Crashed q)
            | Ret update \<Rightarrow>
                (case SendUpdate p peerKey update of
                   None \<Rightarrow> None
                 | Some (p1, Panic q) \<Rightarrow> Some (Crashed q)
                 | Some (p1, _) \<Rightarrow> Some (Sent p1))))"

section \<open>At most one live refresh per peer\<close>

definition turn_ok :: "SecretsManager \<Rightarrow> bool" where
  "turn_ok m \<longleftrightarrow>
     (\<forall>k c. cancelMap m k = Some c \<longrightarrow> c < started m) \<and>
     (\<forall>k l c. cancelMap m k = Some c \<longrightarrow> cancelMap m l = Some c \<longrightarrow> k = l) \<and>
     (\<forall>c. c \<in> cancelled m \<longleftrightarrow> c < started m \<and> (\<forall>k. cancelMap m k \<noteq> Some c))"

lemma turn_ok_new: "turn_ok (NewTimeBasedAuthSecretsManager config)"
  by (simp add: turn_ok_def NewTimeBasedAuthSecretsManager_def)

lemma cancel_fields:
  "cancelMap (cancel m k) = (cancelMap m)(k := None)" "started (cancel m k) = started m"
  "cancelled (cancel m k) = cancelled m \<union> {c. cancelMap m k = Some c}" "tm_config (cancel m k) = tm_config m"
  by (auto simp: cancel_def split: option.splits)

lemma setup_fields:
  "cancelMap (SetupRefresh m k) = (cancelMap m)(k \<mapsto> started m)" "started (SetupRefresh m k) = started m + 1"
  "cancelled (SetupRefresh m k) = cancelled m \<union> {c. cancelMap m k = Some c}"
  by (simp_all add: SetupRefresh_def Let_def cancel_fields)

lemma turn_ok_cancel: "turn_ok m \<Longrightarrow> turn_ok (cancel m k)"
proof -
  assume m: "turn_ok m"
  have "c \<in> cancelled (cancel m k) \<longleftrightarrow> c < started m \<and> (\<forall>l. cancelMap (cancel m k) l \<noteq> Some c)" for c
  proof (cases "cancelMap m k = Some c")
    case True
    then have "cancelMap m l = Some c \<Longrightarrow> l = k" for l using m by (auto simp: turn_ok_def)
    then show ?thesis using True m by (auto simp: cancel_fields turn_ok_def)
  next
    case False
    then show ?thesis using m by (auto simp: cancel_fields turn_ok_def)
  qed
  then show ?thesis using m by (auto simp: turn_ok_def cancel_fields split: if_splits)
qed

lemma turn_ok_setup:
  assumes m: "turn_ok m"
  shows "turn_ok (SetupRefresh m k)"
proof -
  have new: "cancelMap m l \<noteq> Some (started m)" for l using m by (auto simp: turn_ok_def)
  have "c \<in> cancelled (SetupRefresh m k) \<longleftrightarrow>
      c < started m + 1 \<and> (\<forall>l. cancelMap (SetupRefresh m k) l \<noteq> Some c)" for c
  proof (cases "cancelMap m k = Some c")
    case True
    then have "c < started m" "\<forall>l. l \<noteq> k \<longrightarrow> cancelMap m l \<noteq> Some c" using m unfolding turn_ok_def by blast+
    then show ?thesis using True by (simp add: setup_fields)
  next
    case False
    then show ?thesis using m new by (auto simp: setup_fields turn_ok_def less_Suc_eq)
  qed
  then show ?thesis using m new by (auto simp: turn_ok_def setup_fields less_Suc_eq split: if_splits)
qed

inductive turn_run :: "TURNConfig \<Rightarrow> SecretsManager \<Rightarrow> bool" for config where
  Start: "turn_run config (NewTimeBasedAuthSecretsManager config)"
| Refresh: "turn_run config m \<Longrightarrow> turn_run config (SetupRefresh m k)"
| Stop: "turn_run config m \<Longrightarrow> turn_run config (CancelRefresh m k)"

lemma turn_run_ok: "turn_run config m \<Longrightarrow> turn_ok m"
  by (induction rule: turn_run.induct) (auto simp: CancelRefresh_def turn_ok_new turn_ok_setup turn_ok_cancel)

text \<open>
  Whatever refreshes are set up and cancelled, every goroutine that was started is
  either cancelled or the one registered for exactly one peer; so a peer has at most one
  live refresh, and after a cancellation none.
\<close>

theorem one_refresh_per_peer:
  assumes "turn_run config m"
  shows "(\<forall>c < started m. c \<notin> cancelled m \<longrightarrow> (\<exists>!k. cancelMap m k = Some c)) \<and>
    cancelMap (CancelRefresh m k) k = None \<and>
    (\<forall>c. cancelMap m k = Some c \<longrightarrow> refresh_round hmac (CancelRefresh m k) p k c now = Some Ended)"
  using turn_run_ok [OF assms] unfolding turn_ok_def
  by (auto simp: CancelRefresh_def cancel_fields refresh_round_def)

definition ex_turn :: TURNConfig where
  "ex_turn = \<lparr>TURN_TimeBasedCredentials = True, TURN_CredentialsTTL = 3600 * second, TURN_Secret = ''s'', TURN_Turns = []\<rparr>"

theorem one_refresh_per_peer_witness:
  "\<exists>m. turn_run ex_turn m \<and> cancelMap m ''k'' = Some 0 \<and> cancelMap (CancelRefresh m ''k'') ''k'' = None"
proof -
  let ?m = "SetupRefresh (NewTimeBasedAuthSecretsManager ex_turn) ''k''"
  have r: "turn_run ex_turn ?m" by (rule turn_run.Refresh [OF turn_run.Start])
  have "cancelMap ?m ''k'' = Some 0" by (simp add: setup_fields NewTimeBasedAuthSecretsManager_def)
  with r one_refresh_per_peer [OF r, of "''k''" "\<lambda>_ _. []" NewPeersUpdateManager 0] show ?thesis by blast
qed

text \<open>
  Credentials are renewed before they expire: a round that starts no later than the
  credentials were made sends the next ones, which expire a whole lifetime after they
  were made, while the old ones are still valid for a quarter of the lifetime.
\<close>

theorem refreshed_in_time:
  assumes "0 \<le> TURN_CredentialsTTL (tm_config m)" "t \<le> made"
  shows "t + refresh_sleep m \<le> made + TURN_CredentialsTTL (tm_config m) \<and>
    4 * (made + TURN_CredentialsTTL (tm_config m) - (t + refresh_sleep m)) \<ge> TURN_CredentialsTTL (tm_config m) \<and>
    TURNCred_Username (GenerateCredentials hmac m made) =
      int_string ((made + TURN_CredentialsTTL (tm_config m)) div second)"
  using assms by (auto simp: refresh_sleep_def GenerateCredentials_def Let_def)

theorem refreshed_in_time_witness:
  "refresh_sleep (NewTimeBasedAuthSecretsManager ex_turn) \<le> 3600 * second"
  using refreshed_in_time [of "NewTimeBasedAuthSecretsManager ex_turn" 0 0 "\<lambda>_ _. []"]
  by (simp add: NewTimeBasedAuthSecretsManager_def ex_turn_def second_def)

end
