(* ===== verification/Mgmt_Grpc.thy ===== *)
theory Mgmt_Grpc
  imports Peer_Manager Jwt Turn_Credentials Encryption
begin

text \<open>
  \<open>management/server/grpcserver.go\<close>: the gRPC endpoints of the Management Service. The
  state of the service is the store, the update channels and the TURN refreshes; what lies
  outside (keys and boxes, the protobuf codec, the JWT library, the HMAC, the streams) is in
  the record \<open>Env\<close>. A call that never returns (a blocked send) is \<open>None\<close>.
\<close>

record EncryptedMessage =
  Enc_WgPubKey :: string
  Enc_Body :: bytes

record DeviceAuthorizationFlowMsg =
  FlowMsg_Provider :: nat
  FlowMsg_ProviderConfig :: ProviderConfig

record ServerKeyResponse =
  Key_Key :: string
  Key_Seconds :: int
  Key_Nanos :: int

record Env =
  env_box :: Box
  env_nonce :: "bytes outcome"
  unmarshal_login :: "bytes \<Rightarrow> LoginRequest outcome"
  unmarshal_empty :: "bytes \<Rightarrow> unit outcome"
  marshal_login :: "LoginResponse \<Rightarrow> bytes outcome"
  marshal_sync :: "SyncResponse \<Rightarrow> bytes outcome"
  marshal_flow :: "DeviceAuthorizationFlowMsg \<Rightarrow> bytes outcome"
  env_jwt :: JwtLib
  env_idp :: "IdpManager option"
  env_hmac :: "string \<Rightarrow> string \<Rightarrow> string"

record Mgmt_Server =
  srv_wgKey :: string
  srv_config :: Config
  srv_jwt :: "JWTMiddleware option"

record Mgmt_State =
  st_store :: FileStore
  st_updates :: PeersUpdateManager
  st_turn :: SecretsManager

section \<open>Server\<close>

text \<open>\<open>validateURL\<close> (\<open>config.go\<close>, \<open>url.ParseRequestURI\<close>) is an argument.\<close>

definition NewServer ::
  "(string \<Rightarrow> bool) \<Rightarrow> (string \<Rightarrow> JSONWebKeys list outcome) \<Rightarrow> string outcome \<Rightarrow> Config \<Rightarrow> Mgmt_Server outcome" where
  "NewServer validateURL fetch generated config =
     (case generated of
        Err e \<Rightarrow> Err e
      | Panic p \<Rightarrow> Panic p
      | Ret key \<Rightarrow>
          (case Config_HttpConfig config of
             Some h \<Rightarrow>
               if Http_AuthIssuer h \<noteq> [] \<and> Http_AuthAudience h \<noteq> [] \<and> validateURL (Http_AuthKeysLocation h) then
                 (case NewJwtMiddleware (Http_AuthIssuer h) (Http_AuthAudience h) (fetch (Http_AuthKeysLocation h)) of
                    Err e \<Rightarrow> Err (StatusError Internal (''unable to create new jwt middleware, err: '' @ err_string e))
                  | Panic p \<Rightarrow> Panic p
                  | Ret m \<Rightarrow> Ret \<lparr>srv_wgKey = key, srv_config = config, srv_jwt = Some m\<rparr>)
               else Ret \<lparr>srv_wgKey = key, srv_config = config, srv_jwt = None\<rparr>
           | None \<Rightarrow> Ret \<lparr>srv_wgKey = key, srv_config = config, srv_jwt = None\<rparr>))"

text \<open>
  \<open>GetServerKey\<close> fills the expiry with the second of the minute and the nanosecond of the
  second of the time a day ahead, not with the Unix time.
\<close>

definition GetServerKey :: "Env \<Rightarrow> Mgmt_Server \<Rightarrow> int \<Rightarrow> ServerKeyResponse" where
  "GetServerKey env srv now0 =
     (let now = now0 + 24 * hour
      in \<lparr>Key_Key = public_key (env_box env) (srv_wgKey srv),
          Key_Seconds = now div second mod 60, Key_Nanos = now mod second\<rparr>)"

definition IsHealthy :: "unit \<Rightarrow> unit outcome" where
  "IsHealthy req = Ret ()"

text \<open>Encrypting a response and putting it into the envelope.\<close>

definition seal ::
  "Env \<Rightarrow> Mgmt_Server \<Rightarrow> ('m \<Rightarrow> bytes outcome) \<Rightarrow> string \<Rightarrow> string \<Rightarrow> 'm \<Rightarrow> EncryptedMessage outcome" where
  "seal env srv marshal failure peerKey message =
     (case EncryptMessage (env_box env) (env_nonce env) marshal peerKey (srv_wgKey srv) message of
        Err e \<Rightarrow> Err (StatusError Internal failure)
      | Panic p \<Rightarrow> Panic p
      | Ret body \<Rightarrow> Ret \<lparr>Enc_WgPubKey = public_key (env_box env) (srv_wgKey srv), Enc_Body = body\<rparr>)"

section \<open>Registration and login\<close>

text \<open>The first part of \<open>registerPeer\<close>: which credential registers the peer.\<close>

definition register_credential ::
  "Env \<Rightarrow> Mgmt_Server \<Rightarrow> FileStore \<Rightarrow> Fresh \<Rightarrow> LoginRequest \<Rightarrow> FileStore \<times> (string \<times> string) outcome" where
  "register_credential env srv s fr req =
     (if Login_JwtToken req \<noteq> [] then
        (case srv_jwt srv of
           None \<Rightarrow> (s, Err (StatusError Internal ''no jwt middleware set''))
         | Some m \<Rightarrow>
             (case ValidateAndParse (env_jwt env) m (Login_JwtToken req) of
                Err e \<Rightarrow> (s, Err (StatusError Internal (''invalid jwt token, err: '' @ err_string e)))
              | Panic p \<Rightarrow> (s, Panic p)
              | Ret None \<Rightarrow> (s, Panic NilDereference)
              | Ret (Some token) \<Rightarrow>
                  (case Config_HttpConfig (srv_config srv) of
                     None \<Rightarrow> (s, Panic NilDereference)
                   | Some h \<Rightarrow>
                       (case ExtractClaimsWithToken token (Http_AuthAudience h) of
                          Err e \<Rightarrow> (s, Err e)
                        | Panic p \<Rightarrow> (s, Panic p)
                        | Ret claims \<Rightarrow>
                            (case GetAccountWithAuthorizationClaims s (env_idp env) fr claims of
                               (s1, Err e) \<Rightarrow> (s1, Err (StatusError Internal
                                 (''unable to fetch account with claims, err: '' @ err_string e)))
                             | (s1, Panic p) \<Rightarrow> (s1, Panic p)
                             | (s1, Ret account) \<Rightarrow> (s1, Ret ([], Claims_UserId claims)))))))
      else (s, Ret (Login_SetupKey req, [])))"

text \<open>The loop that tells the peers in the network map about the new peer.\<close>

fun announce ::
  "Config \<Rightarrow> Peer \<Rightarrow> Peer list \<Rightarrow> 64 word \<Rightarrow> Peer list \<Rightarrow> PeersUpdateManager \<Rightarrow>
     (PeersUpdateManager \<times> unit outcome) option" where
  "announce config peer peers serial [] m = Some (m, Ret ())"
| "announce config peer peers serial (remotePeer # rest) m =
     (let peersToSend = peer # filter (\<lambda>p. Peer_Key remotePeer \<noteq> Peer_Key p) peers
      in case toSyncResponse config peer peersToSend None serial of
           Err e \<Rightarrow> Some (m, Err e)
         | Panic q \<Rightarrow> Some (m, Panic q)
         | Ret update \<Rightarrow>
             (case SendUpdate m (Peer_Key remotePeer) \<lparr>Update = update\<rparr> of
                None \<Rightarrow> None
              | Some (m1, Err e) \<Rightarrow> Some (m1, Err (StatusError Internal
                  (''unable to send update after registering peer, error: '' @ err_string e)))
              | Some (m1, Panic q) \<Rightarrow> Some (m1, Panic q)
              | Some (m1, Ret u) \<Rightarrow> announce config peer peers serial rest m1))"

definition request_peer :: "string \<Rightarrow> PeerSystemMeta \<Rightarrow> Peer" where
  "request_peer peerKey meta =
     \<lparr>Peer_Key = peerKey, Peer_SetupKey = [], Peer_IP = [], Peer_Meta = meta, Peer_Name = Meta_Hostname meta,
      Peer_Status = None, Peer_UserID = []\<rparr>"

definition registerPeer ::
  "Env \<Rightarrow> Mgmt_Server \<Rightarrow> Mgmt_State \<Rightarrow> Fresh \<Rightarrow> string \<Rightarrow> LoginRequest \<Rightarrow> (Mgmt_State \<times> Peer outcome) option" where
  "registerPeer env srv st fr peerKey req =
     (case register_credential env srv (st_store st) fr req of
        (s1, Err e) \<Rightarrow> Some (st\<lparr>st_store := s1\<rparr>, Err e)
      | (s1, Panic p) \<Rightarrow> Some (st\<lparr>st_store := s1\<rparr>, Panic p)
      | (s1, Ret (reqSetupKey, userId)) \<Rightarrow>
          (case Login_Meta req of
             None \<Rightarrow> Some (st\<lparr>st_store := s1\<rparr>, Err (StatusError InvalidArgument ''peer meta data was not provided''))
           | Some meta \<Rightarrow>
               (case AddPeer s1 fr reqSetupKey userId (request_peer peerKey meta) of
                  None \<Rightarrow> None
                | Some (s2, Panic p) \<Rightarrow> Some (st\<lparr>st_store := s2\<rparr>, Panic p)
                | Some (s2, Err e) \<Rightarrow> Some (st\<lparr>st_store := s2\<rparr>,
                    if from_status e \<and> (err_code e = FailedPrecondition \<or> err_code e = OutOfRange) then Err e
                    else Err (StatusError NotFound ''provided setup key doesn't exists''))
                | Some (s2, Ret peer) \<Rightarrow>
                    (case GetNetworkMap s2 (Peer_Key peer) of
                       Err e \<Rightarrow> Some (st\<lparr>st_store := s2\<rparr>, Err (StatusError Internal
                         (''unable to fetch network map after registering peer, error: '' @ err_string e)))
                     | Panic p \<Rightarrow> Some (st\<lparr>st_store := s2\<rparr>, Panic p)
                     | Ret networkMap \<Rightarrow>
                         (case announce (srv_config srv) peer (NetworkMap_Peers networkMap)
                                 (CurrentSerial (NetworkMap_Network networkMap)) (NetworkMap_Peers networkMap)
                                 (st_updates st) of
                            None \<Rightarrow> None
                          | Some (m1, Err e) \<Rightarrow> Some (st\<lparr>st_store := s2, st_updates := m1\<rparr>, Err e)
                          | Some (m1, Panic p) \<Rightarrow> Some (st\<lparr>st_store := s2, st_updates := m1\<rparr>, Panic p)
                          | Some (m1, Ret u) \<Rightarrow> Some (st\<lparr>st_store := s2, st_updates := m1\<rparr>, Ret peer))))))"

text \<open>The peer that logs in: known and updated, or registered with the credential of the request.\<close>

definition login_peer ::
  "Env \<Rightarrow> Mgmt_Server \<Rightarrow> Mgmt_State \<Rightarrow> Fresh \<Rightarrow> string \<Rightarrow> LoginRequest \<Rightarrow> (Mgmt_State \<times> Peer outcome) option" where
  "login_peer env srv st fr peerKey loginReq =
     (case GetPeer (st_store st) peerKey of
        Panic p \<Rightarrow> Some (st, Panic p)
      | Err e \<Rightarrow>
          if from_status e \<and> err_code e = NotFound then
            if Login_JwtToken loginReq = [] \<and> Login_SetupKey loginReq = [] then
              Some (st, Err (StatusError PermissionDenied (''provided peer with the key wgPubKey '' @ peerKey @
                '' is not registered and no setup key or jwt was provided'')))
            else registerPeer env srv st fr peerKey loginReq
          else Some (st, Err (StatusError Internal ''internal server error''))
      | Ret peer \<Rightarrow>
          (case Login_Meta loginReq of
             None \<Rightarrow> Some (st, Ret peer)
           | Some meta \<Rightarrow>
               (case UpdatePeerMeta (st_store st) peerKey meta of
                  (s1, Err e) \<Rightarrow> Some (st\<lparr>st_store := s1\<rparr>, Err (StatusError Internal ''internal server error''))
                | (s1, Panic p) \<Rightarrow> Some (st\<lparr>st_store := s1\<rparr>, Panic p)
                | (s1, Ret u) \<Rightarrow> Some (st\<lparr>st_store := s1\<rparr>, Ret peer))))"

definition login_response :: "Env \<Rightarrow> Mgmt_Server \<Rightarrow> string \<Rightarrow> Peer \<Rightarrow> EncryptedMessage outcome" where
  "login_response env srv peerKey peer =
     (case toWiretrusteeConfig (srv_config srv) None of
        Err e \<Rightarrow> Err e
      | Panic p \<Rightarrow> Panic p
      | Ret wt \<Rightarrow> seal env srv (marshal_login env) ''failed logging in peer'' peerKey
          \<lparr>LoginResp_WiretrusteeConfig = wt, LoginResp_PeerConfig = toPeerConfig peer\<rparr>)"

definition Login ::
  "Env \<Rightarrow> Mgmt_Server \<Rightarrow> Mgmt_State \<Rightarrow> Fresh \<Rightarrow> EncryptedMessage \<Rightarrow> (Mgmt_State \<times> EncryptedMessage outcome) option" where
  "Login env srv st fr req =
     (case parse_key (env_box env) (Enc_WgPubKey req) of
        Err e \<Rightarrow> Some (st, Err (StatusError InvalidArgument (''provided wgPubKey '' @ Enc_WgPubKey req @ '' is invalid'')))
      | Panic p \<Rightarrow> Some (st, Panic p)
      | Ret peerKey \<Rightarrow>
          (case DecryptMessage (env_box env) (env_nonce env) (unmarshal_login env) peerKey (srv_wgKey srv) (Enc_Body req) of
             Err e \<Rightarrow> Some (st, Err (StatusError InvalidArgument ''invalid request message''))
           | Panic p \<Rightarrow> Some (st, Panic p)
           | Ret loginReq \<Rightarrow>
               (case login_peer env srv st fr peerKey loginReq of
                  None \<Rightarrow> None
                | Some (st1, Err e) \<Rightarrow> Some (st1, Err e)
                | Some (st1, Panic p) \<Rightarrow> Some (st1, Panic p)
                | Some (st1, Ret peer) \<Rightarrow> Some (st1, login_response env srv peerKey peer))))"

section \<open>Device authorization flow\<close>

text \<open>The enumeration of providers has one name, \<open>HOSTED = 0\<close>.\<close>

definition DeviceAuthorizationFlowProvider_value :: "string \<Rightarrow> nat option" where
  "DeviceAuthorizationFlowProvider_value name = (if name = ''HOSTED'' then Some 0 else None)"

definition GetDeviceAuthorizationFlow ::
  "Env \<Rightarrow> Mgmt_Server \<Rightarrow> EncryptedMessage \<Rightarrow> EncryptedMessage outcome" where
  "GetDeviceAuthorizationFlow env srv req =
     (case parse_key (env_box env) (Enc_WgPubKey req) of
        Err e \<Rightarrow> Err (StatusError InvalidArgument (''error while parsing peer's Wireguard public key '' @
          Enc_WgPubKey req @ '' on GetDeviceAuthorizationFlow request.''))
      | Panic p \<Rightarrow> Panic p
      | Ret peerKey \<Rightarrow>
          (case DecryptMessage (env_box env) (env_nonce env) (unmarshal_empty env) peerKey (srv_wgKey srv) (Enc_Body req) of
             Err e \<Rightarrow> Err (StatusError InvalidArgument
               (''error while decrypting peer's message with Wireguard public key '' @ Enc_WgPubKey req @ ''.''))
           | Panic p \<Rightarrow> Panic p
           | Ret u \<Rightarrow>
               (case Config_DeviceAuthorizationFlow (srv_config srv) of
                  None \<Rightarrow> Err (StatusError NotFound ''no device authorization flow information available'')
                | Some flow \<Rightarrow>
                    (case DeviceAuthorizationFlowProvider_value (ToUpper (Flow_Provider flow)) of
                       None \<Rightarrow> Err (StatusError InvalidArgument
                         (''no provider found in the protocol for '' @ Flow_Provider flow))
                     | Some provider \<Rightarrow>
                         seal env srv (marshal_flow env)
                           ''failed to encrypt no device authorization flow information'' peerKey
                           \<lparr>FlowMsg_Provider = provider, FlowMsg_ProviderConfig = Flow_ProviderConfig flow\<rparr>))))"

section \<open>Synchronisation\<close>

text \<open>\<open>sent\<close> is the error that \<open>srv.Send\<close> returns, if any.\<close>

definition sendInitialSync ::
  "Env \<Rightarrow> Mgmt_Server \<Rightarrow> Mgmt_State \<Rightarrow> int \<Rightarrow> GoError option \<Rightarrow> string \<Rightarrow> Peer \<Rightarrow> EncryptedMessage outcome" where
  "sendInitialSync env srv st now sent peerKey peer =
     (case GetNetworkMap (st_store st) (Peer_Key peer) of
        Err e \<Rightarrow> Err e
      | Panic p \<Rightarrow> Panic p
      | Ret networkMap \<Rightarrow>
          (case Config_TURNConfig (srv_config srv) of
             None \<Rightarrow> Panic NilDereference
           | Some tc \<Rightarrow>
               (let turnCredentials = (if TURN_TimeBasedCredentials tc
                      then Some (GenerateCredentials (env_hmac env) (st_turn st) now) else None)
                in case toSyncResponse (srv_config srv) peer (NetworkMap_Peers networkMap) turnCredentials
                          (CurrentSerial (NetworkMap_Network networkMap)) of
                     Err e \<Rightarrow> Err e
                   | Panic p \<Rightarrow> Panic p
                   | Ret plainResp \<Rightarrow>
                       (case seal env srv (marshal_sync env) ''error handling request'' peerKey plainResp of
                          Err e \<Rightarrow> Err e
                        | Panic p \<Rightarrow> Panic p
                        | Ret m \<Rightarrow>
                            (case sent of
                               Some e \<Rightarrow> Err (StatusError Internal ''error handling request'')
                             | None \<Rightarrow> Ret m)))))"

text \<open>
  \<open>Sync\<close> up to its loop: the peer key, the number of the channel it reads from and the
  initial message. A failure to mark the peer as connected is only logged.
\<close>

definition Sync_open ::
  "Env \<Rightarrow> Mgmt_Server \<Rightarrow> Mgmt_State \<Rightarrow> int \<Rightarrow> GoError option \<Rightarrow> EncryptedMessage \<Rightarrow>
     Mgmt_State \<times> (string \<times> nat \<times> EncryptedMessage) outcome" where
  "Sync_open env srv st now sent req =
     (case parse_key (env_box env) (Enc_WgPubKey req) of
        Err e \<Rightarrow> (st, Err (StatusError InvalidArgument ''provided wgPubKey is invalid''))
      | Panic p \<Rightarrow> (st, Panic p)
      | Ret peerKey \<Rightarrow>
          (case GetPeer (st_store st) peerKey of
             Err e \<Rightarrow> (st, Err (StatusError PermissionDenied
               (''provided peer with the key wgPubKey '' @ peerKey @ '' is not registered'')))
           | Panic p \<Rightarrow> (st, Panic p)
           | Ret peer \<Rightarrow>
               (case DecryptMessage (env_box env) (env_nonce env) (unmarshal_empty env) peerKey (srv_wgKey srv) (Enc_Body req) of
                  Err e \<Rightarrow> (st, Err (StatusError InvalidArgument ''invalid request message''))
                | Panic p \<Rightarrow> (st, Panic p)
                | Ret u \<Rightarrow>
                    (case sendInitialSync env srv st now sent peerKey peer of
                       Err e \<Rightarrow> (st, Err e)
                     | Panic p \<Rightarrow> (st, Panic p)
                     | Ret m \<Rightarrow>
                         (let (updates, c) = CreateChannel (st_updates st) peerKey;
                              (s1, marked) = MarkPeerConnected (st_store st) now peerKey True;
                              st1 = st\<lparr>st_updates := updates, st_store := s1\<rparr>
                          in case marked of
                               Panic p \<Rightarrow> (st1, Panic p)
                             | _ \<Rightarrow>
                                 (case Config_TURNConfig (srv_config srv) of
                                    None \<Rightarrow> (st1, Panic NilDereference)
                                  | Some tc \<Rightarrow>
                                      (if TURN_TimeBasedCredentials tc
                                       then st1\<lparr>st_turn := SetupRefresh (st_turn st1) peerKey\<rparr> else st1,
                                       Ret (peerKey, c, m))))))))"

text \<open>
  One turn of the loop of the stream that reads channel \<open>c\<close> for \<open>peerKey\<close>. \<open>Sync_update\<close> is the
  branch of the updates (\<open>None\<close> if there is nothing to read), \<open>Sync_done\<close> the branch of a
  context that is done. The result is \<open>Inl\<close> to go on, with the message sent, or \<open>Inr\<close> to return.
\<close>

definition Sync_update ::
  "Env \<Rightarrow> Mgmt_Server \<Rightarrow> Mgmt_State \<Rightarrow> GoError option \<Rightarrow> string \<Rightarrow> nat \<Rightarrow>
     (Mgmt_State \<times> (EncryptedMessage + unit outcome)) option" where
  "Sync_update env srv st sent peerKey c =
     (case receive (st_updates st) c of
        None \<Rightarrow> None
      | Some (p, None) \<Rightarrow> Some (st\<lparr>st_updates := p\<rparr>, Inr (Ret ()))
      | Some (p, Some update) \<Rightarrow>
          (let st1 = st\<lparr>st_updates := p\<rparr>
           in case seal env srv (marshal_sync env) ''failed processing update message'' peerKey (Update update) of
                Err e \<Rightarrow> Some (st1, Inr (Err e))
              | Panic q \<Rightarrow> Some (st1, Inr (Panic q))
              | Ret m \<Rightarrow>
                  (case sent of
                     Some e \<Rightarrow> Some (st1, Inr (Err (StatusError Internal ''failed sending update message'')))
                   | None \<Rightarrow> Some (st1, Inl m))))"

definition Sync_done :: "Mgmt_State \<Rightarrow> int \<Rightarrow> GoError \<Rightarrow> string \<Rightarrow> Mgmt_State \<times> unit outcome" where
  "Sync_done st now ctxErr peerKey =
     (let (s1, marked) = MarkPeerConnected (st_store st) now peerKey False;
          st1 = st\<lparr>st_updates := CloseChannel (st_updates st) peerKey,
                   st_turn := CancelRefresh (st_turn st) peerKey, st_store := s1\<rparr>
      in case marked of
           Panic p \<Rightarrow> (st1, Panic p)
         | _ \<Rightarrow> (st1, Err ctxErr))"

end
