(* ===== verification/Mgmt_Invariant.thy ===== *)
theory Mgmt_Invariant
  imports Peer_Manager
begin

text \<open>
  What every operation of the account manager keeps of the accounts in the store,
  whatever its outcome: the maps of an account are keyed by the identifiers of
  their values, no two peers of an account share an address, the network of an
  account is a /16 block, and a one-off setup key has been used at most once.
  The last section puts the operations together as a step relation.
\<close>

section \<open>Good accounts\<close>

definition ip_unique :: "Account \<Rightarrow> bool" where
  "ip_unique a \<longleftrightarrow>
     (\<forall>k l p q. lookup (Account_Peers a) k = Some p \<longrightarrow> lookup (Account_Peers a) l = Some q \<longrightarrow>
        ip_string (Peer_IP p) = ip_string (Peer_IP q) \<longrightarrow> k = l)"

definition key_used_ok :: "SetupKey \<Rightarrow> bool" where
  "key_used_ok k \<longleftrightarrow> 0 \<le> SetupKey_UsedTimes k \<and> (SetupKey_Type k = SetupKeyOneOff \<longrightarrow> SetupKey_UsedTimes k \<le> 1)"

definition one_off_ok :: "Account \<Rightarrow> bool" where
  "one_off_ok a \<longleftrightarrow> (\<forall>k v. lookup (Account_SetupKeys a) k = Some v \<longrightarrow> key_used_ok v)"

definition slash16 :: "Account \<Rightarrow> bool" where
  "slash16 a \<longleftrightarrow> (\<exists>x y. Network_Net (Account_Network a) = net16 x y)"

definition good_account :: "Account \<Rightarrow> bool" where
  "good_account a \<longleftrightarrow> wf_account a \<and> ip_unique a \<and> one_off_ok a \<and> slash16 a"

definition all_accounts :: "(Account \<Rightarrow> bool) \<Rightarrow> FileStore \<Rightarrow> bool" where
  "all_accounts P s \<longleftrightarrow>
     Accounts s \<noteq> NilMap \<and> (\<forall>k a. GetAccount s k = Ret a \<longrightarrow> Account_Id a = k \<and> P a)"

lemmas good_defs = good_account_def wf_account_def ip_unique_def one_off_ok_def slash16_def

lemma all_accountsD: "all_accounts P s \<Longrightarrow> GetAccount s k = Ret a \<Longrightarrow> P a"
  by (simp add: all_accounts_def)

lemma all_accounts_id: "all_accounts P s \<Longrightarrow> GetAccount s k = Ret a \<Longrightarrow> Account_Id a = k"
  by (simp add: all_accounts_def)

lemma all_accounts_lookups:
  assumes "all_accounts P s"
  shows "GetUserAccount s n = Ret a \<Longrightarrow> P a" and "GetPeerAccount s n = Ret a \<Longrightarrow> P a"
    and "GetAccountBySetupKey s n = Ret a \<Longrightarrow> P a" and "GetAccountByPrivateDomain s n = Ret a \<Longrightarrow> P a"
  using assms all_accountsD
  by (auto simp: GetUserAccount_def GetPeerAccount_def GetAccountBySetupKey_def
      GetAccountByPrivateDomain_def split: option.splits)

section \<open>The writes to the store\<close>

lemma all_accounts_save:
  assumes "all_accounts P s" "P a"
  shows "all_accounts P (fst (SaveAccount s a))"
proof -
  obtain s' r where s': "SaveAccount s a = (s', r)" by fastforce
  with assms show ?thesis
    using GetAccount_save [OF s'] fs.live_saved [OF _ s'] by (auto simp: all_accounts_def split: if_splits)
qed

lemma GetAccount_persist: "GetAccount (fst (persist s)) k = GetAccount s k"
  using persist_frame(1) [of s "fst (persist s)" "snd (persist s)"] by (simp add: GetAccount_def)

lemma all_accounts_persist: "all_accounts P (fst (persist s)) \<longleftrightarrow> all_accounts P s"
  using persist_frame(1) [of s "fst (persist s)" "snd (persist s)"]
  by (simp add: all_accounts_def GetAccount_persist)

lemma set_account_nil [simp]: "Accounts (set_account s i a) = NilMap \<longleftrightarrow> Accounts s = NilMap"
  by (cases "Accounts s") (auto simp: set_account_def map_entry_def)

lemma GetAccount_set:
  "GetAccount (set_account s i a) k =
     (if k = i \<and> GetAccount s i \<noteq> Err (StatusError NotFound ''account not found'') then Ret a else GetAccount s k)"
  by (auto simp: GetAccount_def set_account_def split: option.splits)

lemma all_accounts_set:
  assumes "all_accounts P s" "P a" "Account_Id a = i"
  shows "all_accounts P (set_account s i a)"
  using assms by (auto simp: all_accounts_def GetAccount_set split: if_splits)

lemma all_accounts_index:
  "all_accounts P (s\<lparr>PeerKeyId2AccountId := f\<rparr>) \<longleftrightarrow> all_accounts P s"
  by (simp add: all_accounts_def GetAccount_def)

section \<open>Changes of an account that keep it good\<close>

lemma good_domain:
  "good_account a \<Longrightarrow> good_account (a\<lparr>Account_Domain := d\<rparr>)"
  "good_account a \<Longrightarrow> good_account (a\<lparr>Account_IsDomainPrimaryAccount := b, Account_Domain := d,
                                       Account_DomainCategory := c\<rparr>)"
  by (simp_all add: good_defs)

lemma good_serial: "good_account a \<Longrightarrow> good_account (a\<lparr>Account_Network := IncSerial (Account_Network a)\<rparr>)"
  by (simp add: good_defs IncSerial_def)

lemma good_users:
  assumes "good_account a" "assign (Account_Users a) k u = Some us" "User_Id u = k"
  shows "good_account (a\<lparr>Account_Users := us\<rparr>)"
  using assms keyed_assign [of User_Id] by (auto simp: good_defs)

lemma good_groups: "good_account a \<Longrightarrow> keyed Group_ID gs \<Longrightarrow> good_account (a\<lparr>Account_Groups := gs\<rparr>)"
  by (simp add: good_defs)

lemma good_rules: "good_account a \<Longrightarrow> keyed Rule_ID rs \<Longrightarrow> good_account (a\<lparr>Account_Rules := rs\<rparr>)"
  by (simp add: good_defs)

lemma good_keyed:
  assumes "good_account a"
  shows "keyed Group_ID (Account_Groups a)" "keyed Rule_ID (Account_Rules a)"
    "keyed Peer_Key (Account_Peers a)" "keyed SetupKey_Key (Account_SetupKeys a)"
  using assms by (simp_all add: good_defs)

lemma good_keys:
  assumes "good_account a" "assign (Account_SetupKeys a) k v = Some ks" "SetupKey_Key v = k" "key_used_ok v"
  shows "good_account (a\<lparr>Account_SetupKeys := ks\<rparr>)"
  using assms keyed_assign [of SetupKey_Key "Account_SetupKeys a" v ks] lookup_assign [OF assms(2)]
  by (auto simp: good_defs)

lemma good_peers:
  assumes "good_account a" "assign (Account_Peers a) (Peer_Key p) p = Some ps"
    and "\<And>k q. lookup (Account_Peers a) k = Some q \<Longrightarrow> k \<noteq> Peer_Key p \<Longrightarrow>
           ip_string (Peer_IP q) \<noteq> ip_string (Peer_IP p)"
  shows "good_account (a\<lparr>Account_Peers := ps\<rparr>)"
proof -
  have "ip_unique (a\<lparr>Account_Peers := ps\<rparr>)"
    using assms(1,3) lookup_assign [OF assms(2)] unfolding good_account_def ip_unique_def
    by (simp split: if_splits) metis
  moreover have "keyed Peer_Key ps"
    using assms(1,2) keyed_assign [of Peer_Key] by (auto simp: good_defs)
  ultimately show ?thesis using assms(1) by (auto simp: good_defs)
qed

lemma good_delete_peer:
  "good_account a \<Longrightarrow> good_account (a\<lparr>Account_Peers := map_delete (Account_Peers a) k\<rparr>)"
  by (auto simp: good_defs keyed_delete split: if_splits)

lemma good_peer_entry:
  assumes "good_account a" "\<And>p. Peer_Key (f p) = Peer_Key p" "\<And>p. Peer_IP (f p) = Peer_IP p"
  shows "good_account (a\<lparr>Account_Peers := map_entry (Account_Peers a) k f\<rparr>)"
proof -
  let ?a = "a\<lparr>Account_Peers := map_entry (Account_Peers a) k f\<rparr>"
  have peer: "\<exists>p. lookup (Account_Peers a) l = Some p \<and> Peer_IP q = Peer_IP p"
    if "lookup (Account_Peers ?a) l = Some q" for l q
    using assms(3) that by (auto split: if_splits)
  have "ip_unique ?a" unfolding ip_unique_def
  proof (intro allI impI)
    fix i j p q
    assume "lookup (Account_Peers ?a) i = Some p" "lookup (Account_Peers ?a) j = Some q"
      "ip_string (Peer_IP p) = ip_string (Peer_IP q)"
    then show "i = j" using peer [of i p] peer [of j q] assms(1)
      unfolding good_account_def ip_unique_def by metis
  qed
  then show ?thesis
    using assms(1,2) by (simp add: good_account_def wf_account_def keyed_entry one_off_ok_def slash16_def)
qed

lemma keyed_cleanup: "keyed Group_ID m \<Longrightarrow> keyed Group_ID (cleanup_map k m)"
proof -
  assume m: "keyed Group_ID m"
  have "(gid, g) \<in> set (cleanup_groups k ps gs) \<Longrightarrow> \<exists>g'. (gid, g') \<in> set gs \<and> Group_ID g = Group_ID g'"
    for gid g ps gs
    by (induction k ps gs rule: cleanup_groups.induct) (auto simp: Let_def)
  then have "(gid, g) \<in> set (entries (cleanup_map k m)) \<Longrightarrow> Group_ID g = gid" for gid g
    using m by (cases m) (fastforce simp: cleanup_map_def keyed_def)+
  then show ?thesis using m by (auto simp: keyed_def wf_map_def)
qed

lemma good_new: "good_account (newAccountWithId fr i u d)"
proof -
  have "slash16 (newAccountWithId fr i u d)"
    using NewNetwork_net16 [of "fr_network_xid fr" "fr_rand fr"]
    by (auto simp: slash16_def newAccountWithId_def Let_def)
  then show ?thesis
    using wf_newAccount [of fr i u d]
    by (auto simp: good_account_def ip_unique_def one_off_ok_def key_used_ok_def newAccountWithId_def Let_def
        GenerateDefaultSetupKey_def GenerateSetupKey_def split: if_splits)
qed

lemma good_all_group: "good_account a \<Longrightarrow> good_account (addAllGroup fr a)"
  using wf_addAllGroup [of a fr]
  by (auto simp: good_account_def ip_unique_def one_off_ok_def slash16_def addAllGroup_def Let_def)

lemmas good_intros =
  good_domain good_serial good_users good_groups good_rules good_keys good_delete_peer
  good_new good_all_group keyed_delete keyed_cleanup good_keyed

section \<open>Every operation keeps the accounts good\<close>

abbreviation good_store :: "FileStore \<Rightarrow> bool" where
  "good_store \<equiv> all_accounts good_account"

lemmas goodD = all_accountsD [of good_account] all_accounts_lookups [of good_account]

text \<open>Setup keys.\<close>

lemma found_key:
  assumes "getAccountSetupKeyById a i = Some k" "good_account a"
  shows "key_used_ok k"
  using assms keyed_wf [of SetupKey_Key "Account_SetupKeys a"]
  by (auto simp: getAccountSetupKeyById_def find_Some_iff good_defs) (metis nth_mem vals_conv)

lemma key_used_ok_simps [simp]:
  "key_used_ok (k\<lparr>SetupKey_Revoked := b\<rparr>) = key_used_ok k"
  "key_used_ok (k\<lparr>SetupKey_Name := n\<rparr>) = key_used_ok k"
  "key_used_ok (GenerateSetupKey uuid now n t d)"
  by (simp_all add: key_used_ok_def GenerateSetupKey_def Let_def)

lemma good_AddSetupKey: "good_store s \<Longrightarrow> good_store (fst (AddSetupKey s now uuid i n t e))"
  unfolding AddSetupKey_def
  by (auto simp: Let_def then_return_state split: outcome.splits option.splits
      elim!: good_keys [rotated] intro!: all_accounts_save dest: goodD(1))

lemma good_RevokeSetupKey: "good_store s \<Longrightarrow> good_store (fst (RevokeSetupKey s i k))"
  unfolding RevokeSetupKey_def
  by (auto simp: Let_def then_return_state split: outcome.splits option.splits
      elim!: good_keys [rotated] intro!: all_accounts_save dest: goodD(1) found_key)

lemma good_RenameSetupKey: "good_store s \<Longrightarrow> good_store (fst (RenameSetupKey s i k n))"
  unfolding RenameSetupKey_def
  by (auto simp: Let_def then_return_state split: outcome.splits option.splits
      elim!: good_keys [rotated] intro!: all_accounts_save dest: goodD(1) found_key)

text \<open>Accounts and users.\<close>

lemma good_createAccount: "good_store s \<Longrightarrow> good_store (fst (createAccount s fr i u d))"
  unfolding createAccount_def
  by (auto simp: Let_def then_return_state intro!: all_accounts_save good_all_group good_new)

lemma new_user [simp]: "User_Id (NewAdminUser u) = u" "User_Id (NewRegularUser u) = u"
  by (simp_all add: NewAdminUser_def NewRegularUser_def NewUser_def)

lemma good_NewAccount_user:
  "assign (Account_Users (NewAccount fr u d)) u (NewAdminUser u) = Some us \<Longrightarrow>
   good_account ((NewAccount fr u d)\<lparr>Account_Users := us\<rparr>)"
  using good_users [OF good_new] by (simp add: NewAccount_def)

text \<open>
  An operation that returns an account keeps the store good and returns a good
  account: the shape shared by the operations that sign a user in.
\<close>

definition keeps_good :: "FileStore \<times> Account outcome \<Rightarrow> bool" where
  "keeps_good c \<longleftrightarrow> good_store (fst c) \<and> (\<forall>a. snd c = Ret a \<longrightarrow> good_account a)"

lemma keeps_good_save: "good_store s \<Longrightarrow> good_account a \<Longrightarrow> keeps_good (then_return (SaveAccount s a) g a)"
  by (auto simp: keeps_good_def then_return_state all_accounts_save)
    (metis prod.collapse then_return_Ret)

lemma keeps_good_simps [simp]:
  "keeps_good (s, Ret a) \<longleftrightarrow> good_store s \<and> good_account a"
  "keeps_good (s, Err e) \<longleftrightarrow> good_store s" "keeps_good (s, Panic p) \<longleftrightarrow> good_store s"
  by (simp_all add: keeps_good_def)

lemma keeps_good_bind:
  "keeps_good c \<Longrightarrow> (\<And>s a. good_store s \<Longrightarrow> good_account a \<Longrightarrow> keeps_good (f s a)) \<Longrightarrow>
   keeps_good (case c of (s, Err e) \<Rightarrow> (s, Err (g e)) | (s, Panic p) \<Rightarrow> (s, Panic p) | (s, Ret a) \<Rightarrow> f s a)"
  by (auto split: prod.splits outcome.splits)

lemma good_find_or_new: "good_store s \<Longrightarrow> keeps_good (find_or_new_account s fr u d)"
  unfolding find_or_new_account_def
  by (auto simp: Let_def split: outcome.splits option.splits dest: goodD
      intro!: keeps_good_save good_all_group good_NewAccount_user)

lemma good_GetOrCreate: "good_store s \<Longrightarrow> keeps_good (GetOrCreateAccountByUser s fr u d)"
  unfolding GetOrCreateAccountByUser_def Let_def
  by (intro keeps_good_bind [where g = "\<lambda>e. e"] good_find_or_new)
    (auto intro!: keeps_good_save good_domain)

lemma good_finish_idp: "good_store s \<Longrightarrow> good_account a \<Longrightarrow> keeps_good (finish_idp s idp u a)"
  by (auto simp: finish_idp_def split: outcome.splits)

lemma good_GetAccountById: "good_store s \<Longrightarrow> GetAccountById s i = Ret a \<Longrightarrow> good_account a"
  by (auto simp: GetAccountById_def split: outcome.splits dest: goodD)

lemma keeps_good_ById: "good_store s \<Longrightarrow> keeps_good (s, GetAccountById s i)"
  by (simp add: keeps_good_def good_GetAccountById)

lemma good_ByUserOrAccountId: "good_store s \<Longrightarrow> keeps_good (GetAccountByUserOrAccountId s idp fr u i d)"
  unfolding GetAccountByUserOrAccountId_def finish_idp_def [symmetric]
  by (simp only: split: if_split)
    (intro conjI impI keeps_good_ById keeps_good_bind good_GetOrCreate good_finish_idp; simp)

lemma good_update_domain:
  "good_store s \<Longrightarrow> good_account a \<Longrightarrow> keeps_good (updateAccountDomainAttributes s a c b)"
  unfolding updateAccountDomainAttributes_def Let_def by (intro keeps_good_save good_domain)

lemma good_existing_user:
  "good_store s \<Longrightarrow> good_account a \<Longrightarrow> keeps_good (handleExistingUserAccount s idp a da c)"
  unfolding handleExistingUserAccount_def Let_def
  by (intro keeps_good_bind [where g = "\<lambda>e. e"] good_update_domain good_finish_idp)

lemma good_new_user:
  assumes "good_store s" "\<And>d. da = Some d \<Longrightarrow> good_account d"
  shows "keeps_good (handleNewUserAccount s idp fr da c)"
  unfolding handleNewUserAccount_def Let_def using assms
  by (intro keeps_good_bind [where g = "\<lambda>e. e"] good_finish_idp)
    (auto split: option.splits intro!: keeps_good_save good_update_domain good_NewAccount_user
      intro: good_users)

lemma good_private_domain: "good_store s \<Longrightarrow> keeps_good (account_by_private_domain s idp fr c)"
  unfolding account_by_private_domain_def Let_def
  by (auto split: outcome.splits intro!: good_existing_user good_new_user dest: goodD)

lemma good_claims: "good_store s \<Longrightarrow> keeps_good (GetAccountWithAuthorizationClaims s idp fr c)"
  unfolding GetAccountWithAuthorizationClaims_def
  by (auto split: outcome.splits intro!: good_ByUserOrAccountId good_private_domain dest: good_GetAccountById)

text \<open>Groups and rules.\<close>

lemma good_SaveGroup: "good_store s \<Longrightarrow> good_store (fst (SaveGroup s i g))"
  unfolding SaveGroup_def
  by (auto split: outcome.splits option.splits intro!: all_accounts_save good_groups
      dest: goodD(1) intro: keyed_assign good_keyed)

lemma good_DeleteGroup: "good_store s \<Longrightarrow> good_store (fst (DeleteGroup s i g))"
  unfolding DeleteGroup_def
  by (auto split: outcome.splits intro!: all_accounts_save good_groups keyed_delete good_keyed dest: goodD(1))

lemma good_GroupAddPeer: "good_store s \<Longrightarrow> good_store (fst (GroupAddPeer s i g k))"
  unfolding GroupAddPeer_def
  by (auto split: outcome.splits option.splits intro!: all_accounts_save good_groups keyed_entry good_keyed
      dest: goodD(1))

lemma good_GroupDeletePeer: "good_store s \<Longrightarrow> good_store (fst (GroupDeletePeer s i g k))"
  unfolding GroupDeletePeer_def
  by (auto split: outcome.splits option.splits intro!: all_accounts_save good_groups keyed_entry good_keyed
      dest: goodD(1))

lemma good_SaveRule: "good_store s \<Longrightarrow> good_store (fst (SaveRule s i r))"
  unfolding SaveRule_def
  by (auto split: outcome.splits option.splits intro!: all_accounts_save good_rules
      dest: goodD(1) intro: keyed_assign good_keyed)

lemma good_DeleteRule: "good_store s \<Longrightarrow> good_store (fst (DeleteRule s i r))"
  unfolding DeleteRule_def
  by (auto split: outcome.splits intro!: all_accounts_save good_rules keyed_delete good_keyed dest: goodD(1))

text \<open>Peers.\<close>

lemma good_SavePeer:
  assumes "good_store s"
    and own: "\<And>a. GetAccount s i = Ret a \<Longrightarrow>
      \<exists>q. lookup (Account_Peers a) (Peer_Key p) = Some q \<and> Peer_IP q = Peer_IP p"
  shows "good_store (fst (SavePeer s i p))"
proof (cases "GetAccount s i")
  case (Ret a)
  then have a: "good_account a" "Account_Id a = i" using assms(1) goodD all_accounts_id by auto
  obtain q where q: "lookup (Account_Peers a) (Peer_Key p) = Some q" "Peer_IP q = Peer_IP p"
    using own [OF Ret] by blast
  have other: "ip_string (Peer_IP r) \<noteq> ip_string (Peer_IP p)"
    if "lookup (Account_Peers a) k = Some r" "k \<noteq> Peer_Key p" for k r
    using a(1) q that unfolding good_account_def ip_unique_def by metis
  have all: "good_account (a\<lparr>Account_Groups := map_entry (Account_Groups a) gid
      (\<lambda>g. g\<lparr>Group_Peers := Group_Peers g @ [Peer_Key p]\<rparr>)\<rparr>)" for gid
    by (intro good_groups keyed_entry good_keyed a) simp
  have "good_account (b\<lparr>Account_Peers := ps\<rparr>)"
    if "good_account b" "Account_Peers b = Account_Peers a" "assign (Account_Peers a) (Peer_Key p) p = Some ps"
    for b ps
    using good_peers [OF that(1), of p ps] that(2,3) other by simp
  then show ?thesis using Ret a all assms(1)
    by (auto simp: SavePeer_def Let_def all_accounts_persist split: outcome.splits option.splits
        intro!: all_accounts_set)
qed (use assms in \<open>auto simp: SavePeer_def\<close>)

lemma Store_GetPeer_Ret:
  assumes "Store_GetPeer s k = Ret p"
  obtains i a where "PeerKeyId2AccountId s k = Some i" "GetAccount s i = Ret a"
    "lookup (Account_Peers a) k = Some p" "GetPeerAccount s k = Ret a"
  using assms by (auto simp: Store_GetPeer_def GetPeerAccount_def split: option.splits outcome.splits)

lemma good_UpdatePeerMeta:
  assumes "good_store s"
  shows "good_store (fst (UpdatePeerMeta s k m))"
proof (cases "Store_GetPeer s k")
  case (Ret p)
  then obtain i a where a: "GetAccount s i = Ret a" "lookup (Account_Peers a) k = Some p" "GetPeerAccount s k = Ret a"
    by (rule Store_GetPeer_Ret)
  then have "Account_Id a = i" "Peer_Key p = k"
    using assms all_accounts_id keyed_lookup good_keyed(3) goodD(1) by metis+
  then show ?thesis using a Ret assms
    by (auto simp: UpdatePeerMeta_def Let_def intro!: good_SavePeer)
qed (use assms in \<open>auto simp: UpdatePeerMeta_def\<close>)

lemma all_accounts_entry:
  assumes "all_accounts P s" "\<And>a. P a \<Longrightarrow> P (f a)" "\<And>a. Account_Id (f a) = Account_Id a"
  shows "all_accounts P (s\<lparr>Accounts := map_entry (Accounts s) i f\<rparr>)"
proof -
  have "map_entry (Accounts s) i f \<noteq> NilMap"
    using assms(1) by (cases "Accounts s") (auto simp: all_accounts_def map_entry_def)
  moreover have "\<exists>a. GetAccount s k = Ret a \<and> (b = a \<or> b = f a)"
    if "GetAccount (s\<lparr>Accounts := map_entry (Accounts s) i f\<rparr>) k = Ret b" for k b
    using that by (auto simp: GetAccount_def split: option.splits if_splits)
  ultimately show ?thesis using assms unfolding all_accounts_def by simp metis
qed

lemma good_write_status: "good_store s \<Longrightarrow> good_store (write_status s k st)"
  by (auto simp: write_status_def split: option.splits intro!: all_accounts_entry good_peer_entry)

lemma good_MarkPeerConnected:
  assumes "good_store s"
  shows "good_store (fst (MarkPeerConnected s now k c))"
proof (cases "Store_GetPeer s k")
  case (Ret p)
  then obtain i a where i: "PeerKeyId2AccountId s k = Some i" and a: "GetAccount s i = Ret a"
    and p: "lookup (Account_Peers a) k = Some p" "GetPeerAccount s k = Ret a"
    by (rule Store_GetPeer_Ret)
  then have id: "Account_Id a = i" "Peer_Key p = k"
    using assms all_accounts_id keyed_lookup good_keyed(3) goodD(1) by metis+
  have "\<exists>q. lookup (Account_Peers b) k = Some q \<and> Peer_IP q = Peer_IP p"
    if "GetAccount (write_status s k st) i = Ret b" for b st
    using that i a p by (auto simp: write_status_def GetAccount_def split: option.splits)
  then show ?thesis using p Ret assms id
    by (auto simp: MarkPeerConnected_def Let_def split: option.splits intro!: good_SavePeer good_write_status)
qed (use assms in \<open>auto simp: MarkPeerConnected_def\<close>)

text \<open>\<open>RenamePeer\<close> takes the account from its caller; the peer has to be one of this account.\<close>

lemma good_RenamePeer:
  assumes "good_store s" "GetAccount s i = Ret a" "lookup (Account_Peers a) k = Some q"
    and "PeerKeyId2AccountId s k = Some i"
  shows "good_store (fst (RenamePeer s i k n))"
proof -
  have "Store_GetPeer s k = Ret q" using assms by (simp add: Store_GetPeer_def)
  moreover have "Peer_Key q = k" using assms keyed_lookup good_keyed(3) goodD(1) by metis
  ultimately show ?thesis using assms
    by (auto simp: RenamePeer_def Let_def then_return_state intro!: good_SavePeer)
qed

lemma good_Store_DeletePeer: "good_store s \<Longrightarrow> good_store (fst (Store_DeletePeer s i k))"
proof (cases "GetAccount s i")
  case (Ret a)
  assume s: "good_store s"
  then have a: "good_account a" "Account_Id a = i" using Ret goodD(1) all_accounts_id by auto
  let ?a = "a\<lparr>Account_Peers := map_delete (Account_Peers a) k, Account_Groups := cleanup_map k (Account_Groups a)\<rparr>"
  have "good_account ?a"
    using good_groups [OF good_delete_peer [OF a(1)] keyed_cleanup [OF good_keyed(1) [OF a(1)]]] by simp
  then have "good_store (fst (persist ((set_account s i ?a)\<lparr>PeerKeyId2AccountId := f\<rparr>)))" for f
    using s a(2) by (simp add: all_accounts_persist all_accounts_index all_accounts_set)
  then show ?thesis using Ret s
    by (auto simp: Store_DeletePeer_def Let_def split: option.splits prod.splits outcome.splits)
      (metis fst_conv)+
qed (auto simp: Store_DeletePeer_def)

lemma good_DeletePeer:
  assumes "good_store s" "DeletePeer s m i k = Some ((s', m'), r)"
  shows "good_store s'"
proof -
  obtain s1 q where d: "Store_DeletePeer s i k = (s1, q)" by fastforce
  have s1: "good_store s1" using good_Store_DeletePeer [OF assms(1), of i k] by (simp add: d)
  have "good_store s2" if "GetAccount s1 i = Ret a"
    "SaveAccount s1 (a\<lparr>Account_Network := IncSerial (Account_Network a)\<rparr>) = (s2, r2)" for s2 r2 a
    using all_accounts_save [OF s1 good_serial [OF goodD(1) [OF s1 that(1)]]] that(2) by simp
  then show ?thesis using assms d s1
    by (auto simp: DeletePeer_def Let_def split: outcome.splits prod.splits option.splits)
qed

lemma find_registration_Ret:
  assumes "good_store s" "find_registration s now key u = Ret (a, sk)"
  shows "GetAccount s (Account_Id a) = Ret a" and "good_account a"
    and "key \<noteq> [] \<Longrightarrow> \<exists>v. sk = Some v \<and> SetupKey_Key v = key \<and>
           lookup (Account_SetupKeys a) key = Some v \<and> IsValid now v"
    and "key = [] \<Longrightarrow> sk = None"
proof -
  obtain i where i: "GetAccount s i = Ret a"
    using assms(2) by (auto simp: find_registration_def GetAccountBySetupKey_def GetUserAccount_def
        split: if_splits outcome.splits option.splits)
  then show "GetAccount s (Account_Id a) = Ret a" "good_account a"
    using assms(1) all_accounts_id goodD(1) by auto
  then have k: "getAccountSetupKeyByKey a key = lookup (Account_SetupKeys a) key"
    "keyed SetupKey_Key (Account_SetupKeys a)"
    by (auto simp: good_account_def getAccountSetupKeyByKey_lookup wf_account_def)
  show "key \<noteq> [] \<Longrightarrow> \<exists>v. sk = Some v \<and> SetupKey_Key v = key \<and>
           lookup (Account_SetupKeys a) key = Some v \<and> IsValid now v" "key = [] \<Longrightarrow> sk = None"
    using assms(2) keyed_lookup [OF k(2)]
    by (auto simp: find_registration_def k(1) split: if_splits outcome.splits option.splits) metis
qed

lemma valid_use_ok: "key_used_ok v \<Longrightarrow> IsValid now v \<Longrightarrow> key_used_ok (IncrementUsage now' v)"
  by (auto simp: key_used_ok_def key_status_defs)

text \<open>What a registration changes in the account it joins.\<close>

definition joined :: "int \<Rightarrow> Account \<Rightarrow> SetupKey option \<Rightarrow> string \<Rightarrow> Peer \<Rightarrow> Account" where
  "joined now a sk gid p = a\<lparr>
     Account_Groups := map_entry (Account_Groups a) gid
       (\<lambda>g. g\<lparr>Group_Peers := Group_Peers g @ [Peer_Key p]\<rparr>),
     Account_Peers := the (assign (Account_Peers a) (Peer_Key p) p),
     Account_SetupKeys := (case sk of None \<Rightarrow> Account_SetupKeys a
       | Some k \<Rightarrow> the (assign (Account_SetupKeys a) (SetupKey_Key k) (IncrementUsage now k))),
     Account_Network := IncSerial (Account_Network a)\<rparr>"

lemma join_account_joined:
  assumes "Account_Peers a \<noteq> NilMap" "\<And>k. sk = Some k \<Longrightarrow> Account_SetupKeys a \<noteq> NilMap"
  shows "join_account s now a sk gid p = SaveAccount s (joined now a sk gid p)"
  using assms by (auto simp: join_account_def joined_def Let_def assign_not_nil split: option.splits)

lemma good_joined:
  assumes "good_account a" "Account_Peers a \<noteq> NilMap"
    and "\<And>k. sk = Some k \<Longrightarrow> lookup (Account_SetupKeys a) (SetupKey_Key k) = Some k \<and> IsValid now k"
    and "\<And>k q. lookup (Account_Peers a) k = Some q \<Longrightarrow> k \<noteq> Peer_Key p \<Longrightarrow>
           ip_string (Peer_IP q) \<noteq> ip_string (Peer_IP p)"
  shows "good_account (joined now a sk gid p)"
proof -
  let ?g = "a\<lparr>Account_Groups := map_entry (Account_Groups a) gid
       (\<lambda>g. g\<lparr>Group_Peers := Group_Peers g @ [Peer_Key p]\<rparr>)\<rparr>"
  obtain ps where ps: "assign (Account_Peers a) (Peer_Key p) p = Some ps"
    using assms(2) assign_not_nil by metis
  have g: "good_account ?g" by (intro good_groups keyed_entry good_keyed assms) simp
  have p: "good_account (?g\<lparr>Account_Peers := ps\<rparr>)"
    by (rule good_peers [OF g]) (use ps assms(4) in auto)
  show ?thesis
  proof (cases sk)
    case None
    with good_serial [OF p] ps show ?thesis by (simp add: joined_def)
  next
    case (Some k)
    then have k: "lookup (Account_SetupKeys a) (SetupKey_Key k) = Some k" "IsValid now k" using assms(3) by auto
    then obtain ks where ks: "assign (Account_SetupKeys a) (SetupKey_Key k) (IncrementUsage now k) = Some ks"
      by (cases "Account_SetupKeys a") auto
    have "key_used_ok (IncrementUsage now k)"
      using valid_use_ok k assms(1) by (auto simp: good_account_def one_off_ok_def)
    then have "good_account (?g\<lparr>Account_Peers := ps, Account_SetupKeys := ks\<rparr>)"
      using good_keys [OF p, of "SetupKey_Key k"] ks by simp
    from good_serial [OF this] ps ks Some show ?thesis by (simp add: joined_def)
  qed
qed

text \<open>A successful registration, step by step.\<close>

lemma AddPeer_Ret:
  assumes "good_store s" "AddPeer s fr setupKey u peer = Some (s', Ret p)"
  obtains a sk gid g where
    "find_registration s (fr_now fr) (ToUpper setupKey) u = Ret (a, sk)"
    "AllocatePeerIP (fr_rand fr) (Network_Net (Account_Network a)) (map Peer_IP (vals (Account_Peers a)))
       = Some (Ret (Peer_IP p))"
    "GetGroupAll a = Ret (gid, g)" "Account_Peers a \<noteq> NilMap"
    "p = \<lparr>Peer_Key = Peer_Key peer, Peer_SetupKey = ToUpper setupKey, Peer_IP = Peer_IP p,
          Peer_Meta = Peer_Meta peer, Peer_Name = Peer_Name peer,
          Peer_Status = Some \<lparr>Status_LastSeen = fr_now fr, Status_Connected = False\<rparr>, Peer_UserID = u\<rparr>"
    "SaveAccount s (joined (fr_now fr) a sk gid p) = (s', Ret ())"
proof -
  from assms(2) obtain a sk gid g where reg: "find_registration s (fr_now fr) (ToUpper setupKey) u = Ret (a, sk)"
    and ip: "AllocatePeerIP (fr_rand fr) (Network_Net (Account_Network a)) (map Peer_IP (vals (Account_Peers a)))
       = Some (Ret (Peer_IP p))"
    and g: "GetGroupAll a = Ret (gid, g)"
    and p: "p = \<lparr>Peer_Key = Peer_Key peer, Peer_SetupKey = ToUpper setupKey, Peer_IP = Peer_IP p,
          Peer_Meta = Peer_Meta peer, Peer_Name = Peer_Name peer,
          Peer_Status = Some \<lparr>Status_LastSeen = fr_now fr, Status_Connected = False\<rparr>, Peer_UserID = u\<rparr>"
    and j: "join_account s (fr_now fr) a sk gid p = (s', Ret ())"
    by (auto simp: AddPeer_def Let_def then_return_Ret split: outcome.splits option.splits prod.splits)
  have ne: "Account_Peers a \<noteq> NilMap" using j by (auto simp: join_account_def)
  have "Account_SetupKeys a \<noteq> NilMap" if "sk = Some k" for k
    using find_registration_Ret(3,4) [OF assms(1) reg] that by (cases "ToUpper setupKey = []") auto
  then have "SaveAccount s (joined (fr_now fr) a sk gid p) = (s', Ret ())"
    using j join_account_joined [OF ne, of sk] by simp
  with reg ip g ne p show ?thesis by (rule that)
qed

lemma ip_fresh:
  assumes "good_account a"
    and "AllocatePeerIP r (Network_Net (Account_Network a)) (map Peer_IP (vals (Account_Peers a))) = Some (Ret ip)"
    and "lookup (Account_Peers a) k = Some q"
  shows "ip_string (Peer_IP q) \<noteq> ip_string ip"
proof -
  obtain x y where "Network_Net (Account_Network a) = net16 x y"
    using assms(1) by (auto simp: good_account_def slash16_def)
  then have "ip_string ip \<notin> ip_string ` set (map Peer_IP (vals (Account_Peers a)))"
    using allocated_candidate [of r x y "map Peer_IP (vals (Account_Peers a))" ip] assms(2) by metis
  then show ?thesis using vals_lookup [OF assms(3)] by (metis imageI list.set_map)
qed

lemma good_AddPeer_joined:
  assumes "good_store s" "find_registration s now key u = Ret (a, sk)" "Account_Peers a \<noteq> NilMap"
    and "AllocatePeerIP r (Network_Net (Account_Network a)) (map Peer_IP (vals (Account_Peers a)))
       = Some (Ret (Peer_IP p))"
  shows "good_account (joined now a sk gid p)"
proof (rule good_joined)
  show "good_account a" by (rule find_registration_Ret(2) [OF assms(1,2)])
  then show "ip_string (Peer_IP q) \<noteq> ip_string (Peer_IP p)" if "lookup (Account_Peers a) k = Some q" for k q
    using ip_fresh assms(4) that by blast
  show "lookup (Account_SetupKeys a) (SetupKey_Key k) = Some k \<and> IsValid now k" if "sk = Some k" for k
    using find_registration_Ret(3,4) [OF assms(1,2)] that by (cases "key = []") auto
qed (rule assms)

lemma good_join_account:
  assumes "good_store s" "find_registration s now key u = Ret (a, sk)"
    and "AllocatePeerIP r (Network_Net (Account_Network a)) (map Peer_IP (vals (Account_Peers a)))
       = Some (Ret (Peer_IP p))"
  shows "good_store (fst (join_account s now a sk gid p))"
proof (cases "Account_Peers a \<noteq> NilMap")
  case True
  have "Account_SetupKeys a \<noteq> NilMap" if "sk = Some k" for k
    using find_registration_Ret(3,4) [OF assms(1,2)] that by (cases "key = []") auto
  then have "join_account s now a sk gid p = SaveAccount s (joined now a sk gid p)"
    by (rule join_account_joined [OF True])
  then show ?thesis using all_accounts_save [OF assms(1) good_AddPeer_joined [OF assms(1,2) True assms(3)]]
    by simp
next
  case False
  have "good_account a" by (rule find_registration_Ret(2) [OF assms(1,2)])
  then have "good_account (a\<lparr>Account_Groups := map_entry (Account_Groups a) gid
       (\<lambda>g. g\<lparr>Group_Peers := Group_Peers g @ [Peer_Key p]\<rparr>)\<rparr>)"
    by (intro good_groups keyed_entry good_keyed) simp_all
  then show ?thesis using False assms(1)
    by (auto simp: join_account_def Let_def intro!: all_accounts_set)
qed

lemma good_AddPeer:
  assumes "good_store s" "AddPeer s fr key u peer = Some (s', r)"
  shows "good_store s'"
proof -
  have "good_store t"
    if "find_registration s (fr_now fr) (ToUpper key) u = Ret (a, sk)"
      "AllocatePeerIP (fr_rand fr) (Network_Net (Account_Network a)) (map Peer_IP (vals (Account_Peers a)))
         = Some (Ret (Peer_IP p))" "then_return (join_account s (fr_now fr) a sk gid p) h x = (t, q)"
    for a sk gid p h x t q
    using good_join_account [OF assms(1) that(1,2), of gid] that(3)
    by (metis fst_conv then_return_state)
  note ok = this [where p = "\<lparr>Peer_Key = Peer_Key peer, Peer_SetupKey = ToUpper key, Peer_IP = ip,
     Peer_Meta = Peer_Meta peer, Peer_Name = Peer_Name peer,
     Peer_Status = Some \<lparr>Status_LastSeen = fr_now fr, Status_Connected = False\<rparr>, Peer_UserID = u\<rparr>" for ip,
     simplified]
  show ?thesis using assms
    by (auto simp: AddPeer_def Let_def intro: ok split: outcome.splits option.splits prod.splits)
qed

section \<open>The account manager as a transition system\<close>

text \<open>
  One step is one call of the manager, with any arguments and any outcome: an
  error, a panic and a failed write are steps too. \<open>RenamePeer\<close> is called by the
  HTTP handler for a peer of the caller's account only. The calls that change which peers an
  account has come after the others.
\<close>

inductive admin_step :: "FileStore \<Rightarrow> FileStore \<Rightarrow> bool" where
  AddSetupKey: "AddSetupKey s now uuid i n t e = (s', r1) \<Longrightarrow> admin_step s s'"
| RevokeSetupKey: "RevokeSetupKey s i k = (s', r2) \<Longrightarrow> admin_step s s'"
| RenameSetupKey: "RenameSetupKey s i k n = (s', r3) \<Longrightarrow> admin_step s s'"
| AddAccount: "AddAccount s fr i u d = (s', r4) \<Longrightarrow> admin_step s s'"
| ByUser: "GetAccountByUserOrAccountId s idp fr u i d = (s', r5) \<Longrightarrow> admin_step s s'"
| ByClaims: "GetAccountWithAuthorizationClaims s idp fr c = (s', r6) \<Longrightarrow> admin_step s s'"
| SaveGroup: "SaveGroup s i g = (s', r7) \<Longrightarrow> admin_step s s'"
| DeleteGroup: "DeleteGroup s i gid = (s', r8) \<Longrightarrow> admin_step s s'"
| GroupAddPeer: "GroupAddPeer s i gid k = (s', r9) \<Longrightarrow> admin_step s s'"
| GroupDeletePeer: "GroupDeletePeer s i gid k = (s', r10) \<Longrightarrow> admin_step s s'"
| SaveRule: "SaveRule s i rule = (s', r11) \<Longrightarrow> admin_step s s'"
| DeleteRule: "DeleteRule s i rid = (s', r12) \<Longrightarrow> admin_step s s'"
| MarkPeer: "MarkPeerConnected s now k c' = (s', r15) \<Longrightarrow> admin_step s s'"
| UpdateMeta: "UpdatePeerMeta s k meta = (s', r16) \<Longrightarrow> admin_step s s'"
| RenamePeer: "GetAccount s i = Ret a \<Longrightarrow> lookup (Account_Peers a) k = Some q \<Longrightarrow>
    PeerKeyId2AccountId s k = Some i \<Longrightarrow> RenamePeer s i k n = (s', r17) \<Longrightarrow> admin_step s s'"

inductive manager_step :: "FileStore \<Rightarrow> FileStore \<Rightarrow> bool" where
  Admin: "admin_step s s' \<Longrightarrow> manager_step s s'"
| AddPeer: "AddPeer s fr key u peer = Some (s', r13) \<Longrightarrow> manager_step s s'"
| DeletePeer: "DeletePeer s m i k = Some ((s', m'), r14) \<Longrightarrow> manager_step s s'"

inductive manager_run :: "FileStore \<Rightarrow> FileStore \<Rightarrow> bool" for s0 where
  start: "manager_run s0 s0"
| step: "manager_run s0 s \<Longrightarrow> manager_step s s' \<Longrightarrow> manager_run s0 s'"

lemma admin_step_good: "admin_step s s' \<Longrightarrow> good_store s \<Longrightarrow> good_store s'"
proof (induction rule: admin_step.induct)
  case (AddAccount s fr i u d s' r4)
  then show ?case using good_createAccount [of s fr i u d] by (simp add: AddAccount_def)
next
  case (ByUser s idp fr u i d s' r5)
  then show ?case using good_ByUserOrAccountId [of s idp fr u i d] by (simp add: keeps_good_def)
next
  case (ByClaims s idp fr c s' r6)
  then show ?case using good_claims [of s idp fr c] by (simp add: keeps_good_def)
qed (metis fst_conv good_AddSetupKey good_RevokeSetupKey good_RenameSetupKey good_SaveGroup good_DeleteGroup
    good_GroupAddPeer good_GroupDeletePeer good_SaveRule good_DeleteRule
    good_MarkPeerConnected good_UpdatePeerMeta good_RenamePeer)+

lemma manager_step_good: "manager_step s s' \<Longrightarrow> good_store s \<Longrightarrow> good_store s'"
  by (induction rule: manager_step.induct) (auto intro: admin_step_good good_AddPeer good_DeletePeer)

lemma manager_run_good: "manager_run s0 s \<Longrightarrow> good_store s0 \<Longrightarrow> good_store s"
  by (induction rule: manager_run.induct) (auto intro: manager_step_good)

end
