(* ===== verification/Mgmt_Properties.thy ===== *)
theory Mgmt_Properties
  imports Mgmt_Invariant
begin

text \<open>
  The properties of the account manager: registration of peers, deletion, the
  network map, and the invariants of every run. The example at the end of the first
  section is the store after the program's own creation of an account, on which
  the witnesses are evaluated.
\<close>

section \<open>An example store\<close>

definition ex_fresh :: Fresh where
  "ex_fresh = \<lparr>fr_now = 1000, fr_uuid1 = ''a1'', fr_uuid2 = ''b2'', fr_account_xid = ''acc'',
     fr_network_xid = ''net'', fr_group_xid = ''g'', fr_rule_xid = ''r'', fr_rand = 5\<rparr>"

definition ex_store :: FileStore where
  "ex_store = fst (createAccount (empty_store ''store.json'' NoFile []) ex_fresh ''acc'' ''u'' ''x.y'')"

definition ex_account :: Account where
  "ex_account = addAllGroup ex_fresh (newAccountWithId ex_fresh ''acc'' ''u'' ''x.y'')"

definition ex_meta :: PeerSystemMeta where
  "ex_meta = \<lparr>Meta_Hostname = ''h'', Meta_GoOS = ''linux'', Meta_Kernel = [], Meta_Core = [], Meta_Platform = [],
     Meta_OS = [], Meta_WtVersion = [], Meta_UIVersion = []\<rparr>"

definition ex_peer :: "string \<Rightarrow> Peer" where
  "ex_peer k = \<lparr>Peer_Key = k, Peer_SetupKey = [], Peer_IP = [], Peer_Meta = ex_meta, Peer_Name = ''n'',
     Peer_Status = Some \<lparr>Status_LastSeen = 0, Status_Connected = False\<rparr>, Peer_UserID = []\<rparr>"

lemma empty_good: "all_accounts P (empty_store f st ws)"
  by (simp add: all_accounts_def empty_store_def GetAccount_def)

lemma ex_good: "good_store ex_store"
  unfolding ex_store_def by (rule good_createAccount [OF empty_good])

lemma createAccount_Ret:
  assumes "Accounts s \<noteq> NilMap" "write_faults s = []"
  shows "\<exists>s'. createAccount s fr i u d = (s', Ret (addAllGroup fr (newAccountWithId fr i u d))) \<and>
    SaveAccount s (addAllGroup fr (newAccountWithId fr i u d)) = (s', Ret ()) \<and> write_faults s' = []"
  using SaveAccount_no_faults [OF addAllGroup_closed [OF newAccount_closed] assms, of fr fr i u d]
  by (auto simp: createAccount_def Let_def)

lemma ex_saved:
  "SaveAccount (empty_store ''store.json'' NoFile []) ex_account = (ex_store, Ret ())"
  "write_faults ex_store = []"
  using createAccount_Ret [of "empty_store ''store.json'' NoFile []" ex_fresh "''acc''" "''u''" "''x.y''"]
  by (auto simp: ex_store_def ex_account_def empty_store_def)

lemma ex_id: "Account_Id ex_account = ''acc''"
  by (simp add: ex_account_def addAllGroup_def newAccountWithId_def Let_def)

lemma ex_GetAccount: "GetAccount ex_store k = (if k = ''acc'' then Ret ex_account else Err (StatusError NotFound ''account not found''))"
  using GetAccount_save [OF ex_saved(1)] by (simp add: empty_store_def ex_id GetAccount_def)

lemma upper_ex [simp]: "ToUpper ''a1'' = ''A1''" "ToUpper ''b2'' = ''B2''" "ToUpper ''A1'' = ''A1''" "ToUpper ''B2'' = ''B2''"
  by code_simp+

lemma ex_maps:
  "Account_SetupKeys ex_account = GoMap [(''A1'', GenerateSetupKey ''a1'' 1000 DefaultSetupKeyName SetupKeyReusable DefaultSetupKeyDuration),
     (''B2'', GenerateSetupKey ''b2'' 1000 ''One-off key'' SetupKeyOneOff DefaultSetupKeyDuration)]"
  "Account_Peers ex_account = GoMap []" "Account_Users ex_account = GoMap []"
  "Account_Groups ex_account = GoMap [(''g'', \<lparr>Group_ID = ''g'', Group_Name = ''All'', Group_Peers = []\<rparr>)]"
  "Account_Rules ex_account = GoMap [(''r'', \<lparr>Rule_ID = ''r'', Rule_Name = ''Default'', Rule_Source = [''g''],
     Rule_Destination = [''g''], Rule_Flow = 0\<rparr>)]"
  by (simp_all add: ex_account_def addAllGroup_def newAccountWithId_def Let_def ex_fresh_def vals_def
      GenerateDefaultSetupKey_def GenerateSetupKey_def DefaultSetupKeyName_def)

lemma ex_by_key: "GetAccountBySetupKey ex_store ''b2'' = Ret ex_account"
  by (rule by_key.find_saved [OF _ ex_saved(1)]) (simp_all add: empty_store_def ex_maps keys_def)

section \<open>Registering a peer\<close>

lemma GetGroupAll_Ret:
  assumes "GetGroupAll a = Ret (gid, g)" "good_account a"
  shows "lookup (Account_Groups a) gid = Some g" and "Group_Name g = ''All''"
proof -
  have "(gid, g) \<in> set (entries (Account_Groups a))" and n: "Group_Name g = ''All''"
    using assms(1) by (auto simp: GetGroupAll_def find_Some_iff split: option.splits) (metis nth_mem)
  then show "lookup (Account_Groups a) gid = Some g"
    using entries_lookup keyed_wf good_keyed(1) [OF assms(2)] by metis
  show "Group_Name g = ''All''" by (rule n)
qed

lemma joined_fields:
  assumes "Account_Peers a \<noteq> NilMap"
  shows "Account_Id (joined now a sk gid p) = Account_Id a"
    and "lookup (Account_Peers (joined now a sk gid p)) k =
           (if k = Peer_Key p then Some p else lookup (Account_Peers a) k)"
    and "Account_Network (joined now a sk gid p) = IncSerial (Account_Network a)"
    and "lookup (Account_Groups (joined now a sk gid p)) gid =
           map_option (\<lambda>g. g\<lparr>Group_Peers := Group_Peers g @ [Peer_Key p]\<rparr>) (lookup (Account_Groups a) gid)"
    and "Account_Rules (joined now a sk gid p) = Account_Rules a"
  using assms lookup_assign [OF assign_not_nil [OF assms]]
  by (auto simp: joined_def assign_not_nil)

lemma AddPeer_peers:
  assumes "all_accounts good_account s" "AddPeer s fr setupKey u peer = Some (s', Ret p)"
  shows "\<exists>a a'. GetAccount s (Account_Id a) = Ret a \<and>
    (\<forall>j. GetAccount s' j = (if j = Account_Id a then Ret a' else GetAccount s j)) \<and>
    (\<forall>k. lookup (Account_Peers a') k = (if k = Peer_Key peer then Some p else lookup (Account_Peers a) k))"
proof -
  obtain a sk gid where reg: "find_registration s (fr_now fr) (ToUpper setupKey) u = Ret (a, sk)"
    and ne: "Account_Peers a \<noteq> NilMap" and "Peer_Key p = Peer_Key peer"
    and save: "SaveAccount s (joined (fr_now fr) a sk gid p) = (s', Ret ())"
    using AddPeer_Ret [OF assms] by (metis Peer.select_convs(1))
  then show ?thesis
    using find_registration_Ret(1) [OF assms(1) reg]
      GetAccount_save [OF save SaveAccount_Ret(7) [OF save]] joined_fields [OF ne]
    by (intro exI [of _ a] exI [of _ "joined (fr_now fr) a sk gid p"]) simp
qed

text \<open>
  C7: a registration that succeeds adds exactly one peer to exactly one account. The peer
  has the key, the metadata and the name of the request and an address of the /16 network
  of the account whose last byte is not zero and which no other peer of the account has;
  it is appended to the group All, the serial of the network grows by one, all other
  accounts stay as they were, the peer is found under its key afterwards, and the file
  holds the new accounts.
\<close>

theorem AddPeer_registers:
  assumes "all_accounts good_account s" "AddPeer s fr setupKey u peer = Some (s', Ret p)"
  shows "\<exists>a a' gid g x y n.
     GetAccount s (Account_Id a) = Ret a \<and> GetAccount s' (Account_Id a) = Ret a' \<and>
     (\<forall>j. j \<noteq> Account_Id a \<longrightarrow> GetAccount s' j = GetAccount s j) \<and>
     (\<forall>k. lookup (Account_Peers a') k = (if k = Peer_Key peer then Some p else lookup (Account_Peers a) k)) \<and>
     Peer_Key p = Peer_Key peer \<and> Peer_Meta p = Peer_Meta peer \<and> Peer_Name p = Peer_Name peer \<and>
     Peer_UserID p = u \<and> Peer_SetupKey p = ToUpper setupKey \<and>
     Network_Net (Account_Network a) = net16 x y \<and> Peer_IP p = ip16 x y n \<and> n < 65536 \<and> n mod 256 \<noteq> 0 \<and>
     (\<forall>k q. lookup (Account_Peers a) k = Some q \<longrightarrow> ip_string (Peer_IP q) \<noteq> ip_string (Peer_IP p)) \<and>
     GetGroupAll a = Ret (gid, g) \<and>
     lookup (Account_Groups a') gid = Some (g\<lparr>Group_Peers := Group_Peers g @ [Peer_Key peer]\<rparr>) \<and>
     Network_Serial (Account_Network a') = Network_Serial (Account_Network a) + 1 \<and>
     Store_GetPeer s' (Peer_Key peer) = Ret p \<and> disk s' = Stored (Accounts s')"
proof -
  obtain a sk gid g where reg: "find_registration s (fr_now fr) (ToUpper setupKey) u = Ret (a, sk)"
    and ip: "AllocatePeerIP (fr_rand fr) (Network_Net (Account_Network a)) (map Peer_IP (vals (Account_Peers a)))
       = Some (Ret (Peer_IP p))"
    and g: "GetGroupAll a = Ret (gid, g)" and ne: "Account_Peers a \<noteq> NilMap"
    and p: "p = \<lparr>Peer_Key = Peer_Key peer, Peer_SetupKey = ToUpper setupKey, Peer_IP = Peer_IP p,
          Peer_Meta = Peer_Meta peer, Peer_Name = Peer_Name peer,
          Peer_Status = Some \<lparr>Status_LastSeen = fr_now fr, Status_Connected = False\<rparr>, Peer_UserID = u\<rparr>"
    and save: "SaveAccount s (joined (fr_now fr) a sk gid p) = (s', Ret ())"
    using AddPeer_Ret [OF assms] by metis
  let ?a' = "joined (fr_now fr) a sk gid p"
  note a = find_registration_Ret(1,2) [OF assms(1) reg] and fields = joined_fields [OF ne]
  have pk: "Peer_Key p = Peer_Key peer" by (subst p) simp
  obtain x y where net: "Network_Net (Account_Network a) = net16 x y"
    using a(2) by (auto simp: good_account_def slash16_def)
  obtain n where n: "n < 65536" "Peer_IP p = ip16 x y n" "n mod 256 \<noteq> 0"
    using allocated_candidate [OF ip [unfolded net]] by blast
  have get: "GetAccount s' j = (if j = Account_Id a then Ret ?a' else GetAccount s j)" for j
    using GetAccount_save [OF save SaveAccount_Ret(7) [OF save]] by (simp add: fields)
  have "p \<in> set (vals (Account_Peers ?a'))" using vals_lookup [of "Account_Peers ?a'" "Peer_Key p" p] fields(2) by simp
  then have "PeerKeyId2AccountId s' (Peer_Key peer) = Some (Account_Id a)"
    using SaveAccount_Ret(2) [OF save] pk by (auto simp: fields image_iff)
  then have found: "Store_GetPeer s' (Peer_Key peer) = Ret p"
    by (simp add: Store_GetPeer_def get fields pk)
  show ?thesis
    by (rule exI [of _ a], rule exI [of _ ?a'], rule exI [of _ gid], rule exI [of _ g], rule exI [of _ x],
        rule exI [of _ y], rule exI [of _ n], intro conjI)
      (use a get fields pk net n found GetGroupAll_Ret [OF g a(2)] g SaveAccount_Ret(6) [OF save]
         ip_fresh [OF a(2) ip] in \<open>simp_all add: IncSerial_def arg_cong [OF p, of Peer_Meta]
         arg_cong [OF p, of Peer_Name] arg_cong [OF p, of Peer_UserID] arg_cong [OF p, of Peer_SetupKey]\<close>)
qed

lemma AddPeer_ok:
  assumes "all_accounts good_account s"
    and "find_registration s (fr_now fr) (ToUpper setupKey) u = Ret (a, sk)"
    and "GetGroupAll a = Ret (gid, g)" "rules_closed a" "Account_Peers a \<noteq> NilMap"
    and "length (vals (Account_Peers a)) < 65278" "write_faults s = []"
  shows "\<exists>s' p. AddPeer s fr setupKey u peer = Some (s', Ret p)"
proof -
  have good: "good_account a" by (rule find_registration_Ret(2) [OF assms(1,2)])
  then obtain x y where net: "Network_Net (Account_Network a) = net16 x y"
    by (auto simp: good_account_def slash16_def)
  obtain ip where ip: "AllocatePeerIP (fr_rand fr) (net16 x y) (map Peer_IP (vals (Account_Peers a))) = Some (Ret ip)"
    using allocate_enough assms(6) by fastforce
  have keys: "Account_SetupKeys a \<noteq> NilMap" if "sk = Some k" for k
    using find_registration_Ret(3,4) [OF assms(1,2)] that by (cases "setupKey = []") auto
  have "rules_closed (joined (fr_now fr) a sk gid p)" for p
    using assms(4) by (auto simp: rules_closed_def joined_def)
  then have "\<exists>s'. join_account s (fr_now fr) a sk gid p = (s', Ret ())" for p
    using join_account_joined [OF assms(5) keys] SaveAccount_no_faults assms(1,7)
    by (fastforce simp: all_accounts_def)
  then obtain s' where "join_account s (fr_now fr) a sk gid
      \<lparr>Peer_Key = Peer_Key peer, Peer_SetupKey = ToUpper setupKey, Peer_IP = ip,
       Peer_Meta = Peer_Meta peer, Peer_Name = Peer_Name peer,
       Peer_Status = Some \<lparr>Status_LastSeen = fr_now fr, Status_Connected = False\<rparr>, Peer_UserID = u\<rparr> = (s', Ret ())"
    by blast
  then show ?thesis using assms(2,3) ip net by (simp add: AddPeer_def Let_def)
qed

lemma ex_registration:
  "find_registration ex_store 1000 ''B2'' [] = Ret (ex_account,
     Some (GenerateSetupKey ''b2'' 1000 ''One-off key'' SetupKeyOneOff DefaultSetupKeyDuration))"
  using ex_by_key by (simp add: find_registration_def GetAccountBySetupKey_def getAccountSetupKeyByKey_def
      ex_maps vals_def GenerateSetupKey_def key_status_defs DefaultSetupKeyDuration_def hour_def Let_def)

lemma ex_all: "GetGroupAll ex_account = Ret (''g'', \<lparr>Group_ID = ''g'', Group_Name = ''All'', Group_Peers = []\<rparr>)"
  by (simp add: GetGroupAll_def ex_maps)

lemma ex_closed: "rules_closed ex_account"
  by (simp add: rules_closed_def ex_maps vals_def)

lemma ex_AddPeer: "\<exists>s' p. AddPeer ex_store ex_fresh ''b2'' [] (ex_peer k) = Some (s', Ret p)"
  by (rule AddPeer_ok [OF ex_good _ ex_all ex_closed])
    (use ex_registration in \<open>simp_all add: ex_fresh_def ex_maps vals_def ex_saved(2)\<close>)

theorem AddPeer_registers_witness:
  "\<exists>s' p a a'. AddPeer ex_store ex_fresh ''b2'' [] (ex_peer ''k'') = Some (s', Ret p) \<and>
     GetAccount ex_store (Account_Id a) = Ret a \<and> GetAccount s' (Account_Id a) = Ret a' \<and>
     lookup (Account_Peers a') ''k'' = Some p"
proof -
  obtain s' p where "AddPeer ex_store ex_fresh ''b2'' [] (ex_peer ''k'') = Some (s', Ret p)"
    using ex_AddPeer by blast
  with AddPeer_registers [OF ex_good this] show ?thesis by (auto simp: ex_peer_def)
qed

lemma AddPeer_returns: "good_store s \<Longrightarrow> \<exists>c. AddPeer s fr key u peer = Some c"
proof -
  assume s: "good_store s"
  have "AllocatePeerIP r (Network_Net (Account_Network a)) ips \<noteq> None"
    if "find_registration s now k u = Ret (a, sk)" for a sk k now r ips
    using find_registration_Ret(2) [OF s that] allocate_total by (auto simp: good_account_def slash16_def)
  then show ?thesis
    by (auto simp: AddPeer_def Let_def split: outcome.splits option.splits prod.splits)
      (metis option.distinct(1))
qed

text \<open>
  C25: a registration always comes to an end, and it succeeds whenever the setup key or the
  user is known and valid, the account has the group All, its rules name existing groups,
  the file can be written and fewer than 65278 addresses of the network are taken.
\<close>

theorem AddPeer_succeeds:
  assumes "all_accounts good_account s"
  shows "(\<exists>c. AddPeer s fr setupKey u peer = Some c) \<and>
    (find_registration s (fr_now fr) (ToUpper setupKey) u = Ret (a, sk) \<longrightarrow>
      GetGroupAll a = Ret (gid, g) \<longrightarrow> rules_closed a \<longrightarrow> Account_Peers a \<noteq> NilMap \<longrightarrow>
      length (vals (Account_Peers a)) < 65278 \<longrightarrow> write_faults s = [] \<longrightarrow>
      (\<exists>s' p. AddPeer s fr setupKey u peer = Some (s', Ret p)))"
  using AddPeer_returns [OF assms] AddPeer_ok [OF assms] by blast

theorem AddPeer_succeeds_witness:
  "\<exists>s' p. AddPeer ex_store ex_fresh ''b2'' [] (ex_peer ''k'') = Some (s', Ret p)"
  by (rule AddPeer_succeeds [OF ex_good, THEN conjunct2, rule_format, OF _ ex_all ex_closed])
    (use ex_registration in \<open>simp_all add: ex_fresh_def ex_maps vals_def ex_saved(2)\<close>)

text \<open>What a registration with a setup key leaves behind for the next one.\<close>

lemma AddPeer_key:
  assumes "all_accounts good_account s" "setupKey \<noteq> []" "AddPeer s fr setupKey u peer = Some (s', Ret p)"
  obtains a k gid g where "find_registration s (fr_now fr) (ToUpper setupKey) u = Ret (a, Some k)"
    "SaveAccount s (joined (fr_now fr) a (Some k) gid p) = (s', Ret ())"
    "GetAccountBySetupKey s' (ToUpper setupKey) = Ret (joined (fr_now fr) a (Some k) gid p)"
    "getAccountSetupKeyByKey (joined (fr_now fr) a (Some k) gid p) (ToUpper setupKey) =
       Some (IncrementUsage (fr_now fr) k)"
    "0 \<le> SetupKey_UsedTimes k" "Account_Peers a \<noteq> NilMap" "GetGroupAll a = Ret (gid, g)"
proof -
  obtain a sk gid g where reg: "find_registration s (fr_now fr) (ToUpper setupKey) u = Ret (a, sk)"
    and ne: "Account_Peers a \<noteq> NilMap" and g: "GetGroupAll a = Ret (gid, g)"
    and ip: "AllocatePeerIP (fr_rand fr) (Network_Net (Account_Network a)) (map Peer_IP (vals (Account_Peers a)))
       = Some (Ret (Peer_IP p))"
    and save: "SaveAccount s (joined (fr_now fr) a sk gid p) = (s', Ret ())"
    using AddPeer_Ret [OF assms(1,3)] by metis
  let ?b = "joined (fr_now fr) a sk gid p"
  obtain k where sk: "sk = Some k" and key: "SetupKey_Key k = ToUpper setupKey"
    and k: "lookup (Account_SetupKeys a) (ToUpper setupKey) = Some k"
    using find_registration_Ret(3) [OF assms(1) reg] assms(2) by auto
  then obtain ks where ks: "assign (Account_SetupKeys a) (ToUpper setupKey) (IncrementUsage (fr_now fr) k) = Some ks"
    and used: "0 \<le> SetupKey_UsedTimes k"
    using find_registration_Ret(2) [OF assms(1) reg]
    by (cases "Account_SetupKeys a") (auto simp: good_account_def one_off_ok_def key_used_ok_def)
  have bk: "Account_SetupKeys ?b = ks" using ks key by (simp add: joined_def sk)
  have "wf_account ?b" using good_AddPeer_joined [OF assms(1) reg ne ip] by (simp add: good_account_def)
  then have get: "getAccountSetupKeyByKey ?b (ToUpper setupKey) = Some (IncrementUsage (fr_now fr) k)"
    using lookup_assign [OF ks] by (simp add: getAccountSetupKeyByKey_lookup bk)
  have "GetAccountBySetupKey s' (ToUpper setupKey) = Ret ?b"
    by (rule by_key.find_saved [OF SaveAccount_Ret(7) [OF save] save])
      (use keys_assign [OF ks] in \<open>auto simp: bk intro!: image_eqI [of _ ToUpper "ToUpper setupKey"]\<close>)
  with reg save get used ne g sk show ?thesis by (intro that) auto
qed

text \<open>
  C9: a one-off setup key admits one peer: after a registration with it, every further
  registration with the same key, at any time and for any peer, is refused with
  FailedPrecondition and changes nothing.
\<close>

theorem one_off_key_spent:
  assumes "all_accounts good_account s" "setupKey \<noteq> []"
    and "AddPeer s fr setupKey u peer = Some (s', Ret p)"
    and "GetAccountBySetupKey s setupKey = Ret a" "getAccountSetupKeyByKey a (ToUpper setupKey) = Some k"
    and "SetupKey_Type k = SetupKeyOneOff"
  shows "AddPeer s' fr' setupKey u' peer' = Some (s', Err (StatusError FailedPrecondition
           ''unable to register peer, its setup key is invalid (expired, overused or revoked)''))"
proof -
  obtain b l gid where reg: "find_registration s (fr_now fr) (ToUpper setupKey) u = Ret (b, Some l)"
    and after: "GetAccountBySetupKey s' (ToUpper setupKey) = Ret (joined (fr_now fr) b (Some l) gid p)"
      "getAccountSetupKeyByKey (joined (fr_now fr) b (Some l) gid p) (ToUpper setupKey) =
         Some (IncrementUsage (fr_now fr) l)" and used: "0 \<le> SetupKey_UsedTimes l"
    using AddPeer_key [OF assms(1-3)] by metis
  have "GetAccountBySetupKey s (ToUpper setupKey) = GetAccountBySetupKey s setupKey"
    by (simp add: GetAccountBySetupKey_def)
  with assms(2,4,5) reg have "l = k"
    by (auto simp: find_registration_def split: outcome.splits option.splits if_splits)
  then have "\<not> IsValid now (IncrementUsage (fr_now fr) l)" for now
    using one_off_used assms(6) used by blast
  then show ?thesis using after assms(2) by (simp add: AddPeer_def find_registration_def)
qed

theorem one_off_key_spent_witness:
  "\<exists>s' p. AddPeer ex_store ex_fresh ''b2'' [] (ex_peer ''k'') = Some (s', Ret p) \<and>
     AddPeer s' ex_fresh ''b2'' [] (ex_peer ''l'') = Some (s', Err (StatusError FailedPrecondition
       ''unable to register peer, its setup key is invalid (expired, overused or revoked)''))"
proof -
  obtain s' p where r: "AddPeer ex_store ex_fresh ''b2'' [] (ex_peer ''k'') = Some (s', Ret p)"
    using ex_AddPeer by blast
  have "getAccountSetupKeyByKey ex_account (ToUpper ''b2'') =
      Some (GenerateSetupKey ''b2'' 1000 ''One-off key'' SetupKeyOneOff DefaultSetupKeyDuration)"
    by (simp add: getAccountSetupKeyByKey_def ex_maps vals_def GenerateSetupKey_def Let_def)
  then show ?thesis using one_off_key_spent [OF ex_good _ r ex_by_key] r
    by (auto simp: GenerateSetupKey_def Let_def)
qed

lemma SaveAccount_Err_disk:
  assumes "SaveAccount s a = (s', Err e)" "Accounts s \<noteq> NilMap"
  shows "disk s' = disk s"
  using assms
proof (rule SaveAccount_cases)
  fix t q
  assume tq: "go_for (index_rule a) (vals (Account_Rules a))
       (index_peers a (index_keys a (s\<lparr>Accounts := GoMap (AList.update (Account_Id a) a (entries (Accounts s)))\<rparr>))) = (t, q)"
    and ok: "q = Ret () \<Longrightarrow> persist (index_domain a (index_users a t)) = (s', Err e)"
    and bad: "q \<noteq> Ret () \<Longrightarrow> s' = t \<and> Err e = q"
  have "disk t = disk s"
    using forget_rules_fields(7) [OF index_rules_frame [OF tq]] by (simp add: index_closed)
  then show ?thesis using bad persist_err_disk [OF ok]
    by (cases "q = Ret ()") (auto simp: index_closed index_domain_def)
qed

text \<open>
  A registration that reports an error has not reached the file; unless the error is
  that the file could not be written, it has not changed the store in memory either.
\<close>

theorem AddPeer_error:
  assumes "all_accounts good_account s" "AddPeer s fr setupKey u peer = Some (s', Err e)"
  shows "disk s' = disk s \<and> (s' = s \<or> e = StatusError Internal ''failed adding peer'')"
proof -
  have "disk t = disk s" if "join_account s now a sk gid p = (t, Err e')" for now a sk gid p t e'
    using that SaveAccount_Err_disk assms(1)
    by (auto simp: join_account_def Let_def all_accounts_def split: option.splits)
  then show ?thesis using assms(2)
    by (auto simp: AddPeer_def Let_def then_return_Err split: outcome.splits option.splits prod.splits)
qed

theorem AddPeer_error_witness:
  "AddPeer ex_store ex_fresh ''zz'' [] (ex_peer ''k'') =
     Some (ex_store, Err (StatusError NotFound ''unable to register peer, unable to find account with setupKey ZZ'')) \<and>
   disk ex_store = disk ex_store"
proof -
  have "ToUpper ''zz'' = ''ZZ''" by code_simp
  moreover have "SetupKeyId2AccountId ex_store ''ZZ'' = None"
    using SaveAccount_Ret(1) [OF ex_saved(1)] by (simp add: ex_maps keys_def empty_store_def)
  ultimately have r: "AddPeer ex_store ex_fresh ''zz'' [] (ex_peer ''k'') =
     Some (ex_store, Err (StatusError NotFound ''unable to register peer, unable to find account with setupKey ZZ''))"
    using ToUpper_idem [of "''zz''"]
    by (simp add: AddPeer_def find_registration_def GetAccountBySetupKey_def)
  then show ?thesis using AddPeer_error [OF ex_good r] by simp
qed

section \<open>Invariants of every run\<close>


text \<open>
  In every run a one-off key has been used at most once, and the network of every
  account is a /16 block, so that the search for a free address always ends.
\<close>

theorem one_off_at_most_once:
  assumes "manager_run (empty_store file st faults) s" "GetAccount s i = Ret a"
    and "lookup (Account_SetupKeys a) k = Some key"
  shows "(SetupKey_Type key = SetupKeyOneOff \<longrightarrow> SetupKey_UsedTimes key \<le> 1) \<and> 0 \<le> SetupKey_UsedTimes key \<and>
    SetupKey_Key key = k \<and> AllocatePeerIP r (Network_Net (Account_Network a)) taken \<noteq> None"
proof -
  have a: "good_account a" using manager_run_good [OF assms(1) empty_good] goodD(1) assms(2) by blast
  then have "key_used_ok key" "\<exists>x y. Network_Net (Account_Network a) = net16 x y"
    using assms(3) by (auto simp: good_account_def one_off_ok_def slash16_def)
  then show ?thesis
    using keyed_lookup [OF good_keyed(4) [OF a] assms(3)] allocate_total by (auto simp: key_used_ok_def)
qed

lemma ex_run: "manager_run (empty_store ''store.json'' NoFile []) ex_store"
proof (rule manager_run.step [OF manager_run.start])
  obtain r where "AddAccount (empty_store ''store.json'' NoFile []) ex_fresh ''acc'' ''u'' ''x.y'' = (ex_store, r)"
    by (metis AddAccount_def ex_store_def prod.collapse)
  then show "manager_step (empty_store ''store.json'' NoFile []) ex_store" by (intro manager_step.Admin admin_step.AddAccount)
qed

text \<open>Two registrations with the reusable key of the example account.\<close>

lemma SaveAccount_faults:
  "SaveAccount s a = (s', Ret ()) \<Longrightarrow> write_faults s = [] \<Longrightarrow> write_faults s' = []"
proof (erule SaveAccount_Ret_stages)
  fix t
  assume w: "write_faults s = []" and tq: "go_for (index_rule a) (vals (Account_Rules a))
       (index_peers a (index_keys a (s\<lparr>Accounts := GoMap (AList.update (Account_Id a) a (entries (Accounts s)))\<rparr>))) = (t, Ret ())"
    and ok: "persist (index_domain a (index_users a t)) = (s', Ret ())"
  have "write_faults t = []"
    using forget_rules_fields(8) [OF index_rules_frame [OF tq]] w by (simp add: index_closed)
  then have "write_faults (index_domain a (index_users a t)) = []"
    by (simp add: index_closed index_domain_def)
  then show ?thesis using ok by (auto simp: persist.simps)
qed

lemma ex_first:
  "\<exists>s p. AddPeer ex_store ex_fresh ''a1'' [] (ex_peer ''k'') = Some (s, Ret p) \<and>
     (\<exists>s' q. AddPeer s ex_fresh ''a1'' [] (ex_peer ''l'') = Some (s', Ret q))"
proof -
  let ?k = "GenerateSetupKey ''a1'' 1000 DefaultSetupKeyName SetupKeyReusable DefaultSetupKeyDuration"
  have "GetAccountBySetupKey ex_store ''A1'' = Ret ex_account"
    by (rule by_key.find_saved [OF _ ex_saved(1)]) (simp_all add: empty_store_def ex_maps keys_def)
  then have reg: "find_registration ex_store 1000 (ToUpper ''a1'') [] = Ret (ex_account, Some ?k)"
    by (simp add: find_registration_def getAccountSetupKeyByKey_def ex_maps vals_def GenerateSetupKey_def
        key_status_defs DefaultSetupKeyDuration_def hour_def Let_def)
  have "\<exists>s' p. AddPeer ex_store ex_fresh ''a1'' [] (ex_peer ''k'') = Some (s', Ret p)"
    by (rule AddPeer_ok [OF ex_good _ ex_all ex_closed])
      (use reg in \<open>simp_all add: ex_fresh_def ex_maps vals_def ex_saved(2)\<close>)
  then obtain s p where first: "AddPeer ex_store ex_fresh ''a1'' [] (ex_peer ''k'') = Some (s, Ret p)" by blast
  have good: "good_store s" by (rule good_AddPeer [OF ex_good first])
  have ne: "''a1'' \<noteq> []" by simp
  obtain a k gid g where reg': "find_registration ex_store (fr_now ex_fresh) (ToUpper ''a1'') [] = Ret (a, Some k)"
    and save: "SaveAccount ex_store (joined (fr_now ex_fresh) a (Some k) gid p) = (s, Ret ())"
    and after: "GetAccountBySetupKey s (ToUpper ''a1'') = Ret (joined (fr_now ex_fresh) a (Some k) gid p)"
      "getAccountSetupKeyByKey (joined (fr_now ex_fresh) a (Some k) gid p) (ToUpper ''a1'') =
       Some (IncrementUsage (fr_now ex_fresh) k)"
    and g: "GetGroupAll a = Ret (gid, g)"
    using AddPeer_key [OF ex_good ne first] by metis
  have now: "fr_now ex_fresh = 1000" by (simp add: ex_fresh_def)
  have "Ret (a, Some k) = Ret (ex_account, Some ?k)" using reg reg' now by metis
  then have ak: "a = ex_account" "k = ?k" by auto
  then have "Ret (gid, g) = Ret (''g'', \<lparr>Group_ID = ''g'', Group_Name = ''All'', Group_Peers = []\<rparr>)"
    using g ex_all by metis
  then have gid: "gid = ''g''" by simp
  let ?a = "joined 1000 ex_account (Some ?k) ''g'' p"
  have maps: "Account_Peers ?a = GoMap [(Peer_Key p, p)]" "rules_closed ?a"
    "\<exists>g. GetGroupAll ?a = Ret (''g'', g)"
    by (simp_all add: joined_def ex_maps rules_closed_def vals_def GetGroupAll_def map_entry_def)
  have "IsValid 1000 (IncrementUsage 1000 ?k)"
    by (simp add: key_status_defs IncrementUsage_def GenerateSetupKey_def Let_def DefaultSetupKeyDuration_def hour_def)
  then have reg2: "find_registration s (fr_now ex_fresh) (ToUpper ''a1'') [] = Ret (?a, Some (IncrementUsage 1000 ?k))"
    using after by (simp add: find_registration_def ak gid now)
  have w: "write_faults s = []" using SaveAccount_faults [OF save] ex_saved(2) by simp
  obtain g where g2: "GetGroupAll ?a = Ret (''g'', g)" using maps(3) by blast
  have n: "Account_Peers ?a \<noteq> NilMap" "length (vals (Account_Peers ?a)) < 65278"
    unfolding maps(1) by (simp_all add: vals_def)
  have "\<exists>s' q. AddPeer s ex_fresh ''a1'' [] (ex_peer ''l'') = Some (s', Ret q)"
    by (rule AddPeer_ok [OF good reg2 g2 maps(2) n w])
  with first show ?thesis by blast
qed

lemma ex_two_peers:
  "\<exists>s a p q. manager_run (empty_store ''store.json'' NoFile []) s \<and> GetAccount s ''acc'' = Ret a \<and>
     lookup (Account_Peers a) ''k'' = Some p \<and> lookup (Account_Peers a) ''l'' = Some q"
proof -
  obtain s p s' q where 1: "AddPeer ex_store ex_fresh ''a1'' [] (ex_peer ''k'') = Some (s, Ret p)"
    and 2: "AddPeer s ex_fresh ''a1'' [] (ex_peer ''l'') = Some (s', Ret q)"
    using ex_first by blast
  have run: "manager_run (empty_store ''store.json'' NoFile []) s'"
    using ex_run manager_step.AddPeer [OF 1] manager_step.AddPeer [OF 2] manager_run.step by blast
  obtain a a' where a: "GetAccount ex_store (Account_Id a) = Ret a"
    "\<And>j. GetAccount s j = (if j = Account_Id a then Ret a' else GetAccount ex_store j)"
    "\<And>k. lookup (Account_Peers a') k = (if k = ''k'' then Some p else lookup (Account_Peers a) k)"
    using AddPeer_peers [OF ex_good 1] by (auto simp: ex_peer_def)
  obtain b b' where b: "GetAccount s (Account_Id b) = Ret b"
    "\<And>j. GetAccount s' j = (if j = Account_Id b then Ret b' else GetAccount s j)"
    "\<And>k. lookup (Account_Peers b') k = (if k = ''l'' then Some q else lookup (Account_Peers b) k)"
    using AddPeer_peers [OF good_AddPeer [OF ex_good 1] 2] by (auto simp: ex_peer_def)
  have "Account_Id a = ''acc''" "Account_Id b = ''acc''"
    using a(1) b(1) a(2) [of "Account_Id b"] ex_GetAccount by (metis outcome.distinct(1))+
  then have "b = a'" "GetAccount s' ''acc'' = Ret b'" using a(2) b(1,2) by auto
  with run a(3) b(3) show ?thesis by fastforce
qed


text \<open>
  C34: in every run the accounts are well-formed: an account is stored under its own identifier,
  every setup key, peer, user, group and rule of it under its own name, no map has a name twice,
  and the network of the account is a /16 block.
\<close>

theorem accounts_well_formed:
  assumes "manager_run (empty_store file st faults) s" "GetAccount s i = Ret a"
  shows "Account_Id a = i \<and> wf_account a \<and> slash16 a"
  using manager_run_good [OF assms(1) empty_good] assms(2) unfolding all_accounts_def good_account_def by blast

theorem accounts_well_formed_witness:
  "manager_run (empty_store ''store.json'' NoFile []) ex_store \<and> GetAccount ex_store ''acc'' = Ret ex_account \<and> wf_account ex_account"
  using ex_run ex_GetAccount accounts_well_formed [OF ex_run, of "''acc''" ex_account] by simp

theorem one_off_at_most_once_witness:
  "manager_run (empty_store ''store.json'' NoFile []) ex_store \<and> GetAccount ex_store ''acc'' = Ret ex_account \<and>
   (\<exists>key. lookup (Account_SetupKeys ex_account) ''B2'' = Some key \<and> SetupKey_Type key = SetupKeyOneOff \<and>
      SetupKey_UsedTimes key \<le> 1)"
proof -
  have get: "GetAccount ex_store ''acc'' = Ret ex_account" by (simp add: ex_GetAccount)
  obtain key where key: "lookup (Account_SetupKeys ex_account) ''B2'' = Some key" "SetupKey_Type key = SetupKeyOneOff"
    by (simp add: ex_maps GenerateSetupKey_def Let_def)
  from one_off_at_most_once [OF ex_run get key(1)] key get ex_run show ?thesis by blast
qed

section \<open>The network map\<close>

lemma index_rules_None:
  assumes "\<forall>r \<in> set rs. \<forall>g \<in> set (Rule_Source r @ Rule_Destination r). lookup (Account_Groups a) g \<noteq> None"
    and "go_for (index_rule a) rs s = (t, q)"
  shows "PeerKeyId2SrcRulesId t pid = None \<longleftrightarrow> PeerKeyId2SrcRulesId s pid = None \<and>
           (\<forall>r \<in> set rs. \<forall>gid \<in> set (Rule_Source r). pid \<notin> set (group_members a gid))"
    and "PeerKeyId2DstRulesId t pid = None \<longleftrightarrow> PeerKeyId2DstRulesId s pid = None \<and>
           (\<forall>r \<in> set rs. \<forall>gid \<in> set (Rule_Destination r). pid \<notin> set (group_members a gid))"
  using assms by (induction rs arbitrary: s) (auto simp: index_rule_closed fold_groups_None)

lemma SaveAccount_None:
  assumes "SaveAccount s a = (s', Ret ())" "rules_closed a"
  shows "PeerKeyId2SrcRulesId s' pid = None \<longleftrightarrow> PeerKeyId2SrcRulesId s pid = None \<and> src_ids a pid = {}"
    and "PeerKeyId2DstRulesId s' pid = None \<longleftrightarrow> PeerKeyId2DstRulesId s pid = None \<and> dst_ids a pid = {}"
proof -
  obtain t where tq: "go_for (index_rule a) (vals (Account_Rules a))
       (index_peers a (index_keys a (s\<lparr>Accounts := GoMap (AList.update (Account_Id a) a (entries (Accounts s)))\<rparr>))) = (t, Ret ())"
    and ok: "persist (index_domain a (index_users a t)) = (s', Ret ())"
    using assms(1) by (rule SaveAccount_Ret_stages)
  note none = index_rules_None [OF assms(2) [unfolded rules_closed_def] tq]
  show "PeerKeyId2SrcRulesId s' pid = None \<longleftrightarrow> PeerKeyId2SrcRulesId s pid = None \<and> src_ids a pid = {}"
    using none(1) persist_frame(6) [OF ok] by (auto simp: index_closed index_domain_def src_ids_def)
  show "PeerKeyId2DstRulesId s' pid = None \<longleftrightarrow> PeerKeyId2DstRulesId s pid = None \<and> dst_ids a pid = {}"
    using none(2) persist_frame(7) [OF ok] by (auto simp: index_closed index_domain_def dst_ids_def)
qed

text \<open>The map of groups holds, for every group the rules reach, the group of the account.\<close>

lemma update_own:
  assumes "\<forall>(g, v) \<in> set gs. v = f g"
  shows "set (AList.update k (f k) gs) = insert (k, f k) (set gs)"
  using assms by (induction gs) auto

lemma fold_update_own:
  assumes "\<forall>(g, v) \<in> set gs. v = f g"
  shows "set (fold (\<lambda>gid gs. AList.update gid (f gid) gs) gids gs) = set gs \<union> (\<lambda>gid. (gid, f gid)) ` set gids"
  using assms
proof (induction gids arbitrary: gs)
  case Nil
  then show ?case by simp
next
  case (Cons gid gids)
  have "\<forall>(g, v) \<in> set (AList.update gid (f gid) gs). v = f g"
    using Cons.prems update_own [OF Cons.prems] by auto
  from Cons.IH [OF this] show ?case using update_own [OF Cons.prems] by auto
qed

lemma set_reach_groups:
  assumes "\<forall>(g, v) \<in> set gs. v = lookup (Account_Groups a) g"
  shows "set (reach_groups a side rules gs) = set gs \<union>
    {(gid, lookup (Account_Groups a) gid) | gid. \<exists>r \<in> set rules. Rule_Flow r = 0 \<and> gid \<in> set (side r)}"
  using assms
proof (induction rules arbitrary: gs)
  case Nil
  then show ?case by (simp add: reach_groups_def)
next
  case (Cons r rules)
  let ?gs = "if Rule_Flow r = 0
             then fold (\<lambda>gid gs. AList.update gid (lookup (Account_Groups a) gid) gs) (side r) gs else gs"
  have set: "set ?gs = set gs \<union> {(gid, lookup (Account_Groups a) gid) | gid. Rule_Flow r = 0 \<and> gid \<in> set (side r)}"
    using fold_update_own [OF Cons.prems] by auto
  then have "\<forall>(g, v) \<in> set ?gs. v = lookup (Account_Groups a) g" using Cons.prems by auto
  moreover have "reach_groups a side (r # rules) gs = reach_groups a side rules ?gs"
    by (simp add: reach_groups_def)
  ultimately show ?case using Cons.IH [of ?gs] set by auto
qed

lemma set_group_peers:
  "set (group_peers a k g) = {p. \<exists>pid \<in> set (Group_Peers g). lookup (Account_Peers a) pid = Some p \<and> Peer_Key p \<noteq> k}"
  by (auto simp: group_peers_def List.map_filter_def image_iff)

lemma collect_peers_Ret:
  assumes "\<forall>(gid, v) \<in> set gs. v = lookup (Account_Groups a) gid \<and> v \<noteq> None" "keyed Peer_Key (Account_Peers a)"
  shows "\<exists>res. collect_peers a k gs = Ret res \<and> (\<forall>p. p \<in> set res \<longleftrightarrow>
    (\<exists>gid \<in> fst ` set gs. \<exists>pid \<in> set (group_members a gid). lookup (Account_Peers a) pid = Some p \<and> pid \<noteq> k))"
  using assms
proof (induction a k gs rule: collect_peers.induct)
  case (3 a k gid g gs)
  then obtain res where "collect_peers a k gs = Ret res" "\<forall>p. p \<in> set res \<longleftrightarrow>
    (\<exists>gid \<in> fst ` set gs. \<exists>pid \<in> set (group_members a gid). lookup (Account_Peers a) pid = Some p \<and> pid \<noteq> k)"
    by auto
  moreover have "p \<in> set (group_peers a k g) \<longleftrightarrow>
      (\<exists>pid \<in> set (group_members a gid). lookup (Account_Peers a) pid = Some p \<and> pid \<noteq> k)" for p
  proof -
    have "lookup (Account_Groups a) gid = Some g" using "3.prems"(1) by simp
    then show ?thesis using keyed_lookup [OF "3.prems"(2)] by (auto simp: set_group_peers group_members_def)
  qed
  ultimately show ?case by auto
qed auto

text \<open>
  The access control a network map is meant to implement: a rule with traffic in both
  directions joins the peers of its source groups with those of its destination groups.
\<close>

definition acl :: "Account \<Rightarrow> string \<Rightarrow> string \<Rightarrow> bool" where
  "acl a k pid \<longleftrightarrow> (\<exists>r \<in> set (vals (Account_Rules a)). Rule_Flow r = TrafficFlowBidirect \<and>
     ((\<exists>g \<in> set (Rule_Source r). k \<in> set (group_members a g)) \<and>
      (\<exists>g \<in> set (Rule_Destination r). pid \<in> set (group_members a g)) \<or>
      (\<exists>g \<in> set (Rule_Destination r). k \<in> set (group_members a g)) \<and>
      (\<exists>g \<in> set (Rule_Source r). pid \<in> set (group_members a g))))"

lemma set_rules_of:
  assumes "keyed Rule_ID (Account_Rules a)" "set ids = {Rule_ID r | r. r \<in> set (vals (Account_Rules a)) \<and> P r}"
  shows "set (rules_of a ids) = {r \<in> set (vals (Account_Rules a)). P r}"
proof -
  have l: "r \<in> set (vals (Account_Rules a)) \<longleftrightarrow> lookup (Account_Rules a) (Rule_ID r) = Some r" for r
    using assms(1) keyed_lookup [OF assms(1)] vals_conv [OF keyed_wf [OF assms(1)]] by metis
  have m: "r \<in> set (rules_of a ids) \<longleftrightarrow> (\<exists>i \<in> set ids. lookup (Account_Rules a) i = Some r)" for r
    unfolding rules_of_def by (induction ids) (auto simp: List.map_filter_def split: option.splits)
  have "(\<exists>i \<in> set ids. lookup (Account_Rules a) i = Some r) \<longleftrightarrow> r \<in> set (vals (Account_Rules a)) \<and> P r" for r
  proof
    assume "\<exists>i \<in> set ids. lookup (Account_Rules a) i = Some r"
    then obtain q where "lookup (Account_Rules a) (Rule_ID q) = Some r" "q \<in> set (vals (Account_Rules a))" "P q"
      unfolding assms(2) by blast
    then show "r \<in> set (vals (Account_Rules a)) \<and> P r" using l [of q] by simp
  next
    assume r: "r \<in> set (vals (Account_Rules a)) \<and> P r"
    then have "Rule_ID r \<in> set ids" unfolding assms(2) by blast
    with r l [of r] show "\<exists>i \<in> set ids. lookup (Account_Rules a) i = Some r" by blast
  qed
  with m show ?thesis by blast
qed

lemma rule_set_exact:
  "m k \<noteq> None \<Longrightarrow> rule_set m k = A \<Longrightarrow> \<exists>ids. m k = Some ids \<and> set ids = A"
  by (auto simp: rule_set_def)

lemma reached_acl:
  assumes "keyed Rule_ID (Account_Rules a)" "rules_closed a" "set si = src_ids a k" "set di = dst_ids a k"
    and gs_def: "gs = reach_groups a Rule_Source (rules_of a di) (reach_groups a Rule_Destination (rules_of a si) [])"
  shows "\<forall>(gid, v) \<in> set gs. v = lookup (Account_Groups a) gid \<and> v \<noteq> None"
    and "(\<exists>gid \<in> fst ` set gs. pid \<in> set (group_members a gid)) \<longleftrightarrow> acl a k pid"
proof -
  note src = set_rules_of [OF assms(1) assms(3) [unfolded src_ids_def]]
    and dst = set_rules_of [OF assms(1) assms(4) [unfolded dst_ids_def]]
  have gs: "set gs = {(gid, lookup (Account_Groups a) gid) | gid.
      (\<exists>r \<in> set (rules_of a si). Rule_Flow r = 0 \<and> gid \<in> set (Rule_Destination r)) \<or>
      (\<exists>r \<in> set (rules_of a di). Rule_Flow r = 0 \<and> gid \<in> set (Rule_Source r))}"
    unfolding gs_def by (subst set_reach_groups; subst set_reach_groups) auto
  show "\<forall>(gid, v) \<in> set gs. v = lookup (Account_Groups a) gid \<and> v \<noteq> None"
    using assms(2) unfolding gs src dst rules_closed_def by auto
  have reach: "gid \<in> fst ` set gs \<longleftrightarrow> (\<exists>r \<in> set (rules_of a si). Rule_Flow r = 0 \<and> gid \<in> set (Rule_Destination r)) \<or>
      (\<exists>r \<in> set (rules_of a di). Rule_Flow r = 0 \<and> gid \<in> set (Rule_Source r))" for gid
    unfolding gs by force
  show "(\<exists>gid \<in> fst ` set gs. pid \<in> set (group_members a gid)) \<longleftrightarrow> acl a k pid"
    unfolding Bex_def reach src dst acl_def by blast
qed

lemma GetNetworkMap_saved:
  assumes "SaveAccount s a = (s', Ret ())" "wf_account a" "rules_closed a"
    and "PeerKeyId2SrcRulesId s k = None" "PeerKeyId2DstRulesId s k = None"
    and "lookup (Account_Peers a) k \<noteq> None"
  shows "\<exists>nm. GetNetworkMap s' k = Ret nm \<and> NetworkMap_Network nm = Account_Network a \<and>
    (\<forall>p. p \<in> set (NetworkMap_Peers nm) \<longleftrightarrow> src_ids a k \<noteq> {} \<and> dst_ids a k \<noteq> {} \<and>
       (\<exists>pid. pid \<noteq> k \<and> lookup (Account_Peers a) pid = Some p \<and> acl a k pid))"
proof -
  have keyed: "keyed Rule_ID (Account_Rules a)" "keyed Peer_Key (Account_Peers a)"
    using assms(2) by (auto simp: wf_account_def)
  have acc: "GetAccount s' (Account_Id a) = Ret a" by (rule fs.get_saved [OF SaveAccount_Ret(7) assms(1)]) (rule assms)
  obtain q where q: "lookup (Account_Peers a) k = Some q" using assms(6) by blast
  have "k \<in> Peer_Key ` set (vals (Account_Peers a))"
    by (rule image_eqI [OF _ vals_lookup [OF q]]) (simp add: keyed_lookup [OF keyed(2) q])
  then have peer_acc: "GetPeerAccount s' k = Ret a"
    by (rule by_peer.find_saved [OF SaveAccount_Ret(7) [OF assms(1)] assms(1)])
  show ?thesis
  proof (cases "src_ids a k \<noteq> {} \<and> dst_ids a k \<noteq> {}")
    case False
    then have "PeerKeyId2SrcRulesId s' k = None \<or> PeerKeyId2DstRulesId s' k = None"
      using SaveAccount_None [OF assms(1,3), of k] assms(4,5) by simp
    then have "GetNetworkMap s' k = Ret \<lparr>NetworkMap_Peers = [], NetworkMap_Network = Account_Network a\<rparr>"
      using peer_acc acc
      by (auto simp: GetNetworkMap_def GetPeerSrcRules_def GetPeerDstRules_def split: option.splits)
    with False show ?thesis by auto
  next
    case True
    obtain si di where si: "PeerKeyId2SrcRulesId s' k = Some si" "set si = src_ids a k"
      and di: "PeerKeyId2DstRulesId s' k = Some di" "set di = dst_ids a k"
      using SaveAccount_None [OF assms(1,3), of k] SaveAccount_rules [OF assms(1,3), of k] assms(4,5) True
        rule_set_exact [of "PeerKeyId2SrcRulesId s'" k] rule_set_exact [of "PeerKeyId2DstRulesId s'" k]
      by (auto simp: rule_set_def)
    define gs where "gs = reach_groups a Rule_Source (rules_of a di) (reach_groups a Rule_Destination (rules_of a si) [])"
    note reached = reached_acl [OF keyed(1) assms(3) si(2) di(2) gs_def]
    from reached(1) obtain res where res: "collect_peers a k gs = Ret res" and mem: "\<forall>p. p \<in> set res \<longleftrightarrow>
        (\<exists>gid \<in> fst ` set gs. \<exists>pid \<in> set (group_members a gid). lookup (Account_Peers a) pid = Some p \<and> pid \<noteq> k)"
      using collect_peers_Ret [OF _ keyed(2)] by blast
    have "GetNetworkMap s' k = Ret \<lparr>NetworkMap_Peers = res, NetworkMap_Network = Account_Network a\<rparr>"
      using peer_acc acc si(1) di(1) res
      by (simp add: GetNetworkMap_def GetPeerSrcRules_def GetPeerDstRules_def gs_def Let_def)
    moreover have "p \<in> set res \<longleftrightarrow> (\<exists>pid. pid \<noteq> k \<and> lookup (Account_Peers a) pid = Some p \<and> acl a k pid)" for p
      unfolding mem [rule_format] reached(2) [symmetric] by blast
    ultimately show ?thesis using True by simp
  qed
qed


definition ex_peer_at :: "string \<Rightarrow> nat \<Rightarrow> Peer" where
  "ex_peer_at k n = (ex_peer k)\<lparr>Peer_IP := ip16 100 69 n\<rparr>"

definition ex_net_account :: Account where
  "ex_net_account = ex_account\<lparr>
     Account_Peers := GoMap [(''k'', ex_peer_at ''k'' 2), (''l'', ex_peer_at ''l'' 3)],
     Account_Groups := GoMap [(''g'', \<lparr>Group_ID = ''g'', Group_Name = ''All'', Group_Peers = [''k'', ''l'']\<rparr>)]\<rparr>"

lemma ex_net_maps:
  "Account_Rules ex_net_account = Account_Rules ex_account"
  "Account_Peers ex_net_account = GoMap [(''k'', ex_peer_at ''k'' 2), (''l'', ex_peer_at ''l'' 3)]"
  "Account_Groups ex_net_account =
     GoMap [(''g'', \<lparr>Group_ID = ''g'', Group_Name = ''All'', Group_Peers = [''k'', ''l'']\<rparr>)]"
  "Account_SetupKeys ex_net_account = Account_SetupKeys ex_account" "Account_Users ex_net_account = GoMap []"
  by (simp_all add: ex_net_account_def ex_maps)

lemma ex_net_closed: "rules_closed ex_net_account"
  by (simp add: rules_closed_def ex_net_maps ex_maps vals_def)

lemma ex_net_good: "good_account ex_net_account"
proof -
  have "ip_string (ip16 100 69 2) \<noteq> ip_string (ip16 100 69 3)" by (simp add: ip_string_ip16_inj)
  then have "ip_unique ex_net_account"
    by (auto simp: ip_unique_def ex_net_maps ex_peer_at_def split: if_splits)
  moreover have "wf_account ex_net_account"
    by (simp add: wf_account_def ex_net_maps ex_maps keyed_def wf_map_def keys_def ex_peer_at_def ex_peer_def
        GenerateSetupKey_def Let_def)
  moreover have "good_account ex_account" using goodD(1) [OF ex_good] ex_GetAccount by simp
  then have "one_off_ok ex_net_account" "slash16 ex_net_account"
    by (auto simp: good_account_def one_off_ok_def slash16_def ex_net_maps) (auto simp: ex_net_account_def)
  ultimately show ?thesis by (simp add: good_account_def)
qed


section \<open>Deleting a peer\<close>

lemma SendUpdate_Ret:
  assumes "SendUpdate m k u = Some (m', Ret ())" "pum_ok m"
  shows "peerChannels m' = peerChannels m"
    and "channels m' c = (if peerChannels m k = Some c
           then (channels m c)\<lparr>chan_buf := chan_buf (channels m c) @ [u]\<rparr> else channels m c)"
  using assms by (auto simp: SendUpdate_def split: option.splits if_splits)

definition notified :: "64 word \<Rightarrow> Peer list \<Rightarrow> Peer list \<Rightarrow> PeersUpdateManager \<Rightarrow> nat \<Rightarrow> channel" where
  "notified serial peers ps m c = (case find (\<lambda>q. peerChannels m (Peer_Key q) = Some c) ps of
     None \<Rightarrow> channels m c
   | Some q \<Rightarrow> (channels m c)\<lparr>chan_buf := chan_buf (channels m c) @
       [peers_update serial (filter (\<lambda>r. Peer_Key q \<noteq> Peer_Key r) peers)]\<rparr>)"

lemma notify_peers_Ret:
  assumes "notify_peers serial peers ps m = Some (m', Ret ())" "pum_ok m" "distinct (map Peer_Key ps)"
  shows "peerChannels m' = peerChannels m \<and> pum_ok m' \<and> (\<forall>c. channels m' c = notified serial peers ps m c)"
  using assms
proof (induction ps arbitrary: m)
  case Nil
  then show ?case by (simp add: notified_def)
next
  case (Cons p ps)
  let ?u = "peers_update serial (filter (\<lambda>r. Peer_Key p \<noteq> Peer_Key r) peers)"
  obtain m1 where m1: "SendUpdate m (Peer_Key p) ?u = Some (m1, Ret ())"
    and rest: "notify_peers serial peers ps m1 = Some (m', Ret ())"
    using Cons.prems(1) by (auto simp: Let_def split: option.splits outcome.splits)
  note ok = pum_ok_send(1) [OF Cons.prems(2) m1] and sent = SendUpdate_Ret [OF m1 Cons.prems(2)]
  have d: "distinct (map Peer_Key ps)" using Cons.prems(3) by simp
  note IH = Cons.IH [OF rest ok d]
  have "find (\<lambda>q. peerChannels m (Peer_Key q) = Some c) ps = None" if "peerChannels m (Peer_Key p) = Some c" for c
    using pum_ok_inj [OF Cons.prems(2) that] Cons.prems(3) by (auto simp: find_None_iff image_iff)
  then have "notified serial peers ps m1 c = notified serial peers (p # ps) m c" for c
    by (auto simp: notified_def sent split: option.splits)
  with IH sent(1) show ?case by simp
qed

lemma keyed_distinct: "keyed f m \<Longrightarrow> distinct (map f (vals m))"
proof -
  assume "keyed f m"
  then have "map f (vals m) = keys m" "distinct (keys m)"
    by (auto simp: keyed_def vals_def keys_def wf_map_def)
  then show ?thesis by simp
qed

lemma notified_peer:
  assumes "lookup ps l = Some q" "peerChannels m l = Some c" "keyed Peer_Key ps" "pum_ok m"
  shows "notified serial peers (vals ps) m c = (channels m c)\<lparr>chan_buf := chan_buf (channels m c) @
       [peers_update serial (filter (\<lambda>r. l \<noteq> Peer_Key r) peers)]\<rparr>"
proof -
  have "q \<in> set (vals ps)" "Peer_Key q = l" using assms(1,3) vals_lookup keyed_lookup by metis+
  then have "\<exists>r. find (\<lambda>q. peerChannels m (Peer_Key q) = Some c) (vals ps) = Some r"
    using assms(2) find_None_iff [of "\<lambda>q. peerChannels m (Peer_Key q) = Some c" "vals ps"] by fastforce
  then obtain r where r: "find (\<lambda>q. peerChannels m (Peer_Key q) = Some c) (vals ps) = Some r" by blast
  then have "peerChannels m (Peer_Key r) = Some c" by (auto simp: find_Some_iff)
  then have "Peer_Key r = l" using assms(2,4) pum_ok_inj by blast
  with r show ?thesis by (simp add: notified_def)
qed

lemma close_buf: "chan_buf (channels (CloseChannel m k) c) = chan_buf (channels m c)"
  by (simp add: CloseChannel_def close_channel_def split: option.splits)

text \<open>A successful deletion, step by step.\<close>

lemma DeletePeer_Ret:
  assumes "good_store s" "DeletePeer s m i k = Some ((s', m'), Ret p)"
  obtains a s1 m1 m2 a' where "GetAccount s i = Ret a" "lookup (Account_Peers a) k = Some p"
    "a' = a\<lparr>Account_Peers := map_delete (Account_Peers a) k, Account_Groups := cleanup_map k (Account_Groups a),
            Account_Network := IncSerial (Account_Network a)\<rparr>"
    "PeerKeyId2AccountId s1 k = None" "SaveAccount s1 a' = (s', Ret ())"
    "SendUpdate m k (empty_update (Network_Serial (Account_Network a'))) = Some (m1, Ret ())"
    "notify_peers (Network_Serial (Account_Network a')) (vals (Account_Peers a')) (vals (Account_Peers a')) m1
       = Some (m2, Ret ())"
    "m' = CloseChannel m2 k"
proof -
  obtain s1 where d: "Store_DeletePeer s i k = (s1, Ret p)"
    using assms(2) by (auto simp: DeletePeer_def Let_def split: outcome.splits prod.splits option.splits)
  from d obtain a where a: "GetAccount s i = Ret a" "lookup (Account_Peers a) k = Some p"
    "GetAccount s1 i = Ret (a\<lparr>Account_Peers := map_delete (Account_Peers a) k,
                              Account_Groups := cleanup_map k (Account_Groups a)\<rparr>)"
    "PeerKeyId2AccountId s1 = (PeerKeyId2AccountId s)(k := None)"
    by (rule Store_DeletePeer_Ret)
  let ?a = "a\<lparr>Account_Peers := map_delete (Account_Peers a) k, Account_Groups := cleanup_map k (Account_Groups a),
              Account_Network := IncSerial (Account_Network a)\<rparr>"
  let ?n = "Network_Serial (Account_Network ?a)"
  obtain m1 where save: "SaveAccount s1 ?a = (s', Ret ())"
    and send: "SendUpdate m k (empty_update ?n) = Some (m1, Ret ())"
    and rest: "notify_deleted s' m1 i k ?n = Some (m', Ret ())"
    using assms(2) d a
    by (auto simp: DeletePeer_def Let_def CurrentSerial_def split: outcome.splits prod.splits option.splits)
  have "Account_Id a = i" by (rule all_accounts_id [OF assms(1) a(1)])
  then have "GetAccount s' i = Ret ?a" using fs.get_saved [OF SaveAccount_Ret(7) [OF save] save] by simp
  then obtain m2 where "notify_peers ?n (vals (Account_Peers ?a)) (vals (Account_Peers ?a)) m1 = Some (m2, Ret ())"
    "m' = CloseChannel m2 k"
    using rest by (auto simp: notify_deleted_def GetAccountPeers_def split: option.splits prod.splits outcome.splits)
  with a save send show ?thesis by (intro that [of a ?a s1 m1 m2]) auto
qed

text \<open>What the channels hold afterwards: all the others for a remaining peer, nobody for the deleted one.\<close>

lemma DeletePeer_channels:
  assumes "all_accounts good_account s" "pum_ok m" "DeletePeer s m i k = Some ((s', m'), Ret p)" "GetAccount s i = Ret a"
  defines "others \<equiv> vals (map_delete (Account_Peers a) k)" and "serial \<equiv> Network_Serial (Account_Network a) + 1"
  shows "lookup (Account_Peers a) l = Some q \<Longrightarrow> l \<noteq> k \<Longrightarrow> peerChannels m l = Some c \<Longrightarrow>
      chan_buf (channels m' c) = chan_buf (channels m c) @ [peers_update serial (filter (\<lambda>r. l \<noteq> Peer_Key r) others)]"
    and "peerChannels m k = Some c \<Longrightarrow> chan_buf (channels m' c) = chan_buf (channels m c) @ [empty_update serial] \<and> chan_closed (channels m' c)"
proof -
  let ?ps = "map_delete (Account_Peers a) k"
  obtain m1 m2 where send: "SendUpdate m k (empty_update serial) = Some (m1, Ret ())"
    and ntfy: "notify_peers serial others others m1 = Some (m2, Ret ())" and m': "m' = CloseChannel m2 k"
    by (rule DeletePeer_Ret [OF assms(1,3)]) (use assms(4) in \<open>auto simp: others_def serial_def IncSerial_def\<close>)
  have keyed: "keyed Peer_Key ?ps" using good_keyed(3) [OF goodD(1) [OF assms(1,4)]] by (rule keyed_delete)
  note ok1 = pum_ok_send(1) [OF assms(2) send] and sent = SendUpdate_Ret [OF send assms(2)]
  note told = notify_peers_Ret [OF ntfy ok1 keyed_distinct [OF keyed, folded others_def]]
  show "chan_buf (channels m' c) = chan_buf (channels m c) @ [peers_update serial (filter (\<lambda>r. l \<noteq> Peer_Key r) others)]"
    if q: "lookup (Account_Peers a) l = Some q" "l \<noteq> k" and c: "peerChannels m l = Some c"
  proof -
    have "peerChannels m k \<noteq> Some c" using c q(2) pum_ok_inj [OF assms(2)] by blast
    then have "channels m1 c = channels m c" "peerChannels m1 l = Some c" using sent c by auto
    moreover have "lookup ?ps l = Some q" using q by simp
    ultimately show ?thesis using told notified_peer [OF _ _ keyed ok1, of l q c] by (simp add: m' close_buf others_def)
  qed
  show "chan_buf (channels m' c) = chan_buf (channels m c) @ [empty_update serial] \<and> chan_closed (channels m' c)"
    if c: "peerChannels m k = Some c"
  proof -
    have "Peer_Key r \<noteq> k" if r: "r \<in> set others" for r
    proof -
      obtain j where j: "lookup ?ps j = Some r" using r vals_conv [OF keyed_wf [OF keyed]] unfolding others_def by blast
      with keyed_lookup [OF keyed j] show ?thesis by (auto split: if_splits)
    qed
    then have "find (\<lambda>q. peerChannels m1 (Peer_Key q) = Some c) others = None"
      using pum_ok_inj [OF ok1] sent(1) c by (auto simp: find_None_iff)
    then have "channels m2 c = channels m1 c" using told by (simp add: notified_def)
    then show ?thesis using sent(2) [of c] c told sent(1) by (simp add: m' CloseChannel_def close_channel_def)
  qed
qed


text \<open>A deletion succeeds when every channel has room for a message and the file can be written.\<close>

definition has_room :: "PeersUpdateManager \<Rightarrow> string \<Rightarrow> bool" where
  "has_room m k \<longleftrightarrow> (\<forall>c. peerChannels m k = Some c \<longrightarrow> length (chan_buf (channels m c)) < chan_capacity)"

lemma SendUpdate_room: "pum_ok m \<Longrightarrow> has_room m k \<Longrightarrow> \<exists>m'. SendUpdate m k u = Some (m', Ret ())"
  by (auto simp: SendUpdate_def has_room_def pum_ok_def split: option.splits)

lemma room_kept: "SendUpdate m k u = Some (m', Ret ()) \<Longrightarrow> pum_ok m \<Longrightarrow> l \<noteq> k \<Longrightarrow> has_room m l \<Longrightarrow> has_room m' l"
  using SendUpdate_Ret [of m k u m'] pum_ok_inj [of m k _ l] by (auto simp: has_room_def)

lemma notify_peers_room:
  assumes "pum_ok m" "distinct (map Peer_Key ps)" "\<forall>q \<in> set ps. has_room m (Peer_Key q)"
  shows "\<exists>m'. notify_peers serial peers ps m = Some (m', Ret ())"
  using assms
proof (induction ps arbitrary: m)
  case (Cons p ps)
  let ?u = "peers_update serial (filter (\<lambda>r. Peer_Key p \<noteq> Peer_Key r) peers)"
  obtain m1 where m1: "SendUpdate m (Peer_Key p) ?u = Some (m1, Ret ())" using SendUpdate_room [OF Cons.prems(1), of "Peer_Key p" ?u] Cons.prems(3) by auto
  have "\<forall>q \<in> set ps. has_room m1 (Peer_Key q)" 
    by (intro ballI room_kept [OF m1 Cons.prems(1)]) (use Cons.prems(2,3) in \<open>auto simp: image_iff\<close>)
  then obtain m' where "notify_peers serial peers ps m1 = Some (m', Ret ())"
    using Cons.IH [OF pum_ok_send(1) [OF Cons.prems(1) m1]] Cons.prems(2) by auto
  with m1 show ?case by (simp add: Let_def)
qed simp

lemma DeletePeer_saved:
  assumes "good_store s" "GetAccount s i = Ret a" "lookup (Account_Peers a) k = Some p" "rules_closed a" "write_faults s = []"
  defines "b \<equiv> a\<lparr>Account_Peers := map_delete (Account_Peers a) k, Account_Groups := cleanup_map k (Account_Groups a)\<rparr>"
  obtains s1 s' where "Store_DeletePeer s i k = (s1, Ret p)" "GetAccount s1 i = Ret b"
    "SaveAccount s1 (b\<lparr>Account_Network := IncSerial (Account_Network b)\<rparr>) = (s', Ret ())"
    "GetAccount s' i = Ret (b\<lparr>Account_Network := IncSerial (Account_Network b)\<rparr>)"
proof -
  let ?a = "b\<lparr>Account_Network := IncSerial (Account_Network b)\<rparr>"
  obtain s1 where d: "Store_DeletePeer s i k = (s1, Ret p)" and w: "write_faults s1 = []"
    using assms(2,3,5) by (auto simp: Store_DeletePeer_def Let_def persist.simps set_account_def)
  from d obtain a1 where "GetAccount s i = Ret a1" and get: "GetAccount s1 i = Ret (a1\<lparr>Account_Peers := map_delete (Account_Peers a1) k,
                              Account_Groups := cleanup_map k (Account_Groups a1)\<rparr>)"
    by (rule Store_DeletePeer_Ret)
  then have b: "GetAccount s1 i = Ret b" using assms(2) by (simp add: b_def)
  have "lookup (cleanup_map k (Account_Groups a)) g \<noteq> None \<longleftrightarrow> lookup (Account_Groups a) g \<noteq> None" for g
    using keys_cleanup_map by (metis lookup_keys)
  then have "rules_closed ?a" using assms(4) by (simp add: rules_closed_def b_def)
  moreover have "Accounts s1 \<noteq> NilMap" using b by (auto simp: GetAccount_def split: option.splits)
  ultimately obtain s' where save: "SaveAccount s1 ?a = (s', Ret ())" using SaveAccount_no_faults w by blast
  have "GetAccount s' i = Ret ?a"
    using fs.get_saved [OF SaveAccount_Ret(7) [OF save] save] all_accounts_id [OF assms(1,2)] by (simp add: b_def)
  with d b save show ?thesis by (rule that)
qed

lemma DeletePeer_ok:
  assumes "good_store s" "GetAccount s i = Ret a" "lookup (Account_Peers a) k = Some p" "rules_closed a"
    and "write_faults s = []" "pum_ok m" "\<forall>l. has_room m l"
  shows "\<exists>s' m'. DeletePeer s m i k = Some ((s', m'), Ret p)"
proof -
  let ?b = "a\<lparr>Account_Peers := map_delete (Account_Peers a) k, Account_Groups := cleanup_map k (Account_Groups a)\<rparr>"
  let ?a = "?b\<lparr>Account_Network := IncSerial (Account_Network ?b)\<rparr>"
  obtain s1 s' where d: "Store_DeletePeer s i k = (s1, Ret p)" and b: "GetAccount s1 i = Ret ?b"
    and save: "SaveAccount s1 ?a = (s', Ret ())" and "GetAccount s' i = Ret ?a"
    by (rule DeletePeer_saved [OF assms(1-5)])
  moreover have keyed: "keyed Peer_Key (Account_Peers ?a)"
    using good_keyed(3) [OF goodD(1) [OF assms(1,2)]] by (simp add: keyed_delete)
  moreover obtain m1 where m1: "SendUpdate m k (empty_update (Network_Serial (Account_Network ?a))) = Some (m1, Ret ())"
    using SendUpdate_room assms(6,7) by blast
  moreover have "has_room m1 (Peer_Key q)" if "q \<in> set (vals (Account_Peers ?a))" for q
  proof -
    obtain j where j: "lookup (Account_Peers ?a) j = Some q" using \<open>q \<in> _\<close> vals_conv [OF keyed_wf [OF keyed]] by blast
    then have "Peer_Key q \<noteq> k" using keyed_lookup [OF keyed j] by (auto split: if_splits)
    then show ?thesis using room_kept [OF m1 assms(6)] assms(7) by blast
  qed
  then obtain m2 where "notify_peers (Network_Serial (Account_Network ?a)) (vals (Account_Peers ?a)) (vals (Account_Peers ?a)) m1 = Some (m2, Ret ())"
    using notify_peers_room [OF pum_ok_send(1) [OF assms(6) m1] keyed_distinct [OF keyed]] by blast
  ultimately show ?thesis using assms(2) d b save
    by (simp add: DeletePeer_def Let_def notify_deleted_def GetAccountPeers_def CurrentSerial_def)
qed


end
