(* ===== verification/Store_Properties.thy ===== *)
theory Store_Properties
  imports Mgmt_Properties
begin

text \<open>
  The properties of the store of accounts, of the allocation of addresses, of setup
  keys, of the update channels and of the operations on groups and users.
\<close>

section \<open>The store\<close>

text \<open>
  C18: what a successful save stores is found again: the account under its identifier,
  under each of its setup keys (in any case), peers, users and, for the primary account of
  a private domain, under the domain; the file holds the accounts in memory, and every
  other account is untouched.
\<close>

theorem save_then_lookup:
  assumes "SaveAccount s a = (s', Ret ())"
  shows "GetAccount s' (Account_Id a) = Ret a \<and> (\<forall>i. i \<noteq> Account_Id a \<longrightarrow> GetAccount s' i = GetAccount s i) \<and>
    (\<forall>k. ToUpper k \<in> key_names a \<longrightarrow> GetAccountBySetupKey s' k = Ret a) \<and>
    (\<forall>k \<in> peer_names a. GetPeerAccount s' k = Ret a) \<and>
    (\<forall>u \<in> user_names a. GetUserAccount s' u = Ret a) \<and>
    (\<forall>d. Account_DomainCategory a = PrivateCategory \<and> Account_IsDomainPrimaryAccount a \<and>
       ToLower d = Account_Domain a \<longrightarrow> GetAccountByPrivateDomain s' d = Ret a) \<and>
    disk s' = Stored (Accounts s')"
proof -
  note ne = SaveAccount_Ret(7) [OF assms]
  show ?thesis
    using fs.get_saved [OF ne assms] fs.get_other [OF ne assms] by_key.find_saved [OF ne assms]
      by_peer.find_saved [OF ne assms] by_user.find_saved [OF ne assms] by_domain.find_saved [OF ne assms]
      SaveAccount_Ret(6) [OF assms]
    by (simp add: key_names_def peer_names_def user_names_def)
qed

theorem save_then_lookup_witness:
  "\<exists>s. SaveAccount (empty_store ''store.json'' NoFile []) ex_net_account = (s, Ret ()) \<and>
     GetPeerAccount s ''k'' = Ret ex_net_account \<and> GetAccountBySetupKey s ''b2'' = Ret ex_net_account"
proof -
  obtain s where s: "SaveAccount (empty_store ''store.json'' NoFile []) ex_net_account = (s, Ret ())"
    using SaveAccount_no_faults [OF ex_net_closed, of "empty_store ''store.json'' NoFile []"]
    by (auto simp: empty_store_def)
  have "''k'' \<in> peer_names ex_net_account" "ToUpper ''b2'' \<in> key_names ex_net_account"
    by (auto simp: peer_names_def key_names_def ex_net_maps ex_maps vals_def keys_def ex_peer_at_def ex_peer_def)
  with save_then_lookup [OF s] s show ?thesis by blast
qed

text \<open>
  Saving an account panics exactly when one of its rules names a group the account
  does not have; otherwise it returns, with an error only if the file could not be written.
\<close>

theorem save_panics_iff:
  assumes "Accounts s \<noteq> NilMap"
  shows "(\<exists>s' p. SaveAccount s a = (s', Panic p)) \<longleftrightarrow> \<not> rules_closed a"
  using SaveAccount_closed [OF _ assms, of a] SaveAccount_not_closed [OF _ assms, of a] by (metis prod.inject)

definition ex_broken_account :: Account where
  "ex_broken_account = ex_account\<lparr>Account_Groups := GoMap []\<rparr>"

theorem save_panics_iff_witness:
  "(\<exists>s' p. SaveAccount ex_store ex_broken_account = (s', Panic p)) \<and>
   \<not> (\<exists>s' p. SaveAccount ex_store ex_account = (s', Panic p))"
proof -
  have ne: "Accounts ex_store \<noteq> NilMap" by (rule SaveAccount_Ret(8) [OF ex_saved(1)])
  have "\<not> rules_closed ex_broken_account"
    by (simp add: ex_broken_account_def rules_closed_def ex_maps vals_def)
  then show ?thesis
    using save_panics_iff [OF ne, of ex_broken_account] save_panics_iff [OF ne, of ex_account] ex_closed by blast
qed

section \<open>Restarting\<close>

lemma indexed_unique:
  assumes "indexed s" "lookup (Accounts s) i = Some a" "lookup (Accounts s) j = Some b"
  shows "n \<in> key_names a \<Longrightarrow> n \<in> key_names b \<Longrightarrow> j = i"
    and "n \<in> peer_names a \<Longrightarrow> n \<in> peer_names b \<Longrightarrow> j = i"
    and "n \<in> user_names a \<Longrightarrow> n \<in> user_names b \<Longrightarrow> j = i"
  using assms unfolding indexed_def by (metis option.inject)+

lemma indexed_found:
  assumes "indexed s" "GetAccount s i = Ret a"
  shows "\<forall>k \<in> key_names a. GetAccountBySetupKey s k = Ret a" and "\<forall>k \<in> peer_names a. GetPeerAccount s k = Ret a"
    and "\<forall>u \<in> user_names a. GetUserAccount s u = Ret a"
proof -
  have "lookup (Accounts s) i = Some a" using assms(2) by (auto simp: GetAccount_def split: option.splits)
  moreover have "ToUpper k = k" if "k \<in> key_names a" for k using that by (auto simp: key_names_def)
  ultimately show "\<forall>k \<in> key_names a. GetAccountBySetupKey s k = Ret a"
    "\<forall>k \<in> peer_names a. GetPeerAccount s k = Ret a" "\<forall>u \<in> user_names a. GetUserAccount s u = Ret a"
    using assms by (simp_all add: indexed_def GetAccountBySetupKey_def GetPeerAccount_def GetUserAccount_def)
qed

text \<open>The indexes that \<open>restore\<close> builds from a store whose names are owned by one account each.\<close>

lemma restore_indexed:
  assumes "wf_store s"
  shows "indexed (fold (\<lambda>(i, a). restore_account i a) (entries (Accounts s))
    ((empty_store file d faults)\<lparr>Accounts := Accounts s\<rparr>))"
    (is "indexed ?t")
proof -
  have k: "keyed Account_Id (Accounts s)" and ix: "indexed s"
    using assms by (auto simp: wf_store_def)
  have ent: "(i, a) \<in> set (entries (Accounts s)) \<longleftrightarrow> lookup (Accounts s) i = Some a" for i a
    by (rule entries_lookup [OF keyed_wf [OF k]])
  have "(\<forall>n \<in> key_names a. SetupKeyId2AccountId ?t n = Some i) \<and>
        (\<forall>n \<in> peer_names a. PeerKeyId2AccountId ?t n = Some i) \<and>
        (\<forall>n \<in> user_names a. UserId2AccountId ?t n = Some i)" if a: "lookup (Accounts s) i = Some a" for i a
  proof (intro conjI ballI)
    note u = indexed_unique [OF ix a]
    have m: "(i, a) \<in> set (entries (Accounts s))" using a ent by blast
    show "SetupKeyId2AccountId ?t n = Some i" if n: "n \<in> key_names a" for n
    proof (rule re_key.rebuilt_unique [OF m n [unfolded key_names_def]])
      show "j = i" if "(j, b) \<in> set (entries (Accounts s))" "n \<in> ToUpper ` set (keys (Account_SetupKeys b))" for j b
        by (rule u(1) [OF that(1) [unfolded ent] n]) (simp add: key_names_def that(2))
    qed (simp add: empty_store_def)
    show "PeerKeyId2AccountId ?t n = Some i" if n: "n \<in> peer_names a" for n
    proof (rule re_peer.rebuilt_unique [OF m n [unfolded peer_names_def]])
      show "j = i" if "(j, b) \<in> set (entries (Accounts s))" "n \<in> Peer_Key ` set (vals (Account_Peers b))" for j b
        by (rule u(2) [OF that(1) [unfolded ent] n]) (simp add: peer_names_def that(2))
    qed (simp add: empty_store_def)
    show "UserId2AccountId ?t n = Some i" if n: "n \<in> user_names a" for n
    proof (rule re_user.rebuilt_unique [OF m n [unfolded user_names_def]])
      show "j = i" if "(j, b) \<in> set (entries (Accounts s))" "n \<in> User_Id ` set (vals (Account_Users b))" for j b
        by (rule u(3) [OF that(1) [unfolded ent] n]) (simp add: user_names_def that(2))
    qed (simp add: empty_store_def)
  qed
  then show ?thesis unfolding indexed_def restore_Accounts by simp
qed

text \<open>
  C17: a restart is transparent. If every name resolves to the account that carries it
  and the file holds the accounts in memory, then the store read back from the file has the
  same accounts and resolves every setup key, peer and user to the same account.
\<close>

theorem restart_transparent:
  assumes "wf_store s" "disk s = Stored (Accounts s)"
  shows "\<exists>t. restore file (disk s) faults = Ret t \<and> wf_store t \<and> (\<forall>i. GetAccount t i = GetAccount s i) \<and>
    (\<forall>i a. GetAccount s i = Ret a \<longrightarrow>
       (\<forall>k \<in> key_names a. GetAccountBySetupKey t k = Ret a \<and> GetAccountBySetupKey s k = Ret a) \<and>
       (\<forall>k \<in> peer_names a. GetPeerAccount t k = Ret a \<and> GetPeerAccount s k = Ret a) \<and>
       (\<forall>u \<in> user_names a. GetUserAccount t u = Ret a \<and> GetUserAccount s u = Ret a))"
proof -
  let ?t = "fold (\<lambda>(i, a). restore_account i a) (entries (Accounts s))
    ((empty_store file (disk s) faults)\<lparr>Accounts := Accounts s\<rparr>)"
  have r: "restore file (disk s) faults = Ret ?t" by (simp add: restore_def assms(2))
  have acc: "Accounts ?t = Accounts s" by (simp add: restore_Accounts)
  then have get: "GetAccount ?t i = GetAccount s i" for i by (simp add: GetAccount_def)
  have ix: "indexed ?t" "indexed s" using restore_indexed [OF assms(1)] assms(1) by (auto simp: wf_store_def)
  have "wf_store ?t" using assms(1) ix(1) acc by (simp add: wf_store_def)
  moreover note get r
  moreover have "(\<forall>k \<in> key_names a. GetAccountBySetupKey ?t k = Ret a \<and> GetAccountBySetupKey s k = Ret a) \<and>
       (\<forall>k \<in> peer_names a. GetPeerAccount ?t k = Ret a \<and> GetPeerAccount s k = Ret a) \<and>
       (\<forall>u \<in> user_names a. GetUserAccount ?t u = Ret a \<and> GetUserAccount s u = Ret a)"
    if "GetAccount s i = Ret a" for i a
    using that indexed_found [OF ix(1), of i a] indexed_found [OF ix(2) that] unfolding get by blast
  ultimately show ?thesis by blast
qed

lemma wf_empty: "wf_store (empty_store file st faults)"
  by (simp add: wf_store_def empty_store_def indexed_def)

lemma ex_net_stored:
  obtains s where "SaveAccount (empty_store ''store.json'' NoFile []) ex_net_account = (s, Ret ())"
    "wf_store s" "write_faults s = []" "disk s = Stored (Accounts s)" "GetAccount s ''acc'' = Ret ex_net_account"
    "good_store s"
proof -
  obtain s where s: "SaveAccount (empty_store ''store.json'' NoFile []) ex_net_account = (s, Ret ())"
    "write_faults s = []"
    using SaveAccount_no_faults [OF ex_net_closed, of "empty_store ''store.json'' NoFile []"]
    by (auto simp: empty_store_def)
  have wf: "wf_store s"
    by (rule SaveAccount_indexed [OF wf_empty s(1)]) (simp add: empty_store_def)
  have get: "GetAccount s ''acc'' = Ret ex_net_account"
    using fs.get_saved [OF SaveAccount_Ret(7) [OF s(1)] s(1)] by (simp add: ex_net_account_def ex_id)
  have good: "good_store s"
    using all_accounts_save [OF empty_good [of good_account] ex_net_good, of "''store.json''" NoFile "[]"] s(1) by simp
  from that [OF s(1) wf s(2) SaveAccount_Ret(6) [OF s(1)] get good] show ?thesis .
qed

theorem restart_transparent_witness:
  "\<exists>s t. SaveAccount (empty_store ''store.json'' NoFile []) ex_net_account = (s, Ret ()) \<and>
     restore ''store.json'' (disk s) [] = Ret t \<and> GetPeerAccount t ''k'' = Ret ex_net_account"
proof -
  obtain s where s: "SaveAccount (empty_store ''store.json'' NoFile []) ex_net_account = (s, Ret ())"
    "wf_store s" "disk s = Stored (Accounts s)" "GetAccount s ''acc'' = Ret ex_net_account"
    using ex_net_stored by metis
  have "''k'' \<in> peer_names ex_net_account"
    by (auto simp: peer_names_def ex_net_maps vals_def ex_peer_at_def ex_peer_def)
  with restart_transparent [OF s(2,3), of "''store.json''" "[]"] s(1,4) show ?thesis by blast
qed

text \<open>
  Saving an account whose setup keys, peers and users no other account carries keeps
  the store consistent: one entry per account, stored under its identifier, and every name
  resolved to its account.
\<close>

theorem save_keeps_store_consistent:
  assumes "wf_store s" "SaveAccount s a = (s', Ret ())"
    and "\<forall>i b. lookup (Accounts s) i = Some b \<longrightarrow> i \<noteq> Account_Id a \<longrightarrow> disjoint_names a b"
  shows "wf_store s'"
  by (rule SaveAccount_indexed [OF assms(1,2)]) (use assms(3) in blast)

theorem save_keeps_store_consistent_witness:
  "\<exists>s. SaveAccount (empty_store ''store.json'' NoFile []) ex_net_account = (s, Ret ()) \<and> wf_store s"
proof -
  obtain s where s: "SaveAccount (empty_store ''store.json'' NoFile []) ex_net_account = (s, Ret ())"
    using ex_net_stored by metis
  have "\<forall>i b. lookup (Accounts (empty_store ''store.json'' NoFile [])) i = Some b \<longrightarrow>
      i \<noteq> Account_Id ex_net_account \<longrightarrow> disjoint_names ex_net_account b"
    by (simp add: empty_store_def)
  with save_keeps_store_consistent [OF wf_empty s] s show ?thesis by blast
qed

section \<open>Addresses\<close>

text \<open>
  C27: an address handed out belongs to the /16 network of the account, does not end in
  zero, and is not taken; the gateway and the last address of the block are never handed
  out while they are free; the search ends, and it succeeds while fewer than 65278 addresses
  are taken.
\<close>

theorem allocation_correct:
  "AllocatePeerIP r (net16 a b) taken \<noteq> None \<and>
   (\<forall>ip. AllocatePeerIP r (net16 a b) taken = Some (Ret ip) \<longrightarrow>
      net_contains (net16 a b) ip \<and> ip ! 3 \<noteq> 0 \<and> ip \<notin> set taken \<and>
      (ip16 a b 1 \<notin> set taken \<longrightarrow> ip16 a b 65535 \<notin> set taken \<longrightarrow> [] \<notin> set taken \<longrightarrow>
         ip \<noteq> ip16 a b 1 \<and> ip \<noteq> ip16 a b 65535)) \<and>
   (length taken < 65278 \<longrightarrow> (\<exists>ip. AllocatePeerIP r (net16 a b) taken = Some (Ret ip)))"
proof (intro conjI allI impI)
  fix ip
  assume ip: "AllocatePeerIP r (net16 a b) taken = Some (Ret ip)"
  obtain k where k: "k < 65536" "ip = ip16 a b k" "k mod 256 \<noteq> 0" "ip_string ip \<notin> ip_string ` set taken"
    using allocated_candidate [OF ip] by blast
  show "net_contains (net16 a b) ip" "ip ! 3 \<noteq> 0" using k by (simp_all add: ip16_last_byte)
  show "ip \<notin> set taken" using k(4) by blast
  assume t: "ip16 a b 1 \<notin> set taken" "ip16 a b 65535 \<notin> set taken" "[] \<notin> set taken"
  have ne: "ip16 a b j \<noteq> []" for j by (simp add: ip16_def)
  have free: "ip_string (ip16 a b j) \<notin> ip_string ` set taken" if j: "ip16 a b j \<notin> set taken" for j
  proof
    assume "ip_string (ip16 a b j) \<in> ip_string ` set taken"
    then obtain x where "x \<in> set taken" "ip_string (ip16 a b j) = ip_string x" by blast
    with ip_string_eq [OF ne, of x] t(3) j show False by (cases "x = []") auto
  qed
  from allocated_not_edge [OF ip free [OF t(1)] free [OF t(2)]]
  show "ip \<noteq> ip16 a b 1" "ip \<noteq> ip16 a b 65535" by auto
qed (use allocate_total allocate_enough in auto)

theorem allocation_correct_witness:
  "\<exists>ip. AllocatePeerIP 7 (net16 100 64) [ip16 100 64 2] = Some (Ret ip) \<and> ip \<noteq> ip16 100 64 2"
  using allocation_correct [of 7 100 64 "[ip16 100 64 2]"] by fastforce

text \<open>
  \<open>incIP\<close> adds one to the address read as a number, carrying through all the bytes and
  wrapping around at the end of the address space.
\<close>

theorem incIP_adds_one: "ip_val (incIP ip) = (ip_val ip + 1) mod 256 ^ length ip \<and> length (incIP ip) = length ip"
  by (simp add: ip_val_inc)

text \<open>
  The text form of an address determines the address, so that comparing the texts, as
  the search for a free address and the lookup of a peer by address do, is comparing the addresses.
\<close>

theorem address_text_injective:
  assumes "a \<noteq> []" "b \<noteq> []"
  shows "ip_string a = ip_string b \<longleftrightarrow> a = b"
  by (rule ip_string_eq [OF assms])

theorem address_text_injective_witness:
  "ip_string [100, 64, 0, 1] \<noteq> ip_string [100, 64, 0, 11]"
  using address_text_injective [of "[100, 64, 0, 1]" "[100, 64, 0, 11]"] by simp

section \<open>Setup keys\<close>

text \<open>
  A new setup key is valid exactly until it expires; a revoked key stays unusable
  whatever happens to it, and a one-off key is used at most once in every sequence of uses
  and revocations.
\<close>

theorem setup_key_life:
  "(IsValid now' (GenerateSetupKey uuid now n t d) \<longleftrightarrow> now' \<le> now + d) \<and>
   foldl key_step (key_step key Revoke) es = key_step key Revoke \<and> \<not> IsValid now' (key_step key Revoke) \<and>
   SetupKey_UsedTimes (foldl key_step (GenerateSetupKey uuid now n SetupKeyOneOff d) es) \<le> 1"
  by (auto simp: key_steps_revoked intro!: one_off_bound)
    (auto simp: GenerateSetupKey_def Let_def key_status_defs)

lemma find_ById_Some:
  assumes "getAccountSetupKeyById a keyId = Some k" "wf_account a"
  shows "lookup (Account_SetupKeys a) (SetupKey_Key k) = Some k" and "SetupKey_Id k = keyId"
proof -
  have k: "k \<in> set (vals (Account_SetupKeys a))" "SetupKey_Id k = keyId"
    using assms(1) by (auto simp: getAccountSetupKeyById_def find_Some_iff)
  then show "lookup (Account_SetupKeys a) (SetupKey_Key k) = Some k" "SetupKey_Id k = keyId"
    using assms(2) by (auto simp: wf_account_def keyed_alt vals_conv)
qed

lemma RevokeSetupKey_Ret:
  assumes "all_accounts good_account s" "RevokeSetupKey s i keyId = (s', Ret key)"
  obtains a ks where "GetAccount s i = Ret a" "assign (Account_SetupKeys a) (SetupKey_Key key) key = Some ks"
    "SetupKey_Revoked key" "SaveAccount s (a\<lparr>Account_SetupKeys := ks\<rparr>) = (s', Ret ())"
    "wf_account (a\<lparr>Account_SetupKeys := ks\<rparr>)"
proof -
  from assms(2) obtain a k ks where a: "GetAccount s i = Ret a" and k: "getAccountSetupKeyById a keyId = Some k"
    and key: "key = k\<lparr>SetupKey_Revoked := True\<rparr>"
    and ks: "assign (Account_SetupKeys a) (SetupKey_Key key) key = Some ks"
    and save: "SaveAccount s (a\<lparr>Account_SetupKeys := ks\<rparr>) = (s', Ret ())"
    by (auto simp: RevokeSetupKey_def Let_def then_return_Ret split: outcome.splits option.splits)
  have good: "good_account a" by (rule goodD(1) [OF assms(1) a])
  have "good_account (a\<lparr>Account_SetupKeys := ks\<rparr>)"
    by (rule good_keys [OF good ks]) (use found_key [OF k good] in \<open>simp_all add: key\<close>)
  with that [OF a ks _ save] show ?thesis by (simp add: key good_account_def)
qed

text \<open>
  Revoking a setup key takes effect: afterwards no peer can register with it.
\<close>

theorem revoked_key_refused:
  assumes "all_accounts good_account s" "RevokeSetupKey s i keyId = (s', Ret key)"
    and "SetupKey_Key key \<noteq> []" "ToUpper (SetupKey_Key key) = SetupKey_Key key"
  shows "AddPeer s' fr (SetupKey_Key key) u peer = Some (s', Err (StatusError FailedPrecondition
           ''unable to register peer, its setup key is invalid (expired, overused or revoked)''))"
proof -
  obtain a ks where ks: "assign (Account_SetupKeys a) (SetupKey_Key key) key = Some ks"
    and rev: "SetupKey_Revoked key" and save: "SaveAccount s (a\<lparr>Account_SetupKeys := ks\<rparr>) = (s', Ret ())"
    and wf: "wf_account (a\<lparr>Account_SetupKeys := ks\<rparr>)"
    using RevokeSetupKey_Ret [OF assms(1,2)] by metis
  have "getAccountSetupKeyByKey (a\<lparr>Account_SetupKeys := ks\<rparr>) (SetupKey_Key key) = Some key"
    using lookup_assign [OF ks] by (simp add: getAccountSetupKeyByKey_lookup [OF wf])
  moreover have "GetAccountBySetupKey s' (SetupKey_Key key) = Ret (a\<lparr>Account_SetupKeys := ks\<rparr>)"
    by (rule by_key.find_saved [OF SaveAccount_Ret(7) [OF save] save]) (use keys_assign [OF ks] in auto)
  moreover have "\<not> IsValid now key" for now using rev by (simp add: key_status_defs)
  ultimately show ?thesis using assms(3,4) by (simp add: AddPeer_def find_registration_def)
qed

lemma ex_revoke:
  "\<exists>s key. RevokeSetupKey ex_store ''acc'' (dec (unat (Hash ''B2''))) = (s, Ret key) \<and>
     SetupKey_Key key = (if dec (unat (Hash ''A1'')) = dec (unat (Hash ''B2'')) then ''A1'' else ''B2'')"
proof -
  let ?k = "if dec (unat (Hash ''A1'')) = dec (unat (Hash ''B2''))
    then GenerateSetupKey ''a1'' 1000 DefaultSetupKeyName SetupKeyReusable DefaultSetupKeyDuration
    else GenerateSetupKey ''b2'' 1000 ''One-off key'' SetupKeyOneOff DefaultSetupKeyDuration"
  have k: "getAccountSetupKeyById ex_account (dec (unat (Hash ''B2''))) = Some ?k"
    by (auto simp: getAccountSetupKeyById_def ex_maps vals_def GenerateSetupKey_def Let_def)
  obtain ks where ks: "assign (Account_SetupKeys ex_account) (SetupKey_Key ?k) (?k\<lparr>SetupKey_Revoked := True\<rparr>) = Some ks"
    by (auto simp: ex_maps)
  have "rules_closed (ex_account\<lparr>Account_SetupKeys := ks\<rparr>)"
    using ex_closed by (simp add: rules_closed_def)
  then obtain s where "SaveAccount ex_store (ex_account\<lparr>Account_SetupKeys := ks\<rparr>) = (s, Ret ())"
    using SaveAccount_no_faults SaveAccount_Ret(8) [OF ex_saved(1)] ex_saved(2) by blast
  then have "RevokeSetupKey ex_store ''acc'' (dec (unat (Hash ''B2''))) = (s, Ret (?k\<lparr>SetupKey_Revoked := True\<rparr>))"
    using ks by (simp add: RevokeSetupKey_def ex_GetAccount k Let_def)
  then show ?thesis by (auto simp: GenerateSetupKey_def Let_def)
qed

theorem revoked_key_refused_witness:
  "\<exists>s key. RevokeSetupKey ex_store ''acc'' (dec (unat (Hash ''B2''))) = (s, Ret key) \<and>
     AddPeer s ex_fresh (SetupKey_Key key) [] (ex_peer ''k'') = Some (s, Err (StatusError FailedPrecondition
       ''unable to register peer, its setup key is invalid (expired, overused or revoked)''))"
proof -
  obtain s key where r: "RevokeSetupKey ex_store ''acc'' (dec (unat (Hash ''B2''))) = (s, Ret key)"
    and k: "SetupKey_Key key = (if dec (unat (Hash ''A1'')) = dec (unat (Hash ''B2'')) then ''A1'' else ''B2'')"
    using ex_revoke by blast
  have "SetupKey_Key key \<noteq> []" "ToUpper (SetupKey_Key key) = SetupKey_Key key" unfolding k by simp_all
  from revoked_key_refused [OF ex_good r this] r show ?thesis by blast
qed

section \<open>Groups\<close>

lemma GetGroup_Ret:
  assumes "GetGroup s i gid = Ret g"
  obtains a where "GetAccount s i = Ret a" "lookup (Account_Groups a) gid = Some g"
  using assms by (auto simp: GetGroup_def split: outcome.splits option.splits)

lemma GetGroup_saved:
  assumes "SaveAccount s a = (s', Ret ())" "Account_Id a = i" "lookup (Account_Groups a) gid = Some g"
  shows "GetGroup s' i gid = Ret g"
  using fs.get_saved [OF SaveAccount_Ret(7) [OF assms(1)] assms(1)] assms(2,3) by (simp add: GetGroup_def)

text \<open>
  Adding a peer to a group appends it once, adding it again changes nothing, and
  removing it restores the group.
\<close>

theorem group_add_remove:
  assumes "all_accounts good_account s" "GetGroup s i gid = Ret g" "k \<notin> set (Group_Peers g)"
    and "GroupAddPeer s i gid k = (s1, Ret ())" "GroupAddPeer s1 i gid k = (s2, Ret ())"
    and "GroupDeletePeer s1 i gid k = (s3, Ret ())"
  shows "GetGroup s1 i gid = Ret (g\<lparr>Group_Peers := Group_Peers g @ [k]\<rparr>) \<and>
    GetGroup s2 i gid = GetGroup s1 i gid \<and> GetGroup s3 i gid = Ret g"
proof -
  obtain a where a: "GetAccount s i = Ret a" "lookup (Account_Groups a) gid = Some g"
    using assms(2) by (rule GetGroup_Ret)
  let ?g = "g\<lparr>Group_Peers := Group_Peers g @ [k]\<rparr>"
  let ?a = "a\<lparr>Account_Groups := map_entry (Account_Groups a) gid (\<lambda>g. g\<lparr>Group_Peers := Group_Peers g @ [k]\<rparr>)\<rparr>"
  have id: "Account_Id a = i" by (rule all_accounts_id [OF assms(1) a(1)])
  have save: "SaveAccount s ?a = (s1, Ret ())"
    using assms(3,4) a by (simp add: GroupAddPeer_def list_ex_iff)
  have g1: "GetGroup s1 i gid = Ret ?g" by (rule GetGroup_saved [OF save]) (simp_all add: id a(2))
  have a1: "GetAccount s1 i = Ret ?a" using fs.get_saved [OF SaveAccount_Ret(7) [OF save] save] id by simp
  have "SaveAccount s1 ?a = (s2, Ret ())"
    using assms(5) a1 a(2) by (simp add: GroupAddPeer_def list_ex_iff)
  then have g2: "GetGroup s2 i gid = Ret ?g" by (rule GetGroup_saved) (simp_all add: id a(2))
  have "SaveAccount s1 (?a\<lparr>Account_Groups := map_entry (Account_Groups ?a) gid
      (\<lambda>g. g\<lparr>Group_Peers := remove1 k (Group_Peers g)\<rparr>)\<rparr>) = (s3, Ret ())"
    using assms(6) a1 a(2) by (simp add: GroupDeletePeer_def list_ex_iff)
  then have "GetGroup s3 i gid = Ret (?g\<lparr>Group_Peers := remove1 k (Group_Peers ?g)\<rparr>)"
    by (rule GetGroup_saved) (simp_all add: id a(2))
  then show ?thesis using g1 g2 assms(3) by (simp add: remove1_append)
qed

theorem group_add_remove_witness:
  "\<exists>s1 s3. GroupAddPeer ex_store ''acc'' ''g'' ''k'' = (s1, Ret ()) \<and>
     GroupDeletePeer s1 ''acc'' ''g'' ''k'' = (s3, Ret ()) \<and>
     GetGroup s3 ''acc'' ''g'' = Ret \<lparr>Group_ID = ''g'', Group_Name = ''All'', Group_Peers = []\<rparr>"
proof -
  let ?a = "\<lambda>ps. ex_account\<lparr>Account_Groups := GoMap [(''g'', \<lparr>Group_ID = ''g'', Group_Name = ''All'', Group_Peers = ps\<rparr>)]\<rparr>"
  have ok: "\<exists>t. SaveAccount s (?a ps) = (t, Ret ()) \<and> write_faults t = [] \<and> Accounts t \<noteq> NilMap \<and>
      GetAccount t ''acc'' = Ret (?a ps)" if s: "write_faults s = []" "Accounts s \<noteq> NilMap" for s ps
  proof -
    have "rules_closed (?a ps)" by (simp add: rules_closed_def ex_maps vals_def)
    then obtain t where t: "SaveAccount s (?a ps) = (t, Ret ())" "write_faults t = []"
      using SaveAccount_no_faults s by blast
    then show ?thesis using fs.get_saved [OF s(2) t(1)] SaveAccount_Ret(8) [OF t(1)] by (simp add: ex_id)
  qed
  have g: "GetGroup ex_store ''acc'' ''g'' = Ret \<lparr>Group_ID = ''g'', Group_Name = ''All'', Group_Peers = []\<rparr>"
    by (simp add: GetGroup_def ex_GetAccount ex_maps)
  obtain s1 where 1: "SaveAccount ex_store (?a [''k'']) = (s1, Ret ())" "write_faults s1 = []" "Accounts s1 \<noteq> NilMap"
      "GetAccount s1 ''acc'' = Ret (?a [''k''])"
    using ok ex_saved(2) SaveAccount_Ret(8) [OF ex_saved(1)] by blast
  have add: "GroupAddPeer ex_store ''acc'' ''g'' ''k'' = (s1, Ret ())"
    using 1(1) by (simp add: GroupAddPeer_def ex_GetAccount ex_maps map_entry_def)
  obtain s2 where 2: "SaveAccount s1 (?a [''k'']) = (s2, Ret ())" using ok [OF 1(2,3)] by blast
  have again: "GroupAddPeer s1 ''acc'' ''g'' ''k'' = (s2, Ret ())" using 2 by (simp add: GroupAddPeer_def 1(4))
  obtain s3 where 3: "SaveAccount s1 (?a []) = (s3, Ret ())" using ok [OF 1(2,3)] by blast
  have del: "GroupDeletePeer s1 ''acc'' ''g'' ''k'' = (s3, Ret ())"
    using 3 by (simp add: GroupDeletePeer_def 1(4) map_entry_def)
  from group_add_remove [OF ex_good g _ add again del] add del show ?thesis by auto
qed

text \<open>
  Deleting a group that a rule still names panics, and the account is left broken in
  memory: from then on adding a setup key to it, as every other change that saves the
  account, panics too.
\<close>

theorem delete_group_in_use:
  assumes "all_accounts good_account s" "GetAccount s i = Ret a"
    and "r \<in> set (vals (Account_Rules a))" "gid \<in> set (Rule_Source r @ Rule_Destination r)"
  shows "\<exists>s1. DeleteGroup s i gid = (s1, Panic NilDereference) \<and>
    (\<forall>now uuid n t e. \<exists>s2 p. AddSetupKey s1 now uuid i n t e = (s2, Panic p))"
proof -
  let ?a = "a\<lparr>Account_Groups := map_delete (Account_Groups a) gid\<rparr>"
  have ne: "Accounts s \<noteq> NilMap" and id: "Account_Id a = i"
    using assms(1) all_accounts_id [OF assms(1,2)] by (auto simp: all_accounts_def)
  have bad: "\<not> rules_closed ?a" using assms(3,4) by (force simp: rules_closed_def)
  then obtain s1 where s1: "SaveAccount s ?a = (s1, Panic NilDereference)"
    using SaveAccount_not_closed [OF _ ne] by blast
  have get: "GetAccount s1 i = Ret ?a" using fs.get_saved [OF ne s1] id by simp
  have ne1: "Accounts s1 \<noteq> NilMap" by (rule fs.live_saved [OF ne s1])
  have "\<exists>s2 p. AddSetupKey s1 now uuid i n t e = (s2, Panic p)" for now uuid n t e
  proof -
    have "\<exists>s2. SaveAccount s1 (?a\<lparr>Account_SetupKeys := ks\<rparr>) = (s2, Panic NilDereference)" for ks
      by (rule SaveAccount_not_closed [OF _ ne1]) (use bad in \<open>simp add: rules_closed_def\<close>)
    then show ?thesis
      by (auto simp: AddSetupKey_def get Let_def then_return_Panic split: option.splits) blast+
  qed
  with s1 show ?thesis using assms(2) by (simp add: DeleteGroup_def)
qed

theorem delete_group_in_use_witness:
  "\<exists>s1. DeleteGroup ex_store ''acc'' ''g'' = (s1, Panic NilDereference)"
proof -
  let ?r = "\<lparr>Rule_ID = ''r'', Rule_Name = ''Default'', Rule_Source = [''g''], Rule_Destination = [''g''], Rule_Flow = 0\<rparr>"
  have "GetAccount ex_store ''acc'' = Ret ex_account" by (simp add: ex_GetAccount)
  moreover have "?r \<in> set (vals (Account_Rules ex_account))" "''g'' \<in> set (Rule_Source ?r @ Rule_Destination ?r)"
    by (simp_all add: ex_maps vals_def)
  ultimately show ?thesis using delete_group_in_use [OF ex_good] by blast
qed

section \<open>Signing in\<close>

text \<open>The index of users is sound when it leads to accounts that have the user.\<close>

definition users_indexed :: "FileStore \<Rightarrow> bool" where
  "users_indexed s \<longleftrightarrow>
     (\<forall>u a. GetUserAccount s u = Ret a \<longrightarrow> lookup (Account_Users a) u \<noteq> None)"

lemma finish_idp_Ret: "finish_idp s idp u a = (s', Ret b) \<Longrightarrow> b = a \<and> s' = s"
  by (auto simp: finish_idp_def split: outcome.splits)

lemma existing_user_Ret:
  assumes "handleExistingUserAccount s idp a da c = (s', Ret b)"
  shows "Account_Users b = Account_Users a"
  using assms
  by (auto simp: handleExistingUserAccount_def updateAccountDomainAttributes_def Let_def then_return_Ret
      split: outcome.splits prod.splits dest!: finish_idp_Ret)

lemma new_user_Ret:
  assumes "handleNewUserAccount s idp fr da c = (s', Ret b)"
  shows "case da of
      Some d \<Rightarrow> \<exists>us. assign (Account_Users d) (Claims_UserId c) (NewRegularUser (Claims_UserId c)) = Some us \<and>
        b = d\<lparr>Account_Users := us\<rparr> \<and> SaveAccount s b = (s', Ret ())
    | None \<Rightarrow> SaveAccount s b = (s', Ret ()) \<and> Account_IsDomainPrimaryAccount b \<and>
        Account_Domain b = ToLower (Claims_Domain c) \<and> Account_DomainCategory b = Claims_DomainCategory c \<and>
        lookup (Account_Users b) (Claims_UserId c) = Some (NewAdminUser (Claims_UserId c))"
proof (cases da)
  case None
  let ?new = "NewAccount fr (Claims_UserId c) (ToLower (Claims_Domain c))"
  obtain us where us: "assign (Account_Users ?new) (Claims_UserId c) (NewAdminUser (Claims_UserId c)) = Some us"
    by (simp add: NewAccount_def newAccountWithId_def Let_def)
  let ?b = "?new\<lparr>Account_Users := us, Account_IsDomainPrimaryAccount := True,
      Account_Domain := ToLower (Claims_Domain c), Account_DomainCategory := Claims_DomainCategory c\<rparr>"
  have "SaveAccount s ?b = (s', Ret ()) \<and> b = ?b"
    using assms None us
    by (auto simp: handleNewUserAccount_def updateAccountDomainAttributes_def Let_def then_return_Ret
        split: outcome.splits prod.splits dest!: finish_idp_Ret)
  then show ?thesis using None lookup_assign [OF us] by auto
next
  case (Some d)
  then show ?thesis using assms
    by (auto simp: handleNewUserAccount_def Let_def then_return_Ret split: outcome.splits prod.splits option.splits
        dest!: finish_idp_Ret)
qed

lemma private_domain_cases:
  assumes "account_by_private_domain s idp fr c = (s', Ret b)"
  obtains (existing) a where "GetUserAccount s (Claims_UserId c) = Ret a" "Account_Users b = Account_Users a"
  | (joined) d us where "GetAccountByPrivateDomain s (Claims_Domain c) = Ret d"
      "assign (Account_Users d) (Claims_UserId c) (NewRegularUser (Claims_UserId c)) = Some us"
      "b = d\<lparr>Account_Users := us\<rparr>" "SaveAccount s b = (s', Ret ())"
  | (created) "SaveAccount s b = (s', Ret ())" "Account_IsDomainPrimaryAccount b"
      "Account_Domain b = ToLower (Claims_Domain c)" "Account_DomainCategory b = Claims_DomainCategory c"
      "lookup (Account_Users b) (Claims_UserId c) = Some (NewAdminUser (Claims_UserId c))"
      "\<not> is_ret (GetAccountByPrivateDomain s (Claims_Domain c))"
proof -
  define da where "da = (case GetAccountByPrivateDomain s (Claims_Domain c) of Ret d \<Rightarrow> Some d | _ \<Rightarrow> None)"
  have go: "(\<exists>a. GetUserAccount s (Claims_UserId c) = Ret a \<and>
        handleExistingUserAccount s idp a da c = (s', Ret b)) \<or> handleNewUserAccount s idp fr da c = (s', Ret b)"
    using assms by (auto simp: account_by_private_domain_def da_def Let_def split: outcome.splits if_splits)
  have da: "case da of Some d \<Rightarrow> GetAccountByPrivateDomain s (Claims_Domain c) = Ret d
      | None \<Rightarrow> \<not> is_ret (GetAccountByPrivateDomain s (Claims_Domain c))"
    by (simp add: da_def split: outcome.splits)
  from go show ?thesis
  proof
    assume "\<exists>a. GetUserAccount s (Claims_UserId c) = Ret a \<and> handleExistingUserAccount s idp a da c = (s', Ret b)"
    then show ?thesis using existing existing_user_Ret by blast
  next
    assume "handleNewUserAccount s idp fr da c = (s', Ret b)"
    from new_user_Ret [OF this] da show ?thesis using joined created by (cases da) auto
  qed
qed

text \<open>
  C32: who signs in with the claims of a private domain ends up in an account that has
  them as a user. The first user of a domain becomes the administrator of a new primary
  account, which the domain leads to from then on; a later user joins this account
  as a regular user.
\<close>

theorem private_sign_in:
  assumes "users_indexed s" "Claims_DomainCategory c = PrivateCategory"
    and "GetAccountWithAuthorizationClaims s idp fr c = (s', Ret a)"
  shows "lookup (Account_Users a) (Claims_UserId c) \<noteq> None \<and>
    (Claims_AccountId c = [] \<longrightarrow> \<not> is_ret (GetUserAccount s (Claims_UserId c)) \<longrightarrow>
       (case GetAccountByPrivateDomain s (Claims_Domain c) of
          Ret d \<Rightarrow> Account_Id a = Account_Id d \<and>
            lookup (Account_Users a) (Claims_UserId c) = Some (NewRegularUser (Claims_UserId c))
        | _ \<Rightarrow> GetAccountByPrivateDomain s' (Claims_Domain c) = Ret a \<and>
            lookup (Account_Users a) (Claims_UserId c) = Some (NewAdminUser (Claims_UserId c))))"
proof -
  have dom: ?thesis if "account_by_private_domain s idp fr c = (s', Ret a)"
    using that
  proof (cases rule: private_domain_cases)
    case (existing b)
    then show ?thesis using assms(1) by (auto simp: users_indexed_def)
  next
    case (joined d us)
    then show ?thesis using lookup_assign [OF joined(2)] by simp
  next
    case created
    have "GetAccountByPrivateDomain s' (Claims_Domain c) = Ret a"
      by (rule by_domain.find_saved [OF SaveAccount_Ret(7) [OF created(1)] created(1)])
        (use created assms(2) in simp)
    then show ?thesis using created by (auto split: outcome.splits)
  qed
  show ?thesis using assms(2,3) dom
    by (auto simp: GetAccountWithAuthorizationClaims_def split: if_splits outcome.splits)
qed

definition ex_claims :: AuthorizationClaims where
  "ex_claims = \<lparr>Claims_UserId = ''bob'', Claims_AccountId = [], Claims_Domain = ''corp'', Claims_DomainCategory = ''private''\<rparr>"

theorem private_sign_in_witness:
  "\<exists>s a. GetAccountWithAuthorizationClaims (empty_store ''store.json'' NoFile []) None ex_fresh ex_claims = (s, Ret a) \<and>
     lookup (Account_Users a) ''bob'' = Some (NewAdminUser ''bob'') \<and> GetAccountByPrivateDomain s ''corp'' = Ret a"
proof -
  let ?e = "empty_store ''store.json'' NoFile []"
  let ?new = "NewAccount ex_fresh ''bob'' (ToLower ''corp'')"
  obtain us where us: "assign (Account_Users ?new) ''bob'' (NewAdminUser ''bob'') = Some us"
    by (simp add: NewAccount_def newAccountWithId_def Let_def)
  let ?b = "?new\<lparr>Account_Users := us, Account_IsDomainPrimaryAccount := True,
      Account_Domain := ToLower ''corp'', Account_DomainCategory := ''private''\<rparr>"
  have "rules_closed ?b" by (simp add: rules_closed_def NewAccount_def newAccountWithId_def Let_def vals_def)
  then obtain s where s: "SaveAccount ?e ?b = (s, Ret ())"
    using SaveAccount_no_faults [of ?b ?e] by (auto simp: empty_store_def)
  have r: "GetAccountWithAuthorizationClaims ?e None ex_fresh ex_claims = (s, Ret ?b)"
    using s us
    by (simp add: GetAccountWithAuthorizationClaims_def account_by_private_domain_def ex_claims_def
        GetAccountByPrivateDomain_def GetUserAccount_def empty_store_def handleNewUserAccount_def Let_def
        updateAccountDomainAttributes_def finish_idp_def updateIDPMetadata_def)
  have "users_indexed ?e" "Claims_DomainCategory ex_claims = PrivateCategory" "Claims_AccountId ex_claims = []"
    "\<not> is_ret (GetUserAccount ?e (Claims_UserId ex_claims))" "\<not> is_ret (GetAccountByPrivateDomain ?e (Claims_Domain ex_claims))"
    by (simp_all add: users_indexed_def GetUserAccount_def GetAccountByPrivateDomain_def empty_store_def ex_claims_def)
  with private_sign_in [OF _ _ r] r show ?thesis
    by (auto simp: ex_claims_def split: outcome.splits)
qed

end
