(* ===== verification/Grpc_Properties.thy ===== *)
theory Grpc_Properties
  imports Mgmt_Grpc Store_Properties
begin

text \<open>
  The properties of the gRPC endpoints: who may log in, what a request can do to the
  service, and what happens when a stream of a peer ends.
\<close>

section \<open>Admission\<close>

lemma ValidateAndParse_Some:
  assumes "ValidateAndParse lib m token = Ret (Some t)"
  shows "jwt_unverified lib token = Some t" and "Token_alg t = ''RS256''"
    and "jwt_verify_audience lib (Token_Claims t) (Jwt_audience m)"
    and "jwt_verify_issuer lib (Token_Claims t) (Jwt_issuer m)"
    and "\<exists>cert. getPemCert t (Jwt_keys m) = Ret cert \<and> jwt_signature_ok lib token cert"
  using assms
  by (auto simp: ValidateAndParse_def jwt_Parse_def validation_key_def split: if_splits outcome.splits option.splits)

text \<open>A peer that is unknown and logs in has been admitted by \<open>AddPeer\<close>.\<close>

lemma login_registered:
  assumes "login_peer env srv st fr k req = Some (st', Ret peer)" "GetPeer (st_store st) k = Err e"
  obtains s1 key u meta s2 where "register_credential env srv (st_store st) fr req = (s1, Ret (key, u))"
    "AddPeer s1 fr key u (request_peer k meta) = Some (s2, Ret peer)" "st_store st' = s2"
proof -
  have "registerPeer env srv st fr k req = Some (st', Ret peer)"
    using assms by (auto simp: login_peer_def split: if_splits)
  then show ?thesis using that
    by (auto simp: registerPeer_def split: prod.splits outcome.splits option.splits if_splits)
qed

lemma register_setup_key:
  "register_credential env srv s fr req = (s1, Ret (key, u)) \<Longrightarrow> Login_JwtToken req = [] \<Longrightarrow>
   s1 = s \<and> key = Login_SetupKey req \<and> u = []"
  by (auto simp: register_credential_def)

lemma register_jwt:
  assumes "register_credential env srv s fr req = (s1, Ret (key, u))" "Login_JwtToken req \<noteq> []"
  obtains m t where "srv_jwt srv = Some m" "ValidateAndParse (env_jwt env) m (Login_JwtToken req) = Ret (Some t)"
  using assms
  by (auto simp: register_credential_def split: option.splits outcome.splits prod.splits)

lemma AddPeer_find:
  "AddPeer s fr key u peer = Some (s', Ret p) \<Longrightarrow> \<exists>a sk. find_registration s (fr_now fr) (ToUpper key) u = Ret (a, sk)"
  by (auto simp: AddPeer_def Let_def split: outcome.splits)

text \<open>
  C10: a peer that the service does not know is admitted by a login only with a credential:
  either a setup key that exists in an account and is valid at that moment, or a JWT
  for the configured audience and issuer that is signed, with RS256, by a key of the provider.
\<close>

theorem login_needs_credential:
  assumes "parse_key (env_box env) (Enc_WgPubKey req) = Ret k"
    and "DecryptMessage (env_box env) (env_nonce env) (unmarshal_login env) k (srv_wgKey srv) (Enc_Body req) = Ret lr"
    and "GetPeer (st_store st) k = Err e"
    and "Login env srv st fr req = Some (st', Ret resp)"
  shows "(Login_JwtToken lr = [] \<and> (\<exists>a key. GetAccountBySetupKey (st_store st) (Login_SetupKey lr) = Ret a \<and>
      getAccountSetupKeyByKey a (ToUpper (Login_SetupKey lr)) = Some key \<and> IsValid (fr_now fr) key)) \<or>
    (\<exists>m t cert. srv_jwt srv = Some m \<and> jwt_unverified (env_jwt env) (Login_JwtToken lr) = Some t \<and>
      Token_alg t = ''RS256'' \<and> jwt_verify_audience (env_jwt env) (Token_Claims t) (Jwt_audience m) \<and>
      jwt_verify_issuer (env_jwt env) (Token_Claims t) (Jwt_issuer m) \<and>
      getPemCert t (Jwt_keys m) = Ret cert \<and> jwt_signature_ok (env_jwt env) (Login_JwtToken lr) cert)"
proof -
  obtain st1 peer where "login_peer env srv st fr k lr = Some (st1, Ret peer)"
    using assms(1,2,4) by (auto simp: Login_def split: option.splits prod.splits outcome.splits)
  then obtain s1 key u meta s2 where reg: "register_credential env srv (st_store st) fr lr = (s1, Ret (key, u))"
    and add: "AddPeer s1 fr key u (request_peer k meta) = Some (s2, Ret peer)"
    using login_registered assms(3) by metis
  show ?thesis
  proof (cases "Login_JwtToken lr = []")
    case True
    then have key: "s1 = st_store st" "key = Login_SetupKey lr" "u = []" using register_setup_key [OF reg] by auto
    obtain a sk where "find_registration (st_store st) (fr_now fr) (ToUpper (Login_SetupKey lr)) [] = Ret (a, sk)"
      using AddPeer_find [OF add] by (auto simp: key)
    then show ?thesis using True
      by (auto simp: find_registration_def GetAccountBySetupKey_def split: if_splits outcome.splits option.splits)
  next
    case False
    then obtain m t where "srv_jwt srv = Some m"
      "ValidateAndParse (env_jwt env) m (Login_JwtToken lr) = Ret (Some t)"
      using register_jwt [OF reg] by blast
    note v = ValidateAndParse_Some [OF this(2)] this(1)
    then show ?thesis by blast
  qed
qed

definition ex_login :: LoginRequest where
  "ex_login = \<lparr>Login_SetupKey = ''b2'', Login_Meta = Some ex_meta, Login_JwtToken = []\<rparr>"

definition ex_env :: "LoginRequest \<Rightarrow> Env" where
  "ex_env lr = \<lparr>env_box = ex_box, env_nonce = Ret (replicate 24 0), unmarshal_login = (\<lambda>_. Ret lr),
     unmarshal_empty = (\<lambda>_. Ret ()), marshal_login = (\<lambda>_. Ret []), marshal_sync = (\<lambda>_. Ret []),
     marshal_flow = (\<lambda>_. Ret []),
     env_jwt = \<lparr>jwt_unverified = (\<lambda>_. None), jwt_verify_audience = (\<lambda>_ _. True), jwt_verify_issuer = (\<lambda>_ _. True),
                jwt_signature_ok = (\<lambda>_ _. False)\<rparr>,
     env_idp = None, env_hmac = (\<lambda>_ _. [])\<rparr>"

definition ex_config :: Config where
  "ex_config = \<lparr>Config_Stuns = [], Config_TURNConfig = Some ex_turn,
     Config_Signal = Some \<lparr>Host_Proto = ''http'', Host_URI = ''s:1'', Host_Username = [], Host_Password = []\<rparr>,
     Config_Datadir = [], Config_HttpConfig = None, Config_DeviceAuthorizationFlow = None\<rparr>"

definition ex_srv :: Mgmt_Server where
  "ex_srv = \<lparr>srv_wgKey = ''priv'', srv_config = ex_config, srv_jwt = None\<rparr>"

definition ex_state :: Mgmt_State where
  "ex_state = \<lparr>st_store = ex_store, st_updates = NewPeersUpdateManager,
     st_turn = NewTimeBasedAuthSecretsManager ex_turn\<rparr>"

definition ex_request :: EncryptedMessage where
  "ex_request = \<lparr>Enc_WgPubKey = ''k'', Enc_Body = replicate 24 0\<rparr>"

lemma ex_unindexed:
  "PeerKeyId2SrcRulesId ex_store k = None" "PeerKeyId2DstRulesId ex_store k = None" "PeerKeyId2AccountId ex_store k = None"
  using SaveAccount_None [OF ex_saved(1) ex_closed, of k] SaveAccount_Ret(2) [OF ex_saved(1)]
  by (simp_all add: empty_store_def src_ids_def dst_ids_def ex_maps vals_def group_members_def)

text \<open>The network map after the first registration of the example account is empty.\<close>

lemma ex_first_map:
  assumes "AddPeer ex_store ex_fresh ''b2'' [] peer = Some (s, Ret p)"
  shows "\<exists>nm. GetNetworkMap s (Peer_Key p) = Ret nm \<and> NetworkMap_Peers nm = []"
proof -
  obtain a sk gid g where reg: "find_registration ex_store (fr_now ex_fresh) (ToUpper ''b2'') [] = Ret (a, sk)"
    and ip: "AllocatePeerIP (fr_rand ex_fresh) (Network_Net (Account_Network a)) (map Peer_IP (vals (Account_Peers a)))
       = Some (Ret (Peer_IP p))"
    and ne: "Account_Peers a \<noteq> NilMap"
    and save: "SaveAccount ex_store (joined (fr_now ex_fresh) a sk gid p) = (s, Ret ())"
    using AddPeer_Ret [OF ex_good assms] by metis
  have "a = ex_account" using reg ex_registration by (simp add: ex_fresh_def)
  then have peers: "lookup (Account_Peers (joined (fr_now ex_fresh) a sk gid p)) k = (if k = Peer_Key p then Some p else None)" for k
    using joined_fields(2) [OF ne] by (simp add: ex_maps)
  have "rules_closed (joined (fr_now ex_fresh) a sk gid p)"
    using ex_closed \<open>a = ex_account\<close> by (simp add: rules_closed_def joined_def)
  moreover have "wf_account (joined (fr_now ex_fresh) a sk gid p)"
    using good_AddPeer_joined [OF ex_good reg ne ip] by (simp add: good_account_def)
  ultimately obtain nm where "GetNetworkMap s (Peer_Key p) = Ret nm"
    "\<forall>q. q \<in> set (NetworkMap_Peers nm) \<longrightarrow> (\<exists>pid. pid \<noteq> Peer_Key p \<and>
       lookup (Account_Peers (joined (fr_now ex_fresh) a sk gid p)) pid = Some q)"
    using GetNetworkMap_saved [OF save _ _ ex_unindexed(1,2)] peers by auto metis
  then show ?thesis unfolding peers by (metis list.set_intros(1) neq_Nil_conv option.distinct(1))
qed

theorem login_needs_credential_witness:
  "\<exists>st resp a key. Login (ex_env ex_login) ex_srv ex_state ex_fresh ex_request = Some (st, Ret resp) \<and>
     GetAccountBySetupKey ex_store ''b2'' = Ret a \<and> getAccountSetupKeyByKey a ''B2'' = Some key \<and> IsValid 1000 key"
proof -
  obtain s p where add: "AddPeer ex_store ex_fresh ''b2'' [] (request_peer ''k'' ex_meta) = Some (s, Ret p)"
    using AddPeer_ok [OF ex_good _ ex_all ex_closed] ex_registration
    by (fastforce simp: ex_fresh_def ex_maps vals_def ex_saved(2))
  obtain nm where nm: "GetNetworkMap s (Peer_Key p) = Ret nm" "NetworkMap_Peers nm = []"
    using ex_first_map [OF add] by blast
  have get: "GetPeer ex_store ''k'' = Err (StatusError NotFound ''peer not found'')"
    by (simp add: GetPeer_def Store_GetPeer_def ex_unindexed)
  have "login_peer (ex_env ex_login) ex_srv ex_state ex_fresh ''k'' ex_login = Some (ex_state\<lparr>st_store := s\<rparr>, Ret p)"
    using get add nm
    by (simp add: login_peer_def ex_state_def ex_login_def registerPeer_def register_credential_def)
  then obtain st resp where r: "Login (ex_env ex_login) ex_srv ex_state ex_fresh ex_request = Some (st, Ret resp)"
    by (simp add: Login_def ex_env_def ex_request_def ex_box_def DecryptMessage_def Decrypt_def login_response_def
        toWiretrusteeConfig_def ex_srv_def ex_config_def ex_turn_def to_host_def ToResponseProto_def seal_def
        EncryptMessage_def Encrypt_def)
  have "parse_key (env_box (ex_env ex_login)) (Enc_WgPubKey ex_request) = Ret ''k''"
    "DecryptMessage (env_box (ex_env ex_login)) (env_nonce (ex_env ex_login)) (unmarshal_login (ex_env ex_login)) ''k''
       (srv_wgKey ex_srv) (Enc_Body ex_request) = Ret ex_login" "GetPeer (st_store ex_state) ''k'' =
       Err (StatusError NotFound ''peer not found'')"
    using get by (simp_all add: ex_env_def ex_box_def ex_request_def DecryptMessage_def Decrypt_def ex_state_def)
  from login_needs_credential [OF this r] r show ?thesis
    by (auto simp: ex_login_def ex_state_def ex_srv_def ex_fresh_def)
qed

text \<open>
  A peer that is not registered and shows neither a setup key nor a JWT is denied, and
  nothing changes.
\<close>

theorem login_denied:
  assumes "parse_key (env_box env) (Enc_WgPubKey req) = Ret k"
    and "DecryptMessage (env_box env) (env_nonce env) (unmarshal_login env) k (srv_wgKey srv) (Enc_Body req) = Ret lr"
    and "PeerKeyId2AccountId (st_store st) k = None" "Login_JwtToken lr = []" "Login_SetupKey lr = []"
  shows "\<exists>msg. Login env srv st fr req = Some (st, Err (StatusError PermissionDenied msg))"
  using assms by (simp add: Login_def login_peer_def GetPeer_def Store_GetPeer_def)

definition ex_anonymous :: LoginRequest where
  "ex_anonymous = \<lparr>Login_SetupKey = [], Login_Meta = None, Login_JwtToken = []\<rparr>"

theorem login_denied_witness:
  "\<exists>msg. Login (ex_env ex_anonymous) ex_srv ex_state ex_fresh ex_request =
     Some (ex_state, Err (StatusError PermissionDenied msg))"
  by (rule login_denied [of _ _ "''k''" _ ex_anonymous])
    (simp_all add: ex_env_def ex_box_def ex_request_def DecryptMessage_def Decrypt_def ex_state_def ex_unindexed
      ex_anonymous_def)

section \<open>Requests that bring the service down\<close>

text \<open>
  A login request with a body of fewer than 24 bytes panics, before anything is known
  about its sender. So does one that carries a JWT whose key identifier the provider does
  not have, if its unverified claims name the right audience and issuer.
\<close>

theorem login_panics:
  assumes "parse_key (env_box env) (Enc_WgPubKey req) = Ret k" "env_nonce env = Ret n"
  shows "(length (Enc_Body req) < 24 \<longrightarrow> Login env srv st fr req = Some (st, Panic IndexOutOfRange)) \<and>
    (DecryptMessage (env_box env) (env_nonce env) (unmarshal_login env) k (srv_wgKey srv) (Enc_Body req) = Ret lr \<and>
     PeerKeyId2AccountId (st_store st) k = None \<and> Login_JwtToken lr \<noteq> [] \<and> srv_jwt srv = Some m \<and>
     jwt_unverified (env_jwt env) (Login_JwtToken lr) = Some t \<and>
     jwt_verify_audience (env_jwt env) (Token_Claims t) (Jwt_audience m) \<and>
     jwt_verify_issuer (env_jwt env) (Token_Claims t) (Jwt_issuer m) \<and>
     (\<forall>j \<in> set (Jwt_keys m). Token_kid t \<noteq> Some (ClaimString (Jwk_Kid j))) \<longrightarrow>
     Login env srv st fr req = Some (st, Panic (ExplicitPanic ''unable to find appropriate key'')))"
proof -
  have pem: "pem_loop kid ks c = Ret c" if "\<forall>j \<in> set ks. kid \<noteq> Some (ClaimString (Jwk_Kid j))" for kid ks c
    using that by (induction ks) auto
  show ?thesis using assms pem [of "Jwt_keys m" "Token_kid t" "[]"]
    by (auto simp: Login_def DecryptMessage_def Decrypt_def login_peer_def GetPeer_def Store_GetPeer_def
        registerPeer_def register_credential_def ValidateAndParse_def jwt_Parse_def validation_key_def getPemCert_def)
qed

theorem login_panics_witness:
  "Login (ex_env ex_login) ex_srv ex_state ex_fresh \<lparr>Enc_WgPubKey = ''k'', Enc_Body = [1]\<rparr> =
     Some (ex_state, Panic IndexOutOfRange)"
  using login_panics [of "ex_env ex_login" "\<lparr>Enc_WgPubKey = ''k'', Enc_Body = [1]\<rparr>" "''k''" "replicate 24 0"]
  by (simp add: ex_env_def ex_box_def)

section \<open>Login keeps the invariants\<close>

lemma announce_ok: "announce config peer peers serial rest m = Some (m', r) \<Longrightarrow> pum_ok m \<Longrightarrow> pum_ok m'"
  by (induction config peer peers serial rest m rule: announce.induct)
    (auto simp: Let_def split: outcome.splits option.splits dest: pum_ok_send(1))

lemma register_credential_good:
  "good_store s \<Longrightarrow> register_credential env srv s fr req = (s', r) \<Longrightarrow> good_store s'"
  using good_claims [of s "env_idp env" fr]
  by (auto simp: register_credential_def keeps_good_def split: if_splits option.splits outcome.splits prod.splits)
    (metis fst_conv)+

lemma registerPeer_good:
  assumes "good_store (st_store st)" "pum_ok (st_updates st)" "registerPeer env srv st fr k req = Some (st', r)"
  shows "good_store (st_store st') \<and> pum_ok (st_updates st')"
proof -
  obtain s1 q where reg: "register_credential env srv (st_store st) fr req = (s1, q)" by fastforce
  note s1 = register_credential_good [OF assms(1) reg]
  show ?thesis using assms reg s1 good_AddPeer [OF s1] announce_ok
    by (auto simp: registerPeer_def split: outcome.splits option.splits prod.splits)
qed

text \<open>
  A login keeps what the account manager and the update channels rely on, whatever
  its outcome: unique addresses and one-off keys in every account, and open channels with
  at most a hundred updates.
\<close>

theorem login_keeps_invariants:
  assumes "all_accounts good_account (st_store st)" "pum_ok (st_updates st)" "Login env srv st fr req = Some (st', r)"
  shows "all_accounts good_account (st_store st') \<and> pum_ok (st_updates st')"
proof -
  have "good_store (st_store st1) \<and> pum_ok (st_updates st1)"
    if l: "login_peer env srv st fr k lr = Some (st1, q)" for k lr st1 q
  proof (cases "registerPeer env srv st fr k lr = Some (st1, q)")
    case True
    then show ?thesis using registerPeer_good [OF assms(1,2)] by blast
  next
    case False
    have "good_store s1" if "UpdatePeerMeta (st_store st) k meta = (s1, q)" for meta s1 q
      using good_UpdatePeerMeta [OF assms(1), of k meta] that by simp
    then show ?thesis using assms(1,2) l False
      by (auto simp: login_peer_def split: outcome.splits option.splits prod.splits if_splits)
  qed
  then show ?thesis using assms
    by (auto simp: Login_def split: outcome.splits option.splits prod.splits)
qed

theorem login_keeps_invariants_witness:
  "\<exists>st r. Login (ex_env ex_login) ex_srv ex_state ex_fresh ex_request = Some (st, r) \<and>
     all_accounts good_account (st_store st) \<and> pum_ok (st_updates st)"
proof -
  have "GetPeer ex_store ''k'' = Err (StatusError NotFound ''peer not found'')"
    by (simp add: GetPeer_def Store_GetPeer_def ex_unindexed)
  moreover obtain s p where add: "AddPeer ex_store ex_fresh ''b2'' [] (request_peer ''k'' ex_meta) = Some (s, Ret p)"
    using AddPeer_ok [OF ex_good _ ex_all ex_closed] ex_registration
    by (fastforce simp: ex_fresh_def ex_maps vals_def ex_saved(2))
  moreover obtain nm where "GetNetworkMap s (Peer_Key p) = Ret nm" "NetworkMap_Peers nm = []"
    using ex_first_map [OF add] by blast
  ultimately obtain st r where r: "Login (ex_env ex_login) ex_srv ex_state ex_fresh ex_request = Some (st, r)"
    by (simp add: Login_def ex_env_def ex_request_def ex_box_def DecryptMessage_def Decrypt_def login_peer_def
        ex_state_def ex_login_def registerPeer_def register_credential_def)
  have "all_accounts good_account (st_store ex_state)" "pum_ok (st_updates ex_state)"
    using ex_good pum_ok_new by (simp_all add: ex_state_def)
  from login_keeps_invariants [OF this r] r show ?thesis by blast
qed

section \<open>Streams\<close>

lemma Sync_open_Ret:
  assumes "Sync_open env srv st now sent req = (st', Ret (k, c, m))"
  shows "is_ret (GetPeer (st_store st) k)"
    and "CreateChannel (st_updates st) k = (st_updates st', c)"
    and "fst (MarkPeerConnected (st_store st) now k True) = st_store st'"
  using assms
  by (auto simp: Sync_open_def Let_def split: outcome.splits option.splits prod.splits if_splits)

text \<open>
  A synchronisation stream is opened for a registered peer only. It then reads from an
  open channel that is registered for the peer, and the channel of an earlier stream of the
  same peer is closed, which ends that stream after it has read what was buffered.
\<close>

theorem stream_opened:
  assumes "pum_ok (st_updates st)" "Sync_open env srv st now sent req = (st', Ret (k, c, m))"
  shows "is_ret (GetPeer (st_store st) k) \<and> peerChannels (st_updates st') k = Some c \<and>
    \<not> chan_closed (channels (st_updates st') c) \<and> chan_buf (channels (st_updates st') c) = [] \<and>
    (\<forall>d. peerChannels (st_updates st) k = Some d \<longrightarrow> chan_closed (channels (st_updates st') d) \<and>
       (chan_buf (channels (st_updates st') d) = [] \<longrightarrow>
          Sync_update env srv st' sent' k d = Some (st', Inr (Ret ()))))"
proof -
  note o = Sync_open_Ret [OF assms(2)]
  note new = create_channels [OF o(2)]
  have closed: "chan_closed (channels (st_updates st') d)" if "peerChannels (st_updates st) k = Some d" for d
  proof -
    have "d \<noteq> c" using that assms(1) new(2) by (auto simp: pum_ok_def)
    moreover have "st_updates st' = fst (CreateChannel (st_updates st) k)" by (simp add: o(2))
    ultimately show ?thesis
      using that new(2) by (simp add: CreateChannel_def close_channel_def Let_def)
  qed
  then show ?thesis using o(1) new by (auto simp: Sync_update_def receive_def)
qed

text \<open>
  C40: when the context of an older stream is done after the peer has reconnected, and the
  older stream takes that branch of its select before it sees that its own channel is
  closed, it closes the channel of the new stream and unregisters it: the new stream ends at
  its next turn once its buffer is read, and updates sent to the peer are dropped.
\<close>

theorem stale_stream_closes_new:
  assumes "pum_ok (st_updates st)" "peerChannels (st_updates st) k = Some d"
    and "Sync_open env srv st now sent req = (st1, Ret (k, c, m))"
    and "Sync_done st1 now' err k = (st2, r)"
  shows "c \<noteq> d \<and> peerChannels (st_updates st2) k = None \<and> chan_closed (channels (st_updates st2) c) \<and>
    Sync_update env srv st2 sent' k c = Some (st2, Inr (Ret ())) \<and>
    (\<forall>u. SendUpdate (st_updates st2) k u = Some (st_updates st2, Ret ()))"
proof -
  note o = Sync_open_Ret [OF assms(3)]
  note new = create_channels [OF o(2)]
  have "st_updates st2 = CloseChannel (st_updates st1) k"
    using assms(4) by (auto simp: Sync_done_def Let_def split: prod.splits outcome.splits)
  then have ch: "peerChannels (st_updates st2) k = None" "chan_closed (channels (st_updates st2) c)"
    "chan_buf (channels (st_updates st2) c) = []"
    using new by (simp_all add: CloseChannel_def close_channel_def)
  have "c \<noteq> d" using assms(1,2) new(2) by (auto simp: pum_ok_def)
  with ch show ?thesis by (simp add: Sync_update_def receive_def SendUpdate_def)
qed

text \<open>A state in which the peer of the example is registered and has an open stream.\<close>

definition ex_stream_state :: "FileStore \<Rightarrow> Mgmt_State" where
  "ex_stream_state s = \<lparr>st_store = s, st_updates = fst (CreateChannel NewPeersUpdateManager ''k''),
     st_turn = NewTimeBasedAuthSecretsManager ex_turn\<rparr>"

lemma ex_net_found:
  assumes "SaveAccount (empty_store ''store.json'' NoFile []) ex_net_account = (s, Ret ())"
  shows "PeerKeyId2AccountId s ''k'' = Some ''acc''" "GetAccount s ''acc'' = Ret ex_net_account"
  using SaveAccount_Ret(2) [OF assms] fs.get_saved [OF SaveAccount_Ret(7) [OF assms] assms]
  by (auto simp: ex_net_maps vals_def ex_peer_at_def ex_peer_def ex_net_account_def ex_id)

lemma ex_marked:
  assumes "SaveAccount (empty_store ''store.json'' NoFile []) ex_net_account = (s, Ret ())"
  shows "\<exists>s' r. MarkPeerConnected s now ''k'' b = (s', r) \<and> (\<forall>p. r \<noteq> Panic p)"
proof -
  note f = ex_net_found [OF assms]
  have w: "\<exists>a'. GetAccount (write_status s ''k'' st) ''acc'' = Ret a' \<and> Account_Groups a' = Account_Groups ex_net_account \<and>
      Account_Peers a' \<noteq> NilMap" for st
    using f by (auto simp: write_status_def GetAccount_def ex_net_maps split: option.splits)
  have X: "\<exists>X. SavePeer (write_status s ''k'' st) ''acc'' p = persist X" for st p
  proof -
    obtain a' where "GetAccount (write_status s ''k'' st) ''acc'' = Ret a'"
      "Account_Groups a' = Account_Groups ex_net_account" "Account_Peers a' \<noteq> NilMap" using w by blast
    then show ?thesis by (auto simp: SavePeer_def GetGroupAll_def ex_net_maps Let_def assign_not_nil)
  qed
  have "\<exists>s' r. SavePeer (write_status s ''k'' st) ''acc'' p = (s', r) \<and> (\<forall>q. r \<noteq> Panic q)" for st p
    using X [of st p] persist_no_panic by (metis surj_pair)
  then show ?thesis using f
    by (simp add: MarkPeerConnected_def Store_GetPeer_def GetPeerAccount_def ex_net_maps ex_peer_at_def ex_peer_def
        ex_net_account_def ex_id Let_def)
qed

lemma ex_stream:
  assumes "SaveAccount (empty_store ''store.json'' NoFile []) ex_net_account = (s, Ret ())"
  shows "\<exists>st1 c m. Sync_open (ex_env ex_login) ex_srv (ex_stream_state s) 5 None ex_request = (st1, Ret (''k'', c, m))"
    and "pum_ok (st_updates (ex_stream_state s))" and "peerChannels (st_updates (ex_stream_state s)) ''k'' = Some 0"
proof -
  show "pum_ok (st_updates (ex_stream_state s))"
    by (simp add: ex_stream_state_def pum_ok_create [OF pum_ok_new prod.collapse [symmetric]])
  show "peerChannels (st_updates (ex_stream_state s)) ''k'' = Some 0"
    by (simp add: ex_stream_state_def CreateChannel_def NewPeersUpdateManager_def Let_def)
  have "wf_account ex_net_account" using ex_net_good by (simp add: good_account_def)
  then obtain nm where nm: "GetNetworkMap s ''k'' = Ret nm"
    using GetNetworkMap_saved [OF assms _ ex_net_closed, of "''k''"] by (auto simp: empty_store_def ex_net_maps)
  obtain s' r where mark: "MarkPeerConnected s 5 ''k'' True = (s', r)" "\<forall>p. r \<noteq> Panic p" using ex_marked [OF assms] by blast
  have peer: "GetPeer s ''k'' = Ret (ex_peer_at ''k'' 2)"
    using ex_net_found [OF assms] by (simp add: GetPeer_def Store_GetPeer_def ex_net_maps)
  obtain m where "sendInitialSync (ex_env ex_login) ex_srv (ex_stream_state s) 5 None ''k'' (ex_peer_at ''k'' 2) = Ret m"
    using nm by (simp add: sendInitialSync_def ex_stream_state_def ex_peer_at_def ex_peer_def ex_srv_def ex_config_def
        ex_turn_def Let_def toSyncResponse_def toWiretrusteeConfig_def to_host_def ToResponseProto_def seal_def
        EncryptMessage_def Encrypt_def ex_env_def)
  then show "\<exists>st1 c m. Sync_open (ex_env ex_login) ex_srv (ex_stream_state s) 5 None ex_request = (st1, Ret (''k'', c, m))"
    using peer mark
    by (cases r) (auto simp: Sync_open_def ex_request_def ex_env_def ex_box_def DecryptMessage_def Decrypt_def ex_stream_state_def
        ex_srv_def ex_config_def ex_turn_def Let_def split: prod.splits)
qed

theorem stream_opened_witness:
  "\<exists>s st1 c m. Sync_open (ex_env ex_login) ex_srv (ex_stream_state s) 5 None ex_request = (st1, Ret (''k'', c, m)) \<and>
     peerChannels (st_updates st1) ''k'' = Some c \<and> chan_closed (channels (st_updates st1) 0)"
proof -
  obtain s where s: "SaveAccount (empty_store ''store.json'' NoFile []) ex_net_account = (s, Ret ())"
    using ex_net_stored by metis
  obtain st1 c m where o: "Sync_open (ex_env ex_login) ex_srv (ex_stream_state s) 5 None ex_request = (st1, Ret (''k'', c, m))"
    using ex_stream(1) [OF s] by blast
  from stream_opened [OF ex_stream(2) [OF s] o] ex_stream(3) [OF s] o show ?thesis by blast
qed

theorem stale_stream_closes_new_witness:
  "\<exists>s st1 st2 c m r. Sync_open (ex_env ex_login) ex_srv (ex_stream_state s) 5 None ex_request = (st1, Ret (''k'', c, m)) \<and>
     Sync_done st1 6 (PlainError ''canceled'') ''k'' = (st2, r) \<and> chan_closed (channels (st_updates st2) c)"
proof -
  obtain s where s: "SaveAccount (empty_store ''store.json'' NoFile []) ex_net_account = (s, Ret ())"
    using ex_net_stored by metis
  obtain st1 c m where o: "Sync_open (ex_env ex_login) ex_srv (ex_stream_state s) 5 None ex_request = (st1, Ret (''k'', c, m))"
    using ex_stream(1) [OF s] by blast
  obtain st2 r where d: "Sync_done st1 6 (PlainError ''canceled'') ''k'' = (st2, r)" by fastforce
  from stale_stream_closes_new [OF ex_stream(2) [OF s] ex_stream(3) [OF s] o d] o d show ?thesis by blast
qed

end
