(* ===== verification/Mgmt_Client.thy ===== *)
theory Mgmt_Client
  imports Mgmt_Grpc Signal_Client
begin

text \<open>
  The client of the Management Service, \<open>management/client/grpc.go\<close>, and the registration of a
  peer, \<open>client/internal/login.go\<close>. The gRPC connection is outside the program: the record
  \<open>Mgm_Rpc\<close> holds its state and the calls of the service, which run on a state \<open>'s\<close> of the
  other side; the record \<open>Mgm_Env\<close> holds the box and the codec.
\<close>

record Mgm_Env =
  mc_box :: Box
  mc_nonce :: "bytes outcome"
  mc_marshal_empty :: "unit \<Rightarrow> bytes outcome"
  mc_marshal_login :: "LoginRequest \<Rightarrow> bytes outcome"
  mc_unmarshal_login :: "bytes \<Rightarrow> LoginResponse outcome"
  mc_unmarshal_sync :: "bytes \<Rightarrow> SyncResponse outcome"
  mc_unmarshal_flow :: "bytes \<Rightarrow> DeviceAuthorizationFlowMsg outcome"

record 's Mgm_Rpc =
  rpc_state :: connectivity
  rpc_GetServerKey :: "'s \<Rightarrow> ServerKeyResponse outcome"
  rpc_Login :: "'s \<Rightarrow> EncryptedMessage \<Rightarrow> 's \<times> EncryptedMessage outcome"
  rpc_GetDeviceAuthorizationFlow :: "'s \<Rightarrow> EncryptedMessage \<Rightarrow> EncryptedMessage outcome"
  rpc_Close :: "unit outcome"

record Mgm_Client =
  mgm_key :: string

text \<open>The information about the machine, \<open>system.Info\<close>; the number of processors is not sent.\<close>

record Info =
  Info_GoOS :: string
  Info_Kernel :: string
  Info_Core :: string
  Info_Platform :: string
  Info_OS :: string
  Info_OSVersion :: string
  Info_Hostname :: string
  Info_WiretrusteeVersion :: string
  Info_UIVersion :: string

text \<open>\<open>NewClient\<close>, given the result of dialling.\<close>

definition mgm_NewClient :: "string \<Rightarrow> unit outcome \<Rightarrow> Mgm_Client outcome" where
  "mgm_NewClient ourPrivateKey dialled =
     (case dialled of
        Err e \<Rightarrow> Err e
      | Panic p \<Rightarrow> Panic p
      | Ret u \<Rightarrow> Ret \<lparr>mgm_key = ourPrivateKey\<rparr>)"

definition mgm_ready :: "connectivity \<Rightarrow> bool" where
  "mgm_ready state \<longleftrightarrow> state = Conn_Ready \<or> state = Conn_Idle"

definition GetServerPublicKey :: "Mgm_Env \<Rightarrow> connectivity \<Rightarrow> ServerKeyResponse outcome \<Rightarrow> string outcome" where
  "GetServerPublicKey env state realClient_GetServerKey =
     (if \<not> mgm_ready state then Err (PlainError ''no connection to management'')
      else (case realClient_GetServerKey of
              Err e \<Rightarrow> Err e
            | Panic p \<Rightarrow> Panic p
            | Ret resp \<Rightarrow> parse_key (mc_box env) (Key_Key resp)))"

definition infoToMetaData :: "Info option \<Rightarrow> PeerSystemMeta option" where
  "infoToMetaData info =
     map_option (\<lambda>i. \<lparr>Meta_Hostname = Info_Hostname i, Meta_GoOS = Info_GoOS i, Meta_Kernel = Info_Kernel i,
       Meta_Core = Info_OSVersion i, Meta_Platform = Info_Platform i, Meta_OS = Info_OS i,
       Meta_WtVersion = Info_WiretrusteeVersion i, Meta_UIVersion = Info_UIVersion i\<rparr>) info"

section \<open>Login\<close>

definition mgm_login ::
  "Mgm_Env \<Rightarrow> 's Mgm_Rpc \<Rightarrow> Mgm_Client \<Rightarrow> 's \<Rightarrow> string \<Rightarrow> LoginRequest \<Rightarrow> 's \<times> LoginResponse outcome" where
  "mgm_login env rpc c s serverKey req =
     (if \<not> mgm_ready (rpc_state rpc) then (s, Err (PlainError ''no connection to management''))
      else (case EncryptMessage (mc_box env) (mc_nonce env) (mc_marshal_login env) serverKey (mgm_key c) req of
              Err e \<Rightarrow> (s, Err e)
            | Panic p \<Rightarrow> (s, Panic p)
            | Ret loginReq \<Rightarrow>
                on_ret (rpc_Login rpc s \<lparr>Enc_WgPubKey = public_key (mc_box env) (mgm_key c), Enc_Body = loginReq\<rparr>)
                  (\<lambda>s e. (s, Err e))
                  (\<lambda>s resp. (s, DecryptMessage (mc_box env) (mc_nonce env) (mc_unmarshal_login env) serverKey (mgm_key c)
                     (Enc_Body resp)))))"

definition mgm_Register ::
  "Mgm_Env \<Rightarrow> 's Mgm_Rpc \<Rightarrow> Mgm_Client \<Rightarrow> 's \<Rightarrow> string \<Rightarrow> string \<Rightarrow> string \<Rightarrow> Info option \<Rightarrow> 's \<times> LoginResponse outcome" where
  "mgm_Register env rpc c s serverKey setupKey jwtToken sysInfo =
     mgm_login env rpc c s serverKey
       \<lparr>Login_SetupKey = setupKey, Login_Meta = infoToMetaData sysInfo, Login_JwtToken = jwtToken\<rparr>"

definition mgm_Login ::
  "Mgm_Env \<Rightarrow> 's Mgm_Rpc \<Rightarrow> Mgm_Client \<Rightarrow> 's \<Rightarrow> string \<Rightarrow> Info option \<Rightarrow> 's \<times> LoginResponse outcome" where
  "mgm_Login env rpc c s serverKey sysInfo =
     mgm_login env rpc c s serverKey \<lparr>Login_SetupKey = [], Login_Meta = infoToMetaData sysInfo, Login_JwtToken = []\<rparr>"

definition mgm_GetDeviceAuthorizationFlow ::
  "Mgm_Env \<Rightarrow> 's Mgm_Rpc \<Rightarrow> Mgm_Client \<Rightarrow> 's \<Rightarrow> string \<Rightarrow> DeviceAuthorizationFlowMsg outcome" where
  "mgm_GetDeviceAuthorizationFlow env rpc c s serverKey =
     (if \<not> mgm_ready (rpc_state rpc)
      then Err (PlainError ''no connection to management in order to get device authorization flow'')
      else (case EncryptMessage (mc_box env) (mc_nonce env) (mc_marshal_empty env) serverKey (mgm_key c) () of
              Err e \<Rightarrow> Err e
            | Panic p \<Rightarrow> Panic p
            | Ret encryptedMSG \<Rightarrow>
                (case rpc_GetDeviceAuthorizationFlow rpc s
                        \<lparr>Enc_WgPubKey = public_key (mc_box env) (mgm_key c), Enc_Body = encryptedMSG\<rparr> of
                   Err e \<Rightarrow> Err e
                 | Panic p \<Rightarrow> Panic p
                 | Ret resp \<Rightarrow>
                     (case DecryptMessage (mc_box env) (mc_nonce env) (mc_unmarshal_flow env) serverKey (mgm_key c) (Enc_Body resp) of
                        Err e \<Rightarrow> Err (PlainError (''failed to decrypt device authorization flow message: '' @ err_string e))
                      | Panic p \<Rightarrow> Panic p
                      | Ret flow \<Rightarrow> Ret flow))))"

section \<open>Synchronisation\<close>

definition connectToStream ::
  "Mgm_Env \<Rightarrow> Mgm_Client \<Rightarrow> string \<Rightarrow> (EncryptedMessage \<Rightarrow> unit outcome) \<Rightarrow> unit outcome" where
  "connectToStream env c serverPubKey realClient_Sync =
     (case EncryptMessage (mc_box env) (mc_nonce env) (mc_marshal_empty env) serverPubKey (mgm_key c) () of
        Err e \<Rightarrow> Err e
      | Panic p \<Rightarrow> Panic p
      | Ret encryptedReq \<Rightarrow>
          realClient_Sync \<lparr>Enc_WgPubKey = public_key (mc_box env) (mgm_key c), Enc_Body = encryptedReq\<rparr>)"

text \<open>The loop on the results of \<open>Recv\<close>; \<open>None\<close> means that it waits for the next one.\<close>

fun receiveEvents ::
  "Mgm_Env \<Rightarrow> Mgm_Client \<Rightarrow> string \<Rightarrow> (SyncResponse \<Rightarrow> 'h \<Rightarrow> 'h \<times> unit outcome) \<Rightarrow>
     EncryptedMessage outcome list \<Rightarrow> 'h \<Rightarrow> 'h \<times> unit outcome option" where
  "receiveEvents env c serverPubKey msgHandler [] h = (h, None)"
| "receiveEvents env c serverPubKey msgHandler (Err e # rs) h = (h, Some (Err e))"
| "receiveEvents env c serverPubKey msgHandler (Panic p # rs) h = (h, Some (Panic p))"
| "receiveEvents env c serverPubKey msgHandler (Ret update # rs) h =
     (case DecryptMessage (mc_box env) (mc_nonce env) (mc_unmarshal_sync env) serverPubKey (mgm_key c) (Enc_Body update) of
        Err e \<Rightarrow> (h, Some (Err e))
      | Panic p \<Rightarrow> (h, Some (Panic p))
      | Ret decryptedResp \<Rightarrow>
          (case msgHandler decryptedResp h of
             (h', Err e) \<Rightarrow> (h', Some (Err e))
           | (h', Panic p) \<Rightarrow> (h', Some (Panic p))
           | (h', Ret u) \<Rightarrow> receiveEvents env c serverPubKey msgHandler rs h'))"

text \<open>
  What the outside world does in one round of \<open>Sync\<close>, and whether the backoff stops after it.
  The connection is looked at twice in a round.
\<close>

record Mgm_Round =
  mr_state :: connectivity
  mr_state_key :: connectivity
  mr_key :: "ServerKeyResponse outcome"
  mr_Sync :: "EncryptedMessage \<Rightarrow> unit outcome"
  mr_recvs :: "EncryptedMessage outcome list"
  mr_stop :: bool

definition permanent :: "GoError \<Rightarrow> bool" where
  "permanent e \<longleftrightarrow> from_status e \<and> (err_code e = InvalidArgument \<or> err_code e = PermissionDenied)"

text \<open>The flag of the result tells a permanent error, which is not retried.\<close>

definition sync_operation ::
  "Mgm_Env \<Rightarrow> Mgm_Client \<Rightarrow> (SyncResponse \<Rightarrow> 'h \<Rightarrow> 'h \<times> unit outcome) \<Rightarrow> Mgm_Round \<Rightarrow> 'h \<Rightarrow>
     'h \<times> (bool \<times> unit outcome) option" where
  "sync_operation env c msgHandler r h =
     (if \<not> mgm_ready (mr_state r) then (h, Some (False, Err (PlainError ''no connection to management'')))
      else (case GetServerPublicKey env (mr_state_key r) (mr_key r) of
              Err e \<Rightarrow> (h, Some (False, Err e))
            | Panic p \<Rightarrow> (h, Some (False, Panic p))
            | Ret serverPubKey \<Rightarrow>
                (case connectToStream env c serverPubKey (mr_Sync r) of
                   Err e \<Rightarrow> (h, Some (False, Err e))
                 | Panic p \<Rightarrow> (h, Some (False, Panic p))
                 | Ret u \<Rightarrow>
                     (case receiveEvents env c serverPubKey msgHandler (mr_recvs r) h of
                        (h', Some (Err e)) \<Rightarrow> (h', Some (permanent e, Err e))
                      | (h', Some result) \<Rightarrow> (h', Some (False, result))
                      | (h', None) \<Rightarrow> (h', None)))))"

fun mgm_Sync ::
  "Mgm_Env \<Rightarrow> Mgm_Client \<Rightarrow> (SyncResponse \<Rightarrow> 'h \<Rightarrow> 'h \<times> unit outcome) \<Rightarrow> Mgm_Round list \<Rightarrow> 'h \<Rightarrow>
     'h \<times> unit outcome option" where
  "mgm_Sync env c msgHandler [] h = (h, None)"
| "mgm_Sync env c msgHandler (r # rs) h =
     (case sync_operation env c msgHandler r h of
        (h', None) \<Rightarrow> (h', None)
      | (h', Some (perm, Ret u)) \<Rightarrow> (h', Some (Ret u))
      | (h', Some (perm, Panic p)) \<Rightarrow> (h', Some (Panic p))
      | (h', Some (perm, Err e)) \<Rightarrow>
          if perm \<or> mr_stop r then (h', Some (Err e)) else mgm_Sync env c msgHandler rs h')"

text \<open>\<open>Sync\<close> is a retry loop too; besides the backoff a permanent error ends it.\<close>

fun sync_again :: "Mgm_Round \<Rightarrow> bool \<times> unit outcome \<Rightarrow> bool" where
  "sync_again r (perm, Err e) = (\<not> perm \<and> \<not> mr_stop r)"
| "sync_again r (perm, q) = False"

interpretation mgm_retry: retry_loop "sync_operation env c msgHandler" sync_again snd "mgm_Sync env c msgHandler" for env c msgHandler
  by unfold_locales (auto split: prod.splits option.splits outcome.splits)

lemma receiveEvents_no_ret: "snd (receiveEvents env c k msgHandler rs h) \<noteq> Some (Ret u)"
proof (induction rs arbitrary: h)
  case (Cons x rs)
  then show ?case by (cases x) (auto split: outcome.splits prod.splits)
qed simp

text \<open>
  \<open>Sync\<close> returns an error only if the service refused the client, with one of the two codes that are
  not retried, or after a round at which the backoff stopped; it never returns without an error.
\<close>

theorem sync_retries:
  assumes "mgm_Sync env c msgHandler rs h = (h', Some result)"
  shows "(\<exists>p. result = Panic p) \<or> (\<exists>e. result = Err e \<and> (permanent e \<or> (\<exists>r \<in> set rs. mr_stop r)))"
proof -
  from mgm_retry.loop_result [OF assms] obtain r t perm q where
    q: "r \<in> set rs" "sync_operation env c msgHandler r t = (h', Some (perm, q))" "\<not> sync_again r (perm, q)" "result = q"
    by fastforce
  have "q \<noteq> Ret u" for u
    using q(2) receiveEvents_no_ret [of env c _ msgHandler "mr_recvs r" t u]
    by (auto simp: sync_operation_def split: if_splits outcome.splits prod.splits option.splits) (metis snd_conv)+
  moreover have "perm \<Longrightarrow> q = Err e \<Longrightarrow> permanent e" for e
    using q(2) by (auto simp: sync_operation_def split: if_splits outcome.splits prod.splits option.splits)
  ultimately show ?thesis using q by (cases q) auto
qed

section \<open>Registering a peer\<close>

text \<open>
  \<open>uuid.Parse\<close> is an argument. \<open>validSetupKey.String()\<close> of an unparsable key is the text of the
  zero UUID, which is sent together with a JWT.
\<close>

definition zero_uuid :: string where
  "zero_uuid = ''00000000-0000-0000-0000-000000000000''"

definition client_registerPeer ::
  "(string \<Rightarrow> string outcome) \<Rightarrow> Mgm_Env \<Rightarrow> 's Mgm_Rpc \<Rightarrow> Info option \<Rightarrow> Mgm_Client \<Rightarrow> 's \<Rightarrow> string \<Rightarrow> string \<Rightarrow> string \<Rightarrow>
     's \<times> LoginResponse outcome" where
  "client_registerPeer uuid_Parse env rpc info c s serverPublicKey setupKey jwtToken =
     (case uuid_Parse setupKey of
        Panic p \<Rightarrow> (s, Panic p)
      | Err e \<Rightarrow>
          if jwtToken = [] then
            (s, Err (StatusError InvalidArgument (''invalid setup-key or no sso information provided, err: '' @ err_string e)))
          else mgm_Register env rpc c s serverPublicKey zero_uuid jwtToken info
      | Ret validSetupKey \<Rightarrow> mgm_Register env rpc c s serverPublicKey validSetupKey jwtToken info)"

definition loginPeer ::
  "(string \<Rightarrow> string outcome) \<Rightarrow> Mgm_Env \<Rightarrow> 's Mgm_Rpc \<Rightarrow> Info option \<Rightarrow> Mgm_Client \<Rightarrow> 's \<Rightarrow> string \<Rightarrow> string \<Rightarrow> string \<Rightarrow>
     's \<times> LoginResponse outcome" where
  "loginPeer uuid_Parse env rpc info c s serverPublicKey setupKey jwtToken =
     on_ret (mgm_Login env rpc c s serverPublicKey info)
       (\<lambda>s e. if from_status e \<and> err_code e = PermissionDenied
              then client_registerPeer uuid_Parse env rpc info c s serverPublicKey setupKey jwtToken
              else (s, Err e))
       (\<lambda>s loginResp. (s, Ret loginResp))"

end
