(* ===== verification/System_Properties.thy ===== *)
theory System_Properties
  imports Engine_Properties Grpc_Properties Mgmt_Client
begin

text \<open>
  Properties of the system as a whole, across the network: what the Management Service decides is
  what the engine of a client does, and a client that is not known yet registers itself. Client
  and service share the box; the codec of one side decodes what the other encoded.
\<close>

section \<open>Handling an update\<close>

definition urls_parse :: "Engine_Env \<Rightarrow> bool" where
  "urls_parse env \<longleftrightarrow> (\<forall>u. is_ret (en_ParseURL env u))"

lemma map_outcome_Ret: "(\<And>x. x \<in> set xs \<Longrightarrow> is_ret (f x)) \<Longrightarrow> \<exists>ys. map_outcome f xs = Ret ys"
proof (induction xs)
  case (Cons x xs)
  then have "is_ret (f x)" by simp
  then obtain y where "f x = Ret y" by (cases "f x") auto
  with Cons show ?case by auto
qed simp

lemma turn_url_Ret: "urls_parse env \<Longrightarrow> is_ret (turn_url env t)"
  unfolding urls_parse_def turn_url_def
  by (cases "en_ParseURL env (HostConfig_Uri (Protected_HostConfig t))") (auto dest!: spec [of _ "HostConfig_Uri (Protected_HostConfig t)"])

lemma updateTURNs_Ret:
  assumes "urls_parse env"
  shows "\<exists>ts. updateTURNs env turns e = (e\<lparr>eng_TURNs := ts\<rparr>, Ret ())"
proof -
  obtain ts where "map_outcome (turn_url env) turns = Ret ts"
    using map_outcome_Ret turn_url_Ret [OF assms] by metis
  then show ?thesis by (cases "turns = []") (auto simp: updateTURNs_def intro: exI [of _ "eng_TURNs e"])
qed

lemma updateSTUNs_Ret:
  assumes "urls_parse env"
  shows "\<exists>ts. updateSTUNs env stuns e = (e\<lparr>eng_STUNs := ts\<rparr>, Ret ())"
proof -
  obtain ts where "map_outcome (\<lambda>stun. en_ParseURL env (HostConfig_Uri stun)) stuns = Ret ts"
    using map_outcome_Ret [of stuns "\<lambda>stun. en_ParseURL env (HostConfig_Uri stun)"] assms by (auto simp: urls_parse_def)
  then show ?thesis by (cases "stuns = []") (auto simp: updateSTUNs_def intro: exI [of _ "eng_STUNs e"])
qed

lemma handleSync_applied:
  assumes "eng_ok e" "urls_parse env" "Sync_NetworkMap u = Some nm" "map_valid env nm" "eng_serial e \<le> Map_Serial nm"
  shows "\<exists>e'. handleSync env u e = (e', Ret ()) \<and> eng_ok e' \<and> eng_serial e' = Map_Serial nm \<and>
    set (Engine_GetPeers e') = map_peers nm"
proof -
  have "\<exists>e1. (case Sync_WiretrusteeConfig u of None \<Rightarrow> (e, Ret ())
      | Some config \<Rightarrow> on_ret (updateTURNs env (Wt_Turns config) e) (\<lambda>e err. (e, Err err))
          (\<lambda>e u. updateSTUNs env (Wt_Stuns config) e)) = (e1, Ret ()) \<and> eng_ok e1 \<and> eng_serial e1 = eng_serial e"
  proof (cases "Sync_WiretrusteeConfig u")
    case None
    with assms(1) show ?thesis by simp
  next
    case (Some config)
    obtain ts where ts: "updateTURNs env (Wt_Turns config) e = (e\<lparr>eng_TURNs := ts\<rparr>, Ret ())"
      using updateTURNs_Ret [OF assms(2)] by blast
    obtain ss where ss: "updateSTUNs env (Wt_Stuns config) (e\<lparr>eng_TURNs := ts\<rparr>) = (e\<lparr>eng_TURNs := ts, eng_STUNs := ss\<rparr>, Ret ())"
      using updateSTUNs_Ret [OF assms(2)] by blast
    from assms(1) show ?thesis using Some ts ss by (simp add: eng_ok_def)
  qed
  then obtain e1 where e1: "(case Sync_WiretrusteeConfig u of None \<Rightarrow> (e, Ret ())
      | Some config \<Rightarrow> on_ret (updateTURNs env (Wt_Turns config) e) (\<lambda>e err. (e, Err err))
          (\<lambda>e u. updateSTUNs env (Wt_Stuns config) e)) = (e1, Ret ())" "eng_ok e1" "eng_serial e1 = eng_serial e"
    by blast
  from updateNetworkMap_applied [OF e1(2) assms(4)] assms(5) e1(3)
  obtain e' where "updateNetworkMap env nm e1 = (e', Ret ())" "eng_serial e' = Map_Serial nm" "keeps_conns e1 e'"
    "set (Engine_GetPeers e') = map_peers nm" by auto
  then show ?thesis using e1(1) assms(3) by (auto simp: handleSync_def keeps_conns_def)
qed

section \<open>From the service to the engine\<close>

text \<open>The two sides of a stream: the same box, a working codec and random numbers.\<close>

definition sides_agree :: "Env \<Rightarrow> Mgm_Env \<Rightarrow> bool" where
  "sides_agree env cenv \<longleftrightarrow> box_correct (env_box env) \<and> mc_box cenv = env_box env \<and>
     (\<exists>n. env_nonce env = Ret n \<and> length n = 24) \<and> (\<exists>n. mc_nonce cenv = Ret n \<and> length n = 24) \<and>
     (\<forall>k. parse_key (env_box env) (public_key (env_box env) k) = Ret (public_key (env_box env) k)) \<and>
     (\<forall>m b. marshal_sync env m = Ret b \<longrightarrow> mc_unmarshal_sync cenv b = Ret m) \<and>
     (\<forall>m b. mc_marshal_login cenv m = Ret b \<longrightarrow> unmarshal_login env b = Ret m) \<and>
     (\<forall>m b. marshal_login env m = Ret b \<longrightarrow> mc_unmarshal_login cenv b = Ret m)"

lemma sealed_opened:
  assumes "sides_agree env cenv"
    and "seal env srv marshal failure (public_key (env_box env) k) msg = Ret m"
    and "\<And>b. marshal msg = Ret b \<Longrightarrow> unmarshal b = Ret msg"
  shows "DecryptMessage (mc_box cenv) (mc_nonce cenv) unmarshal (public_key (env_box env) (srv_wgKey srv)) k (Enc_Body m) = Ret msg"
proof -
  obtain n n' where n: "env_nonce env = Ret n" "length n = 24" "mc_nonce cenv = Ret n'"
    using assms(1) by (auto simp: sides_agree_def)
  obtain b where b: "marshal msg = Ret b"
    "Encrypt (env_box env) (Ret n) b (public_key (env_box env) k) (srv_wgKey srv) = Ret (Enc_Body m)"
    using assms(2) n(1) by (auto simp: seal_def EncryptMessage_def split: outcome.splits)
  then show ?thesis
    using decrypt_encrypt [OF _ n(2) b(2)] assms(1,3) n by (simp add: DecryptMessage_def sides_agree_def)
qed

text \<open>A message that the service seals for a client is handled by it as it was sent.\<close>

lemma stream_delivers:
  assumes "sides_agree env cenv" "seal env srv (marshal_sync env) failure (public_key (env_box env) (mgm_key c)) msg = Ret m"
    and "handle msg e = (e', Ret ())"
  shows "receiveEvents cenv c (public_key (env_box env) (srv_wgKey srv)) handle [Ret m] e = (e', None)"
proof -
  have "DecryptMessage (mc_box cenv) (mc_nonce cenv) (mc_unmarshal_sync cenv) (public_key (env_box env) (srv_wgKey srv))
      (mgm_key c) (Enc_Body m) = Ret msg"
    by (rule sealed_opened [OF assms(1,2)]) (use assms(1) in \<open>auto simp: sides_agree_def\<close>)
  with assms(3) show ?thesis by simp
qed

lemma wf_peer_key: "wf_account a \<Longrightarrow> lookup (Account_Peers a) k = Some p \<Longrightarrow> Peer_Key p = k"
  by (auto simp: wf_account_def keyed_def dest!: lookup_in_entries)


text \<open>Two peers that a rule joins, as the service and the engine of one of them see it.\<close>

definition ex_service :: "SyncResponse \<Rightarrow> Env" where
  "ex_service x = (ex_env ex_login)\<lparr>marshal_sync := (\<lambda>m. if m = x then Ret [] else Err (PlainError ''marshal'')),
     marshal_login := (\<lambda>_. Err (PlainError ''marshal''))\<rparr>"

definition ex_client_side :: "SyncResponse \<Rightarrow> Mgm_Env" where
  "ex_client_side x = \<lparr>mc_box = ex_box, mc_nonce = Ret (replicate 24 0), mc_marshal_empty = (\<lambda>_. Ret []),
     mc_marshal_login = (\<lambda>m. if m = ex_login then Ret [] else Err (PlainError ''marshal'')),
     mc_unmarshal_login = (\<lambda>_. Err (PlainError ''unmarshal'')), mc_unmarshal_sync = (\<lambda>_. Ret x),
     mc_unmarshal_flow = (\<lambda>_. Err (PlainError ''unmarshal''))\<rparr>"

lemma ex_sides: "sides_agree (ex_service x) (ex_client_side x)"
  by (auto simp: sides_agree_def ex_service_def ex_client_side_def ex_env_def ex_box_def box_correct_def split: if_splits)

lemma ex_engine_new: "eng_ok ex_engine" "eng_serial ex_engine = 0"
  by (simp_all add: ex_engine_def NewEngine_ok) (simp add: NewEngine_def)


section \<open>A peer is deleted\<close>

text \<open>The keys of the peers that remain for \<open>l\<close> once \<open>k\<close> is deleted.\<close>

lemma remaining_keys:
  assumes "keyed Peer_Key ps"
  shows "Peer_Key ` set (if l = k then [] else filter (\<lambda>r. l \<noteq> Peer_Key r) (vals (map_delete ps k))) =
    {pid. l \<noteq> k \<and> pid \<noteq> l \<and> pid \<noteq> k \<and> lookup ps pid \<noteq> None}" (is "?L = ?R")
proof (rule set_eqI)
  fix pid
  have lk: "r \<in> set (vals (map_delete ps k)) \<longleftrightarrow> Peer_Key r \<noteq> k \<and> lookup ps (Peer_Key r) = Some r" for r
    using vals_conv [OF keyed_wf [OF keyed_delete [OF assms]], of r k] keyed_lookup [OF assms] by auto
  have "pid \<in> ?L \<longleftrightarrow> (\<exists>r. l \<noteq> k \<and> r \<in> set (vals (map_delete ps k)) \<and> pid = Peer_Key r \<and> pid \<noteq> l)" by auto
  also have "\<dots> \<longleftrightarrow> pid \<in> ?R" unfolding lk using keyed_lookup [OF assms, of pid] by auto
  finally show "pid \<in> ?L \<longleftrightarrow> pid \<in> ?R" .
qed

text \<open>The message about a deletion that waits in the channel of a peer of the account.\<close>

lemma deletion_buffered:
  assumes "all_accounts good_account s" "pum_ok m" "DeletePeer s m i k = Some ((s', m'), Ret p)" "GetAccount s i = Ret a"
    and "lookup (Account_Peers a) l \<noteq> None" "peerChannels m l = Some ch" "chan_buf (channels m ch) = []"
  obtains u net where "chan_buf (channels m' ch) = [u]" "Sync_NetworkMap (Update u) = Some net"
    "Map_Serial net = Network_Serial (Account_Network a) + 1"
    "Remote_WgPubKey ` set (Map_RemotePeers net) = {pid. l \<noteq> k \<and> pid \<noteq> l \<and> pid \<noteq> k \<and> lookup (Account_Peers a) pid \<noteq> None}"
    "map_peers net = {pid. l \<noteq> k \<and> pid \<noteq> l \<and> pid \<noteq> k \<and> lookup (Account_Peers a) pid \<noteq> None}"
proof -
  let ?others = "if l = k then [] else filter (\<lambda>r. l \<noteq> Peer_Key r) (vals (map_delete (Account_Peers a) k))"
  obtain u net where buf: "chan_buf (channels m' ch) = [u]" "Sync_NetworkMap (Update u) = Some net"
    "Map_Serial net = Network_Serial (Account_Network a) + 1" "Map_RemotePeers net = toRemotePeerConfig ?others"
    "Map_RemotePeersIsEmpty net \<longleftrightarrow> ?others = []"
  proof (cases "l = k")
    case True
    with DeletePeer_channels(2) [OF assms(1-4), of ch] assms(6,7) show ?thesis
      by (auto intro!: that simp: empty_update_def toRemotePeerConfig_def)
  next
    case False
    obtain q where "lookup (Account_Peers a) l = Some q" using assms(5) by blast
    with DeletePeer_channels(1) [OF assms(1-4) _ False assms(6)] assms(7) False show ?thesis
      by (auto intro!: that simp: peers_update_def Let_def toRemotePeerConfig_def)
  qed
  have keys: "Remote_WgPubKey ` set (Map_RemotePeers net) = Peer_Key ` set ?others"
    unfolding buf(4) by (metis list.set_map remote_keys)
  then have "map_peers net = Peer_Key ` set ?others" using buf(5) by (auto simp: map_peers_def)
  with that buf(1-3) keys show thesis
    unfolding remaining_keys [OF good_keyed(3) [OF goodD(1) [OF assms(1,4)]]] by blast
qed

text \<open>
  C8: deleting a peer reaches the engines. When a peer is deleted while another peer of the account is
  connected and has received everything before, the next message of its stream makes the engine of
  the other peer drop the deleted one: afterwards it has a connection exactly to the remaining peers
  of the account, and the new serial. A deleted peer that is connected is told to drop everybody.
\<close>

theorem deletion_reaches_engines:
  assumes "sides_agree env cenv" "all_accounts good_account s" "pum_ok m" "DeletePeer s m i k = Some ((s', st_updates st), Ret p)"
    and "GetAccount s i = Ret a" "lookup (Account_Peers a) l \<noteq> None" "l = public_key (env_box env) (mgm_key c)"
    and "peerChannels m l = Some ch" "chan_buf (channels m ch) = []"
    and "Sync_update env srv st None l ch = Some (st', Inl msg)"
    and "eng_ok e" "eng_serial e \<le> Network_Serial (Account_Network a) + 1" "urls_parse eenv"
    and "\<forall>p \<in> set (vals (Account_Peers a)). is_ret (parse_key (en_box eenv) (Peer_Key p))"
  shows "\<exists>e'. receiveEvents cenv c (public_key (env_box env) (srv_wgKey srv)) (handleSync eenv) [Ret msg] e = (e', None) \<and>
    eng_serial e' = Network_Serial (Account_Network a) + 1 \<and>
    set (Engine_GetPeers e') = {pid. l \<noteq> k \<and> pid \<noteq> l \<and> pid \<noteq> k \<and> lookup (Account_Peers a) pid \<noteq> None}"
proof -
  obtain u net where buf: "chan_buf (channels (st_updates st) ch) = [u]" "Sync_NetworkMap (Update u) = Some net"
    "Map_Serial net = Network_Serial (Account_Network a) + 1"
    "Remote_WgPubKey ` set (Map_RemotePeers net) = {pid. l \<noteq> k \<and> pid \<noteq> l \<and> pid \<noteq> k \<and> lookup (Account_Peers a) pid \<noteq> None}"
    and peers: "map_peers net = {pid. l \<noteq> k \<and> pid \<noteq> l \<and> pid \<noteq> k \<and> lookup (Account_Peers a) pid \<noteq> None}"
    by (rule deletion_buffered [OF assms(2-6,8,9)])
  have sealed: "seal env srv (marshal_sync env) ''failed processing update message'' (public_key (env_box env) (mgm_key c)) (Update u) = Ret msg"
    using assms(10) buf(1) assms(7) by (auto simp: Sync_update_def receive_def Let_def split: outcome.splits)
  have "is_ret (parse_key (en_box eenv) x)" if "x \<in> Remote_WgPubKey ` set (Map_RemotePeers net)" for x
  proof -
    from that buf(4) obtain r where r: "lookup (Account_Peers a) x = Some r" by blast
    from keyed_lookup [OF good_keyed(3) [OF goodD(1) [OF assms(2,5)]] r] assms(14) vals_lookup [OF r] show ?thesis by auto
  qed
  then have valid: "map_valid eenv net" by (auto simp: map_valid_def)
  obtain e' where e': "handleSync eenv (Update u) e = (e', Ret ())" "eng_serial e' = Network_Serial (Account_Network a) + 1"
    "set (Engine_GetPeers e') = map_peers net"
    using handleSync_applied [OF assms(11,13) buf(2) valid] buf(3) assms(12) by auto
  with stream_delivers [OF assms(1) sealed, of "handleSync eenv" e e'] peers show ?thesis by simp
qed

definition ex_connected :: PeersUpdateManager where
  "ex_connected = fst (CreateChannel NewPeersUpdateManager ''l'')"

lemma ex_connected_room: "pum_ok ex_connected" "\<forall>l. has_room ex_connected l" "peerChannels ex_connected ''l'' = Some 0"
  "chan_buf (channels ex_connected 0) = []"
  by (auto simp: ex_connected_def CreateChannel_def NewPeersUpdateManager_def has_room_def pum_ok_def chan_capacity_def inj_on_def Let_def
      split: if_splits)

theorem deletion_reaches_engines_witness:
  "\<exists>x s s' m' msg e. DeletePeer s ex_connected ''acc'' ''k'' = Some ((s', m'), Ret (ex_peer_at ''k'' 2)) \<and>
     receiveEvents (ex_client_side x) \<lparr>mgm_key = ''l''\<rparr> ''priv'' (handleSync ex_engine_env) [Ret msg] ex_engine = (e, None) \<and>
     set (Engine_GetPeers e) = {}"
proof -
  obtain s where s: "SaveAccount (empty_store ''store.json'' NoFile []) ex_net_account = (s, Ret ())" "write_faults s = []"
    using SaveAccount_no_faults [OF ex_net_closed, of "empty_store ''store.json'' NoFile []"] by (auto simp: empty_store_def)
  have good: "good_store s"
    using all_accounts_save [OF empty_good [of good_account] ex_net_good, of "''store.json''" NoFile "[]"] s(1) by simp
  have get: "GetAccount s ''acc'' = Ret ex_net_account"
    using fs.get_saved [OF SaveAccount_Ret(7) [OF s(1)] s(1)] by (simp add: ex_net_account_def ex_id)
  obtain s' m' where d: "DeletePeer s ex_connected ''acc'' ''k'' = Some ((s', m'), Ret (ex_peer_at ''k'' 2))"
    using DeletePeer_ok [OF good get _ ex_net_closed s(2) ex_connected_room(1,2), of "''k''" "ex_peer_at ''k'' 2"]
    by (auto simp: ex_net_maps)
  define st where "st = (ex_stream_state s)\<lparr>st_updates := m'\<rparr>"
  obtain u where u: "chan_buf (channels m' 0) = [u]"
    using DeletePeer_channels(1) [OF good ex_connected_room(1) d get, of "''l''" "ex_peer_at ''l'' 3" 0] ex_connected_room(3,4)
    by (auto simp: ex_net_maps)
  define x where "x = Update u"
  obtain msg st' where "Sync_update (ex_service x) ex_srv st None ''l'' 0 = Some (st', Inl msg)"
    using u by (simp add: Sync_update_def receive_def st_def x_def seal_def EncryptMessage_def Encrypt_def ex_service_def ex_env_def)
  then have "\<exists>e. receiveEvents (ex_client_side x) \<lparr>mgm_key = ''l''\<rparr> (public_key (env_box (ex_service x)) (srv_wgKey ex_srv))
      (handleSync ex_engine_env) [Ret msg] ex_engine = (e, None) \<and>
      eng_serial e = Network_Serial (Account_Network ex_net_account) + 1 \<and>
      set (Engine_GetPeers e) = {pid. ''l'' \<noteq> ''k'' \<and> pid \<noteq> ''l'' \<and> pid \<noteq> ''k'' \<and> lookup (Account_Peers ex_net_account) pid \<noteq> None}"
    by (intro deletion_reaches_engines [OF ex_sides good ex_connected_room(1) _ get])
      (use d in \<open>simp_all add: st_def ex_net_maps ex_connected_room ex_service_def ex_env_def ex_box_def ex_engine_new urls_parse_def ex_engine_env_def\<close>)
  then obtain e where "receiveEvents (ex_client_side x) \<lparr>mgm_key = ''l''\<rparr> ''priv'' (handleSync ex_engine_env) [Ret msg] ex_engine = (e, None)"
    "set (Engine_GetPeers e) = {}"
    by (auto simp: ex_net_maps ex_service_def ex_env_def ex_box_def ex_srv_def split: if_splits)
  with d show ?thesis by blast
qed

section \<open>A client registers itself\<close>

lemma on_the_wire_Err: "on_ret (s, on_the_wire (Err e)) (\<lambda>s e. (s, Err e)) f = (s, on_the_wire (Err e))"
  by (cases e) simp_all

definition rpc_serves :: "Mgmt_State Mgm_Rpc \<Rightarrow> Env \<Rightarrow> Mgmt_Server \<Rightarrow> Fresh \<Rightarrow> bool" where
  "rpc_serves rpc env srv fr \<longleftrightarrow> mgm_ready (rpc_state rpc) \<and>
     (\<forall>st req st' r. Login env srv st fr req = Some (st', r) \<longrightarrow> rpc_Login rpc st req = (st', on_the_wire r))"

lemma login_request_opened:
  assumes "sides_agree env cenv"
    and "EncryptMessage (mc_box cenv) (mc_nonce cenv) (mc_marshal_login cenv) (public_key (env_box env) (srv_wgKey srv)) k req = Ret body"
  shows "DecryptMessage (env_box env) (env_nonce env) (unmarshal_login env) (public_key (env_box env) k) (srv_wgKey srv) body = Ret req"
proof -
  obtain n n' where n: "env_nonce env = Ret n" "mc_nonce cenv = Ret n'" "length n' = 24"
    using assms(1) by (auto simp: sides_agree_def)
  obtain b where "mc_marshal_login cenv req = Ret b"
    "Encrypt (env_box env) (Ret n') b (public_key (env_box env) (srv_wgKey srv)) k = Ret body"
    using assms n(2) by (auto simp: EncryptMessage_def sides_agree_def split: outcome.splits)
  with decrypt_encrypt [OF _ n(3) this(2)] assms(1) n(1) show ?thesis by (simp add: DecryptMessage_def sides_agree_def)
qed

lemma login_served:
  assumes "sides_agree env cenv" "rpc_serves rpc env srv fr" "is_ret (mc_marshal_login cenv req)"
    and "login_peer env srv st fr (public_key (env_box env) (mgm_key c)) req = Some (st', r)"
  shows "mgm_login cenv rpc c st (public_key (env_box env) (srv_wgKey srv)) req =
    (case r of Err e \<Rightarrow> (st', on_the_wire (Err e)) | Panic p \<Rightarrow> (st', Panic p)
     | Ret peer \<Rightarrow> on_ret (st', on_the_wire (login_response env srv (public_key (env_box env) (mgm_key c)) peer)) (\<lambda>s e. (s, Err e))
         (\<lambda>s resp. (s, DecryptMessage (mc_box cenv) (mc_nonce cenv) (mc_unmarshal_login cenv)
            (public_key (env_box env) (srv_wgKey srv)) (mgm_key c) (Enc_Body resp))))"
proof -
  let ?k = "public_key (env_box env) (mgm_key c)"
  have box: "mc_box cenv = env_box env" "parse_key (env_box env) ?k = Ret ?k" using assms(1) by (simp_all add: sides_agree_def)
  obtain b where "mc_marshal_login cenv req = Ret b" using assms(3) by (cases "mc_marshal_login cenv req") auto
  then obtain body where body: "EncryptMessage (mc_box cenv) (mc_nonce cenv) (mc_marshal_login cenv)
      (public_key (env_box env) (srv_wgKey srv)) (mgm_key c) req = Ret body"
    using assms(1) by (auto simp: EncryptMessage_def Encrypt_def sides_agree_def)
  note dec = login_request_opened [OF assms(1) body]
  have "Login env srv st fr \<lparr>Enc_WgPubKey = ?k, Enc_Body = body\<rparr> = Some (st',
      case r of Err e \<Rightarrow> Err e | Panic p \<Rightarrow> Panic p | Ret peer \<Rightarrow> login_response env srv ?k peer)"
    using box(2) dec assms(4) by (cases r) (simp_all add: Login_def)
  then have "rpc_Login rpc st \<lparr>Enc_WgPubKey = ?k, Enc_Body = body\<rparr> = (st', on_the_wire
      (case r of Err e \<Rightarrow> Err e | Panic p \<Rightarrow> Panic p | Ret peer \<Rightarrow> login_response env srv ?k peer))"
    using assms(2) by (auto simp: rpc_serves_def)
  then show ?thesis using body assms(2) box(1)
    by (cases r) (auto simp: mgm_login_def rpc_serves_def on_the_wire_Err)
qed


lemma ex_registerPeer:
  "\<exists>s p. registerPeer env ex_srv ex_state ex_fresh ''k'' ex_login = Some (ex_state\<lparr>st_store := s\<rparr>, Ret p)"
proof -
  obtain s p where add: "AddPeer ex_store ex_fresh ''b2'' [] (request_peer ''k'' ex_meta) = Some (s, Ret p)"
    using AddPeer_ok [OF ex_good _ ex_all ex_closed] ex_registration
    by (fastforce simp: ex_fresh_def ex_maps vals_def ex_saved(2))
  then show ?thesis using ex_first_map [OF add]
    by (auto simp: ex_state_def ex_login_def registerPeer_def register_credential_def)
qed

definition ex_info :: Info where
  "ex_info = \<lparr>Info_GoOS = ''linux'', Info_Kernel = [], Info_Core = [], Info_Platform = [], Info_OS = [], Info_OSVersion = [],
     Info_Hostname = ''h'', Info_WiretrusteeVersion = [], Info_UIVersion = []\<rparr>"

definition ex_login_service :: "LoginResponse \<Rightarrow> Env" where
  "ex_login_service x = (ex_env ex_login)\<lparr>marshal_login := (\<lambda>m. if m = x then Ret [] else Err (PlainError ''marshal'')),
     marshal_sync := (\<lambda>_. Err (PlainError ''marshal'')),
     unmarshal_login := (\<lambda>b. Ret (if b = [0] then ex_login\<lparr>Login_SetupKey := []\<rparr> else ex_login))\<rparr>"

definition ex_login_client :: "LoginResponse \<Rightarrow> Mgm_Env" where
  "ex_login_client x = \<lparr>mc_box = ex_box, mc_nonce = Ret (replicate 24 0), mc_marshal_empty = (\<lambda>_. Ret []),
     mc_marshal_login = (\<lambda>m. if m = ex_login then Ret [1] else if m = ex_login\<lparr>Login_SetupKey := []\<rparr> then Ret [0] else Err (PlainError ''marshal'')),
     mc_unmarshal_login = (\<lambda>_. Ret x), mc_unmarshal_sync = (\<lambda>_. Err (PlainError ''unmarshal'')),
     mc_unmarshal_flow = (\<lambda>_. Err (PlainError ''unmarshal''))\<rparr>"

definition ex_login_rpc :: "Env \<Rightarrow> Mgmt_State Mgm_Rpc" where
  "ex_login_rpc env = \<lparr>rpc_state = Conn_Ready, rpc_GetServerKey = (\<lambda>_. Ret (GetServerKey env ex_srv 0)),
     rpc_Login = (\<lambda>st req. case Login env ex_srv st ex_fresh req of None \<Rightarrow> (st, Err (PlainError ''deadline''))
       | Some (st', r) \<Rightarrow> (st', on_the_wire r)),
     rpc_GetDeviceAuthorizationFlow = (\<lambda>_ _. Err (PlainError ''x'')), rpc_Close = Ret ()\<rparr>"


end
