(* ===== verification/System_Run.thy ===== *)
theory System_Run
  imports System_Properties
begin

text \<open>
  The Management Service and its clients as one system. The account manager, the registrations
  and the streams of the service run interleaved; every client has an engine and reads the stream
  it opened last. The first theorem holds in every run: an engine is only ever connected to peers
  that the store had attributed to the same account.
\<close>

section \<open>The handlers in pieces\<close>

text \<open>
  \<open>Sync\<close> up to the initial message, and from the creation of the channel to the loop. Between the
  two pieces the service holds no lock.
\<close>

definition Sync_greet ::
  "Env \<Rightarrow> Mgmt_Server \<Rightarrow> Mgmt_State \<Rightarrow> int \<Rightarrow> GoError option \<Rightarrow> EncryptedMessage \<Rightarrow> (string \<times> EncryptedMessage) outcome" where
  "Sync_greet env srv st now sent req =
     (case parse_key (env_box env) (Enc_WgPubKey req) of
        Err e \<Rightarrow> Err (StatusError InvalidArgument ''provided wgPubKey is invalid'')
      | Panic p \<Rightarrow> Panic p
      | Ret peerKey \<Rightarrow>
          (case GetPeer (st_store st) peerKey of
             Err e \<Rightarrow> Err (StatusError PermissionDenied
               (''provided peer with the key wgPubKey '' @ peerKey @ '' is not registered''))
           | Panic p \<Rightarrow> Panic p
           | Ret peer \<Rightarrow>
               (case DecryptMessage (env_box env) (env_nonce env) (unmarshal_empty env) peerKey (srv_wgKey srv) (Enc_Body req) of
                  Err e \<Rightarrow> Err (StatusError InvalidArgument ''invalid request message'')
                | Panic p \<Rightarrow> Panic p
                | Ret u \<Rightarrow>
                    (case sendInitialSync env srv st now sent peerKey peer of
                       Err e \<Rightarrow> Err e
                     | Panic p \<Rightarrow> Panic p
                     | Ret m \<Rightarrow> Ret (peerKey, m)))))"

definition Sync_enter :: "Mgmt_Server \<Rightarrow> Mgmt_State \<Rightarrow> int \<Rightarrow> string \<Rightarrow> Mgmt_State \<times> nat outcome" where
  "Sync_enter srv st now peerKey =
     (let (updates, c) = CreateChannel (st_updates st) peerKey;
          (s1, marked) = MarkPeerConnected (st_store st) now peerKey True;
          st1 = st\<lparr>st_updates := updates, st_store := s1\<rparr>
      in case marked of
           Panic p \<Rightarrow> (st1, Panic p)
         | _ \<Rightarrow>
             (case Config_TURNConfig (srv_config srv) of
                None \<Rightarrow> (st1, Panic NilDereference)
              | Some tc \<Rightarrow>
                  (if TURN_TimeBasedCredentials tc
                   then st1\<lparr>st_turn := SetupRefresh (st_turn st1) peerKey\<rparr> else st1, Ret c)))"

text \<open>Without anything in between, the two pieces are the handler.\<close>

lemma Sync_open_pieces:
  "Sync_open env srv st now sent req =
     (case Sync_greet env srv st now sent req of
        Err e \<Rightarrow> (st, Err e)
      | Panic p \<Rightarrow> (st, Panic p)
      | Ret (k, m) \<Rightarrow>
          (case Sync_enter srv st now k of
             (st1, Ret c) \<Rightarrow> (st1, Ret (k, c, m))
           | (st1, Err e) \<Rightarrow> (st1, Err e)
           | (st1, Panic p) \<Rightarrow> (st1, Panic p)))"
  by (simp add: Sync_open_def Sync_greet_def Sync_enter_def Let_def split: outcome.splits option.splits prod.splits)

text \<open>
  An update that is sent between the two pieces to a peer that had no channel is lost: nobody receives it,
  and the channel of the stream starts empty. The initial message was made before, so the peer learns
  of the change only with a later one.
\<close>

lemma update_before_channel_lost:
  assumes "Sync_greet env srv st now sent req = Ret (k, m)" "peerChannels (st_updates st) k = None"
    and "SendUpdate (st_updates st) k u = Some (p, r)" "Sync_enter srv (st\<lparr>st_updates := p\<rparr>) now' k = (st', Ret c)"
  shows "p = st_updates st \<and> r = Ret () \<and> peerChannels (st_updates st') k = Some c \<and> chan_buf (channels (st_updates st') c) = []"
proof -
  have "p = st_updates st" "r = Ret ()" using assms(2,3) by (simp_all add: SendUpdate_def)
  moreover have "CreateChannel p k = (st_updates st', c)"
    using assms(4) by (auto simp: Sync_enter_def Let_def split: prod.splits outcome.splits option.splits if_splits)
  ultimately show ?thesis using create_channels [of p k "st_updates st'" c] by simp
qed

text \<open>What \<open>registerPeer\<close> tells the peer \<open>remote\<close> about the new peer \<open>p\<close>, one turn of its loop.\<close>

definition register_tell ::
  "Config \<Rightarrow> Peer \<Rightarrow> Peer list \<Rightarrow> 64 word \<Rightarrow> Peer \<Rightarrow> PeersUpdateManager \<Rightarrow> (PeersUpdateManager \<times> unit outcome) option" where
  "register_tell config p peers serial remote m =
     (case toSyncResponse config p (p # filter (\<lambda>q. Peer_Key remote \<noteq> Peer_Key q) peers) None serial of
        Err e \<Rightarrow> Some (m, Err e)
      | Panic q \<Rightarrow> Some (m, Panic q)
      | Ret update \<Rightarrow> SendUpdate m (Peer_Key remote) \<lparr>Update = update\<rparr>)"

lemma announce_pieces:
  assumes "register_tell config p peers serial remote m = Some (m1, Ret ())"
  shows "announce config p peers serial (remote # rest) m = announce config p peers serial rest m1"
  using assms by (auto simp: register_tell_def Let_def split: outcome.splits)

section \<open>The system\<close>

text \<open>
  A registration that has added its peer, then one that still has to tell some of the others. A
  stream that has sent the initial message, with the serial of the network at that time, then one
  that reads its channel. \<open>sys_wire\<close> holds what a stream has sent and its client has not read,
  \<open>sys_missed\<close> the streams before whose channel was created the network had changed. A client is
  known by its private key; \<open>sys_current\<close> is the stream it reads.
\<close>

datatype task = Added Peer | Telling Peer "Peer list" "64 word" "Peer list"

datatype stream = NoStream | Greeted string "64 word" | Reading string nat | Finished string

record System =
  sys_mgmt :: Mgmt_State
  sys_tasks :: "nat \<Rightarrow> task option"
  sys_streams :: "nat \<Rightarrow> stream"
  sys_wire :: "nat \<Rightarrow> EncryptedMessage list"
  sys_missed :: "nat set"
  sys_engine :: "string \<Rightarrow> Engine option"
  sys_current :: "string \<Rightarrow> nat option"

abbreviation sys_store :: "System \<Rightarrow> FileStore" where
  "sys_store s \<equiv> st_store (sys_mgmt s)"

abbreviation sys_pum :: "System \<Rightarrow> PeersUpdateManager" where
  "sys_pum s \<equiv> st_updates (sys_mgmt s)"

definition sys_start :: "Mgmt_State \<Rightarrow> System" where
  "sys_start st = \<lparr>sys_mgmt = st, sys_tasks = Map.empty, sys_streams = (\<lambda>_. NoStream), sys_wire = (\<lambda>_. []),
     sys_missed = {}, sys_engine = Map.empty, sys_current = Map.empty\<rparr>"

fun stream_key :: "stream \<Rightarrow> string option" where
  "stream_key NoStream = None"
| "stream_key (Greeted k n) = Some k"
| "stream_key (Reading k c) = Some k"
| "stream_key (Finished k) = Some k"

abbreviation put_store :: "FileStore \<Rightarrow> System \<Rightarrow> System" where
  "put_store t s \<equiv> s\<lparr>sys_mgmt := (sys_mgmt s)\<lparr>st_store := t\<rparr>\<rparr>"

abbreviation put_pum :: "PeersUpdateManager \<Rightarrow> System \<Rightarrow> System" where
  "put_pum m s \<equiv> s\<lparr>sys_mgmt := (sys_mgmt s)\<lparr>st_updates := m\<rparr>\<rparr>"

text \<open>The serial of the network of a peer.\<close>

definition peer_serial :: "FileStore \<Rightarrow> string \<Rightarrow> 64 word" where
  "peer_serial t k = (case GetPeerAccount t k of Ret a \<Rightarrow> Network_Serial (Account_Network a) | _ \<Rightarrow> 0)"

text \<open>
  One step of the system. A call of the account manager is a step, because it holds the mutex of
  the manager; a send to a channel is a step, because it holds the mutex of the channels. A panic of
  a gRPC handler ends the program and is no step; one of an HTTP handler is caught, so \<open>Admin\<close> and
  \<open>Delete\<close> have all outcomes. A stream is opened by any request (\<open>Greet\<close>); it may come from a
  client of the system, which then reads it.
\<close>

inductive sys_step :: "Env \<Rightarrow> Mgmt_Server \<Rightarrow> Mgm_Env \<Rightarrow> Engine_Env \<Rightarrow> System \<Rightarrow> System \<Rightarrow> bool"
  for env srv cenv eenv where
  Admin: "admin_step (sys_store s) t \<Longrightarrow> sys_step env srv cenv eenv s (put_store t s)"
| Add: "sys_tasks s j = None \<Longrightarrow> AddPeer (sys_store s) fr key u peer = Some (t, Ret p) \<Longrightarrow>
    sys_step env srv cenv eenv s ((put_store t s)\<lparr>sys_tasks := (sys_tasks s)(j \<mapsto> Added p)\<rparr>)"
| AddFails: "AddPeer (sys_store s) fr key u peer = Some (t, Err e) \<Longrightarrow> sys_step env srv cenv eenv s (put_store t s)"
| Map: "sys_tasks s j = Some (Added p) \<Longrightarrow> GetNetworkMap (sys_store s) (Peer_Key p) = Ret nm \<Longrightarrow>
    sys_step env srv cenv eenv s (s\<lparr>sys_tasks := (sys_tasks s)(j \<mapsto>
      Telling p (NetworkMap_Peers nm) (CurrentSerial (NetworkMap_Network nm)) (NetworkMap_Peers nm))\<rparr>)"
| MapFails: "sys_tasks s j = Some (Added p) \<Longrightarrow> GetNetworkMap (sys_store s) (Peer_Key p) = Err e \<Longrightarrow>
    sys_step env srv cenv eenv s (s\<lparr>sys_tasks := (sys_tasks s)(j := None)\<rparr>)"
| Tell: "sys_tasks s j = Some (Telling p ps n (r # rs)) \<Longrightarrow>
    register_tell (srv_config srv) p ps n r (sys_pum s) = Some (m, Ret ()) \<Longrightarrow>
    sys_step env srv cenv eenv s ((put_pum m s)\<lparr>sys_tasks := (sys_tasks s)(j \<mapsto> Telling p ps n rs)\<rparr>)"
| Told: "sys_tasks s j = Some (Telling p ps n []) \<Longrightarrow>
    sys_step env srv cenv eenv s (s\<lparr>sys_tasks := (sys_tasks s)(j := None)\<rparr>)"
| Delete: "DeletePeer (sys_store s) (sys_pum s) i k = Some ((t, m), r') \<Longrightarrow>
    sys_step env srv cenv eenv s (put_pum m (put_store t s))"
| Refresh: "refresh_round hmac (st_turn (sys_mgmt s)) (sys_pum s) k g now = Some (Sent m) \<Longrightarrow>
    sys_step env srv cenv eenv s (put_pum m s)"
| Greet: "sys_streams s n = NoStream \<Longrightarrow> Sync_greet env srv (sys_mgmt s) now sent req = Ret (k, m) \<Longrightarrow>
    current = sys_current s \<or> current = (sys_current s)(x \<mapsto> n) \<and> public_key (env_box env) x = k \<Longrightarrow>
    sys_step env srv cenv eenv s (s\<lparr>sys_streams := (sys_streams s)(n := Greeted k (peer_serial (sys_store s) k)),
      sys_wire := (sys_wire s)(n := [m]), sys_current := current\<rparr>)"
| Enter: "sys_streams s n = Greeted k serial \<Longrightarrow> Sync_enter srv (sys_mgmt s) now k = (st, Ret c) \<Longrightarrow>
    sys_step env srv cenv eenv s (s\<lparr>sys_mgmt := st, sys_streams := (sys_streams s)(n := Reading k c),
      sys_missed := (if peer_serial (sys_store s) k = serial then sys_missed s else insert n (sys_missed s))\<rparr>)"
| Update: "sys_streams s n = Reading k c \<Longrightarrow> Sync_update env srv (sys_mgmt s) sent k c = Some (st, Inl msg) \<Longrightarrow>
    sys_step env srv cenv eenv s (s\<lparr>sys_mgmt := st, sys_wire := (sys_wire s)(n := sys_wire s n @ [msg])\<rparr>)"
| UpdateEnds: "sys_streams s n = Reading k c \<Longrightarrow> Sync_update env srv (sys_mgmt s) sent k c = Some (st, Inr r') \<Longrightarrow>
    sys_step env srv cenv eenv s (s\<lparr>sys_mgmt := st, sys_streams := (sys_streams s)(n := Finished k)\<rparr>)"
| Done: "sys_streams s n = Reading k c \<Longrightarrow> Sync_done (sys_mgmt s) now e k = (st, r') \<Longrightarrow>
    sys_step env srv cenv eenv s (s\<lparr>sys_mgmt := st, sys_streams := (sys_streams s)(n := Finished k)\<rparr>)"
| Boot: "sys_step env srv cenv eenv s (s\<lparr>sys_engine := (sys_engine s)(x \<mapsto> NewEngine config conns),
      sys_current := (sys_current s)(x := None)\<rparr>)"
| Leave: "sys_step env srv cenv eenv s (s\<lparr>sys_current := (sys_current s)(x := None)\<rparr>)"
| Deliver: "sys_current s x = Some n \<Longrightarrow> sys_wire s n = msg # msgs \<Longrightarrow> sys_engine s x = Some e \<Longrightarrow>
    receiveEvents cenv \<lparr>mgm_key = x\<rparr> (public_key (env_box env) (srv_wgKey srv)) (handleSync eenv) [Ret msg] e = (e', None) \<Longrightarrow>
    sys_step env srv cenv eenv s (s\<lparr>sys_engine := (sys_engine s)(x \<mapsto> e'), sys_wire := (sys_wire s)(n := msgs)\<rparr>)"
| DeliverFails: "sys_current s x = Some n \<Longrightarrow> sys_wire s n = msg # msgs \<Longrightarrow> sys_engine s x = Some e \<Longrightarrow>
    receiveEvents cenv \<lparr>mgm_key = x\<rparr> (public_key (env_box env) (srv_wgKey srv)) (handleSync eenv) [Ret msg] e = (e', Some r') \<Longrightarrow>
    sys_step env srv cenv eenv s (s\<lparr>sys_engine := (sys_engine s)(x \<mapsto> e'), sys_wire := (sys_wire s)(n := msgs),
      sys_current := (sys_current s)(x := None)\<rparr>)"

text \<open>
  A run from a service with a good store and no streams, all of whose steps satisfy \<open>ok\<close>, with the
  stores it went through.
\<close>

inductive sys_run ::
  "(System \<Rightarrow> System \<Rightarrow> bool) \<Rightarrow> Env \<Rightarrow> Mgmt_Server \<Rightarrow> Mgm_Env \<Rightarrow> Engine_Env \<Rightarrow> System \<Rightarrow> FileStore list \<Rightarrow> bool"
  for ok env srv cenv eenv where
  init: "all_accounts good_account (st_store st) \<Longrightarrow> st_updates st = NewPeersUpdateManager \<Longrightarrow>
    ok (sys_start st) (sys_start st) \<Longrightarrow> sys_run ok env srv cenv eenv (sys_start st) [st_store st]"
| step: "sys_run ok env srv cenv eenv s hist \<Longrightarrow> sys_step env srv cenv eenv s s' \<Longrightarrow> ok s s' \<Longrightarrow>
    sys_run ok env srv cenv eenv s' (sys_store s' # hist)"

section \<open>What the service sends\<close>

text \<open>A peer belongs to an account if the account lists it or the index of peers points to the account.\<close>

definition belongs :: "FileStore \<Rightarrow> string \<Rightarrow> string \<Rightarrow> bool" where
  "belongs t i k \<longleftrightarrow> PeerKeyId2AccountId t k = Some i \<or> (\<exists>a. GetAccount t i = Ret a \<and> lookup (Account_Peers a) k \<noteq> None)"

definition mates :: "FileStore \<Rightarrow> string \<Rightarrow> string \<Rightarrow> bool" where
  "mates t k l \<longleftrightarrow> (\<exists>i. belongs t i k \<and> belongs t i l)"

lemma collect_peers_within:
  assumes "collect_peers a k gs = Ret res" "keyed Peer_Key (Account_Peers a)" "p \<in> set res"
  shows "lookup (Account_Peers a) (Peer_Key p) = Some p \<and> Peer_Key p \<noteq> k"
  using assms
proof (induction a k gs arbitrary: res rule: collect_peers.induct)
  case (3 a k gid g gs)
  then show ?case using keyed_lookup [OF "3.prems"(2)] by (auto simp: set_group_peers split: outcome.splits)
qed auto

lemma GetNetworkMap_within:
  assumes "good_store t" "GetNetworkMap t k = Ret nm"
  obtains a where "GetPeerAccount t k = Ret a" "PeerKeyId2AccountId t k = Some (Account_Id a)" "GetAccount t (Account_Id a) = Ret a"
    "NetworkMap_Network nm = Account_Network a"
    "\<And>p. p \<in> set (NetworkMap_Peers nm) \<Longrightarrow> lookup (Account_Peers a) (Peer_Key p) = Some p \<and> Peer_Key p \<noteq> k"
proof -
  obtain a where a: "GetPeerAccount t k = Ret a" using assms(2) by (auto simp: GetNetworkMap_def split: outcome.splits)
  then obtain i where i: "PeerKeyId2AccountId t k = Some i" "GetAccount t i = Ret a"
    by (auto simp: GetPeerAccount_def split: option.splits)
  then have id: "Account_Id a = i" using all_accounts_id [OF assms(1)] by blast
  have keyed: "keyed Peer_Key (Account_Peers a)" by (rule good_keyed(3) [OF goodD(1) [OF assms(1) i(2)]])
  have "NetworkMap_Network nm = Account_Network a \<and> (NetworkMap_Peers nm = [] \<or> (\<exists>gs. collect_peers a k gs = Ret (NetworkMap_Peers nm)))"
    using assms(2) a by (auto simp: GetNetworkMap_def Let_def split: outcome.splits)
  then show ?thesis using collect_peers_within [OF _ keyed] a i id by (intro that [of a]) auto
qed

text \<open>An update is proper for \<open>k\<close> if its network map, if any, names only peers that satisfy \<open>P k\<close>.\<close>

definition proper :: "(string \<Rightarrow> string \<Rightarrow> bool) \<Rightarrow> string \<Rightarrow> SyncResponse \<Rightarrow> bool" where
  "proper P k u \<longleftrightarrow> (\<forall>nm. Sync_NetworkMap u = Some nm \<longrightarrow> (\<forall>l \<in> Remote_WgPubKey ` set (Map_RemotePeers nm). P k l))"

lemma proper_mono: "proper P k u \<Longrightarrow> (\<And>l. P k l \<Longrightarrow> Q k l) \<Longrightarrow> proper Q k u"
  by (auto simp: proper_def)

lemma proper_response:
  assumes "toSyncResponse config p peers cred serial = Ret u" "\<And>q. q \<in> set peers \<Longrightarrow> P k (Peer_Key q)"
  shows "proper P k u"
proof -
  obtain nm where nm: "Sync_NetworkMap u = Some nm" "Map_RemotePeers nm = toRemotePeerConfig peers"
    using toSyncResponse_Ret(3) [OF assms(1)] by blast
  have keys: "Remote_WgPubKey ` set (Map_RemotePeers nm) = Peer_Key ` set peers" unfolding nm(2) by (metis list.set_map remote_keys)
  have "\<forall>l \<in> Remote_WgPubKey ` set (Map_RemotePeers nm). P k l" unfolding keys using assms(2) by blast
  then show ?thesis using nm(1) unfolding proper_def by simp
qed

lemma proper_peers_update: "(\<And>q. q \<in> set ps \<Longrightarrow> P k (Peer_Key q)) \<Longrightarrow> proper P k (Update (peers_update serial ps))"
  by (auto simp: proper_def peers_update_def toRemotePeerConfig_def Let_def)

text \<open>
  The channels after some sends: nothing is taken from a channel, and what is added to one is proper for
  the peer it is registered for; a channel may be closed, none is registered.
\<close>

definition sends :: "(string \<Rightarrow> SyncResponse \<Rightarrow> bool) \<Rightarrow> PeersUpdateManager \<Rightarrow> PeersUpdateManager \<Rightarrow> bool" where
  "sends Q m m' \<longleftrightarrow> next_channel m' = next_channel m \<and>
     (\<forall>k c. peerChannels m' k = Some c \<longrightarrow> peerChannels m k = Some c) \<and>
     (\<forall>c. \<exists>us. chan_buf (channels m' c) = chan_buf (channels m c) @ us \<and>
        (\<forall>u \<in> set us. \<exists>k. peerChannels m k = Some c \<and> Q k (Update u)))"

lemma sends_refl: "sends Q m m"
  by (simp add: sends_def)

lemma sends_mono:
  assumes "sends Q m m'" "\<And>k u. Q k u \<Longrightarrow> Q' k u"
  shows "sends Q' m m'"
proof -
  have "\<exists>us. chan_buf (channels m' c) = chan_buf (channels m c) @ us \<and> (\<forall>u \<in> set us. \<exists>k. peerChannels m k = Some c \<and> Q' k (Update u))" for c
    using assms unfolding sends_def by meson
  with assms(1) show ?thesis by (simp add: sends_def)
qed

lemma sends_trans: "sends Q m m1 \<Longrightarrow> sends Q m1 m2 \<Longrightarrow> sends Q m m2"
  unfolding sends_def
proof (intro conjI allI)
  fix c
  assume 1: "next_channel m1 = next_channel m \<and> (\<forall>k c. peerChannels m1 k = Some c \<longrightarrow> peerChannels m k = Some c) \<and>
      (\<forall>c. \<exists>us. chan_buf (channels m1 c) = chan_buf (channels m c) @ us \<and> (\<forall>u \<in> set us. \<exists>k. peerChannels m k = Some c \<and> Q k (Update u)))"
    and 2: "next_channel m2 = next_channel m1 \<and> (\<forall>k c. peerChannels m2 k = Some c \<longrightarrow> peerChannels m1 k = Some c) \<and>
      (\<forall>c. \<exists>us. chan_buf (channels m2 c) = chan_buf (channels m1 c) @ us \<and> (\<forall>u \<in> set us. \<exists>k. peerChannels m1 k = Some c \<and> Q k (Update u)))"
  from 1 obtain us where us: "chan_buf (channels m1 c) = chan_buf (channels m c) @ us"
    "\<forall>u \<in> set us. \<exists>k. peerChannels m k = Some c \<and> Q k (Update u)" by metis
  from 2 obtain vs where vs: "chan_buf (channels m2 c) = chan_buf (channels m1 c) @ vs"
    "\<forall>u \<in> set vs. \<exists>k. peerChannels m1 k = Some c \<and> Q k (Update u)" by metis
  have "\<forall>u \<in> set (us @ vs). \<exists>k. peerChannels m k = Some c \<and> Q k (Update u)" using us(2) vs(2) 1 by (auto dest!: bspec)
  then show "\<exists>us. chan_buf (channels m2 c) = chan_buf (channels m c) @ us \<and>
      (\<forall>u \<in> set us. \<exists>k. peerChannels m k = Some c \<and> Q k (Update u))"
    using us(1) vs(1) by (intro exI [of _ "us @ vs"]) simp
qed auto

lemma sends_update: "SendUpdate m k u = Some (m', r) \<Longrightarrow> Q k (Update u) \<Longrightarrow> sends Q m m'"
  by (auto simp: SendUpdate_def sends_def split: option.splits if_splits)

lemma sends_close: "sends Q m (CloseChannel m k)"
  by (auto simp: sends_def CloseChannel_def close_channel_def split: option.splits if_splits)

lemma sends_notify:
  assumes "notify_peers serial peers ps m = Some (m', r)" "set ps \<subseteq> set peers"
    and "\<And>p. p \<in> set peers \<Longrightarrow> Q (Peer_Key p) (Update (peers_update serial (filter (\<lambda>remote. Peer_Key p \<noteq> Peer_Key remote) peers)))"
  shows "sends Q m m'"
  using assms(1,2)
proof (induction ps arbitrary: m)
  case (Cons p ps)
  let ?u = "peers_update serial (filter (\<lambda>remote. Peer_Key p \<noteq> Peer_Key remote) peers)"
  have "Q (Peer_Key p) (Update ?u)" using assms(3) Cons.prems(2) by simp
  moreover obtain m1 q where m1: "SendUpdate m (Peer_Key p) ?u = Some (m1, q)"
    "q = Ret () \<Longrightarrow> notify_peers serial peers ps m1 = Some (m', r)" "q \<noteq> Ret () \<Longrightarrow> m' = m1"
    using Cons.prems(1) by (auto simp: Let_def split: option.splits outcome.splits)
  ultimately have "sends Q m m1" using sends_update by blast
  then show ?case using m1(2,3) Cons.IH [of m1] Cons.prems(2) sends_trans by (cases "q = Ret ()") auto
qed (simp add: sends_refl)

lemma DeletePeer_stages:
  assumes "DeletePeer s m i k = Some ((t, m'), r)"
  shows "m' = m \<or> (\<exists>serial m1 q. SendUpdate m k (empty_update serial) = Some (m1, q) \<and>
    (m' = m1 \<or> (\<exists>q. notify_deleted t m1 i k serial = Some (m', q))))"
  using assms by (auto simp: DeletePeer_def Let_def split: outcome.splits prod.splits option.splits)

lemma DeletePeer_sends:
  assumes "DeletePeer s m i k = Some ((t, m'), r)" "good_store t"
  shows "sends (proper (mates t)) m m'"
proof -
  have told: "sends (proper (mates t)) m1 m2" if d: "notify_deleted t m1 i k serial = Some (m2, q)" for m1 m2 serial q
  proof (cases "GetAccount t i")
    case (Ret a)
    have keyed: "keyed Peer_Key (Account_Peers a)" by (rule good_keyed(3) [OF goodD(1) [OF assms(2) Ret]])
    have "belongs t i (Peer_Key p)" if p: "p \<in> set (vals (Account_Peers a))" for p
    proof -
      obtain j where j: "lookup (Account_Peers a) j = Some p" using p vals_conv [OF keyed_wf [OF keyed]] by blast
      have "lookup (Account_Peers a) (Peer_Key p) \<noteq> None" using j unfolding keyed_lookup [OF keyed j] by simp
      with Ret show ?thesis unfolding belongs_def by blast
    qed
    then have m: "mates t (Peer_Key p) (Peer_Key q)" if "p \<in> set (vals (Account_Peers a))" "q \<in> set (vals (Account_Peers a))" for p q
      using that by (auto simp: mates_def)
    obtain m3 q3 where n: "notify_peers serial (vals (Account_Peers a)) (vals (Account_Peers a)) m1 = Some (m3, q3)"
      "m2 = m3 \<or> m2 = CloseChannel m3 k"
      using d Ret by (auto simp: notify_deleted_def GetAccountPeers_def split: option.splits prod.splits outcome.splits)
    have "sends (proper (mates t)) m1 m3" by (rule sends_notify [OF n(1) subset_refl]) (auto intro!: proper_peers_update m)
    then show ?thesis using n(2) sends_trans sends_close by blast
  qed (use d in \<open>auto simp: notify_deleted_def GetAccountPeers_def sends_refl\<close>)
  have "proper (mates t) k (Update (empty_update serial))" for serial
    by (simp add: proper_def empty_update_def)
  then show ?thesis using DeletePeer_stages [OF assms(1)] told sends_update sends_trans sends_refl by metis
qed

lemma refresh_sends:
  assumes "refresh_round hmac tm m k g now = Some (Sent m')"
  shows "sends (proper P) m m'"
proof -
  obtain u q where u: "refresh_update hmac tm (now + refresh_sleep tm) = Ret u" "SendUpdate m k u = Some (m', q)"
    using assms by (auto simp: refresh_round_def split: if_splits outcome.splits option.splits)
  then have "Sync_NetworkMap (Update u) = None" by (auto simp: refresh_update_def split: outcome.splits)
  with u(2) show ?thesis by (auto intro: sends_update simp: proper_def)
qed

text \<open>The initial message of a stream.\<close>

lemma greet_proper:
  assumes "good_store (st_store st)" "Sync_greet env srv st now sent req = Ret (k, m)"
  obtains u failure where "seal env srv (marshal_sync env) failure k u = Ret m" "proper (mates (st_store st)) k u"
proof -
  obtain peer where peer: "GetPeer (st_store st) k = Ret peer" "sendInitialSync env srv st now sent k peer = Ret m"
    using assms(2) by (auto simp: Sync_greet_def split: outcome.splits)
  then obtain nm cred u where nm: "GetNetworkMap (st_store st) (Peer_Key peer) = Ret nm"
    "toSyncResponse (srv_config srv) peer (NetworkMap_Peers nm) cred (CurrentSerial (NetworkMap_Network nm)) = Ret u"
    "seal env srv (marshal_sync env) ''error handling request'' k u = Ret m"
    by (auto simp: sendInitialSync_def Let_def split: outcome.splits option.splits)
  obtain i a where ia: "PeerKeyId2AccountId (st_store st) k = Some i" "GetAccount (st_store st) i = Ret a" "lookup (Account_Peers a) k = Some peer"
    using peer(1) by (auto simp: GetPeer_def Store_GetPeer_def split: outcome.splits option.splits)
  have "Peer_Key peer = k" by (rule keyed_lookup [OF good_keyed(3) [OF goodD(1) [OF assms(1) ia(2)]] ia(3)])
  then obtain b where b: "PeerKeyId2AccountId (st_store st) k = Some (Account_Id b)" "GetAccount (st_store st) (Account_Id b) = Ret b"
    "\<And>p. p \<in> set (NetworkMap_Peers nm) \<Longrightarrow> lookup (Account_Peers b) (Peer_Key p) = Some p \<and> Peer_Key p \<noteq> k"
    using GetNetworkMap_within [OF assms(1) nm(1)] by metis
  then have "proper (mates (st_store st)) k u" by (intro proper_response [OF nm(2)]) (fastforce simp: mates_def belongs_def)
  with nm(3) show ?thesis by (rule that)
qed

section \<open>What an engine does\<close>

text \<open>Whatever the outcome, an update adds no connection to a peer that its map does not name.\<close>

lemma removePeers_subset: "go_for removePeer ks e = (e', r) \<Longrightarrow> set (Engine_GetPeers e') \<subseteq> set (Engine_GetPeers e)"
  using remove_loop [of ks e] by (auto simp: peers_lookup split: if_splits) (metis option.distinct(1))

lemma addNewPeer_subset:
  "addNewPeer env p e = (e', r) \<Longrightarrow> set (Engine_GetPeers e') \<subseteq> insert (Remote_WgPubKey p) (set (Engine_GetPeers e))"
  by (auto simp: addNewPeer_def Let_def peers_lookup lookup_assign split: option.splits outcome.splits if_splits)

lemma addNewPeers_subset:
  "go_for (addNewPeer env) ps e = (e', r) \<Longrightarrow> set (Engine_GetPeers e') \<subseteq> Remote_WgPubKey ` set ps \<union> set (Engine_GetPeers e)"
proof (induction ps arbitrary: e)
  case (Cons p ps)
  obtain e1 q where e1: "addNewPeer env p e = (e1, q)" by fastforce
  note sub = addNewPeer_subset [OF e1]
  show ?case
  proof (cases "\<exists>u. q = Ret u")
    case True
    then show ?thesis using Cons.prems Cons.IH [of e1] e1 sub by auto
  next
    case False
    then have "e' = e1" using Cons.prems e1 by (cases q) auto
    with sub show ?thesis by auto
  qed
qed simp

lemma updateNetworkMap_subset:
  assumes "updateNetworkMap env nm e = (e', r)"
  shows "set (Engine_GetPeers e') \<subseteq> map_peers nm \<union> set (Engine_GetPeers e)"
proof (cases "eng_serial e > Map_Serial nm")
  case True
  then show ?thesis using assms by (simp add: updateNetworkMap_def Let_def)
next
  case False
  have serial: "Engine_GetPeers (d\<lparr>eng_serial := n\<rparr>) = Engine_GetPeers d" for d n by (simp add: Engine_GetPeers_def)
  show ?thesis
  proof (cases "Map_RemotePeersIsEmpty nm")
    case True
    obtain e1 q where e1: "go_for removePeer (keys (eng_peerConns e)) e = (e1, q)" by fastforce
    then have "set (Engine_GetPeers e') = set (Engine_GetPeers e1)"
      using assms False True by (cases q) (auto simp: updateNetworkMap_def removeAllPeers_def Let_def serial)
    then show ?thesis using removePeers_subset [OF e1] by auto
  next
    case isnt: False
    let ?rm = "SliceDiff (keys (eng_peerConns e)) (map Remote_WgPubKey (Map_RemotePeers nm))"
    obtain e1 q where e1: "go_for removePeer ?rm e = (e1, q)" by fastforce
    obtain e2 q2 where e2: "go_for (addNewPeer env) (Map_RemotePeers nm) e1 = (e2, q2)" by fastforce
    have "set (Engine_GetPeers e') = set (Engine_GetPeers e1) \<or> set (Engine_GetPeers e') = set (Engine_GetPeers e2)"
      using assms False isnt e1 e2
      by (cases q; cases q2) (auto simp: updateNetworkMap_def removePeers_def addNewPeers_def Let_def serial)
    then show ?thesis using removePeers_subset [OF e1] addNewPeers_subset [OF e2] isnt by (auto simp: map_peers_def)
  qed
qed

lemma update_urls_peers:
  "updateTURNs env ts e = (e', r) \<Longrightarrow> Engine_GetPeers e' = Engine_GetPeers e"
  "updateSTUNs env ss e = (e', r) \<Longrightarrow> Engine_GetPeers e' = Engine_GetPeers e"
  by (auto simp: updateTURNs_def updateSTUNs_def Engine_GetPeers_def split: outcome.splits if_splits)

lemma handleSync_proper:
  assumes "handleSync env u e = (e', r)" "proper P k u" "\<And>l. l \<in> set (Engine_GetPeers e) \<Longrightarrow> P k l" "l \<in> set (Engine_GetPeers e')"
  shows "P k l"
proof -
  obtain e1 q where e1: "(case Sync_WiretrusteeConfig u of None \<Rightarrow> (e, Ret ())
      | Some config \<Rightarrow> on_ret (updateTURNs env (Wt_Turns config) e) (\<lambda>e err. (e, Err err))
          (\<lambda>e u. updateSTUNs env (Wt_Stuns config) e)) = (e1, q)" by fastforce
  then have same: "Engine_GetPeers e1 = Engine_GetPeers e"
    by (auto split: option.splits elim!: on_ret_cases dest!: update_urls_peers)
  have sub: "map_peers nm \<subseteq> {l. P k l}" if "Sync_NetworkMap u = Some nm" for nm
    using assms(2) that by (auto simp: proper_def map_peers_def)
  have "set (Engine_GetPeers e') \<subseteq> set (Engine_GetPeers e1) \<union> {l. P k l}"
    using assms(1) e1 updateNetworkMap_subset [of env _ e1 e' r] sub
    by (cases q; cases "Sync_NetworkMap u") (auto simp: handleSync_def)
  with assms(3,4) same show ?thesis by auto
qed


section \<open>Isolation of the accounts\<close>

text \<open>
  The invariant, part by part, for a relation \<open>M\<close> of peers that have met: what waits in channels, what
  registrations still have to tell, what is on the wire, and the connections of the engines.
\<close>

definition chans_ok :: "(string \<Rightarrow> SyncResponse \<Rightarrow> bool) \<Rightarrow> PeersUpdateManager \<Rightarrow> (nat \<Rightarrow> stream) \<Rightarrow> bool" where
  "chans_ok Q m streams \<longleftrightarrow>
     (\<forall>k c. peerChannels m k = Some c \<longrightarrow> (\<forall>u \<in> set (chan_buf (channels m c)). Q k (Update u))) \<and>
     (\<forall>n k c. streams n = Reading k c \<longrightarrow> c < next_channel m \<and> (\<forall>l. peerChannels m l = Some c \<longrightarrow> l = k) \<and>
        (\<forall>u \<in> set (chan_buf (channels m c)). Q k (Update u)))"

definition tasks_ok :: "(string \<Rightarrow> string \<Rightarrow> bool) \<Rightarrow> (nat \<Rightarrow> task option) \<Rightarrow> bool" where
  "tasks_ok M tasks \<longleftrightarrow> (\<forall>j p ps n rs. tasks j = Some (Telling p ps n rs) \<longrightarrow> set rs \<subseteq> set ps \<and>
     (\<forall>r \<in> set ps. \<forall>q \<in> insert p (set ps). M (Peer_Key r) (Peer_Key q)))"

definition wires_ok ::
  "Env \<Rightarrow> Mgmt_Server \<Rightarrow> (string \<Rightarrow> SyncResponse \<Rightarrow> bool) \<Rightarrow> (nat \<Rightarrow> stream) \<Rightarrow> (nat \<Rightarrow> EncryptedMessage list) \<Rightarrow> bool" where
  "wires_ok env srv Q streams wire \<longleftrightarrow> (\<forall>n. \<forall>m \<in> set (wire n). \<exists>k u failure.
     stream_key (streams n) = Some k \<and> seal env srv (marshal_sync env) failure k u = Ret m \<and> Q k u)"

definition reads_own :: "Env \<Rightarrow> (nat \<Rightarrow> stream) \<Rightarrow> (string \<Rightarrow> nat option) \<Rightarrow> bool" where
  "reads_own env streams current \<longleftrightarrow>
     (\<forall>x n. current x = Some n \<longrightarrow> stream_key (streams n) = Some (public_key (env_box env) x))"

definition engines_ok :: "Env \<Rightarrow> (string \<Rightarrow> string \<Rightarrow> bool) \<Rightarrow> (string \<Rightarrow> Engine option) \<Rightarrow> bool" where
  "engines_ok env M engines \<longleftrightarrow> (\<forall>x e. engines x = Some e \<longrightarrow> (\<forall>l \<in> set (Engine_GetPeers e). M (public_key (env_box env) x) l))"

definition isolated :: "Env \<Rightarrow> Mgmt_Server \<Rightarrow> (string \<Rightarrow> string \<Rightarrow> bool) \<Rightarrow> System \<Rightarrow> bool" where
  "isolated env srv M s \<longleftrightarrow> good_store (sys_store s) \<and> pum_ok (sys_pum s) \<and>
     chans_ok (proper M) (sys_pum s) (sys_streams s) \<and> tasks_ok M (sys_tasks s) \<and>
     wires_ok env srv (proper M) (sys_streams s) (sys_wire s) \<and> reads_own env (sys_streams s) (sys_current s) \<and>
     engines_ok env M (sys_engine s)"

lemma isolated_mono:
  assumes "isolated env srv M s" "\<And>k l. M k l \<Longrightarrow> M' k l"
  shows "isolated env srv M' s"
proof -
  have p: "proper M k u \<Longrightarrow> proper M' k u" for k u using assms(2) by (auto simp: proper_def)
  have "chans_ok (proper M') (sys_pum s) (sys_streams s)" using assms(1) p by (fastforce simp: isolated_def chans_ok_def)
  moreover have "wires_ok env srv (proper M') (sys_streams s) (sys_wire s)"
    using assms(1) p unfolding isolated_def wires_ok_def by blast
  moreover have "tasks_ok M' (sys_tasks s)" using assms unfolding isolated_def tasks_ok_def by blast
  moreover have "engines_ok env M' (sys_engine s)" using assms unfolding isolated_def engines_ok_def by blast
  ultimately show ?thesis using assms(1) by (simp add: isolated_def)
qed

lemma chans_sends:
  assumes "chans_ok Q m streams" "sends Q m m'" "pum_ok m"
  shows "chans_ok Q m' streams"
  unfolding chans_ok_def
proof (intro conjI allI impI ballI)
  have nx: "next_channel m' = next_channel m" using assms(2) by (simp add: sends_def)
  have pc: "peerChannels m' k = Some c \<Longrightarrow> peerChannels m k = Some c" for k c using assms(2) by (simp add: sends_def)
  have buf: "u \<in> set (chan_buf (channels m c)) \<or> (\<exists>k. peerChannels m k = Some c \<and> Q k (Update u))"
    if "u \<in> set (chan_buf (channels m' c))" for u c
  proof -
    obtain us where "chan_buf (channels m' c) = chan_buf (channels m c) @ us"
      "\<forall>u \<in> set us. \<exists>k. peerChannels m k = Some c \<and> Q k (Update u)" using assms(2) unfolding sends_def by metis
    with that show ?thesis by auto
  qed
  show "Q k (Update u)" if "peerChannels m' k = Some c" "u \<in> set (chan_buf (channels m' c))" for k c u
    using buf [OF that(2)] pc [OF that(1)] pum_ok_inj [OF assms(3)] assms(1) unfolding chans_ok_def by blast
  fix n k c assume n: "streams n = Reading k c"
  show "c < next_channel m'" using n assms(1) nx by (simp add: chans_ok_def)
  show "l = k" if "peerChannels m' l = Some c" for l using n assms(1) pc [OF that] unfolding chans_ok_def by blast
  show "Q k (Update u)" if "u \<in> set (chan_buf (channels m' c))" for u
    using buf [OF that] n assms(1) unfolding chans_ok_def by blast
qed

lemma chans_stream: "chans_ok Q m streams \<Longrightarrow> (\<And>k c. x \<noteq> Reading k c) \<Longrightarrow> chans_ok Q m (streams(n := x))"
  by (auto simp: chans_ok_def)

lemma chans_receive:
  assumes "chans_ok Q m streams" "receive m c = Some (m', u)"
  shows "chans_ok Q m' streams"
proof -
  have "next_channel m' = next_channel m" "peerChannels m' = peerChannels m"
    "set (chan_buf (channels m' d)) \<subseteq> set (chan_buf (channels m d))" for d
    using assms(2) by (auto simp: receive_def split: list.splits if_splits)
  then show ?thesis using assms(1) unfolding chans_ok_def by (metis subsetD)
qed

lemma received_ok:
  assumes "chans_ok Q m streams" "receive m c = Some (m', Some u)" "streams n = Reading k c"
  shows "Q k (Update u)"
proof -
  have "u \<in> set (chan_buf (channels m c))" using assms(2) by (auto simp: receive_def split: list.splits if_splits)
  with assms(1,3) show ?thesis unfolding chans_ok_def by blast
qed

lemma chans_create:
  assumes "chans_ok Q m streams" "CreateChannel m k = (m', c)" "pum_ok m"
  shows "chans_ok Q m' (streams(n := Reading k c))"
proof -
  note new = create_channels [OF assms(2)] and re = reconnect_replaces_channel [OF assms(3,2)]
  have pc: "peerChannels m' l = Some d \<Longrightarrow> l = k \<and> d = c \<or> l \<noteq> k \<and> peerChannels m l = Some d" for l d
    using re by (cases "l = k") auto
  have lt: "peerChannels m l = Some d \<Longrightarrow> d < c" for l d using assms(3) new(2) by (auto simp: pum_ok_def)
  show ?thesis unfolding chans_ok_def
  proof (intro conjI allI impI ballI)
    show "Q l (Update u)" if "peerChannels m' l = Some d" "u \<in> set (chan_buf (channels m' d))" for l d u
      using pc [OF that(1)] that(2) new(1) [of d] lt assms(1) by (auto simp: chans_ok_def split: if_splits)
    fix i l d assume i: "(streams(n := Reading k c)) i = Reading l d"
    then have old: "l = k \<and> d = c \<or> streams i = Reading l d \<and> d < c"
      using assms(1) new(2) by (auto simp: chans_ok_def split: if_splits)
    then show "d < next_channel m'" using new(2,3) by auto
    show "j = l" if "peerChannels m' j = Some d" for j
      using old pc [OF that] lt assms(1) unfolding chans_ok_def by (metis less_irrefl)
    show "Q l (Update u)" if "u \<in> set (chan_buf (channels m' d))" for u
      using old that new(1) [of d] assms(1) by (auto simp: chans_ok_def split: if_splits)
  qed
qed


text \<open>What a client reads is what was sealed for it.\<close>

lemma received_message:
  assumes "sides_agree env cenv" "wires_ok env srv Q streams wire" "reads_own env streams current"
    and "current x = Some n" "msg \<in> set (wire n)"
  obtains u where "Q (public_key (env_box env) x) u"
    "\<And>handle e. receiveEvents cenv \<lparr>mgm_key = x\<rparr> (public_key (env_box env) (srv_wgKey srv)) handle [Ret msg] e =
       (case handle u e of (e', Ret _) \<Rightarrow> (e', None) | (e', Err err) \<Rightarrow> (e', Some (Err err)) | (e', Panic p) \<Rightarrow> (e', Some (Panic p)))"
proof -
  have "stream_key (streams n) = Some (public_key (env_box env) x)" using assms(3,4) by (simp add: reads_own_def)
  then obtain u failure where u: "Q (public_key (env_box env) x) u"
    "seal env srv (marshal_sync env) failure (public_key (env_box env) x) u = Ret msg"
    using assms(2,5) unfolding wires_ok_def by fastforce
  have "DecryptMessage (mc_box cenv) (mc_nonce cenv) (mc_unmarshal_sync cenv) (public_key (env_box env) (srv_wgKey srv)) x (Enc_Body msg) = Ret u"
    by (rule sealed_opened [OF assms(1) u(2)]) (use assms(1) in \<open>auto simp: sides_agree_def\<close>)
  with u(1) show ?thesis by (intro that [of u]) (auto split: prod.splits outcome.splits)
qed

lemma delivered_ok:
  assumes "sides_agree env cenv" "isolated env srv M s" "sys_current s x = Some n" "sys_wire s n = msg # msgs" "sys_engine s x = Some e"
    and "receiveEvents cenv \<lparr>mgm_key = x\<rparr> (public_key (env_box env) (srv_wgKey srv)) (handleSync eenv) [Ret msg] e = (e', r)"
  shows "engines_ok env M ((sys_engine s)(x \<mapsto> e'))"
proof -
  have parts: "wires_ok env srv (proper M) (sys_streams s) (sys_wire s)" "reads_own env (sys_streams s) (sys_current s)"
    and eng: "engines_ok env M (sys_engine s)" using assms(2) by (simp_all add: isolated_def)
  have msg: "msg \<in> set (sys_wire s n)" using assms(4) by simp
  show ?thesis
  proof (rule received_message [OF assms(1) parts assms(3) msg])
    fix u
    assume u: "proper M (public_key (env_box env) x) u" and read: "\<And>handle (e :: Engine).
      receiveEvents cenv \<lparr>mgm_key = x\<rparr> (public_key (env_box env) (srv_wgKey srv)) handle [Ret msg] e =
       (case handle u e of (e', Ret _) \<Rightarrow> (e', None) | (e', Err err) \<Rightarrow> (e', Some (Err err)) | (e', Panic p) \<Rightarrow> (e', Some (Panic p)))"
    obtain q where "handleSync eenv u e = (e', q)"
      using assms(6) unfolding read by (auto split: prod.splits outcome.splits)
    from handleSync_proper [OF this u] eng assms(5) show ?thesis by (auto simp: engines_ok_def)
  qed
qed

lemma wires_less: "wires_ok env srv Q streams wire \<Longrightarrow> wire n = msg # msgs \<Longrightarrow> wires_ok env srv Q streams (wire(n := msgs))"
  by (auto simp: wires_ok_def)

lemma wires_more:
  assumes "wires_ok env srv Q streams wire" "stream_key (streams n) = Some k" "seal env srv (marshal_sync env) failure k u = Ret msg" "Q k u"
  shows "wires_ok env srv Q streams (wire(n := wire n @ [msg]))"
  unfolding wires_ok_def
proof (intro allI ballI)
  fix i m assume m: "m \<in> set ((wire(n := wire n @ [msg])) i)"
  show "\<exists>k u failure. stream_key (streams i) = Some k \<and> seal env srv (marshal_sync env) failure k u = Ret m \<and> Q k u"
  proof (cases "m \<in> set (wire i)")
    case True
    then show ?thesis using assms(1) unfolding wires_ok_def by blast
  next
    case False
    then have "i = n" "m = msg" using m by (auto split: if_splits)
    then show ?thesis using assms(2-4) by blast
  qed
qed

lemma same_key:
  assumes "stream_key (streams n) = stream_key x"
  shows "wires_ok env srv Q (streams(n := x)) wire \<longleftrightarrow> wires_ok env srv Q streams wire"
    and "reads_own env (streams(n := x)) current \<longleftrightarrow> reads_own env streams current"
proof -
  have "stream_key ((streams(n := x)) i) = stream_key (streams i)" for i using assms by simp
  then show "wires_ok env srv Q (streams(n := x)) wire \<longleftrightarrow> wires_ok env srv Q streams wire"
    "reads_own env (streams(n := x)) current \<longleftrightarrow> reads_own env streams current"
    unfolding wires_ok_def reads_own_def by presburger+
qed

lemma Sync_enter_Ret:
  assumes "Sync_enter srv st now k = (st', Ret c)"
  shows "CreateChannel (st_updates st) k = (st_updates st', c)" "st_store st' = fst (MarkPeerConnected (st_store st) now k True)"
  using assms by (auto simp: Sync_enter_def Let_def split: prod.splits outcome.splits option.splits if_splits)

lemma Sync_done_state:
  assumes "Sync_done st now e k = (st', r)"
  shows "st_updates st' = CloseChannel (st_updates st) k" "st_store st' = fst (MarkPeerConnected (st_store st) now k False)"
  using assms by (auto simp: Sync_done_def Let_def split: prod.splits outcome.splits)

lemma Sync_update_state:
  assumes "Sync_update env srv st sent k c = Some (st', r)"
  obtains p u where "receive (st_updates st) c = Some (p, u)" "st' = st\<lparr>st_updates := p\<rparr>"
  using assms by (auto simp: Sync_update_def Let_def split: option.splits outcome.splits prod.splits)

lemma Sync_update_sent:
  assumes "Sync_update env srv st sent k c = Some (st', Inl m)"
  obtains p v where "receive (st_updates st) c = Some (p, Some v)" "st' = st\<lparr>st_updates := p\<rparr>"
    "seal env srv (marshal_sync env) ''failed processing update message'' k (Update v) = Ret m"
  using assms by (auto simp: Sync_update_def Let_def split: option.splits outcome.splits prod.splits)

lemma isolated_store: "isolated env srv M s \<Longrightarrow> good_store t \<Longrightarrow> isolated env srv M (put_store t s)"
  by (simp add: isolated_def)

lemma isolated_sends:
  assumes "isolated env srv M s" "sends (proper M) (sys_pum s) m" "pum_ok m"
  shows "isolated env srv M (put_pum m s)"
  using assms chans_sends by (auto simp: isolated_def)

lemma isolated_finish:
  assumes "isolated env srv M s" "stream_key (sys_streams s n) = Some k"
  shows "isolated env srv M (s\<lparr>sys_streams := (sys_streams s)(n := Finished k)\<rparr>)"
  using assms chans_stream same_key [of "sys_streams s" n "Finished k"] by (auto simp: isolated_def)

lemma isolated_tasks:
  "isolated env srv M s \<Longrightarrow> tasks_ok M tasks \<Longrightarrow> isolated env srv M (s\<lparr>sys_tasks := tasks\<rparr>)"
  by (simp add: isolated_def)


lemma map_tasks_ok:
  assumes "good_store t" "GetNetworkMap t (Peer_Key p) = Ret nm" "\<And>k l. mates t k l \<Longrightarrow> M k l" "tasks_ok M tasks"
  shows "tasks_ok M (tasks(j \<mapsto> Telling p (NetworkMap_Peers nm) serial (NetworkMap_Peers nm)))"
proof -
  obtain a where a: "PeerKeyId2AccountId t (Peer_Key p) = Some (Account_Id a)" "GetAccount t (Account_Id a) = Ret a"
    "\<And>q. q \<in> set (NetworkMap_Peers nm) \<Longrightarrow> lookup (Account_Peers a) (Peer_Key q) = Some q \<and> Peer_Key q \<noteq> Peer_Key p"
    using GetNetworkMap_within [OF assms(1,2)] by metis
  then have "belongs t (Account_Id a) (Peer_Key q)" if "q \<in> insert p (set (NetworkMap_Peers nm))" for q
    using that by (auto simp: belongs_def)
  then have "M (Peer_Key r) (Peer_Key q)" if "r \<in> set (NetworkMap_Peers nm)" "q \<in> insert p (set (NetworkMap_Peers nm))" for r q
    using that assms(3) unfolding mates_def by blast
  then show ?thesis using assms(4) by (auto simp: tasks_ok_def)
qed

lemma tell_sends:
  assumes "register_tell config p ps n r m = Some (m', Ret ())" "tasks_ok M tasks" "tasks j = Some (Telling p ps n (r # rs))"
  shows "sends (proper M) m m'"
proof -
  obtain u where u: "toSyncResponse config p (p # filter (\<lambda>q. Peer_Key r \<noteq> Peer_Key q) ps) None n = Ret u"
    "SendUpdate m (Peer_Key r) \<lparr>Update = u\<rparr> = Some (m', Ret ())"
    using assms(1) by (auto simp: register_tell_def split: outcome.splits)
  have "r \<in> set ps" "\<forall>r \<in> set ps. \<forall>q \<in> insert p (set ps). M (Peer_Key r) (Peer_Key q)"
    using assms(2,3) unfolding tasks_ok_def by fastforce+
  then have "proper M (Peer_Key r) u" by (intro proper_response [OF u(1)]) auto
  then show ?thesis by (intro sends_update [OF u(2)]) simp
qed

lemma tell_pum_ok: "register_tell config p ps n r m = Some (m', Ret ()) \<Longrightarrow> pum_ok m \<Longrightarrow> pum_ok m'"
  by (auto simp: register_tell_def split: outcome.splits dest: pum_ok_send(1))

lemma delete_pum_ok:
  assumes "DeletePeer s m i k = Some ((t, m'), r)" "pum_ok m"
  shows "pum_ok m'"
proof -
  have n: "notify_peers serial peers ps m1 = Some (m2, q) \<Longrightarrow> pum_ok m1 \<Longrightarrow> pum_ok m2" for serial peers ps m1 m2 q
    by (induction ps arbitrary: m1) (auto simp: Let_def split: option.splits outcome.splits dest: pum_ok_send(1))
  have "notify_deleted t m1 i k serial = Some (m2, q) \<Longrightarrow> pum_ok m1 \<Longrightarrow> pum_ok m2" for m1 m2 serial q
    using n by (auto simp: notify_deleted_def split: option.splits outcome.splits prod.splits intro: pum_ok_close)
  with DeletePeer_stages [OF assms(1)] assms(2) pum_ok_send(1) show ?thesis by metis
qed

lemma refresh_pum_ok: "refresh_round hmac tm m k g now = Some (Sent m') \<Longrightarrow> pum_ok m \<Longrightarrow> pum_ok m'"
  by (auto simp: refresh_round_def split: if_splits outcome.splits option.splits dest: pum_ok_send(1))

lemma isolated_greet:
  assumes "isolated env srv M s" "sys_streams s n = NoStream" "Sync_greet env srv (sys_mgmt s) now sent req = Ret (k, m)"
    and "current = sys_current s \<or> current = (sys_current s)(x \<mapsto> n) \<and> public_key (env_box env) x = k"
    and "\<And>k l. mates (sys_store s) k l \<Longrightarrow> M k l"
  shows "isolated env srv M (s\<lparr>sys_streams := (sys_streams s)(n := Greeted k serial), sys_wire := (sys_wire s)(n := [m]), sys_current := current\<rparr>)"
proof -
  obtain u failure where u: "seal env srv (marshal_sync env) failure k u = Ret m" "proper (mates (sys_store s)) k u"
    using greet_proper [OF _ assms(3)] assms(1) unfolding isolated_def by metis
  have "proper M k u" using u(2) assms(5) by (auto simp: proper_def)
  moreover have "sys_current s y \<noteq> Some n" for y using assms(1,2) unfolding isolated_def reads_own_def
    by (metis option.distinct(1) stream_key.simps(1))
  ultimately show ?thesis using assms(1) u(1) assms(4) chans_stream
    by (fastforce simp: isolated_def wires_ok_def reads_own_def)
qed

lemma isolated_enter:
  assumes "isolated env srv M s" "sys_streams s n = Greeted k serial" "Sync_enter srv (sys_mgmt s) now k = (st, Ret c)"
  shows "isolated env srv M (s\<lparr>sys_mgmt := st, sys_streams := (sys_streams s)(n := Reading k c), sys_missed := miss\<rparr>)"
proof -
  note e = Sync_enter_Ret [OF assms(3)]
  have iso: "good_store (sys_store s)" "pum_ok (sys_pum s)" "chans_ok (proper M) (sys_pum s) (sys_streams s)"
    using assms(1) by (simp_all add: isolated_def)
  have "good_store (st_store st)" using good_MarkPeerConnected [OF iso(1)] by (simp add: e(2))
  moreover have "pum_ok (st_updates st)" by (rule pum_ok_create [OF iso(2) e(1)])
  moreover have "chans_ok (proper M) (st_updates st) ((sys_streams s)(n := Reading k c))"
    by (rule chans_create [OF iso(3) e(1) iso(2)])
  ultimately show ?thesis
    using assms(1) same_key [of "sys_streams s" n "Reading k c"] assms(2) by (simp add: isolated_def)
qed

lemma isolated_update:
  assumes "isolated env srv M s" "sys_streams s n = Reading k c" "Sync_update env srv (sys_mgmt s) sent k c = Some (st, Inl msg)"
  shows "isolated env srv M (s\<lparr>sys_mgmt := st, sys_wire := (sys_wire s)(n := sys_wire s n @ [msg])\<rparr>)"
proof -
  obtain p v where rc: "receive (sys_pum s) c = Some (p, Some v)" "st = (sys_mgmt s)\<lparr>st_updates := p\<rparr>"
    and v: "seal env srv (marshal_sync env) ''failed processing update message'' k (Update v) = Ret msg"
    by (rule Sync_update_sent [OF assms(3)])
  have iso: "pum_ok (sys_pum s)" "chans_ok (proper M) (sys_pum s) (sys_streams s)" using assms(1) by (simp_all add: isolated_def)
  have "proper M k (Update v)" by (rule received_ok [OF iso(2) rc(1) assms(2)])
  then have "wires_ok env srv (proper M) (sys_streams s) ((sys_wire s)(n := sys_wire s n @ [msg]))"
    by (intro wires_more [OF _ _ v]) (use assms(1,2) in \<open>simp_all add: isolated_def\<close>)
  moreover have "pum_ok p" "chans_ok (proper M) p (sys_streams s)"
    using pum_ok_receive [OF iso(1) rc(1)] chans_receive [OF iso(2) rc(1)] by auto
  ultimately show ?thesis using assms(1) by (simp add: isolated_def rc(2))
qed

lemma isolated_update_ends:
  assumes "isolated env srv M s" "sys_streams s n = Reading k c" "Sync_update env srv (sys_mgmt s) sent k c = Some (st, r)"
  shows "isolated env srv M (s\<lparr>sys_mgmt := st, sys_streams := (sys_streams s)(n := Finished k)\<rparr>)"
proof -
  obtain p u where rc: "receive (sys_pum s) c = Some (p, u)" "st = (sys_mgmt s)\<lparr>st_updates := p\<rparr>"
    by (rule Sync_update_state [OF assms(3)])
  have iso: "pum_ok (sys_pum s)" "chans_ok (proper M) (sys_pum s) (sys_streams s)" using assms(1) by (simp_all add: isolated_def)
  have "isolated env srv M (put_pum p s)"
    using assms(1) pum_ok_receive [OF iso(1) rc(1)] chans_receive [OF iso(2) rc(1)] by (simp add: isolated_def)
  from isolated_finish [OF this, of n k] show ?thesis by (simp add: assms(2) rc(2))
qed

lemma isolated_done:
  assumes "isolated env srv M s" "sys_streams s n = Reading k c" "Sync_done (sys_mgmt s) now e k = (st, r)"
  shows "isolated env srv M (s\<lparr>sys_mgmt := st, sys_streams := (sys_streams s)(n := Finished k)\<rparr>)"
proof -
  note d = Sync_done_state [OF assms(3)]
  have iso: "good_store (sys_store s)" "pum_ok (sys_pum s)" "chans_ok (proper M) (sys_pum s) (sys_streams s)"
    using assms(1) by (simp_all add: isolated_def)
  have "good_store (st_store st)" using good_MarkPeerConnected [OF iso(1)] by (simp add: d(2))
  moreover have "pum_ok (st_updates st)" using pum_ok_close [OF iso(2)] by (simp add: d(1))
  moreover have "chans_ok (proper M) (st_updates st) (sys_streams s)"
    using chans_sends [OF iso(3) sends_close iso(2)] by (simp add: d(1))
  ultimately have "isolated env srv M (s\<lparr>sys_mgmt := st\<rparr>)" using assms(1) by (simp add: isolated_def)
  from isolated_finish [OF this, of n k] show ?thesis by (simp add: assms(2))
qed

lemma isolated_delete:
  assumes "isolated env srv M s" "DeletePeer (sys_store s) (sys_pum s) i k = Some ((t, m), r)" "\<And>k l. mates t k l \<Longrightarrow> M k l"
  shows "isolated env srv M (put_pum m (put_store t s))"
proof -
  have t: "good_store t" using good_DeletePeer [OF _ assms(2)] assms(1) by (simp add: isolated_def)
  have "sends (proper (mates t)) (sys_pum s) m" by (rule DeletePeer_sends [OF assms(2) t])
  then have "sends (proper M) (sys_pum s) m" by (rule sends_mono) (use assms(3) in \<open>auto simp: proper_def\<close>)
  moreover have "pum_ok m" using delete_pum_ok [OF assms(2)] assms(1) by (simp add: isolated_def)
  ultimately show ?thesis using isolated_sends [OF isolated_store [OF assms(1) t]] by simp
qed

lemma step_isolated:
  assumes "sides_agree env cenv" "sys_step env srv cenv eenv s s'" "isolated env srv M s"
    and "\<And>k l. mates (sys_store s') k l \<Longrightarrow> M k l"
  shows "isolated env srv M s'"
  using assms(2-)
proof (cases rule: sys_step.cases)
  case (Admin t)
  have "good_store t" using admin_step_good [OF Admin(2)] assms(3) by (simp add: isolated_def)
  then show ?thesis using assms(3) isolated_store unfolding Admin(1) by blast
next
  case (Add j fr key u peer t p)
  have "good_store t" using good_AddPeer [OF _ Add(3)] assms(3) by (simp add: isolated_def)
  moreover have "tasks_ok M ((sys_tasks s)(j \<mapsto> Added p))" using assms(3) by (auto simp: isolated_def tasks_ok_def)
  ultimately show ?thesis using assms(3) by (simp add: Add(1) isolated_def)
next
  case (AddFails fr key u peer t e)
  have "good_store t" using good_AddPeer [OF _ AddFails(2)] assms(3) by (simp add: isolated_def)
  then show ?thesis using assms(3) isolated_store unfolding AddFails(1) by blast
next
  case (Map j p nm)
  have "tasks_ok M ((sys_tasks s)(j \<mapsto> Telling p (NetworkMap_Peers nm) (CurrentSerial (NetworkMap_Network nm)) (NetworkMap_Peers nm)))"
    by (rule map_tasks_ok [OF _ Map(3)]) (use assms(3,4) in \<open>simp_all add: isolated_def Map(1)\<close>)
  then show ?thesis using isolated_tasks [OF assms(3)] by (simp add: Map(1))
next
  case (MapFails j p e)
  have "tasks_ok M ((sys_tasks s)(j := None))" using assms(3) by (auto simp: isolated_def tasks_ok_def)
  then show ?thesis using isolated_tasks [OF assms(3)] by (simp add: MapFails(1))
next
  case (Tell j p ps n r rs m)
  have tasks: "tasks_ok M (sys_tasks s)" and pum: "pum_ok (sys_pum s)" using assms(3) by (simp_all add: isolated_def)
  have "tasks_ok M ((sys_tasks s)(j \<mapsto> Telling p ps n rs))" using tasks Tell(2) by (fastforce simp: tasks_ok_def)
  moreover have "isolated env srv M (put_pum m s)"
    using isolated_sends [OF assms(3) tell_sends [OF Tell(3) tasks Tell(2)] tell_pum_ok [OF Tell(3) pum]] .
  ultimately show ?thesis using isolated_tasks unfolding Tell(1) by blast
next
  case (Told j p ps n)
  have "tasks_ok M ((sys_tasks s)(j := None))" using assms(3) by (auto simp: isolated_def tasks_ok_def)
  then show ?thesis using isolated_tasks [OF assms(3)] by (simp add: Told(1))
next
  case (Delete i k t m r')
  then show ?thesis using isolated_delete [OF assms(3) Delete(2)] assms(4) by simp
next
  case (Refresh hmac k g now m)
  have "pum_ok m" using refresh_pum_ok [OF Refresh(2)] assms(3) by (simp add: isolated_def)
  then show ?thesis using isolated_sends [OF assms(3) refresh_sends [OF Refresh(2)]] by (simp add: Refresh(1))
next
  case (Greet n now sent req k m current x)
  then show ?thesis using isolated_greet [OF assms(3) Greet(2-4)] assms(4) by simp
next
  case (Enter n k serial now st c)
  then show ?thesis using isolated_enter [OF assms(3) Enter(2,3)] by simp
next
  case (Update n k c sent st msg)
  then show ?thesis using isolated_update [OF assms(3) Update(2,3)] by simp
next
  case (UpdateEnds n k c sent st r')
  then show ?thesis using isolated_update_ends [OF assms(3) UpdateEnds(2,3)] by simp
next
  case (Done n k c now e st r')
  then show ?thesis using isolated_done [OF assms(3) Done(2,3)] by simp
next
  case (Boot x config conns)
  then show ?thesis using assms(3)
    by (auto simp: isolated_def engines_ok_def reads_own_def Engine_GetPeers_def NewEngine_def keys_def)
next
  case (Leave x)
  then show ?thesis using assms(3) by (auto simp: isolated_def reads_own_def)
next
  case (Deliver x n msg msgs e e')
  have "wires_ok env srv (proper M) (sys_streams s) ((sys_wire s)(n := msgs))"
    by (rule wires_less [where msg = msg]) (use Deliver(3) assms(3) in \<open>simp_all add: isolated_def\<close>)
  then show ?thesis using assms(3) delivered_ok [OF assms(1,3) Deliver(2-5)] by (simp add: isolated_def Deliver(1))
next
  case (DeliverFails x n msg msgs e e' r')
  have "wires_ok env srv (proper M) (sys_streams s) ((sys_wire s)(n := msgs))"
    by (rule wires_less [where msg = msg]) (use DeliverFails(3) assms(3) in \<open>simp_all add: isolated_def\<close>)
  then show ?thesis using assms(3) delivered_ok [OF assms(1,3) DeliverFails(2-5)]
    by (auto simp: isolated_def DeliverFails(1) reads_own_def)
qed

lemma start_isolated:
  "good_store (st_store st) \<Longrightarrow> st_updates st = NewPeersUpdateManager \<Longrightarrow> isolated env srv M (sys_start st)"
  using pum_ok_new
  by (auto simp: sys_start_def isolated_def chans_ok_def tasks_ok_def wires_ok_def reads_own_def engines_ok_def NewPeersUpdateManager_def)

lemma run_isolated:
  assumes "sides_agree env cenv" "sys_run ok env srv cenv eenv s hist"
  shows "isolated env srv (\<lambda>k l. \<exists>t \<in> set hist. mates t k l) s"
  using assms(2)
proof (induction rule: sys_run.induct)
  case (init st)
  then show ?case by (intro start_isolated)
next
  case (step s hist s')
  then show ?case
    by (intro step_isolated [OF assms(1) step.hyps(2) isolated_mono [OF step.IH]]) auto
qed

text \<open>The same for a relation that every step of the run keeps.\<close>

lemma run_isolated_by:
  assumes "sides_agree env cenv" "sys_run ok env srv cenv eenv s hist"
    and "\<And>s s' k l. ok s s' \<Longrightarrow> mates (sys_store s') k l \<Longrightarrow> M k l"
  shows "isolated env srv M s"
  using assms(2)
proof (induction rule: sys_run.induct)
  case (init st)
  then show ?case by (intro start_isolated)
next
  case (step s hist s')
  then show ?case using step_isolated [OF assms(1) step.hyps(2) step.IH] assms(3) by blast
qed

text \<open>
  C3: the accounts are isolated: in every run of the service with any number of clients, whatever
  registrations, deletions and changes of rules happen while messages are under way, an engine is
  connected only to peers that belonged to one account together with the peer of the engine.
\<close>

theorem engines_isolated:
  assumes "sides_agree env cenv" "sys_run ok env srv cenv eenv s hist"
    and "sys_engine s x = Some e" "l \<in> set (Engine_GetPeers e)"
  shows "\<exists>t \<in> set hist. \<exists>i. belongs t i (public_key (env_box env) x) \<and> belongs t i l"
  using run_isolated [OF assms(1,2)] assms(3,4) unfolding isolated_def engines_ok_def mates_def by blast

end
