(* ===== verification/Http_Api.thy ===== *)
theory Http_Api
  imports Mgmt_Grpc
begin

text \<open>
  The HTTP API of the Management Service: the handlers of \<open>management/server/http/handler\<close>
  (\<open>setupkeys.go\<close>, \<open>groups.go\<close>, \<open>rules.go\<close>, \<open>peers.go\<close>, \<open>users.go\<close>), the middlewares
  \<open>jwtmiddleware.go\<close> and \<open>access_control.go\<close>, and the routes of \<open>http/server.go\<close>.

  What a handler writes to its \<open>http.ResponseWriter\<close> is a list of replies: an empty list is an
  empty answer with status 200, and of several replies the first one determines the status.
  The JSON decoder is a record of functions, one per request type; decoding \<open>null\<close> through a
  pointer leaves a nil pointer (\<open>None\<close>). The router (\<open>gorilla/mux\<close>) has found the route and the
  variable \<open>id\<close> of the path before any of this code runs; \<open>rs/cors\<close> is a predicate that says
  which requests it answers itself.
\<close>

section \<open>Requests and responses\<close>

record SetupKeyRequest =
  KeyReq_Name :: string
  KeyReq_Type :: SetupKeyType
  KeyReq_ExpiresIn :: "int option"
  KeyReq_Revoked :: bool

record SetupKeyResponse =
  KeyResp_Id :: string
  KeyResp_Key :: string
  KeyResp_Name :: string
  KeyResp_Expires :: int
  KeyResp_Type :: SetupKeyType
  KeyResp_Valid :: bool
  KeyResp_Revoked :: bool
  KeyResp_UsedTimes :: int
  KeyResp_LastUsed :: int
  KeyResp_State :: string

record GroupPeerResponse =
  GroupPeer_Key :: string
  GroupPeer_Name :: string

record GroupResponse =
  GroupResp_ID :: string
  GroupResp_Name :: string
  GroupResp_Peers :: "GroupPeerResponse list"

record GroupRequest =
  GroupReq_ID :: string
  GroupReq_Name :: string
  GroupReq_Peers :: "string list"

record RuleGroupResponse =
  RuleGroup_ID :: string
  RuleGroup_Name :: string
  RuleGroup_PeersCount :: nat

record RuleResponse =
  RuleResp_ID :: string
  RuleResp_Name :: string
  RuleResp_Source :: "RuleGroupResponse list"
  RuleResp_Destination :: "RuleGroupResponse list"
  RuleResp_Flow :: string

record RuleRequest =
  RuleReq_ID :: string
  RuleReq_Name :: string
  RuleReq_Source :: "string list"
  RuleReq_Destination :: "string list"
  RuleReq_Flow :: string

record PeerRequest =
  PeerReq_Name :: string

record PeerResponse =
  PeerResp_Name :: string
  PeerResp_IP :: string
  PeerResp_Connected :: bool
  PeerResp_LastSeen :: int
  PeerResp_OS :: string
  PeerResp_Version :: string

record UserResponse =
  UserResp_ID :: string
  UserResp_Email :: string
  UserResp_Name :: string
  UserResp_Role :: string

datatype payload =
    JKey SetupKeyResponse | JKeys "SetupKeyResponse list"
  | JGroup GroupResponse | JGroups "GroupResponse list"
  | JRule RuleResponse | JRules "RuleResponse list" | JRuleReq RuleRequest
  | JPeer PeerResponse | JPeers "PeerResponse list"
  | JUsers "UserResponse list" | JText string

text \<open>\<open>http.Error(w, message, code)\<close>, \<open>http.Redirect(w, r, "/", code)\<close> and a JSON document.\<close>

datatype reply = HttpError nat string | Redirect nat | Json payload

datatype http_method = GET | POST | PUT | DELETE | PATCH | OPTIONS

datatype route =
    PeersRoute | PeerRoute | UsersRoute | KeysRoute | KeyRoute
  | RulesRoute | RuleRoute | GroupsRoute | GroupRoute

record Request =
  Req_Method :: http_method
  Req_Route :: route
  Req_Authorization :: string
  Req_user :: "JwtToken option"
  Req_id :: string
  Req_Body :: string

record Http_Env =
  http_audience :: string
  http_idp :: "IdpManager option"
  http_jwt :: JwtLib
  http_middleware :: JWTMiddleware
  http_preflight :: "Request \<Rightarrow> bool"
  decode_key :: "string \<Rightarrow> SetupKeyRequest option outcome"
  decode_peer :: "string \<Rightarrow> PeerRequest option outcome"
  decode_group :: "string \<Rightarrow> GroupRequest outcome"
  decode_rule :: "string \<Rightarrow> RuleRequest outcome"

text \<open>A call of the account manager changes the store of the service.\<close>

definition with_store :: "Mgmt_State \<Rightarrow> FileStore \<times> 'a outcome \<Rightarrow> Mgmt_State \<times> 'a outcome" where
  "with_store st c = (st\<lparr>st_store := fst c\<rparr>, snd c)"

definition respond :: "Mgmt_State \<Rightarrow> reply \<Rightarrow> Mgmt_State \<times> reply list outcome" where
  "respond st w = (st, Ret [w])"

definition writeJSONObject :: "Mgmt_State \<Rightarrow> payload \<Rightarrow> Mgmt_State \<times> reply list outcome" where
  "writeJSONObject st obj = respond st (Json obj)"

section \<open>The account of the request\<close>

text \<open>Every handler finds the account of the signed-in user in the same way.\<close>

definition request_account ::
  "Http_Env \<Rightarrow> Mgmt_State \<Rightarrow> Fresh \<Rightarrow> Request \<Rightarrow> Mgmt_State \<times> Account outcome" where
  "request_account env st fr r =
     (case ExtractClaimsFromRequestContext (Req_user r) (http_audience env) of
        Err e \<Rightarrow> (st, Err e)
      | Panic p \<Rightarrow> (st, Panic p)
      | Ret jwtClaims \<Rightarrow>
          on_ret (with_store st (GetAccountWithAuthorizationClaims (st_store st) (http_idp env) fr jwtClaims))
            (\<lambda>st e. (st, Err (PlainError (''failed getting account of a user '' @ Claims_UserId jwtClaims @
                                         '': '' @ err_string e))))
            (\<lambda>st account. (st, Ret account)))"

definition getSetupKeyAccount ::
  "Http_Env \<Rightarrow> Mgmt_State \<Rightarrow> Fresh \<Rightarrow> Request \<Rightarrow> Mgmt_State \<times> Account outcome" where
  "getSetupKeyAccount env st fr r = request_account env st fr r"

definition getGroupAccount ::
  "Http_Env \<Rightarrow> Mgmt_State \<Rightarrow> Fresh \<Rightarrow> Request \<Rightarrow> Mgmt_State \<times> Account outcome" where
  "getGroupAccount env st fr r = request_account env st fr r"

definition getRuleAccount ::
  "Http_Env \<Rightarrow> Mgmt_State \<Rightarrow> Fresh \<Rightarrow> Request \<Rightarrow> Mgmt_State \<times> Account outcome" where
  "getRuleAccount env st fr r = request_account env st fr r"

definition getPeerAccount ::
  "Http_Env \<Rightarrow> Mgmt_State \<Rightarrow> Fresh \<Rightarrow> Request \<Rightarrow> Mgmt_State \<times> Account outcome" where
  "getPeerAccount env st fr r = request_account env st fr r"

definition getAccountId ::
  "Http_Env \<Rightarrow> Mgmt_State \<Rightarrow> Fresh \<Rightarrow> Request \<Rightarrow> Mgmt_State \<times> Account outcome" where
  "getAccountId env st fr r = request_account env st fr r"

definition failed :: "Mgmt_State \<Rightarrow> GoError \<Rightarrow> Mgmt_State \<times> reply list outcome" where
  "failed st e = respond st (Redirect 500)"

section \<open>Setup keys\<close>

definition toResponseBody :: "int \<Rightarrow> SetupKey \<Rightarrow> SetupKeyResponse" where
  "toResponseBody now key =
     (let state = (if IsExpired now key then ''expired''
                   else if IsRevoked key then ''revoked''
                   else if IsOverUsed key then ''overused''
                   else ''valid'')
      in \<lparr>KeyResp_Id = SetupKey_Id key, KeyResp_Key = SetupKey_Key key, KeyResp_Name = SetupKey_Name key,
          KeyResp_Expires = SetupKey_ExpiresAt key, KeyResp_Type = SetupKey_Type key,
          KeyResp_Valid = IsValid now key, KeyResp_Revoked = SetupKey_Revoked key,
          KeyResp_UsedTimes = SetupKey_UsedTimes key, KeyResp_LastUsed = SetupKey_LastUsed key,
          KeyResp_State = state\<rparr>)"

definition writeSuccess :: "Mgmt_State \<Rightarrow> int \<Rightarrow> SetupKey \<Rightarrow> Mgmt_State \<times> reply list outcome" where
  "writeSuccess st now key = respond st (Json (JKey (toResponseBody now key)))"

text \<open>
  Revoking comes first; a failed renaming after it leaves the key revoked. With neither a
  revocation nor a name nothing is written.
\<close>

definition updateKey ::
  "Http_Env \<Rightarrow> Mgmt_State \<Rightarrow> Fresh \<Rightarrow> string \<Rightarrow> string \<Rightarrow> Request \<Rightarrow> Mgmt_State \<times> reply list outcome" where
  "updateKey env st fr accountId keyId r =
     (case decode_key env (Req_Body r) of
        Err e \<Rightarrow> respond st (HttpError 400 (err_string e))
      | Panic p \<Rightarrow> (st, Panic p)
      | Ret None \<Rightarrow> (st, Panic NilDereference)
      | Ret (Some req) \<Rightarrow>
          on_ret (if KeyReq_Revoked req
                  then on_ret (with_store st (RevokeSetupKey (st_store st) accountId keyId))
                         (\<lambda>st e. (st, Err (PlainError ''failed revoking key'')))
                         (\<lambda>st key. (st, Ret (Some key)))
                  else (st, Ret None))
            (\<lambda>st e. respond st (HttpError 500 (err_string e)))
            (\<lambda>st key.
               on_ret (if length (KeyReq_Name req) \<noteq> 0
                       then on_ret (with_store st (RenameSetupKey (st_store st) accountId keyId (KeyReq_Name req)))
                              (\<lambda>st e. (st, Err (PlainError ''failed renaming key'')))
                              (\<lambda>st key. (st, Ret (Some key)))
                       else (st, Ret key))
                 (\<lambda>st e. respond st (HttpError 500 (err_string e)))
                 (\<lambda>st key.
                    case key of
                      None \<Rightarrow> (st, Ret [])
                    | Some k \<Rightarrow> writeSuccess st (fr_now fr) k)))"

definition getKey ::
  "Mgmt_State \<Rightarrow> Fresh \<Rightarrow> string \<Rightarrow> string \<Rightarrow> Mgmt_State \<times> reply list outcome" where
  "getKey st fr accountId keyId =
     on_ret (st, GetAccountById (st_store st) accountId)
       (\<lambda>st e. respond st (HttpError 500 ''account doesn't exist''))
       (\<lambda>st account.
          case find (\<lambda>key. SetupKey_Id key = keyId) (vals (Account_SetupKeys account)) of
            Some key \<Rightarrow> writeSuccess st (fr_now fr) key
          | None \<Rightarrow> respond st (HttpError 404 ''setup key not found''))"

definition createKey ::
  "Http_Env \<Rightarrow> Mgmt_State \<Rightarrow> Fresh \<Rightarrow> string \<Rightarrow> Request \<Rightarrow> Mgmt_State \<times> reply list outcome" where
  "createKey env st fr accountId r =
     (case decode_key env (Req_Body r) of
        Err e \<Rightarrow> respond st (HttpError 400 (err_string e))
      | Panic p \<Rightarrow> (st, Panic p)
      | Ret None \<Rightarrow> (st, Panic NilDereference)
      | Ret (Some req) \<Rightarrow>
          if \<not> (KeyReq_Type req = SetupKeyReusable \<or> KeyReq_Type req = SetupKeyOneOff)
          then respond st (HttpError 400 (''unknown setup key type '' @ KeyReq_Type req))
          else
            on_ret (with_store st (AddSetupKey (st_store st) (fr_now fr) (fr_uuid1 fr) accountId
                                     (KeyReq_Name req) (KeyReq_Type req) (KeyReq_ExpiresIn req)))
              (\<lambda>st e. if from_status e \<and> err_code e = NotFound then respond st (HttpError 404 ''account not found'')
                      else respond st (HttpError 500 ''failed adding setup key''))
              (\<lambda>st setupKey. writeSuccess st (fr_now fr) setupKey))"

definition HandleKey ::
  "Http_Env \<Rightarrow> Mgmt_State \<Rightarrow> Fresh \<Rightarrow> Fresh \<Rightarrow> Request \<Rightarrow> Mgmt_State \<times> reply list outcome" where
  "HandleKey env st fr fr' r =
     on_ret (getSetupKeyAccount env st fr r) failed
       (\<lambda>st account.
          if length (Req_id r) = 0 then respond st (HttpError 400 ''invalid key Id'')
          else (case Req_Method r of
                  PUT \<Rightarrow> updateKey env st fr' (Account_Id account) (Req_id r) r
                | GET \<Rightarrow> getKey st fr' (Account_Id account) (Req_id r)
                | _ \<Rightarrow> respond st (HttpError 404 [])))"

definition GetKeys ::
  "Http_Env \<Rightarrow> Mgmt_State \<Rightarrow> Fresh \<Rightarrow> Fresh \<Rightarrow> Request \<Rightarrow> Mgmt_State \<times> reply list outcome" where
  "GetKeys env st fr fr' r =
     on_ret (getSetupKeyAccount env st fr r) failed
       (\<lambda>st account.
          case Req_Method r of
            POST \<Rightarrow> createKey env st fr' (Account_Id account) r
          | GET \<Rightarrow> respond st (Json (JKeys (map (toResponseBody (fr_now fr')) (vals (Account_SetupKeys account)))))
          | _ \<Rightarrow> respond st (HttpError 404 []))"

section \<open>Groups\<close>

text \<open>The loop over the members, with the cache of the peers seen before; unknown peers are skipped.\<close>

fun group_peer_loop ::
  "Account \<Rightarrow> (string \<times> GroupPeerResponse) list \<Rightarrow> string list \<Rightarrow> GroupPeerResponse list" where
  "group_peer_loop account cache [] = []"
| "group_peer_loop account cache (pid # pids) =
     (case map_of cache pid of
        Some peerResp \<Rightarrow> peerResp # group_peer_loop account cache pids
      | None \<Rightarrow>
          (case lookup (Account_Peers account) pid of
             None \<Rightarrow> group_peer_loop account cache pids
           | Some peer \<Rightarrow>
               (let peerResp = \<lparr>GroupPeer_Key = Peer_Key peer, GroupPeer_Name = Peer_Name peer\<rparr>
                in peerResp # group_peer_loop account ((pid, peerResp) # cache) pids)))"

definition toGroupResponse :: "Account \<Rightarrow> Group \<Rightarrow> GroupResponse" where
  "toGroupResponse account grp =
     \<lparr>GroupResp_ID = Group_ID grp, GroupResp_Name = Group_Name grp,
      GroupResp_Peers = group_peer_loop account [] (Group_Peers grp)\<rparr>"

definition GetAllGroupsHandler ::
  "Http_Env \<Rightarrow> Mgmt_State \<Rightarrow> Fresh \<Rightarrow> Request \<Rightarrow> Mgmt_State \<times> reply list outcome" where
  "GetAllGroupsHandler env st fr r =
     on_ret (getGroupAccount env st fr r) failed
       (\<lambda>st account. writeJSONObject st (JGroups (map (toGroupResponse account) (vals (Account_Groups account)))))"

definition CreateOrUpdateGroupHandler ::
  "Http_Env \<Rightarrow> Mgmt_State \<Rightarrow> Fresh \<Rightarrow> Fresh \<Rightarrow> Request \<Rightarrow> Mgmt_State \<times> reply list outcome" where
  "CreateOrUpdateGroupHandler env st fr fr' r =
     on_ret (getGroupAccount env st fr r) failed
       (\<lambda>st account.
          on_ret (st, decode_group env (Req_Body r))
            (\<lambda>st e. respond st (HttpError 400 (err_string e)))
            (\<lambda>st req0.
               let req = (if Req_Method r = POST then req0\<lparr>GroupReq_ID := fr_group_xid fr'\<rparr> else req0);
                   grp = \<lparr>Group_ID = GroupReq_ID req, Group_Name = GroupReq_Name req,
                          Group_Peers = GroupReq_Peers req\<rparr>
               in on_ret (with_store st (SaveGroup (st_store st) (Account_Id account) grp)) failed
                    (\<lambda>st u. writeJSONObject st (JGroup (toGroupResponse account grp)))))"

definition DeleteGroupHandler ::
  "Http_Env \<Rightarrow> Mgmt_State \<Rightarrow> Fresh \<Rightarrow> Request \<Rightarrow> Mgmt_State \<times> reply list outcome" where
  "DeleteGroupHandler env st fr r =
     on_ret (getGroupAccount env st fr r) failed
       (\<lambda>st account.
          if length (Req_id r) = 0 then respond st (HttpError 400 ''invalid group ID'')
          else on_ret (with_store st (DeleteGroup (st_store st) (Account_Id account) (Req_id r))) failed
                 (\<lambda>st u. writeJSONObject st (JText [])))"

definition GetGroupHandler ::
  "Http_Env \<Rightarrow> Mgmt_State \<Rightarrow> Fresh \<Rightarrow> Request \<Rightarrow> Mgmt_State \<times> reply list outcome" where
  "GetGroupHandler env st fr r =
     on_ret (getGroupAccount env st fr r) failed
       (\<lambda>st account.
          case Req_Method r of
            GET \<Rightarrow>
              if length (Req_id r) = 0 then respond st (HttpError 400 ''invalid group ID'')
              else on_ret (st, GetGroup (st_store st) (Account_Id account) (Req_id r))
                     (\<lambda>st e. respond st (HttpError 404 ''group not found''))
                     (\<lambda>st grp. writeJSONObject st (JGroup (toGroupResponse account grp)))
          | _ \<Rightarrow> respond st (HttpError 404 []))"

section \<open>Rules\<close>

definition FlowBidirectString :: string where
  "FlowBidirectString = ''bidirect''"

definition rule_groups :: "Account \<Rightarrow> string list \<Rightarrow> RuleGroupResponse list" where
  "rule_groups account gids =
     map (\<lambda>grp. \<lparr>RuleGroup_ID = Group_ID grp, RuleGroup_Name = Group_Name grp,
                 RuleGroup_PeersCount = length (Group_Peers grp)\<rparr>)
       (List.map_filter (lookup (Account_Groups account)) gids)"

definition toRuleResponse :: "Account \<Rightarrow> Rule \<Rightarrow> RuleResponse" where
  "toRuleResponse account rule =
     \<lparr>RuleResp_ID = Rule_ID rule, RuleResp_Name = Rule_Name rule,
      RuleResp_Source = rule_groups account (Rule_Source rule),
      RuleResp_Destination = rule_groups account (Rule_Destination rule),
      RuleResp_Flow = (if Rule_Flow rule = TrafficFlowBidirect then FlowBidirectString else ''unknown'')\<rparr>"

definition GetAllRulesHandler ::
  "Http_Env \<Rightarrow> Mgmt_State \<Rightarrow> Fresh \<Rightarrow> Request \<Rightarrow> Mgmt_State \<times> reply list outcome" where
  "GetAllRulesHandler env st fr r =
     on_ret (getRuleAccount env st fr r) failed
       (\<lambda>st account. writeJSONObject st (JRules (map (toRuleResponse account) (vals (Account_Rules account)))))"

definition CreateOrUpdateRuleHandler ::
  "Http_Env \<Rightarrow> Mgmt_State \<Rightarrow> Fresh \<Rightarrow> Fresh \<Rightarrow> Request \<Rightarrow> Mgmt_State \<times> reply list outcome" where
  "CreateOrUpdateRuleHandler env st fr fr' r =
     on_ret (getRuleAccount env st fr r) failed
       (\<lambda>st account.
          on_ret (st, decode_rule env (Req_Body r))
            (\<lambda>st e. respond st (HttpError 400 (err_string e)))
            (\<lambda>st req0.
               let req = (if Req_Method r = POST then req0\<lparr>RuleReq_ID := fr_rule_xid fr'\<rparr> else req0)
               in if RuleReq_Flow req = FlowBidirectString then
                    (let rule = \<lparr>Rule_ID = RuleReq_ID req, Rule_Name = RuleReq_Name req,
                           Rule_Source = RuleReq_Source req, Rule_Destination = RuleReq_Destination req,
                           Rule_Flow = TrafficFlowBidirect\<rparr>
                     in on_ret (with_store st (SaveRule (st_store st) (Account_Id account) rule)) failed
                          (\<lambda>st u. writeJSONObject st (JRuleReq req)))
                  else respond st (HttpError 400 ''unknown flow type'')))"

definition DeleteRuleHandler ::
  "Http_Env \<Rightarrow> Mgmt_State \<Rightarrow> Fresh \<Rightarrow> Request \<Rightarrow> Mgmt_State \<times> reply list outcome" where
  "DeleteRuleHandler env st fr r =
     on_ret (getRuleAccount env st fr r) failed
       (\<lambda>st account.
          if length (Req_id r) = 0 then respond st (HttpError 400 ''invalid rule ID'')
          else on_ret (with_store st (DeleteRule (st_store st) (Account_Id account) (Req_id r))) failed
                 (\<lambda>st u. writeJSONObject st (JText [])))"

definition GetRuleHandler ::
  "Http_Env \<Rightarrow> Mgmt_State \<Rightarrow> Fresh \<Rightarrow> Request \<Rightarrow> Mgmt_State \<times> reply list outcome" where
  "GetRuleHandler env st fr r =
     on_ret (getRuleAccount env st fr r) failed
       (\<lambda>st account.
          case Req_Method r of
            GET \<Rightarrow>
              if length (Req_id r) = 0 then respond st (HttpError 400 ''invalid rule ID'')
              else on_ret (st, GetRule (st_store st) (Account_Id account) (Req_id r))
                     (\<lambda>st e. respond st (HttpError 404 ''rule not found''))
                     (\<lambda>st rule. writeJSONObject st (JRule (toRuleResponse account rule)))
          | _ \<Rightarrow> respond st (HttpError 404 []))"

section \<open>Peers\<close>

text \<open>A peer without a status is a nil pointer dereference.\<close>

definition toPeerResponse :: "Peer \<Rightarrow> PeerResponse outcome" where
  "toPeerResponse peer =
     (case Peer_Status peer of
        None \<Rightarrow> Panic NilDereference
      | Some status \<Rightarrow> Ret
          \<lparr>PeerResp_Name = Peer_Name peer, PeerResp_IP = ip_string (Peer_IP peer),
           PeerResp_Connected = Status_Connected status, PeerResp_LastSeen = Status_LastSeen status,
           PeerResp_OS = Meta_OS (Peer_Meta peer) @ '' '' @ Meta_Core (Peer_Meta peer),
           PeerResp_Version = Meta_WtVersion (Peer_Meta peer)\<rparr>)"

definition updatePeer ::
  "Http_Env \<Rightarrow> Mgmt_State \<Rightarrow> string \<Rightarrow> Peer \<Rightarrow> Request \<Rightarrow> Mgmt_State \<times> reply list outcome" where
  "updatePeer env st accountId peer r =
     on_ret (st, decode_peer env (Req_Body r))
       (\<lambda>st e. respond st (HttpError 400 (err_string e)))
       (\<lambda>st body.
          case body of
            None \<Rightarrow> (st, Panic NilDereference)
          | Some req \<Rightarrow>
              on_ret (with_store st (RenamePeer (st_store st) accountId (Peer_Key peer) (PeerReq_Name req))) failed
                (\<lambda>st peer.
                   on_ret (st, toPeerResponse peer) failed (\<lambda>st resp. writeJSONObject st (JPeer resp))))"

text \<open>Deleting a peer notifies the other peers and may block on a full channel.\<close>

definition deletePeer ::
  "Mgmt_State \<Rightarrow> string \<Rightarrow> Peer \<Rightarrow> (Mgmt_State \<times> reply list outcome) option" where
  "deletePeer st accountId peer =
     (case DeletePeer (st_store st) (st_updates st) accountId (Peer_Key peer) of
        None \<Rightarrow> None
      | Some ((s, m), result) \<Rightarrow>
          Some (on_ret (st\<lparr>st_store := s, st_updates := m\<rparr>, result) failed
                  (\<lambda>st p. writeJSONObject st (JText []))))"

text \<open>The account and the peer of \<open>/api/peers/{id}\<close>; the identifier is the address of the peer.\<close>

definition handle_peer_lookup ::
  "Http_Env \<Rightarrow> Mgmt_State \<Rightarrow> Fresh \<Rightarrow> Request \<Rightarrow> Mgmt_State \<times> (reply list + Account \<times> Peer) outcome" where
  "handle_peer_lookup env st fr r =
     on_ret (getPeerAccount env st fr r) (\<lambda>st e. (st, Ret (Inl [Redirect 500])))
       (\<lambda>st account.
          if length (Req_id r) = 0 then (st, Ret (Inl [HttpError 400 ''invalid peer Id'']))
          else on_ret (st, GetPeerByIP (st_store st) (Account_Id account) (Req_id r))
                 (\<lambda>st e. (st, Ret (Inl [HttpError 404 ''peer not found''])))
                 (\<lambda>st peer. (st, Ret (Inr (account, peer)))))"

definition HandlePeer ::
  "Http_Env \<Rightarrow> Mgmt_State \<Rightarrow> Fresh \<Rightarrow> Request \<Rightarrow> (Mgmt_State \<times> reply list outcome) option" where
  "HandlePeer env st fr r =
     (case handle_peer_lookup env st fr r of
        (st, Err e) \<Rightarrow> Some (st, Err e)
      | (st, Panic p) \<Rightarrow> Some (st, Panic p)
      | (st, Ret (Inl ws)) \<Rightarrow> Some (st, Ret ws)
      | (st, Ret (Inr (account, peer))) \<Rightarrow>
          (case Req_Method r of
             DELETE \<Rightarrow> deletePeer st (Account_Id account) peer
           | PUT \<Rightarrow> Some (updatePeer env st (Account_Id account) peer r)
           | GET \<Rightarrow> Some (on_ret (st, toPeerResponse peer) failed (\<lambda>st resp. writeJSONObject st (JPeer resp)))
           | _ \<Rightarrow> Some (respond st (HttpError 404 []))))"

definition GetPeers ::
  "Http_Env \<Rightarrow> Mgmt_State \<Rightarrow> Fresh \<Rightarrow> Request \<Rightarrow> Mgmt_State \<times> reply list outcome" where
  "GetPeers env st fr r =
     (case Req_Method r of
        GET \<Rightarrow>
          on_ret (getPeerAccount env st fr r) failed
            (\<lambda>st account.
               on_ret (st, map_outcome toPeerResponse (vals (Account_Peers account))) failed
                 (\<lambda>st resps. writeJSONObject st (JPeers resps)))
      | _ \<Rightarrow> respond st (HttpError 404 []))"

section \<open>Users\<close>

definition toUserResponse :: "UserInfo \<Rightarrow> UserResponse" where
  "toUserResponse user =
     \<lparr>UserResp_ID = UserInfo_ID user, UserResp_Email = UserInfo_Email user,
      UserResp_Name = UserInfo_Name user, UserResp_Role = UserInfo_Role user\<rparr>"

text \<open>
  A wrong method is answered with an error, but the handler goes on; an unknown account is
  only logged, and reading the identifier of the nil account panics.
\<close>

definition GetUsers ::
  "Http_Env \<Rightarrow> Mgmt_State \<Rightarrow> Fresh \<Rightarrow> Request \<Rightarrow> Mgmt_State \<times> reply list outcome" where
  "GetUsers env st fr r =
     (let w = (if Req_Method r \<noteq> GET then [HttpError 400 []] else [])
      in on_ret (getAccountId env st fr r) (\<lambda>st e. (st, Panic NilDereference))
           (\<lambda>st account.
              on_ret (st, GetUsersFromAccount (st_store st) (http_idp env) (Account_Id account))
                (\<lambda>st e. (st, Ret (w @ [Redirect 500])))
                (\<lambda>st data. (st, Ret (w @ [Json (JUsers (map toUserResponse data))])))))"

section \<open>Middlewares and routes\<close>

text \<open>
  \<open>CheckJWTFromRequest\<close> answers a request without a valid token itself (\<open>Inl\<close>) or puts the
  token into the context of the request. Requests with the method \<open>OPTIONS\<close> pass unchecked.
\<close>

definition OnError :: "string \<Rightarrow> reply" where
  "OnError err = HttpError 401 err"

definition CheckJWTFromRequest :: "Http_Env \<Rightarrow> Request \<Rightarrow> (reply list + Request) outcome" where
  "CheckJWTFromRequest env r =
     (if \<not> Jwt_EnableAuthOnOptions (http_middleware env) \<and> Req_Method r = OPTIONS then Ret (Inr r)
      else (case FromAuthHeader (Req_Authorization r) of
              Err e \<Rightarrow> Ret (Inl [OnError (err_string e)])
            | Panic p \<Rightarrow> Panic p
            | Ret token \<Rightarrow>
                (case ValidateAndParse (http_jwt env) (http_middleware env) token of
                   Err e \<Rightarrow> Ret (Inl [OnError ''The token isn't valid''])
                 | Panic p \<Rightarrow> Panic p
                 | Ret None \<Rightarrow> Ret (Inr r)
                 | Ret (Some validatedToken) \<Rightarrow> Ret (Inr (r\<lparr>Req_user := Some validatedToken\<rparr>)))))"

text \<open>The access control answers itself (\<open>Some\<close>) or lets the request pass (\<open>None\<close>).\<close>

definition AccessControll_Handler ::
  "Http_Env \<Rightarrow> Mgmt_State \<Rightarrow> Fresh \<Rightarrow> Request \<Rightarrow> Mgmt_State \<times> reply list option outcome" where
  "AccessControll_Handler env st fr r =
     (case ExtractClaimsFromRequestContext (Req_user r) (http_audience env) of
        Err e \<Rightarrow> (st, Err e)
      | Panic p \<Rightarrow> (st, Panic p)
      | Ret jwtClaims \<Rightarrow>
          on_ret (with_store st (IsUserAdmin (st_store st) (http_idp env) fr jwtClaims))
            (\<lambda>st e. (st, Ret (Some [HttpError 401 (''error get user from JWT: '' @ err_string e)])))
            (\<lambda>st ok.
               if \<not> ok \<and> Req_Method r \<in> {DELETE, POST, PATCH, PUT}
               then (st, Ret (Some [HttpError 403 ''user is not admin'']))
               else (st, Ret None)))"

text \<open>
  The routes in the order of registration: the handler of the first route whose path and
  methods match. A path with no such route is answered by the router, before the middlewares.
\<close>

definition dispatch ::
  "Http_Env \<Rightarrow> Mgmt_State \<Rightarrow> Fresh \<Rightarrow> Fresh \<Rightarrow> Request \<Rightarrow> (Mgmt_State \<times> reply list outcome) option" where
  "dispatch env st fr fr' r =
     (case Req_Route r of
        PeersRoute \<Rightarrow> Some (GetPeers env st fr r)
      | PeerRoute \<Rightarrow> HandlePeer env st fr r
      | UsersRoute \<Rightarrow> Some (GetUsers env st fr r)
      | KeysRoute \<Rightarrow> Some (GetKeys env st fr fr' r)
      | KeyRoute \<Rightarrow> Some (HandleKey env st fr fr' r)
      | RulesRoute \<Rightarrow>
          Some (if Req_Method r \<in> {GET, OPTIONS} then GetAllRulesHandler env st fr r
                else CreateOrUpdateRuleHandler env st fr fr' r)
      | RuleRoute \<Rightarrow>
          Some (if Req_Method r \<in> {GET, OPTIONS} then GetRuleHandler env st fr r
                else DeleteRuleHandler env st fr r)
      | GroupsRoute \<Rightarrow>
          Some (if Req_Method r \<in> {GET, OPTIONS} then GetAllGroupsHandler env st fr r
                else CreateOrUpdateGroupHandler env st fr fr' r)
      | GroupRoute \<Rightarrow>
          Some (if Req_Method r \<in> {GET, OPTIONS} then GetGroupHandler env st fr r
                else DeleteGroupHandler env st fr r))"

definition route_methods :: "route \<Rightarrow> http_method set" where
  "route_methods rt =
     (case rt of
        PeersRoute \<Rightarrow> {GET, OPTIONS}
      | PeerRoute \<Rightarrow> {GET, PUT, DELETE, OPTIONS}
      | UsersRoute \<Rightarrow> {GET, OPTIONS}
      | KeysRoute \<Rightarrow> {GET, POST, OPTIONS}
      | KeyRoute \<Rightarrow> {GET, PUT, DELETE, OPTIONS}
      | RulesRoute \<Rightarrow> {GET, POST, PUT, OPTIONS}
      | RuleRoute \<Rightarrow> {GET, DELETE, OPTIONS}
      | GroupsRoute \<Rightarrow> {GET, POST, PUT, OPTIONS}
      | GroupRoute \<Rightarrow> {GET, DELETE, OPTIONS})"

text \<open>The access control followed by the handler; \<open>frs\<close> are the fresh values of its calls.\<close>

definition ac_then_handler ::
  "Http_Env \<Rightarrow> Mgmt_State \<Rightarrow> (nat \<Rightarrow> Fresh) \<Rightarrow> Request \<Rightarrow> (Mgmt_State \<times> reply list outcome) option" where
  "ac_then_handler env st frs r =
     (case AccessControll_Handler env st (frs 0) r of
        (st1, Err e) \<Rightarrow> Some (st1, Err e)
      | (st1, Panic p) \<Rightarrow> Some (st1, Panic p)
      | (st1, Ret (Some ws)) \<Rightarrow> Some (st1, Ret ws)
      | (st1, Ret None) \<Rightarrow> dispatch env st1 (frs 1) (frs 2) r)"

text \<open>
  One request through \<open>jwtMiddleware\<close>, \<open>corsMiddleware\<close>, \<open>acMiddleware\<close> and its handler. A
  preflight request gets an empty answer.
\<close>

definition serve ::
  "Http_Env \<Rightarrow> Mgmt_State \<Rightarrow> (nat \<Rightarrow> Fresh) \<Rightarrow> Request \<Rightarrow> (Mgmt_State \<times> reply list outcome) option" where
  "serve env st frs r0 =
     (if Req_Method r0 \<notin> route_methods (Req_Route r0) then Some (respond st (HttpError 405 []))
      else (case CheckJWTFromRequest env r0 of
              Err e \<Rightarrow> Some (st, Err e)
            | Panic p \<Rightarrow> Some (st, Panic p)
            | Ret (Inl ws) \<Rightarrow> Some (st, Ret ws)
            | Ret (Inr r) \<Rightarrow>
                if http_preflight env r then Some (st, Ret []) else ac_then_handler env st frs r))"

end
