(* ===== verification/Http_Properties.thy ===== *)
theory Http_Properties
  imports Http_Api Grpc_Properties
begin

text \<open>
  What the HTTP API guarantees: a request changes nothing but the account its user signed in
  to, a modifying request is carried out for administrators only, and a reading request
  changes nothing beyond the sign-in itself.
\<close>

section \<open>Operations that touch one account\<close>

abbreviation ids_ok :: "FileStore \<Rightarrow> bool" where
  "ids_ok \<equiv> all_accounts (\<lambda>_. True)"

definition touches_only :: "string \<Rightarrow> FileStore \<Rightarrow> FileStore \<Rightarrow> bool" where
  "touches_only i s s' \<longleftrightarrow> ids_ok s' \<and> (\<forall>k. k \<noteq> i \<longrightarrow> GetAccount s' k = GetAccount s k)"

lemma touches_refl [simp]: "touches_only i s s \<longleftrightarrow> ids_ok s"
  by (simp add: touches_only_def)

lemma touches_trans: "touches_only i s t \<Longrightarrow> touches_only i t u \<Longrightarrow> touches_only i s u"
  by (simp add: touches_only_def)

lemma touches_ids: "touches_only i s t \<Longrightarrow> ids_ok t"
  by (simp add: touches_only_def)

lemma touches_save:
  assumes "ids_ok s"
  shows "touches_only (Account_Id a) s (fst (SaveAccount s a))"
proof -
  obtain s' r where s': "SaveAccount s a = (s', r)" by fastforce
  then show ?thesis
    using all_accounts_save [OF assms, of a] fs.get_other [OF _ s'] assms
    by (simp add: touches_only_def all_accounts_def)
qed

lemma touches_save':
  "ids_ok s \<Longrightarrow> Account_Id a = i \<Longrightarrow> touches_only i s (fst (SaveAccount s a))"
  using touches_save by blast

lemma touches_set:
  "ids_ok s \<Longrightarrow> Account_Id a = i \<Longrightarrow> touches_only i s (set_account s i a)"
  using all_accounts_set [of "\<lambda>_. True" s a i] by (simp add: touches_only_def GetAccount_set)

lemma touches_persist [simp]: "touches_only i s (fst (persist t)) \<longleftrightarrow> touches_only i s t"
  by (simp add: touches_only_def GetAccount_persist all_accounts_persist)

lemma touches_index [simp]: "touches_only i s (t\<lparr>PeerKeyId2AccountId := f\<rparr>) \<longleftrightarrow> touches_only i s t"
  by (simp add: touches_only_def GetAccount_def all_accounts_index)

lemmas ids = all_accounts_id [of "\<lambda>_. True"]

text \<open>
  The contract of an operation on one account, and what a handler that calls it inherits:
  whatever the handler does before and after the call within the same account, it leaves
  every other account alone.
\<close>

locale account_operation =
  fixes run :: "string \<Rightarrow> 'x \<Rightarrow> FileStore \<Rightarrow> FileStore \<times> 'a outcome"
  assumes scoped: "ids_ok s \<Longrightarrow> touches_only i s (fst (run i x s))"
begin

lemma call:
  assumes "touches_only i s (st_store st)"
  shows "touches_only i s (st_store (fst (with_store st (run i x (st_store st)))))"
  using assms touches_trans [OF assms scoped [OF touches_ids]] by (simp add: with_store_def)

end

lemma touches_AddSetupKey: "ids_ok s \<Longrightarrow> touches_only i s (fst (AddSetupKey s now uuid i n t e))"
  by (auto simp: AddSetupKey_def Let_def then_return_state split: outcome.splits option.splits
      intro!: touches_save' intro: ids)

interpretation op_add_key: account_operation "\<lambda>i (now, uuid, n, t, e) s. AddSetupKey s now uuid i n t e"
  by unfold_locales (auto simp: touches_AddSetupKey)

interpretation op_revoke: account_operation "\<lambda>i k s. RevokeSetupKey s i k"
  by unfold_locales
    (auto simp: RevokeSetupKey_def Let_def then_return_state split: outcome.splits option.splits
      intro!: touches_save' intro: ids)

lemma touches_RenameSetupKey: "ids_ok s \<Longrightarrow> touches_only i s (fst (RenameSetupKey s i k n))"
  by (auto simp: RenameSetupKey_def Let_def then_return_state split: outcome.splits option.splits
      intro!: touches_save' intro: ids)

interpretation op_rename_key: account_operation "\<lambda>i (k, n) s. RenameSetupKey s i k n"
  by unfold_locales (auto simp: touches_RenameSetupKey)

interpretation op_save_group: account_operation "\<lambda>i g s. SaveGroup s i g"
  by unfold_locales
    (auto simp: SaveGroup_def split: outcome.splits option.splits intro!: touches_save' intro: ids)

interpretation op_delete_group: account_operation "\<lambda>i g s. DeleteGroup s i g"
  by unfold_locales (auto simp: DeleteGroup_def split: outcome.splits intro!: touches_save' intro: ids)

interpretation op_save_rule: account_operation "\<lambda>i r s. SaveRule s i r"
  by unfold_locales
    (auto simp: SaveRule_def split: outcome.splits option.splits intro!: touches_save' intro: ids)

interpretation op_delete_rule: account_operation "\<lambda>i r s. DeleteRule s i r"
  by unfold_locales (auto simp: DeleteRule_def split: outcome.splits intro!: touches_save' intro: ids)

lemma touches_SavePeer: "ids_ok s \<Longrightarrow> touches_only i s (fst (SavePeer s i p))"
  by (auto simp: SavePeer_def Let_def split: outcome.splits option.splits intro!: touches_set dest: ids)

interpretation op_rename_peer: account_operation "\<lambda>i (k, n) s. RenamePeer s i k n"
  by unfold_locales
    (auto simp: RenamePeer_def Let_def then_return_state touches_SavePeer split: outcome.splits)

lemma touches_Store_DeletePeer:
  assumes s: "ids_ok s"
  shows "touches_only i s (fst (Store_DeletePeer s i k))"
proof (cases "GetAccount s i")
  case (Ret a)
  have eq: "touches_only i s (fst (case persist t of (s2, Ret u) \<Rightarrow> (s2, Ret p) | (s2, Err e) \<Rightarrow> (s2, Err e)
               | (s2, Panic q) \<Rightarrow> (s2, Panic q))) \<longleftrightarrow> touches_only i s (fst (persist t))" for t and p :: Peer
    by (cases "persist t"; cases "snd (persist t)") auto
  show ?thesis using s ids [OF s Ret]
    by (auto simp: Store_DeletePeer_def Let_def Ret eq touches_set simp del: split_paired_All
        split: option.split)
qed (use s in \<open>auto simp: Store_DeletePeer_def\<close>)

lemma touches_DeletePeer:
  assumes "ids_ok s" "DeletePeer s m i k = Some ((s', m'), r)"
  shows "touches_only i s s'"
proof -
  obtain s1 q where d: "Store_DeletePeer s i k = (s1, q)" by fastforce
  have s1: "touches_only i s s1" using touches_Store_DeletePeer [OF assms(1), of i k] by (simp add: d)
  have "touches_only i s s2" if "GetAccount s1 i = Ret a"
    "SaveAccount s1 (a\<lparr>Account_Network := IncSerial (Account_Network a)\<rparr>) = (s2, r2)" for s2 r2 a
  proof (rule touches_trans [OF s1])
    show "touches_only i s1 s2"
      using touches_save' [of s1 "a\<lparr>Account_Network := IncSerial (Account_Network a)\<rparr>" i] that(2)
        ids [OF touches_ids [OF s1] that(1)] touches_ids [OF s1] by simp
  qed
  then show ?thesis using assms d s1
    by (auto simp: DeletePeer_def Let_def split: outcome.splits prod.splits option.splits)
qed

lemmas scoped_calls =
  op_revoke.call op_save_group.call op_delete_group.call op_save_rule.call op_delete_rule.call
  op_add_key.call [where x = "(now, uuid, n, t, e)" for now uuid n t e, simplified]
  op_rename_key.call [where x = "(k, n)" for k n, simplified]
  op_rename_peer.call [where x = "(k, n)" for k n, simplified]

section \<open>Signing in\<close>

text \<open>A sign-in that returns an account has touched no other account.\<close>

definition signs_in :: "FileStore \<Rightarrow> FileStore \<times> Account outcome \<Rightarrow> bool" where
  "signs_in s c \<longleftrightarrow> ids_ok (fst c) \<and> (\<forall>a. snd c = Ret a \<longrightarrow> touches_only (Account_Id a) s (fst c))"

lemma signs_in_simps [simp]:
  "signs_in s (t, Ret a) \<longleftrightarrow> touches_only (Account_Id a) s t"
  "signs_in s (t, Err e) \<longleftrightarrow> ids_ok t" "signs_in s (t, Panic p) \<longleftrightarrow> ids_ok t"
  by (auto simp: signs_in_def touches_only_def)

lemma signs_in_save:
  assumes "touches_only (Account_Id a) s t"
  shows "signs_in s (then_return (SaveAccount t a) g a)"
  using touches_trans [OF assms touches_save [OF touches_ids [OF assms], of a]]
  by (cases "(SaveAccount t a, g, a)" rule: then_return.cases) (auto dest: touches_ids)

lemma signs_in_bind:
  assumes "signs_in s c" "\<And>t a. touches_only (Account_Id a) s t \<Longrightarrow> signs_in s (f t a)"
  shows "signs_in s (case c of (t, Err e) \<Rightarrow> (t, Err (g e)) | (t, Panic p) \<Rightarrow> (t, Panic p) | (t, Ret a) \<Rightarrow> f t a)"
  using assms by (auto split: prod.splits outcome.splits)

lemma finish_signs_in: "touches_only (Account_Id a) s t \<Longrightarrow> signs_in s (finish_idp t idp u a)"
  by (auto simp: finish_idp_def split: outcome.splits dest: touches_ids)

lemma find_signs_in: "ids_ok s \<Longrightarrow> signs_in s (find_or_new_account s fr u d)"
  unfolding find_or_new_account_def Let_def
  by (auto split: outcome.splits option.splits intro!: signs_in_save)

lemma user_signs_in: "ids_ok s \<Longrightarrow> signs_in s (GetOrCreateAccountByUser s fr u d)"
  unfolding GetOrCreateAccountByUser_def Let_def
  by (intro signs_in_bind [where g = "\<lambda>e. e"] find_signs_in) (auto intro!: signs_in_save)

lemma user_or_id_signs_in: "ids_ok s \<Longrightarrow> signs_in s (GetAccountByUserOrAccountId s idp fr u i d)"
  unfolding GetAccountByUserOrAccountId_def finish_idp_def [symmetric]
  by (cases "i = []"; cases "u = []")
    (auto simp: GetAccountById_def split: outcome.splits intro!: signs_in_bind user_signs_in finish_signs_in)

lemma domain_signs_in: "touches_only (Account_Id a) s t \<Longrightarrow> signs_in s (updateAccountDomainAttributes t a c b)"
  unfolding updateAccountDomainAttributes_def Let_def by (intro signs_in_save) simp

lemma existing_signs_in: "ids_ok s \<Longrightarrow> signs_in s (handleExistingUserAccount s idp a da c)"
  unfolding handleExistingUserAccount_def Let_def
  by (intro signs_in_bind [where g = "\<lambda>e. e"] domain_signs_in finish_signs_in) simp_all

lemma new_signs_in: "ids_ok s \<Longrightarrow> signs_in s (handleNewUserAccount s idp fr da c)"
  unfolding handleNewUserAccount_def Let_def
  by (intro signs_in_bind [where g = "\<lambda>e. e"] finish_signs_in)
    (auto split: option.splits intro!: signs_in_save domain_signs_in)

lemma private_signs_in: "ids_ok s \<Longrightarrow> signs_in s (account_by_private_domain s idp fr c)"
  unfolding account_by_private_domain_def Let_def
  by (auto split: outcome.splits intro!: existing_signs_in new_signs_in)

lemma claims_sign_in: "ids_ok s \<Longrightarrow> signs_in s (GetAccountWithAuthorizationClaims s idp fr c)"
  unfolding GetAccountWithAuthorizationClaims_def
  by (auto split: outcome.splits intro!: user_or_id_signs_in private_signs_in)

lemma request_signs_in:
  assumes "ids_ok (st_store st)" "request_account env st fr r = (st1, Ret a)"
  shows "touches_only (Account_Id a) (st_store st) (st_store st1)"
proof -
  from assms(2) obtain c where "with_store st (GetAccountWithAuthorizationClaims (st_store st) (http_idp env) fr c)
      = (st1, Ret a)"
    by (auto simp: request_account_def split: outcome.splits elim!: on_ret_cases)
  then show ?thesis using claims_sign_in [OF assms(1), of "http_idp env" fr c]
    by (auto simp: with_store_def signs_in_def)
qed

section \<open>Handlers touch the account of the request only\<close>

lemma respond_state [simp]: "fst (respond st w) = st" "fst (writeJSONObject st p) = st" "fst (failed st e) = st"
  "fst (writeSuccess st now k) = st"
  by (simp_all add: respond_def writeJSONObject_def failed_def writeSuccess_def)

lemmas account_lookups = getSetupKeyAccount_def getGroupAccount_def getRuleAccount_def getPeerAccount_def
  getAccountId_def

lemma on_ret_state:
  "P (fst c) \<Longrightarrow> (\<And>s x. P s \<Longrightarrow> P (fst (f s x))) \<Longrightarrow> (\<And>s e. P s \<Longrightarrow> P (fst (g s e))) \<Longrightarrow>
   P (fst (on_ret c g f))"
  by (cases "(c, g, f)" rule: on_ret.cases) auto

lemma updateKey_scoped:
  assumes "touches_only i s (st_store st)"
  shows "touches_only i s (st_store (fst (updateKey env st fr i k r)))"
  unfolding updateKey_def using assms
  by (auto split: outcome.splits option.splits
      intro!: on_ret_state [where P = "\<lambda>st. touches_only i s (st_store st)"] scoped_calls)

lemma createKey_scoped:
  assumes "touches_only i s (st_store st)"
  shows "touches_only i s (st_store (fst (createKey env st fr i r)))"
  unfolding createKey_def using assms
  by (auto split: outcome.splits option.splits
      intro!: on_ret_state [where P = "\<lambda>st. touches_only i s (st_store st)"] scoped_calls)

lemma updatePeer_scoped:
  assumes "touches_only i s (st_store st)"
  shows "touches_only i s (st_store (fst (updatePeer env st i p r)))"
  unfolding updatePeer_def using assms
  by (auto split: option.splits
      intro!: on_ret_state [where P = "\<lambda>st. touches_only i s (st_store st)"] scoped_calls)

lemma deletePeer_scoped:
  assumes "touches_only i s (st_store st)" "deletePeer st i p = Some (st', w)"
  shows "touches_only i s (st_store st')"
proof -
  obtain t m q where d: "DeletePeer (st_store st) (st_updates st) i (Peer_Key p) = Some ((t, m), q)"
    using assms(2) by (auto simp: deletePeer_def split: option.splits)
  have "touches_only i s t"
    using touches_trans [OF assms(1) touches_DeletePeer [OF touches_ids [OF assms(1)] d]] .
  then show ?thesis using assms(2) d
    by (cases q) (auto simp: deletePeer_def failed_def writeJSONObject_def respond_def)
qed

lemma getKey_state [simp]: "fst (getKey st fr i k) = st"
  unfolding getKey_def by (cases "GetAccountById (st_store st) i") (auto split: option.splits)

text \<open>The handlers, run after the lookup of the account, which each of them makes first.\<close>

lemma handlers_scoped:
  assumes ok: "touches_only (Account_Id a) s (st_store st1)" and acc: "request_account env st fr r = (st1, Ret a)"
  shows "touches_only (Account_Id a) s (st_store (fst (HandleKey env st fr fr' r)))"
    and "touches_only (Account_Id a) s (st_store (fst (GetKeys env st fr fr' r)))"
    and "touches_only (Account_Id a) s (st_store (fst (GetAllGroupsHandler env st fr r)))"
    and "touches_only (Account_Id a) s (st_store (fst (CreateOrUpdateGroupHandler env st fr fr' r)))"
    and "touches_only (Account_Id a) s (st_store (fst (DeleteGroupHandler env st fr r)))"
    and "touches_only (Account_Id a) s (st_store (fst (GetGroupHandler env st fr r)))"
    and "touches_only (Account_Id a) s (st_store (fst (GetAllRulesHandler env st fr r)))"
    and "touches_only (Account_Id a) s (st_store (fst (CreateOrUpdateRuleHandler env st fr fr' r)))"
    and "touches_only (Account_Id a) s (st_store (fst (DeleteRuleHandler env st fr r)))"
    and "touches_only (Account_Id a) s (st_store (fst (GetRuleHandler env st fr r)))"
    and "touches_only (Account_Id a) s (st_store (fst (GetUsers env st fr r)))"
    and "Req_Method r = GET \<Longrightarrow> touches_only (Account_Id a) s (st_store (fst (GetPeers env st fr r)))"
  using ok
  by (auto simp: HandleKey_def GetKeys_def GetAllGroupsHandler_def CreateOrUpdateGroupHandler_def
      DeleteGroupHandler_def GetGroupHandler_def GetAllRulesHandler_def CreateOrUpdateRuleHandler_def
      DeleteRuleHandler_def GetRuleHandler_def GetUsers_def GetPeers_def account_lookups acc Let_def
      split: http_method.split
      intro!: updateKey_scoped createKey_scoped scoped_calls
        on_ret_state [where P = "\<lambda>st. touches_only (Account_Id a) s (st_store st)"])

lemma HandlePeer_scoped:
  assumes ok: "touches_only (Account_Id a) s (st_store st1)" and acc: "request_account env st fr r = (st1, Ret a)"
    and "HandlePeer env st fr r = Some (st', w)"
  shows "touches_only (Account_Id a) s (st_store st')"
proof -
  let ?show = "\<lambda>peer. on_ret (st1, toPeerResponse peer) failed (\<lambda>st resp. writeJSONObject st (JPeer resp))"
  have "touches_only (Account_Id a) s (st_store (fst (?show peer)))" for peer
    using ok by (intro on_ret_state [where P = "\<lambda>st. touches_only (Account_Id a) s (st_store st)"]) auto
  moreover have "touches_only (Account_Id a) s (st_store (fst (updatePeer env st1 (Account_Id a) peer r)))" for peer
    by (rule updatePeer_scoped [OF ok])
  moreover have "touches_only (Account_Id a) s (st_store st2)"
    if "deletePeer st1 (Account_Id a) peer = Some (st2, w2)" for peer st2 w2
    by (rule deletePeer_scoped [OF ok that])
  moreover have "st' = fst (the (HandlePeer env st fr r))" using assms(3) by simp
  ultimately show ?thesis using assms
    by (cases "GetPeerByIP (st_store st1) (Account_Id a) (Req_id r)"; cases "Req_Method r")
      (auto simp: HandlePeer_def handle_peer_lookup_def account_lookups split: if_splits)
qed

lemma dispatch_scoped:
  assumes ok: "touches_only (Account_Id a) s (st_store st1)" and acc: "request_account env st fr r = (st1, Ret a)"
    and "touches_only (Account_Id a) s (st_store st)" and d: "dispatch env st fr fr' r = Some (st', w)"
  shows "touches_only (Account_Id a) s (st_store st')"
proof (cases "Req_Route r = PeerRoute")
  case True
  with HandlePeer_scoped [OF ok acc] d show ?thesis by (auto simp: dispatch_def)
next
  case False
  have "touches_only (Account_Id a) s (st_store (fst (GetPeers env st fr r)))"
    using handlers_scoped(12) [OF ok acc] assms(3) by (cases "Req_Method r") (auto simp: GetPeers_def)
  moreover have "st' = fst (the (dispatch env st fr fr' r))" using d by simp
  ultimately show ?thesis using False handlers_scoped [OF ok acc]
    by (cases "Req_Route r") (auto simp: dispatch_def)
qed

section \<open>An example\<close>

definition ex_team :: Account where
  "ex_team = ex_account\<lparr>Account_Users := GoMap [(''bob'', NewRegularUser ''bob''), (''ann'', NewAdminUser ''ann'')]\<rparr>"

definition ex_http_state :: Mgmt_State where
  "ex_http_state = ex_state\<lparr>st_store := fst (SaveAccount (empty_store ''store.json'' NoFile []) ex_team)\<rparr>"

definition ex_token :: JwtToken where
  "ex_token = \<lparr>Token_kid = Some (ClaimString ''kid''), Token_alg = ''RS256'',
     Token_Claims = GoMap [(''sub'', ClaimString ''bob''), (''wt_account_id'', ClaimString ''acc'')]\<rparr>"

definition ex_http :: Http_Env where
  "ex_http = \<lparr>http_audience = [], http_idp = None,
     http_jwt = \<lparr>jwt_unverified = (\<lambda>_. Some ex_token), jwt_verify_audience = (\<lambda>_ _. True),
                 jwt_verify_issuer = (\<lambda>_ _. True), jwt_signature_ok = (\<lambda>_ _. True)\<rparr>,
     http_middleware = \<lparr>Jwt_issuer = [], Jwt_audience = [], Jwt_keys = [\<lparr>Jwk_Kid = ''kid'', Jwk_X5c = [''c'']\<rparr>],
                        Jwt_CredentialsOptional = False, Jwt_EnableAuthOnOptions = False\<rparr>,
     http_preflight = (\<lambda>_. False), decode_key = (\<lambda>_. Ret None), decode_peer = (\<lambda>_. Ret None),
     decode_group = (\<lambda>_. Err (PlainError ''EOF'')), decode_rule = (\<lambda>_. Err (PlainError ''EOF''))\<rparr>"

definition ex_http_request :: "http_method \<Rightarrow> Request" where
  "ex_http_request m = \<lparr>Req_Method = m, Req_Route = RuleRoute, Req_Authorization = ''Bearer t'',
     Req_user = None, Req_id = ''r'', Req_Body = []\<rparr>"

lemma ex_team_stored:
  "GetAccount (st_store ex_http_state) ''acc'' = Ret ex_team" "ids_ok (st_store ex_http_state)"
proof -
  let ?e = "empty_store ''store.json'' NoFile []"
  obtain s r where s: "SaveAccount ?e ex_team = (s, r)" by fastforce
  have "Account_Id ex_team = ''acc''" by (simp add: ex_team_def ex_id)
  then show "GetAccount (st_store ex_http_state) ''acc'' = Ret ex_team"
    using fs.get_saved [OF _ s] s by (simp add: ex_http_state_def empty_store_def)
  show "ids_ok (st_store ex_http_state)"
    using all_accounts_save [OF empty_good, of "\<lambda>_. True" ex_team] by (simp add: ex_http_state_def)
qed

lemma ex_claims_bob:
  "ExtractClaimsWithToken ex_token [] = Ret \<lparr>Claims_UserId = ''bob'', Claims_AccountId = ''acc'',
     Claims_Domain = [], Claims_DomainCategory = []\<rparr>"
  by (simp add: ExtractClaimsWithToken_def ex_token_def assert_string_def optional_claim_def)

lemma ex_http_account:
  "request_account ex_http ex_http_state fr ((ex_http_request m)\<lparr>Req_user := Some ex_token\<rparr>) = (ex_http_state, Ret ex_team)"
  using ex_team_stored(1)
  by (simp add: request_account_def ExtractClaimsFromRequestContext_def ex_http_def ex_claims_bob with_store_def
      GetAccountWithAuthorizationClaims_def GetAccountByUserOrAccountId_def GetAccountById_def)

section \<open>Properties\<close>



lemma checked_token:
  assumes "CheckJWTFromRequest env r = Ret (Inr r')" "Req_Method r \<noteq> OPTIONS"
  obtains "r' = r"
    | token t where "FromAuthHeader (Req_Authorization r) = Ret token"
      "ValidateAndParse (http_jwt env) (http_middleware env) token = Ret (Some t)" "r' = r\<lparr>Req_user := Some t\<rparr>"
  using assms by (auto simp: CheckJWTFromRequest_def split: if_splits outcome.splits option.splits)

lemma no_token_panics:
  assumes "Req_user r = None"
  shows "ac_then_handler env st frs r = Some (st, Panic (ExplicitPanic ''interface conversion''))"
  using assms by (simp add: ac_then_handler_def AccessControll_Handler_def ExtractClaimsFromRequestContext_def)

lemma claims_no_error: "ExtractClaimsWithToken t aud \<noteq> Err e"
  by (auto simp: ExtractClaimsWithToken_def Let_def assert_string_def optional_claim_def
      split: option.splits claim_value.splits)

lemma unauthenticated:
  assumes "CheckJWTFromRequest env r = Ret (Inl ws)"
  shows "\<exists>msg. ws = [HttpError 401 msg]"
  using assms
  by (auto simp: CheckJWTFromRequest_def OnError_def split: if_splits outcome.splits option.splits)

lemma check_no_error: "CheckJWTFromRequest env r \<noteq> Err e"
  by (auto simp: CheckJWTFromRequest_def split: outcome.splits option.splits)

definition refused :: "reply list outcome \<Rightarrow> bool" where
  "refused w \<longleftrightarrow> (\<exists>code msg. w = Ret [HttpError code msg] \<and> code \<in> {401, 403, 405}) \<or> (\<exists>p. w = Panic p)"

lemma refused_simps [simp]:
  "refused (Panic p)" "refused (Ret [HttpError c m]) \<longleftrightarrow> c \<in> {401, 403, 405}"
  by (auto simp: refused_def)

lemma served_or_refused:
  assumes "serve env st frs r = Some (st', w)" "Req_Method r \<noteq> OPTIONS"
    and cors: "\<And>r. http_preflight env r \<Longrightarrow> Req_Method r = OPTIONS"
  shows "st' = st \<and> refused w \<or>
    (\<exists>r'. CheckJWTFromRequest env r = Ret (Inr r') \<and> ac_then_handler env st frs r' = Some (st', w))"
proof (cases "CheckJWTFromRequest env r")
  case (Ret x)
  show ?thesis
  proof (cases x)
    case (Inl ws)
    with Ret unauthenticated [of env r ws] assms(1) show ?thesis
      by (auto simp: serve_def respond_def split: if_splits)
  next
    case (Inr r')
    have "Req_Method r' = Req_Method r"
      by (rule checked_token [OF Ret [unfolded Inr] assms(2)]) auto
    with cors assms(2) have "\<not> http_preflight env r'" by metis
    with Ret Inr assms(1) show ?thesis by (auto simp: serve_def respond_def split: if_splits)
  qed
qed (use assms(1) in \<open>auto simp: serve_def respond_def check_no_error split: if_splits\<close>)

text \<open>The effect of signing in, if any.\<close>

definition only_signed_in :: "Http_Env \<Rightarrow> Fresh \<Rightarrow> Mgmt_State \<Rightarrow> Mgmt_State \<Rightarrow> bool" where
  "only_signed_in env fr st st' \<longleftrightarrow> st' = st \<or>
     (\<exists>claims. st' = st\<lparr>st_store := fst (GetAccountWithAuthorizationClaims (st_store st) (http_idp env) fr claims)\<rparr>)"

lemma only_signed_in_refl [simp]: "only_signed_in env fr st st"
  by (simp add: only_signed_in_def)

text \<open>The access control of a user who is not an administrator.\<close>

lemma non_admin_refused:
  assumes "ac_then_handler env st frs r = Some (st', w)" "Req_user r = Some t"
    and "Req_Method r \<in> {POST, PUT, DELETE, PATCH}"
    and "\<And>claims s1. ExtractClaimsWithToken t (http_audience env) = Ret claims \<Longrightarrow>
           IsUserAdmin (st_store st) (http_idp env) (frs 0) claims \<noteq> (s1, Ret True)"
  shows "only_signed_in env (frs 0) st st' \<and> refused w"
proof (cases "ExtractClaimsWithToken t (http_audience env)")
  case (Ret claims)
  obtain s1 result where adm: "IsUserAdmin (st_store st) (http_idp env) (frs 0) claims = (s1, result)"
    by fastforce
  then have "s1 = fst (GetAccountWithAuthorizationClaims (st_store st) (http_idp env) (frs 0) claims)"
    by (auto simp: IsUserAdmin_def split: prod.splits outcome.splits option.splits)
  then have "only_signed_in env (frs 0) st (st\<lparr>st_store := s1\<rparr>)" by (auto simp: only_signed_in_def)
  then show ?thesis using assms Ret adm
    by (cases result) (auto simp: ac_then_handler_def AccessControll_Handler_def
        ExtractClaimsFromRequestContext_def with_store_def split: if_splits)
next
  case (Panic p)
  then have "st' = st" "w = Panic p"
    using assms(1,2) by (auto simp: ac_then_handler_def AccessControll_Handler_def ExtractClaimsFromRequestContext_def)
  then show ?thesis by simp
qed (simp add: claims_no_error)


definition ex_frs :: "nat \<Rightarrow> Fresh" where
  "ex_frs i = ex_fresh"

lemma ex_header: "FromAuthHeader ''Bearer t'' = Ret ''t''"
  by code_simp

lemma ex_bob:
  "IsUserAdmin (st_store ex_http_state) None ex_fresh \<lparr>Claims_UserId = ''bob'', Claims_AccountId = ''acc'',
     Claims_Domain = [], Claims_DomainCategory = []\<rparr> = (st_store ex_http_state, Ret False)"
  using ex_team_stored(1)
  by (simp add: IsUserAdmin_def GetAccountWithAuthorizationClaims_def GetAccountByUserOrAccountId_def
      GetAccountById_def ex_team_def NewRegularUser_def NewUser_def)

lemma ex_bob_served:
  "serve ex_http ex_http_state ex_frs (ex_http_request DELETE) =
     Some (ex_http_state, Ret [HttpError 403 ''user is not admin''])"
proof -
  have "CheckJWTFromRequest ex_http (ex_http_request DELETE) = Ret (Inr ((ex_http_request DELETE)\<lparr>Req_user := Some ex_token\<rparr>))"
    by (simp add: CheckJWTFromRequest_def ex_http_def ex_http_request_def ex_header ValidateAndParse_def jwt_Parse_def validation_key_def getPemCert_def ex_token_def)
  with ex_bob show ?thesis
    by (simp add: serve_def ac_then_handler_def AccessControll_Handler_def ExtractClaimsFromRequestContext_def ex_frs_def
        ex_claims_bob with_store_def ex_http_request_def route_methods_def ex_http_def)
qed


lemma request_only_signs_in: "only_signed_in env fr st (fst (request_account env st fr r))"
proof (cases "ExtractClaimsFromRequestContext (Req_user r) (http_audience env)")
  case (Ret claims)
  then have "fst (request_account env st fr r) =
      st\<lparr>st_store := fst (GetAccountWithAuthorizationClaims (st_store st) (http_idp env) fr claims)\<rparr>"
    by (cases "GetAccountWithAuthorizationClaims (st_store st) (http_idp env) fr claims")
      (cases "snd (GetAccountWithAuthorizationClaims (st_store st) (http_idp env) fr claims)",
       auto simp: request_account_def with_store_def)
  then show ?thesis by (auto simp: only_signed_in_def)
qed (simp_all add: request_account_def)

lemma on_ret_reads:
  assumes "\<And>s x. fst (f s x) = s" "\<And>s e. fst (g s e) = s"
  shows "fst (on_ret c g f) = fst c"
  using assms by (cases "(c, g, f)" rule: on_ret.cases) auto

lemma HandlePeer_reads:
  assumes "Req_Method r = GET"
  shows "\<exists>w. HandlePeer env st fr r = Some (fst (request_account env st fr r), w)"
proof -
  let ?show = "\<lambda>st peer. on_ret (st, toPeerResponse peer) failed (\<lambda>st resp. writeJSONObject st (JPeer resp))"
  have "fst (handle_peer_lookup env st fr r) = fst (request_account env st fr r)"
    unfolding handle_peer_lookup_def account_lookups by (intro on_ret_reads) (auto intro!: on_ret_reads [where c = "(s, c)" for s c, simplified])
  moreover have "fst (?show st peer) = st" for st peer
    using on_ret_reads [of "\<lambda>st resp. writeJSONObject st (JPeer resp)" failed "(st, toPeerResponse peer)"] by simp
  ultimately show ?thesis using assms
    by (auto simp: HandlePeer_def split: prod.splits outcome.splits sum.splits) (metis prod.collapse)+
qed

lemma dispatch_reads:
  assumes "Req_Method r = GET"
  shows "\<exists>w. dispatch env st fr fr' r = Some (fst (request_account env st fr r), w)"
proof (cases "Req_Route r = PeerRoute")
  case True
  with HandlePeer_reads [OF assms] show ?thesis by (simp add: dispatch_def)
next
  case False
  have "fst (HandleKey env st fr fr' r) = fst (request_account env st fr r)"
    "fst (GetKeys env st fr fr' r) = fst (request_account env st fr r)"
    "fst (GetAllGroupsHandler env st fr r) = fst (request_account env st fr r)"
    "fst (GetGroupHandler env st fr r) = fst (request_account env st fr r)"
    "fst (GetAllRulesHandler env st fr r) = fst (request_account env st fr r)"
    "fst (GetRuleHandler env st fr r) = fst (request_account env st fr r)"
    "fst (GetUsers env st fr r) = fst (request_account env st fr r)"
    "fst (GetPeers env st fr r) = fst (request_account env st fr r)"
    using assms
    by (auto simp: HandleKey_def GetKeys_def GetAllGroupsHandler_def GetGroupHandler_def GetAllRulesHandler_def
        GetRuleHandler_def GetUsers_def GetPeers_def account_lookups Let_def
        intro!: on_ret_reads on_ret_reads [where c = "(s, c)" for s c, simplified])
  then show ?thesis using False assms
    by (cases "Req_Route r") (simp_all add: dispatch_def, (metis prod.collapse)+)
qed

lemma access_only_signs_in: "only_signed_in env fr st (fst (AccessControll_Handler env st fr r))"
proof (cases "ExtractClaimsFromRequestContext (Req_user r) (http_audience env)")
  case (Ret claims)
  then have "fst (AccessControll_Handler env st fr r) =
      st\<lparr>st_store := fst (IsUserAdmin (st_store st) (http_idp env) fr claims)\<rparr>"
    by (cases "IsUserAdmin (st_store st) (http_idp env) fr claims")
      (cases "snd (IsUserAdmin (st_store st) (http_idp env) fr claims)",
       auto simp: AccessControll_Handler_def with_store_def)
  moreover have "fst (IsUserAdmin (st_store st) (http_idp env) fr claims) =
      fst (GetAccountWithAuthorizationClaims (st_store st) (http_idp env) fr claims)"
    by (auto simp: IsUserAdmin_def split: prod.splits outcome.splits option.splits)
  ultimately show ?thesis by (auto simp: only_signed_in_def)
qed (simp_all add: AccessControll_Handler_def)

lemma get_after_access:
  assumes "Req_Method r = GET"
  shows "\<exists>st1 st' w. ac_then_handler env st frs r = Some (st', w) \<and>
    only_signed_in env (frs 0) st st1 \<and> only_signed_in env (frs 1) st1 st'"
proof -
  obtain st1 result where ac: "AccessControll_Handler env st (frs 0) r = (st1, result)" by fastforce
  then have st1: "only_signed_in env (frs 0) st st1" using access_only_signs_in [of env "frs 0" st r] by simp
  obtain w where "dispatch env st1 (frs 1) (frs 2) r = Some (fst (request_account env st1 (frs 1) r), w)"
    using dispatch_reads [OF assms] by blast
  with request_only_signs_in [of env "frs 1" st1 r] ac st1 show ?thesis
    by (cases result) (auto simp: ac_then_handler_def simp del: One_nat_def split: option.splits
        intro: only_signed_in_refl)
qed

text \<open>
  A \<open>GET\<close> request is always answered, and changes nothing but what signing its user in
  changes: once for the access control, once for the handler.
\<close>

theorem http_get_reads:
  assumes "Req_Method r = GET"
  shows "\<exists>st1 st' w. serve env st frs r = Some (st', w) \<and>
    only_signed_in env (frs 0) st st1 \<and> only_signed_in env (frs 1) st1 st'"
proof -
  have refl: "\<exists>st1. only_signed_in env (frs 0) st st1 \<and> only_signed_in env (frs 1) st1 st"
    by (intro exI [of _ st]) simp
  have m: "Req_Method r \<noteq> OPTIONS" using assms by simp
  have "Req_Method r' = GET" if "CheckJWTFromRequest env r = Ret (Inr r')" for r'
    by (rule checked_token [OF that m]) (use assms in auto)
  with get_after_access [of _ env st frs] refl show ?thesis
    unfolding serve_def respond_def by (auto split: outcome.split sum.split)
qed

theorem http_get_reads_witness:
  "\<exists>st1 st' w. serve ex_http ex_http_state ex_frs (ex_http_request GET) = Some (st', w) \<and>
     only_signed_in ex_http (ex_frs 0) ex_http_state st1 \<and> only_signed_in ex_http (ex_frs 1) st1 st'"
  by (rule http_get_reads) (simp add: ex_http_request_def)

text \<open>
  A request with the method \<open>OPTIONS\<close> that is not a CORS preflight request panics: the JWT
  middleware lets it pass without a token, and the access control asserts the type of the
  token it does not have.
\<close>

theorem options_panics:
  assumes "Req_Method r = OPTIONS" "Req_user r = None" "\<not> http_preflight env r"
    and "\<not> Jwt_EnableAuthOnOptions (http_middleware env)"
  shows "serve env st frs r = Some (st, Panic (ExplicitPanic ''interface conversion''))"
proof -
  have "OPTIONS \<in> route_methods (Req_Route r)" by (cases "Req_Route r") (simp_all add: route_methods_def)
  then show ?thesis using assms no_token_panics [OF assms(2), of env st frs]
    by (simp add: serve_def CheckJWTFromRequest_def)
qed

theorem options_panics_witness:
  "serve ex_http ex_http_state ex_frs (ex_http_request OPTIONS) =
     Some (ex_http_state, Panic (ExplicitPanic ''interface conversion''))"
  by (rule options_panics) (simp_all add: ex_http_request_def ex_http_def)

lemma group_loop_reference:
  assumes "\<And>pid resp. map_of cache pid = Some resp \<Longrightarrow>
    \<exists>p. lookup (Account_Peers a) pid = Some p \<and> resp = \<lparr>GroupPeer_Key = Peer_Key p, GroupPeer_Name = Peer_Name p\<rparr>"
  shows "group_peer_loop a cache pids =
    map (\<lambda>p. \<lparr>GroupPeer_Key = Peer_Key p, GroupPeer_Name = Peer_Name p\<rparr>) (List.map_filter (lookup (Account_Peers a)) pids)"
  using assms
proof (induction pids arbitrary: cache)
  case (Cons pid pids)
  show ?case
  proof (cases "map_of cache pid")
    case (Some resp)
    with Cons.prems obtain p where "lookup (Account_Peers a) pid = Some p"
      "resp = \<lparr>GroupPeer_Key = Peer_Key p, GroupPeer_Name = Peer_Name p\<rparr>" by blast
    with Some Cons.IH [OF Cons.prems] show ?thesis by (simp add: map_filter_simps)
  next
    case None
    have "group_peer_loop a ((pid, \<lparr>GroupPeer_Key = Peer_Key p, GroupPeer_Name = Peer_Name p\<rparr>) # cache) pids =
        map (\<lambda>p. \<lparr>GroupPeer_Key = Peer_Key p, GroupPeer_Name = Peer_Name p\<rparr>)
          (List.map_filter (lookup (Account_Peers a)) pids)" if "lookup (Account_Peers a) pid = Some p" for p
      using that Cons.prems by (intro Cons.IH) (auto split: if_splits)
    with None Cons.IH [OF Cons.prems] show ?thesis
      by (cases "lookup (Account_Peers a) pid") (simp_all add: map_filter_simps)
  qed
qed (simp add: map_filter_simps)

text \<open>
  The response for a group, built with a cache, lists the key and the name of every
  member that is a peer of the account, in the order of the group and with its repetitions, as
  the members the account manager lists for the group.
\<close>

theorem group_response_members:
  assumes "GetAccount s i = Ret a" "lookup (Account_Groups a) g = Some grp"
  shows "toGroupResponse a grp =
     \<lparr>GroupResp_ID = Group_ID grp, GroupResp_Name = Group_Name grp,
      GroupResp_Peers = (case GroupListPeers s i g of
         Ret ps \<Rightarrow> map (\<lambda>p. \<lparr>GroupPeer_Key = Peer_Key p, GroupPeer_Name = Peer_Name p\<rparr>) ps | _ \<Rightarrow> [])\<rparr>"
  using assms group_loop_reference [of "[]" a "Group_Peers grp"] by (simp add: toGroupResponse_def GroupListPeers_def)

theorem group_response_members_witness:
  "toGroupResponse ex_net_account \<lparr>Group_ID = ''g'', Group_Name = ''All'', Group_Peers = [''k'', ''l'']\<rparr> =
     \<lparr>GroupResp_ID = ''g'', GroupResp_Name = ''All'',
      GroupResp_Peers = [\<lparr>GroupPeer_Key = ''k'', GroupPeer_Name = ''n''\<rparr>, \<lparr>GroupPeer_Key = ''l'', GroupPeer_Name = ''n''\<rparr>]\<rparr>"
proof -
  obtain s where s: "SaveAccount (empty_store ''store.json'' NoFile []) ex_net_account = (s, Ret ())"
    using ex_net_stored by blast
  show ?thesis using group_response_members [OF ex_net_found(2) [OF s], of "''g''"] ex_net_found(2) [OF s]
    by (simp add: ex_net_maps GroupListPeers_def map_filter_simps ex_peer_at_def ex_peer_def)
qed

end
