(* ===== verification/Membership.thy ===== *)
theory Membership
  imports Http_Properties
begin

text \<open>
  Which peers an account has, and the serial of its network: no call of the account manager
  other than \<open>AddPeer\<close> and \<open>DeletePeer\<close> changes them, and those two change the serial whenever they
  change the peers. The first part is a contract, proved once for every predicate of accounts that
  depends on nothing else.
\<close>

definition member_keys :: "Account \<Rightarrow> string set" where
  "member_keys a = {k. lookup (Account_Peers a) k \<noteq> None}"

section \<open>Calls that keep the members\<close>

locale membership =
  fixes P :: "Account \<Rightarrow> bool"
  assumes same: "P a \<Longrightarrow> Account_Id b = Account_Id a \<Longrightarrow> member_keys b = member_keys a \<Longrightarrow>
      Account_Network b = Account_Network a \<Longrightarrow> P b"
    and new: "member_keys a = {} \<Longrightarrow> Network_Serial (Account_Network a) = 0 \<Longrightarrow> P a"
begin

lemma other_fields [simp]:
  "P (a\<lparr>Account_SetupKeys := ks\<rparr>) \<longleftrightarrow> P a" "P (a\<lparr>Account_Users := us\<rparr>) \<longleftrightarrow> P a" "P (a\<lparr>Account_Groups := gs\<rparr>) \<longleftrightarrow> P a"
  "P (a\<lparr>Account_Rules := rs\<rparr>) \<longleftrightarrow> P a" "P (a\<lparr>Account_Domain := d\<rparr>) \<longleftrightarrow> P a"
  "P (a\<lparr>Account_IsDomainPrimaryAccount := b, Account_Domain := d, Account_DomainCategory := c\<rparr>) \<longleftrightarrow> P a"
  by (auto intro: same simp: member_keys_def)

lemma new_account [simp]: "P (newAccountWithId fr i u d)" "P (NewAccount fr u d)"
  by (auto intro!: new simp: NewAccount_def newAccountWithId_def Let_def member_keys_def NewNetwork_def)

lemma all_group [simp]: "P (addAllGroup fr a) \<longleftrightarrow> P a"
  by (auto intro: same simp: addAllGroup_def Let_def member_keys_def)

lemma keys_op:
  assumes "all_accounts P s"
  shows "all_accounts P (fst (AddSetupKey s now uuid i n t e))"
    and "all_accounts P (fst (RevokeSetupKey s i k))" and "all_accounts P (fst (RenameSetupKey s i k n))"
  using assms
  by (auto simp: AddSetupKey_def RevokeSetupKey_def RenameSetupKey_def Let_def then_return_state
      split: outcome.splits option.splits intro!: all_accounts_save dest: all_accountsD)

lemma groups_op:
  assumes "all_accounts P s"
  shows "all_accounts P (fst (SaveGroup s i g))" and "all_accounts P (fst (DeleteGroup s i gid))"
    and "all_accounts P (fst (GroupAddPeer s i gid k))" and "all_accounts P (fst (GroupDeletePeer s i gid k))"
    and "all_accounts P (fst (SaveRule s i r))" and "all_accounts P (fst (DeleteRule s i rid))"
  using assms
  by (auto simp: SaveGroup_def DeleteGroup_def GroupAddPeer_def GroupDeletePeer_def SaveRule_def DeleteRule_def
      split: outcome.splits option.splits intro!: all_accounts_save dest: all_accountsD)

lemma create_op: "all_accounts P s \<Longrightarrow> all_accounts P (fst (createAccount s fr i u d))"
  by (auto simp: createAccount_def Let_def then_return_state intro!: all_accounts_save)

text \<open>The sign-ins: what they return satisfies the predicate too.\<close>

definition keeps :: "FileStore \<times> Account outcome \<Rightarrow> bool" where
  "keeps c \<longleftrightarrow> all_accounts P (fst c) \<and> (\<forall>a. snd c = Ret a \<longrightarrow> P a)"

lemma keeps_simps [simp]:
  "keeps (s, Ret a) \<longleftrightarrow> all_accounts P s \<and> P a" "keeps (s, Err e) \<longleftrightarrow> all_accounts P s" "keeps (s, Panic p) \<longleftrightarrow> all_accounts P s"
  by (simp_all add: keeps_def)

lemma keeps_save: "all_accounts P s \<Longrightarrow> P a \<Longrightarrow> keeps (then_return (SaveAccount s a) g a)"
  by (auto simp: keeps_def then_return_state all_accounts_save) (metis prod.collapse then_return_Ret)

lemma keeps_bind:
  "keeps c \<Longrightarrow> (\<And>s a. all_accounts P s \<Longrightarrow> P a \<Longrightarrow> keeps (f s a)) \<Longrightarrow>
   keeps (case c of (s, Err e) \<Rightarrow> (s, Err (g e)) | (s, Panic p) \<Rightarrow> (s, Panic p) | (s, Ret a) \<Rightarrow> f s a)"
  by (auto split: prod.splits outcome.splits)

lemma keeps_finish: "all_accounts P s \<Longrightarrow> P a \<Longrightarrow> keeps (finish_idp s idp u a)"
  by (auto simp: finish_idp_def split: outcome.splits)

lemma keeps_user: "all_accounts P s \<Longrightarrow> keeps (GetOrCreateAccountByUser s fr u d)"
  unfolding GetOrCreateAccountByUser_def Let_def
  by (intro keeps_bind [where g = "\<lambda>e. e"])
    (auto simp: find_or_new_account_def Let_def split: outcome.splits option.splits
      intro!: keeps_save dest: all_accounts_lookups)

lemma keeps_by_id: "all_accounts P s \<Longrightarrow> keeps (s, GetAccountById s i)"
  by (auto simp: keeps_def GetAccountById_def split: outcome.splits dest: all_accountsD)

lemma keeps_user_or_id: "all_accounts P s \<Longrightarrow> keeps (GetAccountByUserOrAccountId s idp fr u i d)"
  unfolding GetAccountByUserOrAccountId_def finish_idp_def [symmetric]
  by (simp only: split: if_split) (intro conjI impI keeps_by_id keeps_bind keeps_user keeps_finish; simp)

lemma keeps_domain: "all_accounts P s \<Longrightarrow> P a \<Longrightarrow> keeps (updateAccountDomainAttributes s a c b)"
  unfolding updateAccountDomainAttributes_def Let_def by (intro keeps_save) simp_all

lemma keeps_new_user: "all_accounts P s \<Longrightarrow> (\<And>d. da = Some d \<Longrightarrow> P d) \<Longrightarrow> keeps (handleNewUserAccount s idp fr da c)"
  unfolding handleNewUserAccount_def Let_def
  by (intro keeps_bind [where g = "\<lambda>e. e"] keeps_finish)
    (auto split: option.splits intro!: keeps_save keeps_domain)

lemma keeps_existing: "all_accounts P s \<Longrightarrow> P a \<Longrightarrow> keeps (handleExistingUserAccount s idp a da c)"
  unfolding handleExistingUserAccount_def Let_def
  by (intro keeps_bind [where g = "\<lambda>e. e"] keeps_domain keeps_finish)

lemma keeps_private: "all_accounts P s \<Longrightarrow> keeps (account_by_private_domain s idp fr c)"
  unfolding account_by_private_domain_def Let_def
  by (auto split: outcome.splits intro!: keeps_existing keeps_new_user dest: all_accounts_lookups)

lemma keeps_claims: "all_accounts P s \<Longrightarrow> keeps (GetAccountWithAuthorizationClaims s idp fr c)"
  unfolding GetAccountWithAuthorizationClaims_def
  by (auto split: outcome.splits intro!: keeps_user_or_id keeps_private simp: GetAccountById_def dest: all_accountsD)

text \<open>The status, the metadata and the name of a peer are written to a peer that is there.\<close>

lemma save_peer_op:
  assumes "all_accounts P s" "\<And>a. GetAccount s i = Ret a \<Longrightarrow> lookup (Account_Peers a) (Peer_Key p) \<noteq> None"
  shows "all_accounts P (fst (SavePeer s i p))"
proof (cases "GetAccount s i")
  case (Ret a)
  have a: "P a" "Account_Id a = i" using assms(1) Ret all_accountsD all_accounts_id by auto
  have "P (b\<lparr>Account_Peers := ps\<rparr>)" if "P b" "Account_Peers b = Account_Peers a" "assign (Account_Peers a) (Peer_Key p) p = Some ps" for b ps
    using assms(2) [OF Ret] lookup_assign [OF that(3)] that(2) by (intro same [OF that(1)]) (auto simp: member_keys_def)
  then show ?thesis using Ret a assms(1)
    by (auto simp: SavePeer_def Let_def all_accounts_persist split: outcome.splits option.splits intro!: all_accounts_set)
qed (use assms in \<open>auto simp: SavePeer_def\<close>)

lemma peer_entry: "P a \<Longrightarrow> P (a\<lparr>Account_Peers := map_entry (Account_Peers a) k f\<rparr>)"
  by (erule same) (auto simp: member_keys_def)

lemma write_status_op: "all_accounts P s \<Longrightarrow> all_accounts P (write_status s k st)"
  by (auto simp: write_status_def split: option.splits intro!: all_accounts_entry peer_entry)

lemma peer_op:
  assumes "good_store s" "all_accounts P s"
  shows "all_accounts P (fst (MarkPeerConnected s now k c))" and "all_accounts P (fst (UpdatePeerMeta s k m))"
    and "GetAccount s i = Ret a \<Longrightarrow> lookup (Account_Peers a) k = Some q \<Longrightarrow> PeerKeyId2AccountId s k = Some i \<Longrightarrow>
      all_accounts P (fst (RenamePeer s i k n))"
proof -
  have found: "PeerKeyId2AccountId s k = Some (Account_Id b) \<and> GetAccount s (Account_Id b) = Ret b \<and> lookup (Account_Peers b) k = Some p \<and> Peer_Key p = k"
    if p: "Store_GetPeer s k = Ret p" and b: "GetPeerAccount s k = Ret b" for p b
  proof -
    obtain i where i: "PeerKeyId2AccountId s k = Some i" "GetAccount s i = Ret b" "lookup (Account_Peers b) k = Some p"
      by (rule Store_GetPeer_Ret [OF p]) (use b in auto)
    then show ?thesis using all_accounts_id [OF assms(1)] keyed_lookup [OF good_keyed(3) [OF goodD(1) [OF assms(1) i(2)]] i(3)] by auto
  qed
  have marked: "lookup (Account_Peers a) k \<noteq> None"
    if "PeerKeyId2AccountId s k = Some i" "GetAccount s i = Ret b" "lookup (Account_Peers b) k = Some p"
      "GetAccount (write_status s k st) i = Ret a" for a b i p st
    using that by (auto simp: write_status_def GetAccount_def split: option.splits)
  show "all_accounts P (fst (MarkPeerConnected s now k c))"
    using assms(2) found marked
    by (auto simp: MarkPeerConnected_def Let_def split: outcome.splits option.splits intro!: save_peer_op write_status_op)
  show "all_accounts P (fst (UpdatePeerMeta s k m))"
    using assms(2) found by (auto simp: UpdatePeerMeta_def Let_def split: outcome.splits intro!: save_peer_op)
  show "all_accounts P (fst (RenamePeer s i k n))"
    if "GetAccount s i = Ret a" "lookup (Account_Peers a) k = Some q" "PeerKeyId2AccountId s k = Some i"
    using assms(2) that keyed_lookup [OF good_keyed(3) [OF goodD(1) [OF assms(1) that(1)]] that(2)]
    by (auto simp: RenamePeer_def Store_GetPeer_def Let_def then_return_state split: outcome.splits intro!: save_peer_op)
qed

lemma admin:
  assumes "admin_step s s'" "good_store s" "all_accounts P s"
  shows "all_accounts P s'"
  using assms
proof (induction rule: admin_step.induct)
  case (AddAccount s fr i u d s' r4)
  then show ?case using create_op [of s fr i u d] by (simp add: AddAccount_def)
next
  case (ByUser s idp fr u i d s' r5)
  then show ?case using keeps_user_or_id [of s idp fr u i d] by (simp add: keeps_def)
next
  case (ByClaims s idp fr c s' r6)
  then show ?case using keeps_claims [of s idp fr c] by (simp add: keeps_def)
qed (metis fst_conv keys_op groups_op peer_op)+

end

section \<open>Members and serials of the store\<close>

definition members :: "FileStore \<Rightarrow> string \<Rightarrow> string set" where
  "members t i = (case GetAccount t i of Ret a \<Rightarrow> member_keys a | _ \<Rightarrow> {})"

definition serial_of :: "FileStore \<Rightarrow> string \<Rightarrow> 64 word" where
  "serial_of t i = (case GetAccount t i of Ret a \<Rightarrow> Network_Serial (Account_Network a) | _ \<Rightarrow> 0)"

text \<open>An account with these members and this serial, or a new one.\<close>

definition same_members :: "(string \<Rightarrow> string set) \<Rightarrow> (string \<Rightarrow> 64 word) \<Rightarrow> Account \<Rightarrow> bool" where
  "same_members N n a \<longleftrightarrow> member_keys a = N (Account_Id a) \<and> Network_Serial (Account_Network a) = n (Account_Id a) \<or>
     member_keys a = {} \<and> Network_Serial (Account_Network a) = 0"

interpretation ms: membership "same_members N n" for N n
  by unfold_locales (auto simp: same_members_def)

lemma admin_members:
  assumes "admin_step s s'" "good_store s"
  shows "members s' i = members s i \<and> serial_of s' i = serial_of s i \<or> members s' i = {} \<and> serial_of s' i = 0"
proof -
  have "all_accounts (same_members (members s) (serial_of s)) s"
    using assms(2) by (auto simp: all_accounts_def same_members_def members_def serial_of_def)
  from ms.admin [OF assms this] have "all_accounts (same_members (members s) (serial_of s)) s'" .
  then show ?thesis
    by (cases "GetAccount s' i") (auto simp: all_accounts_def same_members_def members_def serial_of_def)
qed

text \<open>
  Identifiers of accounts are never used twice, so serials do not go back; an account with peers has a
  positive serial. Then such a call changes neither the members nor the serials.
\<close>

lemma admin_keeps:
  assumes "admin_step s s'" "good_store s" "serial_of s i \<le> serial_of s' i" "members s i \<noteq> {} \<longrightarrow> 0 < serial_of s i"
  shows "members s' i = members s i" "serial_of s' i = serial_of s i"
  using admin_members [OF assms(1,2), of i] assms(3,4) by auto

lemma AddPeer_members:
  assumes "good_store s" "AddPeer s fr key u peer = Some (s', Ret p)"
  obtains i where "members s' = (members s)(i := insert (Peer_Key p) (members s i))"
    "serial_of s' = (serial_of s)(i := serial_of s i + 1)"
proof -
  obtain a sk gid where reg: "find_registration s (fr_now fr) (ToUpper key) u = Ret (a, sk)"
    and ne: "Account_Peers a \<noteq> NilMap" and save: "SaveAccount s (joined (fr_now fr) a sk gid p) = (s', Ret ())"
    using AddPeer_Ret [OF assms] by metis
  let ?a = "joined (fr_now fr) a sk gid p"
  note fields = joined_fields [OF ne, of "fr_now fr" sk gid p]
  have a: "GetAccount s (Account_Id a) = Ret a" by (rule find_registration_Ret(1) [OF assms(1) reg])
  have get: "GetAccount s' j = (if j = Account_Id a then Ret ?a else GetAccount s j)" for j
    using GetAccount_save [OF save SaveAccount_Ret(7) [OF save]] by (simp add: fields)
  have "member_keys ?a = insert (Peer_Key p) (member_keys a)" by (auto simp: member_keys_def fields)
  then show ?thesis
    by (intro that [of "Account_Id a"]) (auto simp: fun_eq_iff members_def serial_of_def get a fields IncSerial_def)
qed

lemma SaveAccount_Err_fault:
  assumes "SaveAccount s a = (s', Err e)" "Accounts s \<noteq> NilMap"
  shows "write_faults s \<noteq> []"
  using assms
proof (rule SaveAccount_cases)
  fix t q
  assume tq: "go_for (index_rule a) (vals (Account_Rules a))
       (index_peers a (index_keys a (s\<lparr>Accounts := GoMap (AList.update (Account_Id a) a (entries (Accounts s)))\<rparr>))) = (t, q)"
    and ok: "q = Ret () \<Longrightarrow> persist (index_domain a (index_users a t)) = (s', Err e)"
    and bad: "q \<noteq> Ret () \<Longrightarrow> s' = t \<and> Err e = q"
  have w: "write_faults (index_domain a (index_users a t)) = write_faults s"
    using forget_rules_fields(8) [OF index_rules_frame [OF tq]] by (simp add: index_closed index_domain_def)
  have "q \<noteq> Err e"
  proof (cases "rules_closed a")
    case True
    then show ?thesis using index_rules_ok tq unfolding rules_closed_def by (metis outcome.distinct(1) snd_conv)
  next
    case False
    then show ?thesis using index_rules_panic tq unfolding rules_closed_def by (metis outcome.distinct(5) snd_conv)
  qed
  then have "q = Ret ()" using bad by blast
  then show ?thesis using ok w by (auto simp: persist.simps)
qed

lemma AddPeer_fails:
  assumes "good_store s" "AddPeer s fr key u peer = Some (s', Err e)" "write_faults s = []"
  shows "s' = s"
proof -
  have "Accounts s \<noteq> NilMap" using assms(1) by (simp add: all_accounts_def)
  then have "join_account s now a sk gid p \<noteq> (s', Err e')" for now a sk gid p e'
    using SaveAccount_Err_fault assms(3) by (auto simp: join_account_def Let_def split: option.splits)
  then show ?thesis using assms(2)
    by (auto simp: AddPeer_def Let_def split: outcome.splits option.splits prod.splits elim!: then_return.elims)
qed

text \<open>A deletion in a store whose files can be written succeeds, does nothing, or blocks.\<close>

lemma notify_peers_no_fail: "notify_peers serial peers ps m = Some (m', r) \<Longrightarrow> pum_ok m \<Longrightarrow> r = Ret ()"
proof (induction ps arbitrary: m)
  case (Cons p ps)
  let ?u = "peers_update serial (filter (\<lambda>remote. Peer_Key p \<noteq> Peer_Key remote) peers)"
  obtain m1 q where m1: "SendUpdate m (Peer_Key p) ?u = Some (m1, q)"
    using Cons.prems(1) by (auto simp: Let_def split: option.splits)
  note ok = pum_ok_send [OF Cons.prems(2) m1]
  then have "notify_peers serial peers ps m1 = Some (m', r)" using Cons.prems(1) m1 by (simp add: Let_def)
  then show ?case using Cons.IH ok(1) by blast
qed simp

lemma DeletePeer_calm:
  assumes "good_store s" "pum_ok m" "write_faults s = []" "\<And>a. GetAccount s i = Ret a \<Longrightarrow> rules_closed a"
    and "DeletePeer s m i k = Some ((s', m'), r)"
  shows "s' = s \<and> m' = m \<or> (\<exists>p. r = Ret p)"
proof (cases "GetAccount s i")
  case (Ret a)
  show ?thesis
  proof (cases "lookup (Account_Peers a) k")
    case None
    with Ret show ?thesis using assms(5) by (auto simp: DeletePeer_def Store_DeletePeer_def)
  next
    case (Some p)
    let ?b = "a\<lparr>Account_Peers := map_delete (Account_Peers a) k, Account_Groups := cleanup_map k (Account_Groups a)\<rparr>"
    let ?a = "?b\<lparr>Account_Network := IncSerial (Account_Network ?b)\<rparr>"
    obtain s1 s2 where d: "Store_DeletePeer s i k = (s1, Ret p)" "GetAccount s1 i = Ret ?b" "SaveAccount s1 ?a = (s2, Ret ())"
      "GetAccount s2 i = Ret ?a"
      by (rule DeletePeer_saved [OF assms(1) Ret Some assms(4) [OF Ret] assms(3)])
    have sent: "SendUpdate m k u = Some (m1, q) \<Longrightarrow> q = Ret () \<and> pum_ok m1" for u m1 q
      using pum_ok_send [OF assms(2)] by blast
    have told: "notify_deleted s2 m1 i k n = Some (m2, q) \<Longrightarrow> pum_ok m1 \<Longrightarrow> q = Ret ()" for m1 m2 n q
      using notify_peers_no_fail [of n "vals (Account_Peers ?a)" "vals (Account_Peers ?a)" m1] d(4)
      by (auto simp: notify_deleted_def GetAccountPeers_def split: option.splits prod.splits outcome.splits)
    let ?n = "CurrentSerial (Account_Network ?a)"
    obtain m1 where m1: "SendUpdate m k (empty_update ?n) = Some (m1, Ret ())" "pum_ok m1"
    proof (cases "SendUpdate m k (empty_update ?n)")
      case None
      then show ?thesis using assms(5) Ret d by (simp add: DeletePeer_def Let_def)
    next
      case (Some c)
      then show ?thesis using sent [of "empty_update ?n" "fst c" "snd c"] by (cases c) (auto intro: that)
    qed
    have "\<exists>p. r = Ret p"
    proof (cases "notify_deleted s2 m1 i k ?n")
      case None
      then show ?thesis using assms(5) Ret d m1 by (simp add: DeletePeer_def Let_def)
    next
      case (Some c)
      then have "notify_deleted s2 m1 i k ?n = Some (fst c, Ret ())" using told [of m1 ?n "fst c" "snd c"] m1(2) by (cases c) auto
      then have "Ret p = r" using assms(5) Ret d m1 by (simp add: DeletePeer_def Let_def)
      then show ?thesis by blast
    qed
    then show ?thesis ..
  qed
qed (use assms(5) in \<open>auto simp: DeletePeer_def\<close>)

lemma DeletePeer_members:
  assumes "good_store s" "DeletePeer s m i k = Some ((s', m'), Ret p)"
  shows "k \<in> members s i" "members s' = (members s)(i := members s i - {k})" "serial_of s' = (serial_of s)(i := serial_of s i + 1)"
proof -
  obtain a s1 a' where a: "GetAccount s i = Ret a" "lookup (Account_Peers a) k = Some p"
    "a' = a\<lparr>Account_Peers := map_delete (Account_Peers a) k, Account_Groups := cleanup_map k (Account_Groups a),
            Account_Network := IncSerial (Account_Network a)\<rparr>" "SaveAccount s1 a' = (s', Ret ())"
    by (rule DeletePeer_Ret [OF assms])
  have id: "Account_Id a' = i" using all_accounts_id [OF assms(1) a(1)] by (simp add: a(3))
  have own: "GetAccount s' i = Ret a'" using fs.get_saved [OF SaveAccount_Ret(7) [OF a(4)] a(4)] id by simp
  have "ids_ok s" using assms(1) by (simp add: all_accounts_def)
  then have others: "GetAccount s' j = GetAccount s j" if "j \<noteq> i" for j
    using touches_DeletePeer [OF _ assms(2)] that by (simp add: touches_only_def)
  show "k \<in> members s i" using a by (simp add: members_def member_keys_def)
  have "member_keys a' = member_keys a - {k}" by (auto simp: member_keys_def a(3))
  then have i: "members s' i = members s i - {k}" "serial_of s' i = serial_of s i + 1"
    using own a(1) by (simp_all add: members_def serial_of_def a(3) IncSerial_def)
  have j: "members s' j = members s j" "serial_of s' j = serial_of s j" if "j \<noteq> i" for j
    using others [OF that] by (simp_all add: members_def serial_of_def)
  show "members s' = (members s)(i := members s i - {k})" "serial_of s' = (serial_of s)(i := serial_of s i + 1)"
    using i j by (simp_all add: fun_eq_iff)
qed

end
