(* ===== verification/System_Convergence.thy ===== *)
theory System_Convergence
  imports System_Run Membership
begin

text \<open>
  The engines of an account converge. As long as the rules of every account join all its peers, files
  can be written and peers stay in their account, whatever is added and deleted and however the messages
  are interleaved: an engine that reads a stream that missed nothing has, once nothing is under
  way any more, a connection to every other peer of its account and to nobody else.
\<close>

section \<open>News\<close>

text \<open>
  A network map as the engine sees it, its serial and its peers, wherever it is: in force in the engine,
  on the wire, in a channel, or still to be told by a registration.
\<close>

type_synonym news = "64 word \<times> string set"

definition view :: "Engine \<Rightarrow> news" where
  "view e = (eng_serial e, set (Engine_GetPeers e))"

definition news_of :: "SyncResponse \<Rightarrow> news set" where
  "news_of u = (case Sync_NetworkMap u of None \<Rightarrow> {} | Some nm \<Rightarrow> {(Map_Serial nm, map_peers nm)})"

definition wire_news :: "Env \<Rightarrow> Mgmt_Server \<Rightarrow> Mgm_Env \<Rightarrow> string \<Rightarrow> EncryptedMessage list \<Rightarrow> news set" where
  "wire_news env srv cenv x msgs = (\<Union>msg \<in> set msgs.
     case DecryptMessage (mc_box cenv) (mc_nonce cenv) (mc_unmarshal_sync cenv) (public_key (env_box env) (srv_wgKey srv)) x (Enc_Body msg) of
       Ret u \<Rightarrow> news_of u | _ \<Rightarrow> {})"

definition chan_news :: "PeersUpdateManager \<Rightarrow> nat \<Rightarrow> news set" where
  "chan_news m c = (\<Union>u \<in> set (chan_buf (channels m c)). news_of (Update u))"

fun stream_news :: "PeersUpdateManager \<Rightarrow> stream \<Rightarrow> news set" where
  "stream_news m (Reading k c) = chan_news m c"
| "stream_news m _ = {}"

definition tell_news :: "string \<Rightarrow> Peer \<Rightarrow> Peer list \<Rightarrow> 64 word \<Rightarrow> news" where
  "tell_news k p ps n = (n, insert (Peer_Key p) (Peer_Key ` set ps - {k}))"

fun told_by :: "string \<Rightarrow> task option \<Rightarrow> news set" where
  "told_by k (Some (Telling p ps n rs)) = (if k \<in> Peer_Key ` set rs then {tell_news k p ps n} else {})"
| "told_by k _ = {}"

definition task_news :: "string \<Rightarrow> (nat \<Rightarrow> task option) \<Rightarrow> news set" where
  "task_news k tasks = (\<Union>j. told_by k (tasks j))"

text \<open>What belongs to the stream a client reads, if it reads one.\<close>

fun current_of :: "'a \<Rightarrow> (nat \<Rightarrow> 'a) \<Rightarrow> nat option \<Rightarrow> 'a" where
  "current_of d f None = d"
| "current_of d f (Some n) = f n"

lemma current_of_other [simp]: "c \<noteq> Some n \<Longrightarrow> current_of d (f(n := v)) c = current_of d f c"
  by (cases c) auto

abbreviation stream_of :: "System \<Rightarrow> string \<Rightarrow> stream" where
  "stream_of s x \<equiv> current_of NoStream (sys_streams s) (sys_current s x)"

abbreviation wire_of :: "System \<Rightarrow> string \<Rightarrow> EncryptedMessage list" where
  "wire_of s x \<equiv> current_of [] (sys_wire s) (sys_current s x)"

definition engine_news :: "Engine option \<Rightarrow> news set" where
  "engine_news e = view ` set_option e"

definition direct_news :: "Env \<Rightarrow> Mgmt_Server \<Rightarrow> Mgm_Env \<Rightarrow> System \<Rightarrow> string \<Rightarrow> news set" where
  "direct_news env srv cenv s x =
     engine_news (sys_engine s x) \<union> wire_news env srv cenv x (wire_of s x) \<union> stream_news (sys_pum s) (stream_of s x)"

text \<open>
  For a peer \<open>k\<close> of an account with the members \<open>N\<close> and the serial \<open>n\<close>: news is timely if it is not from the
  future and what is as new as the account is right; news is settled if its newest part is right.
\<close>

definition timely :: "64 word \<Rightarrow> string set \<Rightarrow> string \<Rightarrow> news set \<Rightarrow> bool" where
  "timely n N k S \<longleftrightarrow> (\<forall>m P. (m, P) \<in> S \<longrightarrow> m \<le> n \<and> (m = n \<longrightarrow> k \<in> N \<longrightarrow> P = N - {k}))"

definition settled :: "string set \<Rightarrow> news set \<Rightarrow> bool" where
  "settled V S \<longleftrightarrow> (\<exists>m. (m, V) \<in> S \<and> (\<forall>m' P'. (m', P') \<in> S \<longrightarrow> m \<le> m' \<longrightarrow> P' = V))"

lemma timely_subset: "timely n N k S \<Longrightarrow> S' \<subseteq> S \<Longrightarrow> timely n N k S'"
  by (auto simp: timely_def)

lemma timely_Un: "timely n N k (S \<union> S') \<longleftrightarrow> timely n N k S \<and> timely n N k S'"
  by (auto simp: timely_def)

lemma timely_bump:
  assumes "timely n N k S" "n < n'"
  shows "timely n' N' k S"
  unfolding timely_def
proof (intro allI impI conjI)
  fix m P assume "(m, P) \<in> S"
  then have "m < n'" using assms unfolding timely_def by (meson order.strict_trans1)
  then show "m \<le> n'" "m = n' \<Longrightarrow> P = N' - {k}" by simp_all
qed

lemma timely_settled:
  assumes "timely n N k S" "(n, N - {k}) \<in> S" "k \<in> N"
  shows "settled (N - {k}) S"
proof -
  have "P = N - {k}" if "(m, P) \<in> S" "n \<le> m" for m P
    using assms(1,3) that unfolding timely_def by (meson order.antisym)
  with assms(2) show ?thesis unfolding settled_def by blast
qed

text \<open>Reading a message or ignoring an old one loses no news that counts.\<close>

lemma settled_shrink:
  assumes "settled V S" "S' \<subseteq> S" "\<And>m P. (m, P) \<in> S \<Longrightarrow> \<exists>m' P'. (m', P') \<in> S' \<and> m \<le> m'"
  shows "settled V S'"
proof -
  obtain m where m: "(m, V) \<in> S" "\<And>m' P'. (m', P') \<in> S \<Longrightarrow> m \<le> m' \<Longrightarrow> P' = V" using assms(1) unfolding settled_def by blast
  obtain m' P' where m': "(m', P') \<in> S'" "m \<le> m'" using assms(3) [OF m(1)] by blast
  have "P' = V" using m(2) m' assms(2) by blast
  moreover have "Q = V" if "(l, Q) \<in> S'" "m' \<le> l" for l Q
    using m(2) that m'(2) assms(2) order_trans by blast
  ultimately show ?thesis using m'(1) unfolding settled_def by blast
qed

lemma settled_single: "settled V {v} \<Longrightarrow> snd v = V"
  unfolding settled_def by (metis singletonD snd_conv)

section \<open>The engine\<close>

lemma eng_ok_urls [simp]: "eng_ok (e\<lparr>eng_TURNs := ts\<rparr>) \<longleftrightarrow> eng_ok e" "eng_ok (e\<lparr>eng_STUNs := ss\<rparr>) \<longleftrightarrow> eng_ok e"
  by (simp_all add: eng_ok_def)

lemma view_urls [simp]: "view (e\<lparr>eng_TURNs := ts\<rparr>) = view e" "view (e\<lparr>eng_STUNs := ss\<rparr>) = view e"
  by (simp_all add: view_def Engine_GetPeers_def)

lemma handleSync_view:
  assumes "eng_ok e" "urls_parse env" "\<And>nm. Sync_NetworkMap u = Some nm \<Longrightarrow> map_valid env nm"
  obtains e' where "handleSync env u e = (e', Ret ())" "eng_ok e'"
    "view e' = view e \<and> (\<forall>(m, P) \<in> news_of u. m < fst (view e)) \<or> view e' \<in> news_of u \<and> fst (view e) \<le> fst (view e')"
proof (cases "\<exists>nm. Sync_NetworkMap u = Some nm \<and> eng_serial e \<le> Map_Serial nm")
  case True
  then obtain nm where nm: "Sync_NetworkMap u = Some nm" "eng_serial e \<le> Map_Serial nm" by blast
  from handleSync_applied [OF assms(1,2) nm(1) assms(3) [OF nm(1)] nm(2)] nm show ?thesis
    by (auto intro!: that simp: news_of_def view_def)
next
  case False
  obtain e1 where e1: "(case Sync_WiretrusteeConfig u of None \<Rightarrow> (e, Ret ())
      | Some config \<Rightarrow> on_ret (updateTURNs env (Wt_Turns config) e) (\<lambda>e err. (e, Err err))
          (\<lambda>e u. updateSTUNs env (Wt_Stuns config) e)) = (e1, Ret ())" "eng_ok e1" "view e1 = view e"
  proof (cases "Sync_WiretrusteeConfig u")
    case None
    with assms(1) show ?thesis by (intro that [of e]) simp_all
  next
    case (Some config)
    obtain ts where ts: "updateTURNs env (Wt_Turns config) e = (e\<lparr>eng_TURNs := ts\<rparr>, Ret ())"
      using updateTURNs_Ret [OF assms(2)] by blast
    obtain ss where ss: "updateSTUNs env (Wt_Stuns config) (e\<lparr>eng_TURNs := ts\<rparr>) = (e\<lparr>eng_TURNs := ts, eng_STUNs := ss\<rparr>, Ret ())"
      using updateSTUNs_Ret [OF assms(2)] by blast
    show ?thesis by (rule that [of "e\<lparr>eng_TURNs := ts, eng_STUNs := ss\<rparr>"]) (use Some ts ss assms(1) in simp_all)
  qed
  have old: "Map_Serial nm < eng_serial e1" if "Sync_NetworkMap u = Some nm" for nm
    using False that e1(3) by (auto simp: view_def)
  have "handleSync env u e = (e1, Ret ())"
    using e1(1) updateNetworkMap_outdated [OF old] by (cases "Sync_NetworkMap u") (simp_all add: handleSync_def)
  moreover have "\<forall>(m, P) \<in> news_of u. m < fst (view e)"
    using old e1(3) by (auto simp: news_of_def view_def split: option.splits)
  ultimately show ?thesis using e1(2,3) by (intro that [of e1]) simp_all
qed

section \<open>What a client knows\<close>

text \<open>
  The invariant of one client with the key \<open>k\<close>, in an account with the members \<open>N\<close> and the serial \<open>n\<close>:
  \<open>D\<close> is the news in the engine and on its way there, \<open>T\<close> what registrations will tell it, \<open>pend\<close> says
  whether one of them has yet to look whom it must tell, \<open>st\<close> is the stream of the client, \<open>miss\<close> whether
  the stream came too late and \<open>reg\<close> the channel the service has for \<open>k\<close>.
\<close>

definition client_ok ::
  "64 word \<Rightarrow> string set \<Rightarrow> string \<Rightarrow> news set \<Rightarrow> news set \<Rightarrow> bool \<Rightarrow> stream \<Rightarrow> bool \<Rightarrow> nat option \<Rightarrow> bool" where
  "client_ok n N k D T pend st miss reg \<longleftrightarrow> timely n N k (D \<union> T) \<and>
     (case st of
        Greeted l m \<Rightarrow> 0 < m \<and> m \<le> n \<and> (m = n \<longrightarrow> k \<in> N \<and> (n, N - {k}) \<in> D)
      | Reading l c \<Rightarrow> \<not> miss \<and> reg = Some c \<longrightarrow> k \<in> N \<and> (settled (N - {k}) (D \<union> T) \<or> pend)
      | _ \<Rightarrow> True)"

lemma client_ok_pend: "client_ok n N k D T pend st miss reg \<Longrightarrow> (k \<in> N \<Longrightarrow> pend \<longrightarrow> pend') \<Longrightarrow> client_ok n N k D T pend' st miss reg"
  by (auto simp: client_ok_def split: stream.splits)

text \<open>News is dropped with the stream; a channel is taken away.\<close>

lemma client_ok_less:
  assumes "client_ok n N k D T pend st miss reg" "D' \<subseteq> D" "\<And>l c. st' \<noteq> Reading l c" "\<And>l m. st' \<noteq> Greeted l m"
  shows "client_ok n N k D' T pend' st' miss' reg'"
proof -
  have "timely n N k (D' \<union> T)" using assms(1,2) by (auto simp: client_ok_def intro: timely_subset)
  with assms(3,4) show ?thesis by (cases st') (auto simp: client_ok_def)
qed

lemma client_ok_reg:
  "client_ok n N k D T pend st miss reg \<Longrightarrow> (\<And>l c. st = Reading l c \<Longrightarrow> reg' = Some c \<Longrightarrow> reg = Some c) \<Longrightarrow> client_ok n N k D T pend st miss reg'"
  by (auto simp: client_ok_def split: stream.splits)

text \<open>A peer \<open>p\<close> joins the account: the registration has yet to look, unless it is the peer itself.\<close>

lemma client_ok_add:
  assumes "client_ok n N k D T pend st miss reg" "n < n'" "pend \<or> p \<noteq> k \<Longrightarrow> pend'"
  shows "client_ok n' (insert p N) k D T pend' st miss reg"
proof -
  have "timely n' (insert p N) k (D \<union> T)" using assms(1,2) by (auto simp: client_ok_def intro: timely_bump)
  moreover have "insert p N - {k} = N - {k}" if "p = k" using that by auto
  ultimately show ?thesis using assms by (cases st; cases "p = k") (auto simp: client_ok_def)
qed

text \<open>The newest news reaches a client.\<close>

lemma client_ok_news:
  assumes "client_ok n N k D T pend st miss reg" "k \<in> N" "(n, N - {k}) \<in> D' \<union> T'" "D \<subseteq> D'"
    "D' \<union> T' \<subseteq> insert (n, N - {k}) (D \<union> T)"
  shows "client_ok n N k D' T' pend' st miss reg"
proof -
  have "timely n N k (insert (n, N - {k}) (D \<union> T))" using assms(1) by (auto simp: client_ok_def timely_def)
  then have t: "timely n N k (D' \<union> T')" using assms(5) timely_subset by blast
  moreover have "settled (N - {k}) (D' \<union> T')" using timely_settled [OF t assms(3,2)] .
  ultimately show ?thesis using assms(1,2,4) by (cases st) (auto simp: client_ok_def)
qed

lemma client_ok_bump:
  assumes "client_ok n N k D T pend st miss reg" "n < n'" "timely n' N' k D'" "reg' = None \<or> reg' = reg"
    and "\<And>l c. st = Reading l c \<Longrightarrow> reg' = Some c \<Longrightarrow> k \<in> N \<Longrightarrow> k \<in> N' \<and> (n', N' - {k}) \<in> D'"
  shows "client_ok n' N' k D' T pend' st miss reg'"
proof -
  have "timely n' N' k T" using assms(1,2) timely_bump by (auto simp: client_ok_def timely_Un)
  then have t: "timely n' N' k (D' \<union> T)" using assms(3) by (simp add: timely_Un)
  have "settled (N' - {k}) (D' \<union> T)" if "k \<in> N'" "(n', N' - {k}) \<in> D'"
    using timely_settled [OF t _ that(1)] that(2) by blast
  with t assms show ?thesis by (cases st) (auto simp: client_ok_def)
qed

text \<open>A registration tells a client, or wants to and finds no channel.\<close>

lemma client_ok_tell:
  assumes "client_ok n N k D T pend st miss reg" "T' \<subseteq> T" "T \<subseteq> insert tn T'" "tn \<in> T"
    and "D' = insert tn D \<or> D' = D \<and> (\<forall>l c. st = Reading l c \<longrightarrow> reg \<noteq> Some c)"
  shows "client_ok n N k D' T' pend st miss reg"
proof -
  have "D' \<union> T' \<subseteq> D \<union> T" using assms(2,4,5) by auto
  then have "timely n N k (D' \<union> T')" using assms(1) timely_subset by (auto simp: client_ok_def)
  moreover have "D' \<union> T' = D \<union> T" if "D' = insert tn D" using that assms(2-4) by auto
  ultimately show ?thesis using assms(1,5) by (cases st) (auto simp: client_ok_def)
qed

text \<open>The first message of a stream, and its channel.\<close>

lemma client_ok_greet:
  assumes "client_ok n N k D T pend st miss reg" "k \<in> N" "0 < n" "E \<subseteq> D"
  shows "client_ok n N k (E \<union> {(n, N - {k})}) T pend (Greeted l n) miss' reg'"
proof -
  have "timely n N k (insert (n, N - {k}) (D \<union> T))" using assms(1) by (auto simp: client_ok_def timely_def)
  then have "timely n N k (E \<union> {(n, N - {k})} \<union> T)" using assms(4) by (elim timely_subset) auto
  with assms show ?thesis by (simp add: client_ok_def)
qed

lemma client_ok_enter:
  assumes "client_ok n N k D T pend (Greeted l m) miss reg" "\<not> miss' \<Longrightarrow> m = n"
  shows "client_ok n N k D T pend (Reading l c) miss' reg'"
proof -
  have "settled (N - {k}) (D \<union> T)" if "m = n"
    by (rule timely_settled [of n]) (use assms(1) that in \<open>auto simp: client_ok_def\<close>)
  with assms show ?thesis by (auto simp: client_ok_def)
qed

text \<open>The engine reads a message: a newer map replaces the one in force, an older one is ignored.\<close>

lemma client_ok_deliver:
  assumes "client_ok n N k (insert v (U \<union> D)) T pend st miss reg"
    and "v' = v \<and> (\<forall>(m, P) \<in> U. m < fst v) \<or> v' \<in> U \<and> fst v \<le> fst v'" "\<And>u w. u \<in> U \<Longrightarrow> w \<in> U \<Longrightarrow> u = w"
  shows "client_ok n N k (insert v' D) T pend st miss reg"
proof -
  let ?S = "insert v (U \<union> D) \<union> T" and ?S' = "insert v' D \<union> T"
  have t: "timely n N k ?S" using assms(1) by (simp add: client_ok_def)
  have sub: "?S' \<subseteq> ?S" using assms(2) by auto
  have le: "m \<le> fst v'" if u: "(m, P) \<in> insert v U" for m P
    using assms(2)
  proof (elim disjE conjE)
    assume "v' = v" "\<forall>(m, P) \<in> U. m < fst v"
    with u show ?thesis by (auto dest: bspec less_imp_le)
  next
    assume v': "v' \<in> U" "fst v \<le> fst v'"
    show ?thesis
    proof (cases "(m, P) \<in> U")
      case True
      then have "(m, P) = v'" using assms(3) v'(1) by blast
      then show ?thesis by auto
    next
      case False
      with u have "v = (m, P)" by simp
      with v'(2) show ?thesis by simp
    qed
  qed
  have newer: "\<exists>m' P'. (m', P') \<in> ?S' \<and> m \<le> m'" if mP: "(m, P) \<in> ?S" for m P
  proof (cases "(m, P) \<in> D \<union> T")
    case True
    then show ?thesis by (intro exI [of _ m] exI [of _ P]) auto
  next
    case False
    then have "m \<le> fst v'" using mP le by blast
    then show ?thesis by (intro exI [of _ "fst v'"] exI [of _ "snd v'"]) auto
  qed
  have kept: "(n, N - {k}) \<in> insert v' D" if k: "k \<in> N" and n: "(n, N - {k}) \<in> insert v (U \<union> D)"
  proof (cases "(n, N - {k}) \<in> D")
    case False
    then have v: "n \<le> fst v'" using n le by blast
    have "(fst v', snd v') \<in> ?S" using sub by simp
    then have "fst v' \<le> n \<and> (fst v' = n \<longrightarrow> snd v' = N - {k})" using t k unfolding timely_def by blast
    with v have "v' = (n, N - {k})" by (metis order.antisym prod.collapse)
    then show ?thesis by simp
  qed simp
  have "timely n N k ?S'" by (rule timely_subset [OF t sub])
  moreover have "settled V ?S'" if "settled V ?S" for V by (rule settled_shrink [OF that sub newer])
  ultimately show ?thesis using assms(1) kept by (cases st) (auto simp: client_ok_def)
qed

section \<open>Calm runs\<close>

text \<open>
  A calm store: files can be written, groups that rules name exist, the index of peers agrees with
  the accounts, a peer has one home among the accounts, an account with peers has a serial that has not
  started again at zero, and the rules of every account join all its peers. In a calm run this holds all
  the time, and serials do not go back, as they would if an identifier of an account were used twice.
\<close>

definition calm_store :: "(string \<Rightarrow> string) \<Rightarrow> Engine_Env \<Rightarrow> FileStore \<Rightarrow> bool" where
  "calm_store home eenv t \<longleftrightarrow> write_faults t = [] \<and> (\<forall>i a. GetAccount t i = Ret a \<longrightarrow> rules_closed a) \<and>
     (\<forall>k i. PeerKeyId2AccountId t k = Some i \<longleftrightarrow> k \<in> members t i) \<and>
     (\<forall>i. \<forall>k \<in> members t i. home k = i \<and> is_ret (parse_key (en_box eenv) k) \<and> 0 < serial_of t i \<and>
        (\<exists>nm. GetNetworkMap t k = Ret nm \<and> members t i - {k} \<subseteq> Peer_Key ` set (NetworkMap_Peers nm)))"

definition calm :: "(string \<Rightarrow> string) \<Rightarrow> Engine_Env \<Rightarrow> System \<Rightarrow> System \<Rightarrow> bool" where
  "calm home eenv s s' \<longleftrightarrow> calm_store home eenv (sys_store s') \<and>
     (\<forall>i. serial_of (sys_store s) i \<le> serial_of (sys_store s') i)"

lemma calmD:
  assumes "calm_store home eenv t"
  shows "write_faults t = []" "GetAccount t i = Ret a \<Longrightarrow> rules_closed a" "PeerKeyId2AccountId t k = Some i \<longleftrightarrow> k \<in> members t i"
    "k \<in> members t i \<Longrightarrow> home k = i" "k \<in> members t i \<Longrightarrow> is_ret (parse_key (en_box eenv) k)" "k \<in> members t i \<Longrightarrow> 0 < serial_of t i"
  using assms unfolding calm_store_def by blast+

lemma calm_belongs:
  assumes "calm_store home eenv t" "belongs t i k"
  shows "is_ret (parse_key (en_box eenv) k)"
proof -
  have "k \<in> members t i" using assms(2) calmD(3) [OF assms(1)] by (auto simp: belongs_def members_def member_keys_def)
  then show ?thesis by (rule calmD(5) [OF assms(1)])
qed

lemma calm_map:
  assumes "calm_store home eenv t" "good_store t" "GetNetworkMap t k = Ret nm"
  shows "k \<in> members t (home k)" "CurrentSerial (NetworkMap_Network nm) = serial_of t (home k)"
    "Peer_Key ` set (NetworkMap_Peers nm) = members t (home k) - {k}"
proof -
  obtain a where a: "PeerKeyId2AccountId t k = Some (Account_Id a)" "GetAccount t (Account_Id a) = Ret a" "NetworkMap_Network nm = Account_Network a"
    "\<And>p. p \<in> set (NetworkMap_Peers nm) \<Longrightarrow> lookup (Account_Peers a) (Peer_Key p) = Some p \<and> Peer_Key p \<noteq> k"
    using GetNetworkMap_within [OF assms(2,3)] by metis
  have k: "k \<in> members t (Account_Id a)" using a(1) calmD(3) [OF assms(1)] by simp
  have home: "home k = Account_Id a" by (rule calmD(4) [OF assms(1) k])
  show "k \<in> members t (home k)" using k home by simp
  show "CurrentSerial (NetworkMap_Network nm) = serial_of t (home k)" using a(2,3) home by (simp add: serial_of_def CurrentSerial_def)
  have "Peer_Key ` set (NetworkMap_Peers nm) \<subseteq> members t (home k) - {k}"
    using a(2,4) home by (auto simp: members_def member_keys_def)
  moreover have "members t (home k) - {k} \<subseteq> Peer_Key ` set (NetworkMap_Peers nm)"
    using assms(1,3) k unfolding calm_store_def home by (metis outcome.inject(1))
  ultimately show "Peer_Key ` set (NetworkMap_Peers nm) = members t (home k) - {k}" by blast
qed

lemma calm_map_exists: "calm_store home eenv t \<Longrightarrow> k \<in> members t i \<Longrightarrow> GetNetworkMap t k \<noteq> Err e"
  unfolding calm_store_def by (metis outcome.distinct(1))

lemma calm_serial:
  assumes "calm_store home eenv t" "0 < peer_serial t k"
  shows "peer_serial t k = serial_of t (home k)"
proof -
  obtain i a where a: "PeerKeyId2AccountId t k = Some i" "GetAccount t i = Ret a" "peer_serial t k = Network_Serial (Account_Network a)"
    using assms(2) by (auto simp: peer_serial_def GetPeerAccount_def split: outcome.splits option.splits)
  then have "home k = i" using calmD(3,4) [OF assms(1)] by blast
  with a show ?thesis by (simp add: serial_of_def)
qed

section \<open>The invariant\<close>

definition pending :: "string \<Rightarrow> string set \<Rightarrow> (nat \<Rightarrow> task option) \<Rightarrow> bool" where
  "pending k N tasks \<longleftrightarrow> (\<exists>j p. tasks j = Some (Added p) \<and> Peer_Key p \<noteq> k \<and> Peer_Key p \<in> N)"

abbreviation late :: "System \<Rightarrow> string \<Rightarrow> bool" where
  "late s x \<equiv> sys_current s x \<in> Some ` sys_missed s"

definition client_inv :: "Env \<Rightarrow> Mgmt_Server \<Rightarrow> Mgm_Env \<Rightarrow> (string \<Rightarrow> string) \<Rightarrow> System \<Rightarrow> string \<Rightarrow> bool" where
  "client_inv env srv cenv home s x \<longleftrightarrow> (let k = public_key (env_box env) x; N = members (sys_store s) (home k) in
     client_ok (serial_of (sys_store s) (home k)) N k (direct_news env srv cenv s x) (task_news k (sys_tasks s))
       (pending k N (sys_tasks s)) (stream_of s x) (late s x) (peerChannels (sys_pum s) k))"

text \<open>Streams read different channels, clients read different streams, and the engines are in order.\<close>

definition apart :: "System \<Rightarrow> bool" where
  "apart s \<longleftrightarrow> (\<forall>n m k l c. sys_streams s n = Reading k c \<longrightarrow> sys_streams s m = Reading l c \<longrightarrow> n = m) \<and>
     (\<forall>x y n. sys_current s x = Some n \<longrightarrow> sys_current s y = Some n \<longrightarrow> x = y) \<and>
     (\<forall>x e. sys_engine s x = Some e \<longrightarrow> eng_ok e)"

definition converging :: "Env \<Rightarrow> Mgmt_Server \<Rightarrow> Mgm_Env \<Rightarrow> Engine_Env \<Rightarrow> (string \<Rightarrow> string) \<Rightarrow> System \<Rightarrow> bool" where
  "converging env srv cenv eenv home s \<longleftrightarrow> isolated env srv (\<lambda>_ l. is_ret (parse_key (en_box eenv) l)) s \<and>
     calm_store home eenv (sys_store s) \<and> apart s \<and> (\<forall>x. client_inv env srv cenv home s x)"

lemma convergingD:
  assumes "converging env srv cenv eenv home s"
  shows "good_store (sys_store s)" "pum_ok (sys_pum s)" "calm_store home eenv (sys_store s)" "apart s" "client_inv env srv cenv home s x"
    "chans_ok (proper (\<lambda>_ l. is_ret (parse_key (en_box eenv) l))) (sys_pum s) (sys_streams s)"
    "wires_ok env srv (proper (\<lambda>_ l. is_ret (parse_key (en_box eenv) l))) (sys_streams s) (sys_wire s)"
    "reads_own env (sys_streams s) (sys_current s)"
  using assms by (simp_all add: converging_def isolated_def)

subsection \<open>The store and the registrations\<close>

lemma inv_store:
  assumes "client_inv env srv cenv home s x" "\<And>i. members t i = members (sys_store s) i" "\<And>i. serial_of t i = serial_of (sys_store s) i"
  shows "client_inv env srv cenv home (put_store t s) x"
  using assms(1) by (simp add: client_inv_def direct_news_def assms(2,3))

lemma inv_admin:
  assumes "converging env srv cenv eenv home s" "admin_step (sys_store s) t" "calm home eenv s s'" "sys_store s' = t"
  shows "members t i = members (sys_store s) i" "serial_of t i = serial_of (sys_store s) i"
proof -
  have pos: "members (sys_store s) i \<noteq> {} \<longrightarrow> 0 < serial_of (sys_store s) i" using calmD(6) [OF convergingD(3) [OF assms(1)]] by blast
  have "serial_of (sys_store s) i \<le> serial_of t i" using assms(3,4) by (simp add: calm_def)
  from admin_keeps [OF assms(2) convergingD(1) [OF assms(1)] this pos]
  show "members t i = members (sys_store s) i" "serial_of t i = serial_of (sys_store s) i" .
qed

lemma task_news_upd:
  "task_news k (tasks(j := c)) = told_by k c \<union> (\<Union>i \<in> - {j}. told_by k (tasks i))"
  "task_news k tasks = told_by k (tasks j) \<union> (\<Union>i \<in> - {j}. told_by k (tasks i))"
proof -
  have u: "task_news k f = told_by k (f j) \<union> (\<Union>i \<in> - {j}. told_by k (f i))" for f
    unfolding task_news_def by auto
  have "(\<Union>i \<in> - {j}. told_by k ((tasks(j := c)) i)) = (\<Union>i \<in> - {j}. told_by k (tasks i))" by (rule SUP_cong) auto
  then show "task_news k (tasks(j := c)) = told_by k c \<union> (\<Union>i \<in> - {j}. told_by k (tasks i))" using u [of "tasks(j := c)"] by simp
  show "task_news k tasks = told_by k (tasks j) \<union> (\<Union>i \<in> - {j}. told_by k (tasks i))" by (rule u)
qed

lemma task_news_same: "told_by k c = told_by k (tasks j) \<Longrightarrow> task_news k (tasks(j := c)) = task_news k tasks"
  using task_news_upd [of k tasks j] by simp

lemma inv_add:
  assumes "converging env srv cenv eenv home s" "sys_tasks s j = None" "AddPeer (sys_store s) fr key u peer = Some (t, Ret p)"
    and s': "s' = (put_store t s)\<lparr>sys_tasks := (sys_tasks s)(j \<mapsto> Added p)\<rparr>" and "calm home eenv s s'"
  shows "client_inv env srv cenv home s' x"
proof -
  let ?k = "public_key (env_box env) x" let ?N = "members (sys_store s) (home ?k)" and ?n = "serial_of (sys_store s) (home ?k)"
  obtain i where i: "members t = (members (sys_store s))(i := insert (Peer_Key p) (members (sys_store s) i))"
    "serial_of t = (serial_of (sys_store s))(i := serial_of (sys_store s) i + 1)"
    by (rule AddPeer_members [OF convergingD(1) [OF assms(1)] assms(3)])
  have inv: "client_ok ?n ?N ?k (direct_news env srv cenv s x) (task_news ?k (sys_tasks s))
       (pending ?k ?N (sys_tasks s)) (stream_of s x) (late s x) (peerChannels (sys_pum s) ?k)"
    using convergingD(5) [OF assms(1), of x] by (simp add: client_inv_def Let_def)
  have same: "direct_news env srv cenv s' x = direct_news env srv cenv s x" "stream_of s' x = stream_of s x" "late s' x = late s x"
    "task_news ?k (sys_tasks s') = task_news ?k (sys_tasks s)"
    using assms(2) by (simp_all add: s' direct_news_def task_news_same)
  have pend: "pending ?k M (sys_tasks s')" if "pending ?k ?N (sys_tasks s) \<or> Peer_Key p \<noteq> ?k \<and> Peer_Key p \<in> M" "?N \<subseteq> M" for M
  proof -
    have "sys_tasks s' l = Some (Added q)" if "sys_tasks s l = Some (Added q)" for l q using that assms(2) by (auto simp: s')
    moreover have "sys_tasks s' j = Some (Added p)" by (simp add: s')
    ultimately show ?thesis using that unfolding pending_def by blast
  qed
  show ?thesis
  proof (cases "home ?k = i")
    case True
    have "serial_of (sys_store s) i \<le> serial_of t i" using assms(5) by (simp add: calm_def s')
    then have "?n \<le> ?n + 1" using i(2) True by simp
    then have "?n < ?n + 1" by (simp add: order.not_eq_order_implies_strict)
    then have "client_ok (?n + 1) (insert (Peer_Key p) ?N) ?k (direct_news env srv cenv s x) (task_news ?k (sys_tasks s))
       (pending ?k (insert (Peer_Key p) ?N) (sys_tasks s')) (stream_of s x) (late s x) (peerChannels (sys_pum s) ?k)"
      by (rule client_ok_add [OF inv]) (use pend in blast)
    then show ?thesis using True by (simp add: client_inv_def Let_def same i) (simp add: s' i)
  next
    case False
    have "client_ok ?n ?N ?k (direct_news env srv cenv s x) (task_news ?k (sys_tasks s))
       (pending ?k ?N (sys_tasks s')) (stream_of s x) (late s x) (peerChannels (sys_pum s) ?k)"
      by (rule client_ok_pend [OF inv]) (use pend in blast)
    then show ?thesis using False by (simp add: client_inv_def Let_def same) (simp add: s' i)
  qed
qed

lemma pending_upd:
  "pending k N (tasks(j := c)) \<longleftrightarrow> (\<exists>p. c = Some (Added p) \<and> Peer_Key p \<noteq> k \<and> Peer_Key p \<in> N) \<or>
     (\<exists>i p. i \<noteq> j \<and> tasks i = Some (Added p) \<and> Peer_Key p \<noteq> k \<and> Peer_Key p \<in> N)"
  unfolding pending_def by (auto split: if_splits)

lemma pending_drop:
  assumes "\<And>p. tasks j = Some (Added p) \<Longrightarrow> Peer_Key p \<noteq> k \<Longrightarrow> Peer_Key p \<notin> N"
  shows "pending k N tasks \<longrightarrow> pending k N (tasks(j := c))"
proof -
  have "i \<noteq> j" if "tasks i = Some (Added p)" "Peer_Key p \<noteq> k" "Peer_Key p \<in> N" for i p using that assms by blast
  then show ?thesis unfolding pending_upd [of k N tasks j c] unfolding pending_def by blast
qed

text \<open>A task ends, or has nothing to do with the client.\<close>

lemma inv_task:
  assumes "client_inv env srv cenv home s x" "told_by (public_key (env_box env) x) c = told_by (public_key (env_box env) x) (sys_tasks s j)"
    and "\<And>p. public_key (env_box env) x \<in> members (sys_store s) (home (public_key (env_box env) x)) \<Longrightarrow>
      sys_tasks s j = Some (Added p) \<Longrightarrow> Peer_Key p \<noteq> public_key (env_box env) x \<Longrightarrow>
      Peer_Key p \<notin> members (sys_store s) (home (public_key (env_box env) x))"
  shows "client_inv env srv cenv home (s\<lparr>sys_tasks := (sys_tasks s)(j := c)\<rparr>) x"
proof -
  let ?k = "public_key (env_box env) x" and ?tasks = "(sys_tasks s)(j := c)"
  let ?N = "members (sys_store s) (home ?k)"
  have pend: "pending ?k ?N (sys_tasks s) \<longrightarrow> pending ?k ?N ?tasks" if "?k \<in> ?N" using pending_drop assms(3) that by blast
  from client_ok_pend [OF assms(1) [unfolded client_inv_def Let_def] pend] show ?thesis
    by (simp add: client_inv_def Let_def direct_news_def task_news_same assms(2))
qed

lemma inv_map:
  assumes "converging env srv cenv eenv home s" "sys_tasks s j = Some (Added p)" "GetNetworkMap (sys_store s) (Peer_Key p) = Ret nm"
  shows "client_inv env srv cenv home (s\<lparr>sys_tasks := (sys_tasks s)(j \<mapsto>
      Telling p (NetworkMap_Peers nm) (CurrentSerial (NetworkMap_Network nm)) (NetworkMap_Peers nm))\<rparr>) x"
proof -
  let ?k = "public_key (env_box env) x"
  let ?N = "members (sys_store s) (home ?k)" and ?n = "serial_of (sys_store s) (home ?k)"
  let ?c = "Some (Telling p (NetworkMap_Peers nm) (CurrentSerial (NetworkMap_Network nm)) (NetworkMap_Peers nm))"
  note inv = convergingD(5) [OF assms(1), of x] and m = calm_map [OF convergingD(3,1) [OF assms(1)] assms(3)]
  note home = calmD(4) [OF convergingD(3) [OF assms(1)]]
  show ?thesis
  proof (cases "?k \<in> ?N \<and> home (Peer_Key p) = home ?k \<and> Peer_Key p \<noteq> ?k")
    case True
    have p: "Peer_Key p \<in> ?N" "CurrentSerial (NetworkMap_Network nm) = ?n" "Peer_Key ` set (NetworkMap_Peers nm) = ?N - {Peer_Key p}"
      using m True by simp_all
    have "insert (Peer_Key p) (?N - {Peer_Key p} - {?k}) = ?N - {?k}" using True p(1) by auto
    moreover have "?k \<in> Peer_Key ` set (NetworkMap_Peers nm)" unfolding p(3) using True by (metis DiffI singletonD)
    ultimately have told: "told_by ?k ?c = {(?n, ?N - {?k})}" by (simp only: told_by.simps tell_news_def p if_True)
    have "told_by ?k (sys_tasks s j) = {}" using assms(2) by simp
    then have T: "task_news ?k ((sys_tasks s)(j := ?c)) = insert (?n, ?N - {?k}) (task_news ?k (sys_tasks s))"
      using task_news_upd [of ?k "sys_tasks s" j] told by simp
    have k: "?k \<in> ?N" using True by blast
    from client_ok_news [OF inv [unfolded client_inv_def Let_def] k, of "direct_news env srv cenv s x" "task_news ?k ((sys_tasks s)(j := ?c))"]
    show ?thesis unfolding client_inv_def Let_def by (simp add: T direct_news_def)
  next
    case False
    have "?k \<notin> Peer_Key ` set (NetworkMap_Peers nm)" using False home unfolding m(3) by force
    then have told: "told_by ?k ?c = told_by ?k (sys_tasks s j)" using assms(2) by simp
    have "Peer_Key q \<notin> ?N" if q: "?k \<in> ?N" "sys_tasks s j = Some (Added q)" "Peer_Key q \<noteq> ?k" for q
    proof -
      have "q = p" using q(2) assms(2) by simp
      then have "home (Peer_Key q) \<noteq> home ?k" using False q(1,3) by blast
      with home [of "Peer_Key q" "home ?k"] show ?thesis by blast
    qed
    then show ?thesis by (rule inv_task [OF inv told])
  qed
qed

lemma inv_map_fails:
  assumes "converging env srv cenv eenv home s" "sys_tasks s j = Some (Added p)" "GetNetworkMap (sys_store s) (Peer_Key p) = Err e"
  shows "client_inv env srv cenv home (s\<lparr>sys_tasks := (sys_tasks s)(j := None)\<rparr>) x"
  by (rule inv_task [OF convergingD(5) [OF assms(1)]]) (use assms(2,3) calm_map_exists [OF convergingD(3) [OF assms(1)]] in auto)

lemma inv_told:
  assumes "converging env srv cenv eenv home s" "sys_tasks s j = Some (Telling p ps n [])"
  shows "client_inv env srv cenv home (s\<lparr>sys_tasks := (sys_tasks s)(j := None)\<rparr>) x"
  by (rule inv_task [OF convergingD(5) [OF assms(1)]]) (use assms(2) in auto)

subsection \<open>The channels\<close>

lemma news_of_response:
  assumes "toSyncResponse config p peers cred serial = Ret u"
  shows "news_of u = {(serial, Peer_Key ` set peers)}"
proof -
  obtain nm where nm: "Sync_NetworkMap u = Some nm" "Map_Serial nm = serial" "Map_RemotePeers nm = toRemotePeerConfig peers"
    "Map_RemotePeersIsEmpty nm \<longleftrightarrow> peers = []"
    using toSyncResponse_Ret(3) [OF assms] by blast
  have "Remote_WgPubKey ` set (Map_RemotePeers nm) = Peer_Key ` set peers" unfolding nm(3) by (metis list.set_map remote_keys)
  then have "map_peers nm = Peer_Key ` set peers" using nm(4) by (simp add: map_peers_def)
  then show ?thesis using nm(1,2) by (simp add: news_of_def)
qed

lemma news_of_peers: "news_of (Update (peers_update serial ps)) = {(serial, Peer_Key ` set ps)}"
proof -
  have "Remote_WgPubKey ` set (toRemotePeerConfig ps) = Peer_Key ` set ps" by (metis list.set_map remote_keys)
  then show ?thesis by (auto simp: news_of_def map_peers_def peers_update_def Let_def)
qed

lemma news_of_empty: "news_of (Update (empty_update serial)) = {(serial, {})}"
  by (simp add: news_of_def map_peers_def empty_update_def)

text \<open>What sends add to the channel of a stream.\<close>

lemma stream_news_sends:
  assumes "sends Q m m'" "chans_ok R m streams" "st = streams n"
  shows "stream_news m st \<subseteq> stream_news m' st"
    and "v \<in> stream_news m' st \<Longrightarrow> v \<in> stream_news m st \<or> (\<exists>k u. stream_key st = Some k \<and> Q k u \<and> v \<in> news_of u)"
proof -
  have buf: "\<exists>us. chan_buf (channels m' c) = chan_buf (channels m c) @ us \<and> (\<forall>u \<in> set us. \<exists>k. peerChannels m k = Some c \<and> Q k (Update u))" for c
    using assms(1) unfolding sends_def by blast
  show "stream_news m st \<subseteq> stream_news m' st"
  proof (cases st)
    case (Reading k c)
    then show ?thesis using buf [of c] by (auto simp: chan_news_def)
  qed simp_all
  show "v \<in> stream_news m st \<or> (\<exists>k u. stream_key st = Some k \<and> Q k u \<and> v \<in> news_of u)" if v: "v \<in> stream_news m' st"
  proof (cases st)
    case (Reading k c)
    obtain us where us: "chan_buf (channels m' c) = chan_buf (channels m c) @ us" "\<forall>u \<in> set us. \<exists>k. peerChannels m k = Some c \<and> Q k (Update u)"
      using buf by blast
    have own: "l = k" if "peerChannels m l = Some c" for l using assms(2,3) Reading that unfolding chans_ok_def by metis
    from v Reading obtain u where "u \<in> set (chan_buf (channels m' c))" "v \<in> news_of (Update u)" by (auto simp: chan_news_def)
    with us own Reading show ?thesis by (auto simp: chan_news_def)
  qed (use v in simp_all)
qed

lemma stream_news_quiet:
  assumes "sends Q m m'" "chans_ok R m streams" "st = streams n" "\<And>k u. stream_key st = Some k \<Longrightarrow> Q k u \<Longrightarrow> news_of u = {}"
  shows "stream_news m' st = stream_news m st"
  using stream_news_sends [OF assms(1-3)] assms(4) by blast

lemma inv_sends:
  assumes "converging env srv cenv eenv home s" "sends Q (sys_pum s) m" "\<And>u. Q (public_key (env_box env) x) u \<Longrightarrow> news_of u = {}"
  shows "client_inv env srv cenv home (put_pum m s) x"
proof -
  let ?k = "public_key (env_box env) x"
  have D: "direct_news env srv cenv (put_pum m s) x = direct_news env srv cenv s x"
  proof (cases "sys_current s x")
    case (Some n)
    then have key: "stream_key (stream_of s x) = Some ?k" using convergingD(8) [OF assms(1)] by (simp add: reads_own_def)
    have "stream_news m (stream_of s x) = stream_news (sys_pum s) (stream_of s x)"
      by (rule stream_news_quiet [OF assms(2) convergingD(6) [OF assms(1)], of _ n]) (use Some key assms(3) in auto)
    then show ?thesis by (simp add: direct_news_def)
  qed (simp add: direct_news_def)
  have reg: "peerChannels m ?k = Some c \<Longrightarrow> peerChannels (sys_pum s) ?k = Some c" for c using assms(2) by (simp add: sends_def)
  from client_ok_reg [OF convergingD(5) [OF assms(1), of x, unfolded client_inv_def Let_def] reg] show ?thesis
    by (simp add: client_inv_def Let_def D)
qed

lemma inv_refresh:
  assumes "converging env srv cenv eenv home s" "refresh_round hmac tm (sys_pum s) k g now = Some (Sent m)"
  shows "client_inv env srv cenv home (put_pum m s) x"
proof -
  obtain u q where u: "refresh_update hmac tm (now + refresh_sleep tm) = Ret u" "SendUpdate (sys_pum s) k u = Some (m, q)"
    using assms(2) by (auto simp: refresh_round_def split: if_splits outcome.splits option.splits)
  have "news_of (Update u) = {}" using u(1) by (auto simp: refresh_update_def news_of_def split: outcome.splits)
  then have "sends (\<lambda>k u. news_of u = {}) (sys_pum s) m" by (intro sends_update [OF u(2)])
  from inv_sends [OF assms(1) this] show ?thesis by simp
qed

lemma tell_sent:
  assumes "register_tell config p ps n r m = Some (m', Ret ())"
  obtains u where "SendUpdate m (Peer_Key r) u = Some (m', Ret ())" "news_of (Update u) = {tell_news (Peer_Key r) p ps n}"
proof -
  obtain u where u: "toSyncResponse config p (p # filter (\<lambda>q. Peer_Key r \<noteq> Peer_Key q) ps) None n = Ret u"
    "SendUpdate m (Peer_Key r) \<lparr>Update = u\<rparr> = Some (m', Ret ())"
    using assms by (auto simp: register_tell_def split: outcome.splits)
  have "Peer_Key ` set (filter (\<lambda>q. Peer_Key r \<noteq> Peer_Key q) ps) = Peer_Key ` set ps - {Peer_Key r}" by auto
  then have "news_of u = {tell_news (Peer_Key r) p ps n}" using news_of_response [OF u(1)] by (simp add: tell_news_def)
  with u(2) show ?thesis by (intro that [of "\<lparr>Update = u\<rparr>"]) simp_all
qed

lemma inv_tell:
  assumes "converging env srv cenv eenv home s" "sys_tasks s j = Some (Telling p ps n (r # rs))"
    and "register_tell config p ps n r (sys_pum s) = Some (m, Ret ())"
  shows "client_inv env srv cenv home ((put_pum m s)\<lparr>sys_tasks := (sys_tasks s)(j \<mapsto> Telling p ps n rs)\<rparr>) x"
proof -
  let ?k = "public_key (env_box env) x" and ?c = "Some (Telling p ps n rs)" and ?tn = "tell_news (Peer_Key r) p ps n"
  obtain u where u: "SendUpdate (sys_pum s) (Peer_Key r) u = Some (m, Ret ())" "news_of (Update u) = {?tn}" by (rule tell_sent [OF assms(3)])
  have s1: "sends (\<lambda>k v. k = Peer_Key r \<and> v = Update u) (sys_pum s) m" by (rule sends_update [OF u(1)]) simp
  show ?thesis
  proof (cases "?k = Peer_Key r")
    case False
    then have "client_inv env srv cenv home (put_pum m s) x" by (intro inv_sends [OF assms(1) s1]) simp
    from inv_task [OF this, of ?c j] show ?thesis using False assms(2) by simp
  next
    case True
    note inv = convergingD(5) [OF assms(1), of x, unfolded client_inv_def Let_def]
    note T = task_news_upd [of ?k "sys_tasks s" j]
    have old: "told_by ?k (sys_tasks s j) = {?tn}" using assms(2) True by simp
    have new: "told_by ?k ?c \<subseteq> {?tn}" using True by simp
    have pc: "peerChannels m = peerChannels (sys_pum s)" using pum_ok_send(3) [OF convergingD(2) [OF assms(1)] u(1)] .
    have D: "stream_news m (stream_of s x) = insert ?tn (stream_news (sys_pum s) (stream_of s x)) \<or>
        stream_news m (stream_of s x) = stream_news (sys_pum s) (stream_of s x) \<and> (\<forall>l c. stream_of s x = Reading l c \<longrightarrow> peerChannels (sys_pum s) ?k \<noteq> Some c)"
    proof (cases "\<exists>l c. stream_of s x = Reading l c \<and> peerChannels (sys_pum s) ?k = Some c")
      case r: True
      then obtain l c where c: "stream_of s x = Reading l c" "peerChannels (sys_pum s) (Peer_Key r) = Some c" using True by auto
      then have "chan_buf (channels m c) = chan_buf (channels (sys_pum s) c) @ [u]"
        using u(1) by (auto simp: SendUpdate_def split: if_splits)
      then show ?thesis using c(1) u(2) by (simp add: chan_news_def)
    next
      case nr: False
      then have "stream_news m (stream_of s x) = stream_news (sys_pum s) (stream_of s x)"
        using u(1) True by (cases "stream_of s x") (auto simp: SendUpdate_def chan_news_def split: option.splits if_splits)
      with nr show ?thesis by blast
    qed
    let ?D = "engine_news (sys_engine s x) \<union> wire_news env srv cenv x (wire_of s x) \<union> stream_news m (stream_of s x)"
    let ?T = "task_news ?k ((sys_tasks s)(j := ?c))"
    have N: "pending ?k N (sys_tasks s) \<longrightarrow> pending ?k N ((sys_tasks s)(j := ?c))" for N
      by (rule pending_drop) (use assms(2) in simp)
    have "client_ok (serial_of (sys_store s) (home ?k)) (members (sys_store s) (home ?k)) ?k ?D ?T
       (pending ?k (members (sys_store s) (home ?k)) (sys_tasks s)) (stream_of s x) (late s x) (peerChannels (sys_pum s) ?k)"
    proof (rule client_ok_tell [OF inv, of _ ?tn])
      show "?T \<subseteq> task_news ?k (sys_tasks s)" "task_news ?k (sys_tasks s) \<subseteq> insert ?tn ?T" "?tn \<in> task_news ?k (sys_tasks s)"
        unfolding T(1) T(2) old using new by auto
      show "?D = insert ?tn (direct_news env srv cenv s x) \<or> ?D = direct_news env srv cenv s x \<and>
          (\<forall>l c. stream_of s x = Reading l c \<longrightarrow> peerChannels (sys_pum s) ?k \<noteq> Some c)"
        using D unfolding direct_news_def by auto
    qed
    from client_ok_pend [OF this N] show ?thesis by (simp add: client_inv_def Let_def direct_news_def pc)
  qed
qed

subsection \<open>Deletion\<close>

lemma vals_keys: "keyed Peer_Key ps \<Longrightarrow> Peer_Key ` set (vals ps) = {k. lookup ps k \<noteq> None}"
proof (intro set_eqI iffI)
  fix k assume ps: "keyed Peer_Key ps"
  note conv = vals_conv [OF keyed_wf [OF ps]]
  show "k \<in> {k. lookup ps k \<noteq> None}" if "k \<in> Peer_Key ` set (vals ps)"
    using that conv keyed_lookup [OF ps] by force
  show "k \<in> Peer_Key ` set (vals ps)" if "k \<in> {k. lookup ps k \<noteq> None}"
  proof -
    from that obtain p where p: "lookup ps k = Some p" by auto
    then have "p \<in> set (vals ps)" using conv by blast
    then show ?thesis using keyed_lookup [OF ps p] by (intro image_eqI [of _ _ p]) simp_all
  qed
qed

lemma filter_keys: "Peer_Key ` set (filter (\<lambda>r. l \<noteq> Peer_Key r) ps) = Peer_Key ` set ps - {l}"
  by auto

text \<open>A deletion sends its news, which is right, to the peers of the account and to no other.\<close>

lemma delete_news:
  assumes "calm_store home eenv s" "good_store s" "pum_ok m" "DeletePeer s m i k = Some ((s', m'), Ret p)"
  shows "sends (\<lambda>l u. home l = i \<and> (\<forall>n P. (n, P) \<in> news_of u \<longrightarrow> n = serial_of s' i \<and> (l \<in> members s' i \<longrightarrow> P = members s' i - {l}))) m m'"
    and "l \<in> members s' i \<Longrightarrow> peerChannels m l = Some c \<Longrightarrow> (serial_of s' i, members s' i - {l}) \<in> chan_news m' c"
    and "peerChannels m' k = None"
proof -
  let ?n = "serial_of s' i" and ?N = "members s' i"
  let ?Q = "\<lambda>l u. home l = i \<and> (\<forall>n P. (n, P) \<in> news_of u \<longrightarrow> n = ?n \<and> (l \<in> ?N \<longrightarrow> P = ?N - {l}))"
  obtain a s1 m1 m2 a' where a: "GetAccount s i = Ret a" "lookup (Account_Peers a) k = Some p"
    and a': "a' = a\<lparr>Account_Peers := map_delete (Account_Peers a) k, Account_Groups := cleanup_map k (Account_Groups a),
            Account_Network := IncSerial (Account_Network a)\<rparr>" "SaveAccount s1 a' = (s', Ret ())"
    and m1: "SendUpdate m k (empty_update (Network_Serial (Account_Network a'))) = Some (m1, Ret ())"
    and m2: "notify_peers (Network_Serial (Account_Network a')) (vals (Account_Peers a')) (vals (Account_Peers a')) m1 = Some (m2, Ret ())"
    and m': "m' = CloseChannel m2 k"
    by (rule DeletePeer_Ret [OF assms(2,4)])
  note mem = DeletePeer_members [OF assms(2,4)]
  have keyed: "keyed Peer_Key (Account_Peers a)" by (rule good_keyed(3) [OF goodD(1) [OF assms(2) a(1)]])
  have N: "Peer_Key ` set (vals (Account_Peers a')) = ?N"
    using vals_keys [OF keyed_delete [OF keyed, of k]] a(1) mem(2) by (auto simp: a'(1) members_def member_keys_def)
  have n: "Network_Serial (Account_Network a') = ?n" using a(1) mem(3) by (simp add: a'(1) serial_of_def IncSerial_def)
  have home: "home k = i" "l \<in> ?N \<Longrightarrow> home l = i" for l using calmD(4) [OF assms(1)] mem(1,2) by auto
  have "?Q k (Update (empty_update ?n))" using home(1) mem(2) by (simp add: news_of_empty)
  then have q1: "sends ?Q m m1" by (rule sends_update [OF m1 [unfolded n]])
  have q2: "sends ?Q m1 m2"
  proof (rule sends_notify [OF m2 subset_refl])
    fix p assume "p \<in> set (vals (Account_Peers a'))"
    then have "Peer_Key p \<in> ?N" using N by blast
    then show "?Q (Peer_Key p) (Update (peers_update (Network_Serial (Account_Network a')) (filter (\<lambda>remote. Peer_Key p \<noteq> Peer_Key remote) (vals (Account_Peers a')))))"
      using home(2) filter_keys [of "Peer_Key p" "vals (Account_Peers a')"] by (simp add: news_of_peers n N)
  qed
  show "sends ?Q m m'" unfolding m' by (rule sends_trans [OF q1 sends_trans [OF q2 sends_close]])
  show "peerChannels m' k = None" by (auto simp: m' CloseChannel_def close_channel_def split: option.splits)
  show "(?n, ?N - {l}) \<in> chan_news m' c" if l: "l \<in> ?N" and c: "peerChannels m l = Some c"
  proof -
    obtain q where q: "lookup (Account_Peers a) l = Some q" "l \<noteq> k" using l a(1) mem(2) by (auto simp: members_def member_keys_def)
    have "chan_buf (channels m' c) = chan_buf (channels m c) @
        [peers_update ?n (filter (\<lambda>r. l \<noteq> Peer_Key r) (vals (Account_Peers a')))]"
      using DeletePeer_channels(1) [OF assms(2,3,4) a(1) q c] n by (simp add: a'(1) IncSerial_def)
    then show ?thesis using filter_keys [of l "vals (Account_Peers a')"] by (simp add: chan_news_def news_of_peers N)
  qed
qed

lemma inv_delete:
  assumes "converging env srv cenv eenv home s" "DeletePeer (sys_store s) (sys_pum s) i k = Some ((t, m), r)"
    and s': "s' = put_pum m (put_store t s)" and "calm home eenv s s'"
  shows "client_inv env srv cenv home s' x"
proof -
  let ?k = "public_key (env_box env) x"
  note cs = convergingD [OF assms(1)]
  consider "t = sys_store s" "m = sys_pum s" | p where "r = Ret p"
    using DeletePeer_calm [OF cs(1,2) calmD(1) [OF cs(3)] _ assms(2)] calmD(2) [OF cs(3)] by metis
  then show ?thesis
  proof cases
    case 1
    then show ?thesis using cs(5) [of x] by (simp add: s')
  next
    case (2 p)
    note del = assms(2) [unfolded 2]
    note mem = DeletePeer_members [OF cs(1) del] and news = delete_news [OF cs(3,1,2) del]
    show ?thesis
    proof (cases "home ?k = i")
      case False
      have "client_inv env srv cenv home (put_pum m s) x" by (rule inv_sends [OF assms(1) news(1)]) (use False in simp)
      then show ?thesis using False by (simp add: client_inv_def Let_def direct_news_def s' mem)
    next
      case True
      let ?n = "serial_of (sys_store s) i" and ?n' = "serial_of t i" and ?N' = "members t i"
      have "?n \<le> ?n'" using assms(4) by (simp add: calm_def s')
      moreover have "?n' \<noteq> ?n" using mem(3) by simp
      ultimately have lt: "?n < ?n'" by simp
      let ?D = "direct_news env srv cenv s' x"
      note inv = cs(5) [of x, unfolded client_inv_def Let_def True]
      have old: "timely ?n' ?N' ?k (direct_news env srv cenv s x)" using inv lt timely_bump by (auto simp: client_ok_def timely_Un)
      have new: "v \<in> direct_news env srv cenv s x \<or> fst v = ?n' \<and> (?k \<in> ?N' \<longrightarrow> snd v = ?N' - {?k})" if v: "v \<in> ?D" for v
      proof (cases "sys_current s x")
        case None
        then show ?thesis using v by (simp add: s' direct_news_def)
      next
        case (Some n)
        then have "stream_key (stream_of s x) = Some ?k" using cs(8) by (simp add: reads_own_def)
        then show ?thesis using v stream_news_sends(2) [OF news(1) cs(6), of "stream_of s x" n v] Some
          by (cases v) (auto simp: s' direct_news_def)
      qed
      have "timely ?n' ?N' ?k ?D" unfolding timely_def
      proof (intro allI impI)
        fix l P assume "(l, P) \<in> ?D"
        from new [OF this] old show "l \<le> ?n' \<and> (l = ?n' \<longrightarrow> ?k \<in> ?N' \<longrightarrow> P = ?N' - {?k})" by (auto simp: timely_def)
      qed
      moreover have reg: "peerChannels m ?k = None \<or> peerChannels m ?k = peerChannels (sys_pum s) ?k"
        using news(1) unfolding sends_def by (cases "peerChannels m ?k") auto
      moreover have "?k \<in> ?N' \<and> (?n', ?N' - {?k}) \<in> ?D"
        if c: "stream_of s x = Reading l c" "peerChannels m ?k = Some c" "?k \<in> members (sys_store s) i" for l c
      proof -
        have "?k \<in> ?N'" using c(2,3) news(3) mem(2) by auto
        moreover have "(?n', ?N' - {?k}) \<in> chan_news m c" by (rule news(2) [OF \<open>?k \<in> ?N'\<close>]) (use reg c(2) in auto)
        ultimately show ?thesis using c(1) by (simp add: s' direct_news_def)
      qed
      ultimately have "client_ok ?n' ?N' ?k ?D (task_news ?k (sys_tasks s)) (pending ?k ?N' (sys_tasks s)) (stream_of s x) (late s x) (peerChannels m ?k)"
        by (intro client_ok_bump [OF inv lt]) auto
      then show ?thesis using True by (simp add: client_inv_def Let_def s')
    qed
  qed
qed

subsection \<open>The streams\<close>

lemma wire_news_simps [simp]:
  "wire_news env srv cenv x [] = {}"
  "wire_news env srv cenv x (ms @ ms') = wire_news env srv cenv x ms \<union> wire_news env srv cenv x ms'"
  by (simp_all add: wire_news_def)

lemma wire_news_Cons: "wire_news env srv cenv x (m # ms) = wire_news env srv cenv x [m] \<union> wire_news env srv cenv x ms"
  by (simp add: wire_news_def)

lemma wire_news_sealed:
  assumes "sides_agree env cenv" "seal env srv (marshal_sync env) failure (public_key (env_box env) x) u = Ret m"
  shows "wire_news env srv cenv x [m] = news_of u"
proof -
  have "DecryptMessage (mc_box cenv) (mc_nonce cenv) (mc_unmarshal_sync cenv) (public_key (env_box env) (srv_wgKey srv)) x (Enc_Body m) = Ret u"
    by (rule sealed_opened [OF assms]) (use assms(1) in \<open>auto simp: sides_agree_def\<close>)
  then show ?thesis by (simp add: wire_news_def)
qed

lemma greet_news:
  assumes "calm_store home eenv (st_store st)" "good_store (st_store st)" "Sync_greet env srv st now sent req = Ret (k, m)"
  obtains u failure where "seal env srv (marshal_sync env) failure k u = Ret m"
    "news_of u = {(serial_of (st_store st) (home k), members (st_store st) (home k) - {k})}"
    "k \<in> members (st_store st) (home k)" "peer_serial (st_store st) k = serial_of (st_store st) (home k)"
proof -
  obtain peer where peer: "GetPeer (st_store st) k = Ret peer" "sendInitialSync env srv st now sent k peer = Ret m"
    using assms(3) by (auto simp: Sync_greet_def split: outcome.splits)
  then obtain nm cred u where nm: "GetNetworkMap (st_store st) (Peer_Key peer) = Ret nm"
    "toSyncResponse (srv_config srv) peer (NetworkMap_Peers nm) cred (CurrentSerial (NetworkMap_Network nm)) = Ret u"
    "seal env srv (marshal_sync env) ''error handling request'' k u = Ret m"
    by (auto simp: sendInitialSync_def Let_def split: outcome.splits option.splits)
  obtain i a where ia: "PeerKeyId2AccountId (st_store st) k = Some i" "GetAccount (st_store st) i = Ret a" "lookup (Account_Peers a) k = Some peer"
    using peer(1) by (auto simp: GetPeer_def Store_GetPeer_def split: outcome.splits option.splits)
  have key: "Peer_Key peer = k" by (rule keyed_lookup [OF good_keyed(3) [OF goodD(1) [OF assms(2) ia(2)]] ia(3)])
  note m = calm_map [OF assms(1,2) nm(1), unfolded key]
  have "home k = i" using calmD(3,4) [OF assms(1)] ia(1) by blast
  then have "peer_serial (st_store st) k = serial_of (st_store st) (home k)"
    using ia by (simp add: peer_serial_def serial_of_def GetPeerAccount_def)
  then show ?thesis using news_of_response [OF nm(2)] m by (intro that [OF nm(3)]) simp_all
qed

lemma inv_greet:
  assumes "sides_agree env cenv" "converging env srv cenv eenv home s" "sys_streams s n = NoStream"
    and "Sync_greet env srv (sys_mgmt s) now sent req = Ret (k, m)"
    and "current = sys_current s \<or> current = (sys_current s)(y \<mapsto> n) \<and> public_key (env_box env) y = k"
  shows "client_inv env srv cenv home (s\<lparr>sys_streams := (sys_streams s)(n := Greeted k (peer_serial (sys_store s) k)),
      sys_wire := (sys_wire s)(n := [m]), sys_current := current\<rparr>) x"
proof (cases "current x = sys_current s x")
  case True
  have "sys_current s x \<noteq> Some n" using convergingD(8) [OF assms(2)] assms(3) unfolding reads_own_def
    by (metis option.distinct(1) stream_key.simps(1))
  then show ?thesis using convergingD(5) [OF assms(2), of x] True by (simp add: client_inv_def Let_def direct_news_def)
next
  case False
  then have x: "x = y" "current x = Some n" "public_key (env_box env) x = k" using assms(5) by (auto split: if_splits)
  let ?n = "serial_of (sys_store s) (home k)" and ?N = "members (sys_store s) (home k)"
  obtain u failure where u: "seal env srv (marshal_sync env) failure k u = Ret m" "news_of u = {(?n, ?N - {k})}"
    "k \<in> ?N" "peer_serial (sys_store s) k = ?n"
    by (rule greet_news [OF convergingD(3,1) [OF assms(2)] assms(4)])
  have wire: "wire_news env srv cenv x [m] = {(?n, ?N - {k})}" using wire_news_sealed [OF assms(1) u(1) [folded x(3)]] u(2) by simp
  have sub: "engine_news (sys_engine s x) \<subseteq> direct_news env srv cenv s x" by (auto simp: direct_news_def)
  note inv = convergingD(5) [OF assms(2), of x, unfolded client_inv_def Let_def x(3)]
  from client_ok_greet [OF inv u(3) calmD(6) [OF convergingD(3) [OF assms(2)] u(3)] sub] show ?thesis
    using x(2) wire by (simp add: client_inv_def Let_def direct_news_def u(4) x(3))
qed

lemma inv_enter:
  assumes "converging env srv cenv eenv home s" "sys_streams s n = Greeted k serial" "Sync_enter srv (sys_mgmt s) now k = (st, Ret c)"
    and s': "s' = s\<lparr>sys_mgmt := st, sys_streams := (sys_streams s)(n := Reading k c),
      sys_missed := (if peer_serial (sys_store s) k = serial then sys_missed s else insert n (sys_missed s))\<rparr>" and "calm home eenv s s'"
  shows "client_inv env srv cenv home s' x"
proof -
  let ?k = "public_key (env_box env) x"
  note cs = convergingD [OF assms(1)] and e = Sync_enter_Ret [OF assms(3)]
  note new = create_channels [OF e(1)] and re = reconnect_replaces_channel [OF cs(2) e(1)]
  have "admin_step (sys_store s) (st_store st)" using e(2) admin_step.MarkPeer by (metis prod.collapse)
  from inv_admin [OF assms(1) this assms(5)] have mem: "members (st_store st) i = members (sys_store s) i"
    "serial_of (st_store st) i = serial_of (sys_store s) i" for i by (simp_all add: s')
  note inv = cs(5) [of x, unfolded client_inv_def Let_def]
  show ?thesis
  proof (cases "sys_current s x = Some n")
    case True
    then have "stream_key (sys_streams s n) = Some ?k" using cs(8) by (simp add: reads_own_def)
    then have k: "?k = k" using assms(2) by simp
    have "chan_news (st_updates st) c = {}" using new(1) [of c] by (simp add: chan_news_def)
    then have D: "direct_news env srv cenv s' x = direct_news env srv cenv s x" using True assms(2) by (simp add: s' direct_news_def)
    have g: "stream_of s x = Greeted k serial" using True assms(2) by simp
    have "serial = serial_of (sys_store s) (home k)" if "\<not> late s' x"
    proof -
      have "peer_serial (sys_store s) k = serial" using that True by (auto simp: s' split: if_splits)
      moreover have "0 < serial" using inv g by (simp add: client_ok_def)
      ultimately show ?thesis using calm_serial [OF cs(3)] by simp
    qed
    from client_ok_enter [OF inv [unfolded g k] this]
    have "client_ok (serial_of (sys_store s) (home k)) (members (sys_store s) (home k)) k (direct_news env srv cenv s x)
        (task_news k (sys_tasks s)) (pending k (members (sys_store s) (home k)) (sys_tasks s)) (Reading k c) (late s' x)
        (peerChannels (sys_pum s') k)" by blast
    then show ?thesis unfolding client_inv_def Let_def k D using True by (simp add: s' mem)
  next
    case False
    have old: "d < c" if "stream_of s x = Reading l d" for l d
      using that cs(6) new(2) unfolding chans_ok_def by (cases "sys_current s x") auto
    have D: "stream_news (st_updates st) (stream_of s x) = stream_news (sys_pum s) (stream_of s x)"
    proof (cases "stream_of s x")
      case (Reading l d)
      then show ?thesis using old [OF Reading] new(1) [of d] by (simp add: chan_news_def)
    qed simp_all
    have reg: "peerChannels (sys_pum s) ?k = Some d" if "stream_of s x = Reading l d" "peerChannels (st_updates st) ?k = Some d" for l d
      using old [OF that(1)] that(2) re by (cases "?k = k") auto
    from client_ok_reg [OF inv reg] have "client_ok (serial_of (sys_store s) (home ?k)) (members (sys_store s) (home ?k)) ?k (direct_news env srv cenv s x)
        (task_news ?k (sys_tasks s)) (pending ?k (members (sys_store s) (home ?k)) (sys_tasks s)) (stream_of s x) (late s x)
        (peerChannels (st_updates st) ?k)" .
    moreover have "late s' x = late s x" using False by (auto simp: s')
    ultimately show ?thesis using False unfolding client_inv_def Let_def by (simp add: s' mem direct_news_def D)
  qed
qed

lemma receive_news:
  assumes "receive m c = Some (m', u)"
  shows "peerChannels m' = peerChannels m" "(\<And>k. st \<noteq> Reading k c) \<Longrightarrow> stream_news m' st = stream_news m st"
    "chan_news m c = (case u of None \<Rightarrow> {} | Some v \<Rightarrow> news_of (Update v)) \<union> chan_news m' c"
proof -
  show "peerChannels m' = peerChannels m" using assms by (auto simp: receive_def split: list.splits if_splits)
  show "chan_news m c = (case u of None \<Rightarrow> {} | Some v \<Rightarrow> news_of (Update v)) \<union> chan_news m' c"
    using assms by (auto simp: receive_def chan_news_def split: list.splits if_splits)
  show "stream_news m' st = stream_news m st" if "\<And>k. st \<noteq> Reading k c"
  proof (cases st)
    case (Reading k d)
    then have "d \<noteq> c" using that by blast
    then show ?thesis using assms Reading by (auto simp: receive_def chan_news_def split: list.splits if_splits)
  qed simp_all
qed

text \<open>Another stream reads another channel.\<close>

lemma apart_streams:
  assumes "apart s" "sys_streams s n = Reading k c" "sys_current s x \<noteq> Some n"
  shows "stream_of s x \<noteq> Reading l c"
proof (cases "sys_current s x")
  case (Some m)
  then have "m \<noteq> n" using assms(3) by simp
  then have "sys_streams s m \<noteq> Reading l c" using assms(1,2) unfolding apart_def by blast
  then show ?thesis using Some by simp
qed simp

lemma inv_update:
  assumes "sides_agree env cenv" "converging env srv cenv eenv home s" "sys_streams s n = Reading k c"
    and "Sync_update env srv (sys_mgmt s) sent k c = Some (st, Inl msg)"
  shows "client_inv env srv cenv home (s\<lparr>sys_mgmt := st, sys_wire := (sys_wire s)(n := sys_wire s n @ [msg])\<rparr>) x"
proof -
  note cs = convergingD [OF assms(2)]
  obtain p v where rc: "receive (sys_pum s) c = Some (p, Some v)" and st: "st = (sys_mgmt s)\<lparr>st_updates := p\<rparr>"
    and v: "seal env srv (marshal_sync env) ''failed processing update message'' k (Update v) = Ret msg"
    by (rule Sync_update_sent [OF assms(4)])
  let ?s = "s\<lparr>sys_mgmt := st, sys_wire := (sys_wire s)(n := sys_wire s n @ [msg])\<rparr>"
  have "direct_news env srv cenv ?s x = direct_news env srv cenv s x"
  proof (cases "sys_current s x = Some n")
    case True
    then have "stream_key (sys_streams s n) = Some (public_key (env_box env) x)" using cs(8) by (simp add: reads_own_def)
    then have k: "k = public_key (env_box env) x" using assms(3) by simp
    have "wire_news env srv cenv x [msg] = news_of (Update v)" by (rule wire_news_sealed [OF assms(1) v [unfolded k]])
    then show ?thesis using True assms(3) receive_news(3) [OF rc] by (auto simp: direct_news_def st)
  next
    case False
    have "stream_news p (stream_of s x) = stream_news (sys_pum s) (stream_of s x)"
      by (rule receive_news(2) [OF rc]) (rule apart_streams [OF cs(4) assms(3) False])
    then show ?thesis using False by (simp add: direct_news_def st)
  qed
  then show ?thesis using cs(5) [of x] unfolding client_inv_def Let_def by (simp add: st receive_news(1) [OF rc])
qed

lemma inv_finish:
  assumes "client_inv env srv cenv home s x"
  shows "client_inv env srv cenv home (s\<lparr>sys_streams := (sys_streams s)(n := Finished k)\<rparr>) x"
proof (cases "sys_current s x = Some n")
  case True
  let ?D = "engine_news (sys_engine s x) \<union> wire_news env srv cenv x (wire_of s x)"
  have "?D \<subseteq> direct_news env srv cenv s x" by (auto simp: direct_news_def)
  from client_ok_less [OF assms [unfolded client_inv_def Let_def] this, of "Finished k"] show ?thesis
    using True by (simp add: client_inv_def Let_def direct_news_def)
qed (use assms in \<open>simp add: client_inv_def Let_def direct_news_def\<close>)

lemma inv_update_ends:
  assumes "converging env srv cenv eenv home s" "sys_streams s n = Reading k c" "Sync_update env srv (sys_mgmt s) sent k c = Some (st, r)"
  shows "client_inv env srv cenv home (s\<lparr>sys_mgmt := st, sys_streams := (sys_streams s)(n := Finished k)\<rparr>) x"
proof -
  note cs = convergingD [OF assms(1)]
  obtain p u where rc: "receive (sys_pum s) c = Some (p, u)" and st: "st = (sys_mgmt s)\<lparr>st_updates := p\<rparr>"
    by (rule Sync_update_state [OF assms(3)])
  show ?thesis
  proof (cases "sys_current s x = Some n")
    case True
    then show ?thesis using inv_finish [OF cs(5) [of x], of n k]
      by (simp add: client_inv_def Let_def direct_news_def st receive_news(1) [OF rc])
  next
    case False
    have "stream_news p (stream_of s x) = stream_news (sys_pum s) (stream_of s x)"
      by (rule receive_news(2) [OF rc]) (rule apart_streams [OF cs(4) assms(2) False])
    then show ?thesis using cs(5) [of x] False
      by (simp add: client_inv_def Let_def direct_news_def st receive_news(1) [OF rc])
  qed
qed

lemma inv_done:
  assumes "converging env srv cenv eenv home s" "Sync_done (sys_mgmt s) now e k = (st, r)"
    and s': "s' = s\<lparr>sys_mgmt := st, sys_streams := (sys_streams s)(n := Finished k)\<rparr>" and "calm home eenv s s'"
  shows "client_inv env srv cenv home s' x"
proof -
  note d = Sync_done_state [OF assms(2)]
  have "admin_step (sys_store s) (st_store st)" using d(2) admin_step.MarkPeer by (metis prod.collapse)
  from inv_admin [OF assms(1) this assms(4)] have mem: "members (st_store st) i = members (sys_store s) i"
    "serial_of (st_store st) i = serial_of (sys_store s) i" for i by (simp_all add: s')
  have "sends (\<lambda>l u. False) (sys_pum s) (st_updates st)" unfolding d(1) by (rule sends_close)
  then have "client_inv env srv cenv home (put_pum (st_updates st) s) x" by (rule inv_sends [OF assms(1)]) simp
  from inv_finish [OF this, of n k] show ?thesis by (simp add: client_inv_def Let_def direct_news_def s' mem)
qed

subsection \<open>The clients\<close>

lemma inv_boot:
  assumes "converging env srv cenv eenv home s"
  shows "client_inv env srv cenv home (s\<lparr>sys_engine := (sys_engine s)(y \<mapsto> NewEngine config conns), sys_current := (sys_current s)(y := None)\<rparr>) x"
proof (cases "x = y")
  case True
  let ?k = "public_key (env_box env) x" let ?N = "members (sys_store s) (home ?k)" and ?n = "serial_of (sys_store s) (home ?k)"
  have "view (NewEngine config conns) = (0, {})" by (simp add: view_def NewEngine_def Engine_GetPeers_def keys_def)
  moreover have "?k \<in> ?N \<Longrightarrow> 0 < ?n" using calmD(6) [OF convergingD(3) [OF assms]] .
  moreover have "timely ?n ?N ?k (task_news ?k (sys_tasks s))"
    using convergingD(5) [OF assms, of x] by (simp add: client_inv_def Let_def client_ok_def timely_Un)
  ultimately have "client_ok ?n ?N ?k {view (NewEngine config conns)} (task_news ?k (sys_tasks s)) pend NoStream miss reg" for pend miss reg
    by (auto simp: client_ok_def timely_def)
  then show ?thesis using True by (simp add: client_inv_def Let_def direct_news_def engine_news_def)
qed (use convergingD(5) [OF assms, of x] in \<open>simp add: client_inv_def Let_def direct_news_def\<close>)

lemma inv_leave:
  assumes "client_inv env srv cenv home s x"
  shows "client_inv env srv cenv home (s\<lparr>sys_current := (sys_current s)(y := None)\<rparr>) x"
proof (cases "x = y")
  case True
  have "engine_news (sys_engine s x) \<subseteq> direct_news env srv cenv s x" by (auto simp: direct_news_def)
  from client_ok_less [OF assms [unfolded client_inv_def Let_def] this, of NoStream] show ?thesis
    using True by (simp add: client_inv_def Let_def direct_news_def)
qed (use assms in \<open>simp add: client_inv_def Let_def direct_news_def\<close>)

lemma read_message:
  assumes "sides_agree env cenv" "urls_parse eenv" "converging env srv cenv eenv home s"
    and "sys_current s x = Some n" "sys_wire s n = msg # msgs" "sys_engine s x = Some e"
  obtains e' where "eng_ok e'" "receiveEvents cenv \<lparr>mgm_key = x\<rparr> (public_key (env_box env) (srv_wgKey srv)) (handleSync eenv) [Ret msg] e = (e', None)"
    "client_inv env srv cenv home (s\<lparr>sys_engine := (sys_engine s)(x \<mapsto> e'), sys_wire := (sys_wire s)(n := msgs)\<rparr>) x"
proof -
  note cs = convergingD [OF assms(3)] and parts = convergingD(7,8) [OF assms(3)]
  let ?k = "public_key (env_box env) x" and ?M = "\<lambda>_ l. is_ret (parse_key (en_box eenv) l)"
  have ok: "eng_ok e" using cs(4) assms(6) by (simp add: apart_def)
  have "stream_key (sys_streams s n) = Some ?k" using cs(8) assms(4) by (simp add: reads_own_def)
  moreover have "msg \<in> set (sys_wire s n)" using assms(5) by simp
  ultimately obtain u failure where u: "seal env srv (marshal_sync env) failure ?k u = Ret msg" "proper ?M ?k u"
    using parts(1) unfolding wires_ok_def by fastforce
  have dec: "DecryptMessage (mc_box cenv) (mc_nonce cenv) (mc_unmarshal_sync cenv) (public_key (env_box env) (srv_wgKey srv)) x (Enc_Body msg) = Ret u"
    by (rule sealed_opened [OF assms(1) u(1)]) (use assms(1) in \<open>auto simp: sides_agree_def\<close>)
  have valid: "map_valid eenv nm" if "Sync_NetworkMap u = Some nm" for nm using u(2) that by (auto simp: proper_def map_valid_def)
  obtain e' where e': "handleSync eenv u e = (e', Ret ())" "eng_ok e'"
    "view e' = view e \<and> (\<forall>(m, P) \<in> news_of u. m < fst (view e)) \<or> view e' \<in> news_of u \<and> fst (view e) \<le> fst (view e')"
    by (rule handleSync_view [OF ok assms(2) valid])
  let ?D = "wire_news env srv cenv x msgs \<union> stream_news (sys_pum s) (stream_of s x)"
  have D: "direct_news env srv cenv s x = insert (view e) (news_of u \<union> ?D)"
    using assms(4-6) wire_news_sealed [OF assms(1) u(1)] wire_news_Cons [of env srv cenv x msg msgs]
    by (auto simp: direct_news_def engine_news_def)
  have one: "v = w" if "v \<in> news_of u" "w \<in> news_of u" for v w using that by (auto simp: news_of_def split: option.splits)
  note inv = cs(5) [of x, unfolded client_inv_def Let_def D]
  from client_ok_deliver [OF inv e'(3) one] have "client_inv env srv cenv home (s\<lparr>sys_engine := (sys_engine s)(x \<mapsto> e'), sys_wire := (sys_wire s)(n := msgs)\<rparr>) x"
    using assms(4) by (simp add: client_inv_def Let_def direct_news_def engine_news_def Un_assoc)
  moreover have "receiveEvents cenv \<lparr>mgm_key = x\<rparr> (public_key (env_box env) (srv_wgKey srv)) (handleSync eenv) [Ret msg] e = (e', None)"
    using dec e'(1) by simp
  ultimately show ?thesis using e'(2) that by blast
qed

subsection \<open>Every step\<close>

lemma apart_parts:
  assumes "apart s" "\<And>n k c. sys_streams s' n = Reading k c \<Longrightarrow> sys_streams s n = Reading k c"
    and "\<And>x n. sys_current s' x = Some n \<Longrightarrow> sys_current s x = Some n" "\<And>x e. sys_engine s' x = Some e \<Longrightarrow> sys_engine s x = Some e \<or> eng_ok e"
  shows "apart s'"
  using assms(1) unfolding apart_def by (meson assms(2-4))

lemma apart_greet:
  assumes "apart s" "sys_streams s n = NoStream" "reads_own env (sys_streams s) (sys_current s)"
    and "current = sys_current s \<or> current = (sys_current s)(y \<mapsto> n) \<and> public_key (env_box env) y = k"
  shows "apart (s\<lparr>sys_streams := (sys_streams s)(n := Greeted k serial), sys_wire := wire, sys_current := current\<rparr>)"
proof -
  have "sys_current s x \<noteq> Some n" for x using assms(2,3) unfolding reads_own_def by (metis option.distinct(1) stream_key.simps(1))
  then have "x = z" if "current x = Some m" "current z = Some m" for x z m
    using that assms(1,4) unfolding apart_def by (auto split: if_splits)
  with assms(1) show ?thesis unfolding apart_def by (auto split: if_splits)
qed

lemma apart_enter:
  assumes "apart s" "chans_ok Q (sys_pum s) (sys_streams s)" "CreateChannel (sys_pum s) k = (m, c)"
  shows "apart (s\<lparr>sys_mgmt := st, sys_streams := (sys_streams s)(n := Reading k c), sys_missed := miss\<rparr>)"
proof -
  have "sys_streams s i \<noteq> Reading l c" for i l using assms(2) create_channels(2) [OF assms(3)] unfolding chans_ok_def by (metis less_irrefl)
  then have "i = j" if "((sys_streams s)(n := Reading k c)) i = Reading a d" "((sys_streams s)(n := Reading k c)) j = Reading b d" for i j a b d
    using that assms(1) unfolding apart_def by (auto split: if_splits)
  with assms(1) show ?thesis unfolding apart_def by (auto simp del: fun_upd_apply)
qed

lemma step_apart:
  assumes "sides_agree env cenv" "urls_parse eenv" "converging env srv cenv eenv home s" "sys_step env srv cenv eenv s s'"
  shows "apart s'"
proof -
  note cs = convergingD [OF assms(3)]
  show ?thesis using assms(4)
  proof (cases rule: sys_step.cases)
    case (Greet n now sent req k m current x)
    then show ?thesis using apart_greet [OF cs(4) Greet(2) cs(8) Greet(4)] by simp
  next
    case (Enter n k serial now st c)
    then show ?thesis using apart_enter [OF cs(4,6) Sync_enter_Ret(1) [OF Enter(3)]] by simp
  next
    case (Deliver x n msg msgs e e')
    obtain f where "eng_ok f" "receiveEvents cenv \<lparr>mgm_key = x\<rparr> (public_key (env_box env) (srv_wgKey srv)) (handleSync eenv) [Ret msg] e = (f, None)"
      by (rule read_message [OF assms(1-3) Deliver(2-4)])
    then have "eng_ok e'" using Deliver(5) by simp
    then show ?thesis by (intro apart_parts [OF cs(4)]) (auto simp: Deliver(1) split: if_splits)
  next
    case (DeliverFails x n msg msgs e e' r')
    obtain f where "receiveEvents cenv \<lparr>mgm_key = x\<rparr> (public_key (env_box env) (srv_wgKey srv)) (handleSync eenv) [Ret msg] e = (f, None)"
      by (rule read_message [OF assms(1-3) DeliverFails(2-4)])
    then show ?thesis using DeliverFails(5) by simp
  qed (rule apart_parts [OF cs(4)]; auto simp: NewEngine_ok split: if_splits)+
qed

lemma step_inv:
  assumes "sides_agree env cenv" "urls_parse eenv" "converging env srv cenv eenv home s" "sys_step env srv cenv eenv s s'" "calm home eenv s s'"
  shows "client_inv env srv cenv home s' x"
  using assms(4)
proof (cases rule: sys_step.cases)
  case (Admin t)
  have "sys_store s' = t" by (simp add: Admin(1))
  from inv_admin [OF assms(3) Admin(2) assms(5) this] show ?thesis unfolding Admin(1) by (intro inv_store [OF convergingD(5) [OF assms(3)]])
next
  case (Add j fr key u peer t p)
  show ?thesis by (rule inv_add [OF assms(3) Add(2,3,1) assms(5)])
next
  case (AddFails fr key u peer t e)
  have "t = sys_store s" by (rule AddPeer_fails [OF convergingD(1) [OF assms(3)] AddFails(2) calmD(1) [OF convergingD(3) [OF assms(3)]]])
  then show ?thesis using convergingD(5) [OF assms(3), of x] by (simp add: AddFails(1))
next
  case (Map j p nm)
  show ?thesis unfolding Map(1) by (rule inv_map [OF assms(3) Map(2,3)])
next
  case (MapFails j p e)
  show ?thesis unfolding MapFails(1) by (rule inv_map_fails [OF assms(3) MapFails(2,3)])
next
  case (Tell j p ps n r rs m)
  show ?thesis unfolding Tell(1) by (rule inv_tell [OF assms(3) Tell(2,3)])
next
  case (Told j p ps n)
  show ?thesis unfolding Told(1) by (rule inv_told [OF assms(3) Told(2)])
next
  case (Delete i k t m r')
  show ?thesis by (rule inv_delete [OF assms(3) Delete(2,1) assms(5)])
next
  case (Refresh hmac k g now m)
  show ?thesis unfolding Refresh(1) by (rule inv_refresh [OF assms(3) Refresh(2)])
next
  case (Greet n now sent req k m current y)
  show ?thesis unfolding Greet(1) by (rule inv_greet [OF assms(1,3) Greet(2-4)])
next
  case (Enter n k serial now st c)
  show ?thesis by (rule inv_enter [OF assms(3) Enter(2,3,1) assms(5)])
next
  case (Update n k c sent st msg)
  show ?thesis unfolding Update(1) by (rule inv_update [OF assms(1,3) Update(2,3)])
next
  case (UpdateEnds n k c sent st r')
  show ?thesis unfolding UpdateEnds(1) by (rule inv_update_ends [OF assms(3) UpdateEnds(2,3)])
next
  case (Done n k c now e st r')
  show ?thesis by (rule inv_done [OF assms(3) Done(3,1) assms(5)])
next
  case (Boot y config conns)
  show ?thesis unfolding Boot(1) by (rule inv_boot [OF assms(3)])
next
  case (Leave y)
  show ?thesis unfolding Leave(1) by (rule inv_leave [OF convergingD(5) [OF assms(3)]])
next
  case (Deliver y n msg msgs e e')
  show ?thesis
  proof (cases "x = y")
    case True
    show ?thesis by (rule read_message [OF assms(1-3) Deliver(2-4)]) (use Deliver True in simp)
  next
    case False
    then have "sys_current s x \<noteq> Some n" using convergingD(4) [OF assms(3)] Deliver(2) unfolding apart_def by blast
    then show ?thesis using convergingD(5) [OF assms(3), of x] False by (simp add: Deliver(1) client_inv_def Let_def direct_news_def)
  qed
next
  case (DeliverFails y n msg msgs e e' r')
  show ?thesis by (rule read_message [OF assms(1-3) DeliverFails(2-4)]) (use DeliverFails(5) in simp)
qed

lemma step_converging:
  assumes "sides_agree env cenv" "urls_parse eenv" "converging env srv cenv eenv home s" "sys_step env srv cenv eenv s s'" "calm home eenv s s'"
  shows "converging env srv cenv eenv home s'"
proof -
  have calm: "calm_store home eenv (sys_store s')" using assms(5) by (simp add: calm_def)
  have "is_ret (parse_key (en_box eenv) l)" if "mates (sys_store s') k l" for k l
    using that calm_belongs [OF calm] unfolding mates_def by blast
  then have "isolated env srv (\<lambda>_ l. is_ret (parse_key (en_box eenv) l)) s'"
    using step_isolated [OF assms(1,4)] assms(3) unfolding converging_def by metis
  then show ?thesis using calm step_apart [OF assms(1-4)] step_inv [OF assms] unfolding converging_def by blast
qed

lemma start_converging:
  assumes "good_store (st_store st)" "st_updates st = NewPeersUpdateManager" "calm home eenv (sys_start st) (sys_start st)"
  shows "converging env srv cenv eenv home (sys_start st)"
proof -
  have "task_news k Map.empty = {}" for k by (simp add: task_news_def)
  then have "client_inv env srv cenv home (sys_start st) x" for x
    by (simp add: client_inv_def Let_def client_ok_def timely_def direct_news_def engine_news_def sys_start_def)
  moreover have "apart (sys_start st)" by (simp add: apart_def sys_start_def)
  ultimately show ?thesis using start_isolated [OF assms(1,2)] assms(3) by (simp add: converging_def calm_def)
qed

lemma run_converging:
  assumes "sides_agree env cenv" "urls_parse eenv" "sys_run (calm home eenv) env srv cenv eenv s hist"
  shows "converging env srv cenv eenv home s"
  using assms(3)
proof (induction rule: sys_run.induct)
  case (init st)
  then show ?case by (intro start_converging)
next
  case (step s hist s')
  then show ?case by (intro step_converging [OF assms(1,2) step.IH step.hyps(2,3)])
qed

section \<open>Convergence\<close>

lemma quiet_engine:
  assumes "converging env srv cenv eenv home s"
    and "k = public_key (env_box env) x" "sys_engine s x = Some e"
    and "sys_current s x = Some n" "sys_streams s n = Reading k c" "n \<notin> sys_missed s" "peerChannels (sys_pum s) k = Some c"
    and "sys_tasks s = Map.empty" "sys_wire s n = []" "chan_buf (channels (sys_pum s) c) = []"
  shows "k \<in> members (sys_store s) (home k) \<and> set (Engine_GetPeers e) = members (sys_store s) (home k) - {k}"
proof -
  let ?N = "members (sys_store s) (home k)"
  have inv: "client_inv env srv cenv home s x" by (rule convergingD(5) [OF assms(1)])
  have D: "direct_news env srv cenv s x = {view e}"
    using assms(3-5,9,10) by (simp add: direct_news_def engine_news_def chan_news_def)
  have T: "task_news k (sys_tasks s) = {}" and P: "pending k ?N (sys_tasks s) = False" using assms(8) by (simp_all add: task_news_def pending_def)
  have st: "stream_of s x = Reading k c" and late: "late s x = False" using assms(4-6) by auto
  have "client_ok (serial_of (sys_store s) (home k)) ?N k {view e} {} False (Reading k c) False (Some c)"
    using inv unfolding client_inv_def Let_def assms(2) [symmetric] D T P st late assms(7) .
  then have "k \<in> ?N \<and> settled (?N - {k}) {view e}" by (simp add: client_ok_def)
  moreover from this have "snd (view e) = ?N - {k}" using settled_single by blast
  ultimately show ?thesis by (simp add: view_def)
qed

text \<open>
  C1: the engines converge: in every calm run, once no registration is under way, an engine whose stream
  missed nothing, is still the one the service knows for its peer and has nothing left to read, is connected to all the
  other peers of its account and to nobody else, whatever was added, deleted and sent in between, in whatever order.
\<close>

theorem engines_converge:
  assumes "sides_agree env cenv" "urls_parse eenv" "sys_run (calm home eenv) env srv cenv eenv s hist"
    and "k = public_key (env_box env) x" "sys_engine s x = Some e"
    and "sys_current s x = Some n" "sys_streams s n = Reading k c" "n \<notin> sys_missed s" "peerChannels (sys_pum s) k = Some c"
    and "sys_tasks s = Map.empty" "sys_wire s n = []" "chan_buf (channels (sys_pum s) c) = []"
  shows "k \<in> members (sys_store s) (home k) \<and> set (Engine_GetPeers e) = members (sys_store s) (home k) - {k}"
  using quiet_engine [OF run_converging [OF assms(1-3)] assms(4-12)] .

section \<open>Catching up\<close>

text \<open>A client that reads the stream of its peer, which the service knows by the channel \<open>c\<close>.\<close>

definition listens :: "Env \<Rightarrow> System \<Rightarrow> string \<Rightarrow> nat \<Rightarrow> nat \<Rightarrow> bool" where
  "listens env s x n c \<longleftrightarrow> sys_engine s x \<noteq> None \<and> sys_current s x = Some n \<and> n \<notin> sys_missed s \<and>
     sys_streams s n = Reading (public_key (env_box env) x) c \<and> peerChannels (sys_pum s) (public_key (env_box env) x) = Some c"

text \<open>The steps that do not touch the store are always calm.\<close>

lemma run_more:
  assumes "sys_run (calm home eenv) env srv cenv eenv s hist" "sys_step env srv cenv eenv s s'" "sys_store s' = sys_store s"
  shows "\<exists>hist'. sys_run (calm home eenv) env srv cenv eenv s' hist'"
proof -
  have "calm_store home eenv (sys_store s)" using assms(1) by (cases rule: sys_run.cases) (simp_all add: calm_def)
  then have "calm home eenv s s'" by (simp add: calm_def assms(3))
  from sys_run.step [OF assms(1,2) this] show ?thesis by blast
qed

lemma update_step:
  assumes "sides_agree env cenv" "listens env s x n c" "chan_buf (channels (sys_pum s) c) = u # us" "is_ret (marshal_sync env (Update u))"
  obtains s' msg where "sys_step env srv cenv eenv s s'" "sys_store s' = sys_store s" "sys_tasks s' = sys_tasks s" "listens env s' x n c"
    "chan_buf (channels (sys_pum s') c) = us" "sys_wire s' n = sys_wire s n @ [msg]"
proof -
  let ?k = "public_key (env_box env) x"
  obtain b nonce where b: "marshal_sync env (Update u) = Ret b" "env_nonce env = Ret nonce"
    using assms(1,4) by (cases "marshal_sync env (Update u)") (auto simp: sides_agree_def)
  obtain msg where msg: "seal env srv (marshal_sync env) ''failed processing update message'' ?k (Update u) = Ret msg"
    by (simp add: seal_def EncryptMessage_def Encrypt_def b)
  let ?m = "(sys_pum s)\<lparr>channels := (channels (sys_pum s))(c := (channels (sys_pum s) c)\<lparr>chan_buf := us\<rparr>)\<rparr>"
  let ?st = "(sys_mgmt s)\<lparr>st_updates := ?m\<rparr>"
  have "Sync_update env srv (sys_mgmt s) None ?k c = Some (?st, Inl msg)"
    using assms(3) msg by (simp add: Sync_update_def receive_def)
  moreover have "sys_streams s n = Reading ?k c" using assms(2) by (simp add: listens_def)
  ultimately have "sys_step env srv cenv eenv s (s\<lparr>sys_mgmt := ?st, sys_wire := (sys_wire s)(n := sys_wire s n @ [msg])\<rparr>)"
    by (intro sys_step.Update)
  then show ?thesis by (rule that [of _ msg]) (use assms(2) in \<open>simp_all add: listens_def\<close>)
qed

lemma deliver_step:
  assumes "sides_agree env cenv" "urls_parse eenv" "converging env srv cenv eenv home s" "listens env s x n c" "sys_wire s n = msg # msgs"
  obtains s' where "sys_step env srv cenv eenv s s'" "sys_store s' = sys_store s" "sys_tasks s' = sys_tasks s" "listens env s' x n c"
    "sys_pum s' = sys_pum s" "sys_wire s' n = msgs"
proof -
  obtain e where e: "sys_engine s x = Some e" using assms(4) by (auto simp: listens_def)
  have n: "sys_current s x = Some n" using assms(4) by (simp add: listens_def)
  obtain e' where e': "receiveEvents cenv \<lparr>mgm_key = x\<rparr> (public_key (env_box env) (srv_wgKey srv)) (handleSync eenv) [Ret msg] e = (e', None)"
    by (rule read_message [OF assms(1-3) n assms(5) e])
  show ?thesis by (rule that [OF sys_step.Deliver [OF n assms(5) e e']]) (use assms(4) in \<open>simp_all add: listens_def\<close>)
qed

text \<open>
  C5: what is under way arrives: from every state of a calm run in which no registration is under way, a
  client that listens and whose messages can be encoded catches up: by steps of its stream and of itself alone, its engine
  comes to be connected to all the other peers of its account and to nobody else.
\<close>

theorem engines_catch_up:
  assumes "sides_agree env cenv" "urls_parse eenv" "sys_run (calm home eenv) env srv cenv eenv s hist" "sys_tasks s = Map.empty"
    and "listens env s x n c" "\<forall>u \<in> set (chan_buf (channels (sys_pum s) c)). is_ret (marshal_sync env (Update u))"
  shows "\<exists>s' hist' e. sys_run (calm home eenv) env srv cenv eenv s' hist' \<and> sys_store s' = sys_store s \<and> listens env s' x n c \<and>
    sys_engine s' x = Some e \<and>
    set (Engine_GetPeers e) = members (sys_store s) (home (public_key (env_box env) x)) - {public_key (env_box env) x}"
  using assms(3-)
proof (induction "length (sys_wire s n) + 2 * length (chan_buf (channels (sys_pum s) c))" arbitrary: s hist rule: less_induct)
  case less
  note run = less.prems(1) and conv = run_converging [OF assms(1,2) less.prems(1)]
  have more: ?case if s': "sys_step env srv cenv eenv s s'" "sys_store s' = sys_store s" "sys_tasks s' = sys_tasks s" "listens env s' x n c"
    and fewer: "length (sys_wire s' n) + 2 * length (chan_buf (channels (sys_pum s') c)) < length (sys_wire s n) + 2 * length (chan_buf (channels (sys_pum s) c))"
    and bufs: "set (chan_buf (channels (sys_pum s') c)) \<subseteq> set (chan_buf (channels (sys_pum s) c))" for s'
  proof -
    obtain hist' where h: "sys_run (calm home eenv) env srv cenv eenv s' hist'" using run_more [OF run s'(1,2)] by blast
    have "sys_tasks s' = Map.empty" "\<forall>u \<in> set (chan_buf (channels (sys_pum s') c)). is_ret (marshal_sync env (Update u))"
      using s'(3) less.prems(2,4) bufs by auto
    from less.hyps [OF fewer h this(1) s'(4) this(2)] show ?thesis unfolding s'(2) .
  qed
  show ?case
  proof (cases "sys_wire s n")
    case (Cons msg msgs)
    obtain s' where s': "sys_step env srv cenv eenv s s'" "sys_store s' = sys_store s" "sys_tasks s' = sys_tasks s" "listens env s' x n c"
      "sys_pum s' = sys_pum s" "sys_wire s' n = msgs" by (rule deliver_step [OF assms(1,2) conv less.prems(3) Cons])
    from more [OF s'(1-4)] s'(5,6) Cons show ?thesis by simp
  next
    case wire: Nil
    show ?thesis
    proof (cases "chan_buf (channels (sys_pum s) c)")
      case (Cons u us)
      have "is_ret (marshal_sync env (Update u))" using less.prems(4) Cons by simp
      then obtain s' msg where s': "sys_step env srv cenv eenv s s'" "sys_store s' = sys_store s" "sys_tasks s' = sys_tasks s" "listens env s' x n c"
        "chan_buf (channels (sys_pum s') c) = us" "sys_wire s' n = sys_wire s n @ [msg]"
        by (rule update_step [OF assms(1) less.prems(3) Cons])
      from more [OF s'(1-4)] s'(5,6) Cons wire show ?thesis by auto
    next
      case Nil
      obtain e where e: "sys_engine s x = Some e" using less.prems(3) by (auto simp: listens_def)
      from quiet_engine [OF conv refl e _ _ _ _ less.prems(2) wire Nil] less.prems(3) run e show ?thesis by (auto simp: listens_def)
    qed
  qed
qed

end
