(* ===== verification/System_Example.thy ===== *)
theory System_Example
  imports System_Convergence
begin

text \<open>
  A small run of the whole system: an account with two peers that the default rule joins; one of them
  starts its engine, opens a stream and reads the first message. The theorems about runs apply to it.
\<close>

section \<open>The account\<close>

definition ex_on :: "string \<Rightarrow> nat \<Rightarrow> Peer" where
  "ex_on k n = (ex_peer_at k n)\<lparr>Peer_Status := Some \<lparr>Status_LastSeen = 5, Status_Connected = True\<rparr>\<rparr>"

definition ex_mesh :: Account where
  "ex_mesh = ex_net_account\<lparr>Account_Peers := GoMap [(''k'', ex_on ''k'' 2), (''l'', ex_on ''l'' 3)],
     Account_Network := (Account_Network ex_net_account)\<lparr>Network_Serial := 2\<rparr>\<rparr>"

lemma ex_mesh_fields:
  "Account_Id ex_mesh = ''acc''" "Account_Peers ex_mesh = GoMap [(''k'', ex_on ''k'' 2), (''l'', ex_on ''l'' 3)]"
  "Account_Rules ex_mesh = Account_Rules ex_account" "Account_Groups ex_mesh = Account_Groups ex_net_account"
  "Account_SetupKeys ex_mesh = Account_SetupKeys ex_account" "Account_Users ex_mesh = GoMap []"
  "Network_Serial (Account_Network ex_mesh) = 2" "Network_Net (Account_Network ex_mesh) = Network_Net (Account_Network ex_net_account)"
  by (simp_all add: ex_mesh_def ex_net_maps) (simp add: ex_net_account_def ex_id)

lemma ex_on_fields [simp]: "Peer_Key (ex_on k n) = k" "Peer_IP (ex_on k n) = ip16 100 69 n"
  by (simp_all add: ex_on_def ex_peer_at_def ex_peer_def)

lemma ex_mesh_closed: "rules_closed ex_mesh"
  by (simp add: rules_closed_def ex_mesh_fields ex_net_maps ex_maps vals_def)

lemma ex_mesh_good: "good_account ex_mesh"
proof -
  have "ip_string (ip16 100 69 2) \<noteq> ip_string (ip16 100 69 3)" by (simp add: ip_string_ip16_inj)
  then have "ip_unique ex_mesh" by (auto simp: ip_unique_def ex_mesh_fields split: if_splits)
  moreover have "wf_account ex_mesh"
    by (simp add: wf_account_def ex_mesh_fields ex_net_maps ex_maps keyed_def wf_map_def keys_def GenerateSetupKey_def Let_def)
  moreover have "one_off_ok ex_mesh" "slash16 ex_mesh"
    using ex_net_good by (auto simp: good_account_def one_off_ok_def slash16_def ex_mesh_fields ex_net_maps)
  ultimately show ?thesis by (simp add: good_account_def)
qed

lemma ex_mesh_stored:
  obtains t where "SaveAccount (empty_store ''store.json'' NoFile []) ex_mesh = (t, Ret ())" "write_faults t = []"
    "disk t = Stored (Accounts t)" "Accounts t = GoMap [(''acc'', ex_mesh)]" "good_store t"
    "\<forall>i. GetAccount t i = (if i = ''acc'' then Ret ex_mesh else Err (StatusError NotFound ''account not found''))"
    "\<forall>k. PeerKeyId2AccountId t k = (if k = ''k'' \<or> k = ''l'' then Some ''acc'' else None)"
proof -
  let ?s = "empty_store ''store.json'' NoFile []"
  obtain t where t: "SaveAccount ?s ex_mesh = (t, Ret ())" "write_faults t = []"
    using SaveAccount_no_faults [OF ex_mesh_closed, of ?s] by (auto simp: empty_store_def)
  have "Accounts ?s \<noteq> NilMap" by (simp add: empty_store_def)
  from SaveAccount_Accounts [OF t(1) this] have "Accounts t = GoMap [(''acc'', ex_mesh)]" by (simp add: empty_store_def ex_mesh_fields)
  moreover have "good_store t"
    using all_accounts_save [OF empty_good [of good_account] ex_mesh_good, of "''store.json''" NoFile "[]"] t(1) by simp
  moreover have "PeerKeyId2AccountId t k = (if k = ''k'' \<or> k = ''l'' then Some ''acc'' else None)" for k
    using SaveAccount_Ret(2) [OF t(1)] by (simp add: ex_mesh_fields vals_def empty_store_def)
  ultimately show ?thesis using SaveAccount_Ret(6) [OF t(1)] t by (intro that [of t]) (simp_all add: GetAccount_def)
qed

lemma ex_mesh_members:
  assumes "\<And>i. GetAccount t i = (if i = ''acc'' then Ret ex_mesh else Err (StatusError NotFound ''account not found''))"
  shows "members t i = (if i = ''acc'' then {''k'', ''l''} else {})" "serial_of t i = (if i = ''acc'' then 2 else 0)"
  by (auto simp: members_def serial_of_def member_keys_def assms ex_mesh_fields)

lemma ex_mesh_map:
  assumes "SaveAccount (empty_store ''store.json'' NoFile []) ex_mesh = (t, Ret ())" "k \<in> {''k'', ''l''}"
  obtains nm where "GetNetworkMap t k = Ret nm" "NetworkMap_Network nm = Account_Network ex_mesh"
    "{''k'', ''l''} - {k} \<subseteq> Peer_Key ` set (NetworkMap_Peers nm)"
proof -
  have wf: "wf_account ex_mesh" using ex_mesh_good by (simp add: good_account_def)
  obtain nm where nm: "GetNetworkMap t k = Ret nm" "NetworkMap_Network nm = Account_Network ex_mesh"
    "\<forall>p. p \<in> set (NetworkMap_Peers nm) \<longleftrightarrow> src_ids ex_mesh k \<noteq> {} \<and> dst_ids ex_mesh k \<noteq> {} \<and>
       (\<exists>pid. pid \<noteq> k \<and> lookup (Account_Peers ex_mesh) pid = Some p \<and> acl ex_mesh k pid)"
    using GetNetworkMap_saved [OF assms(1) wf ex_mesh_closed, of k] assms(2) by (auto simp: empty_store_def ex_mesh_fields)
  have "src_ids ex_mesh k \<noteq> {}" "dst_ids ex_mesh k \<noteq> {}" "\<And>l. l \<in> {''k'', ''l''} \<Longrightarrow> acl ex_mesh k l"
    using assms(2) by (auto simp: src_ids_def dst_ids_def acl_def ex_mesh_fields ex_net_maps ex_maps vals_def group_members_def)
  then have "p \<in> set (NetworkMap_Peers nm)" if "pid \<in> {''k'', ''l''} - {k}" "lookup (Account_Peers ex_mesh) pid = Some p" for p pid
    using that unfolding nm(3) [rule_format] by blast
  then have in_map: "\<exists>p \<in> set (NetworkMap_Peers nm). Peer_Key p = pid"
    if "pid \<in> {''k'', ''l''} - {k}" "lookup (Account_Peers ex_mesh) pid = Some p" "Peer_Key p = pid" for p pid
    using that by blast
  have at: "lookup (Account_Peers ex_mesh) ''k'' = Some (ex_on ''k'' 2)" "lookup (Account_Peers ex_mesh) ''l'' = Some (ex_on ''l'' 3)"
    by (simp_all add: ex_mesh_fields)
  have "\<exists>p \<in> set (NetworkMap_Peers nm). Peer_Key p = pid" if pid: "pid \<in> {''k'', ''l''} - {k}" for pid
  proof (cases "pid = ''k''")
    case True
    show ?thesis by (rule in_map [OF pid, of "ex_on ''k'' 2"]) (use True at in simp_all)
  next
    case False
    then have "pid = ''l''" using pid by simp
    show ?thesis by (rule in_map [OF pid, of "ex_on ''l'' 3"]) (use \<open>pid = ''l''\<close> at in simp_all)
  qed
  then have "{''k'', ''l''} - {k} \<subseteq> Peer_Key ` set (NetworkMap_Peers nm)" by (intro subsetI) (metis imageI)
  with nm(1,2) show ?thesis by (rule that)
qed

lemma ex_mesh_calm:
  assumes "SaveAccount (empty_store ''store.json'' NoFile []) ex_mesh = (t, Ret ())" "write_faults t = []"
    and get: "\<And>i. GetAccount t i = (if i = ''acc'' then Ret ex_mesh else Err (StatusError NotFound ''account not found''))"
    and idx: "\<And>k. PeerKeyId2AccountId t k = (if k = ''k'' \<or> k = ''l'' then Some ''acc'' else None)"
  shows "calm_store (\<lambda>_. ''acc'') ex_engine_env t"
  unfolding calm_store_def
proof (intro conjI allI impI ballI)
  note mem = ex_mesh_members [OF get]
  show "write_faults t = []" by (rule assms(2))
  show "rules_closed a" if "GetAccount t i = Ret a" for i a using that ex_mesh_closed by (auto simp: get split: if_splits)
  show "PeerKeyId2AccountId t k = Some i \<longleftrightarrow> k \<in> members t i" for k i by (auto simp: idx mem)
  fix i k assume k: "k \<in> members t i"
  then have ik: "i = ''acc''" "k \<in> {''k'', ''l''}" by (auto simp: mem split: if_splits)
  show "''acc'' = i" using ik by simp
  show "is_ret (parse_key (en_box ex_engine_env) k)" by (simp add: ex_engine_env_def ex_box_def)
  show "0 < serial_of t i" by (simp add: mem ik)
  obtain nm where "GetNetworkMap t k = Ret nm" "{''k'', ''l''} - {k} \<subseteq> Peer_Key ` set (NetworkMap_Peers nm)"
    by (rule ex_mesh_map [OF assms(1) ik(2)])
  then show "\<exists>nm. GetNetworkMap t k = Ret nm \<and> members t i - {k} \<subseteq> Peer_Key ` set (NetworkMap_Peers nm)" by (simp add: mem ik(1))
qed

lemma ex_mesh_marked:
  assumes "Accounts t = GoMap [(''acc'', ex_mesh)]" "write_faults t = []" "disk t = Stored (Accounts t)" "PeerKeyId2AccountId t ''k'' = Some ''acc''"
  shows "MarkPeerConnected t 5 ''k'' True = (t, Ret ())"
proof -
  let ?st = "\<lparr>Status_LastSeen = 5, Status_Connected = True\<rparr>"
  have p: "(ex_on ''k'' 2)\<lparr>Peer_Status := Some ?st\<rparr> = ex_on ''k'' 2" by (simp add: ex_on_def)
  have a: "ex_mesh\<lparr>Account_Peers := GoMap [(''k'', ex_on ''k'' 2), (''l'', ex_on ''l'' 3)]\<rparr> = ex_mesh" by (simp add: ex_mesh_def)
  have acc: "t\<lparr>Accounts := GoMap [(''acc'', ex_mesh)]\<rparr> = t" using assms(1) by (cases t) simp
  have w: "write_status t ''k'' ?st = t" using assms(1,4) p a acc by (simp add: write_status_def ex_mesh_fields map_entry_def)
  have "GetAccount t ''acc'' = Ret ex_mesh" using assms(1) by (simp add: GetAccount_def)
  moreover have "set_account t ''acc'' ex_mesh = t" using assms(1) acc by (simp add: set_account_def map_entry_def)
  moreover have "t\<lparr>disk := Stored (Accounts t)\<rparr> = t" using assms(3) by (cases t) simp
  then have "persist t = (t, Ret ())" using assms(2) by (simp add: persist.simps)
  ultimately have "SavePeer t ''acc'' (ex_on ''k'' 2) = (t, Ret ())"
    by (simp add: SavePeer_def GetGroupAll_def ex_mesh_fields ex_net_maps a)
  moreover have "Store_GetPeer t ''k'' = Ret (ex_on ''k'' 2)" "GetPeerAccount t ''k'' = Ret ex_mesh"
    using assms(1,4) by (simp_all add: Store_GetPeer_def GetPeerAccount_def GetAccount_def ex_mesh_fields)
  ultimately show ?thesis using w by (simp add: MarkPeerConnected_def Let_def ex_on_def ex_mesh_fields(1))
qed

section \<open>The run\<close>

definition ex_service_state :: "FileStore \<Rightarrow> Mgmt_State" where
  "ex_service_state t = \<lparr>st_store = t, st_updates = NewPeersUpdateManager, st_turn = NewTimeBasedAuthSecretsManager ex_turn\<rparr>"

lemma ex_greet:
  assumes "SaveAccount (empty_store ''store.json'' NoFile []) ex_mesh = (t, Ret ())"
    and "\<And>i. GetAccount t i = (if i = ''acc'' then Ret ex_mesh else Err (StatusError NotFound ''account not found''))"
    and "PeerKeyId2AccountId t ''k'' = Some ''acc''"
  obtains u m where "Sync_greet (ex_service u) ex_srv (ex_service_state t) 5 None ex_request = Ret (''k'', m)"
proof -
  obtain nm where nm: "GetNetworkMap t ''k'' = Ret nm" "NetworkMap_Network nm = Account_Network ex_mesh" by (rule ex_mesh_map [OF assms(1), of "''k''"]) simp
  let ?cred = "Some (GenerateCredentials (\<lambda>_ _. []) (st_turn (ex_service_state t)) 5)"
  obtain u where u: "toSyncResponse ex_config (ex_on ''k'' 2) (NetworkMap_Peers nm) ?cred (Network_Serial (Account_Network ex_mesh)) = Ret u"
    by (simp add: toSyncResponse_def toWiretrusteeConfig_def to_host_def ToResponseProto_def ex_config_def ex_turn_def Let_def)
  have peer: "GetPeer t ''k'' = Ret (ex_on ''k'' 2)" using assms(2,3) by (simp add: GetPeer_def Store_GetPeer_def ex_mesh_fields)
  obtain m where m: "sendInitialSync (ex_service u) ex_srv (ex_service_state t) 5 None ''k'' (ex_on ''k'' 2) = Ret m"
    using nm u
    by (simp add: sendInitialSync_def ex_turn_def ex_service_state_def ex_srv_def CurrentSerial_def
        Let_def seal_def EncryptMessage_def Encrypt_def ex_service_def ex_env_def ex_config_def)
  have "Sync_greet (ex_service u) ex_srv (ex_service_state t) 5 None ex_request = Ret (''k'', m)"
    using peer m by (simp add: Sync_greet_def ex_request_def ex_service_def ex_env_def ex_box_def DecryptMessage_def Decrypt_def ex_service_state_def)
  then show ?thesis by (rule that)
qed

lemma ex_calm:
  assumes "calm_store home eenv t" "sys_store s = t" "sys_store s' = t"
  shows "calm home eenv s s'"
  using assms by (simp add: calm_def)

lemma ex_listening:
  obtains u s hist m where "sys_run (calm (\<lambda>_. ''acc'') ex_engine_env) (ex_service u) ex_srv (ex_client_side u) ex_engine_env s hist"
    "sys_tasks s = Map.empty" "listens (ex_service u) s ''k'' 0 0" "sys_wire s 0 = [m]" "chan_buf (channels (sys_pum s) 0) = []"
    "members (sys_store s) ''acc'' = {''k'', ''l''}"
proof -
  obtain t where t: "SaveAccount (empty_store ''store.json'' NoFile []) ex_mesh = (t, Ret ())" "write_faults t = []"
    "disk t = Stored (Accounts t)" "Accounts t = GoMap [(''acc'', ex_mesh)]" and good: "good_store t"
    and found: "\<forall>i. GetAccount t i = (if i = ''acc'' then Ret ex_mesh else Err (StatusError NotFound ''account not found''))"
      "\<forall>k. PeerKeyId2AccountId t k = (if k = ''k'' \<or> k = ''l'' then Some ''acc'' else None)"
    by (rule ex_mesh_stored)
  note get = found(1) [rule_format] and idx = found(2) [rule_format]
  have k: "PeerKeyId2AccountId t ''k'' = Some ''acc''" by (simp add: idx)
  obtain u m where greet: "Sync_greet (ex_service u) ex_srv (ex_service_state t) 5 None ex_request = Ret (''k'', m)"
    by (rule ex_greet [OF t(1) get k])
  note calm = ex_calm [OF ex_mesh_calm [OF t(1,2) get idx]]
  let ?st = "ex_service_state t"
  have store: "st_store ?st = t" "st_updates ?st = NewPeersUpdateManager" by (simp_all add: ex_service_state_def)
  let ?run = "sys_run (calm (\<lambda>_. ''acc'') ex_engine_env) (ex_service u) ex_srv (ex_client_side u) ex_engine_env"
  let ?s0 = "sys_start ?st"
  have s0: "sys_store ?s0 = t" "sys_mgmt ?s0 = ?st" by (simp_all add: sys_start_def store)
  have "?run ?s0 [t]" using sys_run.init [of ?st] good store calm [OF s0(1) s0(1)] by simp
  let ?s1 = "?s0\<lparr>sys_engine := (sys_engine ?s0)(''k'' \<mapsto> ex_engine), sys_current := (sys_current ?s0)(''k'' := None)\<rparr>"
  have "sys_step (ex_service u) ex_srv (ex_client_side u) ex_engine_env ?s0 ?s1" unfolding ex_engine_def by (rule sys_step.Boot)
  from sys_run.step [OF \<open>?run ?s0 [t]\<close> this calm] s0 have r1: "?run ?s1 [t, t]" by simp
  let ?s2 = "?s1\<lparr>sys_streams := (sys_streams ?s1)(0 := Greeted ''k'' (peer_serial (sys_store ?s1) ''k'')),
      sys_wire := (sys_wire ?s1)(0 := [m]), sys_current := (sys_current ?s1)(''k'' \<mapsto> 0)\<rparr>"
  have "public_key (env_box (ex_service u)) ''k'' = ''k''" by (simp add: ex_service_def ex_env_def ex_box_def)
  then have "sys_step (ex_service u) ex_srv (ex_client_side u) ex_engine_env ?s1 ?s2"
    by (intro sys_step.Greet [where x = "''k''" and now = 5 and sent = None and req = ex_request]) (use greet s0 in \<open>simp_all add: sys_start_def\<close>)
  from sys_run.step [OF r1 this calm] s0 have r2: "?run ?s2 [t, t, t]" by simp
  have "MarkPeerConnected t 5 ''k'' True = (t, Ret ())" by (rule ex_mesh_marked [OF t(4,2,3) k])
  then obtain st where st: "Sync_enter ex_srv ?st 5 ''k'' = (st, Ret 0)" "st_store st = t"
    "st_updates st = fst (CreateChannel NewPeersUpdateManager ''k'')"
    by (simp add: Sync_enter_def CreateChannel_def NewPeersUpdateManager_def ex_service_state_def ex_srv_def ex_config_def ex_turn_def Let_def)
  let ?s3 = "?s2\<lparr>sys_mgmt := st, sys_streams := (sys_streams ?s2)(0 := Reading ''k'' 0),
      sys_missed := (if peer_serial (sys_store ?s2) ''k'' = peer_serial (sys_store ?s1) ''k'' then sys_missed ?s2 else insert 0 (sys_missed ?s2))\<rparr>"
  have "sys_step (ex_service u) ex_srv (ex_client_side u) ex_engine_env ?s2 ?s3"
    by (rule sys_step.Enter [where now = 5]) (use st s0 in \<open>simp_all add: sys_start_def\<close>)
  from sys_run.step [OF r2 this calm] s0 st(2) have r3: "?run ?s3 [t, t, t, t]" by simp
  show ?thesis
  proof (rule that [OF r3])
    show "sys_tasks ?s3 = Map.empty" "sys_wire ?s3 0 = [m]" by (simp_all add: sys_start_def)
    show "listens (ex_service u) ?s3 ''k'' 0 0"
      by (simp add: listens_def sys_start_def st(3) ex_service_def ex_env_def ex_box_def CreateChannel_def NewPeersUpdateManager_def Let_def)
    show "chan_buf (channels (sys_pum ?s3) 0) = []" by (simp add: st(3) CreateChannel_def NewPeersUpdateManager_def Let_def)
    show "members (sys_store ?s3) ''acc'' = {''k'', ''l''}"
      using ex_mesh_members(1) [OF get, of "''acc''"] by (simp add: st(2))
  qed
qed

lemma ex_urls: "urls_parse ex_engine_env"
  by (simp add: urls_parse_def ex_engine_env_def)

lemma ex_pub: "public_key (env_box (ex_service u)) x = x"
  by (simp add: ex_service_def ex_env_def ex_box_def)

lemma ex_quiet:
  obtains u s hist e where "sys_run (calm (\<lambda>_. ''acc'') ex_engine_env) (ex_service u) ex_srv (ex_client_side u) ex_engine_env s hist"
    "sys_tasks s = Map.empty" "listens (ex_service u) s ''k'' 0 0" "sys_wire s 0 = []" "chan_buf (channels (sys_pum s) 0) = []"
    "members (sys_store s) ''acc'' = {''k'', ''l''}" "sys_engine s ''k'' = Some e"
proof -
  obtain u s hist m where run: "sys_run (calm (\<lambda>_. ''acc'') ex_engine_env) (ex_service u) ex_srv (ex_client_side u) ex_engine_env s hist"
    and s: "sys_tasks s = Map.empty" "listens (ex_service u) s ''k'' 0 0" "sys_wire s 0 = [m]" "chan_buf (channels (sys_pum s) 0) = []"
    "members (sys_store s) ''acc'' = {''k'', ''l''}"
    by (rule ex_listening)
  obtain s' where s': "sys_step (ex_service u) ex_srv (ex_client_side u) ex_engine_env s s'" "sys_store s' = sys_store s" "sys_tasks s' = sys_tasks s"
    "listens (ex_service u) s' ''k'' 0 0" "sys_pum s' = sys_pum s" "sys_wire s' 0 = []"
    by (rule deliver_step [OF ex_sides ex_urls run_converging [OF ex_sides ex_urls run] s(2,3)])
  obtain hist' where "sys_run (calm (\<lambda>_. ''acc'') ex_engine_env) (ex_service u) ex_srv (ex_client_side u) ex_engine_env s' hist'"
    using run_more [OF run s'(1,2)] by blast
  moreover obtain e where "sys_engine s' ''k'' = Some e" using s'(4) by (auto simp: listens_def)
  ultimately show ?thesis using s' s by (intro that [of u s' hist' e]) simp_all
qed

section \<open>The theorems apply\<close>

theorem engines_converge_witness:
  "\<exists>u s hist e. sys_run (calm (\<lambda>_. ''acc'') ex_engine_env) (ex_service u) ex_srv (ex_client_side u) ex_engine_env s hist \<and>
     sys_engine s ''k'' = Some e \<and> set (Engine_GetPeers e) = {''l''}"
proof -
  obtain u s hist e where run: "sys_run (calm (\<lambda>_. ''acc'') ex_engine_env) (ex_service u) ex_srv (ex_client_side u) ex_engine_env s hist"
    and s: "sys_tasks s = Map.empty" "listens (ex_service u) s ''k'' 0 0" "sys_wire s 0 = []" "chan_buf (channels (sys_pum s) 0) = []"
    "members (sys_store s) ''acc'' = {''k'', ''l''}" "sys_engine s ''k'' = Some e" by (rule ex_quiet)
  have "set (Engine_GetPeers e) = members (sys_store s) ''acc'' - {''k''}"
    using engines_converge [OF ex_sides ex_urls run, of "''k''" "''k''" e 0 0] s by (simp add: ex_pub listens_def)
  then have "set (Engine_GetPeers e) = {''l''}" using s(5) by auto
  with run s(6) show ?thesis by blast
qed

theorem engines_catch_up_witness:
  "\<exists>u s hist e. sys_run (calm (\<lambda>_. ''acc'') ex_engine_env) (ex_service u) ex_srv (ex_client_side u) ex_engine_env s hist \<and>
     listens (ex_service u) s ''k'' 0 0 \<and> sys_engine s ''k'' = Some e \<and> set (Engine_GetPeers e) = {''l''}"
proof -
  obtain u s hist m where run: "sys_run (calm (\<lambda>_. ''acc'') ex_engine_env) (ex_service u) ex_srv (ex_client_side u) ex_engine_env s hist"
    and s: "sys_tasks s = Map.empty" "listens (ex_service u) s ''k'' 0 0" "sys_wire s 0 = [m]" "chan_buf (channels (sys_pum s) 0) = []"
    "members (sys_store s) ''acc'' = {''k'', ''l''}"
    by (rule ex_listening)
  from engines_catch_up [OF ex_sides ex_urls run s(1,2)] s(4) obtain s' hist' e
    where "sys_run (calm (\<lambda>_. ''acc'') ex_engine_env) (ex_service u) ex_srv (ex_client_side u) ex_engine_env s' hist'"
      "listens (ex_service u) s' ''k'' 0 0" "sys_engine s' ''k'' = Some e" "set (Engine_GetPeers e) = members (sys_store s) ''acc'' - {''k''}"
    by (auto simp: ex_pub)
  moreover have "members (sys_store s) ''acc'' - {''k''} = {''l''}" using s(5) by auto
  ultimately show ?thesis by metis
qed

theorem engines_isolated_witness:
  "\<exists>u s hist e. sys_run (calm (\<lambda>_. ''acc'') ex_engine_env) (ex_service u) ex_srv (ex_client_side u) ex_engine_env s hist \<and>
     sys_engine s ''k'' = Some e \<and> ''l'' \<in> set (Engine_GetPeers e) \<and>
     (\<exists>t \<in> set hist. \<exists>i. belongs t i ''k'' \<and> belongs t i ''l'')"
proof -
  obtain u s hist e where run: "sys_run (calm (\<lambda>_. ''acc'') ex_engine_env) (ex_service u) ex_srv (ex_client_side u) ex_engine_env s hist"
    and s: "sys_tasks s = Map.empty" "listens (ex_service u) s ''k'' 0 0" "sys_wire s 0 = []" "chan_buf (channels (sys_pum s) 0) = []"
    "members (sys_store s) ''acc'' = {''k'', ''l''}" "sys_engine s ''k'' = Some e" by (rule ex_quiet)
  have "set (Engine_GetPeers e) = members (sys_store s) ''acc'' - {''k''}"
    using quiet_engine [OF run_converging [OF ex_sides ex_urls run], of "''k''" "''k''" e 0 0] s by (simp add: ex_pub listens_def)
  then have l: "''l'' \<in> set (Engine_GetPeers e)" using s(5) by simp
  from engines_isolated [OF ex_sides run s(6) l] run s(6) l show ?thesis unfolding ex_pub by blast
qed

end
