(* ===== verification/Client_Config.thy ===== *)
theory Client_Config
  imports Mgmt_Client Engine
begin

text \<open>
  The configuration of the client, \<open>client/internal/config.go\<close>, the file it lives in
  (\<open>util.ReadJson\<close>, \<open>util.WriteJson\<close>), and the state of the client process,
  \<open>client/internal/state.go\<close>. Outside the program are \<open>url.ParseRequestURI\<close>, the generator of
  Wireguard keys and the file system: \<open>WriteJson\<close> writes a temporary file and renames it, so the
  file is replaced as a whole or not at all.
\<close>

section \<open>State of the process\<close>

datatype StatusType = Status_Idle | Status_Connecting | Status_Connected | Status_NeedsLogin | Status_LoginFailed

fun StatusType_text :: "StatusType \<Rightarrow> string" where
  "StatusType_text Status_Idle = ''Idle''"
| "StatusType_text Status_Connecting = ''Connecting''"
| "StatusType_text Status_Connected = ''Connected''"
| "StatusType_text Status_NeedsLogin = ''NeedsLogin''"
| "StatusType_text Status_LoginFailed = ''LoginFailed''"

record contextState =
  cs_err :: "GoError option"
  cs_status :: StatusType

definition CtxInitState :: contextState where
  "CtxInitState = \<lparr>cs_err = None, cs_status = Status_Idle\<rparr>"

definition state_Set :: "StatusType \<Rightarrow> contextState \<Rightarrow> contextState" where
  "state_Set update c = c\<lparr>cs_status := update, cs_err := None\<rparr>"

definition state_Status :: "contextState \<Rightarrow> StatusType outcome" where
  "state_Status c = (case cs_err c of Some e \<Rightarrow> Err e | None \<Rightarrow> Ret (cs_status c))"

definition state_Wrap :: "GoError \<Rightarrow> contextState \<Rightarrow> contextState" where
  "state_Wrap err c = c\<lparr>cs_err := Some err\<rparr>"

section \<open>Configuration\<close>

record URL =
  URL_Scheme :: string
  URL_Host :: string
  URL_String :: string

record Client_Config =
  CC_PrivateKey :: string
  CC_PreSharedKey :: string
  CC_ManagementURL :: "URL option"
  CC_AdminURL :: "URL option"
  CC_WgIface :: string
  CC_IFaceBlackList :: "string list"

datatype config_file = CfgMissing | CfgBroken GoError | CfgStored Client_Config

record Config_Env =
  ParseRequestURI :: "string \<Rightarrow> URL outcome"
  GeneratePrivateKey :: "string outcome"
  config_write :: "unit outcome"

definition WgInterfaceDefault :: string where
  "WgInterfaceDefault = ''wt0''"

definition parseURL :: "Config_Env \<Rightarrow> string \<Rightarrow> string \<Rightarrow> URL outcome" where
  "parseURL env serviceName managementURL =
     (case ParseRequestURI env managementURL of
        Err e \<Rightarrow> Err e
      | Panic p \<Rightarrow> Panic p
      | Ret parsedMgmtURL \<Rightarrow>
          if URL_Scheme parsedMgmtURL \<noteq> ''https'' \<and> URL_Scheme parsedMgmtURL \<noteq> ''http'' then
            Err (PlainError (''invalid '' @ serviceName @ '' URL provided '' @ managementURL @
              ''. Supported format [http|https]://[host]:[port]''))
          else Ret parsedMgmtURL)"

text \<open>The default of \<open>init\<close>, which panics when the URL does not parse.\<close>

definition managementURLDefault :: "Config_Env \<Rightarrow> URL outcome" where
  "managementURLDefault env =
     (case parseURL env ''Management URL'' ''https://api.wiretrustee.com:33073'' of
        Err e \<Rightarrow> Panic (ExplicitPanic (err_string e))
      | other \<Rightarrow> other)"

definition generateKey :: "Config_Env \<Rightarrow> string outcome" where
  "generateKey env =
     (case GeneratePrivateKey env of
        Err e \<Rightarrow> Panic (ExplicitPanic (err_string e))
      | other \<Rightarrow> other)"

definition write_config :: "Config_Env \<Rightarrow> config_file \<Rightarrow> Client_Config \<Rightarrow> config_file \<times> Client_Config outcome" where
  "write_config env f config =
     (case config_write env of
        Err e \<Rightarrow> (f, Err e)
      | Panic p \<Rightarrow> (f, Panic p)
      | Ret u \<Rightarrow> (CfgStored config, Ret config))"

text \<open>\<open>createNewConfig\<close> does not use its parameter \<open>adminURL\<close>.\<close>

definition createNewConfig ::
  "Config_Env \<Rightarrow> config_file \<Rightarrow> string \<Rightarrow> string \<Rightarrow> string \<Rightarrow> config_file \<times> Client_Config outcome" where
  "createNewConfig env f managementURL adminURL preSharedKey =
     (case generateKey env of
        Err e \<Rightarrow> (f, Err e)
      | Panic p \<Rightarrow> (f, Panic p)
      | Ret wgKey \<Rightarrow>
          (case (if managementURL \<noteq> [] then parseURL env ''Management URL'' managementURL else managementURLDefault env) of
             Err e \<Rightarrow> (f, Err e)
           | Panic p \<Rightarrow> (f, Panic p)
           | Ret url \<Rightarrow>
               write_config env f
                 \<lparr>CC_PrivateKey = wgKey, CC_PreSharedKey = preSharedKey, CC_ManagementURL = Some url,
                  CC_AdminURL = None, CC_WgIface = WgInterfaceDefault,
                  CC_IFaceBlackList = [WgInterfaceDefault, ''tun0'']\<rparr>))"

text \<open>
  The three updates of \<open>ReadConfig\<close>, each with the flag \<open>refresh\<close>. The text of the URL of the
  file is read without looking whether there is one.
\<close>

definition update_management :: "Config_Env \<Rightarrow> string \<Rightarrow> Client_Config \<times> bool \<Rightarrow> (Client_Config \<times> bool) outcome" where
  "update_management env managementURL cr =
     (if managementURL = [] then Ret cr
      else (case CC_ManagementURL (fst cr) of
              None \<Rightarrow> Panic NilDereference
            | Some url \<Rightarrow>
                if URL_String url = managementURL then Ret cr
                else (case parseURL env ''Management URL'' managementURL of
                        Err e \<Rightarrow> Err e
                      | Panic p \<Rightarrow> Panic p
                      | Ret newURL \<Rightarrow> Ret ((fst cr)\<lparr>CC_ManagementURL := Some newURL\<rparr>, True))))"

definition update_admin :: "Config_Env \<Rightarrow> string \<Rightarrow> Client_Config \<times> bool \<Rightarrow> (Client_Config \<times> bool) outcome" where
  "update_admin env adminURL cr =
     (if adminURL \<noteq> [] \<and>
         (case CC_AdminURL (fst cr) of None \<Rightarrow> True | Some url \<Rightarrow> URL_String url \<noteq> adminURL) then
        (case parseURL env ''Admin Panel URL'' adminURL of
           Err e \<Rightarrow> Err e
         | Panic p \<Rightarrow> Panic p
         | Ret newURL \<Rightarrow> Ret ((fst cr)\<lparr>CC_AdminURL := Some newURL\<rparr>, True))
      else Ret cr)"

definition update_preSharedKey :: "string option \<Rightarrow> Client_Config \<times> bool \<Rightarrow> Client_Config \<times> bool" where
  "update_preSharedKey preSharedKey cr =
     (case preSharedKey of
        None \<Rightarrow> cr
      | Some psk \<Rightarrow> if CC_PreSharedKey (fst cr) \<noteq> psk then ((fst cr)\<lparr>CC_PreSharedKey := psk\<rparr>, True) else cr)"

definition ReadConfig ::
  "Config_Env \<Rightarrow> config_file \<Rightarrow> string \<Rightarrow> string \<Rightarrow> string option \<Rightarrow> config_file \<times> Client_Config outcome" where
  "ReadConfig env f managementURL adminURL preSharedKey =
     (case f of
        CfgMissing \<Rightarrow> (f, Err (StatusError NotFound ''config file doesn't exist''))
      | CfgBroken e \<Rightarrow> (f, Err e)
      | CfgStored config \<Rightarrow>
          (case update_management env managementURL (config, False) of
             Err e \<Rightarrow> (f, Err e)
           | Panic p \<Rightarrow> (f, Panic p)
           | Ret cr1 \<Rightarrow>
               (case update_admin env adminURL cr1 of
                  Err e \<Rightarrow> (f, Err e)
                | Panic p \<Rightarrow> (f, Panic p)
                | Ret cr2 \<Rightarrow>
                    (case update_preSharedKey preSharedKey cr2 of
                       (config', refresh) \<Rightarrow> if refresh then write_config env f config' else (f, Ret config')))))"

definition Client_GetConfig ::
  "Config_Env \<Rightarrow> config_file \<Rightarrow> string \<Rightarrow> string \<Rightarrow> string \<Rightarrow> config_file \<times> Client_Config outcome" where
  "Client_GetConfig env f managementURL adminURL preSharedKey =
     (case f of
        CfgMissing \<Rightarrow> createNewConfig env f managementURL adminURL preSharedKey
      | _ \<Rightarrow> ReadConfig env f managementURL adminURL
              (if preSharedKey = ''**********'' then None else Some preSharedKey))"

section \<open>Calls of the Management Service\<close>

text \<open>
  \<open>config.ManagementURL.Scheme\<close> is read before anything else: a configuration without the URL
  makes the calls panic. The flag for TLS goes to the dialling, which is an argument.
\<close>

definition dial_management ::
  "Mgm_Env \<Rightarrow> (string \<Rightarrow> bool \<Rightarrow> unit outcome) \<Rightarrow> Client_Config \<Rightarrow> Mgm_Client outcome" where
  "dial_management env dial config =
     (case parse_key (mc_box env) (CC_PrivateKey config) of
        Err e \<Rightarrow> Err e
      | Panic p \<Rightarrow> Panic p
      | Ret myPrivateKey \<Rightarrow>
          (case CC_ManagementURL config of
             None \<Rightarrow> Panic NilDereference
           | Some url \<Rightarrow> mgm_NewClient myPrivateKey (dial (URL_Host url) (URL_Scheme url = ''https''))))"

text \<open>The provider of the flow is printed as the name of its number.\<close>

definition GetDeviceAuthorizationFlowInfo ::
  "Mgm_Env \<Rightarrow> 's Mgm_Rpc \<Rightarrow> (string \<Rightarrow> bool \<Rightarrow> unit outcome) \<Rightarrow> 's \<Rightarrow> Client_Config \<Rightarrow> DeviceAuthorizationFlow outcome" where
  "GetDeviceAuthorizationFlowInfo env rpc dial s config =
     (case dial_management env dial config of
        Err e \<Rightarrow> Err e
      | Panic p \<Rightarrow> Panic p
      | Ret c \<Rightarrow>
          (case GetServerPublicKey env (rpc_state rpc) (rpc_GetServerKey rpc s) of
             Err e \<Rightarrow> Err e
           | Panic p \<Rightarrow> Panic p
           | Ret serverKey \<Rightarrow>
               (case mgm_GetDeviceAuthorizationFlow env rpc c s serverKey of
                  Err e \<Rightarrow> Err e
                | Panic p \<Rightarrow> Panic p
                | Ret flow \<Rightarrow>
                    (case rpc_Close rpc of
                       Err e \<Rightarrow> Err e
                     | Panic p \<Rightarrow> Panic p
                     | Ret u \<Rightarrow>
                         Ret \<lparr>Flow_Provider = (if FlowMsg_Provider flow = 0 then ''HOSTED'' else dec (FlowMsg_Provider flow)),
                              Flow_ProviderConfig = FlowMsg_ProviderConfig flow\<rparr>))))"

definition client_Login ::
  "(string \<Rightarrow> string outcome) \<Rightarrow> Mgm_Env \<Rightarrow> 's Mgm_Rpc \<Rightarrow> (string \<Rightarrow> bool \<Rightarrow> unit outcome) \<Rightarrow> Info option \<Rightarrow> 's \<Rightarrow>
     Client_Config \<Rightarrow> string \<Rightarrow> string \<Rightarrow> 's \<times> unit outcome" where
  "client_Login uuid_Parse env rpc dial info s config setupKey jwtToken =
     (case dial_management env dial config of
        Err e \<Rightarrow> (s, Err e)
      | Panic p \<Rightarrow> (s, Panic p)
      | Ret c \<Rightarrow>
          (case GetServerPublicKey env (rpc_state rpc) (rpc_GetServerKey rpc s) of
             Err e \<Rightarrow> (s, Err e)
           | Panic p \<Rightarrow> (s, Panic p)
           | Ret serverKey \<Rightarrow>
               on_ret (loginPeer uuid_Parse env rpc info c s serverKey setupKey jwtToken)
                 (\<lambda>s e. (s, Err e))
                 (\<lambda>s resp. (s, rpc_Close rpc))))"

end
