(* ===== verification/Client_Run.thy ===== *)
theory Client_Run
  imports Client_Config
begin

text \<open>
  The main loop of the client, \<open>client/internal/connect.go\<close>: log in, connect to the Signal
  Exchange, start the engine, wait until its context is done, shut everything down, and try
  again. \<open>system.GetInfo\<close>, dialling and closing are outside the program. What the outside does
  in one attempt is an \<open>Attempt\<close>; the management service has a state \<open>'s\<close>, the Wireguard
  device a state \<open>'d\<close>.
\<close>

definition ErrResetConnection :: GoError where
  "ErrResetConnection = PlainError ''reset connection''"

section \<open>Configuration of the engine\<close>

text \<open>The loop \<open>for i := 0; i < len(list); i += 2\<close>.\<close>

fun every_second :: "'a list \<Rightarrow> 'a list" where
  "every_second [] = []"
| "every_second [x] = [x]"
| "every_second (x # y # xs) = x # every_second xs"

definition createEngineConfig :: "Box \<Rightarrow> string \<Rightarrow> Client_Config \<Rightarrow> PeerConfig \<Rightarrow> EngineConfig outcome" where
  "createEngineConfig box key config peerConfig =
     (let iFaceBlackList = remdups (every_second (CC_IFaceBlackList config));
          engineConf = \<lparr>EC_WgPort = DefaultWgPort, EC_WgIfaceName = CC_WgIface config, EC_WgAddr = PeerConfig_Address peerConfig,
            EC_WgPrivateKey = key, EC_IFaceBlackList = iFaceBlackList, EC_PreSharedKey = None,
            EC_UDPMuxPort = 0, EC_UDPMuxSrflxPort = 0\<rparr>
      in if CC_PreSharedKey config \<noteq> [] then
           (case parse_key box (CC_PreSharedKey config) of
              Err e \<Rightarrow> Err e
            | Panic p \<Rightarrow> Panic p
            | Ret preSharedKey \<Rightarrow> Ret (engineConf\<lparr>EC_PreSharedKey := Some preSharedKey\<rparr>))
         else Ret engineConf)"

section \<open>Connecting\<close>

text \<open>\<open>wtConfig.Signal\<close> is read without looking whether there is one.\<close>

definition connectToSignal ::
  "(string \<Rightarrow> bool \<Rightarrow> unit outcome) \<Rightarrow> WiretrusteeConfig \<Rightarrow> string \<Rightarrow> Sig_Client outcome" where
  "connectToSignal dial wtConfig ourPrivateKey =
     (case Wt_Signal wtConfig of
        None \<Rightarrow> Panic NilDereference
      | Some host \<Rightarrow>
          (case NewClient ourPrivateKey (dial (HostConfig_Uri host) (HostConfig_Protocol host = PB_HTTPS)) of
             Err e \<Rightarrow> Err (StatusError FailedPrecondition (''failed connecting to Signal Service : '' @ err_string e))
           | other \<Rightarrow> other))"

definition connectToManagement ::
  "Mgm_Env \<Rightarrow> 's Mgm_Rpc \<Rightarrow> unit outcome \<Rightarrow> Info option \<Rightarrow> string \<Rightarrow> 's \<Rightarrow> 's \<times> LoginResponse outcome" where
  "connectToManagement env rpc dialled sysInfo ourPrivateKey s =
     (case mgm_NewClient ourPrivateKey dialled of
        Err e \<Rightarrow> (s, Err (StatusError FailedPrecondition (''failed connecting to Management Service : '' @ err_string e)))
      | Panic p \<Rightarrow> (s, Panic p)
      | Ret client \<Rightarrow>
          (case GetServerPublicKey env (rpc_state rpc) (rpc_GetServerKey rpc s) of
             Err e \<Rightarrow> (s, Err (StatusError FailedPrecondition
               (''failed while getting Management Service public key: '' @ err_string e)))
           | Panic p \<Rightarrow> (s, Panic p)
           | Ret serverPublicKey \<Rightarrow> mgm_Login env rpc client s serverPublicKey sysInfo))"

section \<open>One attempt\<close>

text \<open>
  \<open>at_cancelled\<close>: the context is done before the attempt. \<open>at_reset\<close>: the engine stopped because
  one of its streams failed for good, otherwise because the context was cancelled from outside.
  \<open>at_stop\<close>: the backoff gives up after a failure of this attempt.
\<close>

record ('s, 'd) Attempt =
  at_cancelled :: bool
  at_dial :: "string \<Rightarrow> bool \<Rightarrow> unit outcome"
  at_rpc :: "'s Mgm_Rpc"
  at_info :: "Info option"
  at_signal_dial :: "string \<Rightarrow> bool \<Rightarrow> unit outcome"
  at_signal_Close :: "unit outcome"
  at_ctl :: "'d Wg_Ctrl"
  at_start :: Start_Env
  at_reset :: bool
  at_stop :: bool

record ('s, 'd) Run_State =
  rs_state :: contextState
  rs_remote :: 's
  rs_device :: 'd

definition wrapErr :: "('s, 'd) Run_State \<Rightarrow> GoError \<Rightarrow> ('s, 'd) Run_State \<times> unit outcome" where
  "wrapErr st err = (st\<lparr>rs_state := state_Wrap err (rs_state st)\<rparr>, Err err)"

text \<open>After the context of the engine is done: close the clients and the engine.\<close>

definition run_shutdown ::
  "('s, 'd) Attempt \<Rightarrow> Engine \<Rightarrow> ('s, 'd) Run_State \<Rightarrow> ('s, 'd) Run_State \<times> unit outcome" where
  "run_shutdown a engine st =
     on_ret (st, rpc_Close (at_rpc a)) wrapErr
       (\<lambda>st u. on_ret (st, at_signal_Close a) wrapErr
         (\<lambda>st u. on_ret (st, snd (Engine_Stop (at_start a) engine)) wrapErr
           (\<lambda>st u. case state_Status (rs_state st) of
                     Err e \<Rightarrow> if e = ErrResetConnection then (st, Err e) else (st, Ret ())
                   | Panic p \<Rightarrow> (st, Panic p)
                   | Ret s \<Rightarrow> (st, Ret ()))))"

text \<open>From the response to the login to the end of the engine.\<close>

definition run_engine ::
  "Mgm_Env \<Rightarrow> ('s, 'd) Attempt \<Rightarrow> Client_Config \<Rightarrow> string \<Rightarrow> (nat \<Rightarrow> Conn) \<Rightarrow> LoginResponse \<Rightarrow> ('s, 'd) Run_State \<Rightarrow>
     ('s, 'd) Run_State \<times> unit outcome" where
  "run_engine env a config myPrivateKey conns loginResp st =
     on_ret (st, connectToSignal (at_signal_dial a) (LoginResp_WiretrusteeConfig loginResp) myPrivateKey) wrapErr
       (\<lambda>st signalClient.
          on_ret (st, createEngineConfig (mc_box env) myPrivateKey config (LoginResp_PeerConfig loginResp)) wrapErr
            (\<lambda>st engineConfig.
               case Engine_Start (at_ctl a) (at_start a) (rs_device st) (NewEngine engineConfig conns) of
                 ((d, engine), launched) \<Rightarrow>
                   on_ret (st\<lparr>rs_device := d\<rparr>, launched) wrapErr
                     (\<lambda>st u.
                        let st1 = st\<lparr>rs_state := state_Set Status_Connected (rs_state st)\<rparr>;
                            st2 = (if at_reset a then st1\<lparr>rs_state := state_Wrap ErrResetConnection (rs_state st1)\<rparr> else st1)
                        in run_shutdown a engine st2)))"

definition run_operation ::
  "Mgm_Env \<Rightarrow> Client_Config \<Rightarrow> (nat \<Rightarrow> Conn) \<Rightarrow> ('s, 'd) Attempt \<Rightarrow> ('s, 'd) Run_State \<Rightarrow>
     ('s, 'd) Run_State \<times> unit outcome" where
  "run_operation env config conns a st0 =
     (if at_cancelled a then (st0, Ret ())
      else let st = st0\<lparr>rs_state := state_Set Status_Connecting (rs_state st0)\<rparr>
           in on_ret (st, parse_key (mc_box env) (CC_PrivateKey config)) wrapErr
                (\<lambda>st myPrivateKey.
                   case CC_ManagementURL config of
                     None \<Rightarrow> (st, Panic NilDereference)
                   | Some url \<Rightarrow>
                       (case connectToManagement env (at_rpc a) (at_dial a (URL_Host url) (URL_Scheme url = ''https''))
                               (at_info a) myPrivateKey (rs_remote st) of
                          (s, logged_in) \<Rightarrow>
                            on_ret (st\<lparr>rs_remote := s\<rparr>, logged_in)
                              (\<lambda>st e. if from_status e \<and> err_code e = PermissionDenied
                                      then (st\<lparr>rs_state := state_Set Status_NeedsLogin (rs_state st)\<rparr>, Ret ())
                                      else wrapErr st e)
                              (\<lambda>st loginResp. run_engine env a config myPrivateKey conns loginResp st))))"

section \<open>The loop\<close>

text \<open>\<open>backoff.Retry\<close>; \<open>None\<close> means that the next attempt has not happened yet.\<close>

fun run_loop ::
  "Mgm_Env \<Rightarrow> Client_Config \<Rightarrow> (nat \<Rightarrow> Conn) \<Rightarrow> ('s, 'd) Attempt list \<Rightarrow> ('s, 'd) Run_State \<Rightarrow>
     ('s, 'd) Run_State \<times> unit outcome option" where
  "run_loop env config conns [] st = (st, None)"
| "run_loop env config conns (a # as) st =
     (case run_operation env config conns a st of
        (st', Ret u) \<Rightarrow> (st', Some (Ret ()))
      | (st', Panic p) \<Rightarrow> (st', Some (Panic p))
      | (st', Err e) \<Rightarrow> if at_stop a then (st', Some (Err e)) else run_loop env config conns as st')"

fun run_again :: "('s, 'd) Attempt \<Rightarrow> unit outcome \<Rightarrow> bool" where
  "run_again a (Err e) = (\<not> at_stop a)"
| "run_again a q = False"

interpretation run_retry: retry_loop
  "\<lambda>a st. case run_operation env config conns a st of (st', q) \<Rightarrow> (st', Some q)" run_again "\<lambda>q. q" "run_loop env config conns"
  for env config conns
  by unfold_locales (auto split: prod.splits outcome.splits)

text \<open>The deferred function of \<open>RunClient\<close>.\<close>

definition run_deferred :: "contextState \<Rightarrow> contextState" where
  "run_deferred c =
     (case state_Status c of
        Ret s \<Rightarrow> if s \<noteq> Status_NeedsLogin then state_Set Status_Idle c else c
      | _ \<Rightarrow> state_Set Status_Idle c)"

definition RunClient ::
  "Mgm_Env \<Rightarrow> Client_Config \<Rightarrow> (nat \<Rightarrow> Conn) \<Rightarrow> ('s, 'd) Attempt list \<Rightarrow> ('s, 'd) Run_State \<Rightarrow>
     ('s, 'd) Run_State \<times> unit outcome option" where
  "RunClient env config conns as st =
     (case run_loop env config conns as st of
        (st', None) \<Rightarrow> (st', None)
      | (st', Some result) \<Rightarrow> (st'\<lparr>rs_state := run_deferred (rs_state st')\<rparr>, Some result))"

end
