(* ===== verification/Oauth.thy ===== *)
theory Oauth
  imports Turn_Credentials
begin

text \<open>
  The device flow of a single sign-on, \<open>client/internal/oauth.go\<close>. Outside the program are HTTP
  (the result of a request is an \<open>Http_Result\<close>), the JSON codec and base64. \<open>WaitToken\<close> is a loop
  on the ticks of a timer: the model runs it on the list of what happens, with the interval of
  the timer as its state.
\<close>

section \<open>Data\<close>

record DeviceAuthInfo =
  Dev_DeviceCode :: string
  Dev_UserCode :: string
  Dev_VerificationURI :: string
  Dev_VerificationURIComplete :: string
  Dev_ExpiresIn :: int
  Dev_Interval :: int

record TokenInfo =
  Tok_AccessToken :: string
  Tok_RefreshToken :: string
  Tok_IDToken :: string
  Tok_TokenType :: string
  Tok_ExpiresIn :: int

record TokenRequestPayload =
  Pay_GrantType :: string
  Pay_DeviceCode :: string
  Pay_ClientID :: string
  Pay_RefreshToken :: string

record TokenRequestResponse =
  TResp_Error :: string
  TResp_ErrorDescription :: string
  TResp_TokenInfo :: TokenInfo

record Hosted =
  Hosted_Audience :: string
  Hosted_ClientID :: string
  Hosted_Domain :: string

definition HostedGrantType :: string where
  "HostedGrantType = ''urn:ietf:params:oauth:grant-type:device_code''"

definition HostedRefreshGrant :: string where
  "HostedRefreshGrant = ''refresh_token''"

text \<open>The result of building the request, of \<open>Do\<close>, of reading the body, and the status code.\<close>

record Http_Result =
  hr_NewRequest :: "unit outcome"
  hr_Do :: "unit outcome"
  hr_Body :: "string outcome"
  hr_StatusCode :: int

record Oauth_Env =
  oa_unmarshal_device :: "string \<Rightarrow> DeviceAuthInfo outcome"
  oa_unmarshal_token :: "string \<Rightarrow> TokenRequestResponse outcome"
  oa_base64 :: "string \<Rightarrow> string outcome"
  oa_unmarshal_claims :: "string \<Rightarrow> string outcome"

section \<open>Operations\<close>

definition NewHostedDeviceFlow :: "string \<Rightarrow> string \<Rightarrow> string \<Rightarrow> Hosted" where
  "NewHostedDeviceFlow audience clientID domain =
     \<lparr>Hosted_Audience = audience, Hosted_ClientID = clientID, Hosted_Domain = domain\<rparr>"

definition GetClientID :: "Hosted \<Rightarrow> string" where
  "GetClientID h = Hosted_ClientID h"

text \<open>\<open>http\<close> answers a request to a URL with the audience and the client.\<close>

definition RequestDeviceCode ::
  "Oauth_Env \<Rightarrow> (string \<Rightarrow> string \<times> string \<Rightarrow> Http_Result) \<Rightarrow> Hosted \<Rightarrow> DeviceAuthInfo outcome" where
  "RequestDeviceCode env http h =
     (let url = ''https://'' @ Hosted_Domain h @ ''/oauth/device/code'';
          res = http url (Hosted_Audience h, Hosted_ClientID h)
      in case hr_NewRequest res of
           Err e \<Rightarrow> Err (PlainError (''creating request failed with error: '' @ err_string e))
         | Panic p \<Rightarrow> Panic p
         | Ret u \<Rightarrow>
             (case hr_Do res of
                Err e \<Rightarrow> Err (PlainError (''doing request failed with error: '' @ err_string e))
              | Panic p \<Rightarrow> Panic p
              | Ret u \<Rightarrow>
                  (case hr_Body res of
                     Err e \<Rightarrow> Err (PlainError (''reading body failed with error: '' @ err_string e))
                   | Panic p \<Rightarrow> Panic p
                   | Ret body \<Rightarrow>
                       if hr_StatusCode res \<noteq> 200 then
                         Err (PlainError (''request device code returned status '' @ dec (nat (hr_StatusCode res)) @
                           '' error: '' @ body))
                       else (case oa_unmarshal_device env body of
                               Err e \<Rightarrow> Err (PlainError (''unmarshaling response failed with error: '' @ err_string e))
                             | Panic p \<Rightarrow> Panic p
                             | Ret deviceCode \<Rightarrow> Ret deviceCode))))"

definition requestToken ::
  "(string \<Rightarrow> TokenRequestPayload \<Rightarrow> Http_Result) \<Rightarrow> string \<Rightarrow> TokenRequestPayload \<Rightarrow> (string \<times> int) outcome" where
  "requestToken http url tokenReqPayload =
     (let res = http url tokenReqPayload
      in case hr_NewRequest res of
           Err e \<Rightarrow> Err (PlainError (''creating token request failed with error: '' @ err_string e))
         | Panic p \<Rightarrow> Panic p
         | Ret u \<Rightarrow>
             (case hr_Do res of
                Err e \<Rightarrow> Err (PlainError (''doing token request failed with error: '' @ err_string e))
              | Panic p \<Rightarrow> Panic p
              | Ret u \<Rightarrow>
                  (case hr_Body res of
                     Err e \<Rightarrow> Err (PlainError (''reading token body failed with error: '' @ err_string e))
                   | Panic p \<Rightarrow> Panic p
                   | Ret body \<Rightarrow> Ret (body, hr_StatusCode res))))"

text \<open>The second piece of the token is read without looking whether there is one.\<close>

definition isValidAccessToken :: "Oauth_Env \<Rightarrow> string \<Rightarrow> string \<Rightarrow> unit outcome" where
  "isValidAccessToken env token audience =
     (if token = [] then Err (PlainError ''token received is empty'')
      else if length (split_on (CHR ''.'') token) \<le> 1 then Panic IndexOutOfRange
      else (case oa_base64 env (split_on (CHR ''.'') token ! 1) of
              Err e \<Rightarrow> Err e
            | Panic p \<Rightarrow> Panic p
            | Ret claimsString \<Rightarrow>
                (case oa_unmarshal_claims env claimsString of
                   Err e \<Rightarrow> Err e
                 | Panic p \<Rightarrow> Panic p
                 | Ret aud \<Rightarrow> if aud \<noteq> audience then Err (PlainError ''invalid audience'') else Ret ())))"

definition validated :: "Oauth_Env \<Rightarrow> Hosted \<Rightarrow> TokenRequestResponse \<Rightarrow> TokenInfo outcome" where
  "validated env h tokenResponse =
     (case isValidAccessToken env (Tok_AccessToken (TResp_TokenInfo tokenResponse)) (Hosted_Audience h) of
        Err e \<Rightarrow> Err (PlainError (''validate access token failed with error: '' @ err_string e))
      | Panic p \<Rightarrow> Panic p
      | Ret u \<Rightarrow> Ret (TResp_TokenInfo tokenResponse))"

definition RotateAccessToken ::
  "Oauth_Env \<Rightarrow> (string \<Rightarrow> TokenRequestPayload \<Rightarrow> Http_Result) \<Rightarrow> Hosted \<Rightarrow> string \<Rightarrow> TokenInfo outcome" where
  "RotateAccessToken env http h refreshToken =
     (case requestToken http (''https://'' @ Hosted_Domain h @ ''/oauth/token'')
             \<lparr>Pay_GrantType = HostedRefreshGrant, Pay_DeviceCode = [], Pay_ClientID = Hosted_ClientID h,
              Pay_RefreshToken = refreshToken\<rparr> of
        Err e \<Rightarrow> Err (PlainError (''rotate access token: '' @ err_string e))
      | Panic p \<Rightarrow> Panic p
      | Ret (body, statusCode) \<Rightarrow>
          if statusCode \<noteq> 200 then Err (PlainError (''rotating token returned error: '' @ body))
          else (case oa_unmarshal_token env body of
                  Err e \<Rightarrow> Err (PlainError (''parsing token response failed with error: '' @ err_string e))
                | Panic p \<Rightarrow> Panic p
                | Ret tokenResponse \<Rightarrow> validated env h tokenResponse))"

section \<open>Waiting for the token\<close>

text \<open>What wakes the loop: the context is done, or the timer ticks and a request is answered.\<close>

datatype wait_event = CtxDone GoError | Tick "string \<Rightarrow> TokenRequestPayload \<Rightarrow> Http_Result"

text \<open>
  One tick: \<open>None\<close> to go on, with the interval of the timer, or the result. The description of an
  error is used as a format; the model is for descriptions without a percent sign.
\<close>

definition wait_tick ::
  "Oauth_Env \<Rightarrow> Hosted \<Rightarrow> DeviceAuthInfo \<Rightarrow> int \<Rightarrow> (string \<Rightarrow> TokenRequestPayload \<Rightarrow> Http_Result) \<Rightarrow>
     int \<times> TokenInfo outcome option" where
  "wait_tick env h info interval http =
     (case requestToken http (''https://'' @ Hosted_Domain h @ ''/oauth/token'')
             \<lparr>Pay_GrantType = HostedGrantType, Pay_DeviceCode = Dev_DeviceCode info, Pay_ClientID = Hosted_ClientID h,
              Pay_RefreshToken = []\<rparr> of
        Err e \<Rightarrow> (interval, Some (Err (PlainError (''wait for token: '' @ err_string e))))
      | Panic p \<Rightarrow> (interval, Some (Panic p))
      | Ret (body, statusCode) \<Rightarrow>
          if statusCode > 499 then (interval, Some (Err (PlainError (''wait token code returned error: '' @ body))))
          else (case oa_unmarshal_token env body of
                  Err e \<Rightarrow> (interval, Some (Err (PlainError (''parsing token response failed with error: '' @ err_string e))))
                | Panic p \<Rightarrow> (interval, Some (Panic p))
                | Ret tokenResponse \<Rightarrow>
                    if TResp_Error tokenResponse \<noteq> [] then
                      if TResp_Error tokenResponse = ''authorization_pending'' then (interval, None)
                      else if TResp_Error tokenResponse = ''slow_down'' then (interval + 3 * second, None)
                      else (interval, Some (Err (PlainError (TResp_ErrorDescription tokenResponse))))
                    else (interval, Some (validated env h tokenResponse))))"

fun wait_loop ::
  "Oauth_Env \<Rightarrow> Hosted \<Rightarrow> DeviceAuthInfo \<Rightarrow> int \<Rightarrow> wait_event list \<Rightarrow> int \<times> TokenInfo outcome option" where
  "wait_loop env h info interval [] = (interval, None)"
| "wait_loop env h info interval (CtxDone e # evs) = (interval, Some (Err e))"
| "wait_loop env h info interval (Tick http # evs) =
     (case wait_tick env h info interval http of
        (interval', Some result) \<Rightarrow> (interval', Some result)
      | (interval', None) \<Rightarrow> wait_loop env h info interval' evs)"

text \<open>\<open>time.NewTicker\<close> panics for an interval that is not positive.\<close>

definition WaitToken :: "Oauth_Env \<Rightarrow> Hosted \<Rightarrow> DeviceAuthInfo \<Rightarrow> wait_event list \<Rightarrow> TokenInfo outcome option" where
  "WaitToken env h info evs =
     (let interval = Dev_Interval info * second
      in if interval \<le> 0 then Some (Panic (ExplicitPanic ''non-positive interval for NewTicker''))
         else snd (wait_loop env h info interval evs))"

section \<open>Properties\<close>

lemma wait_tick_Ret:
  assumes "wait_tick env h info i http = (i', Some (Ret t))"
  shows "isValidAccessToken env (Tok_AccessToken t) (Hosted_Audience h) = Ret ()"
  using assms by (auto simp: wait_tick_def validated_def split: outcome.splits prod.splits if_splits)

lemma wait_tick_interval: "wait_tick env h info i http = (i', r) \<Longrightarrow> i \<le> i' \<and> i' \<le> i + 3 * second"
  by (auto simp: wait_tick_def second_def split: outcome.splits prod.splits if_splits)

lemma wait_loop_Ret:
  "wait_loop env h info i evs = (i', Some (Ret t)) \<Longrightarrow>
     isValidAccessToken env (Tok_AccessToken t) (Hosted_Audience h) = Ret ()"
  by (induction env h info i evs rule: wait_loop.induct)
    (auto dest: wait_tick_Ret split: prod.splits option.splits)

lemma wait_loop_interval:
  "wait_loop env h info i evs = (i', r) \<Longrightarrow> i \<le> i' \<and> i' \<le> i + int (length evs) * (3 * second)"
proof (induction evs arbitrary: i)
  case (Cons ev evs)
  show ?case
  proof (cases ev)
    case (CtxDone e)
    then show ?thesis using Cons.prems by (simp add: second_def)
  next
    case (Tick http)
    obtain j q where t: "wait_tick env h info i http = (j, q)" by fastforce
    note wait_tick_interval [OF t]
    then show ?thesis using Cons.prems Cons.IH [of j] t Tick
      by (cases q) (auto simp: algebra_simps second_def)
  qed
qed simp

lemma wait_loop_append:
  "wait_loop env h info i evs = (j, None) \<Longrightarrow> wait_loop env h info i (evs @ evs') = wait_loop env h info j evs'"
  by (induction env h info i evs rule: wait_loop.induct) (auto split: prod.splits option.splits)

lemma isValidAccessToken_Ret:
  assumes "isValidAccessToken env token audience = Ret ()"
  shows "\<exists>a b rest claims. split_on (CHR ''.'') token = a # b # rest \<and> oa_base64 env b = Ret claims \<and>
    oa_unmarshal_claims env claims = Ret audience"
proof -
  obtain a b rest where "split_on (CHR ''.'') token = a # b # rest"
    using assms
    by (cases "split_on (CHR ''.'') token"; cases "tl (split_on (CHR ''.'') token)")
      (auto simp: isValidAccessToken_def split: if_splits)
  with assms show ?thesis by (auto simp: isValidAccessToken_def split: if_splits outcome.splits)
qed

text \<open>
  A token that the device flow or a rotation hands out carries the audience the client was
  configured with, whatever the provider answered before.
\<close>

theorem token_checked:
  assumes "WaitToken env h info evs = Some (Ret t) \<or> RotateAccessToken env http h refresh = Ret t"
  shows "\<exists>a b rest claims. split_on (CHR ''.'') (Tok_AccessToken t) = a # b # rest \<and> oa_base64 env b = Ret claims \<and>
    oa_unmarshal_claims env claims = Ret (Hosted_Audience h)"
proof -
  have "isValidAccessToken env (Tok_AccessToken t) (Hosted_Audience h) = Ret ()"
    using assms
  proof
    assume "WaitToken env h info evs = Some (Ret t)"
    then show ?thesis
      by (cases "wait_loop env h info (Dev_Interval info * second) evs")
        (auto simp: WaitToken_def Let_def intro: wait_loop_Ret split: if_splits)
  qed (auto simp: RotateAccessToken_def validated_def split: outcome.splits prod.splits if_splits)
  then show ?thesis by (rule isValidAccessToken_Ret)
qed

definition ex_token :: "string \<Rightarrow> TokenRequestResponse" where
  "ex_token b = \<lparr>TResp_Error = [], TResp_ErrorDescription = [],
     TResp_TokenInfo = \<lparr>Tok_AccessToken = b, Tok_RefreshToken = [], Tok_IDToken = [], Tok_TokenType = [], Tok_ExpiresIn = 0\<rparr>\<rparr>"

definition ex_oauth :: Oauth_Env where
  "ex_oauth = \<lparr>oa_unmarshal_device = (\<lambda>_. Err (PlainError ''json'')), oa_unmarshal_token = (\<lambda>b. Ret (ex_token b)),
     oa_base64 = Ret, oa_unmarshal_claims = Ret\<rparr>"

definition ex_hosted :: Hosted where
  "ex_hosted = NewHostedDeviceFlow ''aud'' ''cid'' ''idp''"

definition ex_device_info :: "int \<Rightarrow> DeviceAuthInfo" where
  "ex_device_info i = \<lparr>Dev_DeviceCode = ''d'', Dev_UserCode = ''u'', Dev_VerificationURI = [],
     Dev_VerificationURIComplete = [], Dev_ExpiresIn = 300, Dev_Interval = i\<rparr>"

definition ex_answer :: "string \<Rightarrow> string \<Rightarrow> TokenRequestPayload \<Rightarrow> Http_Result" where
  "ex_answer body url p = \<lparr>hr_NewRequest = Ret (), hr_Do = Ret (), hr_Body = Ret body, hr_StatusCode = 200\<rparr>"

theorem token_checked_witness:
  "\<exists>t a b rest. WaitToken ex_oauth ex_hosted (ex_device_info 5) [Tick (ex_answer ''x.aud.y'')] = Some (Ret t) \<and>
     split_on (CHR ''.'') (Tok_AccessToken t) = a # b # rest \<and> oa_unmarshal_claims ex_oauth b = Ret ''aud''"
proof -
  let ?t = "\<lparr>Tok_AccessToken = ''x.aud.y'', Tok_RefreshToken = [], Tok_IDToken = [], Tok_TokenType = [], Tok_ExpiresIn = 0\<rparr>"
  have w: "WaitToken ex_oauth ex_hosted (ex_device_info 5) [Tick (ex_answer ''x.aud.y'')] = Some (Ret ?t)"
    by (simp add: WaitToken_def ex_device_info_def second_def wait_tick_def requestToken_def ex_answer_def ex_oauth_def ex_token_def
        validated_def isValidAccessToken_def ex_hosted_def NewHostedDeviceFlow_def Let_def)
  from token_checked [OF disjI1 [OF w]] w show ?thesis
    by (auto simp: ex_oauth_def ex_hosted_def NewHostedDeviceFlow_def)
qed

text \<open>
  The answers of the provider can bring the client down: a device code without an interval
  makes \<open>WaitToken\<close> panic at once, and an access token without a dot makes it panic when the
  token arrives, whatever was pending before.
\<close>

theorem wait_token_panics:
  "(Dev_Interval info \<le> 0 \<longrightarrow> (\<exists>p. WaitToken env h info evs = Some (Panic p))) \<and>
   (0 < Dev_Interval info \<and> wait_loop env h info (Dev_Interval info * second) evs = (i, None) \<and>
      requestToken http (''https://'' @ Hosted_Domain h @ ''/oauth/token'')
        \<lparr>Pay_GrantType = HostedGrantType, Pay_DeviceCode = Dev_DeviceCode info, Pay_ClientID = Hosted_ClientID h,
         Pay_RefreshToken = []\<rparr> = Ret (body, 200) \<and>
      oa_unmarshal_token env body = Ret resp \<and> TResp_Error resp = [] \<and>
      Tok_AccessToken (TResp_TokenInfo resp) \<noteq> [] \<and> CHR ''.'' \<notin> set (Tok_AccessToken (TResp_TokenInfo resp)) \<longrightarrow>
      WaitToken env h info (evs @ Tick http # evs') = Some (Panic IndexOutOfRange))"
proof (intro conjI impI)
  assume "Dev_Interval info \<le> 0"
  then show "\<exists>p. WaitToken env h info evs = Some (Panic p)" by (simp add: WaitToken_def Let_def second_def)
next
  assume a: "0 < Dev_Interval info \<and> wait_loop env h info (Dev_Interval info * second) evs = (i, None) \<and>
      requestToken http (''https://'' @ Hosted_Domain h @ ''/oauth/token'')
        \<lparr>Pay_GrantType = HostedGrantType, Pay_DeviceCode = Dev_DeviceCode info, Pay_ClientID = Hosted_ClientID h,
         Pay_RefreshToken = []\<rparr> = Ret (body, 200) \<and>
      oa_unmarshal_token env body = Ret resp \<and> TResp_Error resp = [] \<and>
      Tok_AccessToken (TResp_TokenInfo resp) \<noteq> [] \<and> CHR ''.'' \<notin> set (Tok_AccessToken (TResp_TokenInfo resp))"
  then have "wait_tick env h info i http = (i, Some (Panic IndexOutOfRange))"
    by (simp add: wait_tick_def validated_def isValidAccessToken_def split_on_no_sep)
  with a show "WaitToken env h info (evs @ Tick http # evs') = Some (Panic IndexOutOfRange)"
    by (simp add: WaitToken_def Let_def second_def wait_loop_append)
qed

theorem wait_token_panics_witness:
  "(\<exists>p. WaitToken ex_oauth ex_hosted (ex_device_info 0) [] = Some (Panic p)) \<and>
   WaitToken ex_oauth ex_hosted (ex_device_info 5) [Tick (ex_answer ''opaque'')] = Some (Panic IndexOutOfRange)"
proof
  show "\<exists>p. WaitToken ex_oauth ex_hosted (ex_device_info 0) [] = Some (Panic p)"
    using wait_token_panics [of "ex_device_info 0" ex_oauth ex_hosted "[]"] by (simp add: ex_device_info_def)
  show "WaitToken ex_oauth ex_hosted (ex_device_info 5) [Tick (ex_answer ''opaque'')] = Some (Panic IndexOutOfRange)"
    using wait_token_panics [of "ex_device_info 5" ex_oauth ex_hosted "[]" "5 * second" "ex_answer ''opaque''" "''opaque''" "ex_token ''opaque''" "[]"]
    by (simp add: ex_device_info_def requestToken_def ex_answer_def ex_oauth_def ex_token_def Let_def)
qed

end
