(* ===== verification/Daemon.thy ===== *)
theory Daemon
  imports Client_Run Oauth
begin

text \<open>
  The daemon of the client, \<open>client/server/server.go\<close>: the service that the command line and the
  user interface call. Contexts are numbers: \<open>dm_cancelled\<close> holds the cancelled ones, \<open>dm_running\<close>
  the goroutines that run \<open>RunClient\<close>, each with its context and configuration. The text of
  \<open>time.Now()\<close> is an argument. A handler is modelled as a whole; the other goroutines run before
  or after it.
\<close>

section \<open>State\<close>

record oauthAuthFlow =
  oaf_expiresAt :: int
  oaf_client :: "Hosted option"
  oaf_info :: DeviceAuthInfo
  oaf_waitCancel :: "nat option"

record 's Daemon =
  dm_actCancel :: "nat option"
  dm_made :: nat
  dm_cancelled :: "nat list"
  dm_managementURL :: string
  dm_adminURL :: string
  dm_configPath :: string
  dm_logFile :: string
  dm_oauth :: oauthAuthFlow
  dm_config :: "Client_Config option"
  dm_state :: contextState
  dm_file :: config_file
  dm_running :: "(nat \<times> Client_Config) list"
  dm_remote :: 's

record 's Daemon_Env =
  de_config :: Config_Env
  de_uuid_Parse :: "string \<Rightarrow> string outcome"
  de_mgm :: Mgm_Env
  de_rpc :: "'s Mgm_Rpc"
  de_dial :: "string \<Rightarrow> bool \<Rightarrow> unit outcome"
  de_info :: "Info option"
  de_oauth :: Oauth_Env
  de_device_http :: "string \<Rightarrow> string \<times> string \<Rightarrow> Http_Result"
  de_wait :: "wait_event list"

record Daemon_LoginRequest =
  DLogin_SetupKey :: string
  DLogin_PreSharedKey :: string
  DLogin_ManagementUrl :: string
  DLogin_AdminURL :: string

record Daemon_LoginResponse =
  DResp_NeedsSSOLogin :: bool
  DResp_UserCode :: string
  DResp_VerificationURI :: string
  DResp_VerificationURIComplete :: string

record GetConfigResponse =
  GC_ManagementUrl :: string
  GC_ConfigFile :: string
  GC_LogFile :: string
  GC_PreSharedKey :: string
  GC_AdminURL :: string

definition Daemon_New :: "string \<Rightarrow> string \<Rightarrow> string \<Rightarrow> string \<Rightarrow> config_file \<Rightarrow> 's \<Rightarrow> 's Daemon" where
  "Daemon_New managementURL adminURL configPath logFile file remote =
     \<lparr>dm_actCancel = None, dm_made = 0, dm_cancelled = [], dm_managementURL = managementURL, dm_adminURL = adminURL,
      dm_configPath = configPath, dm_logFile = logFile,
      dm_oauth = \<lparr>oaf_expiresAt = 0, oaf_client = None,
        oaf_info = \<lparr>Dev_DeviceCode = [], Dev_UserCode = [], Dev_VerificationURI = [], Dev_VerificationURIComplete = [],
          Dev_ExpiresIn = 0, Dev_Interval = 0\<rparr>, oaf_waitCancel = None\<rparr>,
      dm_config = None, dm_state = CtxInitState, dm_file = file, dm_running = [], dm_remote = remote\<rparr>"

text \<open>The context that was active is cancelled, a new one takes its place.\<close>

definition new_context :: "'s Daemon \<Rightarrow> 's Daemon" where
  "new_context d = d\<lparr>dm_actCancel := Some (dm_made d), dm_made := Suc (dm_made d)\<rparr>"

definition replace_context :: "'s Daemon \<Rightarrow> 's Daemon" where
  "replace_context d =
     new_context (case dm_actCancel d of None \<Rightarrow> d | Some c \<Rightarrow> d\<lparr>dm_cancelled := c # dm_cancelled d\<rparr>)"

definition set_status :: "StatusType \<Rightarrow> 's Daemon \<Rightarrow> 's Daemon" where
  "set_status s d = d\<lparr>dm_state := state_Set s (dm_state d)\<rparr>"

definition run_client :: "Client_Config \<Rightarrow> 's Daemon \<Rightarrow> 's Daemon" where
  "run_client config d =
     (case dm_actCancel d of None \<Rightarrow> d | Some c \<Rightarrow> d\<lparr>dm_running := (c, config) # dm_running d\<rparr>)"

section \<open>Starting\<close>

definition Daemon_Start :: "'s Daemon_Env \<Rightarrow> 's Daemon \<Rightarrow> 's Daemon \<times> unit outcome" where
  "Daemon_Start env d0 =
     (case state_Status (dm_state d0) of
        Err e \<Rightarrow> (d0, Err e)
      | Panic p \<Rightarrow> (d0, Panic p)
      | Ret status \<Rightarrow>
          if status \<noteq> Status_Idle then (d0, Ret ())
          else (let d = new_context d0
                in case ReadConfig (de_config env) (dm_file d) (dm_managementURL d) (dm_adminURL d) None of
                     (f, Err e) \<Rightarrow>
                       if from_status e \<and> err_code e = NotFound then
                         (case Client_GetConfig (de_config env) f (dm_managementURL d) (dm_adminURL d) [] of
                            (f', Err e) \<Rightarrow> (d\<lparr>dm_file := f'\<rparr>, Err e)
                          | (f', Panic p) \<Rightarrow> (d\<lparr>dm_file := f'\<rparr>, Panic p)
                          | (f', Ret config) \<Rightarrow> (set_status Status_NeedsLogin (d\<lparr>dm_file := f'\<rparr>), Ret ()))
                       else (d\<lparr>dm_file := f\<rparr>, Err e)
                   | (f, Panic p) \<Rightarrow> (d\<lparr>dm_file := f\<rparr>, Panic p)
                   | (f, Ret config) \<Rightarrow> (run_client config (d\<lparr>dm_file := f, dm_config := Some config\<rparr>), Ret ())))"

section \<open>Logging in\<close>

text \<open>The status beside the error is the one to set after a failure.\<close>

definition loginAttempt ::
  "'s Daemon_Env \<Rightarrow> string \<Rightarrow> string \<Rightarrow> 's Daemon \<Rightarrow> 's Daemon \<times> (StatusType \<times> GoError) option outcome" where
  "loginAttempt env setupKey jwtToken d =
     (case dm_config d of
        None \<Rightarrow> (d, Panic NilDereference)
      | Some config \<Rightarrow>
          (case client_Login (de_uuid_Parse env) (de_mgm env) (de_rpc env) (de_dial env) (de_info env) (dm_remote d)
                  config setupKey jwtToken of
             (s, Ret u) \<Rightarrow> (d\<lparr>dm_remote := s\<rparr>, Ret None)
           | (s, Panic p) \<Rightarrow> (d\<lparr>dm_remote := s\<rparr>, Panic p)
           | (s, Err e) \<Rightarrow>
               (d\<lparr>dm_remote := s\<rparr>, Ret (Some
                 (if from_status e \<and> (err_code e = InvalidArgument \<or> err_code e = PermissionDenied)
                  then Status_NeedsLogin else Status_LoginFailed, e)))))"

text \<open>The deferred function of \<open>Login\<close> and \<open>WaitSSOLogin\<close>.\<close>

definition login_deferred :: "'s Daemon \<Rightarrow> 's Daemon" where
  "login_deferred d =
     (case state_Status (dm_state d) of
        Ret s \<Rightarrow> if s \<noteq> Status_NeedsLogin \<and> s \<noteq> Status_LoginFailed then set_status Status_Idle d else d
      | _ \<Rightarrow> set_status Status_Idle d)"

definition sso_response :: "DeviceAuthInfo \<Rightarrow> Daemon_LoginResponse" where
  "sso_response info =
     \<lparr>DResp_NeedsSSOLogin = True, DResp_UserCode = Dev_UserCode info, DResp_VerificationURI = Dev_VerificationURI info,
      DResp_VerificationURIComplete = Dev_VerificationURIComplete info\<rparr>"

definition empty_response :: Daemon_LoginResponse where
  "empty_response =
     \<lparr>DResp_NeedsSSOLogin = False, DResp_UserCode = [], DResp_VerificationURI = [], DResp_VerificationURIComplete = []\<rparr>"

text \<open>
  The device flow in \<open>Login\<close>: an unexpired flow of the same client is reused, an expired one is
  cancelled first. \<open>waitCancel\<close> is called without looking whether it was ever set.
\<close>

definition request_device ::
  "'s Daemon_Env \<Rightarrow> int \<Rightarrow> Hosted \<Rightarrow> 's Daemon \<Rightarrow> 's Daemon \<times> Daemon_LoginResponse outcome" where
  "request_device env now hostedClient d =
     (case RequestDeviceCode (de_oauth env) (de_device_http env) hostedClient of
        Err e \<Rightarrow> (d, Err e)
      | Panic p \<Rightarrow> (d, Panic p)
      | Ret deviceAuthInfo \<Rightarrow>
          (set_status Status_NeedsLogin
             (d\<lparr>dm_oauth := (dm_oauth d)\<lparr>oaf_client := Some hostedClient, oaf_info := deviceAuthInfo,
                oaf_expiresAt := now + Dev_ExpiresIn deviceAuthInfo * second\<rparr>\<rparr>),
           Ret (sso_response deviceAuthInfo)))"

definition sso_login ::
  "'s Daemon_Env \<Rightarrow> int \<Rightarrow> Client_Config \<Rightarrow> 's Daemon \<Rightarrow> 's Daemon \<times> Daemon_LoginResponse outcome" where
  "sso_login env now config d =
     (case GetDeviceAuthorizationFlowInfo (de_mgm env) (de_rpc env) (de_dial env) (dm_remote d) config of
        Panic p \<Rightarrow> (d, Panic p)
      | Err e \<Rightarrow>
          (set_status Status_LoginFailed d,
           if from_status e \<and> err_code e = NotFound then
             Err (StatusError NotFound (''no SSO provider returned from management. '' @
               ''If you are using hosting Netbird see documentation at '' @
               ''https://github.com/netbirdio/netbird/tree/main/management for details''))
           else if from_status e \<and> err_code e = Unimplemented then
             Err (StatusError Unimplemented (''the management server, '' @
               (case CC_ManagementURL config of None \<Rightarrow> ''<nil>'' | Some url \<Rightarrow> URL_String url) @
               '', does not support SSO providers, please update your server or use Setup Keys to login''))
           else Err e)
      | Ret providerConfig \<Rightarrow>
          (let pc = Flow_ProviderConfig providerConfig;
               hostedClient = NewHostedDeviceFlow (Provider_Audience pc) (Provider_ClientID pc) (Provider_Domain pc);
               flow = dm_oauth d
           in if (case oaf_client flow of None \<Rightarrow> False | Some h \<Rightarrow> GetClientID h = GetClientID hostedClient) then
                if oaf_expiresAt flow > now + 90 * second then (d, Ret (sso_response (oaf_info flow)))
                else (case oaf_waitCancel flow of
                        None \<Rightarrow> (d, Panic NilDereference)
                      | Some c \<Rightarrow> request_device env now hostedClient (d\<lparr>dm_cancelled := c # dm_cancelled d\<rparr>))
              else request_device env now hostedClient d))"

definition update_urls :: "Daemon_LoginRequest \<Rightarrow> 's Daemon \<Rightarrow> 's Daemon" where
  "update_urls msg d =
     d\<lparr>dm_managementURL := (if DLogin_ManagementUrl msg \<noteq> [] then DLogin_ManagementUrl msg else dm_managementURL d),
       dm_adminURL := (if DLogin_AdminURL msg \<noteq> [] then DLogin_AdminURL msg else dm_adminURL d)\<rparr>"

text \<open>\<open>Login\<close> after the configuration is known.\<close>

definition login_with ::
  "'s Daemon_Env \<Rightarrow> int \<Rightarrow> Daemon_LoginRequest \<Rightarrow> Client_Config \<Rightarrow> 's Daemon \<Rightarrow> 's Daemon \<times> Daemon_LoginResponse outcome" where
  "login_with env now msg config d =
     (case loginAttempt env [] [] d of
        (d1, Panic p) \<Rightarrow> (d1, Panic p)
      | (d1, Err e) \<Rightarrow> (d1, Err e)
      | (d1, Ret None) \<Rightarrow> (set_status Status_Idle d1, Ret empty_response)
      | (d1, Ret (Some refused)) \<Rightarrow>
          (let d2 = set_status Status_Connecting d1
           in if DLogin_SetupKey msg = [] then sso_login env now config d2
              else (case loginAttempt env (DLogin_SetupKey msg) [] d2 of
                      (d3, Panic p) \<Rightarrow> (d3, Panic p)
                    | (d3, Err e) \<Rightarrow> (d3, Err e)
                    | (d3, Ret (Some (loginStatus, e))) \<Rightarrow> (set_status loginStatus d3, Err e)
                    | (d3, Ret None) \<Rightarrow> (d3, Ret empty_response))))"

definition Daemon_Login ::
  "'s Daemon_Env \<Rightarrow> int \<Rightarrow> Daemon_LoginRequest \<Rightarrow> 's Daemon \<Rightarrow> 's Daemon \<times> Daemon_LoginResponse outcome" where
  "Daemon_Login env now msg d0 =
     (let d = update_urls msg (replace_context d0)
      in case (case Client_GetConfig (de_config env) (dm_file d) (dm_managementURL d) (dm_adminURL d)
                      (DLogin_PreSharedKey msg) of
                 (f, Err e) \<Rightarrow> (d\<lparr>dm_file := f\<rparr>, Err e)
               | (f, Panic p) \<Rightarrow> (d\<lparr>dm_file := f\<rparr>, Panic p)
               | (f, Ret config) \<Rightarrow> login_with env now msg config (d\<lparr>dm_file := f, dm_config := Some config\<rparr>)) of
           (d', result) \<Rightarrow> (login_deferred d', result))"

text \<open>
  \<open>WaitSSOLogin\<close>. The context of the waiting ends with the daemon's or by its own timeout, which
  the events of \<open>WaitToken\<close> tell; \<open>None\<close> is a call that still waits. A cancelled wait returns
  neither a response nor an error.
\<close>

definition ctx_Canceled :: GoError where
  "ctx_Canceled = PlainError ''context canceled''"

definition begin_wait :: "'s Daemon \<Rightarrow> 's Daemon" where
  "begin_wait d0 =
     (let d = (case oaf_waitCancel (dm_oauth d0) of None \<Rightarrow> d0 | Some c \<Rightarrow> d0\<lparr>dm_cancelled := c # dm_cancelled d0\<rparr>)
      in d\<lparr>dm_oauth := (dm_oauth d)\<lparr>oaf_waitCancel := Some (dm_made d)\<rparr>, dm_made := Suc (dm_made d)\<rparr>)"

definition wait_for_token ::
  "'s Daemon_Env \<Rightarrow> int \<Rightarrow> Hosted \<Rightarrow> 's Daemon \<Rightarrow> ('s Daemon \<times> unit outcome) option" where
  "wait_for_token env now client d0 =
     (let d1 = begin_wait d0
      in case WaitToken (de_oauth env) client (oaf_info (dm_oauth d1)) (de_wait env) of
           None \<Rightarrow> None
         | Some (Panic p) \<Rightarrow> Some (d1, Panic p)
         | Some (Err e) \<Rightarrow>
             if e = ctx_Canceled then Some (d1, Ret ())
             else Some (set_status Status_LoginFailed (d1\<lparr>dm_oauth := (dm_oauth d1)\<lparr>oaf_expiresAt := now\<rparr>\<rparr>), Err e)
         | Some (Ret tokenInfo) \<Rightarrow>
             (case loginAttempt env [] (Tok_AccessToken tokenInfo) d1 of
                (d2, Panic p) \<Rightarrow> Some (d2, Panic p)
              | (d2, Err e) \<Rightarrow> Some (d2, Err e)
              | (d2, Ret (Some (loginStatus, e))) \<Rightarrow> Some (set_status loginStatus d2, Err e)
              | (d2, Ret None) \<Rightarrow> Some (d2, Ret ())))"

definition WaitSSOLogin ::
  "'s Daemon_Env \<Rightarrow> int \<Rightarrow> string \<Rightarrow> 's Daemon \<Rightarrow> ('s Daemon \<times> unit outcome) option" where
  "WaitSSOLogin env now userCode d0 =
     (let d = replace_context d0
      in case oaf_client (dm_oauth d) of
           None \<Rightarrow> Some (d, Err (StatusError Internal ''oauth client is not initialized''))
         | Some client \<Rightarrow>
             (let d1 = set_status Status_Connecting d
              in map_option (\<lambda>(d', result). (login_deferred d', result))
                   (if Dev_UserCode (oaf_info (dm_oauth d1)) \<noteq> userCode then
                      Some (set_status Status_LoginFailed d1, Err (StatusError InvalidArgument ''sso user code is invalid''))
                    else wait_for_token env now client d1)))"

section \<open>Up, down and queries\<close>

definition Up :: "'s Daemon \<Rightarrow> 's Daemon \<times> unit outcome" where
  "Up d0 =
     (case state_Status (dm_state d0) of
        Err e \<Rightarrow> (d0, Err e)
      | Panic p \<Rightarrow> (d0, Panic p)
      | Ret status \<Rightarrow>
          if status \<noteq> Status_Idle then
            (d0, Err (PlainError (''up already in progress: current status '' @ StatusType_text status)))
          else (let d = replace_context d0
                in case dm_config d of
                     None \<Rightarrow> (d, Err (PlainError ''config is not defined, please call login command first''))
                   | Some config \<Rightarrow> (run_client config d, Ret ())))"

definition Down :: "'s Daemon \<Rightarrow> 's Daemon \<times> unit outcome" where
  "Down d =
     (case dm_actCancel d of
        None \<Rightarrow> (d, Err (PlainError ''service is not up''))
      | Some c \<Rightarrow> (d\<lparr>dm_cancelled := c # dm_cancelled d\<rparr>, Ret ()))"

definition Daemon_Status :: "'s Daemon \<Rightarrow> string outcome" where
  "Daemon_Status d =
     (case state_Status (dm_state d) of
        Err e \<Rightarrow> Err e
      | Panic p \<Rightarrow> Panic p
      | Ret status \<Rightarrow> Ret (StatusType_text status))"

definition Daemon_GetConfig :: "'s Daemon \<Rightarrow> GetConfigResponse" where
  "Daemon_GetConfig d =
     (let m = dm_managementURL d; a = dm_adminURL d
      in case dm_config d of
           None \<Rightarrow> \<lparr>GC_ManagementUrl = m, GC_ConfigFile = dm_configPath d, GC_LogFile = dm_logFile d, GC_PreSharedKey = [],
                    GC_AdminURL = a\<rparr>
         | Some config \<Rightarrow>
             \<lparr>GC_ManagementUrl = (case CC_ManagementURL config of
                  Some url \<Rightarrow> if m = [] then URL_String url else m | None \<Rightarrow> m),
              GC_ConfigFile = dm_configPath d, GC_LogFile = dm_logFile d,
              GC_PreSharedKey = (if CC_PreSharedKey config \<noteq> [] then ''**********'' else []),
              GC_AdminURL = (case CC_AdminURL config of Some url \<Rightarrow> URL_String url | None \<Rightarrow> a)\<rparr>)"

text \<open>
  The end of a goroutine that ran \<open>RunClient\<close>: the deferred function of \<open>RunClient\<close>, and, when it
  was started by \<open>Up\<close> and failed, the error in the state.
\<close>

definition client_over :: "nat \<Rightarrow> bool \<Rightarrow> unit outcome \<Rightarrow> 's Daemon \<Rightarrow> 's Daemon" where
  "client_over c by_up result d =
     (let d1 = d\<lparr>dm_running := filter (\<lambda>(c', _). c' \<noteq> c) (dm_running d), dm_state := run_deferred (dm_state d)\<rparr>
      in case result of
           Err e \<Rightarrow> if by_up then d1\<lparr>dm_state := state_Wrap e (dm_state d1)\<rparr> else d1
         | _ \<Rightarrow> d1)"

end
