(* ===== verification/Client_Properties.thy ===== *)
theory Client_Properties
  imports Daemon
begin

text \<open>
  What the client process guarantees: its configuration file, its main loop and its daemon, one
  of whose invariants is that at most one client runs on a live context.
\<close>

section \<open>The configuration file\<close>

lemma write_config_Ret: "write_config env f c = (f', Ret c') \<longleftrightarrow> is_ret (config_write env) \<and> f' = CfgStored c \<and> c' = c"
  by (auto simp: write_config_def split: outcome.splits)

lemma update_management_Ret:
  assumes "update_management env m (c, b) = Ret (c', b')"
  shows "(\<not> b' \<longrightarrow> c' = c \<and> \<not> b) \<and> CC_PrivateKey c' = CC_PrivateKey c \<and> CC_PreSharedKey c' = CC_PreSharedKey c \<and>
    CC_WgIface c' = CC_WgIface c \<and> CC_IFaceBlackList c' = CC_IFaceBlackList c"
  using assms by (auto simp: update_management_def split: if_splits option.splits outcome.splits)

lemma update_admin_Ret:
  assumes "update_admin env m (c, b) = Ret (c', b')"
  shows "(\<not> b' \<longrightarrow> c' = c \<and> \<not> b) \<and> CC_PrivateKey c' = CC_PrivateKey c \<and> CC_PreSharedKey c' = CC_PreSharedKey c \<and>
    CC_WgIface c' = CC_WgIface c \<and> CC_IFaceBlackList c' = CC_IFaceBlackList c"
  using assms by (auto simp: update_admin_def split: if_splits option.splits outcome.splits)

lemma ReadConfig_Ret:
  assumes "ReadConfig env f m a psk = (f', Ret c)"
  obtains c0 where "f = CfgStored c0" "f' = CfgStored c" "CC_PrivateKey c = CC_PrivateKey c0"
    "CC_WgIface c = CC_WgIface c0" "CC_IFaceBlackList c = CC_IFaceBlackList c0"
    "CC_PreSharedKey c = (case psk of None \<Rightarrow> CC_PreSharedKey c0 | Some k \<Rightarrow> k)"
proof -
  obtain c0 cr1 cr2 where f: "f = CfgStored c0" and c1: "update_management env m (c0, False) = Ret cr1"
    and c2: "update_admin env a cr1 = Ret cr2"
    and last: "(case update_preSharedKey psk cr2 of (config', refresh) \<Rightarrow>
      if refresh then write_config env f config' else (f, Ret config')) = (f', Ret c)"
    using assms by (auto simp: ReadConfig_def split: config_file.splits outcome.splits)
  obtain d1 b1 d2 b2 where cr: "cr1 = (d1, b1)" "cr2 = (d2, b2)" by fastforce
  note u = update_management_Ret [OF c1 [unfolded cr]] update_admin_Ret [OF c2 [unfolded cr]]
  show thesis
    using last f u unfolding cr
    by (intro that [OF f])
      (auto simp: update_preSharedKey_def write_config_Ret split: option.splits if_splits)
qed

lemma ReadConfig_plain: "ReadConfig env (CfgStored c) [] [] None = (CfgStored c, Ret c)"
  by (simp add: ReadConfig_def update_management_def update_admin_def update_preSharedKey_def)

text \<open>
  The configuration a call returns is the one the file holds afterwards, so that the next
  start reads it back; the private key of an existing configuration, its interface and its black
  list never change. The pre-shared key is always replaced by the one of the request, also by an
  empty one, except that the asterisks the daemon shows instead of a key leave it as it is.
\<close>

theorem config_kept:
  assumes "Client_GetConfig env f m a psk = (f', Ret c)"
  shows "f' = CfgStored c \<and> ReadConfig env f' [] [] None = (f', Ret c) \<and>
    (\<forall>c0. f = CfgStored c0 \<longrightarrow> CC_PrivateKey c = CC_PrivateKey c0 \<and> CC_WgIface c = CC_WgIface c0 \<and>
       CC_IFaceBlackList c = CC_IFaceBlackList c0 \<and>
       CC_PreSharedKey c = (if psk = ''**********'' then CC_PreSharedKey c0 else psk))"
proof (cases f)
  case CfgMissing
  then show ?thesis using assms
    by (auto simp: Client_GetConfig_def createNewConfig_def write_config_Ret ReadConfig_plain split: outcome.splits)
next
  case (CfgBroken e)
  then show ?thesis using assms by (simp add: Client_GetConfig_def ReadConfig_def)
next
  case (CfgStored c0)
  then have "ReadConfig env f m a (if psk = ''**********'' then None else Some psk) = (f', Ret c)"
    using assms by (simp add: Client_GetConfig_def)
  then show ?thesis using CfgStored by (elim ReadConfig_Ret) (auto simp: ReadConfig_plain)
qed

definition ex_url :: URL where
  "ex_url = \<lparr>URL_Scheme = ''https'', URL_Host = ''m'', URL_String = ''https://m''\<rparr>"

definition ex_cfg_env :: Config_Env where
  "ex_cfg_env = \<lparr>ParseRequestURI = (\<lambda>_. Ret ex_url), GeneratePrivateKey = Ret ''me'', config_write = Ret ()\<rparr>"

definition ex_client_config :: Client_Config where
  "ex_client_config = \<lparr>CC_PrivateKey = ''me'', CC_PreSharedKey = ''psk'', CC_ManagementURL = Some ex_url, CC_AdminURL = None,
     CC_WgIface = WgInterfaceDefault, CC_IFaceBlackList = [WgInterfaceDefault, ''tun0'']\<rparr>"

theorem config_kept_witness:
  "\<exists>f c. Client_GetConfig ex_cfg_env (CfgStored ex_client_config) [] [] [] = (f, Ret c) \<and>
     CC_PrivateKey c = ''me'' \<and> CC_PreSharedKey c = []"
proof -
  obtain f c where g: "Client_GetConfig ex_cfg_env (CfgStored ex_client_config) [] [] [] = (f, Ret c)"
    by (simp add: Client_GetConfig_def ReadConfig_def update_management_def update_admin_def update_preSharedKey_def
        write_config_def ex_cfg_env_def ex_client_config_def)
  from config_kept [OF g] g show ?thesis by (auto simp: ex_client_config_def)
qed

section \<open>The black list of interfaces\<close>

lemma set_every_second: "set (every_second xs) = {xs ! i | i. i < length xs \<and> even i}"
proof (induction xs rule: every_second.induct)
  case (3 x y xs)
  have split: "{(x # y # xs) ! i | i. i < length (x # y # xs) \<and> even i} = insert x {xs ! i | i. i < length xs \<and> even i}"
  proof -
    have "(\<exists>i < Suc (Suc (length xs)). even i \<and> z = (x # y # xs) ! i) \<longleftrightarrow>
        z = x \<or> (\<exists>i < length xs. even i \<and> z = xs ! i)" for z
      by (auto simp: less_Suc_eq_0_disj) (rule_tac x = "Suc (Suc i)" in exI, simp)
    then show ?thesis by auto
  qed
  show ?case using 3 split by simp
qed (auto intro: exI [of _ 0])

text \<open>
  Only every second entry of the black list reaches the engine. With the configuration the
  client creates, which lists \<open>wt0\<close> and \<open>tun0\<close>, the interface \<open>tun0\<close> is not excluded.
\<close>

theorem blacklist_half:
  assumes "createEngineConfig box key config pc = Ret ec"
  shows "set (EC_IFaceBlackList ec) = {CC_IFaceBlackList config ! i | i. i < length (CC_IFaceBlackList config) \<and> even i} \<and>
    (Client_GetConfig env CfgMissing m a psk = (f', Ret config) \<longrightarrow>
       ''tun0'' \<in> set (CC_IFaceBlackList config) \<and> interfaceFilter (\<lambda>_. False) (EC_IFaceBlackList ec) ''tun0'')"
proof -
  have ec: "EC_IFaceBlackList ec = remdups (every_second (CC_IFaceBlackList config))"
    using assms by (auto simp: createEngineConfig_def Let_def split: if_splits outcome.splits)
  moreover have "CC_IFaceBlackList config = [WgInterfaceDefault, ''tun0'']"
    if "Client_GetConfig env CfgMissing m a psk = (f', Ret config)"
    using that by (auto simp: Client_GetConfig_def createNewConfig_def write_config_Ret split: outcome.splits)
  ultimately show ?thesis by (auto simp: set_every_second interfaceFilter_def WgInterfaceDefault_def less_Suc_eq nth_Cons')
qed

theorem blacklist_half_witness:
  "\<exists>ec. createEngineConfig ex_box ''me'' ex_client_config \<lparr>PeerConfig_Address = ''a''\<rparr> = Ret ec \<and>
     set (EC_IFaceBlackList ec) = {''wt0''}"
proof -
  obtain ec where ec: "createEngineConfig ex_box ''me'' ex_client_config \<lparr>PeerConfig_Address = ''a''\<rparr> = Ret ec"
    by (simp add: createEngineConfig_def ex_client_config_def ex_box_def Let_def)
  from blacklist_half [OF ec] have "set (EC_IFaceBlackList ec) = {''wt0''}"
    by (auto simp: ex_client_config_def WgInterfaceDefault_def less_Suc_eq nth_Cons' intro: exI [of _ 0])
  with ec show ?thesis by blast
qed

section \<open>The main loop\<close>

lemma run_loop_returns:
  assumes "a \<in> set as" "at_stop a \<or> at_cancelled a"
  shows "\<exists>st' r. run_loop env config conns as st = (st', Some r)"
proof (rule run_retry.loop_returns [OF assms(1)])
  show "\<not> run_again a q" if "(case run_operation env config conns a st of (st', q) \<Rightarrow> (st', Some q)) = (st', Some q)" for st st' q
    using that assms(2) by (cases q) (auto simp: run_operation_def split: prod.splits)
qed (auto split: prod.splits)

lemma run_deferred_status: "cs_err (run_deferred c) = None \<and> cs_status (run_deferred c) \<in> {Status_Idle, Status_NeedsLogin}"
  by (auto simp: run_deferred_def state_Status_def state_Set_def split: option.splits)

lemma run_deferred_needs: "cs_status (run_deferred c) = Status_NeedsLogin \<longleftrightarrow> cs_err c = None \<and> cs_status c = Status_NeedsLogin"
  by (auto simp: run_deferred_def state_Status_def state_Set_def split: option.splits)

text \<open>The attempt that ended in \<open>NeedsLogin\<close> was refused by the service, unless nothing was attempted.\<close>

lemma wrapErr_err: "wrapErr st e = (st', r) \<Longrightarrow> cs_err (rs_state st') \<noteq> None"
  by (auto simp: wrapErr_def state_Wrap_def)

lemma engine_not_needs:
  assumes "run_engine env a config k conns resp st = (st', r)" "cs_status (rs_state st) = Status_Connecting"
  shows "\<not> (cs_err (rs_state st') = None \<and> cs_status (rs_state st') = Status_NeedsLogin)"
  using assms
  by (auto simp: run_engine_def run_shutdown_def state_Set_def state_Wrap_def Let_def wrapErr_def state_Status_def
      split: prod.splits if_splits option.splits elim!: on_ret_cases)

text \<open>
  C35: the main loop returns as soon as the context is cancelled or the backoff gives up, whatever
  the services did before, and then the state of the client is \<open>Idle\<close> or \<open>NeedsLogin\<close> without an
  error, so that the client can be started again.
\<close>

theorem run_client_returns:
  assumes "a \<in> set as" "at_stop a \<or> at_cancelled a"
  shows "\<exists>st' r. RunClient env config conns as st = (st', Some r) \<and>
    state_Status (rs_state st') \<in> {Ret Status_Idle, Ret Status_NeedsLogin}"
proof -
  obtain st' r where l: "run_loop env config conns as st = (st', Some r)" using run_loop_returns [OF assms] by blast
  with run_deferred_status [of "rs_state st'"] show ?thesis by (auto simp: RunClient_def state_Status_def)
qed

definition ex_attempt :: "(nat, ex_device) Attempt" where
  "ex_attempt = \<lparr>at_cancelled = False, at_dial = (\<lambda>_ _. Err (PlainError ''unreachable'')),
     at_rpc = \<lparr>rpc_state = Conn_Ready, rpc_GetServerKey = (\<lambda>_. Err (PlainError ''x'')), rpc_Login = (\<lambda>s _. (s, Err (PlainError ''x''))),
       rpc_GetDeviceAuthorizationFlow = (\<lambda>_ _. Err (PlainError ''x'')), rpc_Close = Ret ()\<rparr>,
     at_info = None, at_signal_dial = (\<lambda>_ _. Ret ()), at_signal_Close = Ret (), at_ctl = ex_ctl,
     at_start = \<lparr>start_listen = (\<lambda>_. Ret ()), start_Create = Ret (), iface_Close = Ret ()\<rparr>, at_reset = False, at_stop = False\<rparr>"

definition ex_mgm_env :: Mgm_Env where
  "ex_mgm_env = \<lparr>mc_box = ex_box, mc_nonce = Ret (replicate 24 0), mc_marshal_empty = (\<lambda>_. Ret []), mc_marshal_login = (\<lambda>_. Ret []),
     mc_unmarshal_login = (\<lambda>_. Err (PlainError ''x'')), mc_unmarshal_sync = (\<lambda>_. Err (PlainError ''x'')),
     mc_unmarshal_flow = (\<lambda>_. Ret \<lparr>FlowMsg_Provider = 0, FlowMsg_ProviderConfig = \<lparr>Provider_ClientID = ''cid'',
       Provider_ClientSecret = [], Provider_Domain = ''idp'', Provider_Audience = ''aud''\<rparr>\<rparr>)\<rparr>"

theorem run_client_returns_witness:
  "\<exists>st r. RunClient ex_mgm_env ex_client_config (\<lambda>_. ex_conn) [ex_attempt, ex_attempt\<lparr>at_cancelled := True\<rparr>]
     \<lparr>rs_state = CtxInitState, rs_remote = 0, rs_device = Map.empty\<rparr> = (st, Some r) \<and>
     state_Status (rs_state st) \<in> {Ret Status_Idle, Ret Status_NeedsLogin}"
  by (rule run_client_returns [of "ex_attempt\<lparr>at_cancelled := True\<rparr>"]) simp_all

section \<open>One client at a time\<close>

text \<open>
  The runs of the daemon: \<open>Start\<close> is called once, then the calls of the user in any order, and
  between them the clients change the state, talk to the Management Service and end.
\<close>

inductive daemon_run :: "'s Daemon \<Rightarrow> bool" where
  start: "Daemon_Start env (Daemon_New m a cp lf file remote) = (d, r) \<Longrightarrow> daemon_run d"
| login: "daemon_run d \<Longrightarrow> Daemon_Login env now msg d = (d', r) \<Longrightarrow> daemon_run d'"
| wait: "daemon_run d \<Longrightarrow> WaitSSOLogin env now code d = Some (d', r) \<Longrightarrow> daemon_run d'"
| up: "daemon_run d \<Longrightarrow> Up d = (d', r) \<Longrightarrow> daemon_run d'"
| down: "daemon_run d \<Longrightarrow> Down d = (d', r) \<Longrightarrow> daemon_run d'"
| over: "daemon_run d \<Longrightarrow> daemon_run (client_over c by_up r d)"
| works: "daemon_run d \<Longrightarrow> daemon_run (d\<lparr>dm_state := st, dm_remote := s\<rparr>)"

definition daemon_ok :: "'s Daemon \<Rightarrow> bool" where
  "daemon_ok d \<longleftrightarrow> distinct (map fst (dm_running d)) \<and> (\<forall>c. dm_actCancel d = Some c \<longrightarrow> c < dm_made d) \<and>
     (\<forall>(c, config) \<in> set (dm_running d). c < dm_made d \<and> (c \<in> set (dm_cancelled d) \<or> dm_actCancel d = Some c))"

text \<open>The invariant looks at the contexts only, and more of them cancelled keeps it.\<close>

definition ctx_step :: "'s Daemon \<Rightarrow> 's Daemon \<Rightarrow> bool" where
  "ctx_step d d' \<longleftrightarrow> dm_running d' = dm_running d \<and> dm_actCancel d' = dm_actCancel d \<and> dm_made d \<le> dm_made d' \<and>
     set (dm_cancelled d) \<subseteq> set (dm_cancelled d')"

lemma ctx_step_ok: "ctx_step d d' \<Longrightarrow> daemon_ok d \<Longrightarrow> daemon_ok d'"
  by (auto simp: ctx_step_def daemon_ok_def)

lemma ctx_step_trans: "ctx_step d1 d2 \<Longrightarrow> ctx_step d2 d3 \<Longrightarrow> ctx_step d1 d3"
  by (auto simp: ctx_step_def)

lemma ctx_step_simps [simp]:
  "ctx_step d d" "ctx_step d (set_status s d') = ctx_step d d'" "ctx_step d (d'\<lparr>dm_file := f\<rparr>) = ctx_step d d'"
  "ctx_step d (d'\<lparr>dm_config := cfg\<rparr>) = ctx_step d d'" "ctx_step d (d'\<lparr>dm_remote := s'\<rparr>) = ctx_step d d'"
  "ctx_step d (d'\<lparr>dm_oauth := oa\<rparr>) = ctx_step d d'" "ctx_step d (login_deferred d') = ctx_step d d'"
  "ctx_step d (update_urls msg d') = ctx_step d d'"
  by (auto simp: ctx_step_def set_status_def login_deferred_def update_urls_def split: outcome.splits)

lemma replace_context_ok:
  assumes "daemon_ok d"
  shows "daemon_ok (replace_context d)" "dm_actCancel (replace_context d) = Some (dm_made d)"
    "\<forall>(c, config) \<in> set (dm_running (replace_context d)). c < dm_made d"
    "\<forall>(c, config) \<in> set (dm_running (replace_context d)). c \<in> set (dm_cancelled (replace_context d))"
    "dm_made (replace_context d) = Suc (dm_made d)"
  using assms by (auto simp: replace_context_def new_context_def daemon_ok_def split: option.splits)

lemma loginAttempt_ctx: "loginAttempt env sk jwt d = (d', r) \<Longrightarrow> ctx_step d d'"
  by (auto simp: loginAttempt_def split: option.splits prod.splits outcome.splits)

lemma request_device_ctx: "request_device env now h d = (d', r) \<Longrightarrow> ctx_step d d'"
  by (auto simp: request_device_def split: outcome.splits)

lemma sso_login_ctx:
  assumes "sso_login env now config d = (d', r)"
  shows "ctx_step d d'"
proof -
  have more: "ctx_step d (d\<lparr>dm_cancelled := c # dm_cancelled d\<rparr>)" for c by (auto simp: ctx_step_def)
  show ?thesis using assms ctx_step_trans [OF more request_device_ctx] request_device_ctx
    by (auto simp: sso_login_def Let_def split: outcome.splits if_splits option.splits)
qed

lemma login_with_ctx:
  assumes "login_with env now msg config d = (d', r)"
  shows "ctx_step d d'"
proof -
  obtain d1 q where q: "loginAttempt env [] [] d = (d1, q)" by fastforce
  note 1 = loginAttempt_ctx [OF q]
  obtain d3 q3 where q3: "loginAttempt env (DLogin_SetupKey msg) [] (set_status Status_Connecting d1) = (d3, q3)" by fastforce
  have 3: "ctx_step d d3" using loginAttempt_ctx [OF q3] 1 by (auto simp: ctx_step_def set_status_def)
  have sso: "ctx_step d d''" if "sso_login env now config (set_status Status_Connecting d1) = (d'', r')" for d'' r'
    using sso_login_ctx [OF that] 1 by (auto simp: ctx_step_def set_status_def)
  show ?thesis using assms q q3 1 3 sso
    by (auto simp: login_with_def Let_def split: outcome.splits option.splits if_splits prod.splits)
qed

lemma Daemon_Login_ok:
  assumes "daemon_ok d" "Daemon_Login env now msg d = (d', r)"
  shows "daemon_ok d'"
proof -
  have "ctx_step (replace_context d) d'"
    using assms(2) login_with_ctx
    by (fastforce simp: Daemon_Login_def Let_def ctx_step_def update_urls_def login_deferred_def set_status_def
        split: prod.splits outcome.splits)
  then show ?thesis using replace_context_ok(1) [OF assms(1)] by (rule ctx_step_ok)
qed

lemma wait_for_token_ctx:
  assumes "wait_for_token env now h d = Some (d', r)"
  shows "ctx_step d d'"
proof -
  have 1: "ctx_step d (begin_wait d)" by (auto simp: begin_wait_def ctx_step_def Let_def split: option.splits)
  have "ctx_step d d2" if "loginAttempt env [] jwt (begin_wait d) = (d2, q)" for jwt d2 q
    using that 1 ctx_step_trans loginAttempt_ctx by blast
  with assms 1 show ?thesis
    by (auto simp: wait_for_token_def Let_def split: option.splits outcome.splits prod.splits if_splits)
qed

lemma WaitSSOLogin_ok:
  assumes "daemon_ok d" "WaitSSOLogin env now code d = Some (d', r)"
  shows "daemon_ok d'"
proof -
  have "ctx_step (replace_context d) d'"
  proof -
    have "ctx_step (replace_context d) e" if "wait_for_token env now h (set_status Status_Connecting (replace_context d)) = Some (e, q)" for h e q
      using wait_for_token_ctx [OF that] by (simp add: ctx_step_def set_status_def)
    with assms(2) show ?thesis
      by (auto simp: WaitSSOLogin_def Let_def split: option.splits if_splits)
  qed
  then show ?thesis using replace_context_ok(1) [OF assms(1)] by (rule ctx_step_ok)
qed

lemma run_client_ok:
  assumes "daemon_ok d" "dm_actCancel d = Some c" "\<forall>(c', config) \<in> set (dm_running d). c' < c"
  shows "daemon_ok (run_client config d)"
  using assms by (auto simp: run_client_def daemon_ok_def)

lemma Up_ok:
  assumes "daemon_ok d" "Up d = (d', r)"
  shows "daemon_ok d'"
  using assms(2) assms(1) replace_context_ok [OF assms(1)] run_client_ok [of "replace_context d" "dm_made d"]
  by (auto simp: Up_def Let_def split: outcome.splits if_splits option.splits)

lemma Start_ok:
  assumes "Daemon_Start env (Daemon_New m a cp lf file remote) = (d, r)"
  shows "daemon_ok d"
  using assms
  by (auto simp: Daemon_Start_def Daemon_New_def new_context_def daemon_ok_def set_status_def run_client_def Let_def
      split: outcome.splits if_splits prod.splits)

lemma client_over_ok: "daemon_ok d \<Longrightarrow> daemon_ok (client_over c by_up r d)"
  by (cases r) (auto simp: client_over_def daemon_ok_def Let_def distinct_map_filter)

lemma daemon_run_ok: "daemon_run d \<Longrightarrow> daemon_ok d"
proof (induction rule: daemon_run.induct)
  case (down d d' r)
  then show ?case by (auto simp: Down_def daemon_ok_def split: option.splits)
next
  case (works d st s)
  then show ?case by (simp add: daemon_ok_def)
next
  case (login d env now msg d' r)
  then show ?case using Daemon_Login_ok by blast
next
  case (wait d env now code d' r)
  then show ?case using WaitSSOLogin_ok by blast
next
  case (start env m a cp lf f remote d r)
  then show ?case by (rule Start_ok)
next
  case (up d d' r)
  then show ?case using Up_ok by blast
next
  case (over d c by_up r)
  then show ?case using client_over_ok by blast
qed

text \<open>
  C28: whatever is asked of the daemon, in whatever order, at most one client runs on a context
  that is not cancelled, and it runs on the context that \<open>Down\<close> cancels; so \<open>Down\<close> stops
  everything.
\<close>

theorem single_client:
  assumes "daemon_run d"
  shows "length (filter (\<lambda>(c, config). c \<notin> set (dm_cancelled d)) (dm_running d)) \<le> 1 \<and>
    (\<forall>d'. Down d = (d', Ret ()) \<longrightarrow> (\<forall>(c, config) \<in> set (dm_running d'). c \<in> set (dm_cancelled d')))"
proof
  let ?live = "filter (\<lambda>(c, config). c \<notin> set (dm_cancelled d)) (dm_running d)"
  note ok = daemon_run_ok [OF assms]
  have "distinct (map fst ?live)" using ok by (simp add: daemon_ok_def distinct_map_filter)
  moreover have "set (map fst ?live) \<subseteq> set_option (dm_actCancel d)" using ok by (auto simp: daemon_ok_def)
  then have "card (set (map fst ?live)) \<le> card (set_option (dm_actCancel d))" by (intro card_mono) auto
  moreover have "card (set_option (dm_actCancel d)) \<le> 1" by (cases "dm_actCancel d") auto
  ultimately show "length ?live \<le> 1" by (metis distinct_card le_trans length_map)
  show "\<forall>d'. Down d = (d', Ret ()) \<longrightarrow> (\<forall>(c, config) \<in> set (dm_running d'). c \<in> set (dm_cancelled d'))"
    using ok by (auto simp: Down_def daemon_ok_def split: option.splits)
qed

definition ex_rpc :: "nat Mgm_Rpc" where
  "ex_rpc = \<lparr>rpc_state = Conn_Ready, rpc_GetServerKey = (\<lambda>_. Ret \<lparr>Key_Key = ''srv'', Key_Seconds = 0, Key_Nanos = 0\<rparr>),
     rpc_Login = (\<lambda>s _. (s, Err (StatusError PermissionDenied ''not registered''))),
     rpc_GetDeviceAuthorizationFlow = (\<lambda>_ m. Ret \<lparr>Enc_WgPubKey = ''srv'', Enc_Body = replicate 24 0\<rparr>), rpc_Close = Ret ()\<rparr>"

definition ex_daemon_env :: "nat Daemon_Env" where
  "ex_daemon_env = \<lparr>de_config = ex_cfg_env, de_uuid_Parse = (\<lambda>_. Err (PlainError ''uuid'')), de_mgm = ex_mgm_env, de_rpc = ex_rpc,
     de_dial = (\<lambda>_ _. Ret ()), de_info = None,
     de_oauth = ex_oauth\<lparr>oa_unmarshal_device := (\<lambda>_. Ret (ex_device_info 5))\<rparr>,
     de_device_http = (\<lambda>_ _. \<lparr>hr_NewRequest = Ret (), hr_Do = Ret (), hr_Body = Ret [], hr_StatusCode = 200\<rparr>), de_wait = []\<rparr>"

definition ex_daemon :: "nat Daemon" where
  "ex_daemon = fst (Daemon_Start ex_daemon_env (Daemon_New [] [] [] [] (CfgStored ex_client_config) 0))"

lemma ex_daemon_run: "daemon_run ex_daemon"
  unfolding ex_daemon_def by (rule daemon_run.start) (rule prod.collapse [symmetric])

lemma ex_daemon_state: "dm_running ex_daemon = [(0, ex_client_config)]" "dm_actCancel ex_daemon = Some 0" "dm_cancelled ex_daemon = []"
  by (simp_all add: ex_daemon_def Daemon_Start_def Daemon_New_def CtxInitState_def state_Status_def new_context_def
      ReadConfig_plain run_client_def)

theorem single_client_witness:
  "length (filter (\<lambda>(c, config). c \<notin> set (dm_cancelled ex_daemon)) (dm_running ex_daemon)) = 1 \<and>
   (\<exists>d'. Down ex_daemon = (d', Ret ()) \<and> (\<forall>(c, config) \<in> set (dm_running d'). c \<in> set (dm_cancelled d')))"
proof -
  obtain d' where "Down ex_daemon = (d', Ret ())" using ex_daemon_state by (simp add: Down_def)
  with single_client [OF ex_daemon_run] ex_daemon_state show ?thesis by auto
qed

section \<open>A second single sign-on\<close>

text \<open>
  Asking for a single sign-on again, after the first one was never waited for and is about to
  expire, brings the daemon down: it calls the function that would cancel the waiting, which is
  set only by \<open>WaitSSOLogin\<close>.
\<close>

theorem second_sso_panics:
  assumes "sso_login env now config d = (d1, Ret resp)" "oaf_client (dm_oauth d) = None" "oaf_waitCancel (dm_oauth d) = None"
    and "oaf_expiresAt (dm_oauth d1) \<le> now' + 90 * second"
  shows "sso_login env now' config d1 = (d1, Panic NilDereference)"
  using assms
  by (auto simp: sso_login_def request_device_def Let_def set_status_def GetClientID_def
      split: outcome.splits if_splits option.splits)

theorem second_sso_panics_witness:
  "\<exists>d1 resp. sso_login ex_daemon_env 0 ex_client_config ex_daemon = (d1, Ret resp) \<and>
     sso_login ex_daemon_env (300 * second) ex_client_config d1 = (d1, Panic NilDereference)"
proof -
  have fresh: "oaf_client (dm_oauth ex_daemon) = None" "oaf_waitCancel (dm_oauth ex_daemon) = None"
    by (simp_all add: ex_daemon_def Daemon_Start_def Daemon_New_def CtxInitState_def state_Status_def new_context_def
      ReadConfig_plain run_client_def)
  obtain d1 resp where s: "sso_login ex_daemon_env 0 ex_client_config ex_daemon = (d1, Ret resp)"
    "oaf_expiresAt (dm_oauth d1) = 300 * second"
    using fresh
    by (simp add: sso_login_def GetDeviceAuthorizationFlowInfo_def dial_management_def ex_daemon_env_def ex_mgm_env_def
        ex_client_config_def ex_url_def mgm_NewClient_def GetServerPublicKey_def mgm_ready_def ex_rpc_def ex_box_def
        mgm_GetDeviceAuthorizationFlow_def EncryptMessage_def Encrypt_def DecryptMessage_def Decrypt_def
        request_device_def RequestDeviceCode_def ex_device_info_def Let_def set_status_def)
  from second_sso_panics [OF s(1) fresh] s show ?thesis by (simp add: second_def)
qed

end
