(* ===== verification/Engine_Streams.thy ===== *)
theory Engine_Streams
  imports Engine_Properties Client_Properties
begin

text \<open>
  The two goroutines of a running engine (\<open>client/internal/engine.go\<close>, \<open>receiveManagementEvents\<close> and
  \<open>receiveSignalEvents\<close>): one hands the updates of the Management Service to \<open>handleSync\<close>, the other the
  messages of the Signal Exchange to \<open>handleSignal\<close>. Both streams reconnect by themselves; only when that
  is given up do they end, and they end the engine with them. The main loop (\<open>Client_Run\<close>) then starts
  another one.
\<close>

section \<open>The goroutines\<close>

text \<open>
  The state both share: the engine, whose handlers take its mutex, the state in its context and
  whether that context is cancelled.
\<close>

record Engine_Run =
  er_engine :: Engine
  er_state :: contextState
  er_cancelled :: bool

fun stream_ended :: "unit outcome option \<Rightarrow> Engine_Run \<Rightarrow> Engine_Run" where
  "stream_ended (Some (Err e)) s = s\<lparr>er_state := state_Wrap ErrResetConnection (er_state s), er_cancelled := True\<rparr>"
| "stream_ended q s = s"

definition receiveManagementEvents ::
  "Mgm_Env \<Rightarrow> Engine_Env \<Rightarrow> Mgm_Client \<Rightarrow> Mgm_Round list \<Rightarrow> Engine_Run \<Rightarrow> Engine_Run \<times> unit outcome option" where
  "receiveManagementEvents menv env c rs s =
     (case mgm_Sync menv c (handleSync env) rs (er_engine s) of
        (e, q) \<Rightarrow> (stream_ended q (s\<lparr>er_engine := e\<rparr>), q))"

text \<open>
  After it has started the goroutine, \<open>receiveSignalEvents\<close> calls \<open>WaitStreamConnected\<close> (\<open>Signal_Client\<close>),
  which changes nothing but the channel of the client.
\<close>

definition receiveSignalEvents ::
  "Sig_Env \<Rightarrow> Engine_Env \<Rightarrow> Sig_Round list \<Rightarrow> Sig_Client \<times> Engine_Run \<Rightarrow> (Sig_Client \<times> Engine_Run) \<times> unit outcome option" where
  "receiveSignalEvents senv env rs cs =
     (case Receive senv (handleSignal env) rs (fst cs) (er_engine (snd cs)) of
        (c, e, q) \<Rightarrow> ((c, stream_ended q ((snd cs)\<lparr>er_engine := e\<rparr>)), q))"

section \<open>The handlers keep the engine consistent\<close>

lemma on_ret_keeps:
  assumes "P (fst x)" "\<And>s e. P s \<Longrightarrow> P (fst (f s e))" "\<And>s v. P s \<Longrightarrow> P (fst (g s v))"
  shows "P (fst (on_ret x f g))"
  using assms by (cases x; cases "snd x") auto

lemma go_for_keeps:
  assumes "P s" "\<And>x s. P s \<Longrightarrow> P (fst (f x s))"
  shows "P (fst (go_for f xs s))"
  using go_for_invariant [of f xs s _ _ P] assms by (metis fst_conv prod.collapse)

text \<open>With the invariant of the engine, its resources: the handlers hold on to what \<open>Start\<close> acquired.\<close>

definition engine_inv :: "resource list \<Rightarrow> Engine \<Rightarrow> bool" where
  "engine_inv R e \<longleftrightarrow> eng_ok e \<and> eng_resources e = R"

lemma removePeer_resources: "eng_resources (fst (removePeer k e)) = eng_resources e"
  by (simp add: removePeer_def Let_def split: option.split outcome.split)

lemma removal_keeps: "engine_inv R e \<Longrightarrow> engine_inv R (fst (go_for removePeer ks e))"
  using removed_keeps [of e ks] go_for_keeps [where P = "\<lambda>e. eng_resources e = R" and f = removePeer and xs = ks and s = e]
  by (cases "go_for removePeer ks e") (auto simp: engine_inv_def keeps_conns_def removePeer_resources)

lemma addNewPeer_keeps:
  assumes "engine_inv R e"
  shows "engine_inv R (fst (addNewPeer env p e))"
proof -
  have "eng_resources (fst (addNewPeer env p e)) = eng_resources e"
    by (simp add: addNewPeer_def Let_def split: option.split outcome.split)
  moreover have "eng_ok (fst (addNewPeer env p e))"
  proof (cases "parse_key (en_box env) (Remote_WgPubKey p)")
    case (Ret k)
    have "eng_ok e" using assms by (simp add: engine_inv_def)
    from addNewPeer_effect [OF this Ret] show ?thesis by (auto simp: keeps_conns_def)
  qed (use assms in \<open>simp_all add: engine_inv_def addNewPeer_def createPeerConn_def NewConn_def Let_def split: option.split\<close>)
  ultimately show ?thesis using assms by (simp add: engine_inv_def)
qed

lemmas engine_on_ret = on_ret_keeps [where P = "engine_inv R" for R]

lemma updateNetworkMap_keeps:
  assumes "engine_inv R e"
  shows "engine_inv R (fst (updateNetworkMap env nm e))"
proof -
  have add: "engine_inv R (fst (addNewPeers env ps e))" if "engine_inv R e" for ps e
    unfolding addNewPeers_def by (rule go_for_keeps [where P = "engine_inv R", OF that addNewPeer_keeps])
  have remove: "engine_inv R (fst (removePeers ps e))" "engine_inv R (fst (removeAllPeers e))" if "engine_inv R e" for ps e
    using that by (simp_all add: removePeers_def removeAllPeers_def Let_def removal_keeps)
  have "engine_inv R (fst (on_ret (removePeers ps e) (\<lambda>e err. (e, Err err)) (\<lambda>e u. addNewPeers env ps e)))" for ps
    by (rule engine_on_ret) (simp_all add: add remove assms)
  then have "engine_inv R (fst (if Map_RemotePeersIsEmpty nm then removeAllPeers e
     else on_ret (removePeers (Map_RemotePeers nm) e) (\<lambda>e err. (e, Err err)) (\<lambda>e u. addNewPeers env (Map_RemotePeers nm) e)))"
    using remove(2) assms by simp
  then have "engine_inv R (fst (on_ret (if Map_RemotePeersIsEmpty nm then removeAllPeers e
       else on_ret (removePeers (Map_RemotePeers nm) e) (\<lambda>e err. (e, Err err)) (\<lambda>e u. addNewPeers env (Map_RemotePeers nm) e))
     (\<lambda>e err. (e, Err err)) (\<lambda>e u. (e\<lparr>eng_serial := Map_Serial nm\<rparr>, Ret ()))))"
    by (rule engine_on_ret) (simp_all add: engine_inv_def eng_ok_def)
  then show ?thesis using assms by (simp add: updateNetworkMap_def Let_def)
qed

lemma urls_keep:
  assumes "engine_inv R e"
  shows "engine_inv R (fst (updateTURNs env ts e))" "engine_inv R (fst (updateSTUNs env ss e))"
  using assms by (auto simp: updateTURNs_def updateSTUNs_def engine_inv_def eng_ok_def split: outcome.split)

lemma handleSync_keeps:
  assumes "engine_inv R e"
  shows "engine_inv R (fst (handleSync env u e))"
  unfolding handleSync_def
proof (rule engine_on_ret)
  have "engine_inv R (fst (on_ret (updateTURNs env ts e) (\<lambda>e err. (e, Err err)) (\<lambda>e u. updateSTUNs env ss e)))" for ts ss
    by (rule engine_on_ret) (simp_all add: urls_keep assms)
  then show "engine_inv R (fst (case Sync_WiretrusteeConfig u of None \<Rightarrow> (e, Ret ())
      | Some config \<Rightarrow> on_ret (updateTURNs env (Wt_Turns config) e) (\<lambda>e err. (e, Err err))
          (\<lambda>e u. updateSTUNs env (Wt_Stuns config) e)))"
    using assms by (simp split: option.split)
next
  show "engine_inv R (fst (case Sync_NetworkMap u of None \<Rightarrow> (e, Ret ()) | Some nm \<Rightarrow> updateNetworkMap env nm e))" if "engine_inv R e" for e
    using that by (simp add: updateNetworkMap_keeps split: option.split)
qed simp

lemma handleSignal_keeps: "engine_inv R e \<Longrightarrow> engine_inv R (fst (handleSignal env e m))"
  by (auto simp: handleSignal_def engine_inv_def eng_ok_def split: option.split outcome.split Body_Type.split)

section \<open>The streams keep the engine consistent\<close>

lemma receiveEvents_keeps:
  assumes "P h" "\<And>u h. P h \<Longrightarrow> P (fst (msgHandler u h))"
  shows "P (fst (receiveEvents env c k msgHandler rs h))"
  using assms(1)
proof (induction rs arbitrary: h)
  case (Cons x rs)
  show ?case
  proof (cases x)
    case (Ret update)
    have "P h'" if "msgHandler u h = (h', r)" for u h' r using assms(2) [OF Cons.prems, of u] that by simp
    with Ret Cons show ?thesis by (auto split: outcome.split prod.split)
  qed (use Cons in auto)
qed simp

lemma receive_keeps:
  assumes "P h" "\<And>h m. P h \<Longrightarrow> P (fst (msgHandler h m))"
  shows "P (fst (Signal_Client.receive env c msgHandler rs h))"
  using assms(1)
proof (induction rs arbitrary: h)
  case (Cons x rs)
  show ?case
  proof (cases x)
    case (Ret msg)
    have "P h'" if "msgHandler h m = (h', r)" for m h' r using assms(2) [OF Cons.prems, of m] that by simp
    with Ret Cons show ?thesis by (auto split: outcome.split prod.split)
  qed (use Cons in auto)
qed simp

lemma sync_keeps:
  assumes "P h" "\<And>u h. P h \<Longrightarrow> P (fst (msgHandler u h))"
  shows "P (fst (mgm_Sync env c msgHandler rs h))"
proof (rule mgm_retry.loop_keeps [of P, OF assms(1)])
  fix r h assume h: "P h"
  have "P h'" if "receiveEvents env c k msgHandler xs h = (h', q)" for k xs h' q
    using receiveEvents_keeps [where P = P and msgHandler = msgHandler, OF h assms(2)] that by (metis fst_conv)
  with h show "P (fst (sync_operation env c msgHandler r h))"
    by (auto simp: sync_operation_def split: outcome.split prod.split option.split)
qed

lemma Receive_keeps:
  assumes "P h" "\<And>h m. P h \<Longrightarrow> P (fst (msgHandler h m))"
  shows "P (fst (snd (Receive env msgHandler rs c h)))"
proof -
  have "(\<lambda>s. P (snd s)) (fst (case Receive env msgHandler rs (fst (c, h)) (snd (c, h)) of (c, h, q) \<Rightarrow> ((c, h), q)))"
  proof (rule sig_retry.loop_keeps)
    fix r and s :: "Sig_Client \<times> 'a" assume h: "P (snd s)"
    have "P h'" if "Signal_Client.receive env c msgHandler xs (snd s) = (h', q)" for c xs h' q
      using receive_keeps [where P = P and msgHandler = msgHandler, OF h assms(2)] that by (metis fst_conv)
    with h show "P (snd (fst (operation_step env msgHandler r s)))"
      by (auto simp: operation_step_def receive_operation_def Let_def split: outcome.split prod.split)
  qed (simp add: assms(1))
  then show ?thesis by (simp split: prod.splits)
qed

section \<open>The end of a stream\<close>

lemma stream_ended_engine [simp]: "er_engine (stream_ended q s) = er_engine s"
  by (cases "(q, s)" rule: stream_ended.cases) auto

lemma stream_ended_reset:
  "er_state (stream_ended q s) = (if \<exists>e. q = Some (Err e) then state_Wrap ErrResetConnection (er_state s) else er_state s)"
  "er_cancelled (stream_ended q s) \<longleftrightarrow> er_cancelled s \<or> (\<exists>e. q = Some (Err e))"
proof -
  show "er_state (stream_ended q s) = (if \<exists>e. q = Some (Err e) then state_Wrap ErrResetConnection (er_state s) else er_state s)"
    by (cases "(q, s)" rule: stream_ended.cases) auto
  show "er_cancelled (stream_ended q s) \<longleftrightarrow> er_cancelled s \<or> (\<exists>e. q = Some (Err e))"
    by (cases "(q, s)" rule: stream_ended.cases) auto
qed

text \<open>
  The goroutines interleave: an update or a message is handled as a whole, under the mutex of the
  engine, and either stream may end at any time. Both goroutines, from any point on, are such runs.
\<close>

inductive stream_run :: "Engine_Env \<Rightarrow> Engine_Run \<Rightarrow> Engine_Run \<Rightarrow> bool" for env s where
  start: "stream_run env s s"
| update: "stream_run env s t \<Longrightarrow> stream_run env s (t\<lparr>er_engine := fst (handleSync env u (er_engine t))\<rparr>)"
| message: "stream_run env s t \<Longrightarrow> stream_run env s (t\<lparr>er_engine := fst (handleSignal env (er_engine t) m)\<rparr>)"
| ended: "stream_run env s t \<Longrightarrow> stream_run env s (stream_ended q t)"

lemma goroutines_run:
  assumes "stream_run env s t"
  shows "receiveManagementEvents menv env c rs t = (t', q) \<Longrightarrow> stream_run env s t'"
    and "receiveSignalEvents senv env rounds (sc, t) = ((sc', t'), q) \<Longrightarrow> stream_run env s t'"
proof -
  let ?P = "\<lambda>e. stream_run env s (t\<lparr>er_engine := e\<rparr>)"
  have P: "?P (er_engine t)" using assms by simp
  have "?P (fst (handleSync env u e))" "?P (fst (handleSignal env e m))" if "?P e" for u m e
    using stream_run.update [OF that, of u] stream_run.message [OF that, of m] by simp_all
  then have "?P (fst (mgm_Sync menv c (handleSync env) rs (er_engine t)))"
    "?P (fst (snd (Receive senv (handleSignal env) rounds sc (er_engine t))))"
    using sync_keeps [where P = ?P and msgHandler = "handleSync env", OF P]
      Receive_keeps [where P = ?P and msgHandler = "handleSignal env", OF P] by blast+
  then show "receiveManagementEvents menv env c rs t = (t', q) \<Longrightarrow> stream_run env s t'"
    "receiveSignalEvents senv env rounds (sc, t) = ((sc', t'), q) \<Longrightarrow> stream_run env s t'"
    by (auto simp: receiveManagementEvents_def receiveSignalEvents_def split: prod.splits intro: stream_run.ended)
qed

lemma goroutine_ends:
  "receiveManagementEvents menv env c rs t = (t', Some (Err e)) \<Longrightarrow> er_cancelled t'"
  "receiveSignalEvents senv env rounds (sc, t) = ((sc', t'), Some (Err e)) \<Longrightarrow> er_cancelled t'"
  by (auto simp: receiveManagementEvents_def receiveSignalEvents_def split: prod.splits)

lemma run_keeps:
  assumes "stream_run env s t" "engine_inv R (er_engine s)" "\<not> er_cancelled s"
  shows "engine_inv R (er_engine t) \<and>
    er_state t = (if er_cancelled t then state_Wrap ErrResetConnection (er_state s) else er_state s)"
  using assms
  by (induction rule: stream_run.induct)
    (auto simp: handleSync_keeps handleSignal_keeps stream_ended_reset state_Wrap_def split: if_splits)

lemma Engine_Stop_result:
  assumes "engine_inv R e"
  shows "snd (Engine_Stop env e) = (if WgInterface \<in> set R then iface_Close env else Ret ())"
    and "Engine_GetPeers (fst (Engine_Stop env e)) = []"
proof -
  obtain e1 where e1: "removeAllPeers e = (e1, Ret ())" "\<And>k. lookup (eng_peerConns e1) k = None" "eng_resources e1 = R"
  proof -
    obtain e1 r where r: "removeAllPeers e = (e1, r)" by fastforce
    have "r = Ret ()" "lookup (eng_peerConns e1) k = None" for k
      using removed_keeps [of e "keys (eng_peerConns e)" e1 r] r assms lookup_keys [of k "eng_peerConns e"]
      by (auto simp: removeAllPeers_def engine_inv_def)
    moreover have "eng_resources e1 = R"
      using removal_keeps [OF assms, of "keys (eng_peerConns e)"] r by (simp add: removeAllPeers_def engine_inv_def)
    ultimately show ?thesis using r that by blast
  qed
  then have "Engine_GetPeers e1 = []" using peers_lookup [of _ e1] by (cases "Engine_GetPeers e1") auto
  moreover have "Engine_GetPeers (e1\<lparr>eng_resources := []\<rparr>) = Engine_GetPeers e1" by (simp add: Engine_GetPeers_def)
  ultimately show "snd (Engine_Stop env e) = (if WgInterface \<in> set R then iface_Close env else Ret ())"
    "Engine_GetPeers (fst (Engine_Stop env e)) = []"
    using e1 by (cases "iface_Close env"; simp add: Engine_Stop_def)+
qed

lemma Engine_Start_ok:
  assumes "Engine_Start ctl senv d (NewEngine config conns) = ((d', e), r)"
  shows "eng_ok e"
proof -
  let ?P = "\<lambda>s :: 'a \<times> Engine. eng_ok (snd s)"
  have [simp]: "eng_ok (acquire x e)" "eng_ok (e\<lparr>eng_iface := w\<rparr>)" if "eng_ok e" for x e w
    using that by (simp_all add: eng_ok_def acquire_def)
  have "?P (fst (Engine_Start ctl senv d (NewEngine config conns)))"
    unfolding Engine_Start_def
    by (intro on_ret_keeps [where P = ?P])
      (auto simp: NewEngine_ok Let_def split: prod.split intro!: on_ret_keeps [where P = ?P])
  then show ?thesis using assms by simp
qed

lemma started_inv:
  assumes "Engine_Start ctl senv d (NewEngine config conns) = ((d', e), r)"
  shows "engine_inv (eng_resources e) e"
  using Engine_Start_ok [OF assms] by (simp add: engine_inv_def)

text \<open>
  The engine of an attempt, from its start through any interleaving of its two streams: it stays
  consistent, and the shutdown, when nothing fails to close, ends with the error that makes the main
  loop try again exactly if a stream was lost. This is what the flag \<open>at_reset\<close> of an attempt stands
  for, and the main loop may look at the engine as it was started.
\<close>

theorem engine_over:
  assumes start: "Engine_Start (at_ctl a) (at_start a) d (NewEngine config conns) = ((d', engine), Ret ())"
    and run: "stream_run env \<lparr>er_engine = engine, er_state = cs, er_cancelled = False\<rparr> t"
    and fresh: "cs_err cs = None"
    and closed: "rpc_Close (at_rpc a) = Ret ()" "at_signal_Close a = Ret ()" "iface_Close (at_start a) = Ret ()"
  shows "eng_ok (er_engine t)"
    and "er_state t = (if er_cancelled t then state_Wrap ErrResetConnection cs else cs)"
    and "run_shutdown a (er_engine t) st = run_shutdown a engine st"
    and "snd (run_shutdown a (er_engine t) (st\<lparr>rs_state := er_state t\<rparr>)) = (if er_cancelled t then Err ErrResetConnection else Ret ())"
    and "Engine_GetPeers (fst (Engine_Stop (at_start a) (er_engine t))) = []"
proof -
  have inv: "engine_inv (eng_resources engine) (er_engine t)"
    and state: "er_state t = (if er_cancelled t then state_Wrap ErrResetConnection cs else cs)"
    using run_keeps [OF run] started_inv [OF start] by simp_all
  show "eng_ok (er_engine t)" using inv by (simp add: engine_inv_def)
  show "er_state t = (if er_cancelled t then state_Wrap ErrResetConnection cs else cs)" by (rule state)
  note stop = Engine_Stop_result [OF inv, of "at_start a"] Engine_Stop_result [OF started_inv [OF start], of "at_start a"]
  then show "run_shutdown a (er_engine t) st = run_shutdown a engine st" "Engine_GetPeers (fst (Engine_Stop (at_start a) (er_engine t))) = []"
    by (simp_all add: run_shutdown_def)
  show "snd (run_shutdown a (er_engine t) (st\<lparr>rs_state := er_state t\<rparr>)) = (if er_cancelled t then Err ErrResetConnection else Ret ())"
    using closed stop(1) fresh by (simp add: run_shutdown_def state state_Status_def state_Wrap_def)
qed


definition ex_lost_round :: Mgm_Round where
  "ex_lost_round = \<lparr>mr_state = Conn_Shutdown, mr_state_key = Conn_Shutdown, mr_key = Err (PlainError ''x''), mr_Sync = (\<lambda>_. Ret ()),
     mr_recvs = [], mr_stop = True\<rparr>"

definition ex_sync_update :: SyncResponse where
  "ex_sync_update = \<lparr>Sync_WiretrusteeConfig = None, Sync_PeerConfig = None, Sync_RemotePeers = [], Sync_RemotePeersIsEmpty = False,
     Sync_NetworkMap = Some (ex_net_map 3 [''p'', ''q''])\<rparr>"

definition ex_updated :: "Engine \<Rightarrow> Engine_Run" where
  "ex_updated engine = \<lparr>er_engine = fst (handleSync ex_engine_env ex_sync_update engine), er_state = CtxInitState, er_cancelled = False\<rparr>"


end
