(* ===== verification/System_Info.thy ===== *)
theory System_Info
  imports Mgmt_Client
begin

text \<open>
  The description of the machine that a client sends, on Linux: \<open>client/system/info.go\<close> and
  \<open>client/system/info_linux.go\<close>. The outputs of \<open>uname -srio\<close> and of \<open>cat /etc/os-release\<close> are arguments;
  a command that fails gives an empty output. The number of processors is not sent and left out.
\<close>

definition contains_text :: "string \<Rightarrow> string \<Rightarrow> bool" where
  "contains_text s sub \<longleftrightarrow> list_ex (\<lambda>i. take (length sub) (drop i s) = sub) [0..<Suc (length s)]"

definition HasPrefix :: "string \<Rightarrow> string \<Rightarrow> bool" where
  "HasPrefix s pre \<longleftrightarrow> take (length pre) s = pre"

definition index_at :: "'a list \<Rightarrow> nat \<Rightarrow> 'a outcome" where
  "index_at xs i = (if i < length xs then Ret (xs ! i) else Panic IndexOutOfRange)"

text \<open>The \<open>user-agent\<close> of the outgoing metadata, if there is any.\<close>

definition extractUserAgent :: "string list option \<Rightarrow> string outcome" where
  "extractUserAgent agent =
     (case agent of
        None \<Rightarrow> Ret []
      | Some [] \<Rightarrow> Panic IndexOutOfRange
      | Some (a # as) \<Rightarrow>
          (let nbAgent = hd (split_on (CHR '' '') a)
           in if HasPrefix nbAgent ''netbird'' then Ret nbAgent else Ret []))"

definition GetDesktopUIUserAgent :: "string \<Rightarrow> string" where
  "GetDesktopUIUserAgent version = ''netbird-desktop-ui/'' @ version"

text \<open>The first loop: \<open>uname\<close> is called until its output does not complain. The second one looks at the same output.\<close>

fun uname_output :: "string list \<Rightarrow> string option" where
  "uname_output [] = None"
| "uname_output (info # infos) = (if contains_text info ''broken pipe'' then uname_output infos else Some info)"

text \<open>\<open>strings.Split(s, "=")[1]\<close> without quotes, on a line that has the separator.\<close>

definition value_of :: "string \<Rightarrow> string" where
  "value_of line = filter (\<lambda>c. c \<noteq> CHR 34) (hd (tl (split_on (CHR ''='') line)))"

definition release_line :: "string \<Rightarrow> string \<times> string \<Rightarrow> string \<times> string" where
  "release_line line nv =
     (if HasPrefix line ''NAME='' then (value_of line, snd nv)
      else if HasPrefix line ''VERSION_ID='' then (fst nv, value_of line)
      else nv)"

definition release_info :: "string \<Rightarrow> string \<times> string" where
  "release_info releaseInfo = fold release_line (split_on (CHR 10) releaseInfo) ([], [])"

text \<open>
  Removing line feeds leaves no carriage return followed by one for the second replacement. The words are
  taken by their number; without a name in the release the fourth word is needed, too.
\<close>

definition GetInfo :: "string list \<Rightarrow> string \<Rightarrow> string \<Rightarrow> string \<Rightarrow> string list option \<Rightarrow> Info outcome option" where
  "GetInfo infos releaseInfo hostname version agent =
     (case uname_output infos of
        None \<Rightarrow> None
      | Some info \<Rightarrow>
          (let osInfo = split_on (CHR '' '') (filter (\<lambda>c. c \<noteq> CHR 10) info);
               (osName, osVer) = release_info releaseInfo
           in Some
             (case (if osName = [] then index_at osInfo 3 else Ret osName) of
                Panic p \<Rightarrow> Panic p
              | Err e \<Rightarrow> Err e
              | Ret name \<Rightarrow>
                  if length osInfo < 3 then Panic IndexOutOfRange
                  else (case extractUserAgent agent of
                          Panic p \<Rightarrow> Panic p
                        | Err e \<Rightarrow> Err e
                        | Ret ui \<Rightarrow>
                            Ret \<lparr>Info_GoOS = ''linux'', Info_Kernel = osInfo ! 0, Info_Core = osInfo ! 1, Info_Platform = osInfo ! 2,
                              Info_OS = name, Info_OSVersion = osVer, Info_Hostname = hostname, Info_WiretrusteeVersion = version,
                              Info_UIVersion = ui\<rparr>))))"

section \<open>Properties\<close>

lemma HasPrefix_append [simp]: "HasPrefix (pre @ s) pre"
  by (simp add: HasPrefix_def)

lemma filter_absent: "c \<notin> set w \<Longrightarrow> filter (\<lambda>x. x \<noteq> c) w = w"
  by (induction w) auto

lemma value_of_line: "CHR ''='' \<notin> set k \<Longrightarrow> CHR ''='' \<notin> set v \<Longrightarrow> CHR 34 \<notin> set v \<Longrightarrow> value_of (k @ ''='' @ [CHR 34] @ v @ [CHR 34]) = v"
  using split_on_append [of "CHR ''=''" k "[CHR 34] @ v @ [CHR 34]"] split_on_no_sep [of "CHR ''=''" "[CHR 34] @ v @ [CHR 34]"]
  by (simp add: value_of_def filter_absent)

text \<open>
  What is parsed is what the system says. The four words of \<open>uname\<close> and the name and the version of the
  release, written with quotes, are found again, whatever other lines the release has before and after.
\<close>

theorem info_parsed:
  assumes "\<forall>w \<in> {kern, core, platform, os}. CHR '' '' \<notin> set w \<and> CHR 10 \<notin> set w"
    and "\<not> contains_text (join '' '' [kern, core, platform, os] @ [CHR 10]) ''broken pipe''"
    and "\<forall>w \<in> {name, ver}. CHR ''='' \<notin> set w \<and> CHR 34 \<notin> set w \<and> CHR 10 \<notin> set w" "name \<noteq> []"
    and "\<forall>line \<in> set others. CHR 10 \<notin> set line \<and> \<not> HasPrefix line ''NAME='' \<and> \<not> HasPrefix line ''VERSION_ID=''"
    and "release = join [CHR 10] ((''NAME='' @ [CHR 34] @ name @ [CHR 34]) # (''VERSION_ID='' @ [CHR 34] @ ver @ [CHR 34]) # others)"
  shows "GetInfo [join '' '' [kern, core, platform, os] @ [CHR 10]] release hostname version None =
    Some (Ret \<lparr>Info_GoOS = ''linux'', Info_Kernel = kern, Info_Core = core, Info_Platform = platform, Info_OS = name,
      Info_OSVersion = ver, Info_Hostname = hostname, Info_WiretrusteeVersion = version, Info_UIVersion = []\<rparr>)"
proof -
  let ?n = "''NAME='' @ [CHR 34] @ name @ [CHR 34]" and ?v = "''VERSION_ID='' @ [CHR 34] @ ver @ [CHR 34]"
  have lines: "split_on (CHR 10) release = ?n # ?v # others"
    unfolding assms(6) by (rule split_on_join) (use assms(3,5) in auto)
  have "fold release_line others nv = nv" for nv
    using assms(5) by (induction others) (auto simp: release_line_def)
  moreover have "release_line ?n ([], []) = (name, [])"
    using value_of_line [of "''NAME''" name] assms(3) by (simp add: release_line_def HasPrefix_def)
  moreover have "release_line ?v (name, []) = (name, ver)"
    using value_of_line [of "''VERSION_ID''" ver] assms(3) by (simp add: release_line_def HasPrefix_def)
  ultimately have rel: "release_info release = (name, ver)" by (simp add: release_info_def lines del: append_Cons append_Nil)
  have "filter (\<lambda>c. c \<noteq> CHR 10) (join '' '' [kern, core, platform, os] @ [CHR 10]) = join '' '' [kern, core, platform, os]"
    using assms(1) by (simp add: filter_absent)
  then have "split_on (CHR '' '') (filter (\<lambda>c. c \<noteq> CHR 10) (join '' '' [kern, core, platform, os] @ [CHR 10])) = [kern, core, platform, os]"
    using split_on_join [of "[kern, core, platform, os]" "CHR '' ''"] assms(1) by (simp del: join.simps filter_append)
  with rel assms(2,4) show ?thesis by (simp add: GetInfo_def extractUserAgent_def del: join.simps filter_append)
qed

text \<open>When \<open>uname\<close> fails, its output is empty and the client panics.\<close>

theorem info_without_uname: "GetInfo [[]] release hostname version agent = Some (Panic IndexOutOfRange)"
  by (auto simp: GetInfo_def contains_text_def index_at_def Let_def split: prod.splits)

end
