(* ===== verification/Wg_Link.thy ===== *)
theory Wg_Link
  imports Wg_Iface
begin

text \<open>
  Creating and closing the network interface on Linux: \<open>iface/iface_linux.go\<close>, \<open>iface/iface_unix.go\<close>
  and the rest of \<open>iface/iface.go\<close>. The package \<open>netlink\<close> and the userspace device are outside the
  program: the record \<open>Netlink\<close> holds what the code calls, on a state of the kernel of its own type,
  and \<open>netlink_ok\<close> what these calls are documented to do.
\<close>

section \<open>The kernel\<close>

record link =
  link_addrs :: "string list"
  link_mtu :: nat
  link_up :: bool

record 'k Netlink =
  nl_ModExists :: "'k \<Rightarrow> bool"
  nl_LinkByName :: "'k \<Rightarrow> string \<Rightarrow> bool outcome"
  nl_LinkAdd :: "'k \<Rightarrow> string \<Rightarrow> 'k \<times> unit outcome"
  nl_LinkDel :: "'k \<Rightarrow> string \<Rightarrow> 'k \<times> unit outcome"
  nl_LinkSetMTU :: "'k \<Rightarrow> string \<Rightarrow> nat \<Rightarrow> 'k \<times> unit outcome"
  nl_LinkSetUp :: "'k \<Rightarrow> string \<Rightarrow> 'k \<times> unit outcome"
  nl_AddrList :: "'k \<Rightarrow> string \<Rightarrow> string list outcome"
  nl_AddrDel :: "'k \<Rightarrow> string \<Rightarrow> string \<Rightarrow> 'k \<times> unit outcome"
  nl_AddrAdd :: "'k \<Rightarrow> string \<Rightarrow> string \<Rightarrow> 'k \<times> unit outcome"
  nl_IsExist :: "GoError \<Rightarrow> bool"
  nl_Devices :: "'k \<Rightarrow> string list outcome"
  nl_CreateTUN :: "'k \<Rightarrow> string \<Rightarrow> nat \<Rightarrow> 'k \<times> unit outcome"
  nl_DeviceUp :: "unit outcome"
  nl_UAPI :: "unit outcome"

text \<open>What \<open>w.Interface\<close> holds.\<close>

datatype NetInterface = WgLink string | Tun string

section \<open>Operations\<close>

text \<open>\<open>ones, _ := Mask.Size()\<close> and the address in the notation with the length of the prefix.\<close>

definition iface_address :: "WGIface \<Rightarrow> string" where
  "iface_address w = ip_string (WGIface_IP w) @ ''/'' @ dec (mask_size (IPNet_Mask (WGIface_Network w)))"

definition del_addrs :: "'k Netlink \<Rightarrow> string \<Rightarrow> string list \<Rightarrow> 'k \<Rightarrow> 'k \<times> unit outcome" where
  "del_addrs nl name = go_for (\<lambda>a k. nl_AddrDel nl k name a)"

text \<open>An address that is there already is no error.\<close>

definition add_addr :: "'k Netlink \<Rightarrow> string \<Rightarrow> string \<Rightarrow> 'k \<Rightarrow> 'k \<times> unit outcome" where
  "add_addr nl name address k =
     (case nl_AddrAdd nl k name address of
        (k', Err e) \<Rightarrow> if nl_IsExist nl e then (k', Ret ()) else (k', Err e)
      | other \<Rightarrow> other)"

definition assignAddr :: "'k Netlink \<Rightarrow> WGIface \<Rightarrow> 'k \<Rightarrow> 'k \<times> unit outcome" where
  "assignAddr nl w k =
     on_ret (k, nl_AddrList nl k (WGIface_Name w)) (\<lambda>k e. (k, Err e))
       (\<lambda>k list. on_ret (del_addrs nl (WGIface_Name w) list k) (\<lambda>k e. (k, Err e))
         (\<lambda>k u. on_ret (add_addr nl (WGIface_Name w) (iface_address w) k) (\<lambda>k e. (k, Err e))
           (\<lambda>k u. nl_LinkSetUp nl k (WGIface_Name w))))"

text \<open>A device that is there is removed first; one that is there again is reused.\<close>

definition add_link :: "'k Netlink \<Rightarrow> string \<Rightarrow> 'k \<Rightarrow> 'k \<times> unit outcome" where
  "add_link nl name k =
     (case nl_LinkAdd nl k name of
        (k', Err e) \<Rightarrow> if nl_IsExist nl e then (k', Ret ()) else (k', Err e)
      | other \<Rightarrow> other)"

definition CreateWithKernel :: "'k Netlink \<Rightarrow> WGIface \<Rightarrow> 'k \<Rightarrow> ('k \<times> NetInterface option) \<times> unit outcome" where
  "CreateWithKernel nl w k0 =
     (let name = WGIface_Name w
      in case on_ret (k0, nl_LinkByName nl k0 name) (\<lambda>k e. (k, Err e))
                (\<lambda>k found. on_ret (if found then nl_LinkDel nl k name else (k, Ret ())) (\<lambda>k e. (k, Err e))
                  (\<lambda>k u. add_link nl name k)) of
           (k, Err e) \<Rightarrow> ((k, None), Err e)
         | (k, Panic p) \<Rightarrow> ((k, None), Panic p)
         | (k, Ret u) \<Rightarrow>
             (case on_ret (assignAddr nl w k) (\<lambda>k e. (k, Err e))
                     (\<lambda>k u. on_ret (nl_LinkSetMTU nl k name (WGIface_MTU w)) (\<lambda>k e. (k, Err e))
                       (\<lambda>k u. nl_LinkSetUp nl k name)) of
                (k', result) \<Rightarrow> ((k', Some (WgLink name)), result)))"

text \<open>The address is assigned by the file for the operating system the program is built for.\<close>

definition CreateWithUserspace ::
  "'k Netlink \<Rightarrow> (WGIface \<Rightarrow> 'k \<Rightarrow> 'k \<times> unit outcome) \<Rightarrow> WGIface \<Rightarrow> 'k \<Rightarrow> ('k \<times> NetInterface option) \<times> unit outcome" where
  "CreateWithUserspace nl setAddr w k0 =
     (case nl_CreateTUN nl k0 (WGIface_Name w) (WGIface_MTU w) of
        (k, Err e) \<Rightarrow> ((k, None), Err e)
      | (k, Panic p) \<Rightarrow> ((k, None), Panic p)
      | (k, Ret u) \<Rightarrow>
          (case on_ret (k, nl_DeviceUp nl) (\<lambda>k e. (k, Err e))
                  (\<lambda>k u. on_ret (k, nl_UAPI nl) (\<lambda>k e. (k, Err e))
                    (\<lambda>k u. setAddr w k)) of
             (k', result) \<Rightarrow> ((k', Some (Tun (WGIface_Name w))), result)))"

definition Create :: "'k Netlink \<Rightarrow> WGIface \<Rightarrow> 'k \<Rightarrow> ('k \<times> NetInterface option) \<times> unit outcome" where
  "Create nl w k = (if nl_ModExists nl k then CreateWithKernel nl w k else CreateWithUserspace nl (assignAddr nl) w k)"

text \<open>\<open>Close\<close> calls a method of the interface, which panics when there is none; both kinds remove it.\<close>

definition WGIface_Close :: "'k Netlink \<Rightarrow> NetInterface option \<Rightarrow> 'k \<Rightarrow> 'k \<times> unit outcome" where
  "WGIface_Close nl interface k =
     (case interface of
        None \<Rightarrow> (k, Panic NilDereference)
      | Some (WgLink name) \<Rightarrow> nl_LinkDel nl k name
      | Some (Tun name) \<Rightarrow> nl_LinkDel nl k name)"

definition Exists :: "'k Netlink \<Rightarrow> unit outcome \<Rightarrow> string \<Rightarrow> 'k \<Rightarrow> bool outcome" where
  "Exists nl wgctrl iface k =
     (case wgctrl of
        Err e \<Rightarrow> Err e
      | Panic p \<Rightarrow> Panic p
      | Ret u \<Rightarrow>
          (case nl_Devices nl k of
             Err e \<Rightarrow> Err e
           | Panic p \<Rightarrow> Panic p
           | Ret devices \<Rightarrow> Ret (iface \<in> set devices)))"

section \<open>What the kernel promises\<close>

definition netlink_ok :: "'k Netlink \<Rightarrow> ('k \<Rightarrow> string \<rightharpoonup> link) \<Rightarrow> bool" where
  "netlink_ok nl view \<longleftrightarrow>
     (\<forall>k n k'. nl_LinkAdd nl k n = (k', Ret ()) \<longrightarrow> (\<exists>l. view k' = (view k)(n \<mapsto> l) \<and> link_addrs l = [])) \<and>
     (\<forall>k n k' e. nl_LinkAdd nl k n = (k', Err e) \<longrightarrow> nl_IsExist nl e \<longrightarrow> view k' = view k) \<and>
     (\<forall>k n k'. nl_LinkDel nl k n = (k', Ret ()) \<longrightarrow> view k' = (view k)(n := None)) \<and>
     (\<forall>k n as. nl_AddrList nl k n = Ret as \<longrightarrow> (\<exists>l. view k n = Some l \<and> as = link_addrs l)) \<and>
     (\<forall>k n a k'. nl_AddrDel nl k n a = (k', Ret ()) \<longrightarrow>
        (\<exists>l. view k n = Some l \<and> view k' = (view k)(n \<mapsto> l\<lparr>link_addrs := removeAll a (link_addrs l)\<rparr>))) \<and>
     (\<forall>k n a k'. nl_AddrAdd nl k n a = (k', Ret ()) \<longrightarrow>
        (\<exists>l. view k n = Some l \<and> view k' = (view k)(n \<mapsto> l\<lparr>link_addrs := link_addrs l @ [a]\<rparr>))) \<and>
     (\<forall>k n a k' e. nl_AddrAdd nl k n a = (k', Err e) \<longrightarrow> nl_IsExist nl e \<longrightarrow>
        (\<exists>l. view k n = Some l \<and> view k' = view k \<and> a \<in> set (link_addrs l))) \<and>
     (\<forall>k n m k'. nl_LinkSetMTU nl k n m = (k', Ret ()) \<longrightarrow>
        (\<exists>l. view k n = Some l \<and> view k' = (view k)(n \<mapsto> l\<lparr>link_mtu := m\<rparr>))) \<and>
     (\<forall>k n k'. nl_LinkSetUp nl k n = (k', Ret ()) \<longrightarrow>
        (\<exists>l. view k n = Some l \<and> view k' = (view k)(n \<mapsto> l\<lparr>link_up := True\<rparr>)))"

lemma netlink_okD:
  assumes "netlink_ok nl view"
  shows "nl_LinkAdd nl k n = (k', Ret ()) \<Longrightarrow> \<exists>l. view k' = (view k)(n \<mapsto> l) \<and> link_addrs l = []"
    and "nl_LinkAdd nl k n = (k', Err e) \<Longrightarrow> nl_IsExist nl e \<Longrightarrow> view k' = view k"
    and "nl_LinkDel nl k n = (k', Ret ()) \<Longrightarrow> view k' = (view k)(n := None)"
    and "nl_AddrList nl k n = Ret as \<Longrightarrow> \<exists>l. view k n = Some l \<and> as = link_addrs l"
    and "nl_AddrDel nl k n a = (k', Ret ()) \<Longrightarrow>
        \<exists>l. view k n = Some l \<and> view k' = (view k)(n \<mapsto> l\<lparr>link_addrs := removeAll a (link_addrs l)\<rparr>)"
    and "nl_AddrAdd nl k n a = (k', Ret ()) \<Longrightarrow>
        \<exists>l. view k n = Some l \<and> view k' = (view k)(n \<mapsto> l\<lparr>link_addrs := link_addrs l @ [a]\<rparr>)"
    and "nl_AddrAdd nl k n a = (k', Err e) \<Longrightarrow> nl_IsExist nl e \<Longrightarrow>
        \<exists>l. view k n = Some l \<and> view k' = view k \<and> a \<in> set (link_addrs l)"
    and "nl_LinkSetMTU nl k n m = (k', Ret ()) \<Longrightarrow> \<exists>l. view k n = Some l \<and> view k' = (view k)(n \<mapsto> l\<lparr>link_mtu := m\<rparr>)"
    and "nl_LinkSetUp nl k n = (k', Ret ()) \<Longrightarrow> \<exists>l. view k n = Some l \<and> view k' = (view k)(n \<mapsto> l\<lparr>link_up := True\<rparr>)"
  by (insert assms, simp_all add: netlink_ok_def)

section \<open>Properties\<close>

lemma del_addrs_view:
  assumes "netlink_ok nl view"
  shows "del_addrs nl n as k = (k', Ret ()) \<Longrightarrow> view k n = Some l \<Longrightarrow>
    \<exists>l'. view k' = (view k)(n \<mapsto> l') \<and> link_addrs l' = filter (\<lambda>a. a \<notin> set as) (link_addrs l)"
proof (induction as arbitrary: k l)
  case Nil
  then show ?case by (intro exI [of _ l]) (auto simp: del_addrs_def)
next
  case (Cons a as)
  obtain k1 where k1: "nl_AddrDel nl k n a = (k1, Ret ())" "del_addrs nl n as k1 = (k', Ret ())"
    using Cons.prems(1) by (auto simp: del_addrs_def split: prod.splits outcome.splits)
  from netlink_okD(5) [OF assms k1(1)] Cons.prems(2)
  have v: "view k1 = (view k)(n \<mapsto> l\<lparr>link_addrs := removeAll a (link_addrs l)\<rparr>)" by auto
  then have "view k1 n = Some (l\<lparr>link_addrs := removeAll a (link_addrs l)\<rparr>)" by simp
  from Cons.IH [OF k1(2) this] obtain l' where l': "view k' = (view k1)(n \<mapsto> l')"
    "link_addrs l' = filter (\<lambda>x. x \<notin> set as) (link_addrs (l\<lparr>link_addrs := removeAll a (link_addrs l)\<rparr>))" by blast
  have "filter (\<lambda>x. x \<notin> set as) (removeAll a xs) = filter (\<lambda>x. x \<notin> set (a # as)) xs" for xs
    by (induction xs) auto
  with l' v show ?case by (intro exI [of _ l']) auto
qed

lemma assignAddr_view:
  assumes "netlink_ok nl view" "assignAddr nl w k = (k', Ret ())"
  shows "\<exists>l. view k' = (view k)(WGIface_Name w \<mapsto> l) \<and> link_addrs l = [iface_address w]"
proof -
  let ?n = "WGIface_Name w"
  obtain as k1 k2 where a: "nl_AddrList nl k ?n = Ret as" "del_addrs nl ?n as k = (k1, Ret ())"
    "add_addr nl ?n (iface_address w) k1 = (k2, Ret ())" "nl_LinkSetUp nl k2 ?n = (k', Ret ())"
    using assms(2) unfolding assignAddr_def by (elim on_ret_cases) auto
  obtain l where l: "view k ?n = Some l" "as = link_addrs l" using netlink_okD(4) [OF assms(1) a(1)] by blast
  obtain l1 where l1: "view k1 = (view k)(?n \<mapsto> l1)" "link_addrs l1 = []"
    using del_addrs_view [OF assms(1) a(2) l(1)] l(2) by auto
  obtain l2 where l2: "view k2 = (view k)(?n \<mapsto> l2)" "link_addrs l2 = [iface_address w]"
  proof -
    obtain c q where c: "nl_AddrAdd nl k1 ?n (iface_address w) = (c, q)" by fastforce
    show ?thesis
    proof (cases q)
      case (Ret u)
      then show ?thesis using c a(3) netlink_okD(6) [OF assms(1), of k1 ?n "iface_address w" c] l1
        by (intro that) (auto simp: add_addr_def)
    next
      case (Err e)
      then have "nl_IsExist nl e" using c a(3) by (auto simp: add_addr_def split: if_splits)
      with c Err netlink_okD(7) [OF assms(1), of k1 ?n "iface_address w" c e] l1 show ?thesis by auto
    next
      case (Panic p)
      then show ?thesis using c a(3) by (simp add: add_addr_def)
    qed
  qed
  from netlink_okD(9) [OF assms(1) a(4)] l2 show ?thesis by auto
qed


text \<open>A kernel as a table of its interfaces, in which one has an address of an earlier run.\<close>

definition on_link :: "(string \<rightharpoonup> link) \<Rightarrow> string \<Rightarrow> (link \<Rightarrow> link) \<Rightarrow> (string \<rightharpoonup> link) \<times> unit outcome" where
  "on_link k n f = (case k n of None \<Rightarrow> (k, Err (PlainError ''no such device'')) | Some l \<Rightarrow> (k(n \<mapsto> f l), Ret ()))"

definition ex_netlink :: "(string \<rightharpoonup> link) Netlink" where
  "ex_netlink = \<lparr>nl_ModExists = (\<lambda>_. True), nl_LinkByName = (\<lambda>k n. Ret (k n \<noteq> None)),
     nl_LinkAdd = (\<lambda>k n. if k n = None then (k(n \<mapsto> \<lparr>link_addrs = [], link_mtu = 1420, link_up = False\<rparr>), Ret ())
       else (k, Err (PlainError ''file exists''))),
     nl_LinkDel = (\<lambda>k n. (k(n := None), Ret ())), nl_LinkSetMTU = (\<lambda>k n m. on_link k n (\<lambda>l. l\<lparr>link_mtu := m\<rparr>)),
     nl_LinkSetUp = (\<lambda>k n. on_link k n (\<lambda>l. l\<lparr>link_up := True\<rparr>)),
     nl_AddrList = (\<lambda>k n. case k n of None \<Rightarrow> Err (PlainError ''no such device'') | Some l \<Rightarrow> Ret (link_addrs l)),
     nl_AddrDel = (\<lambda>k n a. on_link k n (\<lambda>l. l\<lparr>link_addrs := removeAll a (link_addrs l)\<rparr>)),
     nl_AddrAdd = (\<lambda>k n a. on_link k n (\<lambda>l. l\<lparr>link_addrs := link_addrs l @ [a]\<rparr>)),
     nl_IsExist = (\<lambda>_. False), nl_Devices = (\<lambda>_. Ret []), nl_CreateTUN = (\<lambda>k _ _. (k, Ret ())), nl_DeviceUp = Ret (), nl_UAPI = Ret ()\<rparr>"

lemma ex_netlink_ok: "netlink_ok ex_netlink (\<lambda>k. k)"
  by (auto simp: netlink_ok_def ex_netlink_def on_link_def split: option.splits if_splits)

definition ex_wt0 :: WGIface where
  "ex_wt0 = \<lparr>WGIface_Name = ''wt0'', WGIface_MTU = DefaultMTU, WGIface_IP = [100, 64, 0, 1],
     WGIface_Network = \<lparr>IPNet_IP = [100, 64, 0, 0], IPNet_Mask = [255, 255, 0, 0]\<rparr>\<rparr>"

definition ex_kernel :: "string \<rightharpoonup> link" where
  "ex_kernel = [''wt0'' \<mapsto> \<lparr>link_addrs = [''10.0.0.9/8''], link_mtu = 1420, link_up = True\<rparr>]"


end
