(* ===== verification/Proxy_Loops.thy ===== *)
theory Proxy_Loops
  imports Wg_Iface
begin

text \<open>
  The two goroutines of the Wireguard proxy that copy packets, \<open>client/internal/proxy/wireguard.go\<close>:
  \<open>proxyToRemote\<close> from the local Wireguard to the remote peer, \<open>proxyToLocal\<close> back. Both are the same
  loop on different connections. It runs on the list of what happens: the context is found done, or
  a read returns and, if it gave a packet, the write after it.
\<close>

datatype proxy_event = ProxyDone | ProxyTurn "bytes outcome" "unit outcome"

definition proxy_buf :: nat where
  "proxy_buf = 1500"

text \<open>A read fills the buffer at most: of a longer packet the rest is lost. The flag: the loop has returned.\<close>

fun proxy_copy :: "proxy_event list \<Rightarrow> bytes list \<times> bool" where
  "proxy_copy [] = ([], False)"
| "proxy_copy (ProxyDone # es) = ([], True)"
| "proxy_copy (ProxyTurn packet written # es) =
     (case proxy_copy es of
        (out, returned) \<Rightarrow>
          ((case (packet, written) of (Ret p, Ret u) \<Rightarrow> take proxy_buf p # out | _ \<Rightarrow> out), returned))"

definition proxyToRemote :: "proxy_event list \<Rightarrow> bytes list \<times> bool" where
  "proxyToRemote = proxy_copy"

definition proxyToLocal :: "proxy_event list \<Rightarrow> bytes list \<times> bool" where
  "proxyToLocal = proxy_copy"

text \<open>The packets that a turn carries over.\<close>

fun carried :: "proxy_event \<Rightarrow> bytes list" where
  "carried (ProxyTurn (Ret p) (Ret u)) = [p]"
| "carried _ = []"

text \<open>
  What the proxy writes is what it has read, in the order it was read and each packet once, without
  those whose write failed; packets that fit into the buffer are unchanged. Errors do not end the
  loop, a context that is done does.
\<close>

theorem proxy_carries:
  assumes "\<forall>p \<in> set (concat (map carried es)). length p \<le> proxy_buf" "ProxyDone \<notin> set es"
  shows "proxyToRemote (es @ ProxyDone # es') = (concat (map carried es), True) \<and>
    proxyToLocal (es @ ProxyDone # es') = (concat (map carried es), True) \<and> proxyToRemote es = (concat (map carried es), False)"
proof -
  have "proxy_copy (es @ xs) = (concat (map carried es) @ fst (proxy_copy xs), snd (proxy_copy xs))" for xs
    using assms
  proof (induction es)
    case (Cons e es)
    then show ?case by (cases e) (auto split: outcome.splits prod.splits elim: carried.elims)
  qed simp
  from this [of "ProxyDone # es'"] this [of "[]"] show ?thesis by (simp add: proxyToRemote_def proxyToLocal_def)
qed

theorem proxy_carries_witness:
  "proxyToRemote [ProxyTurn (Ret [1, 2]) (Ret ()), ProxyTurn (Err (PlainError ''read'')) (Ret ()), ProxyTurn (Ret [3]) (Ret ()), ProxyDone]
     = ([[1, 2], [3]], True)"
  using proxy_carries [of "[ProxyTurn (Ret [1, 2]) (Ret ()), ProxyTurn (Err (PlainError ''read'')) (Ret ()), ProxyTurn (Ret [3]) (Ret ())]" "[]"]
  by (simp add: proxy_buf_def)

end
