(* ===== verification/Platforms.thy ===== *)
theory Platforms
  imports System_Info Wg_Link Proxy_Loops
begin

text \<open>
  The files for one operating system other than Linux, and what the programs share besides: the
  description of the machine on macOS, FreeBSD and Windows (\<open>client/system\<close>), the interface on macOS and
  Windows (\<open>iface\<close>), the set-up of the log (\<open>util/log.go\<close>), the default paths of the desktop
  application (\<open>client/ui/config\<close>) and the dummy proxy (\<open>client/internal/proxy/dummy.go\<close>).
\<close>

section \<open>The description of the machine\<close>

definition info_words :: "string \<Rightarrow> string list" where
  "info_words out = split_on (CHR '' '') (filter (\<lambda>c. c \<noteq> CHR 10) out)"

text \<open>\<open>uname -srm\<close> on macOS, \<open>uname -sri\<close> on FreeBSD: three words.\<close>

definition darwin_GetInfo :: "string list \<Rightarrow> string \<Rightarrow> string \<Rightarrow> string list option \<Rightarrow> Info outcome option" where
  "darwin_GetInfo outs hostname version agent =
     (case uname_output outs of
        None \<Rightarrow> None
      | Some out \<Rightarrow>
          (let osInfo = info_words out
           in Some
             (if length osInfo < 3 then Panic IndexOutOfRange
              else (case extractUserAgent agent of
                      Panic p \<Rightarrow> Panic p
                    | Err e \<Rightarrow> Err e
                    | Ret ui \<Rightarrow>
                        Ret \<lparr>Info_GoOS = ''darwin'', Info_Kernel = osInfo ! 0, Info_Core = osInfo ! 1, Info_Platform = osInfo ! 2,
                          Info_OS = osInfo ! 0, Info_OSVersion = osInfo ! 1, Info_Hostname = hostname,
                          Info_WiretrusteeVersion = version, Info_UIVersion = ui\<rparr>))))"

definition freebsd_GetInfo :: "string \<Rightarrow> string list \<Rightarrow> string \<Rightarrow> string \<Rightarrow> string list option \<Rightarrow> Info outcome option" where
  "freebsd_GetInfo goarch outs hostname version agent =
     (case uname_output outs of
        None \<Rightarrow> None
      | Some out \<Rightarrow>
          (let osInfo = info_words out
           in Some
             (if length osInfo < 3 then Panic IndexOutOfRange
              else (case extractUserAgent agent of
                      Panic p \<Rightarrow> Panic p
                    | Err e \<Rightarrow> Err e
                    | Ret ui \<Rightarrow>
                        Ret \<lparr>Info_GoOS = ''freebsd'', Info_Kernel = osInfo ! 0, Info_Core = osInfo ! 1, Info_Platform = goarch,
                          Info_OS = osInfo ! 2, Info_OSVersion = [], Info_Hostname = hostname,
                          Info_WiretrusteeVersion = version, Info_UIVersion = ui\<rparr>))))"

text \<open>\<open>strings.Index\<close>, and the version between \<open>[Version\<close> and the first closing bracket of \<open>cmd ver\<close> on Windows.\<close>

definition strings_Index :: "string \<Rightarrow> string \<Rightarrow> nat option" where
  "strings_Index s sub = find (\<lambda>i. take (length sub) (drop i s) = sub) [0..<Suc (length s)]"

definition windows_version :: "string \<Rightarrow> string outcome" where
  "windows_version osStr =
     (case (strings_Index osStr ''[Version'', strings_Index osStr '']'') of
        (Some tmp1, Some tmp2) \<Rightarrow>
          if tmp1 + 9 \<le> tmp2 then Ret (take (tmp2 - (tmp1 + 9)) (drop (tmp1 + 9) osStr)) else Panic IndexOutOfRange
      | _ \<Rightarrow> Ret ''unknown'')"

definition windows_GetInfo :: "string outcome \<Rightarrow> string \<Rightarrow> string \<Rightarrow> string list option \<Rightarrow> Info outcome" where
  "windows_GetInfo out hostname version agent =
     (case out of
        Err e \<Rightarrow> Panic (ExplicitPanic (err_string e))
      | Panic p \<Rightarrow> Panic p
      | Ret s \<Rightarrow>
          (case windows_version (filter (\<lambda>c. c \<noteq> CHR 10) s) of
             Err e \<Rightarrow> Err e
           | Panic p \<Rightarrow> Panic p
           | Ret ver \<Rightarrow>
               (case extractUserAgent agent of
                  Panic p \<Rightarrow> Panic p
                | Err e \<Rightarrow> Err e
                | Ret ui \<Rightarrow>
                    Ret \<lparr>Info_GoOS = ''windows'', Info_Kernel = ''windows'', Info_Core = ver, Info_Platform = ''unknown'',
                      Info_OS = ''windows'', Info_OSVersion = ver, Info_Hostname = hostname,
                      Info_WiretrusteeVersion = version, Info_UIVersion = ui\<rparr>)))"

section \<open>The interface\<close>

text \<open>On macOS two commands give a userspace interface its address and the route to its network.\<close>

definition darwin_assignAddr :: "('k \<Rightarrow> string list \<Rightarrow> 'k \<times> unit outcome) \<Rightarrow> WGIface \<Rightarrow> 'k \<Rightarrow> 'k \<times> unit outcome" where
  "darwin_assignAddr exec w k =
     on_ret (exec k [''ifconfig'', WGIface_Name w, ''inet'', ip_string (WGIface_IP w), ip_string (WGIface_IP w)])
       (\<lambda>k e. (k, Err e))
       (\<lambda>k u. exec k [''route'', ''add'', ''-net'', net_string (WGIface_Network w), ''-interface'', WGIface_Name w])"

definition darwin_Create ::
  "'k Netlink \<Rightarrow> ('k \<Rightarrow> string list \<Rightarrow> 'k \<times> unit outcome) \<Rightarrow> WGIface \<Rightarrow> 'k \<Rightarrow> ('k \<times> NetInterface option) \<times> unit outcome" where
  "darwin_Create nl exec w k = CreateWithUserspace nl (darwin_assignAddr exec) w k"

text \<open>On Windows the driver makes an adapter, which is kept even if the rest fails.\<close>

record 'k Adapter_Driver =
  ad_Create :: "'k \<Rightarrow> string \<Rightarrow> 'k \<times> unit outcome"
  ad_SetUp :: "'k \<Rightarrow> string \<Rightarrow> 'k \<times> unit outcome"
  ad_SetIPAddresses :: "'k \<Rightarrow> string \<Rightarrow> IPNet list \<Rightarrow> 'k \<times> unit outcome"

definition windows_assignAddr :: "'k Adapter_Driver \<Rightarrow> WGIface \<Rightarrow> 'k \<Rightarrow> 'k \<times> unit outcome" where
  "windows_assignAddr ad w k =
     ad_SetIPAddresses ad k (WGIface_Name w) [\<lparr>IPNet_IP = WGIface_IP w, IPNet_Mask = IPNet_Mask (WGIface_Network w)\<rparr>]"

definition windows_Create :: "'k Adapter_Driver \<Rightarrow> WGIface \<Rightarrow> 'k \<Rightarrow> ('k \<times> string option) \<times> unit outcome" where
  "windows_Create ad w k0 =
     (case ad_Create ad k0 (WGIface_Name w) of
        (k, Err e) \<Rightarrow> ((k, None), Err (PlainError (''error creating adapter: '' @ err_string e)))
      | (k, Panic p) \<Rightarrow> ((k, None), Panic p)
      | (k, Ret u) \<Rightarrow>
          (case on_ret (ad_SetUp ad k (WGIface_Name w)) (\<lambda>k e. (k, Err e)) (\<lambda>k u. windows_assignAddr ad w k) of
             (k', result) \<Rightarrow> ((k', Some (WGIface_Name w)), result)))"

section \<open>The log\<close>

text \<open>The logger of the process. Parsing of levels and the form of paths are outside.\<close>

datatype log_output = Console_Output | Rotated_File string

record 'l Logger =
  log_Level :: 'l
  log_Output :: log_output
  log_ReportCaller :: bool
  log_Formatted :: bool

definition InitLog :: "(string \<Rightarrow> 'l outcome) \<Rightarrow> 'l \<Rightarrow> (string \<Rightarrow> string) \<Rightarrow> string \<Rightarrow> string \<Rightarrow> 'l Logger \<Rightarrow> 'l Logger \<times> unit outcome" where
  "InitLog parseLevel debugLevel toSlash logLevel logPath l =
     (case parseLevel logLevel of
        Err e \<Rightarrow> (l, Err e)
      | Panic p \<Rightarrow> (l, Panic p)
      | Ret level \<Rightarrow>
          (let l1 = (if logPath \<noteq> [] \<and> logPath \<noteq> ''console'' then l\<lparr>log_Output := Rotated_File (toSlash logPath)\<rparr> else l);
               l2 = (if level = debugLevel then l1\<lparr>log_ReportCaller := True\<rparr> else l1)
           in (l2\<lparr>log_Formatted := True, log_Level := level\<rparr>, Ret ())))"

section \<open>Default paths of the desktop application\<close>

record ClientConfig =
  ui_configPath :: string
  ui_logFile :: string
  ui_daemonAddr :: string

definition ui_Config :: "string \<Rightarrow> string \<Rightarrow> ClientConfig" where
  "ui_Config goos programdata =
     (if goos = ''windows'' then
        \<lparr>ui_configPath = programdata @ [CHR 92] @ ''Wiretrustee'' @ [CHR 92] @ ''config.json'',
         ui_logFile = programdata @ [CHR 92] @ ''Wiretrustee'' @ [CHR 92] @ ''client.log'',
         ui_daemonAddr = ''tcp://127.0.0.1:41731''\<rparr>
      else
        \<lparr>ui_configPath = ''/etc/wiretrustee/config.json'', ui_logFile = ''/var/log/wiretrustee/client.log'',
         ui_daemonAddr = ''unix:///var/run/wiretrustee.sock''\<rparr>)"

definition ui_DaemonAddr :: "ClientConfig \<Rightarrow> string" where
  "ui_DaemonAddr c = ui_daemonAddr c"

definition ui_LogFile :: "ClientConfig \<Rightarrow> string" where
  "ui_LogFile c = ui_logFile c"

text \<open>The defaults of the command line, for its flags and for the migration of files.\<close>

record Cmd_Defaults =
  defaultConfigPathDir :: string
  defaultLogFileDir :: string
  oldDefaultConfigPathDir :: string
  oldDefaultLogFileDir :: string
  defaultConfigPath :: string
  defaultLogFile :: string
  oldDefaultConfigPath :: string
  oldDefaultLogFile :: string
  defaultDaemonAddr :: string

definition cmd_init :: "string \<Rightarrow> string \<Rightarrow> Cmd_Defaults" where
  "cmd_init goos programdata =
     (let windows = goos = ''windows'';
          configDir = (if windows then programdata @ [CHR 92] @ ''Netbird'' @ [CHR 92] else ''/etc/netbird/'');
          logDir = (if windows then programdata @ [CHR 92] @ ''Netbird'' @ [CHR 92] else ''/var/log/netbird/'');
          oldConfigDir = (if windows then programdata @ [CHR 92] @ ''Wiretrustee'' @ [CHR 92] else ''/etc/wiretrustee/'');
          oldLogDir = (if windows then programdata @ [CHR 92] @ ''Wiretrustee'' @ [CHR 92] else ''/var/log/wiretrustee/'')
      in \<lparr>defaultConfigPathDir = configDir, defaultLogFileDir = logDir, oldDefaultConfigPathDir = oldConfigDir,
          oldDefaultLogFileDir = oldLogDir, defaultConfigPath = configDir @ ''config.json'', defaultLogFile = logDir @ ''client.log'',
          oldDefaultConfigPath = oldConfigDir @ ''config.json'', oldDefaultLogFile = oldLogDir @ ''client.log'',
          defaultDaemonAddr = (if windows then ''tcp://127.0.0.1:41731'' else ''unix:///var/run/netbird.sock'')\<rparr>)"

section \<open>The dummy proxy\<close>

text \<open>
  It reads and drops what the remote peer sends and writes a greeting every five seconds. Both loops
  run on the list of what happens: the context is found done, or a call returns. The result of reading
  is whether the loop has returned, that of writing also the messages written.
\<close>

record DummyProxy =
  dummy_remote :: string
  dummy_conn :: bool
  dummy_cancelled :: bool

datatype dummy_event = DummyDone | DummyCall "unit outcome"

definition NewDummyProxy :: "string \<Rightarrow> DummyProxy" where
  "NewDummyProxy remote = \<lparr>dummy_remote = remote, dummy_conn = False, dummy_cancelled = False\<rparr>"

definition DummyProxy_Close :: "DummyProxy \<Rightarrow> DummyProxy \<times> unit outcome" where
  "DummyProxy_Close p = (p\<lparr>dummy_cancelled := True\<rparr>, Ret ())"

definition DummyProxy_Start :: "DummyProxy \<Rightarrow> DummyProxy \<times> unit outcome" where
  "DummyProxy_Start p = (p\<lparr>dummy_conn := True\<rparr>, Ret ())"

definition DummyProxy_Type :: "DummyProxy \<Rightarrow> Proxy_Type" where
  "DummyProxy_Type p = TypeDummy"

fun dummy_read :: "dummy_event list \<Rightarrow> bool" where
  "dummy_read [] = False"
| "dummy_read (DummyDone # es) = True"
| "dummy_read (DummyCall (Ret u) # es) = dummy_read es"
| "dummy_read (DummyCall r # es) = True"

fun dummy_write :: "dummy_event list \<Rightarrow> string list \<times> bool" where
  "dummy_write [] = ([], False)"
| "dummy_write (DummyDone # es) = ([], True)"
| "dummy_write (DummyCall (Ret u) # es) = (case dummy_write es of (out, returned) \<Rightarrow> (''hello'' # out, returned))"
| "dummy_write (DummyCall r # es) = ([], True)"

section \<open>Properties\<close>

lemma find_upt:
  assumes "n \<le> m" "P n" "\<And>i. i < n \<Longrightarrow> \<not> P i"
  shows "find P [0..<Suc m] = Some n"
proof -
  have "[0..<Suc m] = [0..<n] @ n # [Suc n..<Suc m]" using assms(1) upt_add_eq_append [of 0 n "Suc m - n"] upt_conv_Cons [of n "Suc m"] by simp
  moreover have "find P ([0..<n] @ n # xs) = Some n" for xs
  proof -
    have "find P ([a..<n] @ n # xs) = Some n" for a
      using assms(2,3) by (induction "n - a" arbitrary: a) (auto simp: upt_rec [of _ n])
    then show ?thesis .
  qed
  ultimately show ?thesis by metis
qed

lemma Index_at:
  assumes "c \<notin> set pre"
  shows "strings_Index (pre @ (c # sub) @ post) (c # sub) = Some (length pre)"
proof -
  have "take (length (c # sub)) (drop i (pre @ (c # sub) @ post)) \<noteq> c # sub" if "i < length pre" for i
  proof
    assume "take (length (c # sub)) (drop i (pre @ (c # sub) @ post)) = c # sub"
    then have "hd (drop i (pre @ (c # sub) @ post)) = c" by (metis hd_Cons_tl list.sel(1) take_eq_Nil hd_take length_greater_0_conv list.distinct(1))
    then have "pre ! i = c" using that by (simp add: hd_drop_conv_nth nth_append)
    with assms that show False by (metis nth_mem)
  qed
  then show ?thesis unfolding strings_Index_def by (intro find_upt) auto
qed

text \<open>
  The three words of \<open>uname\<close> and the version of Windows are found again in the output; on Windows the text
  before must have no bracket.
\<close>

theorem platforms_parsed:
  assumes "\<forall>w \<in> {kern, core, third}. CHR '' '' \<notin> set w \<and> CHR 10 \<notin> set w"
    and "\<not> contains_text (join '' '' [kern, core, third] @ [CHR 10]) ''broken pipe''"
    and "set pre \<inter> {CHR ''['', CHR '']'', CHR 10} = {}" "CHR '']'' \<notin> set ver" "CHR 10 \<notin> set (ver @ post)"
  shows "darwin_GetInfo [join '' '' [kern, core, third] @ [CHR 10]] hostname version None =
      Some (Ret \<lparr>Info_GoOS = ''darwin'', Info_Kernel = kern, Info_Core = core, Info_Platform = third, Info_OS = kern,
        Info_OSVersion = core, Info_Hostname = hostname, Info_WiretrusteeVersion = version, Info_UIVersion = []\<rparr>)" (is ?D)
    and "freebsd_GetInfo goarch [join '' '' [kern, core, third] @ [CHR 10]] hostname version None =
      Some (Ret \<lparr>Info_GoOS = ''freebsd'', Info_Kernel = kern, Info_Core = core, Info_Platform = goarch, Info_OS = third,
        Info_OSVersion = [], Info_Hostname = hostname, Info_WiretrusteeVersion = version, Info_UIVersion = []\<rparr>)" (is ?F)
    and "windows_GetInfo (Ret (pre @ ''[Version '' @ ver @ '']'' @ post)) hostname version None =
      Ret \<lparr>Info_GoOS = ''windows'', Info_Kernel = ''windows'', Info_Core = ver, Info_Platform = ''unknown'', Info_OS = ''windows'',
        Info_OSVersion = ver, Info_Hostname = hostname, Info_WiretrusteeVersion = version, Info_UIVersion = []\<rparr>" (is ?W)
proof -
  have "filter (\<lambda>c. c \<noteq> CHR 10) (join '' '' [kern, core, third] @ [CHR 10]) = join '' '' [kern, core, third]"
    using assms(1) by (simp add: filter_absent)
  then have words: "info_words (join '' '' [kern, core, third] @ [CHR 10]) = [kern, core, third]"
    unfolding info_words_def using split_on_join [of "[kern, core, third]" "CHR '' ''"] assms(1) by (simp del: join.simps filter_append)
  then show ?D ?F using assms(2)
    by (simp_all add: darwin_GetInfo_def freebsd_GetInfo_def extractUserAgent_def del: join.simps)
  let ?s = "pre @ ''[Version '' @ ver @ '']'' @ post"
  have "strings_Index ?s ''[Version'' = Some (length pre)"
    using Index_at [of "CHR ''[''" pre "''Version''" "'' '' @ ver @ '']'' @ post"] assms(3) by auto
  moreover have "strings_Index ?s '']'' = Some (length pre + 9 + length ver)"
    using Index_at [of "CHR '']''" "pre @ ''[Version '' @ ver" "[]" post] assms(3,4) by simp
  ultimately have "windows_version ?s = Ret ver" by (simp add: windows_version_def)
  moreover have "filter (\<lambda>c. c \<noteq> CHR 10) ?s = ?s" using assms(3,5) by (intro filter_absent) auto
  ultimately show ?W by (simp add: windows_GetInfo_def extractUserAgent_def del: filter_append)
qed

text \<open>A closing bracket before the version makes the slice expression panic, and so does a command that fails.\<close>

theorem windows_info_panics:
  "windows_GetInfo (Ret ''a] [Version 1]'') hostname version None = Panic IndexOutOfRange"
  "windows_GetInfo (Err e) hostname version agent = Panic (ExplicitPanic (err_string e))"
proof -
  have "strings_Index ''a] [Version 1]'' ''[Version'' = Some 3" "strings_Index ''a] [Version 1]'' '']'' = Some 1"
    by (simp_all add: strings_Index_def upt_rec)
  then show "windows_GetInfo (Ret ''a] [Version 1]'') hostname version None = Panic IndexOutOfRange"
    by (simp add: windows_GetInfo_def windows_version_def)
qed (simp add: windows_GetInfo_def)

text \<open>What the driver of Windows is documented to do, on the adapters by name: their addresses and whether they are up.\<close>

definition adapter_ok :: "'k Adapter_Driver \<Rightarrow> ('k \<Rightarrow> string \<rightharpoonup> IPNet list \<times> bool) \<Rightarrow> bool" where
  "adapter_ok ad view \<longleftrightarrow>
     (\<forall>k n k'. ad_Create ad k n = (k', Ret ()) \<longrightarrow> (\<exists>a. view k' = (view k)(n \<mapsto> a))) \<and>
     (\<forall>k n k'. ad_SetUp ad k n = (k', Ret ()) \<longrightarrow> (\<exists>as up. view k n = Some (as, up) \<and> view k' = (view k)(n \<mapsto> (as, True)))) \<and>
     (\<forall>k n as k'. ad_SetIPAddresses ad k n as = (k', Ret ()) \<longrightarrow>
        (\<exists>old up. view k n = Some (old, up) \<and> view k' = (view k)(n \<mapsto> (as, up))))"

text \<open>
  A created interface has the configured address: on Windows the adapter is up with exactly this
  address and the mask of the network, on macOS exactly the two commands for it have run, in order.
\<close>

theorem platform_interfaces:
  assumes "adapter_ok ad view" "windows_Create ad w k = ((k', kept), Ret ())"
    and "\<And>k c k'. exec k c = (k', Ret ()) \<Longrightarrow> cmds k' = cmds k @ [c]"
    and "\<And>k n m k'. nl_CreateTUN nl k n m = (k', Ret ()) \<Longrightarrow> cmds k' = cmds k"
    and "darwin_Create nl exec w j = ((j', interface), Ret ())"
  shows "kept = Some (WGIface_Name w) \<and>
      view k' = (view k)(WGIface_Name w \<mapsto> ([\<lparr>IPNet_IP = WGIface_IP w, IPNet_Mask = IPNet_Mask (WGIface_Network w)\<rparr>], True)) \<and>
    interface = Some (Tun (WGIface_Name w)) \<and>
      cmds j' = cmds j @ [[''ifconfig'', WGIface_Name w, ''inet'', ip_string (WGIface_IP w), ip_string (WGIface_IP w)],
        [''route'', ''add'', ''-net'', net_string (WGIface_Network w), ''-interface'', WGIface_Name w]]"
proof -
  let ?n = "WGIface_Name w"
  obtain k1 k2 where c: "ad_Create ad k ?n = (k1, Ret ())" "ad_SetUp ad k1 ?n = (k2, Ret ())" "windows_assignAddr ad w k2 = (k', Ret ())"
    "kept = Some ?n"
    using assms(2) by (auto simp: windows_Create_def split: prod.splits outcome.splits elim!: on_ret_cases)
  obtain as up where a: "view k2 = (view k)(?n \<mapsto> (as, True))"
    using assms(1) c(1,2) unfolding adapter_ok_def by (metis fun_upd_upd)
  have win: "view k' = (view k)(?n \<mapsto> ([\<lparr>IPNet_IP = WGIface_IP w, IPNet_Mask = IPNet_Mask (WGIface_Network w)\<rparr>], True))"
    using assms(1) c(3) a unfolding adapter_ok_def windows_assignAddr_def by (metis fun_upd_same fun_upd_upd option.inject prod.inject)
  obtain j1 where d: "nl_CreateTUN nl j ?n (WGIface_MTU w) = (j1, Ret ())" "darwin_assignAddr exec w j1 = (j', Ret ())" "interface = Some (Tun ?n)"
    using assms(5) by (auto simp: darwin_Create_def CreateWithUserspace_def split: prod.splits outcome.splits elim!: on_ret_cases)
  then have "cmds j' = cmds j1 @ [[''ifconfig'', ?n, ''inet'', ip_string (WGIface_IP w), ip_string (WGIface_IP w)],
      [''route'', ''add'', ''-net'', net_string (WGIface_Network w), ''-interface'', ?n]]"
    by (auto simp: darwin_assignAddr_def elim!: on_ret_cases dest!: assms(3))
  with win c(4) d(3) assms(4) [OF d(1)] show ?thesis by simp
qed

text \<open>
  The log: a level that is not known changes nothing; otherwise the level is set, the output changes only
  for a file, and the caller is reported from the first start at the level debug on.
\<close>

theorem log_set_up:
  "parseLevel logLevel = Err e \<Longrightarrow> InitLog parseLevel debugLevel toSlash logLevel logPath l = (l, Err e)"
  "parseLevel logLevel = Ret level \<Longrightarrow> \<exists>l'. InitLog parseLevel debugLevel toSlash logLevel logPath l = (l', Ret ()) \<and>
     log_Level l' = level \<and> log_Formatted l' \<and> (log_ReportCaller l' \<longleftrightarrow> log_ReportCaller l \<or> level = debugLevel) \<and>
     log_Output l' = (if logPath \<in> {[], ''console''} then log_Output l else Rotated_File (toSlash logPath))"
  by (auto simp: InitLog_def Let_def)

text \<open>Without errors the dummy proxy goes on until it is closed; an error ends a loop at once.\<close>

theorem dummy_loops:
  "\<not> dummy_read (replicate n (DummyCall (Ret ())))" "dummy_read (replicate n (DummyCall (Ret ())) @ DummyDone # es)"
  "dummy_read (replicate n (DummyCall (Ret ())) @ DummyCall (Err e) # es)"
  "dummy_write (replicate n (DummyCall (Ret ()))) = (replicate n ''hello'', False)"
  "dummy_write (replicate n (DummyCall (Ret ())) @ DummyDone # es) = (replicate n ''hello'', True)"
  "dummy_write (replicate n (DummyCall (Ret ())) @ DummyCall (Err e) # es) = (replicate n ''hello'', True)"
  by (induction n) simp_all

text \<open>
  On every system the four files of the migration are different, so that nothing is copied onto itself.
  The desktop application has the paths from before the migration, and outside Windows it would
  look for the daemon where the daemon does not listen by default.
\<close>

theorem default_paths:
  "distinct [defaultConfigPath (cmd_init goos pd), defaultLogFile (cmd_init goos pd),
     oldDefaultConfigPath (cmd_init goos pd), oldDefaultLogFile (cmd_init goos pd)]"
  "ui_configPath (ui_Config goos pd) = oldDefaultConfigPath (cmd_init goos pd)"
  "ui_LogFile (ui_Config goos pd) = oldDefaultLogFile (cmd_init goos pd)"
  "ui_DaemonAddr (ui_Config goos pd) = defaultDaemonAddr (cmd_init goos pd) \<longleftrightarrow> goos = ''windows''"
  by (simp_all add: cmd_init_def ui_Config_def ui_LogFile_def ui_DaemonAddr_def Let_def)

end
