(* ===== verification/Idp_Auth0.thy ===== *)
theory Idp_Auth0
  imports Account_Manager Turn_Credentials
begin

text \<open>
  The client of the identity provider, \<open>management/server/idp/idp.go\<close> and \<open>auth0.go\<close>. HTTP, the
  JSON codec, \<open>url.Parse\<close> and base64 are outside the program, in the record \<open>Idp_Env\<close>: what a
  request returns depends on its method, its URL, the bearer token and its payload. The
  credentials hold the token of the last authentication; a token without an expiry is one whose
  \<open>expiresInTime\<close> is the zero time.
\<close>

section \<open>Data\<close>

record Auth0ClientConfig =
  Auth0_Audience :: string
  Auth0_AuthIssuer :: string
  Auth0_ClientID :: string
  Auth0_ClientSecret :: string
  Auth0_GrantType :: string

record Idp_Config =
  Idp_ManagerType :: string
  Idp_Auth0ClientCredentials :: Auth0ClientConfig

record JWTToken =
  JTok_AccessToken :: string
  JTok_ExpiresIn :: int
  JTok_expiresInTime :: "int option"
  JTok_Scope :: string
  JTok_TokenType :: string

record Auth0Manager =
  am_authIssuer :: string
  am_clientConfig :: Auth0ClientConfig
  am_jwtToken :: JWTToken

record Idp_Reply =
  ir_NewRequest :: "unit outcome"
  ir_Do :: "unit outcome"
  ir_Body :: "string outcome"
  ir_Close :: "unit outcome"
  ir_StatusCode :: int

record Idp_Env =
  ie_token :: "string \<Rightarrow> Auth0ClientConfig \<Rightarrow> Idp_Reply"
  ie_http :: "string \<Rightarrow> string \<Rightarrow> string \<Rightarrow> string \<Rightarrow> Idp_Reply"
  ie_users_url :: "string \<Rightarrow> string \<Rightarrow> nat \<Rightarrow> string outcome"
  ie_unmarshal_jwt :: "string \<Rightarrow> JWTToken outcome"
  ie_DecodeSegment :: "string \<Rightarrow> string outcome"
  ie_unmarshal_exp :: "string \<Rightarrow> int outcome"
  ie_unmarshal_users :: "string \<Rightarrow> UserData list outcome"
  ie_unmarshal_user :: "string \<Rightarrow> UserData outcome"
  ie_marshal_metadata :: "string \<Rightarrow> string outcome"

definition no_token :: JWTToken where
  "no_token = \<lparr>JTok_AccessToken = [], JTok_ExpiresIn = 0, JTok_expiresInTime = None, JTok_Scope = [], JTok_TokenType = []\<rparr>"

section \<open>Construction\<close>

definition NewAuth0Manager :: "Auth0ClientConfig \<Rightarrow> Auth0Manager outcome" where
  "NewAuth0Manager config =
     (if Auth0_ClientID config = [] \<or> Auth0_ClientSecret config = [] \<or> Auth0_GrantType config = [] \<or>
         Auth0_Audience config = [] \<or> Auth0_AuthIssuer config = [] then
        Err (PlainError ''auth0 idp configuration is not complete'')
      else if Auth0_GrantType config \<noteq> ''client_credentials'' then
        Err (PlainError ''auth0 idp configuration failed. Grant Type should be client_credentials'')
      else if take 8 (ToLower (Auth0_AuthIssuer config)) \<noteq> ''https://'' then
        Err (PlainError ''auth0 idp configuration failed. AuthIssuer should contain https://'')
      else Ret \<lparr>am_authIssuer = Auth0_AuthIssuer config, am_clientConfig = config, am_jwtToken = no_token\<rparr>)"

definition NewManager :: "Idp_Config \<Rightarrow> Auth0Manager option outcome" where
  "NewManager config =
     (if ToLower (Idp_ManagerType config) = ''none'' \<or> ToLower (Idp_ManagerType config) = [] then Ret None
      else if ToLower (Idp_ManagerType config) = ''auth0'' then
        (case NewAuth0Manager (Idp_Auth0ClientCredentials config) of
           Err e \<Rightarrow> Err e
         | Panic p \<Rightarrow> Panic p
         | Ret am \<Rightarrow> Ret (Some am))
      else Err (PlainError (''invalid manager type: '' @ Idp_ManagerType config)))"

section \<open>Authentication\<close>

definition jwtStillValid :: "int \<Rightarrow> JWTToken \<Rightarrow> bool" where
  "jwtStillValid now t =
     (case JTok_expiresInTime t of None \<Rightarrow> False | Some expiry \<Rightarrow> now + 5 * second < expiry)"

definition requestJWTToken :: "Idp_Env \<Rightarrow> Auth0Manager \<Rightarrow> Idp_Reply outcome" where
  "requestJWTToken env am =
     (let reqURL = Auth0_AuthIssuer (am_clientConfig am) @ ''/oauth/token'';
          res = ie_token env reqURL (am_clientConfig am)
      in case ir_NewRequest res of
           Err e \<Rightarrow> Err e
         | Panic p \<Rightarrow> Panic p
         | Ret u \<Rightarrow>
             (case ir_Do res of
                Err e \<Rightarrow> Err e
              | Panic p \<Rightarrow> Panic p
              | Ret u \<Rightarrow>
                  if ir_StatusCode res \<noteq> 200 then
                    Err (PlainError (''unable to get token, statusCode '' @ dec (nat (ir_StatusCode res))))
                  else Ret res))"

text \<open>The second piece of the token is read without looking whether there is one.\<close>

definition parseRequestJWTResponse :: "Idp_Env \<Rightarrow> string outcome \<Rightarrow> JWTToken outcome" where
  "parseRequestJWTResponse env rawBody =
     (case rawBody of
        Err e \<Rightarrow> Err e
      | Panic p \<Rightarrow> Panic p
      | Ret body \<Rightarrow>
          (case ie_unmarshal_jwt env body of
             Err e \<Rightarrow> Err e
           | Panic p \<Rightarrow> Panic p
           | Ret jwtToken \<Rightarrow>
               if JTok_ExpiresIn jwtToken = 0 \<and> JTok_AccessToken jwtToken = [] then
                 Err (PlainError ''error while reading response body, expires_in: 0 and access_token: '')
               else if length (split_on (CHR ''.'') (JTok_AccessToken jwtToken)) \<le> 1 then Panic IndexOutOfRange
               else (case ie_DecodeSegment env (split_on (CHR ''.'') (JTok_AccessToken jwtToken) ! 1) of
                       Err e \<Rightarrow> Err e
                     | Panic p \<Rightarrow> Panic p
                     | Ret data \<Rightarrow>
                         (case ie_unmarshal_exp env data of
                            Err e \<Rightarrow> Err e
                          | Panic p \<Rightarrow> Panic p
                          | Ret exp \<Rightarrow> Ret (jwtToken\<lparr>JTok_expiresInTime := Some (exp * second)\<rparr>)))))"

definition Authenticate :: "Idp_Env \<Rightarrow> int \<Rightarrow> Auth0Manager \<Rightarrow> Auth0Manager \<times> JWTToken outcome" where
  "Authenticate env now am =
     (if jwtStillValid now (am_jwtToken am) then (am, Ret (am_jwtToken am))
      else (case requestJWTToken env am of
              Err e \<Rightarrow> (am, Err e)
            | Panic p \<Rightarrow> (am, Panic p)
            | Ret res \<Rightarrow>
                (case parseRequestJWTResponse env (ir_Body res) of
                   Err e \<Rightarrow> (am, Err e)
                 | Panic p \<Rightarrow> (am, Panic p)
                 | Ret jwtToken \<Rightarrow> (am\<lparr>am_jwtToken := jwtToken\<rparr>, Ret jwtToken))))"

section \<open>Users\<close>

text \<open>One page of users: the body is decoded before the status code is looked at.\<close>

definition users_page :: "Idp_Env \<Rightarrow> string \<Rightarrow> string \<Rightarrow> string \<Rightarrow> nat \<Rightarrow> UserData list outcome" where
  "users_page env authIssuer token accountId page =
     (case ie_users_url env authIssuer accountId page of
        Err e \<Rightarrow> Err e
      | Panic p \<Rightarrow> Panic p
      | Ret reqURL \<Rightarrow>
          (let res = ie_http env ''GET'' reqURL token []
           in case ir_NewRequest res of
                Err e \<Rightarrow> Err e
              | Panic p \<Rightarrow> Panic p
              | Ret u \<Rightarrow>
                  (case ir_Do res of
                     Err e \<Rightarrow> Err e
                   | Panic p \<Rightarrow> Panic p
                   | Ret u \<Rightarrow>
                       (case ir_Body res of
                          Err e \<Rightarrow> Err e
                        | Panic p \<Rightarrow> Panic p
                        | Ret body \<Rightarrow>
                            (case ie_unmarshal_users env body of
                               Err e \<Rightarrow> Err e
                             | Panic p \<Rightarrow> Panic p
                             | Ret batch \<Rightarrow>
                                 (case ir_Close res of
                                    Err e \<Rightarrow> Err e
                                  | Panic p \<Rightarrow> Panic p
                                  | Ret u \<Rightarrow>
                                      if ir_StatusCode res \<noteq> 200 then
                                        Err (PlainError (''unable to request UserData from auth0, statusCode '' @
                                          dec (nat (ir_StatusCode res))))
                                      else Ret batch))))))"

text \<open>The loop over the pages; \<open>n\<close> pages are left.\<close>

fun batch_loop :: "(nat \<Rightarrow> UserData list outcome) \<Rightarrow> nat \<Rightarrow> nat \<Rightarrow> UserData list \<Rightarrow> UserData list outcome" where
  "batch_loop f page 0 users = Ret users"
| "batch_loop f page (Suc n) users =
     (case f page of
        Err e \<Rightarrow> Err e
      | Panic p \<Rightarrow> Panic p
      | Ret batch \<Rightarrow> if batch = [] then Ret users else batch_loop f (Suc page) n (users @ batch))"

definition auth0_GetBatchedUserData :: "Idp_Env \<Rightarrow> int \<Rightarrow> Auth0Manager \<Rightarrow> string \<Rightarrow> Auth0Manager \<times> UserData list outcome" where
  "auth0_GetBatchedUserData env now am0 accountId =
     on_ret (Authenticate env now am0) (\<lambda>am e. (am, Err e))
       (\<lambda>am jwtToken. (am, batch_loop (users_page env (am_authIssuer am) (JTok_AccessToken jwtToken) accountId) 0 20 []))"

definition requestByUserIdUrl :: "string \<Rightarrow> string \<Rightarrow> string" where
  "requestByUserIdUrl authIssuer userId = authIssuer @ ''/api/v2/users/'' @ userId"

definition auth0_GetUserDataByID :: "Idp_Env \<Rightarrow> int \<Rightarrow> Auth0Manager \<Rightarrow> string \<Rightarrow> Auth0Manager \<times> UserData outcome" where
  "auth0_GetUserDataByID env now am0 userId =
     on_ret (Authenticate env now am0) (\<lambda>am e. (am, Err e))
       (\<lambda>am jwtToken.
          let res = ie_http env ''GET'' (requestByUserIdUrl (am_authIssuer am) userId) (JTok_AccessToken jwtToken) []
          in on_ret (am, ir_NewRequest res) (\<lambda>am e. (am, Err e))
               (\<lambda>am u. on_ret (am, ir_Do res) (\<lambda>am e. (am, Err e))
                 (\<lambda>am u. on_ret (am, ir_Body res) (\<lambda>am e. (am, Err e))
                   (\<lambda>am body. on_ret (am, ie_unmarshal_user env body) (\<lambda>am e. (am, Err e))
                     (\<lambda>am userData.
                        if ir_StatusCode res \<noteq> 200 then
                          (am, Err (PlainError (''unable to get UserData, statusCode '' @ dec (nat (ir_StatusCode res)))))
                        else (am, Ret userData))))))"

definition auth0_UpdateUserAppMetadata ::
  "Idp_Env \<Rightarrow> int \<Rightarrow> Auth0Manager \<Rightarrow> string \<Rightarrow> string \<Rightarrow> Auth0Manager \<times> unit outcome" where
  "auth0_UpdateUserAppMetadata env now am0 userId appMetadata =
     on_ret (Authenticate env now am0) (\<lambda>am e. (am, Err e))
       (\<lambda>am jwtToken. on_ret (am, ie_marshal_metadata env appMetadata) (\<lambda>am e. (am, Err e))
          (\<lambda>am data.
             let res = ie_http env ''PATCH'' (am_authIssuer am @ ''/api/v2/users/'' @ userId) (JTok_AccessToken jwtToken)
                         (''{\"app_metadata\": '' @ data @ ''}'')
             in on_ret (am, ir_NewRequest res) (\<lambda>am e. (am, Err e))
                  (\<lambda>am u. on_ret (am, ir_Do res) (\<lambda>am e. (am, Err e))
                    (\<lambda>am u.
                       if ir_StatusCode res \<noteq> 200 then
                         (am, Err (PlainError (''unable to update the appMetadata, statusCode '' @ dec (nat (ir_StatusCode res)))))
                       else (am, Ret ())))))"

section \<open>Properties\<close>

lemma parse_expiry:
  "parseRequestJWTResponse env body = Ret t \<Longrightarrow> \<exists>exp. JTok_expiresInTime t = Some (exp * second)"
  by (auto simp: parseRequestJWTResponse_def split: outcome.splits if_splits)

lemma Authenticate_Ret:
  "Authenticate env now am = (am', Ret t) \<Longrightarrow> am_jwtToken am' = t \<and> am_authIssuer am' = am_authIssuer am \<and> am_clientConfig am' = am_clientConfig am"
  by (auto simp: Authenticate_def split: if_splits outcome.splits)

text \<open>
  After an authentication the token is reused, without any request, until five seconds before
  it expires; a failed authentication keeps the token there was.
\<close>

theorem token_reused:
  assumes "Authenticate env now am = (am', r)"
  shows "(\<forall>t. r = Ret t \<longrightarrow> (\<exists>expiry. JTok_expiresInTime t = Some expiry \<and>
       (\<forall>env' now'. now' + 5 * second < expiry \<longrightarrow> Authenticate env' now' am' = (am', Ret t)))) \<and>
    ((\<forall>t. r \<noteq> Ret t) \<longrightarrow> am' = am)"
proof (intro conjI allI impI)
  fix t assume r: "r = Ret t"
  have "\<exists>expiry. JTok_expiresInTime t = Some expiry"
    using assms r by (auto simp: Authenticate_def jwtStillValid_def dest: parse_expiry split: if_splits outcome.splits option.splits)
  then show "\<exists>expiry. JTok_expiresInTime t = Some expiry \<and>
       (\<forall>env' now'. now' + 5 * second < expiry \<longrightarrow> Authenticate env' now' am' = (am', Ret t))"
    using Authenticate_Ret [of env now am am' t] assms r by (auto simp: Authenticate_def [of _ _ am'] jwtStillValid_def)
next
  assume "\<forall>t. r \<noteq> Ret t"
  with assms show "am' = am"
    by (cases r) (auto simp: Authenticate_def split: if_splits outcome.splits)
qed

definition ex_auth0 :: Auth0Manager where
  "ex_auth0 = \<lparr>am_authIssuer = ''https://i'', am_clientConfig = \<lparr>Auth0_Audience = ''a'', Auth0_AuthIssuer = ''https://i'',
     Auth0_ClientID = ''c'', Auth0_ClientSecret = ''s'', Auth0_GrantType = ''client_credentials''\<rparr>, am_jwtToken = no_token\<rparr>"

definition ex_reply :: "string \<Rightarrow> Idp_Reply" where
  "ex_reply b = \<lparr>ir_NewRequest = Ret (), ir_Do = Ret (), ir_Body = Ret b, ir_Close = Ret (), ir_StatusCode = 200\<rparr>"

definition ex_idp_env :: Idp_Env where
  "ex_idp_env = \<lparr>ie_token = (\<lambda>_ _. ex_reply ''h.p.s''), ie_http = (\<lambda>_ url _ _. ex_reply url), ie_users_url = (\<lambda>_ _ page. Ret (replicate page CHR ''x'')),
     ie_unmarshal_jwt = (\<lambda>b. Ret (no_token\<lparr>JTok_AccessToken := b, JTok_ExpiresIn := 100\<rparr>)), ie_DecodeSegment = Ret,
     ie_unmarshal_exp = (\<lambda>_. Ret 100),
     ie_unmarshal_users = (\<lambda>b. Ret (if length b < 2 then [\<lparr>UserData_Email = b, UserData_Name = [], UserData_ID = b\<rparr>] else [])),
     ie_unmarshal_user = (\<lambda>_. Err (PlainError ''x'')), ie_marshal_metadata = Ret\<rparr>"

theorem token_reused_witness:
  "\<exists>am t. Authenticate ex_idp_env 0 ex_auth0 = (am, Ret t) \<and> Authenticate ex_idp_env (50 * second) am = (am, Ret t)"
proof -
  obtain am t where a: "Authenticate ex_idp_env 0 ex_auth0 = (am, Ret t)" "JTok_expiresInTime t = Some (100 * second)"
    by (simp add: Authenticate_def jwtStillValid_def ex_auth0_def no_token_def requestJWTToken_def ex_idp_env_def ex_reply_def
        parseRequestJWTResponse_def Let_def)
  with token_reused [OF a(1)] show ?thesis by (auto simp: second_def)
qed

lemma batch_loop_pages:
  assumes "\<And>i. page \<le> i \<Longrightarrow> i < page + n \<Longrightarrow> f i = Ret (batch i)"
  shows "batch_loop f page n users = Ret (users @ concat (takeWhile (\<lambda>b. b \<noteq> []) (map batch [page..<page + n])))"
  using assms
proof (induction n arbitrary: page users)
  case (Suc n)
  have "f page = Ret (batch page)" using Suc.prems by simp
  moreover have "[page..<page + Suc n] = page # [Suc page..<Suc page + n]" by (simp add: upt_rec)
  moreover have "batch_loop f (Suc page) n us = Ret (us @ concat (takeWhile (\<lambda>b. b \<noteq> []) (map batch [Suc page..<Suc page + n])))" for us
    by (rule Suc.IH) (simp add: Suc.prems)
  ultimately show ?case by simp
qed simp

text \<open>
  The users of an account are those of the pages up to the first empty one, in the order of
  the provider, and never more than twenty pages are asked for: the users of later pages are left
  out without a notice.
\<close>

theorem batched_users:
  assumes "Authenticate env now am = (am', Ret t)"
    and "\<forall>i < 20. users_page env (am_authIssuer am) (JTok_AccessToken t) accountId i = Ret (batch i)"
  shows "auth0_GetBatchedUserData env now am accountId =
    (am', Ret (concat (takeWhile (\<lambda>b. b \<noteq> []) (map batch [0..<20]))))"
  using batch_loop_pages [of 0 20 "users_page env (am_authIssuer am) (JTok_AccessToken t) accountId" batch "[]"]
    Authenticate_Ret [OF assms(1)] assms
  by (simp add: auth0_GetBatchedUserData_def)

theorem batched_users_witness:
  "\<exists>am us. auth0_GetBatchedUserData ex_idp_env 0 ex_auth0 ''acc'' = (am, Ret us) \<and> length us = 2"
proof -
  obtain am t where a: "Authenticate ex_idp_env 0 ex_auth0 = (am, Ret t)"
    by (simp add: Authenticate_def jwtStillValid_def ex_auth0_def no_token_def requestJWTToken_def ex_idp_env_def ex_reply_def
        parseRequestJWTResponse_def Let_def)
  let ?batch = "\<lambda>i. if i < 2 then [\<lparr>UserData_Email = replicate i CHR ''x'', UserData_Name = [], UserData_ID = replicate i CHR ''x''\<rparr>] else []"
  have "auth0_GetBatchedUserData ex_idp_env 0 ex_auth0 ''acc'' = (am, Ret (concat (takeWhile (\<lambda>b. b \<noteq> []) (map ?batch [0..<20]))))"
    by (rule batched_users [OF a]) (simp add: users_page_def ex_idp_env_def ex_reply_def Let_def)
  moreover have "length (concat (takeWhile (\<lambda>b. b \<noteq> []) (map ?batch [0..<20]))) = 2"
    by (simp add: upt_rec numeral_eq_Suc)
  ultimately show ?thesis by blast
qed

end
