(* ===== verification/Util_File.thy ===== *)
theory Util_File
  imports Go_Prelude "HOL-Library.Sublist"
begin

text \<open>
  The files of the program, \<open>util/file.go\<close>: writing JSON through a temporary file, reading it and
  copying a file. A path is the list of its components from the root, a file system the table of
  its nodes. Every call of the operating system takes the next entry of the schedule \<open>os_faults\<close>:
  it may fail, and a call that changes something may then have done a part of its work. A crash of
  the machine is a schedule on which all calls fail from some point on, since then nothing changes
  any more; what holds after a call for every schedule holds after every crash.
\<close>

section \<open>The operating system\<close>

type_synonym path = "string list"

text \<open>A node has its permissions (488, 384 and 438 are 0750, 0600 and 0666); a file has its contents.\<close>

datatype node = File nat string | Dir nat

datatype fault = NoFault | Fault GoError nat

record OS =
  os_nodes :: "(path \<times> node) list"
  os_faults :: "fault list"

abbreviation node_at :: "OS \<Rightarrow> path \<Rightarrow> node option" where
  "node_at s p \<equiv> map_of (os_nodes s) p"

definition put_node :: "path \<Rightarrow> node \<Rightarrow> OS \<Rightarrow> OS" where
  "put_node p n s = s\<lparr>os_nodes := AList.update p n (os_nodes s)\<rparr>"

definition del_node :: "path \<Rightarrow> OS \<Rightarrow> OS" where
  "del_node p s = s\<lparr>os_nodes := AList.delete p (os_nodes s)\<rparr>"

lemma node_put [simp]: "node_at (put_node p n s) q = (if q = p then Some n else node_at s q)"
  by (simp add: put_node_def update_conv')

lemma node_del [simp]: "node_at (del_node p s) q = (if q = p then None else node_at s q)"
  by (simp add: del_node_def delete_conv')

text \<open>A call with its effect \<open>f\<close> when it works, and the part of it that is done when it fails.\<close>

definition os_call :: "(nat \<Rightarrow> OS \<Rightarrow> OS) \<Rightarrow> (OS \<Rightarrow> OS \<times> 'a outcome) \<Rightarrow> OS \<Rightarrow> OS \<times> 'a outcome" where
  "os_call part f s =
     (case os_faults s of
        [] \<Rightarrow> f s
      | NoFault # fs \<Rightarrow> f (s\<lparr>os_faults := fs\<rparr>)
      | Fault e n # fs \<Rightarrow> (part n (s\<lparr>os_faults := fs\<rparr>), Err e))"

text \<open>
  A call with a property that its effect and every part of it have; the schedule does not matter for
  what a property of the nodes says.
\<close>

lemma os_call_cases:
  assumes "os_call part f s = (s', r)"
  obtains (works) t where "os_nodes t = os_nodes s" "f t = (s', r)"
    | (fails) t e n where "os_nodes t = os_nodes s" "s' = part n t" "r = Err e"
proof (cases "os_faults s")
  case Nil
  with assms works [of s] show ?thesis by (simp add: os_call_def)
next
  case (Cons f fs)
  with assms works [of "s\<lparr>os_faults := fs\<rparr>"] fails [of "s\<lparr>os_faults := fs\<rparr>"] show ?thesis
    by (cases f) (auto simp: os_call_def)
qed

definition ErrNotExist :: GoError where
  "ErrNotExist = PlainError ''file does not exist''"

definition ErrExist :: GoError where
  "ErrExist = PlainError ''file already exists''"

definition NotDirectory :: GoError where
  "NotDirectory = PlainError ''not a directory''"

definition IsDirectory :: GoError where
  "IsDirectory = PlainError ''is a directory''"

abbreviation unchanged :: "nat \<Rightarrow> OS \<Rightarrow> OS" where
  "unchanged n s \<equiv> s"

definition os_Stat :: "path \<Rightarrow> OS \<Rightarrow> OS \<times> node outcome" where
  "os_Stat p = os_call unchanged (\<lambda>s. (s, case node_at s p of None \<Rightarrow> Err ErrNotExist | Some n \<Rightarrow> Ret n))"

definition os_Close :: "OS \<Rightarrow> OS \<times> unit outcome" where
  "os_Close = os_call unchanged (\<lambda>s. (s, Ret ()))"

text \<open>\<open>os.MkdirAll\<close> goes from the root to the directory; the root itself is always there.\<close>

definition ancestors :: "path \<Rightarrow> path list" where
  "ancestors p = map (\<lambda>n. take n p) [1..<Suc (length p)]"

fun mkdirs :: "nat \<Rightarrow> path list \<Rightarrow> OS \<Rightarrow> OS \<times> unit outcome" where
  "mkdirs perm [] s = (s, Ret ())"
| "mkdirs perm (p # ps) s =
     (case node_at s p of
        None \<Rightarrow> mkdirs perm ps (put_node p (Dir perm) s)
      | Some (Dir _) \<Rightarrow> mkdirs perm ps s
      | Some (File _ _) \<Rightarrow> (s, Err NotDirectory))"

definition os_MkdirAll :: "path \<Rightarrow> nat \<Rightarrow> OS \<Rightarrow> OS \<times> unit outcome" where
  "os_MkdirAll p perm =
     os_call (\<lambda>n s. fst (mkdirs perm (take n (ancestors p)) s)) (mkdirs perm (ancestors p))"

definition is_dir :: "OS \<Rightarrow> path \<Rightarrow> bool" where
  "is_dir s p \<longleftrightarrow> p = [] \<or> (case node_at s p of Some (Dir _) \<Rightarrow> True | _ \<Rightarrow> False)"

lemma is_dir_iff: "is_dir s p \<longleftrightarrow> p = [] \<or> (\<exists>m. node_at s p = Some (Dir m))"
  by (auto simp: is_dir_def split: option.splits node.splits)

text \<open>
  \<open>ioutil.TempFile\<close> tries names with the random texts \<open>rnd\<close> in the place of the star until one is
  free, and creates an empty file.
\<close>

definition temp_name :: "string \<Rightarrow> string \<Rightarrow> string" where
  "temp_name r configFileName = ''.'' @ r @ configFileName"

definition os_TempFile :: "string list \<Rightarrow> path \<Rightarrow> string \<Rightarrow> OS \<Rightarrow> OS \<times> path outcome" where
  "os_TempFile rnd dir configFileName =
     os_call unchanged (\<lambda>s.
       if \<not> is_dir s dir then (s, Err ErrNotExist)
       else (case find (\<lambda>r. node_at s (dir @ [temp_name r configFileName]) = None) rnd of
               None \<Rightarrow> (s, Err ErrExist)
             | Some r \<Rightarrow>
                 (put_node (dir @ [temp_name r configFileName]) (File 384 []) s, Ret (dir @ [temp_name r configFileName]))))"

text \<open>
  \<open>ioutil.WriteFile\<close> truncates the file first, so a part of it is a prefix of the bytes. An existing
  file keeps its permissions.
\<close>

definition store_file :: "path \<Rightarrow> string \<Rightarrow> nat \<Rightarrow> OS \<Rightarrow> OS \<times> unit outcome" where
  "store_file p bs perm s =
     (case node_at s p of
        Some (Dir _) \<Rightarrow> (s, Err IsDirectory)
      | Some (File m _) \<Rightarrow> (put_node p (File m bs) s, Ret ())
      | None \<Rightarrow> if is_dir s (butlast p) then (put_node p (File perm bs) s, Ret ()) else (s, Err ErrNotExist))"

definition os_WriteFile :: "path \<Rightarrow> string \<Rightarrow> nat \<Rightarrow> OS \<Rightarrow> OS \<times> unit outcome" where
  "os_WriteFile p bs perm = os_call (\<lambda>n s. fst (store_file p (take n bs) perm s)) (store_file p bs perm)"

text \<open>\<open>os.Rename\<close> of a file is atomic: it replaces the file at the new path or does nothing.\<close>

definition os_Rename :: "path \<Rightarrow> path \<Rightarrow> OS \<Rightarrow> OS \<times> unit outcome" where
  "os_Rename p q =
     os_call unchanged (\<lambda>s.
       case node_at s p of
         None \<Rightarrow> (s, Err ErrNotExist)
       | Some n \<Rightarrow>
           (case node_at s q of
              Some (Dir _) \<Rightarrow> (s, Err ErrExist)
            | _ \<Rightarrow> (put_node q n (del_node p s), Ret ())))"

definition os_Remove :: "path \<Rightarrow> OS \<Rightarrow> OS \<times> unit outcome" where
  "os_Remove p = os_call unchanged (\<lambda>s. case node_at s p of None \<Rightarrow> (s, Err ErrNotExist) | Some n \<Rightarrow> (del_node p s, Ret ()))"

definition os_Open :: "path \<Rightarrow> OS \<Rightarrow> OS \<times> unit outcome" where
  "os_Open p = os_call unchanged (\<lambda>s. (s, case node_at s p of None \<Rightarrow> Err ErrNotExist | Some n \<Rightarrow> Ret ()))"

definition os_ReadAll :: "path \<Rightarrow> OS \<Rightarrow> OS \<times> string outcome" where
  "os_ReadAll p =
     os_call unchanged (\<lambda>s. (s, case node_at s p of
        Some (File _ bs) \<Rightarrow> Ret bs
      | Some (Dir _) \<Rightarrow> Err IsDirectory
      | None \<Rightarrow> Err ErrNotExist))"

section \<open>JSON files\<close>

text \<open>The deferred function of \<open>WriteJson\<close>; its errors are not looked at.\<close>

definition remove_temp :: "path \<Rightarrow> OS \<times> unit outcome \<Rightarrow> OS \<times> unit outcome" where
  "remove_temp temp c =
     (case c of (s, result) \<Rightarrow>
        (case os_Stat temp s of
           (s1, Ret n) \<Rightarrow> (fst (os_Remove temp s1), result)
         | (s1, _) \<Rightarrow> (s1, result)))"

definition WriteJson :: "string list \<Rightarrow> ('a \<Rightarrow> string outcome) \<Rightarrow> path \<Rightarrow> 'a \<Rightarrow> OS \<Rightarrow> OS \<times> unit outcome" where
  "WriteJson rnd MarshalIndent file obj s =
     on_ret (os_MkdirAll (butlast file) 488 s) (\<lambda>s e. (s, Err e))
       (\<lambda>s u. on_ret (s, MarshalIndent obj) (\<lambda>s e. (s, Err e))
         (\<lambda>s bs. on_ret (os_TempFile rnd (butlast file) (last file) s) (\<lambda>s e. (s, Err e))
           (\<lambda>s temp. on_ret (os_Close s) (\<lambda>s e. (s, Err e))
             (\<lambda>s u. remove_temp temp
               (on_ret (os_WriteFile temp bs 384 s) (\<lambda>s e. (s, Err e))
                 (\<lambda>s u. os_Rename temp file s))))))"

definition ReadJson :: "(string \<Rightarrow> 'a outcome) \<Rightarrow> path \<Rightarrow> OS \<Rightarrow> OS \<times> 'a outcome" where
  "ReadJson Unmarshal file s =
     on_ret (os_Open file s) (\<lambda>s e. (s, Err e))
       (\<lambda>s u. on_ret (os_ReadAll file s) (\<lambda>s e. (s, Err e))
         (\<lambda>s bs. (s, Unmarshal bs)))"

text \<open>
  \<open>CopyFileContents\<close>: \<open>os.Create\<close> empties the target before anything is copied; the error of closing
  it is returned when there is no other.
\<close>

definition os_Create :: "path \<Rightarrow> OS \<Rightarrow> OS \<times> unit outcome" where
  "os_Create p = os_call (\<lambda>n. fst \<circ> store_file p [] 438) (store_file p [] 438)"

definition os_Sync :: "OS \<Rightarrow> OS \<times> unit outcome" where
  "os_Sync = os_call unchanged (\<lambda>s. (s, Ret ()))"

text \<open>\<open>io.Copy\<close>: when it fails a prefix has been copied.\<close>

definition copy_bytes :: "path \<Rightarrow> path \<Rightarrow> (string \<Rightarrow> string) \<Rightarrow> OS \<Rightarrow> OS \<times> unit outcome" where
  "copy_bytes src dst piece s =
     (case node_at s src of
        Some (File _ bs) \<Rightarrow> store_file dst (piece bs) 438 s
      | Some (Dir _) \<Rightarrow> (s, Err IsDirectory)
      | None \<Rightarrow> (s, Err ErrNotExist))"

definition io_Copy :: "path \<Rightarrow> path \<Rightarrow> OS \<Rightarrow> OS \<times> unit outcome" where
  "io_Copy src dst = os_call (\<lambda>n s. fst (copy_bytes src dst (take n) s)) (copy_bytes src dst (\<lambda>bs. bs))"

definition close_target :: "OS \<times> unit outcome \<Rightarrow> OS \<times> unit outcome" where
  "close_target c =
     (case c of (s, result) \<Rightarrow>
        (case os_Close s of
           (s1, Err cErr) \<Rightarrow> (s1, if result = Ret () then Err cErr else result)
         | (s1, _) \<Rightarrow> (s1, result)))"

definition CopyFileContents :: "path \<Rightarrow> path \<Rightarrow> OS \<Rightarrow> OS \<times> unit outcome" where
  "CopyFileContents src dst s =
     on_ret (os_Open src s) (\<lambda>s e. (s, Err e))
       (\<lambda>s u. on_ret (os_Create dst s) (\<lambda>s e. (s, Err e))
         (\<lambda>s u. close_target
           (on_ret (io_Copy src dst s) (\<lambda>s e. (s, Err e)) (\<lambda>s u. os_Sync s))))"

section \<open>What the calls change\<close>

lemma set_ancestors: "q \<in> set (ancestors p) \<longleftrightarrow> q \<noteq> [] \<and> prefix q p"
proof
  assume "q \<in> set (ancestors p)"
  then show "q \<noteq> [] \<and> prefix q p" by (auto simp: ancestors_def take_is_prefix)
next
  assume q: "q \<noteq> [] \<and> prefix q p"
  then have "q = take (length q) p" "length q \<in> set [1..<Suc (length p)]"
    by (auto simp: prefix_def Suc_le_eq)
  then show "q \<in> set (ancestors p)" by (auto simp: ancestors_def)
qed

lemma mkdirs_nodes:
  "mkdirs perm ps s = (s', r) \<Longrightarrow>
     node_at s' q = node_at s q \<or> node_at s q = None \<and> q \<in> set ps \<and> node_at s' q = Some (Dir perm)"
proof (induction perm ps s rule: mkdirs.induct)
  case (2 perm p ps s)
  show ?case
  proof (cases "node_at s p")
    case None
    with 2(3) have "mkdirs perm ps (put_node p (Dir perm) s) = (s', r)" by simp
    from 2(1) [OF None this] None show ?thesis by (auto split: if_splits)
  next
    case (Some n)
    with 2 show ?thesis by (cases n) auto
  qed
qed simp

lemma mkdirs_Ret: "mkdirs perm ps s = (s', Ret ()) \<Longrightarrow> q \<in> set ps \<Longrightarrow> \<exists>m. node_at s' q = Some (Dir m)"
proof (induction perm ps s rule: mkdirs.induct)
  case (2 perm p ps s)
  show ?case
  proof (cases "q = p \<and> q \<notin> set ps")
    case True
    with 2(3) show ?thesis
      by (auto split: option.splits node.splits dest: mkdirs_nodes [where q = p])
  next
    case False
    with 2 show ?thesis by (auto split: option.splits node.splits)
  qed
qed simp

lemma MkdirAll_nodes:
  assumes "os_MkdirAll p perm s = (s', r)"
  shows "node_at s' q = node_at s q \<or> node_at s q = None \<and> q \<noteq> [] \<and> prefix q p \<and> node_at s' q = Some (Dir perm)"
  using assms unfolding os_MkdirAll_def
proof (cases rule: os_call_cases)
  case (works t)
  then show ?thesis using mkdirs_nodes [of perm "ancestors p" t s' r q] by (auto simp: set_ancestors)
next
  case (fails t e n)
  obtain t' r' where "mkdirs perm (take n (ancestors p)) t = (t', r')" by fastforce
  from mkdirs_nodes [OF this, of q] have "node_at s' q = node_at s q \<or>
      node_at s q = None \<and> q \<in> set (take n (ancestors p)) \<and> node_at s' q = Some (Dir perm)"
    using fails \<open>mkdirs perm (take n (ancestors p)) t = (t', r')\<close> by simp
  then show ?thesis by (metis in_set_takeD set_ancestors)
qed

lemma MkdirAll_Ret:
  assumes "os_MkdirAll p perm s = (s', Ret ())"
  shows "is_dir s' p"
  using assms unfolding os_MkdirAll_def
proof (cases rule: os_call_cases)
  case (works t)
  then show ?thesis using mkdirs_Ret [of perm "ancestors p" t s' p] by (auto simp: set_ancestors is_dir_iff)
qed simp

lemma Stat_nodes: "os_Stat p s = (s', r) \<Longrightarrow> os_nodes s' = os_nodes s"
  unfolding os_Stat_def by (erule os_call_cases) auto

lemma Close_nodes: "os_Close s = (s', r) \<Longrightarrow> os_nodes s' = os_nodes s"
  unfolding os_Close_def by (erule os_call_cases) auto

lemma TempFile_nodes:
  assumes "os_TempFile rnd dir f s = (s', q)"
  obtains (created) r where "q = Ret (dir @ [temp_name r f])" "r \<in> set rnd" "node_at s (dir @ [temp_name r f]) = None"
      "\<And>p. node_at s' p = (if p = dir @ [temp_name r f] then Some (File 384 []) else node_at s p)"
    | (failed) e where "q = Err e" "os_nodes s' = os_nodes s"
  using assms unfolding os_TempFile_def
proof (cases rule: os_call_cases)
  case (works t)
  show ?thesis
  proof (cases "is_dir t dir \<and> (\<exists>r. find (\<lambda>r. node_at t (dir @ [temp_name r f]) = None) rnd = Some r)")
    case True
    then obtain r where r: "find (\<lambda>r. node_at t (dir @ [temp_name r f]) = None) rnd = Some r" by blast
    then have "r \<in> set rnd" "node_at t (dir @ [temp_name r f]) = None" by (auto simp: find_Some_iff)
    with True works r show ?thesis by (intro created [of r]) auto
  next
    case False
    with works show ?thesis using failed by (auto split: if_splits option.splits)
  qed
next
  case (fails t e n)
  then show ?thesis using failed by blast
qed

lemma WriteFile_nodes:
  assumes "os_WriteFile p bs perm s = (s', r)" "node_at s p = Some (File m c)"
  shows "q \<noteq> p \<Longrightarrow> node_at s' q = node_at s q" "\<exists>x. node_at s' p = Some (File m x) \<and> (r = Ret () \<longrightarrow> x = bs)"
  using assms(1) unfolding os_WriteFile_def
  by (elim os_call_cases, use assms(2) in \<open>auto simp: store_file_def split: option.splits node.splits\<close>)+

lemma Rename_nodes:
  assumes "os_Rename p q s = (s', r)" "p \<noteq> q" "node_at s p = Some n"
  shows "r = Ret () \<and> (\<forall>x. node_at s' x = (if x = q then Some n else if x = p then None else node_at s x)) \<or>
    (\<exists>e. r = Err e) \<and> os_nodes s' = os_nodes s"
  using assms(1) unfolding os_Rename_def
  by (elim os_call_cases, use assms(2,3) in \<open>auto split: option.splits node.splits\<close>)

lemma remove_temp_nodes:
  assumes "remove_temp temp (s, r) = (s', r')"
  shows "r' = r" "q \<noteq> temp \<Longrightarrow> node_at s' q = node_at s q" "node_at s temp = None \<Longrightarrow> node_at s' temp = None"
proof -
  obtain s1 x where x: "os_Stat temp s = (s1, x)" by fastforce
  obtain s2 y where y: "os_Remove temp s1 = (s2, y)" by fastforce
  have "\<forall>p. node_at s2 p = node_at s1 p \<or> p = temp \<and> node_at s2 p = None"
    using y unfolding os_Remove_def by (elim os_call_cases) (auto split: option.splits if_splits)
  then have "\<forall>p. node_at s2 p = node_at s1 p \<or> p = temp \<and> node_at s2 p = None" "node_at s1 temp = None \<longrightarrow> node_at s2 temp = None"
    by metis+
  then have "r' = r \<and> (q \<noteq> temp \<longrightarrow> node_at s' q = node_at s q) \<and> (node_at s temp = None \<longrightarrow> node_at s' temp = None)"
    using assms Stat_nodes [OF x] x y by (cases x) (auto simp: remove_temp_def)
  then show "r' = r" "q \<noteq> temp \<Longrightarrow> node_at s' q = node_at s q" "node_at s temp = None \<Longrightarrow> node_at s' temp = None"
    by auto
qed

section \<open>Properties\<close>

lemma temp_name_longer: "temp_name r f \<noteq> f"
proof
  assume "temp_name r f = f"
  then have "length (temp_name r f) = length f" by simp
  then show False by (simp add: temp_name_def)
qed

text \<open>The last part of \<open>WriteJson\<close>, with the temporary file open.\<close>

lemma write_and_rename:
  assumes "remove_temp temp (on_ret (os_WriteFile temp bs 384 s) (\<lambda>s e. (s, Err e)) (\<lambda>s u. os_Rename temp file s)) = (s', r)"
    and "node_at s temp = Some (File 384 [])" "temp \<noteq> file"
  shows "r = Ret () \<Longrightarrow> node_at s' file = Some (File 384 bs) \<and> node_at s' temp = None"
    and "r \<noteq> Ret () \<Longrightarrow> node_at s' file = node_at s file"
    and "q \<noteq> file \<Longrightarrow> q \<noteq> temp \<Longrightarrow> node_at s' q = node_at s q"
proof -
  obtain s1 x where w: "os_WriteFile temp bs 384 s = (s1, x)" by fastforce
  note n1 = WriteFile_nodes [OF w assms(2)]
  obtain s2 y where y: "on_ret (s1, x) (\<lambda>s e. (s, Err e)) (\<lambda>s u. os_Rename temp file s) = (s2, y)" by fastforce
  note n3 = remove_temp_nodes [OF assms(1) [unfolded w y]]
  have "(y = Ret () \<longrightarrow> node_at s2 file = Some (File 384 bs) \<and> node_at s2 temp = None) \<and>
    (y \<noteq> Ret () \<longrightarrow> node_at s2 file = node_at s file) \<and> (q \<noteq> file \<longrightarrow> q \<noteq> temp \<longrightarrow> node_at s2 q = node_at s q)"
  proof (cases x)
    case (Ret u)
    then have "os_Rename temp file s1 = (s2, y)" "node_at s1 temp = Some (File 384 bs)" using y n1(2) by auto
    from Rename_nodes [OF this(1) assms(3) this(2)] show ?thesis using n1(1) assms(3) by auto
  qed (use y n1(1) assms(3) in auto)
  then show "r = Ret () \<Longrightarrow> node_at s' file = Some (File 384 bs) \<and> node_at s' temp = None"
    "r \<noteq> Ret () \<Longrightarrow> node_at s' file = node_at s file"
    "q \<noteq> file \<Longrightarrow> q \<noteq> temp \<Longrightarrow> node_at s' q = node_at s q"
    using n3(1,3) n3(2) [of "file"] n3(2) [of q] assms(3) by auto
qed

text \<open>
  Writing a JSON file is atomic, for every schedule of failures: if it succeeds the file has the new
  contents, and nothing else has changed but that missing directories above the file exist; if it
  fails or is cut short the file is what it was, and at most a temporary file is left beside it.
\<close>

lemma WriteJson_atomic:
  assumes "file \<noteq> []" "WriteJson rnd MarshalIndent file obj s = (s', r)"
  shows "(r = Ret () \<longrightarrow> (\<exists>bs. MarshalIndent obj = Ret bs \<and> node_at s' file = Some (File 384 bs))) \<and>
    (r \<noteq> Ret () \<longrightarrow> node_at s' file = node_at s file) \<and>
    (\<forall>q. q \<noteq> file \<longrightarrow> node_at s' q = node_at s q \<or> node_at s q = None \<and>
       (strict_prefix q file \<or> r \<noteq> Ret () \<and> (\<exists>x \<in> set rnd. q = butlast file @ [temp_name x (last file)])))"
proof -
  have split: "butlast file @ [last file] = file" using assms(1) by simp
  obtain s1 r1 where m: "os_MkdirAll (butlast file) 488 s = (s1, r1)" by fastforce
  have above: "q \<noteq> file \<and> strict_prefix q file" if "prefix q (butlast file)" for q
    using that split by (metis prefix_order.le_less_trans prefix_order.less_irrefl strict_prefixI' self_append_conv not_Cons_self2 strict_prefix_def)
  have n1: "node_at s1 q = node_at s q \<or> node_at s q = None \<and> strict_prefix q file" for q
    using MkdirAll_nodes [OF m, of q] above by auto
  have f1: "node_at s1 file = node_at s file" using MkdirAll_nodes [OF m, of "file"] above [of "file"] by auto
  have "?thesis" if "os_nodes s' = os_nodes s1" "r \<noteq> Ret ()" using that n1 f1 by auto
  note stopped = this
  obtain s2 t where t: "os_TempFile rnd (butlast file) (last file) s1 = (s2, t)" by fastforce
  show ?thesis
  proof (cases "r1 = Ret () \<and> is_ret (MarshalIndent obj) \<and> is_ret t")
    case False
    have "os_nodes s2 = os_nodes s1" if "\<not> is_ret t" using t by (cases rule: TempFile_nodes) (use that in auto)
    with False assms(2) m t have "os_nodes s' = os_nodes s1 \<and> r \<noteq> Ret ()"
      by (cases r1; cases "MarshalIndent obj"; cases t) (auto simp: WriteJson_def)
    then show ?thesis using stopped by blast
  next
    case True
    then obtain bs temp where bs: "MarshalIndent obj = Ret bs" "t = Ret temp" "r1 = Ret ()"
      by (cases "MarshalIndent obj"; cases t) auto
    from t [unfolded bs(2)] obtain x where x: "temp = butlast file @ [temp_name x (last file)]" "x \<in> set rnd"
      "node_at s1 temp = None" "\<And>p. node_at s2 p = (if p = temp then Some (File 384 []) else node_at s1 p)"
      by (cases rule: TempFile_nodes) auto
    have ne: "temp \<noteq> file" using x(1) split temp_name_longer by (metis last_snoc)
    obtain s3 c where c: "os_Close s2 = (s3, c)" by fastforce
    note n3 = Close_nodes [OF c]
    have t3: "node_at s3 temp = Some (File 384 [])" using n3 x(4) by simp
    show ?thesis
    proof (cases "c = Ret ()")
      case True
      with assms(2) m t bs c have "remove_temp temp (on_ret (os_WriteFile temp bs 384 s3) (\<lambda>s e. (s, Err e))
          (\<lambda>s u. os_Rename temp file s)) = (s', r)" by (simp add: WriteJson_def)
      note w = write_and_rename [OF this t3 ne]
      have "node_at s' q = node_at s1 q \<or> q = temp \<and> r \<noteq> Ret ()" if "q \<noteq> file" for q
        using w(1) w(3) [OF that] n3 x(3,4) by (cases "q = temp"; cases "r = Ret ()") auto
      moreover have "node_at s temp = None" using n1 [of temp] x(3) by auto
      moreover have "r \<noteq> Ret () \<Longrightarrow> node_at s' file = node_at s file" using w(2) n3 x(4) ne f1 by auto
      ultimately show ?thesis using w(1) n1 x(1,2) bs(1) by metis
    next
      case False
      then have "os_nodes s' = os_nodes s2" "r \<noteq> Ret ()" using assms(2) m t bs c n3 by (cases c; simp add: WriteJson_def)+
      moreover have "node_at s temp = None" using n1 [of temp] x(3) by auto
      ultimately show ?thesis using x n1 f1 ne by (metis (no_types, lifting))
    qed
  qed
qed

text \<open>Reading changes nothing, and gives what the file has when no call fails.\<close>

lemma ReadJson_works:
  assumes "node_at s file = Some (File m bs)" "os_faults s = []"
  shows "ReadJson Unmarshal file s = (s, Unmarshal bs)"
  using assms by (simp add: ReadJson_def os_Open_def os_ReadAll_def os_call_def)

text \<open>A copy that succeeds has the contents of the source, which keeps its own.\<close>

theorem copy_contents:
  assumes "CopyFileContents src dst s = (s', Ret ())" "src \<noteq> dst"
  shows "\<exists>m bs m'. node_at s src = Some (File m bs) \<and> node_at s' dst = Some (File m' bs) \<and>
    (\<forall>q. q \<noteq> dst \<longrightarrow> node_at s' q = node_at s q)"
proof -
  obtain s1 where s1: "os_Open src s = (s1, Ret ())"
    using assms(1) by (auto simp: CopyFileContents_def elim: on_ret_cases)
  then have n1: "os_nodes s1 = os_nodes s" unfolding os_Open_def by (elim os_call_cases) auto
  obtain s2 where s2: "os_Create dst s1 = (s2, Ret ())"
    using assms(1) s1 by (auto simp: CopyFileContents_def elim: on_ret_cases)
  then have n2: "node_at s2 q = node_at s q" if "q \<noteq> dst" for q
    using that n1 unfolding os_Create_def
    by (elim os_call_cases) (auto simp: store_file_def split: option.splits node.splits if_splits)
  obtain s3 where s3: "io_Copy src dst s2 = (s3, Ret ())"
    using assms(1) s1 s2
    by (auto simp: CopyFileContents_def close_target_def split: prod.splits outcome.splits if_splits elim!: on_ret_cases)
  then obtain m bs m' where n3: "node_at s2 src = Some (File m bs)" "node_at s3 dst = Some (File m' bs)"
    "\<And>q. q \<noteq> dst \<Longrightarrow> node_at s3 q = node_at s2 q"
    unfolding io_Copy_def
    by (elim os_call_cases) (auto simp: copy_bytes_def store_file_def split: option.splits node.splits if_splits)
  have "os_nodes s' = os_nodes s3"
    using assms(1) s1 s2 s3
    by (auto simp: CopyFileContents_def close_target_def os_Sync_def split: prod.splits outcome.splits if_splits
        dest!: Close_nodes elim!: os_call_cases)
  with n3 n2 assms(2) show ?thesis by auto
qed

end
