(* ===== verification/File_Refinement.thy ===== *)
theory File_Refinement
  imports Util_File File_Store Client_Config
begin

text \<open>
  The files of the program as its components see them. The store of the Management Service and the
  configuration of the client treat their file as a value that a write replaces as a whole or not
  at all. This theory states that contract, the locale \<open>atomic_store\<close>, interprets it on \<open>WriteJson\<close>
  with all its steps and on the two views, and shows that \<open>WriteJson\<close> implements both views.
\<close>

section \<open>The contract\<close>

locale atomic_store =
  fixes save :: "'v \<Rightarrow> 's \<Rightarrow> 's \<times> unit outcome"
    and content :: "'s \<Rightarrow> 'c"
    and stored :: "'v \<Rightarrow> 'c"
    and encodable :: "'v \<Rightarrow> bool"
  assumes save_Ret: "encodable v \<Longrightarrow> save v s = (s', Ret ()) \<Longrightarrow> content s' = stored v"
    and save_failed: "save v s = (s', r) \<Longrightarrow> r \<noteq> Ret () \<Longrightarrow> content s' = content s"
begin

lemma written: "encodable v \<Longrightarrow> content (fst (save v s)) = (if snd (save v s) = Ret () then stored v else content s)"
  by (cases "save v s") (auto dest: save_Ret save_failed)

text \<open>After any number of writes the content is one of those that were written, or the first.\<close>

lemma saves_content:
  "\<forall>v \<in> set vs. encodable v \<Longrightarrow> content (fold (\<lambda>v s. fst (save v s)) vs s) \<in> insert (content s) (stored ` set vs)"
proof (induction vs arbitrary: s)
  case (Cons v vs)
  from Cons.IH [of "fst (save v s)"] Cons.prems written [of v s] show ?case by (auto split: if_splits)
qed simp

text \<open>Once a write has succeeded, failed ones do not change what is read.\<close>

lemma failures_keep:
  assumes "\<And>v s. v \<in> set vs \<Longrightarrow> snd (save v s) \<noteq> Ret ()"
  shows "content (fold (\<lambda>v s. fst (save v s)) vs s) = content s"
  using assms
proof (induction vs arbitrary: s)
  case (Cons v vs)
  have "content (fst (save v s)) = content s"
    using Cons.prems [of v s] save_failed [of v s "fst (save v s)" "snd (save v s)"] by simp
  with Cons show ?case by simp
qed simp

end

section \<open>The three instances\<close>

text \<open>What reading a file would give.\<close>

datatype 'a json_content = JsonMissing | JsonBroken GoError | JsonStored 'a

definition json_at :: "(string \<Rightarrow> 'a outcome) \<Rightarrow> path \<Rightarrow> OS \<Rightarrow> 'a json_content" where
  "json_at Unmarshal file s =
     (case node_at s file of
        None \<Rightarrow> JsonMissing
      | Some (Dir _) \<Rightarrow> JsonBroken IsDirectory
      | Some (File _ bs) \<Rightarrow>
          (case Unmarshal bs of
             Ret x \<Rightarrow> JsonStored x
           | Err e \<Rightarrow> JsonBroken e
           | Panic p \<Rightarrow> JsonBroken (PlainError ''panic'')))"

definition encoded_back :: "('a \<Rightarrow> string outcome) \<Rightarrow> (string \<Rightarrow> 'a outcome) \<Rightarrow> 'a \<Rightarrow> bool" where
  "encoded_back Marshal Unmarshal x \<longleftrightarrow> (\<forall>bs. Marshal x = Ret bs \<longrightarrow> Unmarshal bs = Ret x)"

interpretation js: atomic_store "WriteJson rnd Marshal (dir @ [name])" "json_at Unmarshal (dir @ [name])"
  JsonStored "encoded_back Marshal Unmarshal" for rnd Marshal Unmarshal dir name
proof
  fix v s s'
  assume "encoded_back Marshal Unmarshal v" "WriteJson rnd Marshal (dir @ [name]) v s = (s', Ret ())"
  then show "json_at Unmarshal (dir @ [name]) s' = JsonStored v"
    using WriteJson_atomic [of "dir @ [name]" rnd Marshal v s s' "Ret ()"] by (auto simp: json_at_def encoded_back_def)
next
  fix v s s' r
  assume "WriteJson rnd Marshal (dir @ [name]) v s = (s', r)" "r \<noteq> Ret ()"
  then show "json_at Unmarshal (dir @ [name]) s' = json_at Unmarshal (dir @ [name]) s"
    using WriteJson_atomic [of "dir @ [name]" rnd Marshal v s s' r] by (simp add: json_at_def)
qed

text \<open>The file of the store and the file of the configuration.\<close>

fun store_view :: "(string, Account) gomap json_content \<Rightarrow> file_state" where
  "store_view JsonMissing = NoFile"
| "store_view (JsonBroken e) = Broken e"
| "store_view (JsonStored m) = Stored m"

fun config_view :: "Client_Config json_content \<Rightarrow> config_file" where
  "config_view JsonMissing = CfgMissing"
| "config_view (JsonBroken e) = CfgBroken e"
| "config_view (JsonStored c) = CfgStored c"

definition store_write :: "(string, Account) gomap \<Rightarrow> FileStore \<Rightarrow> FileStore \<times> unit outcome" where
  "store_write m st = persist (st\<lparr>Accounts := m\<rparr>)"

definition config_save :: "Config_Env \<Rightarrow> Client_Config \<Rightarrow> config_file \<Rightarrow> config_file \<times> unit outcome" where
  "config_save env c f = on_ret (write_config env f c) (\<lambda>f e. (f, Err e)) (\<lambda>f c. (f, Ret ()))"

interpretation st_file: atomic_store store_write disk Stored "\<lambda>m. True"
  by unfold_locales (auto simp: store_write_def persist.simps split: list.splits option.splits)

interpretation cfg_file: atomic_store "config_save env" "\<lambda>f. f" CfgStored "\<lambda>c. True" for env
  by unfold_locales (auto simp: config_save_def write_config_def split: outcome.splits)

section \<open>Properties\<close>


text \<open>A file whose write fails when the temporary file is to be renamed.\<close>

definition ex_disk :: "fault list \<Rightarrow> OS" where
  "ex_disk faults = \<lparr>os_nodes = [([''d''], Dir 488), ([''d'', ''f''], File 384 ''old'')], os_faults = faults\<rparr>"

definition ex_faults :: "fault list" where
  "ex_faults = replicate 4 NoFault @ [Fault (PlainError ''disk'') 0]"


text \<open>The failure of a write, as the store has it.\<close>

definition fault_of :: "unit outcome \<Rightarrow> GoError option list" where
  "fault_of r = (case r of Err e \<Rightarrow> [Some e] | _ \<Rightarrow> [])"

lemma os_call_no_panic:
  "os_call part f s = (s', Panic p) \<Longrightarrow> (\<And>t t'. f t \<noteq> (t', Panic p)) \<Longrightarrow> False"
  by (erule os_call_cases) auto

lemma mkdirs_no_panic: "mkdirs perm ps s \<noteq> (s', Panic p)"
  by (induction perm ps s rule: mkdirs.induct) (auto split: option.splits node.splits)

lemma os_no_panic:
  "os_MkdirAll d q s \<noteq> (s', Panic p)" "os_TempFile rnd d n s \<noteq> (s', Panic p)" "os_Close s \<noteq> (s', Panic p)"
  "os_WriteFile f bs q s \<noteq> (s', Panic p)" "os_Rename f g s \<noteq> (s', Panic p)"
  unfolding os_MkdirAll_def os_TempFile_def os_Close_def os_WriteFile_def os_Rename_def
  by (auto elim!: os_call_no_panic simp: mkdirs_no_panic store_file_def split: option.splits node.splits if_splits)

lemma WriteJson_no_panic:
  assumes "WriteJson rnd Marshal file x s = (s', Panic p)"
  shows "Marshal x = Panic p"
  using assms unfolding WriteJson_def
  by (auto elim!: on_ret_cases simp: os_no_panic remove_temp_def split: prod.splits outcome.splits)

text \<open>
  C22: the store and the configuration may look at their file as a value. With the steps of \<open>WriteJson\<close>
  below it, \<open>persist\<close> and the writing of the configuration do to their view of the file exactly what
  \<open>WriteJson\<close> does to the file system, with the same result, whatever fails.
\<close>

theorem files_refine_views:
  assumes "WriteJson rnd Marshal (dir @ [name]) (Accounts st) s = (s', r)" "\<And>p. Marshal (Accounts st) \<noteq> Panic p"
    and "encoded_back Marshal Unmarshal (Accounts st)"
    and "WriteJson rnd' MarshalConfig (cdir @ [cname]) config c = (c', q)" "encoded_back MarshalConfig UnmarshalConfig config"
  shows "persist (st\<lparr>disk := store_view (json_at Unmarshal (dir @ [name]) s), write_faults := fault_of r\<rparr>) =
      (st\<lparr>disk := store_view (json_at Unmarshal (dir @ [name]) s'), write_faults := []\<rparr>, r) \<and>
    config_save (env\<lparr>config_write := q\<rparr>) config (config_view (json_at UnmarshalConfig (cdir @ [cname]) c)) =
      (config_view (json_at UnmarshalConfig (cdir @ [cname]) c'), q)"
proof
  have "json_at Unmarshal (dir @ [name]) s' = (if r = Ret () then JsonStored (Accounts st) else json_at Unmarshal (dir @ [name]) s)"
    using js.written [OF assms(3), where rnd = rnd and dir = dir and name = name and s = s] assms(1) by simp
  moreover have "r \<noteq> Panic p" for p
    using WriteJson_no_panic [of rnd Marshal "dir @ [name]" "Accounts st" s s' p] assms(1) assms(2) [of p] by auto
  ultimately show "persist (st\<lparr>disk := store_view (json_at Unmarshal (dir @ [name]) s), write_faults := fault_of r\<rparr>) =
      (st\<lparr>disk := store_view (json_at Unmarshal (dir @ [name]) s'), write_faults := []\<rparr>, r)"
    by (cases r) (auto simp: persist.simps fault_of_def)
  have "json_at UnmarshalConfig (cdir @ [cname]) c' = (if q = Ret () then JsonStored config else json_at UnmarshalConfig (cdir @ [cname]) c)"
    using js.written [OF assms(5), where rnd = rnd' and dir = cdir and name = cname and s = c] assms(4) by simp
  then show "config_save (env\<lparr>config_write := q\<rparr>) config (config_view (json_at UnmarshalConfig (cdir @ [cname]) c)) =
      (config_view (json_at UnmarshalConfig (cdir @ [cname]) c'), q)"
    by (cases q) (auto simp: config_save_def write_config_def)
qed

definition ex_cfg :: Client_Config where
  "ex_cfg = \<lparr>CC_PrivateKey = ''k'', CC_PreSharedKey = [], CC_ManagementURL = None, CC_AdminURL = None,
     CC_WgIface = ''wt0'', CC_IFaceBlackList = []\<rparr>"

theorem files_refine_views_witness:
  "\<exists>s' c'. persist ((empty_store ''store.json'' NoFile [])\<lparr>disk := NoFile, write_faults := []\<rparr>) =
      ((empty_store ''store.json'' NoFile [])\<lparr>disk := store_view (json_at (\<lambda>_. Ret (GoMap [])) ([''d''] @ [''s'']) s'), write_faults := []\<rparr>, Ret ()) \<and>
    config_save \<lparr>ParseRequestURI = (\<lambda>_. Err ErrExist), GeneratePrivateKey = Ret ''k'', config_write = Err (PlainError ''disk'')\<rparr> ex_cfg CfgMissing =
      (config_view (json_at (\<lambda>_. Ret ex_cfg) ([''d''] @ [''c'']) c'), Err (PlainError ''disk''))"
proof -
  obtain s' r where s: "WriteJson [''1''] (\<lambda>_. Ret ''{}'') ([''d''] @ [''s'']) (Accounts (empty_store ''store.json'' NoFile [])) (ex_disk []) = (s', r)"
    by fastforce
  obtain c' q where c: "WriteJson [''1''] (\<lambda>_. Ret ''{}'') ([''d''] @ [''c'']) ex_cfg (ex_disk ex_faults) = (c', q)" by fastforce
  have "snd (WriteJson [''1''] (\<lambda>_. Ret ''{}'') ([''d''] @ [''s'']) () (ex_disk [])) = Ret ()"
    "snd (WriteJson [''1''] (\<lambda>_. Ret ''{}'') ([''d''] @ [''c'']) () (ex_disk ex_faults)) = Err (PlainError ''disk'')" by code_simp+
  then have rq: "r = Ret ()" "q = Err (PlainError ''disk'')" using s c by (auto simp: WriteJson_def)
  from files_refine_views [OF s _ _ c, of "\<lambda>_. Ret (GoMap [])" "\<lambda>_. Ret ex_cfg"
      "\<lparr>ParseRequestURI = (\<lambda>_. Err ErrExist), GeneratePrivateKey = Ret ''k'', config_write = Ret ()\<rparr>"] rq
  show ?thesis
    by (intro exI [of _ s'] exI [of _ c']) (simp add: encoded_back_def empty_store_def json_at_def ex_disk_def fault_of_def)
qed

end
