(* ===== verification/Migration.thy ===== *)
theory Migration
  imports Util_File "HOL-Library.List_Lexorder" "HOL-Library.Char_ord"
begin

text \<open>
  The move of the files of Wiretrustee to the directories of Netbird at the first start under the
  new name: \<open>handleRebrand\<close>, \<open>cpDir\<close> and \<open>cpFile\<close> of \<open>client/cmd/root.go\<close>, and the same functions of
  \<open>management/cmd/management.go\<close>, which end the process with \<open>log.Fatalf\<close> where the client returns an
  error. The file systems have no symbolic links: \<open>os.Stat\<close> follows them, so that neither
  \<open>cpDir\<close> ever sees one.
\<close>

section \<open>Copying a directory\<close>

definition os_Chmod :: "path \<Rightarrow> nat \<Rightarrow> OS \<Rightarrow> OS \<times> unit outcome" where
  "os_Chmod p m =
     os_call unchanged (\<lambda>s.
       case node_at s p of
         None \<Rightarrow> (s, Err ErrNotExist)
       | Some (File _ bs) \<Rightarrow> (put_node p (File m bs) s, Ret ())
       | Some (Dir _) \<Rightarrow> (put_node p (Dir m) s, Ret ()))"

text \<open>\<open>ioutil.ReadDir\<close>: the names of the entries, sorted.\<close>

definition os_ReadDir :: "path \<Rightarrow> OS \<Rightarrow> OS \<times> string list outcome" where
  "os_ReadDir p =
     os_call unchanged (\<lambda>s.
       (s, if is_dir s p then Ret (sort (remdups [last q. (q, n) \<leftarrow> os_nodes s, q \<noteq> [] \<and> butlast q = p]))
           else if node_at s p = None then Err ErrNotExist else Err NotDirectory))"

fun Mode :: "node \<Rightarrow> nat" where
  "Mode (File m bs) = m"
| "Mode (Dir m) = m"

definition cpFile :: "path \<Rightarrow> path \<Rightarrow> OS \<Rightarrow> OS \<times> unit outcome" where
  "cpFile src dst s =
     on_ret (os_Open src s) (\<lambda>s e. (s, Err e))
       (\<lambda>s u. on_ret (os_Create dst s) (\<lambda>s e. (s, Err e))
         (\<lambda>s u. on_ret (io_Copy src dst s) (\<lambda>s e. (s, Err e))
           (\<lambda>s u. on_ret (os_Stat src s) (\<lambda>s e. (s, Err e))
             (\<lambda>s srcinfo. os_Chmod dst (Mode srcinfo) s))))"

text \<open>
  \<open>cpDir\<close> and its loop. \<open>fail\<close> is what happens with an error of an entry; the texts of the errors
  are shortened to the reason. The fuel bounds the depth; \<open>None\<close> is a copy that was not deep enough.
\<close>

fun cpDir :: "(GoError \<Rightarrow> unit outcome) \<Rightarrow> nat \<Rightarrow> path \<Rightarrow> path \<Rightarrow> OS \<Rightarrow> (OS \<times> unit outcome) option"
  and cpEntries :: "(GoError \<Rightarrow> unit outcome) \<Rightarrow> nat \<Rightarrow> path \<Rightarrow> path \<Rightarrow> string list \<Rightarrow> OS \<Rightarrow> (OS \<times> unit outcome) option" where
  "cpDir fail 0 src dst s = None"
| "cpDir fail (Suc n) src dst s =
     (case os_Stat src s of
        (s1, Err e) \<Rightarrow> Some (s1, Err e)
      | (s1, Panic p) \<Rightarrow> Some (s1, Panic p)
      | (s1, Ret srcinfo) \<Rightarrow>
          (case os_MkdirAll dst (Mode srcinfo) s1 of
             (s2, Err e) \<Rightarrow> Some (s2, Err e)
           | (s2, Panic p) \<Rightarrow> Some (s2, Panic p)
           | (s2, Ret u) \<Rightarrow>
               (case os_ReadDir src s2 of
                  (s3, Err e) \<Rightarrow> Some (s3, Err e)
                | (s3, Panic p) \<Rightarrow> Some (s3, Panic p)
                | (s3, Ret fds) \<Rightarrow> cpEntries fail n src dst fds s3)))"
| "cpEntries fail n src dst [] s = Some (s, Ret ())"
| "cpEntries fail n src dst (fd # fds) s =
     (case os_Stat (src @ [fd]) s of
        (s1, Err e) \<Rightarrow> Some (s1, fail e)
      | (s1, Panic p) \<Rightarrow> Some (s1, Panic p)
      | (s1, Ret fileInfo) \<Rightarrow>
          (case (case fileInfo of
                   Dir _ \<Rightarrow> cpDir fail n (src @ [fd]) (dst @ [fd]) s1
                 | File _ _ \<Rightarrow> Some (cpFile (src @ [fd]) (dst @ [fd]) s1)) of
             None \<Rightarrow> None
           | Some (s2, Err e) \<Rightarrow> Some (s2, fail e)
           | Some (s2, Panic p) \<Rightarrow> Some (s2, Panic p)
           | Some (s2, Ret u) \<Rightarrow> cpEntries fail n src dst fds s2))"

section \<open>Migration\<close>

definition migrateToNetbird :: "path \<Rightarrow> path \<Rightarrow> OS \<Rightarrow> OS \<times> bool" where
  "migrateToNetbird oldPath newPath s =
     (case os_Stat oldPath s of (s1, errOld) \<Rightarrow>
        (case os_Stat newPath s1 of (s2, errNew) \<Rightarrow>
           (s2, \<not> (errOld = Err ErrNotExist \<or> is_ret errNew))))"

text \<open>A number of levels that no path of a file system reaches.\<close>

definition os_depth :: "OS \<Rightarrow> nat" where
  "os_depth s = Suc (sum_list (map (length \<circ> fst) (os_nodes s)))"

text \<open>One of the blocks of \<open>handleRebrand\<close>: the setting has its default and the old files are there.\<close>

definition rebrand ::
  "(GoError \<Rightarrow> unit outcome) \<Rightarrow> bool \<Rightarrow> path \<Rightarrow> path \<Rightarrow> path \<Rightarrow> path \<Rightarrow> OS \<Rightarrow> (OS \<times> unit outcome) option" where
  "rebrand fail is_default oldPath newPath oldDir newDir s =
     (if is_default then
        (case migrateToNetbird oldPath newPath s of
           (s1, True) \<Rightarrow> cpDir fail (os_depth s1) oldDir newDir s1
         | (s1, False) \<Rightarrow> Some (s1, Ret ()))
      else Some (s, Ret ()))"

definition and_then :: "(OS \<times> unit outcome) option \<Rightarrow> (OS \<Rightarrow> (OS \<times> unit outcome) option) \<Rightarrow> (OS \<times> unit outcome) option" where
  "and_then c f = (case c of Some (s, Ret u) \<Rightarrow> f s | other \<Rightarrow> other)"

definition handleRebrand :: "path \<Rightarrow> path \<Rightarrow> OS \<Rightarrow> (OS \<times> unit outcome) option" where
  "handleRebrand logFile configPath s =
     (let defaultLogFileDir = [''var'', ''log'', ''netbird'']; oldDefaultLogFileDir = [''var'', ''log'', ''wiretrustee''];
          defaultConfigPathDir = [''etc'', ''netbird'']; oldDefaultConfigPathDir = [''etc'', ''wiretrustee''];
          defaultLogFile = defaultLogFileDir @ [''client.log'']; oldDefaultLogFile = oldDefaultLogFileDir @ [''client.log''];
          defaultConfigPath = defaultConfigPathDir @ [''config.json'']; oldDefaultConfigPath = oldDefaultConfigPathDir @ [''config.json'']
      in and_then (rebrand Err (logFile = defaultLogFile) oldDefaultLogFile defaultLogFile oldDefaultLogFileDir defaultLogFileDir s)
           (rebrand Err (configPath = defaultConfigPath) oldDefaultConfigPath defaultConfigPath oldDefaultConfigPathDir defaultConfigPathDir))"

text \<open>
  The Management Service moves three directories, the last one because its data directory is named
  by the path of the directory itself. \<open>log.Fatalf\<close> ends the process.
\<close>

definition log_Fatal :: "GoError \<Rightarrow> 'a outcome" where
  "log_Fatal e = Panic (ExplicitPanic (''exit: '' @ err_string e))"

definition fatal :: "'s \<times> 'a outcome \<Rightarrow> 's \<times> 'a outcome" where
  "fatal c = (case c of (s, Err e) \<Rightarrow> (s, log_Fatal e) | other \<Rightarrow> other)"

definition mgmt_handleRebrand :: "path \<Rightarrow> path \<Rightarrow> path \<Rightarrow> OS \<Rightarrow> (OS \<times> unit outcome) option" where
  "mgmt_handleRebrand logFile mgmtConfig mgmtDataDir s =
     (let defaultLogDir = [''var'', ''log'', ''netbird'']; oldDefaultLogDir = [''var'', ''log'', ''wiretrustee''];
          defaultMgmtConfigDir = [''etc'', ''netbird'']; oldDefaultMgmtConfigDir = [''etc'', ''wiretrustee''];
          defaultMgmtDataDir = [''var'', ''lib'', ''netbird'']; oldDefaultMgmtDataDir = [''var'', ''lib'', ''wiretrustee''];
          defaultLogFile = defaultLogDir @ [''management.log'']; oldDefaultLogFile = oldDefaultLogDir @ [''management.log''];
          defaultMgmtConfig = defaultMgmtConfigDir @ [''management.json''];
          oldDefaultMgmtConfig = oldDefaultMgmtConfigDir @ [''management.json'']
      in and_then (rebrand log_Fatal (logFile = defaultLogFile) oldDefaultLogFile defaultLogFile oldDefaultLogDir defaultLogDir s)
           (\<lambda>s. and_then (rebrand log_Fatal (mgmtConfig = defaultMgmtConfig) oldDefaultMgmtConfig defaultMgmtConfig
                            oldDefaultMgmtConfigDir defaultMgmtConfigDir s)
              (rebrand log_Fatal (mgmtDataDir = defaultMgmtDataDir) oldDefaultMgmtDataDir defaultMgmtDataDir
                 oldDefaultMgmtDataDir defaultMgmtDataDir)))"

section \<open>What copying changes\<close>

text \<open>Nothing but the target, what is below it, and missing directories above it.\<close>

definition touches :: "path \<Rightarrow> OS \<Rightarrow> OS \<Rightarrow> bool" where
  "touches dst s s' \<longleftrightarrow>
     (\<forall>q. \<not> prefix dst q \<longrightarrow> node_at s' q = node_at s q \<or> node_at s q = None \<and> prefix q dst)"

lemma touchesD: "touches dst s s' \<Longrightarrow> \<not> prefix dst q \<Longrightarrow> node_at s' q = node_at s q \<or> node_at s q = None \<and> prefix q dst"
  by (simp add: touches_def)

lemma touches_nodes: "os_nodes s' = os_nodes s \<Longrightarrow> touches dst s s'"
  by (simp add: touches_def)

lemma touches_chain: "touches dst s s' \<Longrightarrow> touches dst s' s'' \<Longrightarrow> touches dst s s''"
  unfolding touches_def by metis

lemma touches_one: "(\<And>q. q \<noteq> dst \<Longrightarrow> node_at s' q = node_at s q) \<Longrightarrow> touches dst s s'"
  by (auto simp: touches_def)

lemma touches_below: "touches (dst @ [x]) s s' \<Longrightarrow> touches dst s s'"
  unfolding touches_def by (metis append_prefixD prefix_order.refl prefix_snoc)

text \<open>Two paths neither of which is above the other.\<close>

definition apart :: "path \<Rightarrow> path \<Rightarrow> bool" where
  "apart p q \<longleftrightarrow> \<not> prefix p q \<and> \<not> prefix q p"

lemma apart_below: "apart p q \<Longrightarrow> apart (p @ [x]) (q @ [y])"
  unfolding apart_def by (metis append_prefixD prefix_order.order_refl prefix_snoc)

lemma touches_apart: "touches dst s s' \<Longrightarrow> apart src dst \<Longrightarrow> node_at s' (src @ rel) = node_at s (src @ rel)"
proof -
  assume t: "touches dst s s'" and a: "apart src dst"
  have "\<not> prefix dst (src @ rel)" using a prefix_same_cases [of dst "src @ rel" src] by (auto simp: apart_def)
  moreover have "\<not> prefix (src @ rel) dst" using a append_prefixD by (auto simp: apart_def)
  ultimately show ?thesis using touchesD [OF t] by blast
qed

lemma touches_sibling:
  assumes "touches (dst @ [x]) s s'" "y \<noteq> x"
  shows "node_at s' (dst @ y # rel) = node_at s (dst @ y # rel)"
proof -
  have "apart (dst @ [y]) (dst @ [x])" using assms(2) by (auto simp: apart_def)
  from touches_apart [OF assms(1) this, of rel] show ?thesis by simp
qed

lemma Open_nodes: "os_Open p s = (s', r) \<Longrightarrow> os_nodes s' = os_nodes s"
  unfolding os_Open_def by (erule os_call_cases) auto

lemma ReadDir_nodes: "os_ReadDir p s = (s', r) \<Longrightarrow> os_nodes s' = os_nodes s"
  unfolding os_ReadDir_def by (erule os_call_cases) auto

lemma Create_frame: "os_Create p s = (s', r) \<Longrightarrow> q \<noteq> p \<Longrightarrow> node_at s' q = node_at s q"
  unfolding os_Create_def
  by (erule os_call_cases) (auto simp: store_file_def split: option.splits node.splits if_splits)

lemma Copy_frame: "io_Copy src p s = (s', r) \<Longrightarrow> q \<noteq> p \<Longrightarrow> node_at s' q = node_at s q"
  unfolding io_Copy_def
  by (erule os_call_cases) (auto simp: copy_bytes_def store_file_def split: option.splits node.splits if_splits)

lemma Chmod_frame: "os_Chmod p m s = (s', r) \<Longrightarrow> q \<noteq> p \<Longrightarrow> node_at s' q = node_at s q"
  unfolding os_Chmod_def by (erule os_call_cases) (auto split: option.splits node.splits)

lemmas frames = Open_nodes ReadDir_nodes Create_frame Copy_frame Stat_nodes Chmod_frame

lemma cpFile_frame: "cpFile src dst s = (s', r) \<Longrightarrow> q \<noteq> dst \<Longrightarrow> node_at s' q = node_at s q"
  unfolding cpFile_def by (elim on_ret_cases) (auto dest!: frames)

lemma cpFile_Ret:
  assumes "cpFile src dst s = (s', Ret ())" "src \<noteq> dst"
  shows "\<exists>m bs. node_at s src = Some (File m bs) \<and> node_at s' dst = Some (File m bs)"
proof -
  obtain s1 s2 s3 s4 info where
    c: "os_Open src s = (s1, Ret ())" "os_Create dst s1 = (s2, Ret ())" "io_Copy src dst s2 = (s3, Ret ())"
    "os_Stat src s3 = (s4, Ret info)" "os_Chmod dst (Mode info) s4 = (s', Ret ())"
    using assms(1) unfolding cpFile_def by (elim on_ret_cases) auto
  obtain m bs m' where m: "node_at s2 src = Some (File m bs)" "node_at s3 dst = Some (File m' bs)"
    using c(3) assms(2) unfolding io_Copy_def
    by (elim os_call_cases) (auto simp: copy_bytes_def store_file_def split: option.splits node.splits if_splits)
  have src: "node_at s src = Some (File m bs)" "node_at s3 src = Some (File m bs)"
    using m(1) Open_nodes [OF c(1)] Create_frame [OF c(2), of src] Copy_frame [OF c(3), of src] assms(2) by auto
  then have "info = File m bs" using c(4) unfolding os_Stat_def by (elim os_call_cases) auto
  moreover have "node_at s4 dst = Some (File m' bs)" using m(2) Stat_nodes [OF c(4)] by simp
  ultimately have "node_at s' dst = Some (File m bs)"
    using c(5) unfolding os_Chmod_def by (elim os_call_cases) auto
  with src show ?thesis by blast
qed

lemma MkdirAll_touches: "os_MkdirAll dst m s = (s', r) \<Longrightarrow> touches dst s s'"
  using MkdirAll_nodes by (fastforce simp: touches_def)

lemma ReadDir_Ret:
  assumes "os_ReadDir p s = (s', Ret fds)"
  shows "distinct fds" "x \<in> set fds \<longleftrightarrow> node_at s (p @ [x]) \<noteq> None"
proof -
  have fds: "fds = sort (remdups [last q. (q, n) \<leftarrow> os_nodes s, q \<noteq> [] \<and> butlast q = p])"
    using assms unfolding os_ReadDir_def by (elim os_call_cases) (auto split: if_splits)
  then show "distinct fds" by simp
  have "x \<in> set fds \<longleftrightarrow> (\<exists>q \<in> fst ` set (os_nodes s). q \<noteq> [] \<and> butlast q = p \<and> last q = x)"
    by (force simp: fds image_iff)
  also have "\<dots> \<longleftrightarrow> p @ [x] \<in> fst ` set (os_nodes s)"
    by (metis append_butlast_last_id butlast_snoc last_snoc snoc_eq_iff_butlast)
  finally show "x \<in> set fds \<longleftrightarrow> node_at s (p @ [x]) \<noteq> None" by (simp add: map_of_eq_None_iff)
qed

text \<open>The two ways of \<open>cpDir\<close>: it stops early, or it comes to its loop with a target that is there.\<close>

lemma cpDir_cases:
  assumes "cpDir fail (Suc n) src dst s = c"
  obtains (early) s' r where "c = Some (s', r)" "r \<noteq> Ret ()" "touches dst s s'"
    | (loop) s3 fds where "touches dst s s3" "is_dir s3 dst" "distinct fds"
      "\<And>x. x \<in> set fds \<longleftrightarrow> node_at s3 (src @ [x]) \<noteq> None" "cpEntries fail n src dst fds s3 = c"
proof -
  obtain s1 r1 where c1: "os_Stat src s = (s1, r1)" by fastforce
  note t1 = touches_nodes [OF Stat_nodes [OF c1], of dst]
  show ?thesis
  proof (cases r1)
    case (Ret info)
    obtain s2 r2 where c2: "os_MkdirAll dst (Mode info) s1 = (s2, r2)" by fastforce
    note t2 = touches_chain [OF t1 MkdirAll_touches [OF c2]]
    obtain s3 r3 where c3: "os_ReadDir src s2 = (s3, r3)" by fastforce
    note n3 = ReadDir_nodes [OF c3] and t3 = touches_chain [OF t2 touches_nodes [OF ReadDir_nodes [OF c3]]]
    show ?thesis
    proof (cases "r2 = Ret () \<and> is_ret r3")
      case True
      then obtain fds where r: "r2 = Ret ()" "r3 = Ret fds" by (cases r3) auto
      have "is_dir s3 dst" using MkdirAll_Ret [OF c2 [unfolded r(1)]] n3 by (simp add: is_dir_iff)
      then show ?thesis using assms c1 Ret c2 c3 r n3 ReadDir_Ret [OF c3 [unfolded r(2)]] t3
        by (intro loop [of s3 fds]) auto
    next
      case False
      then show ?thesis using assms c1 Ret c2 c3 t2 t3 early by (cases r2; cases r3) auto
    qed
  qed (use assms c1 t1 early in auto)
qed

text \<open>The entries of a directory, one after the other.\<close>

lemma cpEntries_cases:
  assumes "cpEntries fail n src dst (fd # fds) s = Some (s', r)" "\<forall>e. fail e \<noteq> Ret ()"
  obtains (stat) "r \<noteq> Ret ()" "os_nodes s' = os_nodes s"
    | (entry) s1 info s2 q where "os_nodes s1 = os_nodes s" "node_at s (src @ [fd]) = Some info"
      "(case info of Dir _ \<Rightarrow> cpDir fail n (src @ [fd]) (dst @ [fd]) s1
        | File _ _ \<Rightarrow> Some (cpFile (src @ [fd]) (dst @ [fd]) s1)) = Some (s2, q)"
      "if q = Ret () then cpEntries fail n src dst fds s2 = Some (s', r) else s' = s2 \<and> r \<noteq> Ret ()"
proof -
  obtain s1 r1 where c1: "os_Stat (src @ [fd]) s = (s1, r1)" by fastforce
  note n1 = Stat_nodes [OF c1]
  show ?thesis
  proof (cases r1)
    case (Ret info)
    then have "node_at s (src @ [fd]) = Some info"
      using c1 n1 unfolding os_Stat_def by (elim os_call_cases) (auto split: option.splits)
    moreover obtain s2 q where c2: "(case info of Dir _ \<Rightarrow> cpDir fail n (src @ [fd]) (dst @ [fd]) s1
        | File _ _ \<Rightarrow> Some (cpFile (src @ [fd]) (dst @ [fd]) s1)) = Some (s2, q)"
      using assms(1) c1 Ret by (auto split: option.splits)
    moreover have "if q = Ret () then cpEntries fail n src dst fds s2 = Some (s', r) else s' = s2 \<and> r \<noteq> Ret ()"
      using assms c1 Ret c2 by (cases q) auto
    ultimately show ?thesis using entry [of s1 info s2 q] n1 by blast
  qed (use assms c1 n1 stat in auto)
qed

lemma entries_touch:
  assumes "\<forall>e. fail e \<noteq> Ret ()" "\<And>src dst s s' r. cpDir fail n src dst s = Some (s', r) \<Longrightarrow> touches dst s s'"
  shows "cpEntries fail n src dst fds s = Some (s', r) \<Longrightarrow> touches dst s s'"
proof (induction fds arbitrary: s)
  case (Cons fd fds)
  from Cons.prems assms(1) show ?case
  proof (cases rule: cpEntries_cases)
    case (entry s1 info s2 q)
    have "touches (dst @ [fd]) s1 s2"
      using entry(3) assms(2) by (cases info) (auto intro!: touches_one simp: cpFile_frame)
    then have "touches dst s s2" using touches_below touches_chain touches_nodes [OF entry(1)] by blast
    then show ?thesis using entry(4) Cons.IH [of s2] touches_chain by (auto split: if_splits)
  qed (simp add: touches_nodes)
qed (simp add: touches_nodes)

lemma cp_touches:
  assumes "\<forall>e. fail e \<noteq> Ret ()"
  shows "cpDir fail n src dst s = Some (s', r) \<Longrightarrow> touches dst s s'"
proof (induction n arbitrary: src dst s s' r)
  case (Suc n)
  from Suc.prems show ?case
  proof (cases rule: cpDir_cases)
    case (loop s3 fds)
    have "touches dst s3 s'" by (rule entries_touch [OF assms _ loop(5)]) (rule Suc.IH)
    with loop(1) show ?thesis by (rule touches_chain)
  qed auto
qed simp

lemma cp_entry_touches:
  assumes "\<forall>e. fail e \<noteq> Ret ()" "os_nodes s1 = os_nodes s"
    and "(case info of Dir _ \<Rightarrow> cpDir fail n (src @ [fd]) (dst @ [fd]) s1
        | File _ _ \<Rightarrow> Some (cpFile (src @ [fd]) (dst @ [fd]) s1)) = Some (s2, q)"
  shows "touches (dst @ [fd]) s s2"
proof (cases info)
  case (File m bs)
  with assms(3) have "cpFile (src @ [fd]) (dst @ [fd]) s1 = (s2, q)" by simp
  then show ?thesis using cpFile_frame assms(2) by (intro touches_one) auto
next
  case (Dir m)
  with assms(3) have "touches (dst @ [fd]) s1 s2" using cp_touches [OF assms(1)] by simp
  then show ?thesis using touches_chain touches_nodes [OF assms(2)] by blast
qed

lemma entries_sibling:
  assumes "\<forall>e. fail e \<noteq> Ret ()" "x \<notin> set fds" "cpEntries fail n src dst fds s = Some (s', r)"
  shows "node_at s' (dst @ x # rel) = node_at s (dst @ x # rel)"
  using assms(2,3)
proof (induction fds arbitrary: s)
  case (Cons fd fds)
  from Cons.prems(2) assms(1) show ?case
  proof (cases rule: cpEntries_cases)
    case (entry s1 info s2 q)
    have "node_at s2 (dst @ x # rel) = node_at s (dst @ x # rel)"
      using touches_sibling [OF cp_entry_touches [OF assms(1) entry(1,3)]] Cons.prems(1) by auto
    then show ?thesis using entry(4) Cons.IH [of s2] Cons.prems(1) by (auto split: if_splits)
  qed simp
qed simp

lemma touches_dir:
  assumes "touches (dst @ [x]) s s'" "is_dir s dst"
  shows "is_dir s' dst"
  using touchesD [OF assms(1), of dst] assms(2) by (auto simp: is_dir_iff)

lemma entries_dir:
  assumes "\<forall>e. fail e \<noteq> Ret ()" "cpEntries fail n src dst fds s = Some (s', r)" "is_dir s dst"
  shows "is_dir s' dst"
  using assms(2,3)
proof (induction fds arbitrary: s)
  case (Cons fd fds)
  from Cons.prems(1) assms(1) show ?case
  proof (cases rule: cpEntries_cases)
    case (entry s1 info s2 q)
    have "is_dir s2 dst" by (rule touches_dir [OF cp_entry_touches [OF assms(1) entry(1,3)] Cons.prems(2)])
    then show ?thesis using entry(4) Cons.IH [of s2] by (auto split: if_splits)
  qed (use Cons.prems(2) in \<open>simp add: is_dir_iff\<close>)
qed simp

section \<open>What is copied\<close>

fun same_node :: "node \<Rightarrow> node option \<Rightarrow> bool" where
  "same_node (File m bs) x = (x = Some (File m bs))"
| "same_node (Dir m) x = (\<exists>m'. x = Some (Dir m'))"

text \<open>Below \<open>src\<close> everything has a directory above it.\<close>

definition tree_below :: "path \<Rightarrow> OS \<Rightarrow> bool" where
  "tree_below src s \<longleftrightarrow>
     (\<forall>rel x. rel \<noteq> [] \<longrightarrow> node_at s (src @ rel @ [x]) \<noteq> None \<longrightarrow> (\<exists>m. node_at s (src @ rel) = Some (Dir m)))"

lemma tree_below_entry: "tree_below src s \<Longrightarrow> tree_below (src @ [x]) s"
  unfolding tree_below_def by (metis append_assoc append_is_Nil_conv)

lemma tree_below_first:
  assumes "tree_below src s" "node_at s (src @ x # rel) \<noteq> None"
  shows "\<exists>n. node_at s (src @ [x]) = Some n \<and> (rel \<noteq> [] \<longrightarrow> (\<exists>m. n = Dir m))"
  using assms(2)
proof (induction rel rule: rev_induct)
  case (snoc y rel)
  from assms(1) snoc.prems have "\<exists>m. node_at s (src @ x # rel) = Some (Dir m)"
    unfolding tree_below_def by (metis append_Cons list.distinct(1))
  with snoc.IH show ?case by (cases rel) auto
qed auto

lemma tree_below_apart:
  "touches dst s s' \<Longrightarrow> apart src dst \<Longrightarrow> tree_below src s \<Longrightarrow> tree_below src s'"
  unfolding tree_below_def by (simp add: touches_apart)

lemma cp_entry_copied:
  assumes "\<forall>e. fail e \<noteq> Ret ()" "apart src dst" "tree_below src s"
    and "\<And>src dst s s' rel nd. cpDir fail n src dst s = Some (s', Ret ()) \<Longrightarrow> apart src dst \<Longrightarrow> tree_below src s \<Longrightarrow>
      is_dir s' dst \<and> (rel \<noteq> [] \<longrightarrow> node_at s (src @ rel) = Some nd \<longrightarrow> same_node nd (node_at s' (dst @ rel)))"
    and "os_nodes s1 = os_nodes s" "node_at s (src @ [fd]) = Some info"
    and "(case info of Dir _ \<Rightarrow> cpDir fail n (src @ [fd]) (dst @ [fd]) s1
        | File _ _ \<Rightarrow> Some (cpFile (src @ [fd]) (dst @ [fd]) s1)) = Some (s2, Ret ())"
    and "node_at s (src @ fd # rel) = Some nd"
  shows "same_node nd (node_at s2 (dst @ fd # rel))"
proof (cases info)
  case (File m bs)
  then have "rel = []" using tree_below_first [OF assms(3), of fd rel] assms(6,8) by auto
  moreover have "src @ [fd] \<noteq> dst @ [fd]" using assms(2) by (auto simp: apart_def)
  ultimately show ?thesis using cpFile_Ret [of "src @ [fd]" "dst @ [fd]" s1 s2] assms(5-8) File by auto
next
  case (Dir m)
  then have "cpDir fail n (src @ [fd]) (dst @ [fd]) s1 = Some (s2, Ret ())" using assms(7) by simp
  from assms(4) [OF this apart_below [OF assms(2)], of rel nd] assms(5,8) tree_below_entry [OF assms(3), of fd]
  have "is_dir s2 (dst @ [fd])" "rel \<noteq> [] \<Longrightarrow> same_node nd (node_at s2 (dst @ fd # rel))"
    by (auto simp: tree_below_def)
  then show ?thesis using assms(6,8) Dir by (cases rel) (auto simp: is_dir_iff)
qed

lemma entries_copied:
  assumes "\<forall>e. fail e \<noteq> Ret ()" "apart src dst"
    and "\<And>src dst s s' rel nd. cpDir fail n src dst s = Some (s', Ret ()) \<Longrightarrow> apart src dst \<Longrightarrow> tree_below src s \<Longrightarrow>
      is_dir s' dst \<and> (rel \<noteq> [] \<longrightarrow> node_at s (src @ rel) = Some nd \<longrightarrow> same_node nd (node_at s' (dst @ rel)))"
    and "cpEntries fail n src dst fds s = Some (s', Ret ())" "distinct fds" "tree_below src s"
    and "fd \<in> set fds" "node_at s (src @ fd # rel) = Some nd"
  shows "same_node nd (node_at s' (dst @ fd # rel))"
  using assms(4-)
proof (induction fds arbitrary: s)
  case (Cons x fds)
  from Cons.prems(1) assms(1) show ?case
  proof (cases rule: cpEntries_cases)
    case (entry s1 info s2 q)
    from entry(4) have q: "q = Ret ()" and rest: "cpEntries fail n src dst fds s2 = Some (s', Ret ())"
      by (auto split: if_splits)
    note t = cp_entry_touches [OF assms(1) entry(1,3)]
    note src = touches_apart [OF touches_below [OF t] assms(2)]
    show ?thesis
    proof (cases "fd = x")
      case True
      have "same_node nd (node_at s2 (dst @ fd # rel))"
        using cp_entry_copied [OF assms(1,2) Cons.prems(3) assms(3) entry(1,2) entry(3) [unfolded q]] Cons.prems(5) True
        by blast
      moreover have "node_at s' (dst @ fd # rel) = node_at s2 (dst @ fd # rel)"
        using entries_sibling [OF assms(1) _ rest] Cons.prems(2) True by simp
      ultimately show ?thesis by simp
    next
      case False
      show ?thesis
        by (rule Cons.IH [OF rest])
          (use Cons.prems False src tree_below_apart [OF touches_below [OF t] assms(2)] in auto)
    qed
  qed simp
qed simp

lemma cp_copied:
  assumes "\<forall>e. fail e \<noteq> Ret ()"
  shows "cpDir fail n src dst s = Some (s', Ret ()) \<Longrightarrow> apart src dst \<Longrightarrow> tree_below src s \<Longrightarrow>
    is_dir s' dst \<and> (rel \<noteq> [] \<longrightarrow> node_at s (src @ rel) = Some nd \<longrightarrow> same_node nd (node_at s' (dst @ rel)))"
proof (induction n arbitrary: src dst s s' rel nd)
  case (Suc n)
  from Suc.prems(1) show ?case
  proof (cases rule: cpDir_cases)
    case (loop s3 fds)
    have "same_node nd (node_at s' (dst @ rel))" if "rel \<noteq> []" "node_at s (src @ rel) = Some nd"
    proof -
      obtain x xs where rel: "rel = x # xs" using \<open>rel \<noteq> []\<close> by (cases rel) auto
      have src: "node_at s3 (src @ q) = node_at s (src @ q)" for q by (rule touches_apart [OF loop(1) Suc.prems(2)])
      have tree: "tree_below src s3" by (rule tree_below_apart [OF loop(1) Suc.prems(2,3)])
      have nd: "node_at s3 (src @ x # xs) = Some nd" using that rel src by simp
      then have "x \<in> set fds" using tree_below_first [OF tree, of x xs] loop(4) by auto
      then have "same_node nd (node_at s' (dst @ x # xs))"
        using entries_copied [OF assms Suc.prems(2) _ loop(5,3) tree _ nd] Suc.IH by blast
      then show ?thesis by (simp add: rel)
    qed
    moreover have "is_dir s' dst"
      using entries_dir [OF assms loop(5,2)] .
    ultimately show ?thesis by blast
  qed auto
qed simp

section \<open>The copy ends\<close>

text \<open>Everything below \<open>src\<close> is less than \<open>n\<close> levels deep.\<close>

definition shallow :: "nat \<Rightarrow> path \<Rightarrow> OS \<Rightarrow> bool" where
  "shallow n src s \<longleftrightarrow> (\<forall>rel. node_at s (src @ rel) \<noteq> None \<longrightarrow> length rel < n)"

lemma shallow_apart: "touches dst s s' \<Longrightarrow> apart src dst \<Longrightarrow> shallow n src s \<Longrightarrow> shallow n src s'"
  unfolding shallow_def by (simp add: touches_apart)

lemma shallow_entry: "shallow (Suc n) src s \<Longrightarrow> shallow n (src @ [x]) s"
  unfolding shallow_def by (metis Suc_less_SucD append.assoc append_Cons append_Nil length_Cons)

lemma entries_return:
  assumes "\<forall>e. fail e \<noteq> Ret ()" "apart src dst"
    and "\<And>src dst s. apart src dst \<Longrightarrow> shallow n src s \<Longrightarrow> 0 < n \<Longrightarrow> cpDir fail n src dst s \<noteq> None"
  shows "shallow (Suc n) src s \<Longrightarrow> cpEntries fail n src dst fds s \<noteq> None"
proof (induction fds arbitrary: s)
  case (Cons fd fds)
  obtain s1 r1 where c1: "os_Stat (src @ [fd]) s = (s1, r1)" by fastforce
  note n1 = Stat_nodes [OF c1]
  show ?case
  proof (cases r1)
    case (Ret info)
    have sh: "shallow n (src @ [fd]) s1" using shallow_entry [OF Cons.prems] n1 by (simp add: shallow_def)
    have "node_at s1 (src @ [fd]) \<noteq> None"
      using c1 n1 Ret unfolding os_Stat_def by (elim os_call_cases) (auto split: option.splits)
    then have "0 < n" using sh unfolding shallow_def by (metis append_Nil2 list.size(3))
    then have "cpDir fail n (src @ [fd]) (dst @ [fd]) s1 \<noteq> None" using assms(3) apart_below [OF assms(2)] sh by blast
    moreover obtain s3 q3 where "cpFile (src @ [fd]) (dst @ [fd]) s1 = (s3, q3)" by fastforce
    ultimately obtain s2 q where e: "(case info of Dir _ \<Rightarrow> cpDir fail n (src @ [fd]) (dst @ [fd]) s1
        | File _ _ \<Rightarrow> Some (cpFile (src @ [fd]) (dst @ [fd]) s1)) = Some (s2, q)" by (cases info) auto
    have "shallow (Suc n) src s2"
      by (rule shallow_apart [OF touches_below [OF cp_entry_touches [OF assms(1) n1 e]] assms(2) Cons.prems])
    then show ?thesis using Cons.IH [of s2] c1 Ret e by (cases q) auto
  qed (use c1 in auto)
qed simp

lemma cp_returns:
  assumes "\<forall>e. fail e \<noteq> Ret ()"
  shows "apart src dst \<Longrightarrow> shallow n src s \<Longrightarrow> 0 < n \<Longrightarrow> cpDir fail n src dst s \<noteq> None"
proof (induction n arbitrary: src dst s)
  case (Suc n)
  have "cpDir fail (Suc n) src dst s = cpDir fail (Suc n) src dst s" by simp
  then show ?case
  proof (cases rule: cpDir_cases)
    case (loop s3 fds)
    have "shallow (Suc n) src s3" by (rule shallow_apart [OF loop(1) Suc.prems(1,2)])
    then have "cpEntries fail n src dst fds s3 \<noteq> None"
      using entries_return [OF assms Suc.prems(1)] Suc.IH by blast
    with loop(5) show ?thesis by simp
  qed simp
qed simp

lemma shallow_depth: "shallow (os_depth s) src s"
proof -
  have "length q \<le> sum_list (map (length \<circ> fst) (os_nodes s))" if "node_at s q \<noteq> None" for q
  proof -
    from that obtain n where "(q, n) \<in> set (os_nodes s)" by (auto dest: map_of_SomeD)
    then have "length q \<in> set (map (length \<circ> fst) (os_nodes s))" by force
    then show ?thesis by (intro member_le_sum_list) auto
  qed
  then show ?thesis by (fastforce simp: shallow_def os_depth_def)
qed

section \<open>Properties\<close>

lemma migrateToNetbird_nodes: "migrateToNetbird old new s = (s', b) \<Longrightarrow> os_nodes s' = os_nodes s"
  by (auto simp: migrateToNetbird_def split: prod.splits dest!: Stat_nodes)

lemma migrateToNetbird_works:
  "os_faults s = [] \<Longrightarrow> migrateToNetbird old new s = (s, node_at s old \<noteq> None \<and> node_at s new = None)"
  by (auto simp: migrateToNetbird_def os_Stat_def os_call_def split: option.splits)

lemma log_Fatal_stops: "\<forall>e. log_Fatal e \<noteq> Ret ()"
  by (simp add: log_Fatal_def)

lemma fatal_Ret: "fatal c = (s, Ret x) \<longleftrightarrow> c = (s, Ret x)"
  by (cases c; cases "snd c") (auto simp: fatal_def log_Fatal_def)

lemma on_ret_Ret: "on_ret c (\<lambda>s e. (s, Err e)) f = (s', Ret x) \<longleftrightarrow> (\<exists>s y. c = (s, Ret y) \<and> f s y = (s', Ret x))"
  by (cases c; cases "snd c") auto

lemma rebrand_returns: "apart old new \<Longrightarrow> \<forall>e. fail e \<noteq> Ret () \<Longrightarrow> rebrand fail d p q old new s \<noteq> None"
  using cp_returns [OF _ _ shallow_depth, of fail old new "fst (migrateToNetbird p q s)"]
  by (cases "migrateToNetbird p q s") (auto simp: rebrand_def os_depth_def simp del: cpDir.simps split: bool.splits)

lemma rebrand_touches:
  assumes "\<forall>e. fail e \<noteq> Ret ()" "rebrand fail d p q old new s = Some (s', r)"
  shows "touches new s s'"
proof -
  obtain s1 b where m: "migrateToNetbird p q s = (s1, b)" by fastforce
  note t = touches_nodes [OF migrateToNetbird_nodes [OF m], of new]
  from assms(2) m t touches_chain [OF t cp_touches [OF assms(1)]] show ?thesis
    by (auto simp: rebrand_def intro: touches_nodes simp del: cpDir.simps split: if_splits bool.splits)
qed

lemma and_then_returns: "c \<noteq> None \<Longrightarrow> (\<And>s. f s \<noteq> None) \<Longrightarrow> and_then c f \<noteq> None"
  by (auto simp: and_then_def split: option.splits prod.splits outcome.splits)

lemma handleRebrand_returns: "handleRebrand l c s \<noteq> None"
  unfolding handleRebrand_def Let_def
  by (intro and_then_returns rebrand_returns) (simp_all add: apart_def)

text \<open>
  The migration of a directory always ends, on every schedule of failures. It writes only below the
  new directory and leaves the old one as it is. When no call fails, files that are at the new place
  already stop it; otherwise, if it succeeds, every file of the old directory is at the new place
  with its contents and permissions, and every directory is there too.
\<close>

theorem migration_copies:
  assumes "apart oldDir newDir" "tree_below oldDir s" "\<forall>e. fail e \<noteq> Ret ()"
  shows "\<exists>s' r. rebrand fail is_default oldPath newPath oldDir newDir s = Some (s', r) \<and> touches newDir s s' \<and>
    (\<forall>rel. node_at s' (oldDir @ rel) = node_at s (oldDir @ rel)) \<and>
    (os_faults s = [] \<longrightarrow> is_default \<longrightarrow> node_at s oldPath \<noteq> None \<longrightarrow> node_at s newPath = None \<longrightarrow> r = Ret () \<longrightarrow>
       (\<forall>rel n. rel \<noteq> [] \<longrightarrow> node_at s (oldDir @ rel) = Some n \<longrightarrow> same_node n (node_at s' (newDir @ rel)))) \<and>
    (os_faults s = [] \<longrightarrow> node_at s newPath \<noteq> None \<longrightarrow> s' = s \<and> r = Ret ())"
proof -
  obtain s1 b where m: "migrateToNetbird oldPath newPath s = (s1, b)" by fastforce
  note n1 = migrateToNetbird_nodes [OF m]
  show ?thesis
  proof (cases "is_default \<and> b")
    case False
    then have "rebrand fail is_default oldPath newPath oldDir newDir s = Some (if is_default then s1 else s, Ret ())"
      using m by (auto simp: rebrand_def)
    then show ?thesis using n1 m False migrateToNetbird_works [of s oldPath newPath] by (auto intro: touches_nodes)
  next
    case True
    have "cpDir fail (os_depth s1) oldDir newDir s1 \<noteq> None"
      by (rule cp_returns [OF assms(3,1) shallow_depth]) (simp add: os_depth_def)
    then obtain s' r where c: "cpDir fail (os_depth s1) oldDir newDir s1 = Some (s', r)" by auto
    have t: "touches newDir s s'" by (rule touches_chain [OF touches_nodes [OF n1] cp_touches [OF assms(3) c]])
    have "same_node n (node_at s' (newDir @ rel))" if "r = Ret ()" "rel \<noteq> []" "node_at s (oldDir @ rel) = Some n" for rel n
      using cp_copied [OF assms(3) c [unfolded that(1)] assms(1)] that(2,3) assms(2) n1 by (simp add: tree_below_def)
    then show ?thesis using True m c t touches_apart [OF t assms(1)] migrateToNetbird_works [of s oldPath newPath]
      by (auto simp: rebrand_def)
  qed
qed

text \<open>A machine with the configuration of Wiretrustee.\<close>

definition ex_old :: "fault list \<Rightarrow> OS" where
  "ex_old faults = \<lparr>os_nodes = [([''etc''], Dir 493), ([''etc'', ''wiretrustee''], Dir 488),
     ([''etc'', ''wiretrustee'', ''config.json''], File 384 ''{}'')], os_faults = faults\<rparr>"

definition ex_paths :: "path \<times> path" where
  "ex_paths = ([''var'', ''log'', ''netbird'', ''client.log''], [''etc'', ''netbird'', ''config.json''])"

lemma ex_old_tree: "tree_below [''etc'', ''wiretrustee''] (ex_old fs)"
  by (auto simp: tree_below_def ex_old_def split: if_splits)

theorem migration_copies_witness:
  "\<exists>s'. rebrand Err True [''etc'', ''wiretrustee'', ''config.json''] [''etc'', ''netbird'', ''config.json'']
     [''etc'', ''wiretrustee''] [''etc'', ''netbird''] (ex_old []) = Some (s', Ret ()) \<and>
     node_at s' [''etc'', ''netbird'', ''config.json''] = Some (File 384 ''{}'')"
proof -
  let ?c = "rebrand Err True [''etc'', ''wiretrustee'', ''config.json''] [''etc'', ''netbird'', ''config.json'']
     [''etc'', ''wiretrustee''] [''etc'', ''netbird''] (ex_old [])"
  have "map_option snd ?c = Some (Ret ())" by code_simp
  then obtain s' where c: "?c = Some (s', Ret ())" by (cases ?c) auto
  have apart: "apart [''etc'', ''wiretrustee''] [''etc'', ''netbird'']" by (simp add: apart_def)
  have old: "os_faults (ex_old []) = []" "node_at (ex_old []) [''etc'', ''wiretrustee'', ''config.json''] = Some (File 384 ''{}'')"
    "node_at (ex_old []) [''etc'', ''netbird'', ''config.json''] = None" by (simp_all add: ex_old_def)
  from migration_copies [OF apart ex_old_tree, of Err True "[''etc'', ''wiretrustee'', ''config.json'']"
      "[''etc'', ''netbird'', ''config.json'']" "[]", unfolded c option.inject prod.inject] old
  have copied: "\<forall>rel n. rel \<noteq> [] \<longrightarrow> node_at (ex_old []) ([''etc'', ''wiretrustee''] @ rel) = Some n \<longrightarrow>
      same_node n (node_at s' ([''etc'', ''netbird''] @ rel))" by blast
  have "same_node (File 384 ''{}'') (node_at s' ([''etc'', ''netbird''] @ [''config.json'']))"
    by (rule copied [rule_format]) (simp_all add: old)
  with c show ?thesis by auto
qed

text \<open>
  The copy is not atomic. When the disk is full after the new file was created and before its
  contents were copied, the next start finds a file at the new place and does not copy again: the
  empty file stays, although the old one is still complete.
\<close>

definition ex_half :: OS where
  "ex_half = \<lparr>os_nodes = [([''etc''], Dir 493), ([''etc'', ''wiretrustee''], Dir 488),
     ([''etc'', ''wiretrustee'', ''config.json''], File 384 ''{}''), ([''etc'', ''netbird''], Dir 488),
     ([''etc'', ''netbird'', ''config.json''], File 438 [])], os_faults = []\<rparr>"

theorem migration_interrupted:
  "handleRebrand (fst ex_paths) (snd ex_paths) (ex_old (replicate 9 NoFault @ [Fault (PlainError ''no space left on device'') 0])) =
     Some (ex_half, Err (PlainError ''no space left on device'')) \<and>
   handleRebrand (fst ex_paths) (snd ex_paths) ex_half = Some (ex_half, Ret ())"
  by code_simp

end
