(* ===== verification/Lets_Encrypt.thy ===== *)
theory Lets_Encrypt
  imports Migration
begin

text \<open>
  The directory of certificates, \<open>encryption/letsencrypt.go\<close>, and the way both services create a
  missing directory. The manager of certificates itself is \<open>autocert\<close>, of which the program keeps the
  directory and the domain.
\<close>

text \<open>A path as the list of its names.\<close>

definition path_of :: "string \<Rightarrow> path" where
  "path_of text = filter (\<lambda>x. x \<noteq> []) (split_on (CHR ''/'') text)"

text \<open>
  \<open>os.Stat\<close>, and \<open>os.MkdirAll\<close> if the directory does not exist. The mode is \<open>os.ModeDir\<close>, which has no
  permission bits. Any other error of \<open>os.Stat\<close> is ignored.
\<close>

definition ensure_dir :: "path \<Rightarrow> OS \<Rightarrow> OS \<times> unit outcome" where
  "ensure_dir p s =
     (case os_Stat p s of
        (s1, Err e) \<Rightarrow> if e = ErrNotExist then os_MkdirAll p 0 s1 else (s1, Ret ())
      | (s1, Panic x) \<Rightarrow> (s1, Panic x)
      | (s1, Ret n) \<Rightarrow> (s1, Ret ()))"

record CertManager =
  cm_Cache :: path
  cm_Host :: string

definition CreateCertManager :: "string \<Rightarrow> string \<Rightarrow> OS \<Rightarrow> OS \<times> CertManager outcome" where
  "CreateCertManager datadir letsencryptDomain s =
     (let certDir = path_of datadir @ [''letsencrypt'']
      in case ensure_dir certDir s of
           (s1, Err e) \<Rightarrow> (s1, log_Fatal e)
         | (s1, Panic p) \<Rightarrow> (s1, Panic p)
         | (s1, Ret u) \<Rightarrow> (s1, Ret \<lparr>cm_Cache = certDir, cm_Host = letsencryptDomain\<rparr>))"

section \<open>Properties\<close>

lemma ensure_dir_nodes:
  assumes "ensure_dir p s = (s', r)"
  shows "node_at s' q = node_at s q \<or> node_at s q = None \<and> q \<noteq> [] \<and> prefix q p \<and> node_at s' q = Some (Dir 0)"
proof -
  obtain s1 r1 where st: "os_Stat p s = (s1, r1)" by fastforce
  note n1 = Stat_nodes [OF st]
  show ?thesis
  proof (cases "r1 = Err ErrNotExist")
    case True
    then have "os_MkdirAll p 0 s1 = (s', r)" using assms st by (simp add: ensure_dir_def)
    from MkdirAll_nodes [OF this, of q] n1 show ?thesis by simp
  next
    case False
    then have "s' = s1" using assms st by (cases r1) (auto simp: ensure_dir_def)
    with n1 show ?thesis by simp
  qed
qed

lemma CreateCertManager_Ret:
  "CreateCertManager datadir domain s = (s', Ret cm) \<longleftrightarrow>
     ensure_dir (path_of datadir @ [''letsencrypt'']) s = (s', Ret ()) \<and>
     cm = \<lparr>cm_Cache = path_of datadir @ [''letsencrypt''], cm_Host = domain\<rparr>"
  by (auto simp: CreateCertManager_def Let_def log_Fatal_def split: prod.splits outcome.splits)

text \<open>
  The directory of certificates. When no call fails and the manager is created, its directory is
  there and nothing that was there has changed. A directory that was created has no permissions at
  all, and neither has any directory created above it: only a process that may override them can use it.
\<close>

theorem cert_dir_created:
  assumes "CreateCertManager datadir domain s = (s', Ret cm)" "os_faults s = []"
  shows "cm_Cache cm = path_of datadir @ [''letsencrypt''] \<and> cm_Host cm = domain \<and> node_at s' (cm_Cache cm) \<noteq> None \<and>
    (\<forall>q. node_at s q \<noteq> None \<longrightarrow> node_at s' q = node_at s q) \<and>
    (\<forall>q. node_at s q = None \<longrightarrow> node_at s' q = None \<or> node_at s' q = Some (Dir 0))"
proof -
  let ?p = "path_of datadir @ [''letsencrypt'']"
  have e: "ensure_dir ?p s = (s', Ret ())" and cm: "cm = \<lparr>cm_Cache = ?p, cm_Host = domain\<rparr>"
    using assms(1) by (auto simp: CreateCertManager_Ret)
  have "node_at s' ?p \<noteq> None"
  proof (cases "node_at s ?p")
    case None
    then have "os_MkdirAll ?p 0 s = (s', Ret ())"
      using e assms(2) by (simp add: ensure_dir_def os_Stat_def os_call_def)
    from MkdirAll_Ret [OF this] show ?thesis by (auto simp: is_dir_iff)
  next
    case (Some n)
    with e assms(2) show ?thesis by (simp add: ensure_dir_def os_Stat_def os_call_def)
  qed
  moreover have "node_at s' q = node_at s q \<or> node_at s q = None \<and> node_at s' q = Some (Dir 0)" for q
    using ensure_dir_nodes [OF e, of q] by blast
  ultimately show ?thesis using cm by (metis CertManager.select_convs)
qed

end
