(* ===== verification/Mgmt_Main.thy ===== *)
theory Mgmt_Main
  imports Lets_Encrypt Mgmt_Properties Mgmt_Grpc Idp_Auth0
begin

text \<open>
  The start and the end of the Management Service: \<open>management/cmd/management.go\<close>, and the life of the HTTP
  server in \<open>management/server/http/server.go\<close>. Sockets,
  certificates and \<open>net/http\<close> are outside the program: what a call of them gives is a field of
  \<open>Start_Results\<close>. \<open>log.Fatalf\<close> ends the process, \<open>log_Fatal\<close> of the theory \<open>Migration\<close>.
\<close>

section \<open>Configuration\<close>

record Mgmt_Flags =
  fl_mgmtLetsencryptDomain :: string
  fl_mgmtDataDir :: string
  fl_certFile :: string
  fl_certKey :: string

text \<open>The directory the flag has when it is not given.\<close>

definition defaultMgmtDataDir :: string where
  "defaultMgmtDataDir = ''/var/lib/netbird/''"

text \<open>\<open>config.HttpConfig\<close> is written without looking whether the file had one.\<close>

definition set_http :: "(HttpServerConfig \<Rightarrow> HttpServerConfig) \<Rightarrow> Config \<Rightarrow> Config outcome" where
  "set_http f config =
     (case Config_HttpConfig config of
        None \<Rightarrow> Panic NilDereference
      | Some h \<Rightarrow> Ret (config\<lparr>Config_HttpConfig := Some (f h)\<rparr>))"

definition loadMgmtConfig :: "(string \<Rightarrow> Config outcome) \<Rightarrow> Mgmt_Flags \<Rightarrow> path \<Rightarrow> OS \<Rightarrow> OS \<times> Config outcome" where
  "loadMgmtConfig Unmarshal fl mgmtConfigPath s =
     on_ret (ReadJson Unmarshal mgmtConfigPath s) (\<lambda>s e. (s, Err e))
       (\<lambda>s config.
          on_ret (s, if fl_mgmtLetsencryptDomain fl \<noteq> []
                     then set_http (\<lambda>h. h\<lparr>Http_LetsEncryptDomain := fl_mgmtLetsencryptDomain fl\<rparr>) config
                     else Ret config) (\<lambda>s e. (s, Err e))
            (\<lambda>s config1.
               let config2 = (if fl_mgmtDataDir fl \<noteq> [] then config1\<lparr>Config_Datadir := fl_mgmtDataDir fl\<rparr> else config1)
               in (s, if fl_certKey fl \<noteq> [] \<and> fl_certFile fl \<noteq> []
                      then set_http (\<lambda>h. h\<lparr>Http_CertFile := fl_certFile fl, Http_CertKey := fl_certKey fl\<rparr>) config2
                      else Ret config2)))"

section \<open>The HTTP server\<close>

record Http_Server =
  hs_config :: HttpServerConfig
  hs_certManager :: "CertManager option"
  hs_tlsConfig :: bool

definition NewHttpsServer :: "HttpServerConfig \<Rightarrow> CertManager option \<Rightarrow> Http_Server" where
  "NewHttpsServer config certManager = \<lparr>hs_config = config, hs_certManager = certManager, hs_tlsConfig = False\<rparr>"

definition NewHttpsServerWithTLSConfig :: "HttpServerConfig \<Rightarrow> Http_Server" where
  "NewHttpsServerWithTLSConfig config = \<lparr>hs_config = config, hs_certManager = None, hs_tlsConfig = True\<rparr>"

definition NewHttpServer :: "HttpServerConfig \<Rightarrow> Http_Server" where
  "NewHttpServer config = NewHttpsServer config None"

text \<open>The branch of \<open>mgmtCmd\<close> that chooses the server.\<close>

definition loadTLSConfig :: "(string \<Rightarrow> string \<Rightarrow> unit outcome) \<Rightarrow> string \<Rightarrow> string \<Rightarrow> unit outcome" where
  "loadTLSConfig LoadX509KeyPair certFile certKey =
     (case LoadX509KeyPair certFile certKey of Err e \<Rightarrow> Err e | Panic p \<Rightarrow> Panic p | Ret u \<Rightarrow> Ret ())"

definition choose_http :: "(string \<Rightarrow> string \<Rightarrow> unit outcome) \<Rightarrow> Config \<Rightarrow> OS \<Rightarrow> OS \<times> Http_Server outcome" where
  "choose_http LoadX509KeyPair config s =
     (case Config_HttpConfig config of
        None \<Rightarrow> (s, Panic NilDereference)
      | Some h \<Rightarrow>
          if Http_LetsEncryptDomain h \<noteq> [] then
            on_ret (CreateCertManager (Config_Datadir config) (Http_LetsEncryptDomain h) s) (\<lambda>s e. (s, Err e))
              (\<lambda>s certManager. (s, Ret (NewHttpsServer h (Some certManager))))
          else if Http_CertFile h \<noteq> [] \<and> Http_CertKey h \<noteq> [] then
            (case loadTLSConfig LoadX509KeyPair (Http_CertFile h) (Http_CertKey h) of
               Err e \<Rightarrow> (s, log_Fatal e)
             | Panic p \<Rightarrow> (s, Panic p)
             | Ret u \<Rightarrow> (s, Ret (NewHttpsServerWithTLSConfig h)))
          else (s, Ret (NewHttpServer h)))"

text \<open>
  What is being served. \<open>ListenAndServe\<close> belongs to the \<open>http.Server\<close> of the structure, while
  \<open>http.Serve(listener, r)\<close> makes a server of its own, which nothing else refers to.
\<close>

datatype serving = ByServer | ByOther

record Http_Run =
  hr_serving :: "serving option"
  hr_shutdown :: bool

definition ErrServerClosed :: GoError where
  "ErrServerClosed = PlainError ''http: Server closed''"

text \<open>\<open>Start\<close> up to where it blocks: \<open>None\<close> is a server that serves.\<close>

definition Http_Start ::
  "(string \<Rightarrow> JSONWebKeys list outcome) \<Rightarrow> unit outcome \<Rightarrow> Http_Server \<Rightarrow> Http_Run \<Rightarrow> Http_Run \<times> unit outcome option" where
  "Http_Start fetch listen srv st =
     (case NewJwtMiddleware (Http_AuthIssuer (hs_config srv)) (Http_AuthAudience (hs_config srv))
             (fetch (Http_AuthKeysLocation (hs_config srv))) of
        Err e \<Rightarrow> (st, Some (Err e))
      | Panic p \<Rightarrow> (st, Some (Panic p))
      | Ret m \<Rightarrow>
          if hs_certManager srv \<noteq> None then (st\<lparr>hr_serving := Some ByOther\<rparr>, None)
          else if hs_tlsConfig srv then
            (case listen of
               Err e \<Rightarrow> (st, Some (Err e))
             | Panic p \<Rightarrow> (st, Some (Panic p))
             | Ret u \<Rightarrow> (st\<lparr>hr_serving := Some ByOther\<rparr>, None))
          else if hr_shutdown st then (st, Some (Err ErrServerClosed))
          else (case listen of
                  Err e \<Rightarrow> (st, Some (Err e))
                | Panic p \<Rightarrow> (st, Some (Panic p))
                | Ret u \<Rightarrow> (st\<lparr>hr_serving := Some ByServer\<rparr>, None)))"

text \<open>\<open>Stop\<close>: \<open>Shutdown\<close> closes the listeners of its own server and waits for their requests.\<close>

definition Http_Stop :: "unit outcome \<Rightarrow> Http_Run \<Rightarrow> Http_Run \<times> unit outcome" where
  "Http_Stop drained st =
     (st\<lparr>hr_shutdown := True, hr_serving := (if hr_serving st = Some ByServer then None else hr_serving st)\<rparr>, drained)"

text \<open>What the blocked \<open>Start\<close> returns when the server it serves with was shut down.\<close>

definition Start_resumed :: "serving \<Rightarrow> Http_Run \<Rightarrow> unit outcome option" where
  "Start_resumed by st = (if by = ByServer \<and> hr_shutdown st then Some (Err ErrServerClosed) else None)"

text \<open>The goroutine of \<open>mgmtCmd\<close> around \<open>Start\<close>.\<close>

definition serve_goroutine :: "unit outcome \<Rightarrow> unit outcome" where
  "serve_goroutine r = (case r of Err e \<Rightarrow> log_Fatal e | other \<Rightarrow> other)"

section \<open>Starting the Management Service\<close>

record Start_Results =
  sr_Unmarshal :: "string \<Rightarrow> Config outcome"
  sr_idp :: "Idp_Config option"
  sr_disk :: "string \<Rightarrow> file_state"
  sr_faults :: "GoError option list"
  sr_fresh :: "nat \<Rightarrow> Fresh"
  sr_LoadX509KeyPair :: "string \<Rightarrow> string \<Rightarrow> unit outcome"
  sr_validateURL :: "string \<Rightarrow> bool"
  sr_fetch :: "string \<Rightarrow> JSONWebKeys list outcome"
  sr_key :: "string outcome"
  sr_listen :: "unit outcome"

text \<open>
  \<open>NewStore\<close>: \<open>filepath.Join\<close> puts one separator between the directory and the name of the file;
  \<open>files\<close> gives what a file holds.
\<close>

definition NewStore :: "(string \<Rightarrow> file_state) \<Rightarrow> GoError option list \<Rightarrow> string \<Rightarrow> FileStore outcome" where
  "NewStore files faults dataDir =
     (let file = rev (dropWhile (\<lambda>c. c = CHR ''/'') (rev dataDir)) @ ''/store.json'' in restore file (files file) faults)"

text \<open>
  \<open>mgmtCmd\<close> from the configuration to the listening socket, after the migration. A missing
  data directory is created first.
\<close>

definition mgmt_datadir :: "Config \<Rightarrow> OS \<Rightarrow> OS \<times> unit outcome" where
  "mgmt_datadir config s = ensure_dir (path_of (Config_Datadir config)) s"

fun built :: "'s \<times> unit outcome \<Rightarrow> 's outcome" where
  "built (store, Ret u) = Ret store"
| "built (store, Err e) = Err e"
| "built (store, Panic p) = Panic p"

definition mgmt_build ::
  "Start_Results \<Rightarrow> Config \<Rightarrow> OS \<Rightarrow> OS \<times> (FileStore \<times> Auth0Manager option \<times> Http_Server \<times> Mgmt_Server) outcome" where
  "mgmt_build sr config s =
     on_ret (fatal (mgmt_datadir config s)) (\<lambda>s e. (s, Err e))
       (\<lambda>s u. on_ret (fatal (s, NewStore (sr_disk sr) (sr_faults sr) (Config_Datadir config))) (\<lambda>s e. (s, Err e))
         (\<lambda>s store. on_ret (fatal (s, case sr_idp sr of None \<Rightarrow> Ret None | Some c \<Rightarrow> NewManager c)) (\<lambda>s e. (s, Err e))
           (\<lambda>s idp. on_ret (fatal (s, built (BuildManager store (sr_fresh sr)))) (\<lambda>s e. (s, Err e))
             (\<lambda>s store. on_ret (choose_http (sr_LoadX509KeyPair sr) config s) (\<lambda>s e. (s, Err e))
               (\<lambda>s http. on_ret (fatal (s, NewServer (sr_validateURL sr) (sr_fetch sr) (sr_key sr) config)) (\<lambda>s e. (s, Err e))
                 (\<lambda>s srv. on_ret (fatal (s, sr_listen sr)) (\<lambda>s e. (s, Err e))
                   (\<lambda>s u. (s, Ret (store, idp, http, srv)))))))))"

definition mgmt_start ::
  "Start_Results \<Rightarrow> Mgmt_Flags \<Rightarrow> path \<Rightarrow> path \<Rightarrow> path \<Rightarrow> OS \<Rightarrow>
     (OS \<times> (FileStore \<times> Auth0Manager option \<times> Http_Server \<times> Mgmt_Server) outcome) option" where
  "mgmt_start sr fl logFile mgmtConfig mgmtDataDir s =
     (case mgmt_handleRebrand logFile mgmtConfig mgmtDataDir s of
        None \<Rightarrow> None
      | Some c \<Rightarrow>
          Some (on_ret (fatal c) (\<lambda>s e. (s, Err e))
            (\<lambda>s u. on_ret (fatal (loadMgmtConfig (sr_Unmarshal sr) fl mgmtConfig s)) (\<lambda>s e. (s, Err e))
              (\<lambda>s config. mgmt_build sr config s))))"

section \<open>Properties\<close>

lemma mgmt_handleRebrand_returns: "mgmt_handleRebrand l c d s \<noteq> None"
  unfolding mgmt_handleRebrand_def Let_def
  by (intro and_then_returns rebrand_returns log_Fatal_stops) (simp_all add: apart_def)

text \<open>Accounts as a file may hold them.\<close>

definition good_file :: "file_state \<Rightarrow> bool" where
  "good_file f \<longleftrightarrow> (\<forall>m. f = Stored m \<longrightarrow> m \<noteq> NilMap \<and> wf_map m \<and>
     (\<forall>k a. lookup m k = Some a \<longrightarrow> Account_Id a = k \<and> good_account a))"

lemma restore_good:
  assumes "good_file f" "restore file f faults = Ret s"
  shows "all_accounts good_account s" "wf_map (Accounts s)"
proof -
  show "all_accounts good_account s"
    using assms by (cases f) (auto simp: restore_def good_file_def all_accounts_def GetAccount_def restore_Accounts persist.simps
        empty_store_def split: prod.splits outcome.splits list.splits option.splits)
  show "wf_map (Accounts s)"
    using assms by (cases f) (auto simp: restore_def good_file_def restore_Accounts persist.simps wf_map_def keys_def
        empty_store_def split: prod.splits outcome.splits list.splits option.splits)
qed

lemma NewStore_good:
  assumes "\<forall>file. good_file (files file)" "NewStore files faults dir = Ret s"
  shows "all_accounts good_account s" "wf_map (Accounts s)"
  using restore_good [OF assms(1) [rule_format]] assms(2) by (simp_all add: NewStore_def Let_def)

lemma BuildManager_good:
  assumes "all_accounts good_account s" "wf_map (Accounts s)" "BuildManager s frs = (s', r)"
  shows "all_accounts good_account s'"
  using assms(3) unfolding BuildManager_def
proof (rule go_for_invariant [where P = "all_accounts good_account"])
  fix x s1 s2 r
  assume x: "x \<in> set (List.enumerate 0 (GetAllAccounts s))" and s1: "all_accounts good_account s1"
    and sv: "(case x of (i, account) \<Rightarrow> \<lambda>s. SaveAccount s (addAllGroup (frs i) account)) s1 = (s2, r)"
  obtain i a where ia: "x = (i, a)" by fastforce
  have "a \<in> set (vals (Accounts s))"
    using x ia by (auto simp: GetAllAccounts_def in_set_enumerate_eq)
  then obtain k where "lookup (Accounts s) k = Some a" using assms(2) by (auto simp: vals_conv)
  then have "GetAccount s k = Ret a" by (simp add: GetAccount_def)
  then have "good_account (addAllGroup (frs i) a)" using good_all_group all_accountsD [OF assms(1)] by blast
  from all_accounts_save [OF s1 this] sv ia show "all_accounts good_account s2" by simp
qed (rule assms(1))

lemma built_Ret: "built c = Ret st \<longleftrightarrow> c = (st, Ret ())"
  by (cases c rule: built.cases) auto

lemma NewServer_config: "NewServer v f g config = Ret srv \<Longrightarrow> srv_config srv = config"
  by (auto simp: NewServer_def split: outcome.splits option.splits if_splits)

lemma mgmt_build_Ret:
  assumes "mgmt_build sr config s = (s', Ret (store, idp, http, srv))"
  obtains st0 s1 s2 where "NewStore (sr_disk sr) (sr_faults sr) (Config_Datadir config) = Ret st0" "BuildManager st0 (sr_fresh sr) = (store, Ret ())"
    "choose_http (sr_LoadX509KeyPair sr) config s1 = (s2, Ret http)" "srv_config srv = config"
  using assms unfolding mgmt_build_def
  by (auto simp: on_ret_Ret fatal_Ret built_Ret dest!: NewServer_config)


text \<open>A start with an empty data directory, a plain configuration and no identity provider.\<close>

definition ex_start :: Start_Results where
  "ex_start = \<lparr>sr_Unmarshal = (\<lambda>_. Ret \<lparr>Config_Stuns = [], Config_TURNConfig = None, Config_Signal = None,
       Config_Datadir = ''/srv'', Config_HttpConfig = Some \<lparr>Http_LetsEncryptDomain = [], Http_CertFile = [], Http_CertKey = [],
         Http_Address = '':80'', Http_AuthAudience = [], Http_AuthIssuer = [], Http_AuthKeysLocation = []\<rparr>,
       Config_DeviceAuthorizationFlow = None\<rparr>),
     sr_idp = None, sr_disk = (\<lambda>_. NoFile), sr_faults = [],
     sr_fresh = (\<lambda>_. ex_fresh), sr_LoadX509KeyPair = (\<lambda>_ _. Ret ()), sr_validateURL = (\<lambda>_. False),
     sr_fetch = (\<lambda>_. Ret []), sr_key = Ret ''priv'', sr_listen = Ret ()\<rparr>"

definition ex_flags :: Mgmt_Flags where
  "ex_flags = \<lparr>fl_mgmtLetsencryptDomain = [], fl_mgmtDataDir = defaultMgmtDataDir, fl_certFile = [], fl_certKey = []\<rparr>"

definition ex_machine :: OS where
  "ex_machine = \<lparr>os_nodes = [([''etc'', ''netbird'', ''management.json''], File 384 ''{}'')], os_faults = []\<rparr>"

fun started :: "('s \<times> 'a outcome) option \<Rightarrow> bool" where
  "started (Some (s, r)) = is_ret r"
| "started None = False"

lemma started_Ret: "started c \<longleftrightarrow> (\<exists>s x. c = Some (s, Ret x))"
  by (cases c rule: started.cases) (auto elim: is_ret.elims)


text \<open>
  The data directory of the configuration file is never used: the flag for it has a default, and a
  flag that is not empty takes precedence, whether or not it was given.
\<close>

theorem datadir_of_file_ignored:
  assumes "fl_mgmtDataDir fl = defaultMgmtDataDir" "loadMgmtConfig Unmarshal fl p s = (s', Ret config)"
  shows "Config_Datadir config = ''/var/lib/netbird/''"
  using assms
  by (auto simp: loadMgmtConfig_def on_ret_Ret set_http_def Let_def defaultMgmtDataDir_def split: option.splits if_splits)

text \<open>
  Stopping the service. Without TLS the end of \<open>Shutdown\<close> makes \<open>Start\<close> return an error, and the
  goroutine around it ends the process with \<open>log.Fatalf\<close>, also when everything went well; with TLS
  the server that was stopped is not the one that serves, which goes on.
\<close>

theorem stop_is_not_graceful:
  assumes "Http_Start fetch (Ret ()) srv \<lparr>hr_serving = None, hr_shutdown = False\<rparr> = (st, None)"
    and "Http_Stop (Ret ()) st = (st', Ret ())"
  shows "if hs_certManager srv \<noteq> None \<or> hs_tlsConfig srv then hr_serving st' = Some ByOther
    else \<exists>r. Start_resumed ByServer st' = Some r \<and> serve_goroutine r = Panic (ExplicitPanic ''exit: http: Server closed'')"
  using assms
  by (auto simp: Http_Start_def Http_Stop_def Start_resumed_def serve_goroutine_def log_Fatal_def ErrServerClosed_def
      split: outcome.splits if_splits)

end
