(* ===== verification/Store_Convert.thy ===== *)
theory Store_Convert
  imports Mgmt_Main
begin

text \<open>
  The conversion of an old store, \<open>management/server/migration/convert_accounts.go\<close>. In the old format
  the identifier of an account was that of its only user; the conversion gives every account a new
  identifier and makes the user its administrator. \<open>xids i\<close> is the \<open>i\<close>-th identifier that \<open>xid\<close> makes.
\<close>

definition converted :: "string \<Rightarrow> Account \<Rightarrow> Account outcome" where
  "converted xid account =
     (let accountCopy = Account_Copy account
      in case assign (Account_Users accountCopy) (Account_Id account) \<lparr>User_Id = Account_Id account, User_Role = UserRoleAdmin\<rparr> of
           None \<Rightarrow> Panic NilMapWrite
         | Some users \<Rightarrow>
             Ret (accountCopy\<lparr>Account_Id := xid, Account_CreatedBy := Account_Id account, Account_Users := users\<rparr>))"

definition convert_account :: "(nat \<Rightarrow> string) \<Rightarrow> nat \<times> Account \<Rightarrow> FileStore \<Rightarrow> FileStore \<times> unit outcome" where
  "convert_account xids x newStore =
     (case converted (xids (fst x)) (snd x) of
        Panic p \<Rightarrow> (newStore, Panic p)
      | Err e \<Rightarrow> (newStore, Err e)
      | Ret accountCopy \<Rightarrow> SaveAccount newStore accountCopy)"

definition Convert :: "(nat \<Rightarrow> string) \<Rightarrow> FileStore \<Rightarrow> FileStore \<Rightarrow> FileStore \<times> unit outcome" where
  "Convert xids oldStore newStore =
     go_for (convert_account xids) (List.enumerate 0 (vals (Accounts oldStore))) newStore"

text \<open>The program around it; every error is a panic.\<close>

definition convert_main ::
  "(nat \<Rightarrow> string) \<Rightarrow> (string \<Rightarrow> file_state) \<Rightarrow> GoError option list \<Rightarrow> GoError option list \<Rightarrow> string \<Rightarrow> string \<Rightarrow> FileStore outcome" where
  "convert_main xids files faults faults' oldDir newDir =
     (case NewStore files faults oldDir of
        Err e \<Rightarrow> Panic (ExplicitPanic (err_string e))
      | Panic p \<Rightarrow> Panic p
      | Ret oldStore \<Rightarrow>
          (case NewStore files faults' newDir of
             Err e \<Rightarrow> Panic (ExplicitPanic (err_string e))
           | Panic p \<Rightarrow> Panic p
           | Ret newStore \<Rightarrow>
               (case Convert xids oldStore newStore of
                  (s, Err e) \<Rightarrow> Panic (ExplicitPanic (err_string e))
                | (s, Panic p) \<Rightarrow> Panic p
                | (s, Ret u) \<Rightarrow> Ret s)))"

section \<open>Properties\<close>

lemma converted_Ret:
  "\<exists>b. converted xid a = Ret b \<and> Account_Id b = xid \<and> Account_CreatedBy b = Account_Id a \<and>
     Account_Peers b = copy_map Peer_Copy (Account_Peers a) \<and> Account_SetupKeys b = copy_map SetupKey_Copy (Account_SetupKeys a) \<and>
     Account_Groups b = copy_map Group_Copy (Account_Groups a) \<and> Account_Rules b = copy_map Rule_Copy (Account_Rules a) \<and>
     Account_Network b = Account_Network a \<and>
     assign (copy_map User_Copy (Account_Users a)) (Account_Id a) \<lparr>User_Id = Account_Id a, User_Role = UserRoleAdmin\<rparr> = Some (Account_Users b)"
  by (simp add: converted_def Let_def Account_Copy_def copy_map_def)

lemma converted_only_user:
  assumes "converted xid a = Ret b" "entries (Account_Users a) = []"
  shows "User_Id ` set (vals (Account_Users b)) = {Account_Id a}"
  using assms by (auto simp: converted_def Let_def Account_Copy_def copy_map_def vals_def)

lemma keyed_copy [simp]: "(\<And>v. g v = v) \<Longrightarrow> keyed f (copy_map g m) = keyed f m"
  by (simp add: keyed_alt wf_map_def option.map_ident cong: map_option_cong)

lemma converted_good:
  assumes "converted xid a = Ret b" "good_account a"
  shows "good_account b"
proof -
  have b: "Account_Peers b = copy_map Peer_Copy (Account_Peers a)" "Account_SetupKeys b = copy_map SetupKey_Copy (Account_SetupKeys a)"
    "Account_Groups b = copy_map Group_Copy (Account_Groups a)" "Account_Rules b = copy_map Rule_Copy (Account_Rules a)"
    "Account_Network b = Account_Network a"
    "assign (copy_map User_Copy (Account_Users a)) (Account_Id a) \<lparr>User_Id = Account_Id a, User_Role = UserRoleAdmin\<rparr> = Some (Account_Users b)"
    using converted_Ret [of xid a] assms(1) by auto
  have "keyed User_Id (Account_Users b)"
    using keyed_assign [of User_Id "copy_map User_Copy (Account_Users a)" "\<lparr>User_Id = Account_Id a, User_Role = UserRoleAdmin\<rparr>"
        "Account_Users b"] b(6) assms(2)
    by (simp add: good_account_def wf_account_def)
  then show ?thesis using assms(2) by (simp add: good_defs b option.map_ident cong: map_option_cong)
qed

lemma convert_account_save:
  "converted (xids (fst x)) (snd x) = Ret b \<Longrightarrow> convert_account xids x s = SaveAccount s b"
  by (simp add: convert_account_def)

text \<open>The loop: what is converted stays, and nothing else is touched.\<close>

lemma convert_loop:
  assumes "go_for (convert_account xids) xs s = (t, Ret ())" "Accounts s \<noteq> NilMap" "inj xids"
    and "distinct (map fst xs)" "distinct (map (Account_Id \<circ> snd) xs)" "\<forall>x \<in> set xs. entries (Account_Users (snd x)) = []"
  shows "(\<forall>x \<in> set xs. UserId2AccountId t (Account_Id (snd x)) = Some (xids (fst x)) \<and>
      GetAccount t (xids (fst x)) = converted (xids (fst x)) (snd x)) \<and>
    (\<forall>u. u \<notin> (Account_Id \<circ> snd) ` set xs \<longrightarrow> UserId2AccountId t u = UserId2AccountId s u) \<and>
    (\<forall>i. i \<notin> (xids \<circ> fst) ` set xs \<longrightarrow> GetAccount t i = GetAccount s i)"
  using assms
proof (induction xs arbitrary: s)
  case (Cons x xs)
  obtain b where b: "converted (xids (fst x)) (snd x) = Ret b" "Account_Id b = xids (fst x)" using converted_Ret by blast
  note names = converted_only_user [OF b(1)]
  obtain s1 r where sv: "SaveAccount s b = (s1, r)" by fastforce
  from Cons.prems(1) b sv have r: "r = Ret ()" "go_for (convert_account xids) xs s1 = (t, Ret ())"
    using convert_account_save [of xids x b s, OF b(1)] by (auto split: outcome.splits)
  note sv = sv [unfolded r(1)]
  have IH: "(\<forall>x \<in> set xs. UserId2AccountId t (Account_Id (snd x)) = Some (xids (fst x)) \<and>
      GetAccount t (xids (fst x)) = converted (xids (fst x)) (snd x)) \<and>
    (\<forall>u. u \<notin> (Account_Id \<circ> snd) ` set xs \<longrightarrow> UserId2AccountId t u = UserId2AccountId s1 u) \<and>
    (\<forall>i. i \<notin> (xids \<circ> fst) ` set xs \<longrightarrow> GetAccount t i = GetAccount s1 i)"
    using Cons.prems r(2) fs.live_saved [OF _ sv] by (intro Cons.IH) auto
  have u1: "UserId2AccountId s1 u = (if u = Account_Id (snd x) then Some (xids (fst x)) else UserId2AccountId s u)" for u
    using by_user.resolve_saved [OF sv, of u] names Cons.prems(6) b(2) by auto
  have g1: "GetAccount s1 i = (if i = xids (fst x) then Ret b else GetAccount s i)" for i
    using GetAccount_save [OF sv Cons.prems(2), of i] b(2) by simp
  have "xids (fst x) \<notin> (xids \<circ> fst) ` set xs" using Cons.prems(3,4) by (auto simp: inj_def)
  moreover have "Account_Id (snd x) \<notin> (Account_Id \<circ> snd) ` set xs" using Cons.prems(5) by auto
  ultimately show ?case using IH u1 g1 b(1) by auto
qed auto

text \<open>
  Nothing is lost in the conversion of a store of the old format into an empty one: if it succeeds,
  every old account has exactly one new account, which its user reaches with the old identifier; the
  user is its administrator and its creator; peers, setup keys, groups, rules and the network are the
  old ones; and the invariants of the accounts hold if they held before. The new store is written.
\<close>

theorem convert_keeps_accounts:
  assumes "Convert xids old new = (t, Ret ())" "inj xids" "Accounts new \<noteq> NilMap" "wf_map (Accounts old)"
    and "lookup (Accounts old) k = Some a" "\<forall>k a. lookup (Accounts old) k = Some a \<longrightarrow> Account_Id a = k \<and> entries (Account_Users a) = []"
  shows "\<exists>b. GetUserAccount t k = Ret b \<and> GetAccount t (Account_Id b) = Ret b \<and> Account_CreatedBy b = k \<and>
    lookup (Account_Users b) k = Some \<lparr>User_Id = k, User_Role = UserRoleAdmin\<rparr> \<and>
    (\<forall>n. lookup (Account_Peers b) n = lookup (Account_Peers a) n) \<and>
    (\<forall>n. lookup (Account_SetupKeys b) n = lookup (Account_SetupKeys a) n) \<and>
    (\<forall>n. lookup (Account_Groups b) n = lookup (Account_Groups a) n) \<and>
    (\<forall>n. lookup (Account_Rules b) n = lookup (Account_Rules a) n) \<and>
    Account_Network b = Account_Network a \<and> (good_account a \<longrightarrow> good_account b)"
proof -
  let ?xs = "List.enumerate 0 (vals (Accounts old))"
  have in_old: "\<exists>k. lookup (Accounts old) k = Some (snd x)" if "x \<in> set ?xs" for x
    using that vals_conv [OF assms(4), of "snd x"] by (auto simp: in_set_enumerate_eq dest: nth_mem)
  have users: "\<forall>x \<in> set ?xs. entries (Account_Users (snd x)) = []" using in_old assms(6) by blast
  have "map Account_Id (vals (Accounts old)) = keys (Accounts old)"
    using assms(4,6) entries_lookup [OF assms(4)] by (auto simp: vals_def keys_def intro!: map_cong)
  then have ids: "distinct (map (Account_Id \<circ> snd) ?xs)" using assms(4) by (simp add: wf_map_def flip: map_map)
  have "a \<in> set (vals (Accounts old))" using assms(5) by (rule vals_lookup)
  then have "a \<in> snd ` set ?xs" by (metis list.set_map map_snd_enumerate)
  then obtain i where i: "(i, a) \<in> set ?xs" by force
  have k: "Account_Id a = k" using assms(5,6) by blast
  have "UserId2AccountId t k = Some (xids i)" "GetAccount t (xids i) = converted (xids i) a"
    using convert_loop [OF assms(1) [unfolded Convert_def] assms(3,2) _ ids users] i k by (auto simp: distinct_enumerate)
  then have "GetUserAccount t k = converted (xids i) a" "GetAccount t (xids i) = converted (xids i) a"
    using by_user.find_resolved [of t k "xids i"] by simp_all
  moreover obtain b where b: "converted (xids i) a = Ret b" using converted_Ret by blast
  moreover from b converted_Ret [of "xids i" a] have
    "assign (copy_map User_Copy (Account_Users a)) k \<lparr>User_Id = k, User_Role = UserRoleAdmin\<rparr> = Some (Account_Users b)"
    using k by auto
  then have "lookup (Account_Users b) k = Some \<lparr>User_Id = k, User_Role = UserRoleAdmin\<rparr>" by (simp add: lookup_assign)
  ultimately show ?thesis using converted_Ret [of "xids i" a] k converted_good [OF b]
    by (auto simp: option.map_ident cong: map_option_cong)
qed

text \<open>A store with one account of the old format.\<close>

definition ex_old_store :: FileStore where
  "ex_old_store = (empty_store ''old.json'' NoFile [])\<lparr>Accounts := GoMap [(''auth0|1'', ex_account\<lparr>Account_Id := ''auth0|1'', Account_Users := NilMap, Account_Rules := NilMap\<rparr>)]\<rparr>"

definition ex_xids :: "nat \<Rightarrow> string" where
  "ex_xids i = replicate i CHR ''x''"

theorem convert_keeps_accounts_witness:
  "\<exists>t b. Convert ex_xids ex_old_store (empty_store ''new.json'' NoFile []) = (t, Ret ()) \<and> GetUserAccount t ''auth0|1'' = Ret b \<and>
     lookup (Account_Users b) ''auth0|1'' = Some \<lparr>User_Id = ''auth0|1'', User_Role = UserRoleAdmin\<rparr>"
proof -
  obtain t r where t: "Convert ex_xids ex_old_store (empty_store ''new.json'' NoFile []) = (t, r)" by fastforce
  let ?a = "ex_account\<lparr>Account_Id := ''auth0|1'', Account_Users := NilMap, Account_Rules := NilMap\<rparr>"
  obtain b where b: "converted (ex_xids 0) ?a = Ret b" "Account_Rules b = copy_map Rule_Copy (Account_Rules ?a)"
    using converted_Ret [of "ex_xids 0" ?a] by auto
  then have "rules_closed b" by (simp add: rules_closed_def copy_map_def vals_def)
  then obtain s' where "SaveAccount (empty_store ''new.json'' NoFile []) b = (s', Ret ())"
    using SaveAccount_no_faults [of b "empty_store ''new.json'' NoFile []"] by (auto simp: empty_store_def)
  with t have r: "r = Ret ()"
    using convert_account_save [of ex_xids "(0, ?a)" b "empty_store ''new.json'' NoFile []"] b(1)
    by (simp add: Convert_def ex_old_store_def vals_def)
  have "inj ex_xids" by (simp add: inj_def ex_xids_def)
  moreover have "Accounts (empty_store ''new.json'' NoFile []) \<noteq> NilMap" by (simp add: empty_store_def)
  moreover have "wf_map (Accounts ex_old_store)" by (simp add: ex_old_store_def wf_map_def keys_def)
  moreover have "lookup (Accounts ex_old_store) ''auth0|1'' = Some (ex_account\<lparr>Account_Id := ''auth0|1'', Account_Users := NilMap, Account_Rules := NilMap\<rparr>)"
    by (simp add: ex_old_store_def lookup_def)
  moreover have "\<forall>k a. lookup (Accounts ex_old_store) k = Some a \<longrightarrow> Account_Id a = k \<and> entries (Account_Users a) = []"
    by (auto simp: ex_old_store_def lookup_def split: if_splits)
  ultimately show ?thesis using convert_keeps_accounts [OF t [unfolded r]] t r by blast
qed

end
