(* ===== verification/Signal_Main.thy ===== *)
theory Signal_Main
  imports Lets_Encrypt Signal_Server
begin

text \<open>
  The start of the Signal Exchange, \<open>signal/cmd/run.go\<close>: the migration of its directory, the
  certificates, the socket and the server. The socket is an argument. The server then serves until
  the process ends: nothing makes \<open>Serve\<close> return without an error, so that the handler for
  interrupts, which is set up after it, is never in place.
\<close>

record Signal_Flags =
  sf_signalSSLDir :: string
  sf_signalLetsencryptDomain :: string

definition defaultSignalSSLDir :: string where
  "defaultSignalSSLDir = ''/var/lib/netbird/''"

text \<open>The directory is migrated only if the flag for it is empty, which its default is not.\<close>

definition signal_migrate :: "string \<Rightarrow> OS \<Rightarrow> (OS \<times> unit outcome) option" where
  "signal_migrate signalSSLDir s =
     (if signalSSLDir = [] then
        (let oldPath = [''var'', ''lib'', ''wiretrustee'']; newPath = path_of defaultSignalSSLDir
         in map_option fatal (rebrand log_Fatal True oldPath newPath oldPath newPath s))
      else Some (s, Ret ()))"

definition signal_certificates :: "Signal_Flags \<Rightarrow> OS \<Rightarrow> OS \<times> CertManager option outcome" where
  "signal_certificates fl s =
     (if sf_signalLetsencryptDomain fl \<noteq> [] then
        on_ret (fatal (ensure_dir (path_of (sf_signalSSLDir fl)) s)) (\<lambda>s e. (s, Err e))
          (\<lambda>s u. on_ret (CreateCertManager (sf_signalSSLDir fl) (sf_signalLetsencryptDomain fl) s) (\<lambda>s e. (s, Err e))
             (\<lambda>s certManager. (s, Ret (Some certManager))))
      else (s, Ret None))"

definition signal_run :: "unit outcome \<Rightarrow> Signal_Flags \<Rightarrow> OS \<Rightarrow> (OS \<times> (CertManager option \<times> Sig_Server) outcome) option" where
  "signal_run listen fl s =
     (case signal_migrate (sf_signalSSLDir fl) s of
        None \<Rightarrow> None
      | Some c \<Rightarrow>
          Some (on_ret c (\<lambda>s e. (s, Err e))
            (\<lambda>s u. on_ret (signal_certificates fl s) (\<lambda>s e. (s, Err e))
              (\<lambda>s cm. on_ret (fatal (s, listen)) (\<lambda>s e. (s, Err e))
                (\<lambda>s u. (s, Ret (cm, Sig_NewServer)))))))"

section \<open>Properties\<close>

lemma path_of_default: "path_of defaultSignalSSLDir = [''var'', ''lib'', ''netbird'']"
  by (simp add: path_of_def defaultSignalSSLDir_def)

lemma signal_migrate_returns: "signal_migrate dir s \<noteq> None"
  using rebrand_returns [of "[''var'', ''lib'', ''wiretrustee'']" "[''var'', ''lib'', ''netbird'']" log_Fatal True]
  by (simp add: signal_migrate_def path_of_default log_Fatal_def apart_def Let_def del: not_None_eq split_paired_Ex)

text \<open>
  The start of the Signal Exchange always ends. If it succeeds, nobody is registered, the service
  encrypts if and only if a domain was given, and then with certificates for that domain, kept below
  the directory of the flag. With the default directory nothing is migrated.
\<close>

theorem signal_starts:
  "(\<exists>s' r. signal_run listen fl s = Some (s', r) \<and>
     (\<forall>cm srv. r = Ret (cm, srv) \<longrightarrow>
        (\<forall>k. \<not> IsPeerRegistered (sig_registry srv) k) \<and> sig_run broken [] srv \<and>
        (if sf_signalLetsencryptDomain fl = [] then cm = None
         else cm = Some \<lparr>cm_Cache = path_of (sf_signalSSLDir fl) @ [''letsencrypt''], cm_Host = sf_signalLetsencryptDomain fl\<rparr>))) \<and>
   signal_migrate defaultSignalSSLDir s = Some (s, Ret ())"
proof
  show "signal_migrate defaultSignalSSLDir s = Some (s, Ret ())" by (simp add: signal_migrate_def defaultSignalSSLDir_def)
  obtain c where c: "signal_migrate (sf_signalSSLDir fl) s = Some c" using signal_migrate_returns by blast
  then obtain s' r where r: "signal_run listen fl s = Some (s', r)" by (simp add: signal_run_def) (metis surj_pair)
  have "srv = Sig_NewServer \<and> (if sf_signalLetsencryptDomain fl = [] then cm = None
         else cm = Some \<lparr>cm_Cache = path_of (sf_signalSSLDir fl) @ [''letsencrypt''], cm_Host = sf_signalLetsencryptDomain fl\<rparr>)"
    if "r = Ret (cm, srv)" for cm srv
    using r c that
    by (auto simp: signal_run_def signal_certificates_def on_ret_Ret fatal_Ret CreateCertManager_Ret
        split: if_splits)
  then show "\<exists>s' r. signal_run listen fl s = Some (s', r) \<and>
     (\<forall>cm srv. r = Ret (cm, srv) \<longrightarrow>
        (\<forall>k. \<not> IsPeerRegistered (sig_registry srv) k) \<and> sig_run broken [] srv \<and>
        (if sf_signalLetsencryptDomain fl = [] then cm = None
         else cm = Some \<lparr>cm_Cache = path_of (sf_signalSSLDir fl) @ [''letsencrypt''], cm_Host = sf_signalLetsencryptDomain fl\<rparr>))"
    using r sig_run.start [of broken] by (auto simp: Sig_NewServer_def NewRegistry_def IsPeerRegistered_def)
qed

end
