(* ===== verification/Client_Cmd.thy ===== *)
theory Client_Cmd
  imports Client_Properties Migration Retry
begin

text \<open>
  The commands \<open>login\<close>, \<open>up\<close>, \<open>down\<close> and \<open>status\<close> of the client, \<open>client/cmd\<close>. They call the daemon
  over gRPC, or do the work themselves when the log goes to the console. The daemon runs its
  handlers one after the other; an error of a handler reaches the command with a status code
  (\<open>on_the_wire\<close>). What is printed, the browser and the parsing of flags by \<open>cobra\<close> are left out.
\<close>

section \<open>Flags and environment variables\<close>

definition FlagNameToEnvVar :: "string \<Rightarrow> string \<Rightarrow> string" where
  "FlagNameToEnvVar cmdFlag envPrefix = envPrefix @ ToUpper (map (\<lambda>c. if c = CHR ''-'' then CHR ''_'' else c) cmdFlag)"

text \<open>Every flag is a text, so setting one cannot fail; the variable with the new prefix wins.\<close>

definition flag_from_env :: "(string \<Rightarrow> string option) \<Rightarrow> string \<times> string \<Rightarrow> string \<times> string" where
  "flag_from_env LookupEnv f =
     (let old = (case LookupEnv (FlagNameToEnvVar (fst f) ''WT_'') of Some v \<Rightarrow> v | None \<Rightarrow> snd f)
      in (fst f, case LookupEnv (FlagNameToEnvVar (fst f) ''NB_'') of Some v \<Rightarrow> v | None \<Rightarrow> old))"

definition SetFlagsFromEnvVars :: "(string \<Rightarrow> string option) \<Rightarrow> (string \<times> string) list \<Rightarrow> (string \<times> string) list" where
  "SetFlagsFromEnvVars LookupEnv flags = map (flag_from_env LookupEnv) flags"

section \<open>Backoff\<close>

text \<open>
  \<open>WithBackOff\<close> on the list of its rounds: what the outside does in a round, and whether the backoff
  gives up after it; \<open>None\<close> means that the next round has not begun.
\<close>

fun WithBackOff :: "('r \<Rightarrow> 's \<Rightarrow> 's \<times> unit outcome) \<Rightarrow> ('r \<times> bool) list \<Rightarrow> 's \<Rightarrow> 's \<times> unit outcome option" where
  "WithBackOff bf [] s = (s, None)"
| "WithBackOff bf ((r, stop) # rs) s =
     (case bf r s of
        (s', Err e) \<Rightarrow> if stop then (s', Some (Err e)) else WithBackOff bf rs s'
      | (s', result) \<Rightarrow> (s', Some result))"

fun backoff_again :: "'r \<times> bool \<Rightarrow> unit outcome \<Rightarrow> bool" where
  "backoff_again (r, stop) (Err e) = (\<not> stop)"
| "backoff_again r q = False"

interpretation cli_retry: retry_loop "\<lambda>r s. case bf (fst r) s of (s', q) \<Rightarrow> (s', Some q)" backoff_again "\<lambda>q. q" "WithBackOff bf"
  for bf
  by unfold_locales (auto split: prod.splits outcome.splits)

section \<open>Commands to the daemon\<close>

record 's Cli =
  cli_daemon :: "'s Daemon"
  cli_loginErr :: "GoError option"
  cli_loginResp :: "Daemon_LoginResponse option"

text \<open>Errors that trying again does not cure.\<close>

definition login_final :: "GoError \<Rightarrow> bool" where
  "login_final e \<longleftrightarrow> from_status e \<and> err_code e \<in> {InvalidArgument, PermissionDenied, NotFound, Unimplemented}"

definition cli_login :: "Daemon_LoginRequest \<Rightarrow> 's Daemon_Env \<times> int \<Rightarrow> 's Cli \<Rightarrow> 's Cli \<times> unit outcome" where
  "cli_login req r c =
     (case Daemon_Login (fst r) (snd r) req (cli_daemon c) of
        (d, result) \<Rightarrow>
          (case on_the_wire result of
             Ret resp \<Rightarrow> (c\<lparr>cli_daemon := d, cli_loginResp := Some resp\<rparr>, Ret ())
           | Panic p \<Rightarrow> (c\<lparr>cli_daemon := d\<rparr>, Panic p)
           | Err e \<Rightarrow>
               if login_final e then (c\<lparr>cli_daemon := d, cli_loginResp := None, cli_loginErr := Some e\<rparr>, Ret ())
               else (c\<lparr>cli_daemon := d, cli_loginResp := None\<rparr>, Err e)))"

text \<open>
  The part that \<open>login\<close> and \<open>up\<close> share: log in with retries, then wait for the single sign-on if one
  is needed. \<open>None\<close> is a command that still waits.
\<close>

definition login_or_sso ::
  "Daemon_LoginRequest \<Rightarrow> (('s Daemon_Env \<times> int) \<times> bool) list \<Rightarrow> 's Daemon_Env \<times> int \<Rightarrow> 's Daemon \<Rightarrow> 's Daemon \<times> unit outcome option" where
  "login_or_sso req rounds w d0 =
     (case WithBackOff (cli_login req) rounds \<lparr>cli_daemon = d0, cli_loginErr = None, cli_loginResp = None\<rparr> of
        (c, None) \<Rightarrow> (cli_daemon c, None)
      | (c, Some (Panic p)) \<Rightarrow> (cli_daemon c, Some (Panic p))
      | (c, Some (Err e)) \<Rightarrow> (cli_daemon c, Some (Err (PlainError (''login backoff cycle failed: '' @ err_string e))))
      | (c, Some (Ret u)) \<Rightarrow>
          (case cli_loginErr c of
             Some e \<Rightarrow> (cli_daemon c, Some (Err (PlainError (''login failed: '' @ err_string e))))
           | None \<Rightarrow>
               (case cli_loginResp c of
                  None \<Rightarrow> (cli_daemon c, Some (Panic NilDereference))
                | Some loginResp \<Rightarrow>
                    if DResp_NeedsSSOLogin loginResp then
                      (case WaitSSOLogin (fst w) (snd w) (DResp_UserCode loginResp) (cli_daemon c) of
                         None \<Rightarrow> (cli_daemon c, None)
                       | Some (d, result) \<Rightarrow>
                           (case on_the_wire result of
                              Err e \<Rightarrow> (d, Some (Err (PlainError (''waiting sso login failed with: '' @ err_string e))))
                            | other \<Rightarrow> (d, Some other)))
                    else (cli_daemon c, Some (Ret ())))))"

text \<open>\<open>login\<close> and \<open>up\<close> with the daemon; dialling it may fail.\<close>

definition no_daemon :: "GoError \<Rightarrow> GoError" where
  "no_daemon e = PlainError (''failed to connect to daemon error: '' @ err_string e)"

definition loginCmd ::
  "unit outcome \<Rightarrow> Daemon_LoginRequest \<Rightarrow> (('s Daemon_Env \<times> int) \<times> bool) list \<Rightarrow> 's Daemon_Env \<times> int \<Rightarrow> 's Daemon \<Rightarrow>
     's Daemon \<times> unit outcome option" where
  "loginCmd dialled req rounds w d =
     (case dialled of
        Err e \<Rightarrow> (d, Some (Err (no_daemon e)))
      | Panic p \<Rightarrow> (d, Some (Panic p))
      | Ret u \<Rightarrow> login_or_sso req rounds w d)"

definition upCmd ::
  "unit outcome \<Rightarrow> Daemon_LoginRequest \<Rightarrow> (('s Daemon_Env \<times> int) \<times> bool) list \<Rightarrow> 's Daemon_Env \<times> int \<Rightarrow> 's Daemon \<Rightarrow>
     's Daemon \<times> unit outcome option" where
  "upCmd dialled req rounds w d =
     (case dialled of
        Err e \<Rightarrow> (d, Some (Err (no_daemon e)))
      | Panic p \<Rightarrow> (d, Some (Panic p))
      | Ret u \<Rightarrow>
          (case on_the_wire (Daemon_Status d) of
             Err e \<Rightarrow> (d, Some (Err (PlainError (''unable to get daemon status: '' @ err_string e))))
           | Panic p \<Rightarrow> (d, Some (Panic p))
           | Ret status \<Rightarrow>
               if status = StatusType_text Status_Connected then (d, Some (Ret ()))
               else (case login_or_sso req rounds w d of
                       (d1, Some (Ret u)) \<Rightarrow>
                         (case Up d1 of
                            (d2, result) \<Rightarrow>
                              (d2, Some (case on_the_wire result of
                                           Err e \<Rightarrow> Err (PlainError (''call service up method: '' @ err_string e))
                                         | other \<Rightarrow> other)))
                     | other \<Rightarrow> other)))"

definition downCmd :: "unit outcome \<Rightarrow> 's Daemon \<Rightarrow> 's Daemon \<times> unit outcome" where
  "downCmd dialled d =
     (case dialled of
        Err e \<Rightarrow> (d, Err e)
      | Panic p \<Rightarrow> (d, Panic p)
      | Ret u \<Rightarrow> (case Down d of (d', result) \<Rightarrow> (d', on_the_wire result)))"

text \<open>\<open>status\<close>: the status and whether the hint how to log in is printed.\<close>

definition statusCmd :: "unit outcome \<Rightarrow> 's Daemon \<Rightarrow> (string \<times> bool) outcome" where
  "statusCmd dialled d =
     (case dialled of
        Err e \<Rightarrow> Err (no_daemon e)
      | Panic p \<Rightarrow> Panic p
      | Ret u \<Rightarrow>
          (case Daemon_Status d of
             Err e \<Rightarrow> Err (PlainError (''status failed: '' @ (case e of StatusError c m \<Rightarrow> m | PlainError m \<Rightarrow> m)))
           | Panic p \<Rightarrow> Panic p
           | Ret status \<Rightarrow>
               Ret (status, status = StatusType_text Status_NeedsLogin \<or> status = StatusType_text Status_LoginFailed)))"

section \<open>Without the daemon\<close>

text \<open>The Management Service as it answers in one attempt.\<close>

record 's Fg_Env =
  fe_uuid_Parse :: "string \<Rightarrow> string outcome"
  fe_mgm :: Mgm_Env
  fe_rpc :: "'s Mgm_Rpc"
  fe_dial :: "string \<Rightarrow> bool \<Rightarrow> unit outcome"
  fe_info :: "Info option"

definition fg_Login :: "'s Fg_Env \<Rightarrow> Client_Config \<Rightarrow> string \<Rightarrow> string \<Rightarrow> 's \<Rightarrow> 's \<times> unit outcome" where
  "fg_Login r config setupKey jwtToken s =
     client_Login (fe_uuid_Parse r) (fe_mgm r) (fe_rpc r) (fe_dial r) (fe_info r) s config setupKey jwtToken"

definition refused_login :: "GoError \<Rightarrow> bool" where
  "refused_login e \<longleftrightarrow> from_status e \<and> (err_code e = InvalidArgument \<or> err_code e = PermissionDenied)"

text \<open>The first attempt, which finds out whether a login is needed.\<close>

definition try_login :: "Client_Config \<Rightarrow> 's Fg_Env \<Rightarrow> 's \<times> bool \<Rightarrow> ('s \<times> bool) \<times> unit outcome" where
  "try_login config r c =
     (case fg_Login r config [] [] (fst c) of
        (s, Err e) \<Rightarrow> if refused_login e then ((s, True), Ret ()) else ((s, snd c), Err e)
      | (s, result) \<Rightarrow> ((s, snd c), result))"

text \<open>The second attempt, with the key or the token: a refusal ends the loop without an error.\<close>

definition final_login :: "Client_Config \<Rightarrow> string \<Rightarrow> string \<Rightarrow> 's Fg_Env \<Rightarrow> 's \<Rightarrow> 's \<times> unit outcome" where
  "final_login config setupKey jwtToken r s =
     (case fg_Login r config setupKey jwtToken s of
        (s', Err e) \<Rightarrow> if refused_login e then (s', Ret ()) else (s', Err e)
      | other \<Rightarrow> other)"

definition foregroundGetTokenInfo ::
  "'s Fg_Env \<Rightarrow> Oauth_Env \<Rightarrow> (string \<Rightarrow> string \<times> string \<Rightarrow> Http_Result) \<Rightarrow> wait_event list \<Rightarrow> string \<Rightarrow> URL \<Rightarrow> Client_Config \<Rightarrow> 's \<Rightarrow>
     TokenInfo outcome option" where
  "foregroundGetTokenInfo r oauth http events managementURL defaultURL config s =
     (case GetDeviceAuthorizationFlowInfo (fe_mgm r) (fe_rpc r) (fe_dial r) s config of
        Panic p \<Rightarrow> Some (Panic p)
      | Err e \<Rightarrow>
          Some (Err (PlainError
            (if from_status e \<and> err_code e = NotFound then
               ''no SSO provider returned from management. If you are using hosting Netbird see documentation at '' @
               ''https://github.com/netbirdio/netbird/tree/main/management for details''
             else if from_status e \<and> err_code e = Unimplemented then
               ''the management server, '' @ (if managementURL = [] then URL_String defaultURL else managementURL) @
               '', does not support SSO providers, please update your servver or use Setup Keys to login''
             else ''getting device authorization flow info failed with error: '' @ err_string e)))
      | Ret providerConfig \<Rightarrow>
          (let pc = Flow_ProviderConfig providerConfig;
               hostedClient = NewHostedDeviceFlow (Provider_Audience pc) (Provider_ClientID pc) (Provider_Domain pc)
           in case RequestDeviceCode oauth http hostedClient of
                Err e \<Rightarrow> Some (Err (PlainError (''getting a request device code failed: '' @ err_string e)))
              | Panic p \<Rightarrow> Some (Panic p)
              | Ret flowInfo \<Rightarrow>
                  (case WaitToken oauth hostedClient flowInfo events of
                     None \<Rightarrow> None
                   | Some (Err e) \<Rightarrow> Some (Err (PlainError (''waiting for browser login failed: '' @ err_string e)))
                   | Some (Panic p) \<Rightarrow> Some (Panic p)
                   | Some (Ret tokenInfo) \<Rightarrow> Some (Ret tokenInfo))))"

text \<open>\<open>foregroundLogin\<close>, given what \<open>foregroundGetTokenInfo\<close> would return on the state it is called in.\<close>

definition foregroundLogin ::
  "('s \<Rightarrow> TokenInfo outcome option) \<Rightarrow> Client_Config \<Rightarrow> string \<Rightarrow> ('s Fg_Env \<times> bool) list \<Rightarrow> ('s Fg_Env \<times> bool) list \<Rightarrow> 's \<Rightarrow>
     's \<times> unit outcome option" where
  "foregroundLogin getToken config setupKey rounds rounds' s0 =
     (case WithBackOff (try_login config) rounds (s0, False) of
        (c, None) \<Rightarrow> (fst c, None)
      | (c, Some (Panic p)) \<Rightarrow> (fst c, Some (Panic p))
      | (c, Some (Err e)) \<Rightarrow> (fst c, Some (Err (PlainError (''backoff cycle failed: '' @ err_string e))))
      | ((s, needsLogin), Some (Ret u)) \<Rightarrow>
          (case (if setupKey = [] \<and> needsLogin then getToken s else Some (Ret \<lparr>Tok_AccessToken = [], Tok_RefreshToken = [],
                   Tok_IDToken = [], Tok_TokenType = [], Tok_ExpiresIn = 0\<rparr>)) of
             None \<Rightarrow> (s, None)
           | Some (Panic p) \<Rightarrow> (s, Some (Panic p))
           | Some (Err e) \<Rightarrow> (s, Some (Err (PlainError (''interactive sso login failed: '' @ err_string e))))
           | Some (Ret tokenInfo) \<Rightarrow>
               (case WithBackOff (final_login config setupKey (Tok_AccessToken tokenInfo)) rounds' s of
                  (s', Some (Err e)) \<Rightarrow> (s', Some (Err (PlainError (''backoff cycle failed: '' @ err_string e))))
                | other \<Rightarrow> other)))"

section \<open>Contexts are new\<close>

text \<open>Every context that was cancelled or may be cancelled has been made.\<close>

definition made_ok :: "'s Daemon \<Rightarrow> bool" where
  "made_ok d \<longleftrightarrow> (\<forall>c \<in> set (dm_cancelled d). c < dm_made d) \<and> (\<forall>c. dm_actCancel d = Some c \<longrightarrow> c < dm_made d) \<and>
     (\<forall>c. oaf_waitCancel (dm_oauth d) = Some c \<longrightarrow> c < dm_made d)"

lemma made_ok_simps [simp]:
  "made_ok (set_status s d) = made_ok d" "made_ok (d\<lparr>dm_file := f\<rparr>) = made_ok d" "made_ok (d\<lparr>dm_config := cfg\<rparr>) = made_ok d"
  "made_ok (d\<lparr>dm_remote := x\<rparr>) = made_ok d" "made_ok (login_deferred d) = made_ok d" "made_ok (update_urls msg d) = made_ok d"
  "made_ok (run_client config d) = made_ok d"
  by (auto simp: made_ok_def set_status_def login_deferred_def update_urls_def run_client_def split: outcome.splits option.splits)

lemma replace_context_made: "made_ok d \<Longrightarrow> made_ok (replace_context d)"
  by (auto simp: made_ok_def replace_context_def new_context_def less_Suc_eq split: option.splits)

lemma loginAttempt_made: "loginAttempt env sk jwt d = (d', r) \<Longrightarrow> made_ok d' = made_ok d"
  by (auto simp: loginAttempt_def split: option.splits prod.splits outcome.splits)

lemma request_device_made: "request_device env now h d = (d', r) \<Longrightarrow> made_ok d \<Longrightarrow> made_ok d'"
  by (auto simp: request_device_def made_ok_def split: outcome.splits) (auto simp: set_status_def)

lemma sso_login_made:
  assumes "sso_login env now config d = (d', r)" "made_ok d"
  shows "made_ok d'"
proof -
  have "made_ok (d\<lparr>dm_cancelled := c # dm_cancelled d\<rparr>)" if "oaf_waitCancel (dm_oauth d) = Some c" for c
    using that assms(2) by (auto simp: made_ok_def)
  with assms request_device_made show ?thesis
    by (fastforce simp: sso_login_def Let_def split: outcome.splits if_splits option.splits)
qed

lemma login_with_made:
  assumes "login_with env now msg config d = (d', r)" "made_ok d"
  shows "made_ok d'"
proof -
  obtain d1 q where q: "loginAttempt env [] [] d = (d1, q)" by fastforce
  have 1: "made_ok (set_status Status_Connecting d1)" using loginAttempt_made [OF q] assms(2) by simp
  obtain d3 q3 where q3: "loginAttempt env (DLogin_SetupKey msg) [] (set_status Status_Connecting d1) = (d3, q3)" by fastforce
  have 3: "made_ok d3" using loginAttempt_made [OF q3] 1 by simp
  show ?thesis using assms q q3 1 3 sso_login_made [OF _ 1]
    by (auto simp: login_with_def Let_def split: outcome.splits option.splits if_splits prod.splits)
qed

lemma Daemon_Login_made:
  assumes "Daemon_Login env now msg d = (d', r)" "made_ok d"
  shows "made_ok d'"
  using assms(1) replace_context_made [OF assms(2)] login_with_made
  by (fastforce simp: Daemon_Login_def Let_def split: prod.splits outcome.splits)

lemma wait_for_token_made:
  assumes "wait_for_token env now h d = Some (d', r)" "made_ok d"
  shows "made_ok d'"
proof -
  have 1: "made_ok (begin_wait d)"
    using assms(2) by (auto simp: begin_wait_def made_ok_def Let_def less_Suc_eq split: option.splits)
  have "made_ok ((begin_wait d)\<lparr>dm_oauth := (dm_oauth (begin_wait d))\<lparr>oaf_expiresAt := now\<rparr>\<rparr>)"
    using 1 by (simp add: made_ok_def)
  with assms(1) 1 loginAttempt_made show ?thesis
    by (fastforce simp: wait_for_token_def Let_def split: option.splits outcome.splits prod.splits if_splits)
qed

lemma WaitSSOLogin_made:
  assumes "WaitSSOLogin env now code d = Some (d', r)" "made_ok d"
  shows "made_ok d'"
  using assms(1) replace_context_made [OF assms(2)] wait_for_token_made
  by (fastforce simp: WaitSSOLogin_def Let_def split: option.splits if_splits)

lemma daemon_run_made: "daemon_run d \<Longrightarrow> made_ok d"
proof (induction rule: daemon_run.induct)
  case (start env m a cp lf f remote d r)
  then show ?case
    by (auto simp: Daemon_Start_def Daemon_New_def new_context_def Let_def made_ok_def set_status_def run_client_def
        split: outcome.splits if_splits prod.splits)
next
  case (login d env now msg d' r)
  then show ?case using Daemon_Login_made by blast
next
  case (wait d env now code d' r)
  then show ?case using WaitSSOLogin_made by blast
next
  case (up d d' r)
  then show ?case using replace_context_made [of d]
    by (auto simp: Up_def Let_def split: outcome.splits if_splits option.splits)
next
  case (down d d' r)
  then show ?case by (auto simp: Down_def made_ok_def split: option.splits)
next
  case (over d c by_up r)
  then show ?case by (cases r) (auto simp: client_over_def made_ok_def Let_def)
next
  case (works d st s)
  then show ?case by (simp add: made_ok_def)
qed

section \<open>Properties\<close>

lemma cli_login_run: "daemon_run (cli_daemon c) \<Longrightarrow> daemon_run (cli_daemon (fst (cli_login req r c)))"
  by (cases "Daemon_Login (fst r) (snd r) req (cli_daemon c)")
    (auto simp: cli_login_def split: outcome.splits intro: daemon_run.login)

lemma backoff_run:
  "daemon_run (cli_daemon c) \<Longrightarrow> daemon_run (cli_daemon (fst (WithBackOff (cli_login req) rounds c)))"
  by (rule cli_retry.loop_keeps [where P = "\<lambda>c. daemon_run (cli_daemon c)"])
    (simp_all add: split_beta cli_login_run)

lemma backoff_returns:
  assumes "(r, True) \<in> set rounds"
  shows "\<exists>s' q. WithBackOff bf rounds s = (s', Some q)"
  by (rule cli_retry.loop_returns [OF assms]) (auto simp: split_beta elim: backoff_again.elims)

lemma wait_loop_ends: "CtxDone e \<in> set evs \<Longrightarrow> snd (wait_loop env h info i evs) \<noteq> None"
proof (induction env h info i evs rule: wait_loop.induct)
  case (3 env h info i http evs)
  then show ?case by (cases "wait_tick env h info i http") (auto split: option.splits)
qed auto

lemma WaitToken_returns: "CtxDone e \<in> set evs \<Longrightarrow> WaitToken env h info evs \<noteq> None"
  using wait_loop_ends by (simp add: WaitToken_def Let_def)

lemma wait_for_token_returns:
  assumes "CtxDone e \<in> set (de_wait env)"
  shows "wait_for_token env now h d \<noteq> None"
proof -
  obtain q where "WaitToken (de_oauth env) h (oaf_info (dm_oauth (begin_wait d))) (de_wait env) = Some q"
    using WaitToken_returns [OF assms] by blast
  then show ?thesis
    by (cases q) (auto simp: wait_for_token_def Let_def split: prod.splits outcome.splits option.splits)
qed

lemma WaitSSOLogin_returns:
  assumes "CtxDone e \<in> set (de_wait env)"
  shows "WaitSSOLogin env now code d \<noteq> None"
  using wait_for_token_returns [OF assms, of now _ "set_status Status_Connecting (replace_context d)"]
  by (simp add: WaitSSOLogin_def Let_def split: option.splits) blast

lemma on_the_wire_Ret: "on_the_wire r = Ret x \<longleftrightarrow> r = Ret x"
  by (cases r rule: on_the_wire.cases) auto

lemma login_or_sso_ends:
  assumes "daemon_run d" "(r, True) \<in> set rounds" "CtxDone e \<in> set (de_wait (fst w))"
  shows "\<exists>d' q. login_or_sso req rounds w d = (d', Some q) \<and> daemon_run d'"
proof -
  let ?c = "\<lparr>cli_daemon = d, cli_loginErr = None, cli_loginResp = None\<rparr>"
  obtain c q where c: "WithBackOff (cli_login req) rounds ?c = (c, Some q)"
    using backoff_returns [OF assms(2), of "cli_login req" ?c] by blast
  have run: "daemon_run (cli_daemon c)" using backoff_run [of ?c req rounds] assms(1) c by simp
  have wait: "\<exists>d' q. WaitSSOLogin (fst w) (snd w) code (cli_daemon c) = Some (d', q) \<and> daemon_run d'" for code
    using WaitSSOLogin_returns [OF assms(3)] daemon_run.wait [OF run] by (metis option.exhaust surj_pair)
  show ?thesis
  proof (cases "\<exists>resp. q = Ret () \<and> cli_loginErr c = None \<and> cli_loginResp c = Some resp \<and> DResp_NeedsSSOLogin resp")
    case True
    then obtain resp where resp: "q = Ret ()" "cli_loginErr c = None" "cli_loginResp c = Some resp" "DResp_NeedsSSOLogin resp" by blast
    obtain d' x where "WaitSSOLogin (fst w) (snd w) (DResp_UserCode resp) (cli_daemon c) = Some (d', x)" "daemon_run d'"
      using wait by blast
    then show ?thesis using c resp by (auto simp: login_or_sso_def split: outcome.splits)
  next
    case False
    then show ?thesis using c run by (cases q) (auto simp: login_or_sso_def split: option.splits)
  qed
qed

text \<open>After \<open>Up\<close> exactly one client runs on a live context, with the configuration of the daemon.\<close>

lemma Up_live:
  assumes "daemon_run d" "Up d = (d', Ret ())"
  shows "\<exists>c config. filter (\<lambda>(c, config). c \<notin> set (dm_cancelled d')) (dm_running d') = [(c, config)] \<and>
    dm_actCancel d' = Some c \<and> dm_config d' = Some config"
proof -
  have ok: "daemon_ok d" "made_ok d" using daemon_run_ok daemon_run_made assms(1) by blast+
  obtain config where d': "d' = run_client config (replace_context d)" "dm_config (replace_context d) = Some config"
    using assms(2) by (auto simp: Up_def Let_def split: outcome.splits if_splits option.splits)
  note rc = replace_context_ok [OF ok(1)]
  have "dm_made d \<notin> set (dm_cancelled (replace_context d))"
    using ok(2) by (auto simp: made_ok_def replace_context_def new_context_def split: option.splits)
  moreover have "filter (\<lambda>(c, config). c \<notin> set (dm_cancelled (replace_context d))) (dm_running (replace_context d)) = []"
    using rc(4) by (auto simp: filter_empty_conv)
  ultimately show ?thesis using rc(2) d' by (simp add: run_client_def)
qed


text \<open>A daemon that logs in without a sign-on, because the service knows its key.\<close>

definition ex_up_env :: "nat Daemon_Env" where
  "ex_up_env = ex_daemon_env\<lparr>de_rpc := ex_rpc\<lparr>rpc_Login := (\<lambda>s _. (s, Ret \<lparr>Enc_WgPubKey = ''srv'', Enc_Body = replicate 24 0\<rparr>))\<rparr>,
     de_mgm := ex_mgm_env\<lparr>mc_unmarshal_login := (\<lambda>_. Ret \<lparr>LoginResp_WiretrusteeConfig = \<lparr>Wt_Stuns = [], Wt_Turns = [], Wt_Signal = None\<rparr>,
       LoginResp_PeerConfig = \<lparr>PeerConfig_Address = []\<rparr>\<rparr>)\<rparr>,
     de_wait := [CtxDone (PlainError ''timeout'')]\<rparr>"

definition ex_up_request :: Daemon_LoginRequest where
  "ex_up_request = \<lparr>DLogin_SetupKey = [], DLogin_PreSharedKey = [], DLogin_ManagementUrl = [], DLogin_AdminURL = []\<rparr>"


text \<open>
  Without the daemon a refused login is reported as a success: the second loop takes a refusal of the
  service for its end and drops the error.
\<close>

theorem refusal_reported_as_success:
  assumes "\<And>setupKey jwtToken s. \<exists>e. refused_login e \<and> fg_Login r config setupKey jwtToken s = (s, Err e)" "setupKey \<noteq> []"
  shows "foregroundLogin getToken config setupKey [(r, stop)] [(r, stop')] s = (s, Some (Ret ()))"
proof -
  obtain e where e: "refused_login e" "fg_Login r config [] [] s = (s, Err e)" using assms(1) by blast
  have "final_login config setupKey jwt r s = (s, Ret ())" for jwt
    using assms(1) [of setupKey jwt s] by (auto simp: final_login_def)
  with e show ?thesis using assms(2) by (simp add: foregroundLogin_def try_login_def)
qed

definition ex_refused :: "nat Fg_Env" where
  "ex_refused = \<lparr>fe_uuid_Parse = (\<lambda>_. Err (PlainError ''uuid'')), fe_mgm = ex_mgm_env, fe_rpc = ex_rpc,
     fe_dial = (\<lambda>_ _. Ret ()), fe_info = None\<rparr>"

theorem refusal_reported_as_success_witness:
  "foregroundLogin (\<lambda>_. None) ex_client_config ''key'' [(ex_refused, False)] [(ex_refused, False)] 7 = (7, Some (Ret ()))"
proof (rule refusal_reported_as_success)
  fix setupKey jwtToken and s :: nat
  show "\<exists>e. refused_login e \<and> fg_Login ex_refused ex_client_config setupKey jwtToken s = (s, Err e)"
    by (auto simp: fg_Login_def client_Login_def dial_management_def ex_refused_def ex_mgm_env_def ex_client_config_def ex_url_def
        mgm_NewClient_def GetServerPublicKey_def mgm_ready_def ex_rpc_def ex_box_def loginPeer_def mgm_Login_def mgm_login_def
        EncryptMessage_def Encrypt_def client_registerPeer_def mgm_Register_def refused_login_def infoToMetaData_def)
qed simp

end
