(* ===== verification/Client_Console.thy ===== *)
theory Client_Console
  imports Client_Cmd File_Refinement
begin

text \<open>
  The commands \<open>login\<close> and \<open>up\<close> of \<open>client/cmd\<close> without the daemon, when the log goes to the console:
  migrate the files of Wiretrustee, read the configuration, log in, and for \<open>up\<close> run the client. The
  calls of the migration may fail one by one; the configuration is read through its view
  (\<open>config_view\<close>), in which reading a file that is there does not fail.
\<close>

record 's Console =
  cs_configPath :: path
  cs_managementURL :: string
  cs_adminURL :: string
  cs_preSharedKey :: string
  cs_setupKey :: string
  cs_Unmarshal :: "string \<Rightarrow> Client_Config outcome"
  cs_env :: Config_Env
  cs_defaultURL :: URL
  cs_first :: "('s Fg_Env \<times> bool) list"
  cs_second :: "('s Fg_Env \<times> bool) list"
  cs_flow :: "'s Fg_Env"
  cs_oauth :: Oauth_Env
  cs_http :: "string \<Rightarrow> string \<times> string \<Rightarrow> Http_Result"
  cs_events :: "wait_event list"

text \<open>The configuration: the migration, then \<open>GetConfig\<close>.\<close>

definition console_config :: "'s Console \<Rightarrow> OS \<Rightarrow> ((OS \<times> config_file) \<times> Client_Config outcome) option" where
  "console_config cs s =
     (case handleRebrand [''console''] (cs_configPath cs) s of
        None \<Rightarrow> None
      | Some (s1, r) \<Rightarrow>
          (let f = config_view (json_at (cs_Unmarshal cs) (cs_configPath cs) s1)
           in case r of
                Err e \<Rightarrow> Some ((s1, f), Err e)
              | Panic p \<Rightarrow> Some ((s1, f), Panic p)
              | Ret u \<Rightarrow>
                  (case Client_GetConfig (cs_env cs) f (cs_managementURL cs) (cs_adminURL cs) (cs_preSharedKey cs) of
                     (f', Err e) \<Rightarrow> Some ((s1, f'), Err (PlainError (''get config file: '' @ err_string e)))
                   | (f', other) \<Rightarrow> Some ((s1, f'), other))))"

text \<open>
  The whole branch. Beside the files and the Management Service it gives the configuration it has
  logged in with; \<open>None\<close> is a command that still waits for the service or the browser.
\<close>

definition console_login ::
  "'s Console \<Rightarrow> OS \<Rightarrow> 's \<Rightarrow> ((OS \<times> config_file) \<times> 's \<times> Client_Config outcome option) option" where
  "console_login cs s srv =
     (case console_config cs s of
        None \<Rightarrow> None
      | Some (sf, Err e) \<Rightarrow> Some (sf, srv, Some (Err e))
      | Some (sf, Panic p) \<Rightarrow> Some (sf, srv, Some (Panic p))
      | Some (sf, Ret config) \<Rightarrow>
          (case foregroundLogin
                  (foregroundGetTokenInfo (cs_flow cs) (cs_oauth cs) (cs_http cs) (cs_events cs) (cs_managementURL cs)
                     (cs_defaultURL cs) config)
                  config (cs_setupKey cs) (cs_first cs) (cs_second cs) srv of
             (srv', None) \<Rightarrow> Some (sf, srv', None)
           | (srv', Some (Err e)) \<Rightarrow> Some (sf, srv', Some (Err (PlainError (''foreground login failed: '' @ err_string e))))
           | (srv', Some (Panic p)) \<Rightarrow> Some (sf, srv', Some (Panic p))
           | (srv', Some (Ret u)) \<Rightarrow> Some (sf, srv', Some (Ret config))))"

definition console_up ::
  "'s Console \<Rightarrow> Mgm_Env \<Rightarrow> (nat \<Rightarrow> Conn) \<Rightarrow> ('s, 'd) Attempt list \<Rightarrow> OS \<Rightarrow> ('s, 'd) Run_State \<Rightarrow>
     ((OS \<times> config_file) \<times> ('s, 'd) Run_State \<times> unit outcome option) option" where
  "console_up cs env conns as s st =
     (case console_login cs s (rs_remote st) of
        None \<Rightarrow> None
      | Some (sf, srv, None) \<Rightarrow> Some (sf, st\<lparr>rs_remote := srv\<rparr>, None)
      | Some (sf, srv, Some (Err e)) \<Rightarrow> Some (sf, st\<lparr>rs_remote := srv\<rparr>, Some (Err e))
      | Some (sf, srv, Some (Panic p)) \<Rightarrow> Some (sf, st\<lparr>rs_remote := srv\<rparr>, Some (Panic p))
      | Some (sf, srv, Some (Ret config)) \<Rightarrow> Some (sf, RunClient env config conns as (st\<lparr>rs_remote := srv\<rparr>)))"

section \<open>Migration under failures\<close>

text \<open>No failure of the schedule pretends that a file is missing.\<close>

definition honest_faults :: "OS \<Rightarrow> bool" where
  "honest_faults s \<longleftrightarrow> (\<forall>f \<in> set (os_faults s). case f of NoFault \<Rightarrow> True | Fault e n \<Rightarrow> e \<noteq> ErrNotExist)"

lemma Stat_present:
  assumes "honest_faults s" "node_at s p = Some n" "os_Stat p s = (s', r)"
  shows "r \<noteq> Err ErrNotExist"
  using assms by (auto simp: honest_faults_def os_Stat_def os_call_def split: list.splits fault.splits)

lemma Stat_missing:
  assumes "node_at s p = None" "os_Stat p s = (s', r)"
  shows "\<not> is_ret r"
  using assms by (auto simp: os_Stat_def os_call_def split: list.splits fault.splits)

lemma migrates:
  assumes "honest_faults s" "node_at s old = Some n" "node_at s new = None" "migrateToNetbird old new s = (s', b)"
  shows "b"
proof -
  obtain s1 r1 where c1: "os_Stat old s = (s1, r1)" by fastforce
  obtain s2 r2 where c2: "os_Stat new s1 = (s2, r2)" by fastforce
  have "node_at s1 new = None" using Stat_nodes [OF c1] assms(3) by simp
  with Stat_present [OF assms(1,2) c1] Stat_missing [OF _ c2] c1 c2 assms(4) show ?thesis
    by (auto simp: migrateToNetbird_def)
qed

lemma rebrand_copied:
  assumes "rebrand Err True (old @ p) (new @ p) old new s = Some (s', Ret ())" "honest_faults s" "apart old new" "tree_below old s"
    and "p \<noteq> []" "node_at s (old @ p) = Some n" "node_at s (new @ p) = None"
  shows "same_node n (node_at s' (new @ p))"
proof -
  obtain s1 b where m: "migrateToNetbird (old @ p) (new @ p) s = (s1, b)" by fastforce
  have "b" by (rule migrates [OF assms(2,6,7) m])
  then have c: "cpDir Err (os_depth s1) old new s1 = Some (s', Ret ())" using assms(1) m by (simp add: rebrand_def)
  show ?thesis
    using cp_copied [OF _ c assms(3), of p n] assms(4,5,6) migrateToNetbird_nodes [OF m] by (simp add: tree_below_def)
qed

section \<open>Properties\<close>

lemma console_rebrand:
  "handleRebrand [''console''] ([''etc'', ''netbird''] @ [''config.json'']) s =
     rebrand Err True ([''etc'', ''wiretrustee''] @ [''config.json'']) ([''etc'', ''netbird''] @ [''config.json''])
       [''etc'', ''wiretrustee''] [''etc'', ''netbird''] s"
  by (simp add: handleRebrand_def Let_def and_then_def rebrand_def)

lemma GetConfig_key:
  assumes "Client_GetConfig env (CfgStored c0) m a psk = (f', Ret c)"
  shows "f' = CfgStored c" "CC_PrivateKey c = CC_PrivateKey c0" "CC_WgIface c = CC_WgIface c0"
proof -
  have "ReadConfig env (CfgStored c0) m a (if psk = ''**********'' then None else Some psk) = (f', Ret c)"
    using assms by (simp add: Client_GetConfig_def)
  then show "f' = CfgStored c" "CC_PrivateKey c = CC_PrivateKey c0" "CC_WgIface c = CC_WgIface c0"
    by (elim ReadConfig_Ret; simp)+
qed

lemma console_config_key:
  assumes "honest_faults s" "tree_below [''etc'', ''wiretrustee''] s" "cs_configPath cs = [''etc'', ''netbird''] @ [''config.json'']"
    and "json_at (cs_Unmarshal cs) ([''etc'', ''wiretrustee''] @ [''config.json'']) s = JsonStored c0"
    and "node_at s ([''etc'', ''netbird''] @ [''config.json'']) = None"
    and "console_config cs s = Some ((s1, f), Ret config)"
  shows "f = CfgStored config" "CC_PrivateKey config = CC_PrivateKey c0" "CC_WgIface config = CC_WgIface c0"
proof -
  obtain m bs where old: "node_at s ([''etc'', ''wiretrustee''] @ [''config.json'']) = Some (File m bs)" "cs_Unmarshal cs bs = Ret c0"
    using assms(4) by (auto simp: json_at_def split: option.splits node.splits outcome.splits)
  have r: "handleRebrand [''console''] (cs_configPath cs) s = Some (s1, Ret ())"
    and g: "Client_GetConfig (cs_env cs) (config_view (json_at (cs_Unmarshal cs) (cs_configPath cs) s1))
      (cs_managementURL cs) (cs_adminURL cs) (cs_preSharedKey cs) = (f, Ret config)"
    using assms(6) by (auto simp: console_config_def Let_def split: option.splits outcome.splits prod.splits)
  have "same_node (File m bs) (node_at s1 (cs_configPath cs))"
    unfolding assms(3)
    by (rule rebrand_copied [OF r [unfolded assms(3) console_rebrand] assms(1) _ assms(2) _ old(1) assms(5)])
      (simp_all add: apart_def)
  then have "config_view (json_at (cs_Unmarshal cs) (cs_configPath cs) s1) = CfgStored c0" using old(2) by (simp add: json_at_def)
  from GetConfig_key [OF g [unfolded this]]
  show "f = CfgStored config" "CC_PrivateKey config = CC_PrivateKey c0" "CC_WgIface config = CC_WgIface c0" .
qed

lemma console_config_returns: "\<exists>sf r. console_config cs s = Some (sf, r)"
  using handleRebrand_returns [of "[''console'']" "cs_configPath cs" s]
  by (auto simp: console_config_def Let_def split: option.splits outcome.splits prod.splits)

lemma console_login_config:
  assumes "console_config cs s = Some (sf, r)"
  shows "\<exists>srv' q. console_login cs s srv = Some (sf, srv', q) \<and> (\<forall>config. q = Some (Ret config) \<longrightarrow> r = Ret config)"
  using assms by (cases r) (auto simp: console_login_def split: prod.splits option.splits outcome.splits)

lemma console_config_old:
  assumes "console_config cs s = Some ((s1, f), r)" "cs_configPath cs = [''etc'', ''netbird''] @ [''config.json'']"
  shows "node_at s1 ([''etc'', ''wiretrustee''] @ rel) = node_at s ([''etc'', ''wiretrustee''] @ rel)"
proof -
  obtain q where "handleRebrand [''console''] (cs_configPath cs) s = Some (s1, q)"
    using assms(1) by (auto simp: console_config_def Let_def split: option.splits outcome.splits prod.splits)
  then have "touches [''etc'', ''netbird''] s s1"
    unfolding assms(2) console_rebrand by (rule rebrand_touches [rotated]) simp
  then show ?thesis by (rule touches_apart) (simp add: apart_def)
qed

text \<open>
  C31: who upgrades from Wiretrustee stays the same peer. With the configuration of Wiretrustee in place
  and none of Netbird, the command without the daemon always gets past the migration, whatever fails
  in it; the old files are as they were; and if it logs in, it does so with the private key and the
  interface of the old configuration, which the new file holds from then on. No schedule of
  failures makes the client create a new key, unless a failure claims that the old file is missing.
\<close>

theorem upgrade_keeps_identity:
  assumes "honest_faults s" "tree_below [''etc'', ''wiretrustee''] s" "cs_configPath cs = [''etc'', ''netbird'', ''config.json'']"
    and "json_at (cs_Unmarshal cs) [''etc'', ''wiretrustee'', ''config.json''] s = JsonStored c0"
    and "node_at s [''etc'', ''netbird'', ''config.json''] = None"
  shows "\<exists>s1 f srv' r. console_login cs s srv = Some ((s1, f), srv', r) \<and>
    (\<forall>rel. node_at s1 ([''etc'', ''wiretrustee''] @ rel) = node_at s ([''etc'', ''wiretrustee''] @ rel)) \<and>
    (\<forall>config. r = Some (Ret config) \<longrightarrow>
       f = CfgStored config \<and> CC_PrivateKey config = CC_PrivateKey c0 \<and> CC_WgIface config = CC_WgIface c0)"
proof -
  obtain s1 f r where c: "console_config cs s = Some ((s1, f), r)" using console_config_returns by (metis surj_pair)
  have old: "\<forall>rel. node_at s1 ([''etc'', ''wiretrustee''] @ rel) = node_at s ([''etc'', ''wiretrustee''] @ rel)"
    using console_config_old [OF c] assms(3) by simp
  have new: "f = CfgStored config \<and> CC_PrivateKey config = CC_PrivateKey c0 \<and> CC_WgIface config = CC_WgIface c0"
    if "r = Ret config" for config
    using console_config_key [OF assms(1,2) _ _ _ c [unfolded that]] assms(3-5) by simp
  obtain srv' q where q: "console_login cs s srv = Some ((s1, f), srv', q)" "\<forall>config. q = Some (Ret config) \<longrightarrow> r = Ret config"
    using console_login_config [OF c, of srv] by (elim exE conjE)
  then have "\<forall>config. q = Some (Ret config) \<longrightarrow>
      f = CfgStored config \<and> CC_PrivateKey config = CC_PrivateKey c0 \<and> CC_WgIface config = CC_WgIface c0"
    using new by (intro allI impI) blast
  with q(1) old show ?thesis by (intro exI conjI)
qed

definition ex_fg :: "nat Fg_Env" where
  "ex_fg = \<lparr>fe_uuid_Parse = (\<lambda>_. Err (PlainError ''uuid'')), fe_mgm = de_mgm ex_up_env, fe_rpc = de_rpc ex_up_env,
     fe_dial = (\<lambda>_ _. Ret ()), fe_info = None\<rparr>"

definition ex_console :: "nat Console" where
  "ex_console = \<lparr>cs_configPath = [''etc'', ''netbird'', ''config.json''], cs_managementURL = [], cs_adminURL = [],
     cs_preSharedKey = [], cs_setupKey = ''key'', cs_Unmarshal = (\<lambda>_. Ret ex_client_config), cs_env = ex_cfg_env,
     cs_defaultURL = ex_url, cs_first = [(ex_fg, True)], cs_second = [(ex_fg, True)], cs_flow = ex_fg,
     cs_oauth = de_oauth ex_up_env, cs_http = de_device_http ex_up_env, cs_events = []\<rparr>"

theorem upgrade_keeps_identity_witness:
  "\<exists>s1 srv config. console_login ex_console (ex_old [NoFault, NoFault, NoFault]) 7 = Some ((s1, CfgStored config), srv, Some (Ret config)) \<and>
     CC_PrivateKey config = ''me'' \<and> node_at s1 [''etc'', ''wiretrustee'', ''config.json''] = Some (File 384 ''{}'')"
proof -
  let ?s = "ex_old [NoFault, NoFault, NoFault]"
  have "honest_faults ?s" "cs_configPath ex_console = [''etc'', ''netbird'', ''config.json'']"
    "json_at (cs_Unmarshal ex_console) [''etc'', ''wiretrustee'', ''config.json''] ?s = JsonStored ex_client_config"
    "node_at ?s [''etc'', ''netbird'', ''config.json''] = None"
    by (simp_all add: honest_faults_def ex_old_def ex_console_def json_at_def)
  from upgrade_keeps_identity [OF this(1) ex_old_tree this(2-4), of 7]
  obtain s1 f srv r where l: "console_login ex_console ?s 7 = Some ((s1, f), srv, r)"
    and old: "\<forall>rel. node_at s1 ([''etc'', ''wiretrustee''] @ rel) = node_at ?s ([''etc'', ''wiretrustee''] @ rel)"
    and new: "\<forall>config. r = Some (Ret config) \<longrightarrow> f = CfgStored config \<and> CC_PrivateKey config = CC_PrivateKey ex_client_config \<and>
      CC_WgIface config = CC_WgIface ex_client_config"
    by (elim exE conjE)
  have "map_option (\<lambda>(sf, srv, r). map_option is_ret r) (console_login ex_console ?s 7) = Some (Some True)" by code_simp
  with l obtain config where "r = Some (Ret config)" by (cases r) (auto elim: is_ret.elims)
  moreover from old [rule_format, of "[''config.json'']"]
  have "node_at s1 [''etc'', ''wiretrustee'', ''config.json''] = Some (File 384 ''{}'')" by (simp add: ex_old_def)
  ultimately show ?thesis using l new by (auto simp: ex_client_config_def)
qed

end
