(* ===== verification/Client_Ui.thy ===== *)
theory Client_Ui
  imports Client_Cmd
begin

text \<open>
  What the desktop application of the client does beside drawing, \<open>client/ui/client_ui.go\<close>: the
  entries of its menu and the window of settings as clients of the daemon, the state that is shown,
  and the file that keeps the application from being started twice. The tray and the window of
  settings are two processes with a \<open>serviceClient\<close> each. A gRPC call on an open connection reaches
  the daemon; dialling and the browser are arguments.
\<close>

section \<open>State\<close>

record Settings_Form =
  form_MngURL :: string
  form_AdminURL :: string
  form_ConfigFile :: string
  form_LogFile :: string
  form_PreSharedKey :: string

record Tray =
  tray_connected :: bool
  tray_title :: string
  tray_up :: bool
  tray_down :: bool

record serviceClient =
  ui_conn :: bool
  ui_managementURL :: string
  ui_preSharedKey :: string
  ui_adminURL :: string
  ui_showSettings :: bool
  ui_form :: Settings_Form
  ui_window :: bool
  ui_tray :: Tray

text \<open>The daemon hides the key behind asterisks, which it takes for no change.\<close>

definition hidden_key :: string where
  "hidden_key = ''**********''"

section \<open>The connection and the settings\<close>

definition getSrvClient :: "unit outcome \<Rightarrow> serviceClient \<Rightarrow> serviceClient \<times> unit outcome" where
  "getSrvClient dialled ui =
     (if ui_conn ui then (ui, Ret ())
      else case dialled of
             Err e \<Rightarrow> (ui, Err (PlainError (''dial service: '' @ err_string e)))
           | Panic p \<Rightarrow> (ui, Panic p)
           | Ret u \<Rightarrow> (ui\<lparr>ui_conn := True\<rparr>, Ret ()))"

definition show_config :: "GetConfigResponse \<Rightarrow> serviceClient \<Rightarrow> serviceClient" where
  "show_config cfg ui0 =
     (let ui1 = (if GC_ManagementUrl cfg \<noteq> [] then ui0\<lparr>ui_managementURL := GC_ManagementUrl cfg\<rparr> else ui0);
          ui2 = (if GC_AdminURL cfg \<noteq> [] then ui1\<lparr>ui_adminURL := GC_AdminURL cfg\<rparr> else ui1);
          ui = ui2\<lparr>ui_preSharedKey := GC_PreSharedKey cfg\<rparr>
      in if ui_showSettings ui then
           ui\<lparr>ui_form := \<lparr>form_MngURL = ui_managementURL ui, form_AdminURL = ui_adminURL ui, form_ConfigFile = GC_ConfigFile cfg,
             form_LogFile = GC_LogFile cfg, form_PreSharedKey = GC_PreSharedKey cfg\<rparr>\<rparr>
         else ui)"

definition getSrvConfig :: "unit outcome \<Rightarrow> 's Daemon \<Rightarrow> serviceClient \<Rightarrow> serviceClient" where
  "getSrvConfig dialled d ui0 =
     (case getSrvClient dialled (ui0\<lparr>ui_managementURL := ''https://api.wiretrustee.com:33073'',
             ui_adminURL := ''https://app.netbird.io''\<rparr>) of
        (ui, Ret u) \<Rightarrow> show_config (Daemon_GetConfig d) ui
      | (ui, _) \<Rightarrow> ui)"

definition onTrayReady :: Tray where
  "onTrayReady = \<lparr>tray_connected = False, tray_title = ''Disconnected'', tray_up = True, tray_down = False\<rparr>"

definition newServiceClient :: "unit outcome \<Rightarrow> 's Daemon \<Rightarrow> bool \<Rightarrow> serviceClient" where
  "newServiceClient dialled d showSettings =
     (let ui = \<lparr>ui_conn = False, ui_managementURL = [], ui_preSharedKey = [], ui_adminURL = [], ui_showSettings = showSettings,
            ui_form = \<lparr>form_MngURL = [], form_AdminURL = [], form_ConfigFile = [], form_LogFile = [], form_PreSharedKey = []\<rparr>,
            ui_window = False, ui_tray = onTrayReady\<rparr>
      in if showSettings then (getSrvConfig dialled d ui)\<lparr>ui_window := True\<rparr> else ui)"

text \<open>
  \<open>OnSubmit\<close> of the form: a changed setting makes the daemon log in and start again. The response of
  the login is not looked at. \<open>ParseKey\<close> is the test of the Wireguard library for a key.
\<close>

definition OnSubmit ::
  "(string \<Rightarrow> bool) \<Rightarrow> unit outcome \<Rightarrow> 's Daemon_Env \<Rightarrow> int \<Rightarrow> serviceClient \<times> 's Daemon \<Rightarrow> (serviceClient \<times> 's Daemon) \<times> unit outcome" where
  "OnSubmit ParseKey dialled env now c =
     (let ui = fst c; d = snd c; f = ui_form ui
      in if form_PreSharedKey f \<noteq> [] \<and> form_PreSharedKey f \<noteq> hidden_key \<and> \<not> ParseKey (form_PreSharedKey f) then
           ((ui, d), Err (PlainError ''Invalid Pre-shared Key Value''))
         else if ui_managementURL ui \<noteq> form_MngURL f \<or> ui_preSharedKey ui \<noteq> form_PreSharedKey f \<or> ui_adminURL ui \<noteq> form_AdminURL f then
           (case getSrvClient dialled (ui\<lparr>ui_managementURL := form_MngURL f, ui_preSharedKey := form_PreSharedKey f,
                   ui_adminURL := form_AdminURL f, ui_window := False\<rparr>) of
              (ui', Ret u) \<Rightarrow>
                (case Daemon_Login env now \<lparr>DLogin_SetupKey = [], DLogin_PreSharedKey = form_PreSharedKey f,
                        DLogin_ManagementUrl = form_MngURL f, DLogin_AdminURL = form_AdminURL f\<rparr> d of
                   (d1, r) \<Rightarrow>
                     (case on_the_wire r of
                        Err e \<Rightarrow> ((ui', d1), Err e)
                      | Panic p \<Rightarrow> ((ui', d1), Panic p)
                      | Ret resp \<Rightarrow> (case Up d1 of (d2, q) \<Rightarrow> ((ui', d2), on_the_wire q))))
            | (ui', q) \<Rightarrow> ((ui', d), q))
         else ((ui\<lparr>ui_window := False\<rparr>, d), Ret ()))"

section \<open>The menu\<close>

text \<open>\<open>login\<close> sends an empty request; \<open>opened\<close> is what the browser does with the address.\<close>

definition empty_request :: Daemon_LoginRequest where
  "empty_request = \<lparr>DLogin_SetupKey = [], DLogin_PreSharedKey = [], DLogin_ManagementUrl = [], DLogin_AdminURL = []\<rparr>"

definition ui_login ::
  "(string \<Rightarrow> unit outcome) \<Rightarrow> 's Daemon_Env \<times> int \<Rightarrow> 's Daemon_Env \<times> int \<Rightarrow> 's Daemon \<Rightarrow> 's Daemon \<times> unit outcome option" where
  "ui_login opened l w d =
     (case Daemon_Login (fst l) (snd l) empty_request d of
        (d1, r) \<Rightarrow>
          (case on_the_wire r of
             Err e \<Rightarrow> (d1, Some (Err e))
           | Panic p \<Rightarrow> (d1, Some (Panic p))
           | Ret loginResp \<Rightarrow>
               if DResp_NeedsSSOLogin loginResp then
                 (case opened (DResp_VerificationURIComplete loginResp) of
                    Ret u \<Rightarrow>
                      (case WaitSSOLogin (fst w) (snd w) (DResp_UserCode loginResp) d1 of
                         None \<Rightarrow> (d1, None)
                       | Some (d2, q) \<Rightarrow> (d2, Some (on_the_wire q)))
                  | q \<Rightarrow> (d1, Some q))
               else (d1, Some (Ret ()))))"

definition menuUpClick ::
  "unit outcome \<Rightarrow> (string \<Rightarrow> unit outcome) \<Rightarrow> 's Daemon_Env \<times> int \<Rightarrow> 's Daemon_Env \<times> int \<Rightarrow> serviceClient \<times> 's Daemon \<Rightarrow>
     (serviceClient \<times> 's Daemon) \<times> unit outcome option" where
  "menuUpClick dialled opened l w c =
     (case getSrvClient dialled (fst c) of
        (ui, Ret u) \<Rightarrow>
          (case ui_login opened l w (snd c) of
             (d, Some (Ret u)) \<Rightarrow>
               (case on_the_wire (Daemon_Status d) of
                  Err e \<Rightarrow> ((ui, d), Some (Err e))
                | Panic p \<Rightarrow> ((ui, d), Some (Panic p))
                | Ret status \<Rightarrow>
                    if status = StatusType_text Status_Connected then ((ui, d), Some (Ret ()))
                    else (case Up d of (d', q) \<Rightarrow> ((ui, d'), Some (on_the_wire q))))
           | (d, q) \<Rightarrow> ((ui, d), q))
      | (ui, q) \<Rightarrow> ((ui, snd c), Some q))"

definition menuDownClick ::
  "unit outcome \<Rightarrow> serviceClient \<times> 's Daemon \<Rightarrow> (serviceClient \<times> 's Daemon) \<times> unit outcome" where
  "menuDownClick dialled c =
     (case getSrvClient dialled (fst c) of
        (ui, Ret u) \<Rightarrow>
          (case on_the_wire (Daemon_Status (snd c)) of
             Err e \<Rightarrow> ((ui, snd c), Err e)
           | Panic p \<Rightarrow> ((ui, snd c), Panic p)
           | Ret status \<Rightarrow>
               if status \<noteq> StatusType_text Status_Connected then ((ui, snd c), Ret ())
               else (case Down (snd c) of (d', q) \<Rightarrow> ((ui, d'), on_the_wire q)))
      | (ui, q) \<Rightarrow> ((ui, snd c), q))"

text \<open>\<open>updateStatus\<close>: one round on the daemon as it is then; the rounds are repeated by the backoff.\<close>

definition show_status :: "'s Daemon \<Rightarrow> serviceClient \<Rightarrow> serviceClient \<times> unit outcome" where
  "show_status d ui =
     (case on_the_wire (Daemon_Status d) of
        Err e \<Rightarrow> (ui, Err e)
      | Panic p \<Rightarrow> (ui, Panic p)
      | Ret status \<Rightarrow>
          (ui\<lparr>ui_tray :=
             (if status = StatusType_text Status_Connected
              then \<lparr>tray_connected = True, tray_title = ''Connected'', tray_up = False, tray_down = True\<rparr>
              else \<lparr>tray_connected = False, tray_title = ''Disconnected'', tray_up = True, tray_down = False\<rparr>)\<rparr>, Ret ()))"

definition updateStatus :: "unit outcome \<Rightarrow> ('s Daemon \<times> bool) list \<Rightarrow> serviceClient \<Rightarrow> serviceClient \<times> unit outcome option" where
  "updateStatus dialled rounds ui =
     (case getSrvClient dialled ui of
        (ui', Ret u) \<Rightarrow> WithBackOff show_status rounds ui'
      | (ui', q) \<Rightarrow> (ui', Some q))"

section \<open>One application at a time\<close>

text \<open>
  \<open>strconv.Atoi\<close> on a decimal number with an optional sign, within 64 bits. \<open>alive\<close> tells whether a
  process may be signalled.
\<close>

definition Atoi :: "string \<Rightarrow> int option" where
  "Atoi s =
     (let neg = (s \<noteq> [] \<and> hd s = CHR ''-'');
          ds = (if s \<noteq> [] \<and> (hd s = CHR ''-'' \<or> hd s = CHR ''+'') then tl s else s);
          n = (if neg then - int (undec ds) else int (undec ds))
      in if ds \<noteq> [] \<and> list_all (\<lambda>c. 48 \<le> (of_char c :: nat) \<and> (of_char c :: nat) \<le> 57) ds \<and> - (2 ^ 63) \<le> n \<and> n < 2 ^ 63
         then Some n else None)"

definition pidFile :: "path \<Rightarrow> path" where
  "pidFile TempDir = TempDir @ [''wiretrustee-ui.pid'']"

definition read_file :: "path \<Rightarrow> OS \<Rightarrow> OS \<times> string outcome" where
  "read_file p s = on_ret (os_Open p s) (\<lambda>s e. (s, Err e)) (\<lambda>s u. os_ReadAll p s)"

definition checkPIDFile :: "path \<Rightarrow> (int \<Rightarrow> bool) \<Rightarrow> nat \<Rightarrow> OS \<Rightarrow> OS \<times> unit outcome" where
  "checkPIDFile TempDir alive me s =
     (case read_file (pidFile TempDir) s of
        (s1, r) \<Rightarrow>
          (case (case r of Ret piddata \<Rightarrow> Atoi piddata | _ \<Rightarrow> None) of
             Some pid \<Rightarrow>
               if alive pid then (s1, Err (PlainError (''process already exists: '' @ int_string pid)))
               else os_WriteFile (pidFile TempDir) (dec me) 436 s1
           | None \<Rightarrow> os_WriteFile (pidFile TempDir) (dec me) 436 s1))"

section \<open>Properties\<close>

lemma login_deferred_status: "Daemon_Status (login_deferred d) \<noteq> Ret ''Connected''"
  by (cases "cs_status (dm_state d)")
    (auto simp: login_deferred_def Daemon_Status_def state_Status_def set_status_def state_Set_def split: option.splits)

lemma Login_status: "Daemon_Login env now msg d = (d', r) \<Longrightarrow> Daemon_Status d' \<noteq> Ret ''Connected''"
  using login_deferred_status by (auto simp: Daemon_Login_def Let_def split: prod.splits)

lemma WaitSSOLogin_status: "WaitSSOLogin env now code d = Some (d', Ret ()) \<Longrightarrow> Daemon_Status d' \<noteq> Ret ''Connected''"
  using login_deferred_status by (auto simp: WaitSSOLogin_def Let_def split: option.splits if_splits)

lemma ui_login_ends:
  assumes "daemon_run d" "CtxDone e \<in> set (de_wait (fst w))"
  shows "\<exists>d' q. ui_login opened l w d = (d', Some q) \<and> daemon_run d' \<and> (q = Ret () \<longrightarrow> Daemon_Status d' \<noteq> Ret ''Connected'')"
proof -
  obtain d1 r where l: "Daemon_Login (fst l) (snd l) empty_request d = (d1, r)" by fastforce
  have run: "daemon_run d1" by (rule daemon_run.login [OF assms(1) l])
  note st = Login_status [OF l]
  show ?thesis
  proof (cases "\<exists>resp u. r = Ret resp \<and> DResp_NeedsSSOLogin resp \<and> opened (DResp_VerificationURIComplete resp) = Ret u")
    case True
    then obtain resp u where resp: "r = Ret resp" "DResp_NeedsSSOLogin resp" "opened (DResp_VerificationURIComplete resp) = Ret u"
      by blast
    obtain d2 q where q: "WaitSSOLogin (fst w) (snd w) (DResp_UserCode resp) d1 = Some (d2, q)"
      using WaitSSOLogin_returns [OF assms(2)] by (metis option.exhaust surj_pair)
    have "ui_login opened l w d = (d2, Some (on_the_wire q))" using l q resp by (simp add: ui_login_def)
    moreover have "daemon_run d2" by (rule daemon_run.wait [OF run q])
    moreover have "on_the_wire q = Ret () \<longrightarrow> Daemon_Status d2 \<noteq> Ret ''Connected''"
      using WaitSSOLogin_status [of "fst w" "snd w" "DResp_UserCode resp" d1 d2] q by (auto simp: on_the_wire_Ret)
    ultimately show ?thesis by simp
  next
    case False
    then have "\<exists>q. ui_login opened l w d = (d1, Some q)"
      using l by (cases r rule: on_the_wire.cases) (auto simp: ui_login_def split: outcome.splits)
    then show ?thesis using run st by auto
  qed
qed

text \<open>
  \<open>Connect\<close> in the menu. The click ends when the browser's sign-on is over or has timed out; if it
  succeeds, exactly one client runs on a context that is not cancelled, with the configuration of the
  daemon. It does so also when the daemon was connected before: the login that comes first has
  stopped the client, so that the test for an existing connection never holds.
\<close>

theorem connect_click:
  assumes "daemon_run d" "CtxDone e \<in> set (de_wait (fst w))"
  shows "\<exists>ui' d' q. menuUpClick dialled opened l w (ui, d) = ((ui', d'), Some q) \<and> daemon_run d' \<and>
    (q = Ret () \<longrightarrow> ui_conn ui' \<and>
       (\<exists>c config. filter (\<lambda>(c, config). c \<notin> set (dm_cancelled d')) (dm_running d') = [(c, config)] \<and>
          dm_actCancel d' = Some c \<and> dm_config d' = Some config))"
proof (cases "snd (getSrvClient dialled ui)")
  case (Ret u)
  then obtain ui' where ui': "getSrvClient dialled ui = (ui', Ret u)" by (metis prod.collapse)
  then have conn: "ui_conn ui'" by (auto simp: getSrvClient_def split: if_splits outcome.splits)
  obtain d1 q1 where l: "ui_login opened l w d = (d1, Some q1)" "daemon_run d1" "q1 = Ret () \<longrightarrow> Daemon_Status d1 \<noteq> Ret ''Connected''"
    using ui_login_ends [OF assms] by blast
  obtain d2 q2 where u: "Up d1 = (d2, q2)" by fastforce
  have run2: "daemon_run d2" by (rule daemon_run.up [OF l(2) u])
  show ?thesis
  proof (cases "q1 = Ret () \<and> is_ret (on_the_wire (Daemon_Status d1))")
    case True
    then obtain status where "on_the_wire (Daemon_Status d1) = Ret status" by (auto elim: is_ret.elims)
    then have "menuUpClick dialled opened l w (ui, d) = ((ui', d2), Some (on_the_wire q2))"
      using ui' l True u by (auto simp: menuUpClick_def on_the_wire_Ret)
    moreover have "on_the_wire q2 = Ret () \<longrightarrow>
        (\<exists>c config. filter (\<lambda>(c, config). c \<notin> set (dm_cancelled d2)) (dm_running d2) = [(c, config)] \<and>
          dm_actCancel d2 = Some c \<and> dm_config d2 = Some config)"
      using Up_live [OF l(2)] u by (auto simp: on_the_wire_Ret)
    ultimately show ?thesis using run2 conn by auto
  next
    case False
    then have "\<exists>q. menuUpClick dialled opened l w (ui, d) = ((ui', d1), Some q) \<and> q \<noteq> Ret ()"
      using ui' l(1) by (cases q1; cases "on_the_wire (Daemon_Status d1)") (auto simp: menuUpClick_def)
    then show ?thesis using l(2) by auto
  qed
next
  case (Err e)
  then obtain ui' where "getSrvClient dialled ui = (ui', Err e)" by (metis prod.collapse)
  then show ?thesis using assms(1) by (simp add: menuUpClick_def)
next
  case (Panic p)
  then obtain ui' where "getSrvClient dialled ui = (ui', Panic p)" by (metis prod.collapse)
  then show ?thesis using assms(1) by (simp add: menuUpClick_def)
qed

definition ex_ui :: serviceClient where
  "ex_ui = newServiceClient (Ret ()) ex_daemon False"

theorem connect_click_witness:
  "\<exists>ui d c config. menuUpClick (Ret ()) (\<lambda>_. Ret ()) (ex_up_env, 0) (ex_up_env, 0) (ex_ui, ex_daemon) = ((ui, d), Some (Ret ())) \<and>
     filter (\<lambda>(c, config). c \<notin> set (dm_cancelled d)) (dm_running d) = [(c, config)]"
proof -
  have "snd (menuUpClick (Ret ()) (\<lambda>_. Ret ()) (ex_up_env, 0) (ex_up_env, 0) (ex_ui, ex_daemon)) = Some (Ret ())" by code_simp
  moreover have "CtxDone (PlainError ''timeout'') \<in> set (de_wait (fst (ex_up_env, 0 :: int)))" by (simp add: ex_up_env_def)
  ultimately show ?thesis
    using connect_click [OF ex_daemon_run, of "PlainError ''timeout''" "(ex_up_env, 0)" "Ret ()" "\<lambda>_. Ret ()" "(ex_up_env, 0)" ex_ui]
    by fastforce
qed

text \<open>The configuration a login leaves behind.\<close>

lemma login_with_config:
  "login_with env now msg config d = (d', r) \<Longrightarrow> dm_file d' = dm_file d \<and> dm_config d' = dm_config d"
proof -
  have a: "loginAttempt env sk jwt e = (e', q) \<Longrightarrow> dm_file e' = dm_file e \<and> dm_config e' = dm_config e" for sk jwt e e' q
    by (auto simp: loginAttempt_def split: option.splits prod.splits outcome.splits)
  have rq: "request_device env now h e = (e', q) \<Longrightarrow> dm_file e' = dm_file e \<and> dm_config e' = dm_config e" for h e e' q
    by (auto simp: request_device_def set_status_def split: outcome.splits)
  have s: "sso_login env now config e = (e', q) \<Longrightarrow> dm_file e' = dm_file e \<and> dm_config e' = dm_config e" for e e' q
    by (auto simp: sso_login_def Let_def set_status_def split: outcome.splits if_splits option.splits dest!: rq)
  show "login_with env now msg config d = (d', r) \<Longrightarrow> dm_file d' = dm_file d \<and> dm_config d' = dm_config d"
    by (auto simp: login_with_def Let_def set_status_def split: outcome.splits if_splits option.splits prod.splits dest!: a s)
qed

lemma login_deferred_config [simp]: "dm_file (login_deferred d) = dm_file d" "dm_config (login_deferred d) = dm_config d"
  by (auto simp: login_deferred_def set_status_def split: outcome.splits)

lemma Login_config:
  assumes "Daemon_Login env now msg d = (d', Ret resp)" "dm_file d = CfgStored c0"
  obtains c where "dm_file d' = CfgStored c" "dm_config d' = Some c" "CC_PrivateKey c = CC_PrivateKey c0"
    "CC_PreSharedKey c = (if DLogin_PreSharedKey msg = hidden_key then CC_PreSharedKey c0 else DLogin_PreSharedKey msg)"
proof -
  let ?d = "update_urls msg (replace_context d)"
  have f: "dm_file ?d = CfgStored c0"
    using assms(2) by (simp add: update_urls_def replace_context_def new_context_def split: option.splits)
  obtain f' c e where g: "Client_GetConfig (de_config env) (CfgStored c0) (dm_managementURL ?d) (dm_adminURL ?d) (DLogin_PreSharedKey msg) = (f', Ret c)"
    and w: "login_with env now msg c (?d\<lparr>dm_file := f', dm_config := Some c\<rparr>) = (e, Ret resp)" and d': "d' = login_deferred e"
    using assms(1) f by (auto simp: Daemon_Login_def Let_def split: prod.splits outcome.splits)
  have "ReadConfig (de_config env) (CfgStored c0) (dm_managementURL ?d) (dm_adminURL ?d)
      (if DLogin_PreSharedKey msg = hidden_key then None else Some (DLogin_PreSharedKey msg)) = (f', Ret c)"
    using g by (simp add: Client_GetConfig_def hidden_key_def)
  then show thesis
    using that login_with_config [OF w] d' by (elim ReadConfig_Ret) (auto split: if_splits)
qed

lemma Up_config: "Up d = (d', r) \<Longrightarrow> dm_file d' = dm_file d \<and> dm_config d' = dm_config d"
  by (auto simp: Up_def Let_def run_client_def replace_context_def new_context_def split: outcome.splits if_splits option.splits)

lemma OnSubmit_changed:
  assumes "OnSubmit ParseKey dialled env now (ui, d) = ((ui', d'), Ret ())" "d' \<noteq> d"
  obtains d1 resp where "Daemon_Login env now \<lparr>DLogin_SetupKey = [], DLogin_PreSharedKey = form_PreSharedKey (ui_form ui),
      DLogin_ManagementUrl = form_MngURL (ui_form ui), DLogin_AdminURL = form_AdminURL (ui_form ui)\<rparr> d = (d1, Ret resp)"
    "Up d1 = (d', Ret ())"
proof -
  obtain d1 r where l: "Daemon_Login env now \<lparr>DLogin_SetupKey = [], DLogin_PreSharedKey = form_PreSharedKey (ui_form ui),
      DLogin_ManagementUrl = form_MngURL (ui_form ui), DLogin_AdminURL = form_AdminURL (ui_form ui)\<rparr> d = (d1, r)" by fastforce
  obtain d2 q where u: "Up d1 = (d2, q)" by fastforce
  from assms l u have "d2 = d' \<and> on_the_wire q = Ret () \<and> is_ret (on_the_wire r)"
    by (simp add: OnSubmit_def Let_def split: if_splits prod.splits outcome.splits)
  then show thesis using that l u by (cases r rule: on_the_wire.cases) (auto simp: on_the_wire_Ret)
qed

lemma settings_shown:
  fixes d :: "'s Daemon"
  defines "ui \<equiv> newServiceClient (Ret ()) d True"
  shows "ui_managementURL ui = form_MngURL (ui_form ui)" "ui_adminURL ui = form_AdminURL (ui_form ui)"
    "ui_preSharedKey ui = form_PreSharedKey (ui_form ui)" "form_PreSharedKey (ui_form ui) = GC_PreSharedKey (Daemon_GetConfig d)"
    "form_PreSharedKey (ui_form ui) = [] \<or> form_PreSharedKey (ui_form ui) = hidden_key"
  unfolding ui_def
  by (simp_all add: newServiceClient_def getSrvConfig_def getSrvClient_def show_config_def Let_def)
    (simp add: Daemon_GetConfig_def Let_def hidden_key_def split: option.splits)

text \<open>
  The window of settings. Saved as it was opened, it leaves the daemon alone, whatever the daemon
  is. Saved with a change, and if the daemon could log in and start, the configuration in use is the
  one in the file, with the key of the form, or with the old key if the form still has the
  asterisks; the identity of the peer stays; exactly one client runs, with that configuration; and
  opening the window again shows asterisks if and only if there is a key.
\<close>

theorem settings_saved:
  assumes "daemon_run d" "dm_file d = CfgStored c0"
  shows "OnSubmit ParseKey dialled env now (newServiceClient (Ret ()) d True, d) =
      (((newServiceClient (Ret ()) d True)\<lparr>ui_window := False\<rparr>, d), Ret ()) \<and>
    (\<forall>ui ui' d'. OnSubmit ParseKey dialled env now (ui, d) = ((ui', d'), Ret ()) \<longrightarrow> d' \<noteq> d \<longrightarrow>
       (\<exists>c k. dm_file d' = CfgStored c \<and> dm_config d' = Some c \<and> CC_PrivateKey c = CC_PrivateKey c0 \<and>
          CC_PreSharedKey c = (if form_PreSharedKey (ui_form ui) = hidden_key then CC_PreSharedKey c0 else form_PreSharedKey (ui_form ui)) \<and>
          filter (\<lambda>(c, config). c \<notin> set (dm_cancelled d')) (dm_running d') = [(k, c)] \<and>
          form_PreSharedKey (ui_form (newServiceClient (Ret ()) d' True)) = (if CC_PreSharedKey c \<noteq> [] then hidden_key else [])))"
proof (intro conjI allI impI)
  show "OnSubmit ParseKey dialled env now (newServiceClient (Ret ()) d True, d) =
      (((newServiceClient (Ret ()) d True)\<lparr>ui_window := False\<rparr>, d), Ret ())"
    using settings_shown [of d] by (auto simp: OnSubmit_def Let_def)
next
  fix ui ui' :: serviceClient and d'
  let ?f = "ui_form ui"
  let ?msg = "\<lparr>DLogin_SetupKey = [], DLogin_PreSharedKey = form_PreSharedKey ?f, DLogin_ManagementUrl = form_MngURL ?f,
    DLogin_AdminURL = form_AdminURL ?f\<rparr>"
  assume s: "OnSubmit ParseKey dialled env now (ui, d) = ((ui', d'), Ret ())" "d' \<noteq> d"
  obtain d1 resp where l: "Daemon_Login env now ?msg d = (d1, Ret resp)" and u: "Up d1 = (d', Ret ())"
    using OnSubmit_changed [OF s] .
  obtain c where c: "dm_file d1 = CfgStored c" "dm_config d1 = Some c" "CC_PrivateKey c = CC_PrivateKey c0"
    "CC_PreSharedKey c = (if form_PreSharedKey ?f = hidden_key then CC_PreSharedKey c0 else form_PreSharedKey ?f)"
    by (rule Login_config [OF l assms(2), unfolded Daemon_LoginRequest.select_convs])
  obtain k config where live: "filter (\<lambda>(c, config). c \<notin> set (dm_cancelled d')) (dm_running d') = [(k, config)]" "dm_config d' = Some config"
    using Up_live [OF daemon_run.login [OF assms(1) l] u] by blast
  have d': "dm_file d' = CfgStored c" "dm_config d' = Some c" using Up_config [OF u] c by auto
  have "form_PreSharedKey (ui_form (newServiceClient (Ret ()) d' True)) = (if CC_PreSharedKey c \<noteq> [] then hidden_key else [])"
    using settings_shown(4) [of d'] d' by (simp add: Daemon_GetConfig_def Let_def hidden_key_def)
  then show "\<exists>c k. dm_file d' = CfgStored c \<and> dm_config d' = Some c \<and> CC_PrivateKey c = CC_PrivateKey c0 \<and>
      CC_PreSharedKey c = (if form_PreSharedKey ?f = hidden_key then CC_PreSharedKey c0 else form_PreSharedKey ?f) \<and>
      filter (\<lambda>(c, config). c \<notin> set (dm_cancelled d')) (dm_running d') = [(k, c)] \<and>
      form_PreSharedKey (ui_form (newServiceClient (Ret ()) d' True)) = (if CC_PreSharedKey c \<noteq> [] then hidden_key else [])"
    using c d' live by (intro exI [of _ c] exI [of _ k]) simp
qed

definition ex_edited :: serviceClient where
  "ex_edited = (let ui = newServiceClient (Ret ()) ex_daemon True in ui\<lparr>ui_form := (ui_form ui)\<lparr>form_PreSharedKey := ''new''\<rparr>\<rparr>)"

theorem settings_saved_witness:
  "\<exists>ui d c k. OnSubmit (\<lambda>_. True) (Ret ()) ex_up_env 0 (ex_edited, ex_daemon) = ((ui, d), Ret ()) \<and>
     dm_config d = Some c \<and> CC_PreSharedKey c = ''new'' \<and> filter (\<lambda>(c, config). c \<notin> set (dm_cancelled d)) (dm_running d) = [(k, c)]"
proof -
  let ?c = "OnSubmit (\<lambda>_. True) (Ret ()) ex_up_env 0 (ex_edited, ex_daemon)"
  obtain ui d q where c: "?c = ((ui, d), q)" by (metis surj_pair)
  have "snd ?c = Ret ()" "length (dm_cancelled (snd (fst ?c))) \<noteq> length (dm_cancelled ex_daemon)" by code_simp+
  then have q: "q = Ret ()" "d \<noteq> ex_daemon" using c by auto
  have "dm_file ex_daemon = CfgStored ex_client_config" "form_PreSharedKey (ui_form ex_edited) = ''new''"
    by (simp_all add: ex_daemon_def Daemon_Start_def Daemon_New_def CtxInitState_def state_Status_def new_context_def ReadConfig_plain
        run_client_def ex_edited_def Let_def)
  with settings_saved [OF ex_daemon_run this(1), of "\<lambda>_. True" "Ret ()" ex_up_env 0] c q show ?thesis
    by (fastforce simp: hidden_key_def)
qed

text \<open>
  \<open>Connect\<close> deletes the pre-shared key: the login of the menu sends an empty key, which the daemon
  takes for the new one.
\<close>

theorem connect_deletes_key:
  assumes "dm_file d = CfgStored c0" "Daemon_Login env now empty_request d = (d', Ret resp)"
  shows "\<exists>c. dm_file d' = CfgStored c \<and> CC_PreSharedKey c = []"
  using Login_config [OF assms(2,1)] by (auto simp: empty_request_def hidden_key_def)

text \<open>
  The file of the application. When the file system works, a start writes the number of its process
  so that every later start is refused as long as the process lives, and not afterwards.
\<close>

lemma Atoi_dec: "int n < 2 ^ 63 \<Longrightarrow> Atoi (dec n) = Some (int n)"
proof -
  assume n: "int n < 2 ^ 63"
  obtain c t where ct: "dec n = c # t" using dec_ne by (metis list.exhaust)
  have "48 \<le> (of_char c :: nat)" using dec_digits [of c n] ct by simp
  then have "c \<noteq> CHR ''-''" "c \<noteq> CHR ''+''" by auto
  moreover have "list_all (\<lambda>c. 48 \<le> (of_char c :: nat) \<and> (of_char c :: nat) \<le> 57) (dec n)"
    using dec_digits by (auto simp: list_all_iff)
  moreover have "- (2 ^ 63) \<le> int n" by simp
  ultimately show ?thesis using n undec_dec [of n] by (simp add: Atoi_def ct Let_def)
qed

lemma put_node_faults [simp]: "os_faults (put_node p n s) = os_faults s"
  by (simp add: put_node_def)

theorem one_application:
  assumes "checkPIDFile tmp alive me s = (s', Ret ())" "os_faults s = []" "int me < 2 ^ 63"
  shows "checkPIDFile tmp alive' me' s' =
    (if alive' (int me) then (s', Err (PlainError (''process already exists: '' @ dec me)))
     else os_WriteFile (pidFile tmp) (dec me') 436 s')"
proof -
  have "os_faults s' = [] \<and> (\<exists>m. node_at s' (pidFile tmp) = Some (File m (dec me)))"
    using assms(1,2) by (auto simp: checkPIDFile_def read_file_def os_Open_def os_ReadAll_def os_WriteFile_def os_call_def store_file_def
        split: option.splits node.splits if_splits)
  then show ?thesis using Atoi_dec [OF assms(3)]
    by (auto simp: checkPIDFile_def read_file_def os_Open_def os_ReadAll_def os_call_def int_string_def)
qed

end
