(* ===== verification/Service_Control.thy ===== *)
theory Service_Control
  imports Client_Cmd
begin

text \<open>
  The daemon as a service of the operating system: \<open>client/cmd/service.go\<close>, \<open>service_controller.go\<close> and
  \<open>service_installer.go\<close>. The service manager (\<open>kardianos/service\<close>), the log and the socket are arguments;
  starting the program gives the address it listens on, and the goroutine it starts gives the daemon.
\<close>

section \<open>The program\<close>

text \<open>\<open>strings.Split(s, "://")\<close>.\<close>

fun split_scheme :: "string \<Rightarrow> string list" where
  "split_scheme [] = [[]]"
| "split_scheme (c # s) =
     (if take 3 (c # s) = ''://'' then [] # split_scheme (drop 2 s)
      else (case split_scheme s of [] \<Rightarrow> [[c]] | w # ws \<Rightarrow> (c # w) # ws))"

definition remove_socket :: "path \<Rightarrow> OS \<Rightarrow> OS" where
  "remove_socket p s =
     (case os_Stat p s of
        (s1, Ret (File m bs)) \<Rightarrow> fst (os_Remove p s1)
      | (s1, _) \<Rightarrow> s1)"

text \<open>
  \<open>Start\<close>: an address without the separator has no second piece, which is read before anything
  checks for it.
\<close>

definition program_Start ::
  "(string \<Rightarrow> path) \<Rightarrow> (string \<Rightarrow> string \<Rightarrow> unit outcome) \<Rightarrow> string \<Rightarrow> OS \<Rightarrow> OS \<times> (string \<times> string) outcome" where
  "program_Start to_path listen daemonAddr s =
     (case split_scheme daemonAddr of
        [] \<Rightarrow> (s, Panic IndexOutOfRange)
      | protocol # rest \<Rightarrow>
          if protocol \<noteq> ''unix'' \<and> protocol \<noteq> ''tcp'' then
            (s, Err (PlainError (''unsupported daemon address protocol: '' @ protocol)))
          else (case rest of
                  [] \<Rightarrow> (s, Panic IndexOutOfRange)
                | address # others \<Rightarrow>
                    (let s1 = (if protocol = ''unix'' then remove_socket (to_path address) s else s)
                     in case listen protocol address of
                          Err e \<Rightarrow> (s1, Err (PlainError (''failed to listen daemon interface: '' @ err_string e)))
                        | Panic p \<Rightarrow> (s1, Panic p)
                        | Ret u \<Rightarrow> (s1, Ret (protocol, address)))))"

text \<open>
  The goroutine: the permissions of the socket, then the daemon. \<open>None\<close> is a goroutine that has given
  up, after which nobody serves; \<open>chmod\<close> is the result of changing the permissions.
\<close>

definition serve_daemon ::
  "'s Daemon_Env \<Rightarrow> unit outcome \<Rightarrow> string \<Rightarrow> string \<Rightarrow> string \<Rightarrow> string \<Rightarrow> string \<Rightarrow> config_file \<Rightarrow> 's \<Rightarrow>
     ('s Daemon \<times> unit outcome) option" where
  "serve_daemon env chmod protocol managementURL adminURL configPath logFile file remote =
     (if protocol = ''unix'' \<and> chmod \<noteq> Ret () then None
      else (case Daemon_Start env (Daemon_New managementURL adminURL configPath logFile file remote) of
              (d, Err e) \<Rightarrow> Some (d, log_Fatal e)
            | (d, Panic p) \<Rightarrow> Some (d, Panic p)
            | (d, Ret u) \<Rightarrow> Some (d, Ret ())))"

text \<open>\<open>Stop\<close> cancels the context of the program, from which the daemon has made every context of its own.\<close>

definition program_Stop :: "'s Daemon \<Rightarrow> 's Daemon" where
  "program_Stop d = d\<lparr>dm_cancelled := [0..<dm_made d]\<rparr>"

section \<open>The commands\<close>

record Service_Env =
  se_InitLog :: "unit outcome"
  se_New :: "unit outcome"
  se_Run :: "unit outcome"
  se_Start :: "unit outcome"
  se_Stop :: "unit outcome"
  se_Restart :: "unit outcome"
  se_Install :: "string list \<Rightarrow> unit outcome"
  se_Uninstall :: "unit outcome"

definition newSVC :: "Service_Env \<Rightarrow> unit outcome" where
  "newSVC env = (case se_New env of Err e \<Rightarrow> log_Fatal e | other \<Rightarrow> other)"

text \<open>What the four commands share: the migration, the log, the service, and one call of it.\<close>

definition service_command ::
  "(GoError \<Rightarrow> GoError) \<Rightarrow> (Service_Env \<Rightarrow> unit outcome) \<Rightarrow> Service_Env \<Rightarrow> path \<Rightarrow> path \<Rightarrow> OS \<Rightarrow> (OS \<times> unit outcome) option" where
  "service_command log_error action env logFile configPath s =
     (case handleRebrand logFile configPath s of
        Some (s1, Ret u) \<Rightarrow>
          Some (s1, case se_InitLog env of
                      Err e \<Rightarrow> Err (log_error e)
                    | Panic p \<Rightarrow> Panic p
                    | Ret u \<Rightarrow> (case newSVC env of Ret u \<Rightarrow> action env | other \<Rightarrow> other))
      | other \<Rightarrow> other)"

definition failed_log :: "GoError \<Rightarrow> GoError" where
  "failed_log e = PlainError (''failed initializing log '' @ err_string e)"

definition runCmd :: "Service_Env \<Rightarrow> path \<Rightarrow> path \<Rightarrow> OS \<Rightarrow> (OS \<times> unit outcome) option" where
  "runCmd = service_command failed_log se_Run"

definition startCmd :: "Service_Env \<Rightarrow> path \<Rightarrow> path \<Rightarrow> OS \<Rightarrow> (OS \<times> unit outcome) option" where
  "startCmd = service_command (\<lambda>e. e) se_Start"

definition stopCmd :: "Service_Env \<Rightarrow> path \<Rightarrow> path \<Rightarrow> OS \<Rightarrow> (OS \<times> unit outcome) option" where
  "stopCmd = service_command failed_log se_Stop"

definition restartCmd :: "Service_Env \<Rightarrow> path \<Rightarrow> path \<Rightarrow> OS \<Rightarrow> (OS \<times> unit outcome) option" where
  "restartCmd = service_command failed_log se_Restart"

text \<open>The arguments with which the service manager starts the program later.\<close>

definition service_arguments :: "string \<Rightarrow> string \<Rightarrow> string \<Rightarrow> string list" where
  "service_arguments configPath logLevel managementURL =
     [''service'', ''run'', ''--config'', configPath, ''--log-level'', logLevel] @
     (if managementURL \<noteq> [] then [''--management-url'', managementURL] else [])"

definition installCmd :: "Service_Env \<Rightarrow> string list \<Rightarrow> path \<Rightarrow> path \<Rightarrow> OS \<Rightarrow> (OS \<times> unit outcome) option" where
  "installCmd env arguments logFile configPath s =
     (case handleRebrand logFile configPath s of
        Some (s1, Ret u) \<Rightarrow> Some (s1, case newSVC env of Ret u \<Rightarrow> se_Install env arguments | other \<Rightarrow> other)
      | other \<Rightarrow> other)"

definition uninstallCmd :: "Service_Env \<Rightarrow> path \<Rightarrow> path \<Rightarrow> OS \<Rightarrow> (OS \<times> unit outcome) option" where
  "uninstallCmd env logFile configPath s =
     (case handleRebrand logFile configPath s of
        Some (s1, Ret u) \<Rightarrow> Some (s1, case newSVC env of Ret u \<Rightarrow> se_Uninstall env | other \<Rightarrow> other)
      | other \<Rightarrow> other)"

section \<open>Properties\<close>

lemma split_scheme_unix: "split_scheme (''unix://'' @ p) = ''unix'' # split_scheme p"
  by simp

lemma remove_socket_nodes:
  assumes "os_faults s = []"
  shows "node_at (remove_socket p s) q = (if q = p \<and> (\<exists>m bs. node_at s p = Some (File m bs)) then None else node_at s q)"
  using assms by (auto simp: remove_socket_def os_Stat_def os_Remove_def os_call_def split: option.splits node.splits)

text \<open>
  The life of the service. A start on a socket of the file system removes the file that a crash has
  left behind, and only that, and listens at the address, whether or not the path was in use as a
  file; a directory is left alone. Whatever the daemon has done since, after \<open>Stop\<close> none of its clients
  runs on a context that is not cancelled. An address without a protocol makes the start panic.
\<close>

theorem service_life:
  assumes "os_faults s = []" "split_scheme p = [a]" "listen ''unix'' a = Ret ()" "daemon_run d"
  shows "\<exists>s'. program_Start to_path listen (''unix://'' @ p) s = (s', Ret (''unix'', a)) \<and>
      (\<forall>m bs. node_at s' (to_path a) \<noteq> Some (File m bs)) \<and> (\<forall>q. q \<noteq> to_path a \<longrightarrow> node_at s' q = node_at s q) \<and>
    filter (\<lambda>(c, config). c \<notin> set (dm_cancelled (program_Stop d))) (dm_running (program_Stop d)) = [] \<and>
    program_Start to_path listen ''unix'' s = (s, Panic IndexOutOfRange)"
proof -
  have "\<forall>(c, config) \<in> set (dm_running d). c < dm_made d" using daemon_run_ok [OF assms(4)] by (auto simp: daemon_ok_def)
  then have "filter (\<lambda>(c, config). c \<notin> set (dm_cancelled (program_Stop d))) (dm_running (program_Stop d)) = []"
    by (auto simp: program_Stop_def filter_empty_conv)
  moreover have "program_Start to_path listen (''unix://'' @ p) s = (remove_socket (to_path a) s, Ret (''unix'', a))"
    unfolding program_Start_def split_scheme_unix using assms(2,3) by (simp add: Let_def)
  moreover have "program_Start to_path listen ''unix'' s = (s, Panic IndexOutOfRange)" by (simp add: program_Start_def)
  ultimately show ?thesis using remove_socket_nodes [OF assms(1), of "to_path a"] by auto
qed

theorem service_life_witness:
  "\<exists>s'. program_Start (\<lambda>_. [''var'', ''run'', ''netbird.sock'']) (\<lambda>_ _. Ret ()) (''unix://'' @ ''/var/run/netbird.sock'')
      \<lparr>os_nodes = [([''var'', ''run'', ''netbird.sock''], File 438 [])], os_faults = []\<rparr> = (s', Ret (''unix'', ''/var/run/netbird.sock'')) \<and>
    (\<forall>m bs. node_at s' [''var'', ''run'', ''netbird.sock''] \<noteq> Some (File m bs))"
  using service_life [OF _ _ _ ex_daemon_run, of "\<lparr>os_nodes = [([''var'', ''run'', ''netbird.sock''], File 438 [])], os_faults = []\<rparr>"
      "''/var/run/netbird.sock''" "''/var/run/netbird.sock''" "\<lambda>_ _. Ret ()" "\<lambda>_. [''var'', ''run'', ''netbird.sock'']"]
  by fastforce

text \<open>Every command of the service ends, and it calls the service manager only after a successful migration.\<close>

theorem service_commands_end:
  "cmd \<in> {runCmd env, startCmd env, stopCmd env, restartCmd env, installCmd env arguments, uninstallCmd env} \<Longrightarrow>
     \<exists>s' r. cmd logFile configPath s = Some (s', r) \<and>
       (r = Ret () \<longrightarrow> handleRebrand logFile configPath s = Some (s', Ret ()) \<and> se_New env = Ret ())"
  using handleRebrand_returns [of logFile configPath s]
  by (auto simp: runCmd_def startCmd_def stopCmd_def restartCmd_def installCmd_def uninstallCmd_def service_command_def newSVC_def
      log_Fatal_def split: option.splits prod.splits outcome.splits)

end
