(* ===== verification/Jwt_Middleware.thy ===== *)
theory Jwt_Middleware
  imports Http_Api
begin

text \<open>
  The JWT middleware as the library it is, \<open>management/server/http/middleware/jwtmiddleware.go\<close>, with
  all its options, and the fetching of the keys in \<open>handler.go\<close>. The service uses it with one set of
  options; \<open>middleware_instance\<close> shows that this is the check of requests in the theory \<open>Http_Api\<close>.
\<close>

section \<open>Options\<close>

type_synonym TokenExtractor = "Request \<Rightarrow> string outcome"

record Options =
  Opt_ValidationKeyGetter :: "JwtToken \<Rightarrow> string outcome"
  Opt_UserProperty :: string
  Opt_ErrorHandler :: "(string \<Rightarrow> reply) option"
  Opt_CredentialsOptional :: bool
  Opt_Extractor :: "TokenExtractor option"
  Opt_Debug :: bool
  Opt_EnableAuthOnOptions :: bool
  Opt_SigningMethod :: "string option"

text \<open>The zero value; without a key getter \<open>jwt.Parse\<close> finds no key.\<close>

definition no_options :: Options where
  "no_options = \<lparr>Opt_ValidationKeyGetter = (\<lambda>_. Err (PlainError ''no Keyfunc was provided.'')), Opt_UserProperty = [],
     Opt_ErrorHandler = None, Opt_CredentialsOptional = False, Opt_Extractor = None, Opt_Debug = False,
     Opt_EnableAuthOnOptions = False, Opt_SigningMethod = None\<rparr>"

definition header_extractor :: TokenExtractor where
  "header_extractor r = FromAuthHeader (Req_Authorization r)"

definition New :: "Options list \<Rightarrow> Options" where
  "New options =
     (let opts = (case options of [] \<Rightarrow> no_options | o1 # _ \<Rightarrow> o1);
          opts1 = (if Opt_UserProperty opts = [] then opts\<lparr>Opt_UserProperty := ''user''\<rparr> else opts);
          opts2 = (if Opt_ErrorHandler opts1 = None then opts1\<lparr>Opt_ErrorHandler := Some OnError\<rparr> else opts1)
      in if Opt_Extractor opts2 = None then opts2\<lparr>Opt_Extractor := Some header_extractor\<rparr> else opts2)"

section \<open>Extractors\<close>

definition FromParameter :: "(Request \<Rightarrow> string \<Rightarrow> string) \<Rightarrow> string \<Rightarrow> TokenExtractor" where
  "FromParameter query param r = Ret (query r param)"

fun FromFirst :: "TokenExtractor list \<Rightarrow> TokenExtractor" where
  "FromFirst [] r = Ret []"
| "FromFirst (ex # extractors) r =
     (case ex r of
        Err e \<Rightarrow> Err e
      | Panic p \<Rightarrow> Panic p
      | Ret token \<Rightarrow> if token \<noteq> [] then Ret token else FromFirst extractors r)"

section \<open>Checking a request\<close>

definition options_ValidateAndParse :: "JwtLib \<Rightarrow> Options \<Rightarrow> string \<Rightarrow> JwtToken option outcome" where
  "options_ValidateAndParse lib m token =
     (if token = [] then
        if Opt_CredentialsOptional m then Ret None
        else Err (PlainError ''required authorization token not found'')
      else (case jwt_Parse lib token (Opt_ValidationKeyGetter m) of
              Err e \<Rightarrow> Err (PlainError (''Error parsing token: '' @ err_string e))
            | Panic p \<Rightarrow> Panic p
            | Ret parsedToken \<Rightarrow>
                (case Opt_SigningMethod m of
                   Some alg \<Rightarrow>
                     if alg \<noteq> Token_alg parsedToken then
                       Err (PlainError (''error validating token algorithm: Expected '' @ alg @
                              '' signing method but token specified '' @ Token_alg parsedToken))
                     else Ret (Some parsedToken)
                 | None \<Rightarrow> Ret (Some parsedToken))))"

text \<open>
  The property of the context that gets the token; the handlers read the property \<open>user\<close>. A missing
  error handler or extractor would panic, but \<open>New\<close> has set both.
\<close>

definition set_user :: "string \<Rightarrow> JwtToken \<Rightarrow> Request \<Rightarrow> Request" where
  "set_user name token r = (if name = ''user'' then r\<lparr>Req_user := Some token\<rparr> else r)"

definition options_CheckJWT :: "JwtLib \<Rightarrow> Options \<Rightarrow> Request \<Rightarrow> (reply list + Request) outcome" where
  "options_CheckJWT lib m r =
     (if \<not> Opt_EnableAuthOnOptions m \<and> Req_Method r = OPTIONS then Ret (Inr r)
      else (case (Opt_Extractor m, Opt_ErrorHandler m) of
              (Some extractor, Some handler) \<Rightarrow>
                (case extractor r of
                   Err e \<Rightarrow> Ret (Inl [handler (err_string e)])
                 | Panic p \<Rightarrow> Panic p
                 | Ret token \<Rightarrow>
                     (case options_ValidateAndParse lib m token of
                        Err e \<Rightarrow> Ret (Inl [handler ''The token isn't valid''])
                      | Panic p \<Rightarrow> Panic p
                      | Ret None \<Rightarrow> Ret (Inr r)
                      | Ret (Some validatedToken) \<Rightarrow> Ret (Inr (set_user (Opt_UserProperty m) validatedToken r))))
            | _ \<Rightarrow> Panic NilDereference))"

text \<open>\<open>Handler\<close> and \<open>HandlerWithNext\<close>: the next handler sees the request only if the check let it pass.\<close>

definition jwt_Handler :: "JwtLib \<Rightarrow> Options \<Rightarrow> (Request \<Rightarrow> 's \<Rightarrow> 's \<times> reply list outcome) \<Rightarrow> Request \<Rightarrow> 's \<Rightarrow> 's \<times> reply list outcome" where
  "jwt_Handler lib m h r s =
     (case options_CheckJWT lib m r of
        Err e \<Rightarrow> (s, Err e)
      | Panic p \<Rightarrow> (s, Panic p)
      | Ret (Inl ws) \<Rightarrow> (s, Ret ws)
      | Ret (Inr r') \<Rightarrow> h r' s)"

definition HandlerWithNext ::
  "JwtLib \<Rightarrow> Options \<Rightarrow> (Request \<Rightarrow> 's \<Rightarrow> 's \<times> reply list outcome) option \<Rightarrow> Request \<Rightarrow> 's \<Rightarrow> 's \<times> reply list outcome" where
  "HandlerWithNext lib m next r s =
     (case options_CheckJWT lib m r of
        Err e \<Rightarrow> (s, Err e)
      | Panic p \<Rightarrow> (s, Panic p)
      | Ret (Inl ws) \<Rightarrow> (s, Ret ws)
      | Ret (Inr r') \<Rightarrow> (case next of None \<Rightarrow> (s, Ret []) | Some h \<Rightarrow> h r' s))"

section \<open>The middleware of the service\<close>

text \<open>\<open>getPemKeys\<close>: the body of the response is decoded; a failed decoding fails the start.\<close>

definition getPemKeys :: "(string \<Rightarrow> string outcome) \<Rightarrow> (string \<Rightarrow> JSONWebKeys list outcome) \<Rightarrow> string \<Rightarrow> JSONWebKeys list outcome" where
  "getPemKeys http_Get Decode keysLocation =
     (case http_Get keysLocation of
        Err e \<Rightarrow> Err e
      | Panic p \<Rightarrow> Panic p
      | Ret body \<Rightarrow> Decode body)"

definition service_options :: "JwtLib \<Rightarrow> JWTMiddleware \<Rightarrow> Options" where
  "service_options lib m = no_options\<lparr>
     Opt_ValidationKeyGetter := validation_key lib (Jwt_issuer m) (Jwt_audience m) (Jwt_keys m),
     Opt_SigningMethod := Some ''RS256'', Opt_EnableAuthOnOptions := False\<rparr>"

section \<open>Properties\<close>

lemma New_set: "Opt_Extractor (New os) \<noteq> None \<and> Opt_ErrorHandler (New os) \<noteq> None \<and> Opt_UserProperty (New os) \<noteq> []"
  by (auto simp: New_def Let_def)

text \<open>
  The check that the theory \<open>Http_Api\<close> uses is the library with the options of the service: for
  every configuration that \<open>NewJwtMiddleware\<close> builds and every request both give the same.
\<close>

theorem middleware_instance:
  assumes "NewJwtMiddleware issuer audience (getPemKeys http_Get Decode keysLocation) = Ret m"
    and "http_middleware env = m" "http_jwt env = lib"
  shows "options_CheckJWT lib (New [service_options lib m]) r = CheckJWTFromRequest env r"
proof -
  have m: "Jwt_CredentialsOptional m = False" "Jwt_EnableAuthOnOptions m = False"
    using assms(1) by (auto simp: NewJwtMiddleware_def split: outcome.splits)
  have v: "options_ValidateAndParse lib (New [service_options lib m]) token = ValidateAndParse lib m token" for token
    using m by (auto simp: options_ValidateAndParse_def ValidateAndParse_def New_def Let_def service_options_def no_options_def
        split: outcome.splits)
  have n: "Opt_Extractor (New [service_options lib m]) = Some header_extractor"
    "Opt_ErrorHandler (New [service_options lib m]) = Some OnError" "Opt_UserProperty (New [service_options lib m]) = ''user''"
    "Opt_EnableAuthOnOptions (New [service_options lib m]) = False"
    by (simp_all add: New_def Let_def service_options_def no_options_def)
  show ?thesis
    using assms(2,3) m
    by (auto simp: options_CheckJWT_def CheckJWTFromRequest_def n v header_extractor_def set_user_def
        split: outcome.splits option.splits)
qed

text \<open>
  A token of \<open>FromFirst\<close> comes from the first extractor that finds one; the extractors before it found
  nothing and none of them failed.
\<close>

theorem first_extractor_wins:
  assumes "FromFirst extractors r = Ret token" "token \<noteq> []"
  shows "\<exists>before ex after. extractors = before @ ex # after \<and> ex r = Ret token \<and> (\<forall>x \<in> set before. x r = Ret [])"
  using assms
proof (induction extractors)
  case (Cons ex exs)
  show ?case
  proof (cases "ex r = Ret []")
    case True
    with Cons obtain before x after where "exs = before @ x # after" "x r = Ret token" "\<forall>x \<in> set before. x r = Ret []" by auto
    with True have "ex # exs = (ex # before) @ x # after" "\<forall>x \<in> set (ex # before). x r = Ret []" by auto
    with \<open>x r = Ret token\<close> show ?thesis by blast
  next
    case False
    with Cons.prems have "ex r = Ret token" by (auto split: outcome.splits if_splits)
    then show ?thesis by (intro exI [of _ "[]"]) auto
  qed
qed simp

end
