(* ===== verification/Util_Retry.thy ===== *)
theory Util_Retry
  imports Go_Prelude
begin

text \<open>
  Two utilities: \<open>util/retry.go\<close>, which repeats a function with growing pauses, and the JSON form of a
  duration, \<open>util/duration.go\<close>. A duration is a signed number of 64 bits: \<open>wrap64\<close> is its arithmetic.
\<close>

section \<open>Retrying\<close>

definition wrap64 :: "int \<Rightarrow> int" where
  "wrap64 i = (i + 2 ^ 63) mod 2 ^ 64 - 2 ^ 63"

text \<open>What one execution of the function gives; \<open>stop\<close> is the type of errors that end the loop.\<close>

datatype attempt = Succeeds | Stops GoError | Fails GoError

text \<open>
  \<open>results k\<close> is the result of the \<open>k\<close>-th execution, \<open>rnd k n\<close> the \<open>k\<close>-th random number below \<open>n\<close>;
  \<open>rand.Int63n\<close> panics if its argument is not positive. Beside the outcome the model gives the
  number of executions and the pauses.
\<close>

function Retry :: "(nat \<Rightarrow> attempt) \<Rightarrow> (nat \<Rightarrow> int \<Rightarrow> int) \<Rightarrow> nat \<Rightarrow> int \<Rightarrow> int \<Rightarrow> nat \<times> int list \<times> unit outcome" where
  "Retry results rnd k attempts sleep =
     (case results k of
        Succeeds \<Rightarrow> (Suc k, [], Ret ())
      | Stops e \<Rightarrow> (Suc k, [], Err e)
      | Fails e \<Rightarrow>
          if attempts - 1 > 0 then
            if sleep \<le> 0 then (Suc k, [], Panic (ExplicitPanic ''invalid argument to Int63n''))
            else (let jitter = rnd k sleep;
                      sleep' = wrap64 (sleep + jitter div 2)
                  in case Retry results rnd (Suc k) (attempts - 1) (wrap64 (2 * sleep')) of
                       (n, pauses, r) \<Rightarrow> (n, sleep' # pauses, r))
          else (Suc k, [], Err e))"
  by pat_completeness auto
termination by (relation "measure (\<lambda>(_, _, _, attempts, _). nat attempts)") auto

declare Retry.simps [simp del]

lemma wrap64_small: "- (2 ^ 63) \<le> i \<Longrightarrow> i < 2 ^ 63 \<Longrightarrow> wrap64 i = i"
  by (simp add: wrap64_def)

text \<open>The step of the pause: between twice and three times as long.\<close>

lemma next_sleep:
  fixes sleep jitter :: int
  assumes "0 < sleep" "0 \<le> jitter" "jitter < sleep" "3 * sleep < 2 ^ 63"
  defines "s' \<equiv> wrap64 (sleep + jitter div 2)"
  shows "sleep \<le> s'" "2 * s' < 3 * sleep" "wrap64 (2 * s') = 2 * s'"
proof -
  have "s' = sleep + jitter div 2" unfolding s'_def using assms by (intro wrap64_small) linarith+
  then show "sleep \<le> s'" "2 * s' < 3 * sleep" using assms(1-3) by linarith+
  then show "wrap64 (2 * s') = 2 * s'" using assms(1,4) by (intro wrap64_small) linarith+
qed

text \<open>The pauses after the first one stay in the range of a duration.\<close>

lemma pause_room:
  fixes sleep :: int
  assumes "0 < sleep" "sleep * 3 ^ nat attempts < 2 ^ 63" "1 < attempts"
  shows "3 * sleep < 2 ^ 63" and "2 * s < 3 * sleep \<Longrightarrow> 2 * s * 3 ^ nat (attempts - 1) < 2 ^ 63"
proof -
  have "(3 :: int) ^ nat attempts = 3 * 3 ^ nat (attempts - 1)" using assms(3) by (simp flip: power_Suc)
  with assms(2) have small: "3 * sleep * 3 ^ nat (attempts - 1) < 2 ^ 63" by simp
  have "3 * sleep * 1 \<le> 3 * sleep * 3 ^ nat (attempts - 1)" using assms(1) by (intro mult_left_mono) auto
  with small show "3 * sleep < 2 ^ 63" by simp
  assume "2 * s < 3 * sleep"
  then have "2 * s * 3 ^ nat (attempts - 1) \<le> 3 * sleep * 3 ^ nat (attempts - 1)" by (intro mult_right_mono) auto
  with small show "2 * s * 3 ^ nat (attempts - 1) < 2 ^ 63" by linarith
qed

lemma pauses_grow:
  fixes s sleep :: int
  assumes "sleep \<le> s" "2 * s < 3 * sleep" "\<forall>i < length ps. 2 * s * 2 ^ i \<le> ps ! i \<and> 2 * ps ! i < 2 * s * 3 ^ Suc i"
  shows "\<forall>i < length (s # ps). sleep * 2 ^ i \<le> (s # ps) ! i \<and> 2 * (s # ps) ! i < sleep * 3 ^ Suc i"
proof (intro allI impI)
  fix i assume i: "i < length (s # ps)"
  show "sleep * 2 ^ i \<le> (s # ps) ! i \<and> 2 * (s # ps) ! i < sleep * 3 ^ Suc i"
  proof (cases i)
    case (Suc m)
    have a: "sleep * 2 ^ m \<le> s * 2 ^ m" by (rule mult_right_mono [OF assms(1)]) simp
    have b: "2 * s * 3 ^ Suc m \<le> 3 * sleep * 3 ^ Suc m" using assms(2) by (intro mult_right_mono) auto
    have c: "2 * s * 2 ^ m \<le> ps ! m" "2 * ps ! m < 2 * s * 3 ^ Suc m" using assms(3) i Suc by auto
    have "sleep * 2 ^ Suc m = 2 * (sleep * 2 ^ m)" "3 * sleep * 3 ^ Suc m = sleep * 3 ^ Suc (Suc m)" by simp_all
    then have "sleep * 2 ^ Suc m \<le> ps ! m" "2 * ps ! m < sleep * 3 ^ Suc (Suc m)" using a b c by linarith+
    then show ?thesis using Suc by simp
  qed (use assms in simp)
qed

text \<open>
  \<open>Retry\<close> executes the function at least once and at most as often as it is told, stops at the
  first result that is not a failure, and returns it; only the last failure is returned. It does not
  panic as long as the first pause is positive and the pauses cannot exceed the range of a duration;
  the \<open>i\<close>-th pause is at least \<open>2 ^ i\<close> times the first and less than \<open>3 ^ (i + 1) / 2\<close> times.
\<close>

lemma Retry_spec:
  assumes "0 < sleep" "sleep * 3 ^ nat attempts < 2 ^ 63" "\<forall>k n. 0 < n \<longrightarrow> 0 \<le> rnd k n \<and> rnd k n < n"
    and "Retry results rnd k attempts sleep = (n, pauses, r)"
  shows "k < n \<and> n \<le> k + max 1 (nat attempts) \<and> (\<forall>j. k \<le> j \<longrightarrow> Suc j < n \<longrightarrow> (\<exists>e. results j = Fails e)) \<and>
    r = (case results (n - 1) of Succeeds \<Rightarrow> Ret () | Stops e \<Rightarrow> Err e | Fails e \<Rightarrow> Err e) \<and>
    ((\<exists>e. results (n - 1) = Fails e) \<longrightarrow> n = k + max 1 (nat attempts)) \<and>
    length pauses = n - k - 1 \<and>
    (\<forall>i < length pauses. sleep * 2 ^ i \<le> pauses ! i \<and> 2 * pauses ! i < sleep * 3 ^ Suc i)"
  using assms
proof (induction results rnd k attempts sleep arbitrary: n pauses r rule: Retry.induct)
  case (1 results rnd k attempts sleep)
  show ?case
  proof (cases "(\<exists>e. results k = Fails e) \<and> 1 < attempts")
    case False
    then show ?thesis using "1.prems"(1,4)
      by (auto simp: Retry.simps [of results rnd k] split: attempt.splits if_splits)
  next
    case True
    then obtain e where e: "results k = Fails e" and att: "1 < attempts" by blast
    let ?s' = "wrap64 (sleep + rnd k sleep div 2)"
    obtain n' ps r' where rec: "Retry results rnd (Suc k) (attempts - 1) (wrap64 (2 * ?s')) = (n', ps, r')"
      by (metis surj_pair)
    have res: "n = n'" "pauses = ?s' # ps" "r = r'"
      using "1.prems"(1,4) rec e att by (auto simp: Retry.simps [of results rnd k] Let_def)
    note room = pause_room [OF "1.prems"(1,2) att]
    from next_sleep [OF "1.prems"(1) _ _ room(1), of "rnd k sleep"] "1.prems"(1,3)
    have step: "sleep \<le> ?s'" "2 * ?s' < 3 * sleep" "wrap64 (2 * ?s') = 2 * ?s'" by auto
    have pos: "0 < 2 * ?s'" using step(1) "1.prems"(1) by linarith
    have IH: "Suc k < n' \<and> n' \<le> Suc k + max 1 (nat (attempts - 1)) \<and>
        (\<forall>j. Suc k \<le> j \<longrightarrow> Suc j < n' \<longrightarrow> (\<exists>e. results j = Fails e)) \<and>
        r' = (case results (n' - 1) of Succeeds \<Rightarrow> Ret () | Stops e \<Rightarrow> Err e | Fails e \<Rightarrow> Err e) \<and>
        ((\<exists>e. results (n' - 1) = Fails e) \<longrightarrow> n' = Suc k + max 1 (nat (attempts - 1))) \<and> length ps = n' - Suc k - 1 \<and>
        (\<forall>i < length ps. 2 * ?s' * 2 ^ i \<le> ps ! i \<and> 2 * ps ! i < 2 * ?s' * 3 ^ Suc i)"
      using "1.IH" [OF e _ _ refl refl _ _ "1.prems"(3) rec] att "1.prems"(1) pos room(2) [OF step(2)]
      by (simp add: step(3))
    have "\<forall>i < length pauses. sleep * 2 ^ i \<le> pauses ! i \<and> 2 * pauses ! i < sleep * 3 ^ Suc i"
      unfolding res(2) by (rule pauses_grow [OF step(1,2)]) (use IH in blast)
    moreover have "(\<forall>j. k \<le> j \<longrightarrow> Suc j < n \<longrightarrow> (\<exists>e. results j = Fails e))"
      using IH res(1) e by (metis le_neq_implies_less less_eq_Suc_le)
    moreover have "Suc (max 1 (nat (attempts - 1))) = max 1 (nat attempts)" using att by auto
    ultimately show ?thesis using IH res by auto
  qed
qed

theorem retry_bounded:
  assumes "0 < sleep" "sleep * 3 ^ nat attempts < 2 ^ 63" "\<forall>k n. 0 < n \<longrightarrow> 0 \<le> rnd k n \<and> rnd k n < n"
  shows "\<exists>n pauses r. Retry results rnd 0 attempts sleep = (n, pauses, r) \<and> 0 < n \<and> n \<le> max 1 (nat attempts) \<and>
    (\<forall>j. Suc j < n \<longrightarrow> (\<exists>e. results j = Fails e)) \<and>
    r = (case results (n - 1) of Succeeds \<Rightarrow> Ret () | Stops e \<Rightarrow> Err e | Fails e \<Rightarrow> Err e) \<and>
    ((\<exists>e. results (n - 1) = Fails e) \<longrightarrow> n = max 1 (nat attempts)) \<and>
    length pauses = n - 1 \<and>
    (\<forall>i < length pauses. sleep * 2 ^ i \<le> pauses ! i \<and> 2 * pauses ! i < sleep * 3 ^ Suc i)"
proof -
  obtain n pauses r where e: "Retry results rnd 0 attempts sleep = (n, pauses, r)" by (metis surj_pair)
  from Retry_spec [OF assms e] e show ?thesis by simp
qed

theorem retry_bounded_witness:
  "fst (Retry (\<lambda>k. if k < 2 then Fails (PlainError ''down'') else Succeeds) (\<lambda>k n. n - 1) 0 5 1000) \<le> 5"
proof -
  let ?results = "\<lambda>k. if k < 2 then Fails (PlainError ''down'') else Succeeds"
  have "\<exists>n pauses r. Retry ?results (\<lambda>k n. n - 1) 0 5 1000 = (n, pauses, r) \<and> n \<le> max 1 (nat 5)"
    using retry_bounded [of 1000 5 "\<lambda>k n. n - 1" ?results] by auto
  then show ?thesis by auto
qed

text \<open>Without a pause the first failure is a panic, and so is a pause that has grown out of its range.\<close>

theorem retry_without_pause:
  assumes "results 0 = Fails e" "1 < attempts" "sleep \<le> 0"
  shows "Retry results rnd 0 attempts sleep = (1, [], Panic (ExplicitPanic ''invalid argument to Int63n''))"
  using assms by (simp add: Retry.simps [of results rnd 0])

section \<open>Durations in JSON\<close>

text \<open>
  A JSON value as the decoder of \<open>encoding/json\<close> gives it. A number is already converted to the whole
  nanoseconds of \<open>time.Duration(value)\<close>.
\<close>

datatype json_value = JNumber int | JString string | JOther

definition Duration_MarshalJSON :: "(string \<Rightarrow> string outcome) \<Rightarrow> (int \<Rightarrow> string) \<Rightarrow> int \<Rightarrow> string outcome" where
  "Duration_MarshalJSON Marshal Duration_String d = Marshal (Duration_String d)"

definition Duration_UnmarshalJSON ::
  "(string \<Rightarrow> json_value outcome) \<Rightarrow> (string \<Rightarrow> int outcome) \<Rightarrow> string \<Rightarrow> int outcome" where
  "Duration_UnmarshalJSON Unmarshal ParseDuration b =
     (case Unmarshal b of
        Err e \<Rightarrow> Err e
      | Panic p \<Rightarrow> Panic p
      | Ret (JNumber value) \<Rightarrow> Ret value
      | Ret (JString value) \<Rightarrow> ParseDuration value
      | Ret JOther \<Rightarrow> Err (PlainError ''invalid duration''))"

text \<open>
  A duration survives JSON, given that strings do and that the text of a duration is parsed back,
  as the library documents.
\<close>

theorem duration_round_trip:
  assumes "Duration_MarshalJSON Marshal Duration_String d = Ret b" "\<forall>s b. Marshal s = Ret b \<longrightarrow> Unmarshal b = Ret (JString s)"
    and "ParseDuration (Duration_String d) = Ret d"
  shows "Duration_UnmarshalJSON Unmarshal ParseDuration b = Ret d"
  using assms by (simp add: Duration_MarshalJSON_def Duration_UnmarshalJSON_def)

end
