(* ===== verification/Spec2Isabelle.thy ===== *)
theory Spec2Isabelle
  imports System_Example Membership Engine_Streams Platforms Store_Properties Mgmt_Properties Http_Properties Client_Properties Idp_Auth0
    File_Refinement Store_Convert Signal_Main Client_Console Client_Ui Service_Control Jwt_Middleware Util_Retry
begin

text \<open>
  \<^bold>\<open>Wiretrustee in Isabelle/HOL.\<close>

  Wiretrustee connects the machines of an account to a private network over Wireguard. It has
  four programs: the \<^emph>\<open>Management Service\<close> (\<open>management/\<close>), which knows the accounts, their peers and
  rules and tells every peer whom it may reach; the \<^emph>\<open>Signal Exchange\<close> (\<open>signal/\<close>), which forwards
  encrypted messages between peers that want to connect; the \<^emph>\<open>client\<close> (\<open>client/\<close>), whose engine
  keeps one connection per allowed peer; and the \<^emph>\<open>daemon\<close> (\<open>client/server\<close>), which runs the client
  for the command line. This development models their own logic and proves what makes it correct.

  \<^bold>\<open>How the code is modelled.\<close> A struct is a record with the fields of the source, prefixed where
  names clash; an enumeration is a datatype. A function that may fail returns an \<open>outcome\<close>: a
  value, an error, or a panic. A function with effects takes the state and returns it beside the
  outcome, also when it fails, so that what an error path leaves behind is visible. A goroutine or
  handler that blocks is cut at the points where it blocks: one definition per piece. A call that
  may block for good is an \<open>option\<close>, \<open>None\<close> being the call that does not return. What is not in the
  repository (gRPC, protobuf, NaCl boxes, JWT, HTTP, ICE, the Wireguard device, the file system, the
  clock, random numbers) is an argument or a field of an environment record, and the properties
  that need more of it than its type name what they need: \<open>box_correct\<close>, \<open>codec_ok\<close>,
  \<open>sides_agree\<close>, \<open>wgctrl_ok\<close>, \<open>urls_parse\<close>, \<open>netlink_ok\<close>, \<open>encoded_back\<close>, \<open>honest_faults\<close>.

  \<^bold>\<open>The Management Service.\<close>
  \<^item> \<open>Go_Prelude\<close>: errors and panics, maps with nil, loops, strings; the locale \<open>key_value\<close> of maps.
  \<^item> \<open>Net_IP\<close> (\<open>network.go\<close>), \<open>Setup_Key\<close> (\<open>setupkey.go\<close>), \<open>Mgmt_Types\<close> (the types of \<open>account.go\<close>,
    \<open>user.go\<close>, \<open>peer.go\<close>, \<open>group.go\<close>, \<open>rule.go\<close>), \<open>File_Store\<close> (\<open>file_store.go\<close>), \<open>Mgmt_Proto\<close>
    (\<open>management.proto\<close>, \<open>config.go\<close>, the conversions of \<open>grpcserver.go\<close>), \<open>Update_Channel\<close>
    (\<open>updatechannel.go\<close>), \<open>Account_Manager\<close> (\<open>account.go\<close>, \<open>user.go\<close>), \<open>Group_Rule_Manager\<close>
    (\<open>group.go\<close>, \<open>rule.go\<close>), \<open>Peer_Manager\<close> (\<open>peer.go\<close>), \<open>Turn_Credentials\<close>
    (\<open>turncredentials.go\<close>), \<open>Jwt\<close> (\<open>jwtclaims\<close>, \<open>http/middleware\<close>), \<open>Mgmt_Grpc\<close> (\<open>grpcserver.go\<close>),
    \<open>Http_Api\<close> (\<open>http/handler\<close>, \<open>http/server.go\<close>), \<open>Idp_Auth0\<close> (\<open>idp\<close>).
  \<^item> \<open>Mgmt_Invariant\<close>: the invariant of accounts, kept by every operation, and the runs of the manager
    as a step relation. \<open>Mgmt_Properties\<close>: registration, one-off keys, the network map as the rules
    demand it, deletion. \<open>Store_Properties\<close>: saving and looking up, restarting, panics of saving.
    \<open>Grpc_Properties\<close>: who may log in, streams. \<open>Http_Properties\<close>: which account a request may touch,
    with the locale \<open>account_operation\<close> interpreted on the nine operations of the API.

  \<^item> \<open>Mgmt_Main\<close> (\<open>management/cmd\<close>, the life of the HTTP server): the start of the service from its flags
    and its file, and that the invariants hold across restarts. \<open>Jwt_Middleware\<close>: the middleware with all
    its options, of which the one of \<open>Jwt\<close> is an instance. \<open>Store_Convert\<close>: the conversion of old stores.

  \<^bold>\<open>The Signal Exchange.\<close> \<open>Encryption\<close> (\<open>encryption/\<close>), \<open>Signal_Server\<close> (\<open>signal/peer\<close>,
  \<open>signal/server\<close>) with its contract as an abstract post office and the refinement, \<open>Signal_Client\<close>
  (\<open>signal/client\<close>). \<open>Retry\<close> is the contract of the loops that repeat an operation until it asks for
  no other attempt, the locale \<open>retry_loop\<close>, interpreted on \<open>Receive\<close> of the Signal client, \<open>Sync\<close> of
  the Management client, \<open>RunClient\<close> and \<open>WithBackOff\<close> of the command line. \<open>Signal_Main\<close> is its start.

  \<^bold>\<open>The client.\<close> \<open>Wg_Iface\<close> (\<open>iface/\<close>, \<open>client/internal/proxy\<close>), \<open>Peer_Conn\<close>
  (\<open>client/internal/peer\<close>), \<open>Engine\<close> and \<open>Engine_Properties\<close> (\<open>client/internal/engine.go\<close>,
  \<open>util/common.go\<close>), \<open>Mgmt_Client\<close> (\<open>management/client\<close>, \<open>client/internal/login.go\<close>),
  \<open>Client_Config\<close> (\<open>config.go\<close>, \<open>state.go\<close>), \<open>Oauth\<close> (\<open>oauth.go\<close>), \<open>Client_Run\<close> (\<open>connect.go\<close>),
  \<open>Daemon\<close> (\<open>client/server/server.go\<close>), \<open>Client_Properties\<close>. \<open>Wg_Link\<close> creates the interface on Linux,
  \<open>Proxy_Loops\<close> copies packets between Wireguard and a peer. \<open>Client_Cmd\<close> is the command line with the
  daemon, \<open>Client_Console\<close> without it, \<open>Service_Control\<close> the service of the operating system,
  \<open>Client_Ui\<close> the desktop application, \<open>System_Info\<close> the description of the machine. \<open>Platforms\<close> has what
  is special to macOS, FreeBSD and Windows, the log, the default paths and the dummy proxy.
  \<open>Engine_Streams\<close> joins the engine with its two clients and with the main loop: in every interleaving of
  the streams the engine is consistent, and the loss of a stream ends the engine and makes the main loop
  start another.

  \<^bold>\<open>Files.\<close> \<open>Util_File\<close> (\<open>util/file.go\<close>) has the calls of the file system, each of which may fail
  and may have done a part of its work, by a schedule of failures in the state; \<open>Migration\<close> copies the
  files of Wiretrustee (\<open>client/cmd/root.go\<close>); \<open>Lets_Encrypt\<close> has the directory of certificates.
  \<open>File_Refinement\<close> states the contract of a file that is written as a whole, the locale \<open>atomic_store\<close>,
  interprets it on \<open>WriteJson\<close>, on the file of the store and on that of the configuration, and shows
  that the latter two are what \<open>WriteJson\<close> implements. \<open>Util_Retry\<close>: retrying and durations.

  \<^bold>\<open>Across components.\<close> \<open>System_Properties\<close>: the rules of an account, as saved in the store, are what
  the engine of a peer connects to after the encrypted stream; the deletion of a peer reaches the
  engines of the others; an unknown client registers itself. \<open>Client_Console\<close>: an upgraded client keeps
  its identity through the migration of its files.

  \<open>System_Run\<close> puts the Management Service and any number of clients into one step relation: the calls
  of the administrators, registrations, the goroutines of the streams, the network and the engines
  interleave. A registration saves the account in one step, reads the map in a second and tells every
  other peer in a step of its own; a stream greets its peer in one step and enters the table of channels in
  another; an update is encrypted and sent in one step and delivered in another. What a stream reads at its
  beginning and the three calls that enter it count as one step each. In every run an engine is connected
  only to peers that belonged to the account of its peer (isolation). \<open>Membership\<close> follows which peers an
  account has. \<open>System_Convergence\<close> is about calm runs: the file can be written, the rules let all peers of
  an account reach each other, a peer has one account for good and the serials do not wrap around. In them
  an engine all of whose messages are delivered is connected to exactly the other peers of its account, and
  the steps of the stream and of the client alone lead there from every state without a registration under
  way. Other runs need not converge, because the code notifies nobody of a changed group or rule,
  and a stream misses what happens between its greeting and its entry (\<open>update_before_channel_lost\<close>; the
  streams to which this happened are \<open>sys_missed\<close>). \<open>System_Example\<close> has a run of two peers.

  \<^bold>\<open>Loops, fuel and bounds.\<close> The search for a free address is a \<open>partial_function\<close> into \<open>option\<close>, and it
  is proved to return for every /16 network, the only ones the manager creates. \<open>cpDir\<close> recurs with
  the fuel \<open>os_depth\<close>, which exceeds the depth of every path and is proved to be enough. Loops that wait for
  the outside (\<open>Receive\<close>, \<open>Sync\<close>, \<open>WaitToken\<close>, \<open>RunClient\<close>) run on the list of what happens and
  return \<open>None\<close> at its end. The serial of a network is a word of 64 bits, bytes are words of 8 bits;
  durations and times are integers in nanoseconds. Sending to a full channel blocks: \<open>None\<close>.

  \<^bold>\<open>Simplifications.\<close> Accounts, groups and peers are values: a write through a pointer that the store
  shares is written out where the source relies on it. A map is visited in the order of its list of
  entries, and the properties hold for every list. A handler runs as a whole unless it is cut as
  described above.

  \<^bold>\<open>Not modelled.\<close> Drawing and the event loop of the desktop application, the mocks and helpers of
  the tests, the flags as \<open>cobra\<close> parses them, keep-alive settings, sockets, TLS and \<open>autocert\<close>: they call
  the operating system or a library and decide nothing, or nothing but a test uses them. The two
  services have their own copies of \<open>cpFile\<close>, \<open>cpDir\<close> and \<open>migrateToNetbird\<close>, which differ
  from those of the client only in that an error of an entry ends the process; \<open>Migration\<close> models the code
  once for all three programs, with what happens at such an error as a parameter.
\<close>

end
